(* ===== verification/Prelude.thy ===== *)
theory Prelude
  imports Main "HOL-Library.Word" "HOL-Library.Char_ord" "HOL-Library.List_Lexorder"
begin

text \<open>
  Shared vocabulary of the development: the machine integers of the Rust sources and the part of
  the Rust standard library that the modelled code calls (saturating arithmetic, the
  \<open>Option\<close> combinators, decimal printing, byte strings), names for the kinds of string that occur in
  signatures, and the lemma collections that the component theories use.

  Strings are \<open>string\<close>, that is lists of bytes: a Rust \<open>String\<close> is its UTF-8 encoding.
\<close>

named_theorems sat_simps \<open>values of the saturating operations\<close>
named_theorems opt_simps \<open>definitions of the Option combinators\<close>
named_theorems table_simps \<open>rewrite rules for keyed tables\<close>

subsection \<open>Machine integers\<close>

type_synonym u16 = "16 word"
type_synonym u32 = "32 word"
type_synonym u64 = "64 word"
type_synonym usize = "64 word"

text \<open>Identifiers and formatted times are strings in the source.\<close>

type_synonym timestamp = string
type_synonym run_ident = string

text \<open>
  Plain \<open>+\<close> and \<open>-\<close> on words wrap around, as Rust's do in a release build (the workspace sets no
  \<open>overflow-checks\<close>).
\<close>

definition saturating_add :: "'a::len word \<Rightarrow> 'a word \<Rightarrow> 'a word" where
  "saturating_add x y = (if x + y < x then - 1 else x + y)"

definition saturating_sub :: "'a::len word \<Rightarrow> 'a word \<Rightarrow> 'a word" where
  "saturating_sub x y = (if x < y then 0 else x - y)"

definition saturating_mul :: "'a::len word \<Rightarrow> 'a word \<Rightarrow> 'a word" where
  "saturating_mul x y = (if unat x * unat y < 2 ^ LENGTH('a) then x * y else - 1)"

text \<open>\<open>Ord::clamp\<close>: Rust panics when \<open>lo > hi\<close>, which is the value \<open>None\<close>.\<close>

definition checked_clamp :: "'a::linorder \<Rightarrow> 'a \<Rightarrow> 'a \<Rightarrow> 'a option" where
  "checked_clamp x lo hi =
     (if lo \<le> hi then Some (if x < lo then lo else if hi < x then hi else x) else None)"

lemma unat_saturating_add [sat_simps]:
  fixes x y :: "'a::len word"
  shows "unat (saturating_add x y) = min (2 ^ LENGTH('a) - 1) (unat x + unat y)"
proof (cases "unat x + unat y < 2 ^ LENGTH('a)")
  case True
  then have s: "unat (x + y) = unat x + unat y"
    by (simp add: unat_word_ariths)
  then have "\<not> x + y < x"
    by (simp add: word_less_nat_alt)
  with s True show ?thesis
    by (simp add: saturating_add_def)
next
  case False
  have b: "unat x < 2 ^ LENGTH('a)" "unat y < 2 ^ LENGTH('a)"
    by simp_all
  from False have ge: "2 ^ LENGTH('a) \<le> unat x + unat y"
    by simp
  have "unat (x + y) = (unat x + unat y) mod 2 ^ LENGTH('a)"
    by (rule unat_word_ariths(1))
  also have "\<dots> = unat x + unat y - 2 ^ LENGTH('a)"
  proof -
    have "unat x + unat y - 2 ^ LENGTH('a) < 2 ^ LENGTH('a)"
      using b by linarith
    then show ?thesis
      using ge by (simp add: le_mod_geq)
  qed
  finally have "unat (x + y) < unat x"
    using ge b by linarith
  then have "x + y < x"
    by (simp add: word_less_nat_alt)
  moreover have "unat (- 1 :: 'a word) = 2 ^ LENGTH('a) - 1"
    by (simp add: unsigned_minus_1_eq_mask mask_eq_exp_minus_1)
  ultimately show ?thesis
    using False by (simp add: saturating_add_def)
qed

lemma unat_saturating_sub [sat_simps]: "unat (saturating_sub x y) = unat x - unat y"
proof (cases "x < y")
  case True
  then have "unat x \<le> unat y"
    by (simp add: word_less_nat_alt)
  with True show ?thesis
    by (simp add: saturating_sub_def)
next
  case False
  then have "y \<le> x"
    by simp
  with False show ?thesis
    by (simp add: saturating_sub_def unat_sub)
qed

lemma saturating_mul_exact:
  fixes x y :: "'a::len word"
  assumes "unat x * unat y < 2 ^ LENGTH('a)"
  shows "unat (saturating_mul x y) = unat x * unat y"
  using assms by (simp add: saturating_mul_def unat_word_ariths)

lemma unat_add_no_overflow:
  fixes x y :: "'a::len word"
  assumes "unat x + unat y < 2 ^ LENGTH('a)"
  shows "unat (x + y) = unat x + unat y"
  using assms by (simp add: unat_word_ariths)

lemma checked_clamp_bounds:
  "checked_clamp x lo hi = Some y \<Longrightarrow> lo \<le> y \<and> y \<le> hi"
  by (auto simp: checked_clamp_def split: if_splits)

lemma checked_clamp_id: "lo \<le> x \<Longrightarrow> x \<le> hi \<Longrightarrow> checked_clamp x lo hi = Some x"
  by (auto simp: checked_clamp_def)

lemma checked_clamp_total: "lo \<le> hi \<Longrightarrow> \<exists>y. checked_clamp x lo hi = Some y"
  by (simp add: checked_clamp_def)

subsection \<open>Option combinators\<close>

definition unwrap_or :: "'a \<Rightarrow> 'a option \<Rightarrow> 'a" where
  [opt_simps]: "unwrap_or d x = (case x of None \<Rightarrow> d | Some v \<Rightarrow> v)"

definition or_else :: "'a option \<Rightarrow> 'a option \<Rightarrow> 'a option" where
  [opt_simps]: "or_else x y = (case x of None \<Rightarrow> y | Some v \<Rightarrow> Some v)"

definition opt_filter :: "('a \<Rightarrow> bool) \<Rightarrow> 'a option \<Rightarrow> 'a option" where
  [opt_simps]: "opt_filter p x = (case x of None \<Rightarrow> None | Some v \<Rightarrow> if p v then Some v else None)"

definition opt_zip :: "'a option \<Rightarrow> 'b option \<Rightarrow> ('a \<times> 'b) option" where
  [opt_simps]: "opt_zip x y = (case (x, y) of (Some a, Some b) \<Rightarrow> Some (a, b) | _ \<Rightarrow> None)"

lemma unwrap_or_simps [simp]:
  "unwrap_or d None = d" "unwrap_or d (Some v) = v"
  by (simp_all add: unwrap_or_def)

lemma or_else_simps [simp]:
  "or_else None y = y" "or_else (Some v) y = Some v" "or_else x None = x"
  by (simp_all add: or_else_def split: option.split)

lemma or_else_None_iff [simp]: "or_else x y = None \<longleftrightarrow> x = None \<and> y = None"
  by (simp add: or_else_def split: option.split)

lemma or_else_Some_iff: "or_else x y = Some v \<longleftrightarrow> x = Some v \<or> x = None \<and> y = Some v"
  by (simp add: or_else_def split: option.split)

lemma opt_filter_Some_iff [simp]: "opt_filter p x = Some v \<longleftrightarrow> x = Some v \<and> p v"
  by (auto simp: opt_filter_def split: option.split)

lemma opt_filter_None [simp]: "opt_filter p None = None"
  by (simp add: opt_filter_def)

lemma opt_zip_Some_iff [simp]: "opt_zip x y = Some p \<longleftrightarrow> x = Some (fst p) \<and> y = Some (snd p)"
  by (cases p) (auto simp: opt_zip_def split: option.split)

text \<open>\<open>Iterator::find_map\<close>.\<close>

fun first_some :: "('a \<Rightarrow> 'b option) \<Rightarrow> 'a list \<Rightarrow> 'b option" where
  "first_some f [] = None"
| "first_some f (x # xs) = (case f x of Some y \<Rightarrow> Some y | None \<Rightarrow> first_some f xs)"

lemma first_some_SomeD: "first_some f xs = Some y \<Longrightarrow> \<exists>x \<in> set xs. f x = Some y"
  by (induction xs) (auto split: option.splits)

lemma first_some_None_iff [simp]: "first_some f xs = None \<longleftrightarrow> (\<forall>x \<in> set xs. f x = None)"
  by (induction xs) (auto split: option.splits)

lemma opt_zip_simps [simp]:
  "opt_zip None y = None" "opt_zip x None = None" "opt_zip (Some a) (Some b) = Some (a, b)"
  by (simp_all add: opt_zip_def split: option.split)

subsection \<open>Decimal printing\<close>

definition digit_char :: "int \<Rightarrow> char" where
  "digit_char d = char_of (48 + d)"

fun show_dec :: "int \<Rightarrow> string" where
  "show_dec n = (if n < 10 then [digit_char n] else show_dec (n div 10) @ [digit_char (n mod 10)])"

declare show_dec.simps [simp del]

definition show_word :: "'a::len word \<Rightarrow> string" where
  "show_word w = show_dec (uint w)"

lemma digit_char_inj:
  assumes "0 \<le> a" "a < 10" "0 \<le> b" "b < 10" "digit_char a = digit_char b"
  shows "a = b"
proof -
  have "of_char (digit_char a) = (of_char (digit_char b) :: int)"
    using assms by simp
  with assms show ?thesis
    by (simp add: digit_char_def)
qed

lemma show_dec_nonempty [simp]: "show_dec n \<noteq> []" "[] \<noteq> show_dec n"
  by (subst show_dec.simps, simp)+

lemma show_dec_small: "n < 10 \<Longrightarrow> show_dec n = [digit_char n]"
  by (simp add: show_dec.simps)

lemma show_dec_big: "\<not> n < 10 \<Longrightarrow> show_dec n = show_dec (n div 10) @ [digit_char (n mod 10)]"
  by (subst show_dec.simps) simp

lemma show_dec_inj: "0 \<le> m \<Longrightarrow> 0 \<le> n \<Longrightarrow> show_dec m = show_dec n \<Longrightarrow> m = n"
proof (induction m arbitrary: n rule: show_dec.induct)
  case (1 m)
  consider "m < 10" "n < 10" | "m < 10" "\<not> n < 10" | "\<not> m < 10" "n < 10" | "\<not> m < 10" "\<not> n < 10"
    by blast
  then show ?case
  proof cases
    case 1
    then show ?thesis
      using "1.prems" digit_char_inj by (simp add: show_dec_small)
  next
    case 4
    with "1.prems" have "show_dec (m div 10) = show_dec (n div 10)"
      and d: "digit_char (m mod 10) = digit_char (n mod 10)"
      by (simp_all add: show_dec_big)
    with "1.IH" "1.prems" 4 have "m div 10 = n div 10"
      by (simp add: pos_imp_zdiv_nonneg_iff)
    moreover have "m mod 10 = n mod 10"
      using d by (intro digit_char_inj) auto
    ultimately show ?thesis
      by (metis div_mult_mod_eq)
  qed (use "1.prems" in \<open>simp_all add: show_dec_small show_dec_big\<close>)
qed

lemma show_word_inj: "show_word v = show_word w \<Longrightarrow> v = w"
  unfolding show_word_def by (metis show_dec_inj unsigned_greater_eq word_uint_eq_iff)

lemma sint_small:
  assumes "unat (x :: u64) < 2 ^ 63"
  shows "sint x = int (unat x)"
proof -
  have "int (unat x) < 2 ^ 63"
    using assms by (metis of_nat_less_iff of_nat_numeral of_nat_power)
  then have "signed_take_bit 63 (int (unat x)) = int (unat x)"
    unfolding signed_take_bit_int_eq_self_iff by linarith
  moreover have "sint x = signed_take_bit 63 (int (unat x))"
    by (simp add: sint_uint)
  ultimately show ?thesis
    by simp
qed

subsection \<open>Sorted lists\<close>

lemma sorted_last_le: "sorted xs \<Longrightarrow> x \<in> set xs \<Longrightarrow> x \<le> last xs"
  by (induction xs) (auto split: if_splits dest: last_in_set)

end
