(* ===== verification/Rust_Strings.thy ===== *)
theory Rust_Strings
  imports Prelude
begin

text \<open>
  The methods of \<open>str\<close> that the modelled code calls, on UTF-8 byte strings: ASCII case folding,
  substring, prefix and suffix tests (which on valid UTF-8 are byte tests), \<open>trim\<close> with the
  Unicode \<open>White_Space\<close> set, and the number of characters as opposed to bytes.
\<close>

definition ascii_lower :: "char \<Rightarrow> char" where
  "ascii_lower c = (let n = (of_char c :: int) in if 65 \<le> n \<and> n \<le> 90 then char_of (n + 32) else c)"

definition to_ascii_lowercase :: "string \<Rightarrow> string" where
  "to_ascii_lowercase s = map ascii_lower s"

definition starts_with :: "string \<Rightarrow> string \<Rightarrow> bool" where
  "starts_with s p \<longleftrightarrow> take (length p) s = p"

definition ends_with :: "string \<Rightarrow> string \<Rightarrow> bool" where
  "ends_with s p \<longleftrightarrow> length p \<le> length s \<and> drop (length s - length p) s = p"

fun str_contains :: "string \<Rightarrow> string \<Rightarrow> bool" where
  "str_contains [] needle \<longleftrightarrow> needle = []"
| "str_contains (c # s) needle \<longleftrightarrow> starts_with (c # s) needle \<or> str_contains s needle"

text \<open>The UTF-8 encodings of the characters with the \<open>White_Space\<close> property.\<close>

definition whitespace_encodings :: "string list" where
  "whitespace_encodings =
     map (map (char_of :: int \<Rightarrow> char))
       ([[9], [10], [11], [12], [13], [32], [0xC2, 0x85], [0xC2, 0xA0], [0xE1, 0x9A, 0x80]]
        @ map (\<lambda>b. [0xE2, 0x80, b]) [0x80, 0x81, 0x82, 0x83, 0x84, 0x85, 0x86, 0x87, 0x88, 0x89, 0x8A, 0xA8, 0xA9, 0xAF]
        @ [[0xE2, 0x81, 0x9F], [0xE3, 0x80, 0x80]])"

definition strip_leading :: "string list \<Rightarrow> string \<Rightarrow> string option" where
  "strip_leading ws s = map_option (\<lambda>w. drop (length w) s) (find (\<lambda>w. w \<noteq> [] \<and> starts_with s w) ws)"

lemma strip_leading_shorter: "strip_leading ws s = Some t \<Longrightarrow> length t < length s"
  by (cases s) (auto simp: strip_leading_def starts_with_def find_Some_iff)

function trim_with :: "string list \<Rightarrow> string \<Rightarrow> string" where
  "trim_with ws s = (case strip_leading ws s of None \<Rightarrow> s | Some t \<Rightarrow> trim_with ws t)"
  by pat_completeness auto
termination
  by (relation "measure (\<lambda>(ws, s). length s)") (auto dest: strip_leading_shorter)

declare trim_with.simps [simp del]

definition trim_start :: "string \<Rightarrow> string" where
  "trim_start s = trim_with whitespace_encodings s"

definition trim_end :: "string \<Rightarrow> string" where
  "trim_end s = rev (trim_with (map rev whitespace_encodings) (rev s))"

definition trim :: "string \<Rightarrow> string" where
  "trim s = trim_end (trim_start s)"

text \<open>\<open>s.chars().count()\<close>: the bytes that are not UTF-8 continuation bytes.\<close>

definition chars_count :: "string \<Rightarrow> nat" where
  "chars_count s = length (filter (\<lambda>c. (of_char c :: int) < 128 \<or> 192 \<le> (of_char c :: int)) s)"

subsection \<open>Properties\<close>

lemma starts_with_iff: "starts_with s p \<longleftrightarrow> (\<exists>t. s = p @ t)"
  unfolding starts_with_def by (metis append_eq_conv_conj append_take_drop_id)

lemma ends_with_iff: "ends_with s p \<longleftrightarrow> (\<exists>t. s = t @ p)"
  unfolding ends_with_def
  by (auto intro: exI [of _ "take (length s - length p) s"] simp: append_take_drop_id)
     (metis append_take_drop_id)

lemma str_contains_iff: "str_contains s needle \<longleftrightarrow> (\<exists>a b. s = a @ needle @ b)"
proof (induction s)
  case Nil
  then show ?case by auto
next
  case (Cons c s)
  have "(\<exists>a b. c # s = a @ needle @ b) \<longleftrightarrow>
      (\<exists>b. c # s = needle @ b) \<or> (\<exists>a b. s = a @ needle @ b)"
    by (metis append_Cons append_Nil list.inject neq_Nil_conv)
  with Cons.IH show ?case
    by (simp add: starts_with_iff)
qed

lemma str_contains_empty [simp]: "str_contains s []"
  by (induction s) (simp_all add: starts_with_def)

lemma ascii_lower_idem [simp]: "ascii_lower (ascii_lower c) = ascii_lower c"
  by (simp add: ascii_lower_def Let_def)

lemma to_ascii_lowercase_idem [simp]:
  "to_ascii_lowercase (to_ascii_lowercase s) = to_ascii_lowercase s"
  by (simp add: to_ascii_lowercase_def)

lemma length_to_ascii_lowercase [simp]: "length (to_ascii_lowercase s) = length s"
  by (simp add: to_ascii_lowercase_def)

lemma str_contains_trans:
  "str_contains s t \<Longrightarrow> str_contains t u \<Longrightarrow> str_contains s u"
  unfolding str_contains_iff by (metis append_assoc)

lemma str_contains_append: "str_contains s u \<Longrightarrow> str_contains (a @ s @ b) u"
  unfolding str_contains_iff by (metis append_assoc)

lemma str_contains_lowercase:
  "str_contains s t \<Longrightarrow> str_contains (to_ascii_lowercase s) (to_ascii_lowercase t)"
  unfolding str_contains_iff to_ascii_lowercase_def by (metis map_append)

lemma strip_leading_split: "strip_leading ws s = Some t \<Longrightarrow> \<exists>w. s = w @ t"
  by (auto simp: strip_leading_def starts_with_def find_Some_iff)
     (metis append_take_drop_id)

lemma trim_with_split: "\<exists>w. s = w @ trim_with ws s"
proof (induction ws s rule: trim_with.induct)
  case (1 ws s)
  show ?case
  proof (cases "strip_leading ws s")
    case None
    then show ?thesis by (simp add: trim_with.simps [of ws s])
  next
    case (Some t)
    then obtain w where "s = w @ t"
      using strip_leading_split by blast
    moreover obtain v where "t = v @ trim_with ws t"
      using "1.IH" [OF Some] by blast
    ultimately have "s = (w @ v) @ trim_with ws t"
      by simp
    with Some show ?thesis
      by (subst trim_with.simps) auto
  qed
qed

lemma trim_with_stop: "strip_leading ws (trim_with ws s) = None"
proof (induction ws s rule: trim_with.induct)
  case (1 ws s)
  then show ?case
    by (subst trim_with.simps) (simp split: option.split)
qed

lemma trim_with_fix: "strip_leading ws s = None \<Longrightarrow> trim_with ws s = s"
  by (subst trim_with.simps) simp

lemma trim_with_idem [simp]: "trim_with ws (trim_with ws s) = trim_with ws s"
  by (rule trim_with_fix) (rule trim_with_stop)

text \<open>Trimming keeps a contiguous part of the string, and a second trim changes nothing.\<close>

lemma trim_infix: "\<exists>a b. s = a @ trim s @ b"
proof -
  obtain a where a: "s = a @ trim_start s"
    using trim_with_split unfolding trim_start_def by blast
  obtain b where "rev (trim_start s) = b @ trim_with (map rev whitespace_encodings) (rev (trim_start s))"
    using trim_with_split by blast
  then have "trim_start s = trim s @ rev b"
    unfolding trim_def trim_end_def by (metis rev_append rev_rev_ident)
  with a show ?thesis by metis
qed

lemma strip_leading_None_append: "strip_leading ws (t @ b) = None \<Longrightarrow> strip_leading ws t = None"
  by (auto simp: strip_leading_def starts_with_iff find_None_iff)

lemma trim_idem [simp]: "trim (trim s) = trim s"
proof -
  obtain b where b: "trim_start s = trim s @ b"
    using trim_with_split [of "rev (trim_start s)" "map rev whitespace_encodings"]
    by (metis rev_append rev_rev_ident trim_def trim_end_def)
  have "strip_leading whitespace_encodings (trim_start s) = None"
    unfolding trim_start_def by (rule trim_with_stop)
  then have "trim_start (trim s) = trim s"
    unfolding trim_start_def b [unfolded trim_start_def] by (intro trim_with_fix) (rule strip_leading_None_append)
  then show ?thesis
    by (simp add: trim_def trim_end_def)
qed

lemma str_contains_trim: "str_contains s (trim s)"
  using trim_infix by (simp add: str_contains_iff)

lemma length_trim_le: "length (trim s) \<le> length s"
  by (metis trim_infix le_add1 le_add2 length_append order_trans)

lemma chars_count_le: "chars_count s \<le> length s"
  by (simp add: chars_count_def)

subsection \<open>Joining\<close>

fun join_with :: "string \<Rightarrow> string list \<Rightarrow> string" where
  "join_with sep [] = []"
| "join_with sep [s] = s"
| "join_with sep (s # ss) = s @ sep @ join_with sep ss"

subsection \<open>Debug form\<close>

text \<open>
  \<open>{:?}\<close> of a string: quoted, with the escapes of \<open>char::escape_debug\<close> for ASCII. Bytes of
  multi-byte characters are copied (Rust escapes those that are not printable).
\<close>

definition hex_digit :: "int \<Rightarrow> char" where
  "hex_digit d = (if d < 10 then digit_char d else char_of (87 + d))"

definition debug_char :: "char \<Rightarrow> string" where
  "debug_char c =
     (let n = of_char c :: int in
      if n = 34 \<or> n = 92 then [CHR 0x5C, c]
      else if n = 9 then [CHR 0x5C, CHR ''t'']
      else if n = 10 then [CHR 0x5C, CHR ''n'']
      else if n = 13 then [CHR 0x5C, CHR ''r'']
      else if n = 0 then [CHR 0x5C, CHR ''0'']
      else if n < 32 \<or> n = 127
      then [CHR 0x5C, CHR ''u'', CHR 0x7B] @ (if n < 16 then [] else [hex_digit (n div 16)]) @
           [hex_digit (n mod 16), CHR 0x7D]
      else [c])"

definition str_debug :: "string \<Rightarrow> string" where
  "str_debug s = [CHR 0x22] @ concat (map debug_char s) @ [CHR 0x22]"

end
