(* ===== verification/F64.thy ===== *)
theory F64
  imports Complex_Main Rust_Strings
begin

text \<open>
  IEEE 754 binary64, Rust's \<open>f64\<close>, as the modelled code uses it: sign and exact magnitude for
  finite values, infinities and one NaN, with every arithmetic result rounded to nearest, ties to
  even. All operations compute. Payloads of NaNs are not represented (no modelled code inspects
  them), and \<open>f64_max\<close> of two zeros of different sign returns its first argument (Rust leaves the
  choice open).
\<close>

named_theorems f64_simps \<open>definitions of the binary64 operations\<close>

datatype f64 = F64_NaN | F64_Inf bool | F64_Fin bool rat

subsection \<open>Rounding\<close>

function ipow2 :: "int \<Rightarrow> int" where
  "ipow2 e = (if e \<le> 0 then 1
              else let h = ipow2 (e div 2) in if even e then h * h else 2 * (h * h))"
  by pat_completeness auto
termination
  by (relation "measure nat") auto

declare ipow2.simps [simp del]

function bit_length :: "int \<Rightarrow> int" where
  "bit_length n = (if n \<le> 0 then 0 else 1 + bit_length (n div 2))"
  by pat_completeness auto
termination
  by (relation "measure nat") auto

declare bit_length.simps [simp del]

definition pow2 :: "int \<Rightarrow> rat" where
  "pow2 e = (if 0 \<le> e then of_int (ipow2 e) else 1 / of_int (ipow2 (- e)))"

text \<open>The exponent \<open>e\<close> with \<open>2\<^sup>e \<le> r < 2\<^sup>e\<^sup>+\<^sup>1\<close>, for \<open>r > 0\<close>.\<close>

definition ilog2 :: "rat \<Rightarrow> int" where
  "ilog2 r = (let (a, b) = quotient_of r; k = bit_length a - bit_length b
              in if pow2 k \<le> r then k else k - 1)"

definition round_half_even :: "rat \<Rightarrow> int" where
  "round_half_even r =
     (let f = \<lfloor>r\<rfloor>; d = r - of_int f
      in if d < 1 / 2 then f else if 1 / 2 < d then f + 1 else if even f then f else f + 1)"

text \<open>53 bits of precision, subnormals below \<open>2\<^sup>-\<^sup>1\<^sup>0\<^sup>2\<^sup>2\<close>, overflow to infinity from \<open>2\<^sup>1\<^sup>0\<^sup>2\<^sup>4\<close>.\<close>

definition f64_round :: "bool \<Rightarrow> rat \<Rightarrow> f64" where
  "f64_round neg m =
     (if m = 0 then F64_Fin neg 0
      else let u = pow2 (max (ilog2 m) (- 1022) - 52);
               r = of_int (round_half_even (m / u)) * u
           in if pow2 1024 \<le> r then F64_Inf neg else F64_Fin neg r)"

definition f64_lit :: "rat \<Rightarrow> f64" where
  "f64_lit v = f64_round (v < 0) \<bar>v\<bar>"

abbreviation f64_zero :: f64 where
  "f64_zero \<equiv> F64_Fin False 0"

subsection \<open>Classification and comparison\<close>

fun f64_val :: "f64 \<Rightarrow> rat" where
  "f64_val (F64_Fin s m) = (if s then - m else m)"
| "f64_val _ = 0"

fun is_nan :: "f64 \<Rightarrow> bool" where
  "is_nan F64_NaN = True"
| "is_nan _ = False"

fun is_finite :: "f64 \<Rightarrow> bool" where
  "is_finite (F64_Fin _ _) = True"
| "is_finite _ = False"

fun f64_le :: "f64 \<Rightarrow> f64 \<Rightarrow> bool" where
  "f64_le F64_NaN y = False"
| "f64_le (F64_Inf s) y = (case y of F64_NaN \<Rightarrow> False | F64_Inf t \<Rightarrow> s \<or> \<not> t | F64_Fin _ _ \<Rightarrow> s)"
| "f64_le (F64_Fin s a) y =
     (case y of F64_NaN \<Rightarrow> False | F64_Inf t \<Rightarrow> \<not> t
      | F64_Fin t b \<Rightarrow> f64_val (F64_Fin s a) \<le> f64_val (F64_Fin t b))"

definition f64_lt :: "f64 \<Rightarrow> f64 \<Rightarrow> bool" where
  "f64_lt x y \<longleftrightarrow> f64_le x y \<and> \<not> f64_le y x"

definition f64_max :: "f64 \<Rightarrow> f64 \<Rightarrow> f64" where
  "f64_max x y = (if is_nan x then y else if is_nan y then x else if f64_lt x y then y else x)"

definition f64_min :: "f64 \<Rightarrow> f64 \<Rightarrow> f64" where
  "f64_min x y = (if is_nan x then y else if is_nan y then x else if f64_lt y x then y else x)"

subsection \<open>Arithmetic\<close>

fun f64_neg :: "f64 \<Rightarrow> f64" where
  "f64_neg F64_NaN = F64_NaN"
| "f64_neg (F64_Inf s) = F64_Inf (\<not> s)"
| "f64_neg (F64_Fin s m) = F64_Fin (\<not> s) m"

fun f64_add :: "f64 \<Rightarrow> f64 \<Rightarrow> f64" where
  "f64_add (F64_Fin s a) (F64_Fin t b) =
     (let v = f64_val (F64_Fin s a) + f64_val (F64_Fin t b)
      in if v = 0 then F64_Fin (s \<and> t) 0 else f64_round (v < 0) \<bar>v\<bar>)"
| "f64_add (F64_Inf s) (F64_Inf t) = (if s = t then F64_Inf s else F64_NaN)"
| "f64_add (F64_Inf s) (F64_Fin _ _) = F64_Inf s"
| "f64_add (F64_Fin _ _) (F64_Inf t) = F64_Inf t"
| "f64_add _ _ = F64_NaN"

definition f64_sub :: "f64 \<Rightarrow> f64 \<Rightarrow> f64" where
  "f64_sub x y = f64_add x (f64_neg y)"

fun f64_mul :: "f64 \<Rightarrow> f64 \<Rightarrow> f64" where
  "f64_mul (F64_Fin s a) (F64_Fin t b) = f64_round (s \<noteq> t) (a * b)"
| "f64_mul (F64_Inf s) (F64_Inf t) = F64_Inf (s \<noteq> t)"
| "f64_mul (F64_Inf s) (F64_Fin t b) = (if b = 0 then F64_NaN else F64_Inf (s \<noteq> t))"
| "f64_mul (F64_Fin s a) (F64_Inf t) = (if a = 0 then F64_NaN else F64_Inf (s \<noteq> t))"
| "f64_mul _ _ = F64_NaN"

fun f64_div :: "f64 \<Rightarrow> f64 \<Rightarrow> f64" where
  "f64_div (F64_Fin s a) (F64_Fin t b) =
     (if b = 0 then if a = 0 then F64_NaN else F64_Inf (s \<noteq> t) else f64_round (s \<noteq> t) (a / b))"
| "f64_div (F64_Inf s) (F64_Fin t b) = F64_Inf (s \<noteq> t)"
| "f64_div (F64_Fin s a) (F64_Inf t) = F64_Fin (s \<noteq> t) 0"
| "f64_div _ _ = F64_NaN"

fun f64_ceil :: "f64 \<Rightarrow> f64" where
  "f64_ceil (F64_Fin s m) = F64_Fin s (of_int (if s then \<lfloor>m\<rfloor> else \<lceil>m\<rceil>))"
| "f64_ceil x = x"

fun f64_floor :: "f64 \<Rightarrow> f64" where
  "f64_floor (F64_Fin s m) = F64_Fin s (of_int (if s then \<lceil>m\<rceil> else \<lfloor>m\<rfloor>))"
| "f64_floor x = x"

text \<open>\<open>x as f64\<close> for an unsigned integer, and \<open>x as usize\<close>, which truncates and saturates.\<close>

definition f64_of_nat :: "nat \<Rightarrow> f64" where
  "f64_of_nat n = f64_round False (of_nat n)"

fun f64_to_u64 :: "f64 \<Rightarrow> u64" where
  "f64_to_u64 F64_NaN = 0"
| "f64_to_u64 (F64_Inf s) = (if s then 0 else - 1)"
| "f64_to_u64 (F64_Fin s m) =
     (if s then 0 else if 2 ^ 64 \<le> \<lfloor>m\<rfloor> then - 1 else word_of_int \<lfloor>m\<rfloor>)"

subsection \<open>Printing with a fixed number of decimals\<close>

definition pad_zeros :: "nat \<Rightarrow> string \<Rightarrow> string" where
  "pad_zeros n s = replicate (n - length s) (CHR ''0'') @ s"

fun f64_format :: "nat \<Rightarrow> f64 \<Rightarrow> string" where
  "f64_format d F64_NaN = ''NaN''"
| "f64_format d (F64_Inf s) = (if s then ''-inf'' else ''inf'')"
| "f64_format d (F64_Fin s m) =
     (let n = round_half_even (m * 10 ^ d)
      in (if s then ''-'' else '''') @ show_dec (n div 10 ^ d) @
         (if d = 0 then '''' else ''.'' @ pad_zeros d (show_dec (n mod 10 ^ d))))"

subsection \<open>Rounding properties\<close>

lemma ipow2_eq: "ipow2 e = 2 ^ nat e"
proof (induction e rule: ipow2.induct)
  case (1 e)
  show ?case
  proof (cases "e \<le> 0")
    case False
    define h where "h = ipow2 (e div 2)"
    have h: "h = 2 ^ nat (e div 2)"
      using "1.IH" False by (simp add: h_def)
    have "ipow2 e = (if even e then h * h else 2 * (h * h))"
      using False by (subst ipow2.simps) (simp add: h_def Let_def)
    moreover have "nat e = (if even e then nat (e div 2) + nat (e div 2) else Suc (nat (e div 2) + nat (e div 2)))"
      using False by (auto simp: even_iff_mod_2_eq_zero nat_eq_iff) presburger+
    ultimately show ?thesis
      using h by (simp add: power_add split: if_splits)
  qed (simp add: ipow2.simps)
qed

lemma pow2_pos: "0 < pow2 e"
  by (simp add: pow2_def ipow2_eq)

lemma round_half_even_int [simp]: "round_half_even (of_int n) = n"
  by (simp add: round_half_even_def)

lemma round_half_even_nonneg: "0 \<le> r \<Longrightarrow> 0 \<le> round_half_even r"
  unfolding round_half_even_def Let_def by (auto intro: add_nonneg_nonneg)

lemma f64_round_nonneg: "0 \<le> m \<Longrightarrow> f64_le f64_zero (f64_round False m)"
  using pow2_pos [of "max (ilog2 m) (- 1022) - 52"]
  by (auto simp: f64_round_def Let_def intro!: mult_nonneg_nonneg round_half_even_nonneg
    divide_nonneg_pos)

lemma f64_round_not_nan [simp]: "\<not> is_nan (f64_round s m)"
  by (simp add: f64_round_def Let_def)

subsection \<open>Order properties\<close>

lemma f64_le_nan [simp]: "\<not> f64_le F64_NaN y" "\<not> f64_le x F64_NaN"
  by (simp, cases x) simp_all

lemma f64_le_refl: "\<not> is_nan x \<Longrightarrow> f64_le x x"
  by (cases x) auto

lemma f64_le_trans: "f64_le x y \<Longrightarrow> f64_le y z \<Longrightarrow> f64_le x z"
  by (cases x; cases y; cases z) (auto split: if_splits)

lemma f64_le_total: "\<not> is_nan x \<Longrightarrow> \<not> is_nan y \<Longrightarrow> f64_le x y \<or> f64_le y x"
  by (cases x; cases y) auto

lemma f64_not_le: "\<not> is_nan x \<Longrightarrow> \<not> is_nan y \<Longrightarrow> \<not> f64_le x y \<longleftrightarrow> f64_lt y x"
  using f64_le_total by (auto simp: f64_lt_def)

lemma f64_lt_not_le: "f64_lt x y \<Longrightarrow> \<not> f64_le y x"
  by (simp add: f64_lt_def)

lemma f64_lt_nan: "f64_lt x y \<Longrightarrow> \<not> is_nan x \<and> \<not> is_nan y"
  by (cases x; cases y) (auto simp: f64_lt_def)

lemma f64_lt_le_trans: "f64_lt x y \<Longrightarrow> f64_le y z \<Longrightarrow> f64_lt x z"
  by (meson f64_le_trans f64_lt_def)

lemma f64_le_lt_trans: "f64_le x y \<Longrightarrow> f64_lt y z \<Longrightarrow> f64_lt x z"
  by (meson f64_le_trans f64_lt_def)

lemma f64_le_fin [simp]:
  "f64_le (F64_Fin s a) (F64_Fin t b) \<longleftrightarrow> f64_val (F64_Fin s a) \<le> f64_val (F64_Fin t b)"
  by simp

lemma f64_lt_fin [simp]:
  "f64_lt (F64_Fin s a) (F64_Fin t b) \<longleftrightarrow> f64_val (F64_Fin s a) < f64_val (F64_Fin t b)"
  by (auto simp: f64_lt_def simp del: f64_val.simps)

lemma f64_max_ge_left: "\<not> is_nan x \<Longrightarrow> f64_le x (f64_max x y)"
  by (simp add: f64_max_def f64_le_refl f64_lt_def)

lemma f64_max_ge_right: "\<not> is_nan y \<Longrightarrow> f64_le y (f64_max x y)"
proof (cases "is_nan x")
  case False
  assume "\<not> is_nan y"
  with False show ?thesis
    using f64_le_total by (auto simp: f64_max_def f64_lt_def f64_le_refl)
qed (simp add: f64_max_def f64_le_refl)

lemma f64_max_zero_nonneg: "f64_le f64_zero (f64_max x f64_zero)"
  by (rule f64_max_ge_right) simp

lemma f64_max_zero_not_nan [simp]: "\<not> is_nan (f64_max x f64_zero)"
  by (simp add: f64_max_def)

subsection \<open>Negation\<close>

lemma f64_round_neg: "f64_round (\<not> s) m = f64_neg (f64_round s m)"
  by (simp add: f64_round_def Let_def)

lemma f64_mul_neg: "f64_mul (f64_neg x) y = f64_neg (f64_mul x y)"
proof (cases x; cases y)
  fix s a t b
  assume "x = F64_Fin s a" "y = F64_Fin t b"
  then show ?thesis
    using f64_round_neg [of "s \<noteq> t" "a * b"] by (cases s; cases t) simp_all
qed auto

lemma f64_lt_neg [simp]: "f64_lt (f64_neg x) (f64_neg y) \<longleftrightarrow> f64_lt y x"
  by (cases x; cases y) (auto simp: f64_lt_def)

lemma f64_neg_neg [simp]: "f64_neg (f64_neg x) = x"
  by (cases x) simp_all

text \<open>The two orders of a difference are negatives of each other, but for the sign of a zero.\<close>

lemma f64_sub_swap:
  "f64_sub y x = f64_neg (f64_sub x y) \<or> (\<exists>s t. f64_sub y x = F64_Fin s 0 \<and> f64_sub x y = F64_Fin t 0)"
proof (cases x; cases y)
  fix s a t b
  assume x: "x = F64_Fin s a" and y: "y = F64_Fin t b"
  define v where "v = f64_val x - f64_val y"
  have xy: "f64_sub x y = (if v = 0 then F64_Fin (s \<and> \<not> t) 0 else f64_round (v < 0) \<bar>v\<bar>)"
  proof -
    have "f64_val (F64_Fin s a) + f64_val (F64_Fin (\<not> t) b) = v"
      by (simp add: v_def x y)
    then show ?thesis
      by (simp only: f64_sub_def x y f64_neg.simps f64_add.simps Let_def)
  qed
  have yx: "f64_sub y x = (if v = 0 then F64_Fin (t \<and> \<not> s) 0 else f64_round (\<not> v < 0) \<bar>v\<bar>)"
  proof -
    have "f64_val (F64_Fin t b) + f64_val (F64_Fin (\<not> s) a) = - v"
      by (simp add: v_def x y)
    then have "f64_sub y x = (if - v = 0 then F64_Fin (t \<and> \<not> s) 0 else f64_round (- v < 0) \<bar>- v\<bar>)"
      by (simp only: f64_sub_def x y f64_neg.simps f64_add.simps Let_def)
    then show ?thesis
      by (cases "v = 0") (simp_all add: not_less order_le_less)
  qed
  show ?thesis
    unfolding xy yx using f64_round_neg [of "v < 0" "\<bar>v\<bar>"] by auto
qed (auto simp: f64_sub_def)

end
