(* ===== verification/Json.thy ===== *)
theory Json
  imports F64
begin

text \<open>
  JSON values (\<open>serde_json::Value\<close>) and the canonical forms of \<open>cache.rs\<close>: key sorting, the
  normalisation that a cache identity goes through, and the content hashes built on it.

  \<open>serde_json\<close> is compiled without \<open>preserve_order\<close>, so an object is a \<open>BTreeMap\<close>: a list of
  members with strictly ascending keys (\<open>wf_json\<close>), written by \<open>obj_insert\<close>. Serialisation to text
  and SHA-256 are outside the repository; they are the fields of the parameter record
  \<open>hashing\<close>.
\<close>

datatype jnum = PosInt u64 | NegInt int | Float f64

datatype json = JNull | JBool bool | JNum jnum | JStr string
  | JArr "json list" | JObj "(string \<times> json) list"

type_synonym json_map = "(string \<times> json) list"

record hashing =
  to_json_string :: "json \<Rightarrow> string"
  sha256_hex :: "string \<Rightarrow> string"

subsection \<open>Objects\<close>

fun obj_insert :: "string \<Rightarrow> json \<Rightarrow> json_map \<Rightarrow> json_map" where
  "obj_insert k v [] = [(k, v)]"
| "obj_insert k v ((k', v') # m) =
     (if k = k' then (k, v) # m
      else if k < k' then (k, v) # (k', v') # m else (k', v') # obj_insert k v m)"

definition obj_remove :: "string \<Rightarrow> json_map \<Rightarrow> json_map" where
  "obj_remove k m = filter (\<lambda>(k', _). k' \<noteq> k) m"

definition obj_of :: "(string \<times> json) list \<Rightarrow> json_map" where
  "obj_of kvs = fold (\<lambda>(k, v) m. obj_insert k v m) kvs []"

fun json_get :: "json \<Rightarrow> string \<Rightarrow> json option" where
  "json_get (JObj m) k = map_of m k"
| "json_get _ _ = None"

fun as_str :: "json \<Rightarrow> string option" where
  "as_str (JStr s) = Some s"
| "as_str _ = None"

fun as_u64 :: "json \<Rightarrow> u64 option" where
  "as_u64 (JNum (PosInt n)) = Some n"
| "as_u64 _ = None"

fun as_bool :: "json \<Rightarrow> bool option" where
  "as_bool (JBool b) = Some b"
| "as_bool _ = None"

fun as_array :: "json \<Rightarrow> json list option" where
  "as_array (JArr xs) = Some xs"
| "as_array _ = None"

fun as_object :: "json \<Rightarrow> json_map option" where
  "as_object (JObj m) = Some m"
| "as_object _ = None"

text \<open>\<open>Value::as_f64\<close> of a JSON number, integers converted with rounding.\<close>

fun as_f64 :: "json \<Rightarrow> f64 option" where
  "as_f64 (JNum (PosInt n)) = Some (f64_of_nat (unat n))"
| "as_f64 (JNum (NegInt i)) = Some (f64_lit (of_int i))"
| "as_f64 (JNum (Float x)) = Some x"
| "as_f64 _ = None"

definition json_str_opt :: "string option \<Rightarrow> json" where
  "json_str_opt x = (case x of None \<Rightarrow> JNull | Some s \<Rightarrow> JStr s)"

definition json_u64 :: "u64 \<Rightarrow> json" where
  "json_u64 n = JNum (PosInt n)"

definition json_u64_opt :: "u64 option \<Rightarrow> json" where
  "json_u64_opt x = (case x of None \<Rightarrow> JNull | Some n \<Rightarrow> json_u64 n)"

definition json_strs :: "string list \<Rightarrow> json" where
  "json_strs xs = JArr (map JStr xs)"

definition json_len :: "'a list \<Rightarrow> json" where
  "json_len xs = json_u64 (word_of_nat (length xs))"

definition insert_opt :: "string \<Rightarrow> json option \<Rightarrow> json_map \<Rightarrow> json_map" where
  "insert_opt k v m = (case v of None \<Rightarrow> m | Some x \<Rightarrow> obj_insert k x m)"

text \<open>\<open>json!(x)\<close> for an \<open>f64\<close>: a number that is not finite has no JSON form and becomes \<open>null\<close>.\<close>

definition json_f64 :: "f64 \<Rightarrow> json" where
  "json_f64 x = (if is_finite x then JNum (Float x) else JNull)"

fun wf_json :: "json \<Rightarrow> bool" and wf_members :: "json_map \<Rightarrow> bool" and wf_items :: "json list \<Rightarrow> bool" where
  "wf_json (JObj m) \<longleftrightarrow> sorted_wrt (<) (map fst m) \<and> wf_members m"
| "wf_json (JArr xs) \<longleftrightarrow> wf_items xs"
| "wf_json _ \<longleftrightarrow> True"
| "wf_members [] \<longleftrightarrow> True"
| "wf_members ((k, v) # m) \<longleftrightarrow> wf_json v \<and> wf_members m"
| "wf_items [] \<longleftrightarrow> True"
| "wf_items (x # xs) \<longleftrightarrow> wf_json x \<and> wf_items xs"

subsection \<open>cache.rs: key sorting\<close>

fun sort_json :: "json \<Rightarrow> json" and sort_members :: "json_map \<Rightarrow> json_map"
  and sort_items :: "json list \<Rightarrow> json list" where
  "sort_json (JObj m) =
     JObj (fold (\<lambda>k sorted. case map_of (sort_members m) k of
                   None \<Rightarrow> sorted | Some item \<Rightarrow> obj_insert k item sorted)
             (sort (map fst m)) [])"
| "sort_json (JArr items) = JArr (sort_items items)"
| "sort_json v = v"
| "sort_members [] = []"
| "sort_members ((k, v) # m) = (k, sort_json v) # sort_members m"
| "sort_items [] = []"
| "sort_items (x # xs) = sort_json x # sort_items xs"

definition stable_json :: "hashing \<Rightarrow> json \<Rightarrow> string" where
  "stable_json h v = to_json_string h (sort_json v)"

subsection \<open>cache.rs: normalisation for cache identities\<close>

definition is_secret_key :: "string \<Rightarrow> bool" where
  "is_secret_key key_lower \<longleftrightarrow>
     str_contains key_lower ''authorization'' \<or> str_contains key_lower ''api_key''
     \<or> str_contains key_lower ''apikey'' \<or> str_contains key_lower ''secret''
     \<or> str_contains key_lower ''password''
     \<or> key_lower \<in> set [''token'', ''access_token'', ''refresh_token'', ''id_token'']
     \<or> ends_with key_lower ''_api_token''"

definition volatile_keys :: "string list" where
  "volatile_keys =
     [''ts'', ''timestamp'', ''created_at'', ''updated_at'', ''last_accessed_at'', ''run_id'',
      ''rollout_id'', ''rollout_ids'', ''cache_key'', ''cache_hit'', ''request_hash'',
      ''artifact_id'', ''artifact_ids'', ''artifact_ref'', ''artifact_refs'',
      ''trace_correlation_id'', ''correlation_id'', ''request_correlation_id'', ''session_id'',
      ''thread_id'', ''call_id'', ''request_id'', ''job_id'', ''container_rollout_id'',
      ''frame_id'', ''trace_id'', ''trace_ref'', ''trace_refs'', ''trial_id'',
      ''source_rollout_id'', ''source_call_id'', ''sensor_frame_id'', ''input_ref'',
      ''output_ref'', ''produced_by'', ''storage_uri'', ''started_at'', ''completed_at'',
      ''duration_s'', ''latency_s'', ''elapsed_s'', ''wall_s'', ''timeout_s'',
      ''timeout_seconds'', ''request_timeout_s'', ''request_timeout_seconds'',
      ''upstream_timeout_s'', ''upstream_timeout_seconds'', ''cost_usd'', ''proxy_trace_path'',
      ''materializer_id'', ''workspace'', ''workspace_dir'', ''workspace_root'',
      ''artifact_root'', ''output_dir'', ''run_dir'', ''manifest_path'', ''event_feed_path'',
      ''normalized_event_feed_path'', ''cache_profile_path'', ''best_candidate_path'',
      ''candidate_registry_path'', ''frontier_path'', ''run_registry_path'']"

definition is_volatile_key :: "string \<Rightarrow> string \<Rightarrow> bool" where
  "is_volatile_key key0 profile =
     (let key = to_ascii_lowercase key0 in
      if key \<in> set volatile_keys then True
      else if profile \<in> set [''rollout_request'', ''subagent_invocation'', ''gepa_workspace''] then
        (if key \<in> set [''artifacts'', ''links'', ''link_id'', ''workspace_pack_manifest''] then True
         else if profile = ''rollout_request'' \<and> key \<in> set [''context'', ''submission_mode''] then True
         else if key = ''total_cost_usd'' \<or> ends_with key ''_cost_usd'' then True
         else if ends_with key ''_path'' \<or> ends_with key ''_root'' \<or> ends_with key ''_dir'' then True
         else key \<in> set [''usage'', ''usage_json'', ''token_usage'', ''events'', ''trace_events''])
      else False)"

definition event_kind :: "json_map \<Rightarrow> string" where
  "event_kind m =
     to_ascii_lowercase (trim (unwrap_or ''''
       (Option.bind (or_else (map_of m ''kind'')
                      (or_else (map_of m ''type'') (map_of m ''event_type''))) as_str)))"

fun is_cache_only_event :: "json \<Rightarrow> string \<Rightarrow> bool" where
  "is_cache_only_event (JObj m) profile \<longleftrightarrow>
     profile \<in> set [''subagent_invocation'', ''gepa_workspace''] \<and>
     event_kind m \<in> set [''evaluation_cache_hit'', ''platform_cache_hit'', ''platform_cache_miss'',
                         ''platform_cache_write'']"
| "is_cache_only_event _ profile \<longleftrightarrow> False"

definition redacted :: json where
  "redacted = JStr ''<redacted>''"

text \<open>
  The members of an object are visited in ascending key order and inserted into an empty map, so
  the kept members keep their order.
\<close>

fun normalize_for_cache_value :: "string \<Rightarrow> json \<Rightarrow> json"
  and normalize_members :: "string \<Rightarrow> json_map \<Rightarrow> json_map"
  and normalize_items :: "string \<Rightarrow> json list \<Rightarrow> json list" where
  "normalize_for_cache_value profile (JObj m) = JObj (normalize_members profile m)"
| "normalize_for_cache_value profile (JArr items) = JArr (normalize_items profile items)"
| "normalize_for_cache_value profile v = v"
| "normalize_members profile [] = []"
| "normalize_members profile ((key, item) # m) =
     (if is_secret_key (to_ascii_lowercase key) then (key, redacted) # normalize_members profile m
      else if is_volatile_key key profile then normalize_members profile m
      else (key, normalize_for_cache_value profile item) # normalize_members profile m)"
| "normalize_items profile [] = []"
| "normalize_items profile (item # items) =
     (if is_cache_only_event item profile then normalize_items profile items
      else normalize_for_cache_value profile item # normalize_items profile items)"

definition normalized_profile :: "string \<Rightarrow> string" where
  "normalized_profile profile = (let p = trim profile in if p = [] then ''generic'' else p)"

fun strip_reference :: "json \<Rightarrow> json" where
  "strip_reference (JObj r) = JObj (obj_remove ''path'' r)"
| "strip_reference v = v"

fun strip_refs :: "string \<Rightarrow> json \<Rightarrow> json" where
  "strip_refs key (JArr refs) =
     JArr (map strip_reference
       (if key = ''merge_evidence_artifacts''
        then filter (\<lambda>item. Option.bind (json_get item ''kind'') as_str \<noteq> Some ''workspace_sqlite'') refs
        else refs))"
| "strip_refs key v = v"

definition strip_member :: "string \<times> json \<Rightarrow> string \<times> json" where
  "strip_member kv =
     (if fst kv \<in> set [''rollout_trace_artifact_refs'', ''merge_evidence_artifacts'']
      then (fst kv, strip_refs (fst kv) (snd kv)) else kv)"

fun strip_proposer_delivery :: "json \<Rightarrow> json" where
  "strip_proposer_delivery (JObj m) =
     JObj (map strip_member (obj_remove ''proposal_artifact_dir'' (obj_remove ''run_artifact_dir'' m)))"
| "strip_proposer_delivery v = v"

definition normalize_for_cache_profile :: "json \<Rightarrow> string \<Rightarrow> json" where
  "normalize_for_cache_profile v profile =
     (if profile = ''gepa_proposer''
      then normalize_for_cache_value profile (strip_proposer_delivery v)
      else normalize_for_cache_value (normalized_profile profile) v)"

definition normalize_for_cache :: "json \<Rightarrow> json" where
  "normalize_for_cache v = normalize_for_cache_profile v ''generic''"

subsection \<open>Content hashes and identifiers\<close>

definition sha256_text :: "hashing \<Rightarrow> string \<Rightarrow> string" where
  "sha256_text h text = sha256_hex h text"

definition stable_value_hash :: "hashing \<Rightarrow> json \<Rightarrow> string" where
  "stable_value_hash h v = sha256_text h (stable_json h (normalize_for_cache v))"

definition stable_json_hash :: "hashing \<Rightarrow> json \<Rightarrow> string" where
  "stable_json_hash h v = sha256_text h (stable_json h v)"

definition stable_id :: "hashing \<Rightarrow> string \<Rightarrow> string list \<Rightarrow> string" where
  "stable_id h prefix parts =
     prefix @ ''_'' @ take 16 (sha256_hex h (prefix @ concat (map (\<lambda>p. char_of (0 :: int) # p) parts)))"

definition prefixed_hash_id :: "hashing \<Rightarrow> string \<Rightarrow> json \<Rightarrow> string" where
  "prefixed_hash_id h prefix v = prefix @ ''_'' @ take 16 (stable_value_hash h v)"

end
