(* ===== verification/Optimizer_Error.thy ===== *)
theory Optimizer_Error
  imports Json
begin

text \<open>
  The error values of the platform (\<open>error.rs\<close>) and their classification into failure payloads
  (\<open>failures.rs\<close>). Errors of other crates (\<open>serde_json\<close>, \<open>toml\<close>, \<open>reqwest\<close>, \<open>rusqlite\<close>,
  \<open>std::io\<close>) are represented by what the sources read of them: the printed message and, for
  \<open>reqwest\<close>, the HTTP status. A path is its \<open>display()\<close> form.
\<close>

subsection \<open>error.rs\<close>

datatype optimizer_error =
    Config string
  | Container string
  | ContainerHttpStatus (chs_path: string) (chs_status_code: u16) (chs_body: string)
  | Proposer string
  | CacheMiss (cm_namespace: string) (cm_cache_key: string)
  | CacheFull (cf_path: string) (cf_size_bytes: u64) (cf_max_bytes: u64)
  | CacheCorrupt (cc_path: string) (cc_operation: string) (cc_message: string)
  | BudgetExceeded (be_run_id: string) (be_limit: string) (be_requested: string) (be_available: string)
  | ErrCancelled (ca_request_id: string)
  | AlreadyRunning (ar_pid: u32) (ar_service_url: string) (ar_db_path: string)
      (ar_workshop_instance_id: string) (ar_peer: json)
  | EventCompare string
  | ErrFailed string
  | Invariant string
  | StateTransition (st_from: string) (st_to: string) (st_trigger: string)
  | Io (io_path: string) (io_source: string)
  | DiskBudgetExceeded (dbe_path: string) (dbe_used_bytes: u64) (dbe_limit_bytes: u64) (dbe_limit_kind: string)
  | JsonError string
  | TomlDecode string
  | HttpError string "u16 option"
  | Sqlite string

type_synonym 'a result = "optimizer_error + 'a"

text \<open>
  A fallible operation on a state returns the state it leaves behind and its result; \<open>then_do\<close> is
  the sequencing by the \<open>?\<close> operator, which stops at the first error and keeps what was done.
\<close>

type_synonym ('s, 'a) op = "'s \<Rightarrow> 's \<times> 'a result"

definition then_do :: "('s, 'a) op \<Rightarrow> ('a \<Rightarrow> ('s, 'b) op) \<Rightarrow> ('s, 'b) op" where
  "then_do f g s = (case f s of (s', Inl e) \<Rightarrow> (s', Inl e) | (s', Inr x) \<Rightarrow> g x s')"

definition return_ok :: "'a \<Rightarrow> ('s, 'a) op" where
  "return_ok x s = (s, Inr x)"

lemma then_do_ok: "f s = (s', Inr x) \<Longrightarrow> then_do f g s = g x s'"
  by (simp add: then_do_def)

lemma then_do_err: "f s = (s', Inl e) \<Longrightarrow> then_do f g s = (s', Inl e)"
  by (simp add: then_do_def)

lemma then_do_step:
  assumes "\<exists>s' x. f s = (s', Inr x) \<and> P s'" and "\<And>s' x. P s' \<Longrightarrow> Q (g x s')"
  shows "Q (then_do f g s)"
  using assms by (auto simp: then_do_def)

fun error_code :: "optimizer_error \<Rightarrow> string" where
  "error_code (Config _) = ''synth_optimizer_config_error''"
| "error_code (Container _) = ''synth_optimizer_container_error''"
| "error_code (ContainerHttpStatus _ _ _) = ''synth_optimizer_container_http_status''"
| "error_code (Proposer _) = ''synth_optimizer_proposer_error''"
| "error_code (CacheMiss _ _) = ''synth_optimizer_cache_miss''"
| "error_code (CacheFull _ _ _) = ''synth_optimizer_cache_full''"
| "error_code (CacheCorrupt _ _ _) = ''synth_optimizer_cache_corrupt''"
| "error_code (BudgetExceeded _ _ _ _) = ''synth_optimizer_budget_exceeded''"
| "error_code (ErrCancelled _) = ''synth_optimizer_cancelled''"
| "error_code (AlreadyRunning _ _ _ _ _) = ''already_running''"
| "error_code (EventCompare _) = ''synth_optimizer_event_compare_failed''"
| "error_code (ErrFailed _) = ''synth_optimizer_failed''"
| "error_code (Invariant _) = ''synth_optimizer_invariant_error''"
| "error_code (StateTransition _ _ _) = ''synth_optimizer_state_transition_error''"
| "error_code (Io _ _) = ''synth_optimizer_io_error''"
| "error_code (DiskBudgetExceeded _ _ _ _) = ''synth_optimizer_disk_budget_exceeded''"
| "error_code (JsonError _) = ''synth_optimizer_json_error''"
| "error_code (TomlDecode _) = ''synth_optimizer_toml_decode_error''"
| "error_code (HttpError _ _) = ''synth_optimizer_http_error''"
| "error_code (Sqlite _) = ''synth_optimizer_sqlite_error''"

text \<open>\<open>to_string()\<close>, the derived \<open>Display\<close>.\<close>

fun error_to_string :: "optimizer_error \<Rightarrow> string" where
  "error_to_string (Config m) = ''configuration error: '' @ m"
| "error_to_string (Container m) = ''container error: '' @ m"
| "error_to_string (ContainerHttpStatus p s b) =
     ''container request '' @ p @ '' failed with status '' @ show_word s @ '': '' @ b"
| "error_to_string (Proposer m) = ''proposer error: '' @ m"
| "error_to_string (CacheMiss n k) = ''cache miss namespace='' @ n @ '' key='' @ k"
| "error_to_string (CacheFull p s m) =
     ''cache full path='' @ p @ '' size='' @ show_word s @ '' max='' @ show_word m"
| "error_to_string (CacheCorrupt p oper m) =
     ''cache corrupt operation='' @ oper @ '' path='' @ p @ '': '' @ m"
| "error_to_string (BudgetExceeded r l q a) =
     ''budget exceeded run_id='' @ r @ '' limit='' @ l @ '' requested='' @ q @ '' available='' @ a"
| "error_to_string (ErrCancelled r) = ''optimizer run cancelled request_id='' @ r"
| "error_to_string (AlreadyRunning p u _ _ _) =
     ''already running pid='' @ show_word p @ '' service_url='' @ u"
| "error_to_string (EventCompare m) = ''event feed compare failed: '' @ m"
| "error_to_string (ErrFailed m) = ''optimizer run failed: '' @ m"
| "error_to_string (Invariant m) = ''optimizer invariant violated: '' @ m"
| "error_to_string (StateTransition f t g) =
     ''invalid optimizer state transition '' @ f @ '' -> '' @ t @ '' for trigger '' @ g"
| "error_to_string (Io p s) = ''io error at '' @ p @ '': '' @ s"
| "error_to_string (DiskBudgetExceeded p u l k) =
     ''disk budget '' @ k @ '' limit exceeded path='' @ p @ '' used_bytes='' @ show_word u @
     '' limit_bytes='' @ show_word l"
| "error_to_string (JsonError m) = ''json error: '' @ m"
| "error_to_string (TomlDecode m) = ''toml decode error: '' @ m"
| "error_to_string (HttpError m _) = ''http error: '' @ m"
| "error_to_string (Sqlite m) = ''sqlite error: '' @ m"

subsection \<open>failures.rs\<close>

datatype optimizer_failure_type =
    FtValidation | FtAuth | FtConflict | FtQuota | FtDependency | FtTimeout | FtBackpressure
  | FtUpstream | FtContainer | FtContainerFailed | FtContainerError | FtContainerTerminated
  | FtContainerCancelled | FtPromptOverlay | FtCache | FtCacheMiss | FtCacheFull | FtCacheCorrupt
  | FtBudget | FtCancelled | FtProposer | FtVerifier | FtStateTransition | FtInvariant | FtIo
  | FtDiskBudget | FtJson | FtToml | FtHttp | FtSqlite | FtInternal

fun failure_type_str :: "optimizer_failure_type \<Rightarrow> string" where
  "failure_type_str FtValidation = ''validation''"
| "failure_type_str FtAuth = ''auth''"
| "failure_type_str FtConflict = ''conflict''"
| "failure_type_str FtQuota = ''quota''"
| "failure_type_str FtDependency = ''dependency''"
| "failure_type_str FtTimeout = ''timeout''"
| "failure_type_str FtBackpressure = ''backpressure''"
| "failure_type_str FtUpstream = ''upstream''"
| "failure_type_str FtContainer = ''container''"
| "failure_type_str FtContainerFailed = ''container_failed''"
| "failure_type_str FtContainerError = ''container_error''"
| "failure_type_str FtContainerTerminated = ''container_terminated''"
| "failure_type_str FtContainerCancelled = ''container_cancelled''"
| "failure_type_str FtPromptOverlay = ''prompt_overlay''"
| "failure_type_str FtCache = ''cache''"
| "failure_type_str FtCacheMiss = ''cache_miss''"
| "failure_type_str FtCacheFull = ''cache_full''"
| "failure_type_str FtCacheCorrupt = ''cache_corrupt''"
| "failure_type_str FtBudget = ''budget''"
| "failure_type_str FtCancelled = ''cancelled''"
| "failure_type_str FtProposer = ''proposer''"
| "failure_type_str FtVerifier = ''verifier''"
| "failure_type_str FtStateTransition = ''state_transition''"
| "failure_type_str FtInvariant = ''invariant''"
| "failure_type_str FtIo = ''io''"
| "failure_type_str FtDiskBudget = ''disk_budget''"
| "failure_type_str FtJson = ''json''"
| "failure_type_str FtToml = ''toml''"
| "failure_type_str FtHttp = ''http''"
| "failure_type_str FtSqlite = ''sqlite''"
| "failure_type_str FtInternal = ''internal''"

record failure_payload =
  fp_failure_type :: optimizer_failure_type
  fp_reason_code :: string
  fp_message :: string
  fp_retryable :: bool
  fp_mutated :: bool
  fp_details :: json_map

definition failure_payload_new ::
  "optimizer_failure_type \<Rightarrow> string \<Rightarrow> string \<Rightarrow> bool \<Rightarrow> failure_payload" where
  "failure_payload_new ft reason_code message retryable =
     \<lparr>fp_failure_type = ft, fp_reason_code = reason_code, fp_message = message,
      fp_retryable = retryable, fp_mutated = False, fp_details = []\<rparr>"

definition with_detail :: "string \<Rightarrow> json \<Rightarrow> failure_payload \<Rightarrow> failure_payload" where
  "with_detail key v p = p\<lparr>fp_details := obj_insert key v (fp_details p)\<rparr>"

definition with_mutated :: "bool \<Rightarrow> failure_payload \<Rightarrow> failure_payload" where
  "with_mutated m p = p\<lparr>fp_mutated := m\<rparr>"

definition failure_class :: "failure_payload \<Rightarrow> string" where
  "failure_class p = failure_type_str (fp_failure_type p)"

definition contains_any :: "string \<Rightarrow> string list \<Rightarrow> bool" where
  "contains_any v needles = list_ex (str_contains v) needles"

definition classify_http_status :: "u16 \<Rightarrow> optimizer_failure_type" where
  "classify_http_status s =
     (if s \<in> set [401, 403] then FtAuth
      else if s = 408 then FtTimeout
      else if s \<in> set [409, 425, 429] then FtBackpressure
      else if s = 402 then FtQuota
      else if 500 \<le> s \<and> s \<le> 599 then FtUpstream
      else FtHttp)"

definition retryable_http_status :: "u16 \<Rightarrow> bool" where
  "retryable_http_status s \<longleftrightarrow> s \<in> set [408, 409, 425, 429] \<or> 500 \<le> s \<and> s \<le> 599"

definition classify_container_message :: "string \<Rightarrow> optimizer_failure_type" where
  "classify_container_message message =
     (let normalized = to_ascii_lowercase message in
      if contains_any normalized [''timeout'', ''timed out'', ''deadline''] then FtTimeout
      else if contains_any normalized [''cancelled'', ''canceled''] then FtContainerCancelled
      else if contains_any normalized [''terminated'', ''killed'', ''signal''] then FtContainerTerminated
      else if contains_any normalized [''failed'', ''non-zero'', ''nonzero''] then FtContainerFailed
      else if contains_any normalized [''overlay'', ''patch'', ''template''] then FtPromptOverlay
      else FtContainerError)"

definition retryable_container_message :: "string \<Rightarrow> bool" where
  "retryable_container_message message \<longleftrightarrow>
     \<not> contains_any (to_ascii_lowercase message)
         [''validation'', ''invalid'', ''schema'', ''contract'', ''unsupported'']"

definition json_u16_opt :: "u16 option \<Rightarrow> json" where
  "json_u16_opt x = (case x of None \<Rightarrow> JNull | Some s \<Rightarrow> json_u64 (ucast s))"

fun from_optimizer_error :: "optimizer_error \<Rightarrow> failure_payload" where
  "from_optimizer_error (Config m) = failure_payload_new FtValidation ''config_error'' m False"
| "from_optimizer_error (Container m) =
     (let ft = classify_container_message m
      in failure_payload_new ft (failure_type_str ft) m (retryable_container_message m))"
| "from_optimizer_error (ContainerHttpStatus p s b) =
     (let ft = classify_http_status s in
      with_detail ''body'' (JStr b) (with_detail ''status'' (json_u64 (ucast s))
       (with_detail ''path'' (JStr p)
        (failure_payload_new ft (failure_type_str ft)
          (error_to_string (ContainerHttpStatus p s b)) (retryable_http_status s)))))"
| "from_optimizer_error (Proposer m) =
     (let ft = (if contains_any m [''timeout'', ''timed out'', ''deadline''] then FtTimeout else FtProposer)
      in failure_payload_new ft (failure_type_str ft) m True)"
| "from_optimizer_error (CacheMiss n k) =
     with_detail ''cache_key'' (JStr k) (with_detail ''namespace'' (JStr n)
       (failure_payload_new FtCacheMiss ''cache_miss'' (error_to_string (CacheMiss n k)) False))"
| "from_optimizer_error (CacheFull p s mx) =
     with_detail ''max_bytes'' (json_u64 mx) (with_detail ''size_bytes'' (json_u64 s)
       (with_detail ''path'' (JStr p)
         (failure_payload_new FtCacheFull ''cache_full'' (error_to_string (CacheFull p s mx)) False)))"
| "from_optimizer_error (CacheCorrupt p oper m) =
     with_detail ''operation'' (JStr oper) (with_detail ''path'' (JStr p)
       (failure_payload_new FtCacheCorrupt ''cache_corrupt'' m False))"
| "from_optimizer_error (BudgetExceeded r l q a) =
     failure_payload_new FtBudget ''budget_exceeded'' (error_to_string (BudgetExceeded r l q a)) False"
| "from_optimizer_error (ErrCancelled r) =
     with_detail ''request_id'' (JStr r)
       (failure_payload_new FtCancelled ''cancelled'' (error_to_string (ErrCancelled r)) False)"
| "from_optimizer_error (AlreadyRunning pid u d w peer) =
     with_detail ''peer'' peer (with_detail ''workshop_instance_id'' (JStr w)
       (with_detail ''db_path'' (JStr d) (with_detail ''service_url'' (JStr u)
         (with_detail ''pid'' (json_u64 (ucast pid))
           (failure_payload_new FtConflict ''already_running''
             (error_to_string (AlreadyRunning pid u d w peer)) False)))))"
| "from_optimizer_error (EventCompare m) =
     failure_payload_new FtValidation ''event_compare_failed'' m False"
| "from_optimizer_error (ErrFailed m) = failure_payload_new FtInternal ''run_failed'' m False"
| "from_optimizer_error (Invariant m) =
     failure_payload_new FtInvariant ''invariant_violation'' m False"
| "from_optimizer_error (StateTransition f t g) =
     with_detail ''trigger'' (JStr g) (with_detail ''to'' (JStr t) (with_detail ''from'' (JStr f)
       (failure_payload_new FtStateTransition ''invalid_state_transition''
         (error_to_string (StateTransition f t g)) False)))"
| "from_optimizer_error (Io p s) =
     with_detail ''path'' (JStr p) (failure_payload_new FtIo ''io_error'' s True)"
| "from_optimizer_error (DiskBudgetExceeded p u l k) =
     with_detail ''limit_kind'' (JStr k) (with_detail ''limit_bytes'' (json_u64 l)
       (with_detail ''used_bytes'' (json_u64 u) (with_detail ''path'' (JStr p)
         (failure_payload_new FtDiskBudget ''disk_budget_exceeded''
           (error_to_string (DiskBudgetExceeded p u l k)) False))))"
| "from_optimizer_error (JsonError m) = failure_payload_new FtJson ''json_error'' m False"
| "from_optimizer_error (TomlDecode m) = failure_payload_new FtToml ''toml_decode_error'' m False"
| "from_optimizer_error (HttpError m s) =
     with_detail ''status'' (json_u16_opt s) (failure_payload_new FtHttp ''http_error'' m True)"
| "from_optimizer_error (Sqlite m) = failure_payload_new FtSqlite ''sqlite_error'' m True"

subsection \<open>Lemmas\<close>

lemma failure_payload_new_sel [simp]:
  "fp_failure_type (failure_payload_new ft rc m r) = ft"
  "fp_reason_code (failure_payload_new ft rc m r) = rc"
  "fp_message (failure_payload_new ft rc m r) = m"
  "fp_retryable (failure_payload_new ft rc m r) = r"
  "fp_mutated (failure_payload_new ft rc m r) = False"
  by (simp_all add: failure_payload_new_def)

lemma with_detail_sel [simp]:
  "fp_failure_type (with_detail k v p) = fp_failure_type p"
  "fp_reason_code (with_detail k v p) = fp_reason_code p"
  "fp_message (with_detail k v p) = fp_message p"
  "fp_retryable (with_detail k v p) = fp_retryable p"
  "fp_mutated (with_detail k v p) = fp_mutated p"
  by (simp_all add: with_detail_def)

lemma error_code_nonempty: "error_code e \<noteq> []"
  by (cases e) simp_all

text \<open>A retryable HTTP status is never classified as an authentication, quota or plain HTTP failure.\<close>

lemma retryable_http_status_iff:
  "retryable_http_status s \<longleftrightarrow> classify_http_status s \<in> {FtTimeout, FtBackpressure, FtUpstream}"
  by (auto simp: retryable_http_status_def classify_http_status_def)

end
