(* ===== verification/Machine_Interface.thy ===== *)
theory Machine_Interface
  imports Optimizer_Error
begin

text \<open>
  The interface that every state machine of the program offers: an initial state, a guard
  \<open>allowed from to trigger\<close>, and the states that nothing leaves. The run machine
  (\<open>state_machine.rs\<close>) and the three entity machines of GEPA (\<open>machines.rs\<close>) are its instances.
  A \<open>valid_path\<close> is a list of transitions each of which the guard admits and that starts where the
  previous one ended; it is what the histories and logs of the program are shown to be.
\<close>

fun valid_path :: "('s \<Rightarrow> 's \<Rightarrow> 't \<Rightarrow> bool) \<Rightarrow> 's \<Rightarrow> ('s \<times> 's \<times> 't) list \<Rightarrow> 's \<Rightarrow> bool" where
  "valid_path allowed a [] b \<longleftrightarrow> a = b"
| "valid_path allowed a ((f, t, g) # es) b \<longleftrightarrow> f = a \<and> allowed f t g \<and> valid_path allowed t es b"

lemma valid_path_append:
  "valid_path allowed a (xs @ ys) c \<longleftrightarrow> (\<exists>b. valid_path allowed a xs b \<and> valid_path allowed b ys c)"
  by (induction xs arbitrary: a) auto

lemma valid_path_snoc [simp]:
  "valid_path allowed a (xs @ [(f, t, g)]) c \<longleftrightarrow> valid_path allowed a xs f \<and> allowed f t g \<and> t = c"
  by (auto simp: valid_path_append)

text \<open>States that a path may pass through stay inside every set the guard is closed under.\<close>

lemma valid_path_closed:
  assumes closed: "\<And>f t g. f \<in> S \<Longrightarrow> allowed f t g \<Longrightarrow> t \<in> S"
  shows "valid_path allowed a es b \<Longrightarrow> a \<in> S \<Longrightarrow> b \<in> S"
proof (induction es arbitrary: a)
  case (Cons e es)
  then show ?case
    by (cases e) (use closed in \<open>auto\<close>)
qed simp

locale guarded_machine =
  fixes init :: 's
    and allowed :: "'s \<Rightarrow> 's \<Rightarrow> 't \<Rightarrow> bool"
    and terminal :: "'s \<Rightarrow> bool"
  assumes terminal_stuck: "terminal f \<Longrightarrow> \<not> allowed f t g"
begin

lemma path_from_terminal: "terminal a \<Longrightarrow> valid_path allowed a es b \<Longrightarrow> es = [] \<and> b = a"
  by (cases es) (auto dest: terminal_stuck)

text \<open>A terminal state can only be the last one of a path.\<close>

lemma terminal_last:
  assumes "valid_path allowed a es b" and "(f, t, g) \<in> set es" and "terminal t"
  shows "t = b \<and> (f, t, g) = last es"
proof -
  obtain xs ys where es: "es = xs @ (f, t, g) # ys"
    using assms(2) by (auto simp: in_set_conv_decomp)
  then have "valid_path allowed t ys b"
    using assms(1) by (auto simp: valid_path_append)
  with assms(3) have "ys = [] \<and> b = t"
    by (rule path_from_terminal)
  with es show ?thesis
    by simp
qed

end

text \<open>A machine whose states have names that can be read back, as the transition log needs.\<close>

locale named_machine = guarded_machine init allowed terminal
  for init :: 's and allowed :: "'s \<Rightarrow> 's \<Rightarrow> 't \<Rightarrow> bool" and terminal :: "'s \<Rightarrow> bool" +
  fixes state_name :: "'s \<Rightarrow> string"
    and state_from_name :: "string \<Rightarrow> 's option"
  assumes from_name: "state_from_name (state_name s) = Some s"
begin

lemma name_inj: "state_name s = state_name s' \<longleftrightarrow> s = s'"
  by (metis from_name option.inject)

end

end
