(* ===== verification/Run_State_Machine.thy ===== *)
theory Run_State_Machine
  imports Machine_Interface
begin

text \<open>
  \<open>state_machine.rs\<close>: the states and triggers of an optimizer run, the guard
  \<open>is_valid_transition\<close> and the machine with its history. The clock reading that
  \<open>transition\<close> stores is an argument. A rejected transition returns the error and leaves the
  machine as it was.
\<close>

datatype optimizer_run_state =
    StCreated | StInitializing | StReady | StProposing | StTrialQueueing | StRolloutQueueing
  | StRolloutRunning | StAnnotating | StVerifying | StEvaluating | StWaitingHumanInput | StPaused
  | StCheckpointing | StRestoring | StCompleted | StFailed | StCancelled

datatype optimizer_transition_trigger =
    RunStarted | ContainerReady | ProposerStarted | ProposerFinished | RolloutsQueued
  | RolloutsStarted | RolloutsFinished | AnnotationStarted | AnnotationFinished
  | VerificationStarted | VerificationFinished | EvaluationFinished | CheckpointStarted
  | CheckpointFinished | RestoreStarted | RestoreFinished | PauseRequested | ResumeRequested
  | CancelRequested | FailureRaised | RunCompleted

fun run_state_str :: "optimizer_run_state \<Rightarrow> string" where
  "run_state_str StCreated = ''created''"
| "run_state_str StInitializing = ''initializing''"
| "run_state_str StReady = ''ready''"
| "run_state_str StProposing = ''proposing''"
| "run_state_str StTrialQueueing = ''trial_queueing''"
| "run_state_str StRolloutQueueing = ''rollout_queueing''"
| "run_state_str StRolloutRunning = ''rollout_running''"
| "run_state_str StAnnotating = ''annotating''"
| "run_state_str StVerifying = ''verifying''"
| "run_state_str StEvaluating = ''evaluating''"
| "run_state_str StWaitingHumanInput = ''waiting_human_input''"
| "run_state_str StPaused = ''paused''"
| "run_state_str StCheckpointing = ''checkpointing''"
| "run_state_str StRestoring = ''restoring''"
| "run_state_str StCompleted = ''completed''"
| "run_state_str StFailed = ''failed''"
| "run_state_str StCancelled = ''cancelled''"

fun run_trigger_str :: "optimizer_transition_trigger \<Rightarrow> string" where
  "run_trigger_str RunStarted = ''run_started''"
| "run_trigger_str ContainerReady = ''container_ready''"
| "run_trigger_str ProposerStarted = ''proposer_started''"
| "run_trigger_str ProposerFinished = ''proposer_finished''"
| "run_trigger_str RolloutsQueued = ''rollouts_queued''"
| "run_trigger_str RolloutsStarted = ''rollouts_started''"
| "run_trigger_str RolloutsFinished = ''rollouts_finished''"
| "run_trigger_str AnnotationStarted = ''annotation_started''"
| "run_trigger_str AnnotationFinished = ''annotation_finished''"
| "run_trigger_str VerificationStarted = ''verification_started''"
| "run_trigger_str VerificationFinished = ''verification_finished''"
| "run_trigger_str EvaluationFinished = ''evaluation_finished''"
| "run_trigger_str CheckpointStarted = ''checkpoint_started''"
| "run_trigger_str CheckpointFinished = ''checkpoint_finished''"
| "run_trigger_str RestoreStarted = ''restore_started''"
| "run_trigger_str RestoreFinished = ''restore_finished''"
| "run_trigger_str PauseRequested = ''pause_requested''"
| "run_trigger_str ResumeRequested = ''resume_requested''"
| "run_trigger_str CancelRequested = ''cancel_requested''"
| "run_trigger_str FailureRaised = ''failure_raised''"
| "run_trigger_str RunCompleted = ''run_completed''"

definition is_terminal :: "optimizer_run_state \<Rightarrow> bool" where
  "is_terminal s \<longleftrightarrow> s \<in> set [StCompleted, StFailed, StCancelled]"

definition run_edges :: "(optimizer_run_state \<times> optimizer_run_state) list" where
  "run_edges =
    [(StCreated, StInitializing), (StCreated, StRestoring),
     (StInitializing, StReady), (StRestoring, StReady),
     (StReady, StProposing), (StReady, StRolloutQueueing), (StReady, StRolloutRunning),
     (StReady, StEvaluating), (StReady, StCheckpointing), (StReady, StCompleted),
     (StProposing, StTrialQueueing), (StProposing, StRolloutQueueing),
     (StProposing, StEvaluating), (StProposing, StReady),
     (StTrialQueueing, StRolloutQueueing), (StTrialQueueing, StProposing),
     (StRolloutQueueing, StRolloutRunning), (StRolloutQueueing, StEvaluating),
     (StRolloutQueueing, StReady),
     (StRolloutRunning, StRolloutQueueing), (StRolloutRunning, StAnnotating),
     (StRolloutRunning, StVerifying), (StRolloutRunning, StEvaluating),
     (StAnnotating, StVerifying), (StAnnotating, StEvaluating), (StAnnotating, StRolloutQueueing),
     (StVerifying, StEvaluating), (StVerifying, StRolloutQueueing),
     (StEvaluating, StReady), (StEvaluating, StProposing), (StEvaluating, StRolloutQueueing),
     (StEvaluating, StCheckpointing), (StEvaluating, StCompleted),
     (StCheckpointing, StReady), (StCheckpointing, StProposing), (StCheckpointing, StCompleted),
     (StWaitingHumanInput, StReady), (StWaitingHumanInput, StPaused),
     (StWaitingHumanInput, StProposing), (StPaused, StReady)]"

definition is_valid_transition ::
  "optimizer_run_state \<Rightarrow> optimizer_run_state \<Rightarrow> optimizer_transition_trigger \<Rightarrow> bool" where
  "is_valid_transition f t trigger =
     (if is_terminal f then False
      else if t = StFailed then trigger = FailureRaised
      else if t = StCancelled then trigger = CancelRequested
      else (f, t) \<in> set run_edges)"

record optimizer_transition =
  ot_run_id :: string
  ot_from :: optimizer_run_state
  ot_to :: optimizer_run_state
  ot_trigger :: optimizer_transition_trigger
  ot_message :: string
  ot_at :: string
  ot_details :: json_map

record optimizer_state_machine =
  sm_run_id :: string
  sm_state :: optimizer_run_state
  sm_history :: "optimizer_transition list"

definition state_machine_new :: "string \<Rightarrow> optimizer_state_machine" where
  "state_machine_new run_id = \<lparr>sm_run_id = run_id, sm_state = StCreated, sm_history = []\<rparr>"

definition transition ::
  "string \<Rightarrow> optimizer_run_state \<Rightarrow> optimizer_transition_trigger \<Rightarrow> string \<Rightarrow> json_map \<Rightarrow>
   optimizer_state_machine \<Rightarrow> optimizer_state_machine \<times> optimizer_transition result" where
  "transition now to trigger message details m =
     (let from = sm_state m in
      if \<not> is_valid_transition from to trigger
      then (m, Inl (StateTransition (run_state_str from) (run_state_str to) (run_trigger_str trigger)))
      else let t = \<lparr>ot_run_id = sm_run_id m, ot_from = from, ot_to = to, ot_trigger = trigger,
                    ot_message = message, ot_at = now, ot_details = details\<rparr>
           in (m\<lparr>sm_state := to, sm_history := sm_history m @ [t]\<rparr>, Inr t))"

subsection \<open>Machines that a run can be in\<close>

inductive run_machine :: "string \<Rightarrow> optimizer_state_machine \<Rightarrow> bool" for run_id where
  start: "run_machine run_id (state_machine_new run_id)"
| step: "run_machine run_id m \<Longrightarrow> run_machine run_id (fst (transition now to trigger message details m))"

definition edge_of :: "optimizer_transition \<Rightarrow>
  optimizer_run_state \<times> optimizer_run_state \<times> optimizer_transition_trigger" where
  "edge_of t = (ot_from t, ot_to t, ot_trigger t)"

definition machine_wf :: "string \<Rightarrow> optimizer_state_machine \<Rightarrow> bool" where
  "machine_wf run_id m \<longleftrightarrow> sm_run_id m = run_id \<and> list_all (\<lambda>t. ot_run_id t = run_id) (sm_history m) \<and>
     valid_path is_valid_transition StCreated (map edge_of (sm_history m)) (sm_state m)"

interpretation run: guarded_machine StCreated is_valid_transition is_terminal
  by unfold_locales (simp add: is_valid_transition_def)

lemma transition_ok_iff:
  "(\<exists>t. snd (transition now to trigger message details m) = Inr t) \<longleftrightarrow>
     is_valid_transition (sm_state m) to trigger"
  by (simp add: transition_def Let_def)

lemma machine_wf_transition:
  "machine_wf run_id m \<Longrightarrow> machine_wf run_id (fst (transition now to trigger message details m))"
  by (auto simp: machine_wf_def transition_def Let_def edge_of_def)

lemma run_machine_wf: "run_machine run_id m \<Longrightarrow> machine_wf run_id m"
proof (induction rule: run_machine.induct)
  case start
  show ?case by (simp add: machine_wf_def state_machine_new_def)
next
  case (step m)
  then show ?case by (simp add: machine_wf_transition)
qed

lemma run_state_str_inj: "run_state_str s = run_state_str s' \<longleftrightarrow> s = s'"
  by (cases s; cases s'; simp)

text \<open>The states that the guard admits from \<open>StCreated\<close> onwards exclude the two interactive ones.\<close>

lemma noninteractive_closed:
  "f \<in> - {StWaitingHumanInput, StPaused} \<Longrightarrow> is_valid_transition f t g \<Longrightarrow>
     t \<in> - {StWaitingHumanInput, StPaused}"
  by (auto simp: is_valid_transition_def run_edges_def split: if_splits)

lemma run_machine_noninteractive:
  assumes "run_machine run_id m"
  shows "sm_state m \<notin> {StWaitingHumanInput, StPaused}"
proof -
  have "valid_path is_valid_transition StCreated (map edge_of (sm_history m)) (sm_state m)"
    using run_machine_wf [OF assms] by (simp add: machine_wf_def)
  from valid_path_closed [OF noninteractive_closed this] show ?thesis
    by auto
qed

subsection \<open>Completion is always within reach\<close>

fun to_completion :: "optimizer_run_state \<Rightarrow> optimizer_run_state list" where
  "to_completion StCreated = [StInitializing, StReady, StCompleted]"
| "to_completion StEvaluating = [StCompleted]"
| "to_completion StCheckpointing = [StCompleted]"
| "to_completion StReady = [StCompleted]"
| "to_completion StTrialQueueing = [StRolloutQueueing, StReady, StCompleted]"
| "to_completion StRolloutRunning = [StEvaluating, StCompleted]"
| "to_completion StAnnotating = [StEvaluating, StCompleted]"
| "to_completion StVerifying = [StEvaluating, StCompleted]"
| "to_completion StCompleted = []"
| "to_completion _ = [StReady, StCompleted]"

definition drive :: "optimizer_state_machine \<Rightarrow> optimizer_run_state list \<Rightarrow> optimizer_state_machine" where
  "drive m route = fold (\<lambda>s m. fst (transition [] s RunCompleted [] [] m)) route m"

lemma drive_to_completion:
  "\<not> is_terminal (sm_state m) \<Longrightarrow> sm_state (drive m (to_completion (sm_state m))) = StCompleted"
  by (cases "sm_state m")
     (simp_all add: drive_def transition_def Let_def is_valid_transition_def is_terminal_def run_edges_def)

lemma length_to_completion: "length (to_completion s) \<le> 3"
  by (cases s) simp_all

subsection \<open>Properties\<close>

text \<open>
  C20. The history of a run machine, whatever transitions are requested of it (accepted or refused),
  is a path of the guard that starts in \<open>created\<close> and ends in the current state, and every entry
  carries the run's id.
\<close>
theorem run_history_is_path:
  assumes "run_machine run_id m"
  shows "sm_run_id m = run_id \<and> (\<forall>t \<in> set (sm_history m). ot_run_id t = run_id) \<and>
    valid_path is_valid_transition StCreated (map edge_of (sm_history m)) (sm_state m)"
  using run_machine_wf [OF assms] by (auto simp: machine_wf_def list_all_iff)

theorem run_history_is_path_witness:
  "let m = fst (transition ''t1'' StReady ContainerReady ''ready'' []
                 (fst (transition ''t0'' StInitializing RunStarted ''start'' [] (state_machine_new ''r1''))))
   in valid_path is_valid_transition StCreated (map edge_of (sm_history m)) StReady"
proof -
  let ?m = "fst (transition ''t1'' StReady ContainerReady ''ready'' []
    (fst (transition ''t0'' StInitializing RunStarted ''start'' [] (state_machine_new ''r1''))))"
  have "sm_state ?m = StReady"
    by code_simp
  moreover have "run_machine ''r1'' ?m"
    by (intro run_machine.intros)
  ultimately show ?thesis
    using run_history_is_path [of "''r1''" ?m] by (simp add: Let_def)
qed

text \<open>
  Once a run is completed, failed or cancelled, every requested transition is refused with the
  state-transition error and the machine stays exactly as it is.
\<close>
theorem terminal_run_is_final:
  assumes "is_terminal (sm_state m)"
  shows "transition now to trigger message details m =
    (m, Inl (StateTransition (run_state_str (sm_state m)) (run_state_str to) (run_trigger_str trigger)))"
  using run.terminal_stuck [OF assms] by (simp add: transition_def Let_def)

theorem terminal_run_is_final_witness:
  "let m = fst (transition ''t'' StFailed FailureRaised ''boom'' [] (state_machine_new ''r1''))
   in transition ''t'' StReady RunStarted ''again'' [] m =
        (m, Inl (StateTransition ''failed'' ''ready'' ''run_started''))"
proof -
  let ?m = "fst (transition ''t'' StFailed FailureRaised ''boom'' [] (state_machine_new ''r1''))"
  have "sm_state ?m = StFailed"
    by code_simp
  then show ?thesis
    using terminal_run_is_final [of ?m "''t''" StReady RunStarted] by (simp add: Let_def is_terminal_def)
qed

text \<open>
  No run can be stuck: from every state that is not terminal some sequence of at most three
  transitions, each accepted by \<open>transition\<close>, leads to \<open>completed\<close>.
\<close>
theorem completion_within_three:
  assumes "\<not> is_terminal (sm_state m)"
  shows "\<exists>route. length route \<le> 3 \<and> sm_state (drive m route) = StCompleted \<and>
    length (sm_history (drive m route)) = length (sm_history m) + length route"
proof (intro exI conjI)
  show "length (sm_history (drive m (to_completion (sm_state m)))) =
      length (sm_history m) + length (to_completion (sm_state m))"
    using assms by (cases "sm_state m")
     (simp_all add: drive_def transition_def Let_def is_valid_transition_def is_terminal_def run_edges_def)
qed (use assms in \<open>simp_all add: drive_to_completion length_to_completion\<close>)

theorem completion_within_three_witness:
  "\<exists>route. length route \<le> 3 \<and> sm_state (drive (state_machine_new ''r1'') route) = StCompleted \<and>
    length (sm_history (drive (state_machine_new ''r1'') route)) = length route"
  using completion_within_three [of "state_machine_new ''r1''"]
  by (simp add: state_machine_new_def is_terminal_def)

text \<open>
  \<open>waiting_human_input\<close> and \<open>paused\<close> are states of a run and have outgoing transitions, but no
  run ever enters them.
\<close>
theorem interactive_states_unreachable:
  assumes "run_machine run_id m"
  shows "sm_state m \<noteq> StWaitingHumanInput \<and> sm_state m \<noteq> StPaused"
  using run_machine_noninteractive [OF assms] by simp

theorem interactive_states_unreachable_witness:
  "sm_state (fst (transition ''t'' StPaused PauseRequested ''p'' [] (state_machine_new ''r1''))) \<noteq> StPaused"
  using interactive_states_unreachable [OF run_machine.step [OF run_machine.start [of "''r1''"]]] by simp

end
