(* ===== verification/Transition_Log.thy ===== *)
theory Transition_Log
  imports Machine_Interface "HOL-Library.Multiset"
begin

text \<open>
  \<open>fsm.rs\<close>: the append-only transition log and the entity machines that write it. The trait
  \<open>StateMachineEntity\<close> is a record of its associated functions (\<open>entity\<close>), the table
  \<open>transitions\<close> is a list of stored rows, and \<open>serde_json\<close>'s text form of the metadata column is
  the parameter \<open>json_codec\<close>. SQLite gives a row without an explicit \<open>seq\<close> the largest one
  plus one; I/O errors of the database and a poisoned mutex are not represented.

  The guard and the insertion of \<open>transition_entity_at\<close> are two critical sections in the source;
  \<open>check_transition\<close> and \<open>record\<close> are these two steps.
\<close>

subsection \<open>Rows and entities\<close>

record json_codec =
  jc_to_string :: "json \<Rightarrow> string"
  jc_from_str :: "string \<Rightarrow> string + json"

record transition_row =
  tr_seq :: int
  tr_ts_unix_ms :: int
  tr_entity_type :: string
  tr_entity_id :: string
  tr_from_state :: "string option"
  tr_to_state :: string
  tr_trigger :: string
  tr_generation :: "int option"
  tr_parent_id :: "string option"
  tr_metadata :: json

record transition_input =
  ti_ts_unix_ms :: "int option"
  ti_entity_type :: string
  ti_entity_id :: string
  ti_from_state :: "string option"
  ti_to_state :: string
  ti_trigger :: string
  ti_generation :: "int option"
  ti_parent_id :: "string option"
  ti_metadata :: json

text \<open>A stored row: the columns of the table, with the metadata as text.\<close>

record stored_row =
  sr_seq :: int
  sr_ts_unix_ms :: int
  sr_entity_type :: string
  sr_entity_id :: string
  sr_from_state :: "string option"
  sr_to_state :: string
  sr_trigger :: string
  sr_generation :: "int option"
  sr_parent_id :: "string option"
  sr_metadata :: string

type_synonym transition_log = "stored_row list"

record ('s, 't) entity =
  ENTITY_TYPE :: string
  initial_state :: 's
  state_name :: "'s \<Rightarrow> string"
  state_from_name :: "string \<Rightarrow> 's option"
  trigger_name :: "'t \<Rightarrow> string"
  transition_allowed :: "'s \<Rightarrow> 's \<Rightarrow> 't \<Rightarrow> bool"

subsection \<open>TransitionLog and TransitionSink\<close>

fun read_rows :: "json_codec \<Rightarrow> stored_row list \<Rightarrow> transition_row list result" where
  "read_rows c [] = Inr []"
| "read_rows c (r # rs) =
     (case jc_from_str c (sr_metadata r) of
        Inl e \<Rightarrow> Inl (JsonError e)
      | Inr metadata \<Rightarrow>
          (case read_rows c rs of
             Inl e \<Rightarrow> Inl e
           | Inr rows \<Rightarrow>
               Inr (\<lparr>tr_seq = sr_seq r, tr_ts_unix_ms = sr_ts_unix_ms r,
                     tr_entity_type = sr_entity_type r, tr_entity_id = sr_entity_id r,
                     tr_from_state = sr_from_state r, tr_to_state = sr_to_state r,
                     tr_trigger = sr_trigger r, tr_generation = sr_generation r,
                     tr_parent_id = sr_parent_id r, tr_metadata = metadata\<rparr> # rows)))"

text \<open>A log file that does not exist (\<open>None\<close>) is read as the empty log.\<close>

definition read_path :: "json_codec \<Rightarrow> transition_log option \<Rightarrow> transition_row list result" where
  "read_path c file =
     (case file of None \<Rightarrow> Inr [] | Some tlog \<Rightarrow> read_rows c (sort_key sr_seq tlog))"

definition next_seq :: "transition_log \<Rightarrow> int" where
  "next_seq tlog = foldr (\<lambda>r m. max (sr_seq r) m) tlog 0 + 1"

definition record_row :: "json_codec \<Rightarrow> int \<Rightarrow> transition_input \<Rightarrow> transition_log \<Rightarrow>
  transition_log \<times> transition_row" where
  "record_row c now input tlog =
     (let metadata_json = jc_to_string c (ti_metadata input);
          ts = unwrap_or now (ti_ts_unix_ms input);
          seq = next_seq tlog
      in (tlog @ [\<lparr>sr_seq = seq, sr_ts_unix_ms = ts, sr_entity_type = ti_entity_type input,
                  sr_entity_id = ti_entity_id input, sr_from_state = ti_from_state input,
                  sr_to_state = ti_to_state input, sr_trigger = ti_trigger input,
                  sr_generation = ti_generation input, sr_parent_id = ti_parent_id input,
                  sr_metadata = metadata_json\<rparr>],
          \<lparr>tr_seq = seq, tr_ts_unix_ms = ts, tr_entity_type = ti_entity_type input,
           tr_entity_id = ti_entity_id input, tr_from_state = ti_from_state input,
           tr_to_state = ti_to_state input, tr_trigger = ti_trigger input,
           tr_generation = ti_generation input, tr_parent_id = ti_parent_id input,
           tr_metadata = ti_metadata input\<rparr>))"

definition entity_rows :: "string \<Rightarrow> string \<Rightarrow> transition_log \<Rightarrow> stored_row list" where
  "entity_rows entity_type entity_id tlog =
     filter (\<lambda>r. sr_entity_type r = entity_type \<and> sr_entity_id r = entity_id) tlog"

definition latest_state :: "string \<Rightarrow> string \<Rightarrow> transition_log \<Rightarrow> string option" where
  "latest_state entity_type entity_id tlog =
     (case sort_key (\<lambda>r. - sr_seq r) (entity_rows entity_type entity_id tlog) of
        [] \<Rightarrow> None | r # _ \<Rightarrow> Some (sr_to_state r))"

definition check_transition ::
  "('s, 't) entity \<Rightarrow> string \<Rightarrow> 's \<Rightarrow> 't \<Rightarrow> transition_log \<Rightarrow> 's option result" where
  "check_transition E entity_id to trigger tlog =
     (case latest_state (ENTITY_TYPE E) entity_id tlog of
        Some name \<Rightarrow>
          (case state_from_name E name of
             None \<Rightarrow> Inl (Invariant (''transition log contains unknown '' @ ENTITY_TYPE E @
                       '' state '' @ str_debug name @ '' for entity '' @ entity_id))
           | Some from \<Rightarrow>
               if \<not> transition_allowed E from to trigger
               then Inl (StateTransition (state_name E from) (state_name E to) (trigger_name E trigger))
               else Inr (Some from))
      | None \<Rightarrow>
          if to \<noteq> initial_state E
          then Inl (StateTransition ''<missing>'' (state_name E to) (trigger_name E trigger))
          else Inr None)"

definition transition_input_for ::
  "('s, 't) entity \<Rightarrow> int option \<Rightarrow> string \<Rightarrow> 's option \<Rightarrow> 's \<Rightarrow> 't \<Rightarrow> int option \<Rightarrow> string option \<Rightarrow>
   json \<Rightarrow> transition_input" where
  "transition_input_for E ts entity_id from to trigger gen parent metadata =
     \<lparr>ti_ts_unix_ms = ts, ti_entity_type = ENTITY_TYPE E, ti_entity_id = entity_id,
      ti_from_state = map_option (state_name E) from, ti_to_state = state_name E to,
      ti_trigger = trigger_name E trigger, ti_generation = gen, ti_parent_id = parent,
      ti_metadata = metadata\<rparr>"

definition transition_entity_at ::
  "json_codec \<Rightarrow> int \<Rightarrow> ('s, 't) entity \<Rightarrow> int option \<Rightarrow> string \<Rightarrow> 's \<Rightarrow> 't \<Rightarrow> int option \<Rightarrow>
   string option \<Rightarrow> json \<Rightarrow> transition_log \<Rightarrow> transition_log \<times> transition_row result" where
  "transition_entity_at c now E ts entity_id to trigger gen parent metadata tlog =
     (case check_transition E entity_id to trigger tlog of
        Inl e \<Rightarrow> (tlog, Inl e)
      | Inr from \<Rightarrow>
          (let (tlog', row) = record_row c now
                 (transition_input_for E ts entity_id from to trigger gen parent metadata) tlog
           in (tlog', Inr row)))"

definition transition_entity ::
  "json_codec \<Rightarrow> int \<Rightarrow> ('s, 't) entity \<Rightarrow> string \<Rightarrow> 's \<Rightarrow> 't \<Rightarrow> int option \<Rightarrow> string option \<Rightarrow> json \<Rightarrow>
   transition_log \<Rightarrow> transition_log \<times> transition_row result" where
  "transition_entity c now E entity_id to trigger gen parent metadata tlog =
     transition_entity_at c now E None entity_id to trigger gen parent metadata tlog"

subsection \<open>EntityMachine\<close>

record 's entity_machine =
  em_entity_id :: string
  em_state :: 's
  em_generation :: "int option"
  em_parent_id :: "string option"

definition entity_create ::
  "json_codec \<Rightarrow> int \<Rightarrow> ('s, 't) entity \<Rightarrow> string \<Rightarrow> 't \<Rightarrow> int option \<Rightarrow> string option \<Rightarrow> json \<Rightarrow>
   transition_log \<Rightarrow> transition_log \<times> 's entity_machine result" where
  "entity_create c now E entity_id trigger gen parent metadata tlog =
     (let state = initial_state E in
      case transition_entity c now E entity_id state trigger gen parent metadata tlog of
        (tlog', Inl e) \<Rightarrow> (tlog', Inl e)
      | (tlog', Inr _) \<Rightarrow>
          (tlog', Inr \<lparr>em_entity_id = entity_id, em_state = state, em_generation = gen,
                      em_parent_id = parent\<rparr>))"

definition entity_transition ::
  "json_codec \<Rightarrow> int \<Rightarrow> ('s, 't) entity \<Rightarrow> 's \<Rightarrow> 't \<Rightarrow> json \<Rightarrow> 's entity_machine \<times> transition_log \<Rightarrow>
   ('s entity_machine \<times> transition_log) \<times> transition_row result" where
  "entity_transition c now E to trigger metadata st =
     (case st of (m, tlog) \<Rightarrow>
       (case transition_entity c now E (em_entity_id m) to trigger (em_generation m) (em_parent_id m)
               metadata tlog of
          (tlog', Inl e) \<Rightarrow> ((m, tlog'), Inl e)
        | (tlog', Inr row) \<Rightarrow> ((m\<lparr>em_state := to\<rparr>, tlog'), Inr row)))"

subsection \<open>Order of the log\<close>

definition log_sorted :: "transition_log \<Rightarrow> bool" where
  "log_sorted tlog \<longleftrightarrow> sorted_wrt (<) (map sr_seq tlog) \<and> list_all (\<lambda>r. 0 < sr_seq r) tlog"

lemma next_seq_greater: "r \<in> set tlog \<Longrightarrow> sr_seq r < next_seq tlog"
  by (induction tlog) (auto simp: next_seq_def)

lemma next_seq_pos: "0 < next_seq tlog"
  by (induction tlog) (auto simp: next_seq_def)

lemma record_row_log:
  "\<exists>r. fst (record_row c now i tlog) = tlog @ [r] \<and> sr_seq r = next_seq tlog \<and>
     sr_entity_type r = ti_entity_type i \<and> sr_entity_id r = ti_entity_id i \<and>
     sr_from_state r = ti_from_state i \<and> sr_to_state r = ti_to_state i \<and>
     sr_trigger r = ti_trigger i \<and> sr_metadata r = jc_to_string c (ti_metadata i)"
  by (simp add: record_row_def Let_def)

lemma log_sorted_record_row: "log_sorted tlog \<Longrightarrow> log_sorted (fst (record_row c now i tlog))"
  using next_seq_greater next_seq_pos
  by (fastforce simp: log_sorted_def record_row_def Let_def sorted_wrt_append)

lemma log_sorted_Nil [simp, intro]: "log_sorted []"
  by (simp add: log_sorted_def)

lemma sorted_neg_rev:
  "sorted_wrt (<) (map sr_seq rs) \<Longrightarrow> sorted (map (\<lambda>r. - sr_seq r) (rev rs))"
  by (induction rs) (auto simp: sorted_append less_imp_le)

lemma sort_key_neg_rev:
  assumes "sorted_wrt (<) (map sr_seq rs)"
  shows "sort_key (\<lambda>r. - sr_seq r) rs = rev rs"
proof (rule sort_key_inj_key_eq)
  show "inj_on (\<lambda>r. - sr_seq r) (set rs)"
    using assms strict_sorted_iff [of "map sr_seq rs"] by (simp add: distinct_map inj_on_def)
qed (use assms sorted_neg_rev in auto)

lemma sorted_entity_rows:
  "log_sorted tlog \<Longrightarrow> sorted_wrt (<) (map sr_seq (entity_rows ty i tlog))"
  by (simp add: log_sorted_def entity_rows_def sorted_wrt_map sorted_wrt_filter)

text \<open>On a sorted log the latest state of an entity is that of its last row.\<close>

lemma latest_state_last:
  assumes "log_sorted tlog"
  shows "latest_state ty i tlog =
    (let rs = entity_rows ty i tlog in if rs = [] then None else Some (sr_to_state (last rs)))"
  unfolding latest_state_def sort_key_neg_rev [OF sorted_entity_rows [OF assms]]
  by (cases "entity_rows ty i tlog" rule: rev_cases) auto

lemma entity_rows_append: "entity_rows ty i (xs @ ys) = entity_rows ty i xs @ entity_rows ty i ys"
  by (simp add: entity_rows_def)

subsection \<open>The rows of one entity\<close>

text \<open>
  \<open>valid_rows E a rs b\<close>: the rows \<open>rs\<close> lead the entity from \<open>a\<close> (\<open>None\<close> before its first
  row) to \<open>b\<close>, each one named after states and a trigger that the guard of \<open>E\<close> admits, the first
  one entering the initial state.
\<close>

inductive valid_rows :: "('s, 't) entity \<Rightarrow> 's option \<Rightarrow> stored_row list \<Rightarrow> 's option \<Rightarrow> bool" for E where
  empty: "valid_rows E a [] a"
| snoc: "valid_rows E a rs b \<Longrightarrow>
     sr_from_state r = map_option (state_name E) b \<Longrightarrow>
     sr_to_state r = state_name E t \<Longrightarrow> sr_trigger r = trigger_name E g \<Longrightarrow>
     (case b of None \<Rightarrow> t = initial_state E | Some f \<Rightarrow> transition_allowed E f t g) \<Longrightarrow>
     valid_rows E a (rs @ [r]) (Some t)"

inductive_cases valid_rows_snocE: "valid_rows E a (rs @ [r]) b"

lemma valid_rows_last:
  "valid_rows E None rs b \<Longrightarrow>
     (if rs = [] then None else Some (sr_to_state (last rs))) = map_option (state_name E) b"
  by (erule valid_rows.cases) auto

lemma valid_rows_latest:
  "log_sorted tlog \<Longrightarrow> valid_rows E None (entity_rows (ENTITY_TYPE E) i tlog) b \<Longrightarrow>
     latest_state (ENTITY_TYPE E) i tlog = map_option (state_name E) b"
  by (simp add: latest_state_last Let_def valid_rows_last)

text \<open>The log is in order and has led entity \<open>i\<close> to \<open>b\<close>.\<close>

definition entity_at :: "('s, 't) entity \<Rightarrow> string \<Rightarrow> 's option \<Rightarrow> transition_log \<Rightarrow> bool" where
  "entity_at E i b tlog \<longleftrightarrow> log_sorted tlog \<and> valid_rows E None (entity_rows (ENTITY_TYPE E) i tlog) b"

lemma entity_at_latest:
  "entity_at E i b tlog \<Longrightarrow> latest_state (ENTITY_TYPE E) i tlog = map_option (state_name E) b"
  by (simp add: entity_at_def valid_rows_latest)

lemma entity_at_fresh:
  "log_sorted tlog \<Longrightarrow> entity_rows (ENTITY_TYPE E) i tlog = [] \<Longrightarrow> entity_at E i None tlog"
  by (simp add: entity_at_def valid_rows.empty)

definition may_enter :: "('s, 't) entity \<Rightarrow> 's option \<Rightarrow> 's \<Rightarrow> 't \<Rightarrow> bool" where
  "may_enter E b t g \<longleftrightarrow> (case b of None \<Rightarrow> t = initial_state E | Some f \<Rightarrow> transition_allowed E f t g)"

text \<open>The interface the log relies on: the guard and the readable names of an entity.\<close>

locale logged_entity =
  named_machine "initial_state E" "transition_allowed E" terminal "state_name E" "state_from_name E"
  for E :: "('s, 't) entity" and terminal :: "'s \<Rightarrow> bool"
begin

lemma check_from:
  assumes "entity_at E i b tlog"
  shows "check_transition E i to trigger tlog =
    (if may_enter E b to trigger then Inr b
     else Inl (StateTransition (case b of None \<Rightarrow> ''<missing>'' | Some f \<Rightarrow> state_name E f)
            (state_name E to) (trigger_name E trigger)))"
  using entity_at_latest [OF assms]
  by (cases b) (simp_all add: check_transition_def from_name may_enter_def)

text \<open>On a log whose rows are valid, the only refusals are transitions that the guard forbids.\<close>

lemma step_rejected:
  assumes "entity_at E i b tlog" and "\<not> may_enter E b to trigger"
  shows "transition_entity_at c now E ts i to trigger gen parent md tlog =
    (tlog, Inl (StateTransition (case b of None \<Rightarrow> ''<missing>'' | Some f \<Rightarrow> state_name E f)
            (state_name E to) (trigger_name E trigger)))"
  using assms by (simp add: transition_entity_at_def check_from)

lemma step_ok:
  assumes at: "entity_at E i b tlog" and ok: "may_enter E b to trigger"
  shows "\<exists>tlog' row. transition_entity_at c now E ts i to trigger gen parent md tlog = (tlog', Inr row) \<and>
           entity_at E i (Some to) tlog'"
proof -
  let ?i = "transition_input_for E ts i b to trigger gen parent md"
  let ?l = "fst (record_row c now ?i tlog)"
  have "transition_entity_at c now E ts i to trigger gen parent md tlog =
      (?l, Inr (snd (record_row c now ?i tlog)))"
    using assms by (simp add: transition_entity_at_def check_from case_prod_beta)
  moreover have "log_sorted ?l"
    using at by (simp add: entity_at_def log_sorted_record_row)
  moreover have "valid_rows E None (entity_rows (ENTITY_TYPE E) i ?l) (Some to)"
  proof -
    obtain r where "?l = tlog @ [r]" "sr_entity_type r = ENTITY_TYPE E" "sr_entity_id r = i"
      "sr_from_state r = map_option (state_name E) b" "sr_to_state r = state_name E to"
      "sr_trigger r = trigger_name E trigger"
      using record_row_log [of c now ?i tlog] by (auto simp: transition_input_for_def)
    with at ok show ?thesis
      by (auto simp: entity_at_def may_enter_def entity_rows_def intro: valid_rows.snoc)
  qed
  ultimately show ?thesis
    by (auto simp: entity_at_def)
qed

lemma terminal_rejects:
  assumes "entity_at E i (Some f) tlog" and "terminal f"
  shows "transition_entity_at c now E ts i to trigger gen parent md tlog =
     (tlog, Inl (StateTransition (state_name E f) (state_name E to) (trigger_name E trigger)))"
  using step_rejected [OF assms(1)] terminal_stuck [OF assms(2)] by (simp add: may_enter_def)

text \<open>Every call leaves the entity it is made for on a valid path.\<close>

lemma step_keeps_path:
  assumes "entity_at E i b tlog"
  shows "\<exists>b'. entity_at E i b' (fst (transition_entity_at c now E ts i to trigger gen parent md tlog))"
proof (cases "may_enter E b to trigger")
  case True
  then show ?thesis
    using step_ok [OF assms True, of c now ts gen parent md] by (metis fst_conv)
next
  case False
  then show ?thesis
    using assms by (auto simp: step_rejected)
qed

end

text \<open>Facts about every write of the log, whatever the entity.\<close>

lemma transition_entity_error_keeps:
  "transition_entity_at c now E ts i to trigger gen parent md tlog = (tlog', Inl e) \<Longrightarrow> tlog' = tlog"
  by (auto simp: transition_entity_at_def split: sum.splits prod.splits)

lemma log_sorted_transition_entity:
  "log_sorted tlog \<Longrightarrow>
     log_sorted (fst (transition_entity_at c now E ts i to trigger gen parent md tlog))"
  by (auto simp: transition_entity_at_def case_prod_beta Let_def log_sorted_record_row split: sum.splits)

lemma transition_entity_frame:
  "(ty, j) \<noteq> (ENTITY_TYPE E, i) \<Longrightarrow>
     entity_rows ty j (fst (transition_entity_at c now E ts i to trigger gen parent md tlog)) =
     entity_rows ty j tlog"
  by (auto simp: transition_entity_at_def record_row_def Let_def entity_rows_append
      transition_input_for_def split: sum.splits) (auto simp: entity_rows_def)

lemma entity_at_frame:
  "(ENTITY_TYPE E', j) \<noteq> (ENTITY_TYPE E, i) \<Longrightarrow> entity_at E' j b tlog \<Longrightarrow>
     entity_at E' j b (fst (transition_entity_at c now E ts i to trigger gen parent md tlog))"
  by (simp add: entity_at_def log_sorted_transition_entity transition_entity_frame)

text \<open>Every entity of a type is on a valid path.\<close>

definition on_path :: "('s, 't) entity \<Rightarrow> transition_log \<Rightarrow> bool" where
  "on_path E tlog \<longleftrightarrow> (\<forall>i. \<exists>b. entity_at E i b tlog)"

lemma on_path_Nil: "on_path E []"
  by (auto simp: on_path_def entity_rows_def intro!: exI entity_at_fresh)

lemma on_path_other:
  "ENTITY_TYPE E \<noteq> ENTITY_TYPE E' \<Longrightarrow> on_path E tlog \<Longrightarrow>
     on_path E (fst (transition_entity_at c now E' ts j to trigger gen parent md tlog))"
  unfolding on_path_def by (metis entity_at_frame prod.inject)

lemma entity_at_record_other:
  "entity_at E i b tlog \<Longrightarrow> ti_entity_type input \<noteq> ENTITY_TYPE E \<Longrightarrow>
     entity_at E i b (fst (record_row c now input tlog))"
  using log_sorted_record_row record_row_log [of c now input tlog]
  by (auto simp: entity_at_def entity_rows_def)

lemma on_path_record_other:
  "ti_entity_type input \<noteq> ENTITY_TYPE E \<Longrightarrow> on_path E tlog \<Longrightarrow>
     on_path E (fst (record_row c now input tlog))"
  unfolding on_path_def by (metis entity_at_record_other)

context logged_entity
begin

lemma on_path_own:
  assumes "on_path E tlog"
  shows "on_path E (fst (transition_entity_at c now E ts j to trigger gen parent md tlog))"
  unfolding on_path_def
proof
  fix i
  obtain b where "entity_at E i b tlog"
    using assms by (auto simp: on_path_def)
  then show "\<exists>b. entity_at E i b (fst (transition_entity_at c now E ts j to trigger gen parent md tlog))"
    by (cases "i = j") (simp add: step_keeps_path, intro exI, rule entity_at_frame, simp_all)
qed

end

subsection \<open>Reading the log back\<close>

lemma read_rows_append:
  "read_rows c rs = Inr xs \<Longrightarrow> read_rows c ss = Inr ys \<Longrightarrow> read_rows c (rs @ ss) = Inr (xs @ ys)"
  by (induction rs arbitrary: xs) (auto split: sum.splits)

lemma sort_key_log_sorted: "log_sorted tlog \<Longrightarrow> sort_key sr_seq tlog = tlog"
  unfolding log_sorted_def
  by (metis sorted_sort_id sort_key_inj_key_eq strict_sorted_iff distinct_map)

lemma read_path_record_row:
  assumes "log_sorted tlog" and "read_path c (Some tlog) = Inr rows"
    and codec: "\<And>v. jc_from_str c (jc_to_string c v) = Inr v"
  shows "read_path c (Some (fst (record_row c now i tlog))) = Inr (rows @ [snd (record_row c now i tlog)])"
proof -
  have "read_rows c tlog = Inr rows"
    using assms(1,2) by (simp add: read_path_def sort_key_log_sorted)
  moreover have "sort_key sr_seq (fst (record_row c now i tlog)) = fst (record_row c now i tlog)"
    using assms(1) log_sorted_record_row sort_key_log_sorted by blast
  ultimately show ?thesis
    by (simp add: read_path_def) (auto simp: record_row_def Let_def codec intro!: read_rows_append)
qed

end
