(* ===== verification/Gepa_Machines.thy ===== *)
theory Gepa_Machines
  imports Transition_Log
begin

text \<open>
  \<open>machines.rs\<close> of the GEPA crate: the candidate, rollout and proposer-round machines, each an
  \<open>entity\<close> of the transition log, and the code of \<open>lib.rs\<close> that drives them
  (\<open>record_candidate_transition\<close>, \<open>record_proposer_round_started\<close>,
  \<open>record_proposer_round_completed\<close>, \<open>record_rollout_transition_span\<close>). The guards admit, besides
  their table, a repetition of every non-terminal state under any trigger.
\<close>

subsection \<open>CandidateEntity\<close>

datatype candidate_state =
    CsRegistered | CsMinibatchEvaluating | CsMinibatchEvaluated | CsAcceptedMinibatch
  | CsRejectedMinibatch | CsFullTrainEvaluating | CsFullTrainEvaluated | CsAccepted
  | CsRejectedFullTrain | CsRejectedLeakage | CsDeferredBudget | CsHeldoutEvaluating
  | CsHeldoutScored | CsArchived

datatype candidate_trigger =
    CtRegistered | CtEvaluationStarted | CtEvaluationFinished | CtMinibatchAccepted
  | CtMinibatchRejected | CtFullTrainAccepted | CtFullTrainRejected | CtLeakageDetected
  | CtDeferredBudget | CtHeldoutStarted | CtHeldoutFinished | CtArchived

fun candidate_state_name :: "candidate_state \<Rightarrow> string" where
  "candidate_state_name CsRegistered = ''registered''"
| "candidate_state_name CsMinibatchEvaluating = ''minibatch_evaluating''"
| "candidate_state_name CsMinibatchEvaluated = ''minibatch_evaluated''"
| "candidate_state_name CsAcceptedMinibatch = ''accepted_minibatch''"
| "candidate_state_name CsRejectedMinibatch = ''rejected_minibatch''"
| "candidate_state_name CsFullTrainEvaluating = ''full_train_evaluating''"
| "candidate_state_name CsFullTrainEvaluated = ''full_train_evaluated''"
| "candidate_state_name CsAccepted = ''accepted''"
| "candidate_state_name CsRejectedFullTrain = ''rejected_full_train''"
| "candidate_state_name CsRejectedLeakage = ''rejected_leakage''"
| "candidate_state_name CsDeferredBudget = ''deferred_budget''"
| "candidate_state_name CsHeldoutEvaluating = ''heldout_evaluating''"
| "candidate_state_name CsHeldoutScored = ''heldout_scored''"
| "candidate_state_name CsArchived = ''archived''"

definition candidate_state_from_name :: "string \<Rightarrow> candidate_state option" where
  "candidate_state_from_name name =
     (if name = ''registered'' then Some CsRegistered
      else if name = ''minibatch_evaluating'' then Some CsMinibatchEvaluating
      else if name = ''minibatch_evaluated'' then Some CsMinibatchEvaluated
      else if name = ''accepted_minibatch'' then Some CsAcceptedMinibatch
      else if name = ''rejected_minibatch'' then Some CsRejectedMinibatch
      else if name = ''full_train_evaluating'' then Some CsFullTrainEvaluating
      else if name = ''full_train_evaluated'' then Some CsFullTrainEvaluated
      else if name = ''accepted'' then Some CsAccepted
      else if name = ''rejected_full_train'' then Some CsRejectedFullTrain
      else if name = ''rejected_leakage'' then Some CsRejectedLeakage
      else if name = ''deferred_budget'' then Some CsDeferredBudget
      else if name = ''heldout_evaluating'' then Some CsHeldoutEvaluating
      else if name = ''heldout_scored'' then Some CsHeldoutScored
      else if name = ''archived'' then Some CsArchived
      else None)"

fun candidate_trigger_name :: "candidate_trigger \<Rightarrow> string" where
  "candidate_trigger_name CtRegistered = ''registered''"
| "candidate_trigger_name CtEvaluationStarted = ''evaluation_started''"
| "candidate_trigger_name CtEvaluationFinished = ''evaluation_finished''"
| "candidate_trigger_name CtMinibatchAccepted = ''minibatch_accepted''"
| "candidate_trigger_name CtMinibatchRejected = ''minibatch_rejected''"
| "candidate_trigger_name CtFullTrainAccepted = ''full_train_accepted''"
| "candidate_trigger_name CtFullTrainRejected = ''full_train_rejected''"
| "candidate_trigger_name CtLeakageDetected = ''leakage_detected''"
| "candidate_trigger_name CtDeferredBudget = ''deferred_budget''"
| "candidate_trigger_name CtHeldoutStarted = ''heldout_started''"
| "candidate_trigger_name CtHeldoutFinished = ''heldout_finished''"
| "candidate_trigger_name CtArchived = ''archived''"

definition candidate_terminal :: "candidate_state \<Rightarrow> bool" where
  "candidate_terminal s \<longleftrightarrow> s \<in> set [CsArchived]"

definition candidate_edges :: "(candidate_state \<times> candidate_state \<times> candidate_trigger) list" where
  "candidate_edges =
    [(CsRegistered, CsMinibatchEvaluating, CtEvaluationStarted),
     (CsRegistered, CsFullTrainEvaluating, CtEvaluationStarted),
     (CsRegistered, CsDeferredBudget, CtDeferredBudget), (CsRegistered, CsArchived, CtArchived),
     (CsRegistered, CsRejectedLeakage, CtLeakageDetected),
     (CsMinibatchEvaluating, CsMinibatchEvaluated, CtEvaluationFinished),
     (CsMinibatchEvaluated, CsAcceptedMinibatch, CtMinibatchAccepted),
     (CsMinibatchEvaluated, CsRejectedMinibatch, CtMinibatchRejected),
     (CsMinibatchEvaluated, CsDeferredBudget, CtDeferredBudget),
     (CsAcceptedMinibatch, CsFullTrainEvaluating, CtEvaluationStarted),
     (CsAcceptedMinibatch, CsDeferredBudget, CtDeferredBudget),
     (CsFullTrainEvaluating, CsFullTrainEvaluated, CtEvaluationFinished),
     (CsFullTrainEvaluated, CsAccepted, CtFullTrainAccepted),
     (CsFullTrainEvaluated, CsRejectedFullTrain, CtFullTrainRejected),
     (CsAccepted, CsHeldoutEvaluating, CtHeldoutStarted),
     (CsRejectedFullTrain, CsHeldoutEvaluating, CtHeldoutStarted),
     (CsHeldoutEvaluating, CsHeldoutScored, CtHeldoutFinished),
     (CsHeldoutScored, CsAccepted, CtFullTrainAccepted),
     (CsDeferredBudget, CsArchived, CtArchived), (CsRejectedMinibatch, CsArchived, CtArchived),
     (CsRejectedFullTrain, CsArchived, CtArchived), (CsRejectedLeakage, CsArchived, CtArchived),
     (CsAccepted, CsArchived, CtArchived)]"

definition candidate_transition_allowed ::
  "candidate_state \<Rightarrow> candidate_state \<Rightarrow> candidate_trigger \<Rightarrow> bool" where
  "candidate_transition_allowed f t trigger =
     (if candidate_terminal f then False else if f = t then True else (f, t, trigger) \<in> set candidate_edges)"

definition candidate_entity :: "(candidate_state, candidate_trigger) entity" where
  "candidate_entity =
     \<lparr>ENTITY_TYPE = ''candidate'', initial_state = CsRegistered, state_name = candidate_state_name,
      state_from_name = candidate_state_from_name, trigger_name = candidate_trigger_name,
      transition_allowed = candidate_transition_allowed\<rparr>"

subsection \<open>RolloutEntity\<close>

datatype rollout_state =
    RsQueued | RsRunning | RsCompleted | RsFailed | RsCached | RsCancelled

datatype rollout_trigger =
    RtScheduled | RtStarted | RtSucceeded | RtFailed | RtCacheHit | RtCancelled

fun rollout_state_name :: "rollout_state \<Rightarrow> string" where
  "rollout_state_name RsQueued = ''queued''"
| "rollout_state_name RsRunning = ''running''"
| "rollout_state_name RsCompleted = ''completed''"
| "rollout_state_name RsFailed = ''failed''"
| "rollout_state_name RsCached = ''cached''"
| "rollout_state_name RsCancelled = ''cancelled''"

definition rollout_state_from_name :: "string \<Rightarrow> rollout_state option" where
  "rollout_state_from_name name =
     (if name = ''queued'' then Some RsQueued
      else if name = ''running'' then Some RsRunning
      else if name = ''completed'' then Some RsCompleted
      else if name = ''failed'' then Some RsFailed
      else if name = ''cached'' then Some RsCached
      else if name = ''cancelled'' then Some RsCancelled
      else None)"

fun rollout_trigger_name :: "rollout_trigger \<Rightarrow> string" where
  "rollout_trigger_name RtScheduled = ''scheduled''"
| "rollout_trigger_name RtStarted = ''started''"
| "rollout_trigger_name RtSucceeded = ''succeeded''"
| "rollout_trigger_name RtFailed = ''failed''"
| "rollout_trigger_name RtCacheHit = ''cache_hit''"
| "rollout_trigger_name RtCancelled = ''cancelled''"

definition rollout_terminal :: "rollout_state \<Rightarrow> bool" where
  "rollout_terminal s \<longleftrightarrow> s \<in> set [RsCompleted, RsFailed, RsCached, RsCancelled]"

definition rollout_edges :: "(rollout_state \<times> rollout_state \<times> rollout_trigger) list" where
  "rollout_edges =
    [(RsQueued, RsRunning, RtStarted), (RsQueued, RsCached, RtCacheHit),
     (RsQueued, RsCancelled, RtCancelled), (RsRunning, RsCompleted, RtSucceeded),
     (RsRunning, RsFailed, RtFailed), (RsRunning, RsCached, RtCacheHit),
     (RsRunning, RsCancelled, RtCancelled)]"

definition rollout_transition_allowed ::
  "rollout_state \<Rightarrow> rollout_state \<Rightarrow> rollout_trigger \<Rightarrow> bool" where
  "rollout_transition_allowed f t trigger =
     (if rollout_terminal f then False else if f = t then True else (f, t, trigger) \<in> set rollout_edges)"

definition rollout_entity :: "(rollout_state, rollout_trigger) entity" where
  "rollout_entity =
     \<lparr>ENTITY_TYPE = ''rollout'', initial_state = RsQueued, state_name = rollout_state_name,
      state_from_name = rollout_state_from_name, trigger_name = rollout_trigger_name,
      transition_allowed = rollout_transition_allowed\<rparr>"

subsection \<open>ProposerRoundEntity\<close>

datatype proposer_round_state =
    PsRequested | PsDispatched | PsGenerating | PsReturned | PsParsedOk | PsParseFailed
  | PsClosed

datatype proposer_round_trigger =
    PtRequested | PtDispatched | PtGenerationStarted | PtGenerationReturned | PtParsed
  | PtParseFailed | PtClosed

fun proposer_round_state_name :: "proposer_round_state \<Rightarrow> string" where
  "proposer_round_state_name PsRequested = ''requested''"
| "proposer_round_state_name PsDispatched = ''dispatched''"
| "proposer_round_state_name PsGenerating = ''generating''"
| "proposer_round_state_name PsReturned = ''returned''"
| "proposer_round_state_name PsParsedOk = ''parsed_ok''"
| "proposer_round_state_name PsParseFailed = ''parse_failed''"
| "proposer_round_state_name PsClosed = ''closed''"

definition proposer_round_state_from_name :: "string \<Rightarrow> proposer_round_state option" where
  "proposer_round_state_from_name name =
     (if name = ''requested'' then Some PsRequested
      else if name = ''dispatched'' then Some PsDispatched
      else if name = ''generating'' then Some PsGenerating
      else if name = ''returned'' then Some PsReturned
      else if name = ''parsed_ok'' then Some PsParsedOk
      else if name = ''parse_failed'' then Some PsParseFailed
      else if name = ''closed'' then Some PsClosed
      else None)"

fun proposer_round_trigger_name :: "proposer_round_trigger \<Rightarrow> string" where
  "proposer_round_trigger_name PtRequested = ''requested''"
| "proposer_round_trigger_name PtDispatched = ''dispatched''"
| "proposer_round_trigger_name PtGenerationStarted = ''generation_started''"
| "proposer_round_trigger_name PtGenerationReturned = ''generation_returned''"
| "proposer_round_trigger_name PtParsed = ''parsed''"
| "proposer_round_trigger_name PtParseFailed = ''parse_failed''"
| "proposer_round_trigger_name PtClosed = ''closed''"

definition proposer_round_terminal :: "proposer_round_state \<Rightarrow> bool" where
  "proposer_round_terminal s \<longleftrightarrow> s \<in> set [PsClosed]"

definition proposer_round_edges :: "(proposer_round_state \<times> proposer_round_state \<times> proposer_round_trigger) list" where
  "proposer_round_edges =
    [(PsRequested, PsDispatched, PtDispatched),
     (PsDispatched, PsGenerating, PtGenerationStarted),
     (PsGenerating, PsReturned, PtGenerationReturned), (PsReturned, PsParsedOk, PtParsed),
     (PsReturned, PsParseFailed, PtParseFailed), (PsParsedOk, PsClosed, PtClosed),
     (PsParseFailed, PsClosed, PtClosed)]"

definition proposer_round_transition_allowed ::
  "proposer_round_state \<Rightarrow> proposer_round_state \<Rightarrow> proposer_round_trigger \<Rightarrow> bool" where
  "proposer_round_transition_allowed f t trigger =
     (if proposer_round_terminal f then False else if f = t then True else (f, t, trigger) \<in> set proposer_round_edges)"

definition proposer_round_entity :: "(proposer_round_state, proposer_round_trigger) entity" where
  "proposer_round_entity =
     \<lparr>ENTITY_TYPE = ''proposer_round'', initial_state = PsRequested, state_name = proposer_round_state_name,
      state_from_name = proposer_round_state_from_name, trigger_name = proposer_round_trigger_name,
      transition_allowed = proposer_round_transition_allowed\<rparr>"

subsection \<open>lib.rs: the writers of the log\<close>

definition i64_max :: int where
  "i64_max = 2 ^ 63 - 1"

definition usize_to_i64 :: "usize \<Rightarrow> int" where
  "usize_to_i64 v = min (uint v) i64_max"

definition seconds_to_millis :: "f64 \<Rightarrow> int" where
  "seconds_to_millis s =
     (if \<not> is_finite s \<or> f64_le s f64_zero then 0
      else case f64_mul s (f64_lit 1000) of
             F64_Fin _ m \<Rightarrow> min i64_max \<lfloor>m + 1 / 2\<rfloor> | F64_Inf _ \<Rightarrow> i64_max | F64_NaN \<Rightarrow> 0)"

text \<open>\<open>i64::saturating_sub\<close>.\<close>

definition i64_saturating_sub :: "int \<Rightarrow> int \<Rightarrow> int" where
  "i64_saturating_sub a b = max (- (2 ^ 63)) (min i64_max (a - b))"

definition record_candidate_transition ::
  "json_codec \<Rightarrow> int \<Rightarrow> string \<Rightarrow> string option \<Rightarrow> usize \<Rightarrow> candidate_state \<Rightarrow> candidate_trigger \<Rightarrow>
   json \<Rightarrow> (transition_log, unit) op" where
  "record_candidate_transition c now candidate_id parent_id gen to trigger metadata =
     then_do (transition_entity c now candidate_entity candidate_id to trigger
                (Some (usize_to_i64 gen)) parent_id metadata)
       (\<lambda>_. return_ok ())"

definition record_candidate_registered ::
  "json_codec \<Rightarrow> int \<Rightarrow> string \<Rightarrow> string option \<Rightarrow> usize option \<Rightarrow> json \<Rightarrow> (transition_log, unit) op" where
  "record_candidate_registered c now candidate_id parent_id gen metadata =
     then_do (transition_entity c now candidate_entity candidate_id CsRegistered CtRegistered
                (map_option usize_to_i64 gen) parent_id metadata)
       (\<lambda>_. return_ok ())"

definition stage_transition :: "string \<Rightarrow> (candidate_state \<times> candidate_trigger) option" where
  "stage_transition stage =
     (if stage = ''seed_full_train'' then Some (CsFullTrainEvaluating, CtEvaluationStarted)
      else if stage = ''candidate_minibatch'' then Some (CsMinibatchEvaluating, CtEvaluationStarted)
      else if stage = ''candidate_full_train'' then Some (CsFullTrainEvaluating, CtEvaluationStarted)
      else if stage = ''heldout'' then Some (CsHeldoutEvaluating, CtHeldoutStarted)
      else None)"

definition record_candidate_evaluation_started_from_details ::
  "json_codec \<Rightarrow> int \<Rightarrow> json \<Rightarrow> (transition_log, unit) op" where
  "record_candidate_evaluation_started_from_details c now details tlog =
     (case Option.bind (json_get details ''stage'') as_str of
        None \<Rightarrow> (tlog, Inr ())
      | Some stage \<Rightarrow>
          (case Option.bind (json_get details ''candidate_id'') as_str of
             None \<Rightarrow> (tlog, Inr ())
           | Some candidate_id \<Rightarrow>
               (let gen = unwrap_or 0 (Option.bind (json_get details ''generation'') as_u64) in
                case stage_transition stage of
                  None \<Rightarrow> (tlog, Inr ())
                | Some (to, trigger) \<Rightarrow>
                    if latest_state (ENTITY_TYPE candidate_entity) candidate_id tlog =
                         Some (candidate_state_name to)
                    then (tlog, Inr ())
                    else record_candidate_transition c now candidate_id None gen to trigger details tlog)))"

definition proposer_step ::
  "json_codec \<Rightarrow> int \<Rightarrow> string \<Rightarrow> int option \<Rightarrow> string option \<Rightarrow> json \<Rightarrow>
   proposer_round_state \<Rightarrow> proposer_round_trigger \<Rightarrow> (transition_log, transition_row) op" where
  "proposer_step c now job_id gen parent metadata to trigger =
     transition_entity c now proposer_round_entity job_id to trigger gen parent metadata"

text \<open>\<open>clk k\<close> is the clock reading of the \<open>k\<close>-th write.\<close>

definition proposer_round_opening ::
  "json_codec \<Rightarrow> (nat \<Rightarrow> int) \<Rightarrow> string \<Rightarrow> int option \<Rightarrow> string option \<Rightarrow> json \<Rightarrow> (transition_log, unit) op" where
  "proposer_round_opening c clk job_id gen parent metadata =
     then_do (proposer_step c (clk 0) job_id gen parent metadata PsRequested PtRequested)
      (\<lambda>_. then_do (proposer_step c (clk 1) job_id gen parent metadata PsDispatched PtDispatched)
      (\<lambda>_. then_do (proposer_step c (clk 2) job_id gen parent metadata PsGenerating PtGenerationStarted)
      (\<lambda>_. return_ok ())))"

definition record_proposer_round_started ::
  "json_codec \<Rightarrow> (nat \<Rightarrow> int) \<Rightarrow> string \<Rightarrow> usize \<Rightarrow> string \<Rightarrow> json \<Rightarrow> (transition_log, unit) op" where
  "record_proposer_round_started c clk job_id gen parent_candidate_id metadata =
     proposer_round_opening c clk job_id (Some (usize_to_i64 gen)) (Some parent_candidate_id) metadata"

definition record_proposer_round_completed ::
  "json_codec \<Rightarrow> (nat \<Rightarrow> int) \<Rightarrow> string \<Rightarrow> usize option \<Rightarrow> string option \<Rightarrow> usize \<Rightarrow> json \<Rightarrow>
   (transition_log, unit) op" where
  "record_proposer_round_completed c clk job_id gen0 parent proposal_count metadata tlog =
     (let gen = map_option usize_to_i64 gen0;
          parse_state = (if 0 < proposal_count then PsParsedOk else PsParseFailed);
          parse_trigger = (if 0 < proposal_count then PtParsed else PtParseFailed)
      in then_do (if latest_state (ENTITY_TYPE proposer_round_entity) job_id tlog = None
                  then proposer_round_opening c clk job_id gen parent metadata
                  else return_ok ())
          (\<lambda>_. then_do (proposer_step c (clk 3) job_id gen parent metadata PsReturned PtGenerationReturned)
          (\<lambda>_. then_do (proposer_step c (clk 4) job_id gen parent metadata parse_state parse_trigger)
          (\<lambda>_. then_do (proposer_step c (clk 5) job_id gen parent metadata PsClosed PtClosed)
          (\<lambda>_. return_ok ())))) tlog)"

definition rollout_step ::
  "json_codec \<Rightarrow> int \<Rightarrow> string \<Rightarrow> int option \<Rightarrow> string \<Rightarrow> json \<Rightarrow> rollout_state \<Rightarrow> rollout_trigger \<Rightarrow>
   (transition_log, transition_row) op" where
  "rollout_step c ts rollout_id gen candidate_id metadata to trigger =
     transition_entity_at c 0 rollout_entity (Some ts) rollout_id to trigger gen (Some candidate_id) metadata"

definition rollout_id_of :: "string \<Rightarrow> usize \<Rightarrow> string" where
  "rollout_id_of job_id index = job_id @ '':rollout:'' @ pad_zeros 4 (show_word index)"

definition record_rollout_transition_span ::
  "json_codec \<Rightarrow> string \<Rightarrow> usize option \<Rightarrow> string \<Rightarrow> string option \<Rightarrow> usize \<Rightarrow> string \<Rightarrow> string \<Rightarrow> string \<Rightarrow>
   bool \<Rightarrow> f64 \<Rightarrow> f64 \<Rightarrow> f64 option \<Rightarrow> json \<Rightarrow> int \<Rightarrow> (transition_log, unit) op" where
  "record_rollout_transition_span c model active_generation job_id runtime_effect_id index candidate_id
     stage example_id cache_hit dispatch_wall_seconds job_wall_seconds cost_usd usage end_ms =
     (let duration_ms = seconds_to_millis (f64_max dispatch_wall_seconds f64_zero);
          start_ms = i64_saturating_sub end_ms (max duration_ms 1);
          gen = map_option usize_to_i64 active_generation;
          rollout_id = rollout_id_of job_id index;
          metadata = JObj (obj_of
            [(''job_id'', JStr job_id), (''runtime_effect_id'', json_str_opt runtime_effect_id),
             (''candidate_id'', JStr candidate_id), (''stage'', JStr stage),
             (''example_id'', JStr example_id), (''cache_hit'', JBool cache_hit),
             (''dispatch_wall_seconds'', json_f64 dispatch_wall_seconds),
             (''job_wall_seconds'', json_f64 job_wall_seconds),
             (''cost_usd'', case cost_usd of None \<Rightarrow> JNull | Some v \<Rightarrow> json_f64 v),
             (''usage'', usage), (''model'', JStr model)])
      in then_do (rollout_step c start_ms rollout_id gen candidate_id metadata RsQueued RtScheduled)
          (\<lambda>_. if cache_hit
               then then_do (rollout_step c end_ms rollout_id gen candidate_id metadata RsCached RtCacheHit)
                      (\<lambda>_. return_ok ())
               else then_do (rollout_step c start_ms rollout_id gen candidate_id metadata RsRunning RtStarted)
                (\<lambda>_. then_do (rollout_step c end_ms rollout_id gen candidate_id metadata RsCompleted RtSucceeded)
                (\<lambda>_. return_ok ()))))"

subsection \<open>The machines implement the interface of the log\<close>

lemmas gepa_entity_defs = candidate_entity_def rollout_entity_def proposer_round_entity_def
lemmas gepa_guard_defs =
  candidate_transition_allowed_def candidate_terminal_def candidate_edges_def
  rollout_transition_allowed_def rollout_terminal_def rollout_edges_def
  proposer_round_transition_allowed_def proposer_round_terminal_def proposer_round_edges_def

lemma candidate_from_name: "candidate_state_from_name (candidate_state_name s) = Some s"
  by (cases s) (simp_all add: candidate_state_from_name_def)

lemma rollout_from_name: "rollout_state_from_name (rollout_state_name s) = Some s"
  by (cases s) (simp_all add: rollout_state_from_name_def)

lemma proposer_round_from_name: "proposer_round_state_from_name (proposer_round_state_name s) = Some s"
  by (cases s) (simp_all add: proposer_round_state_from_name_def)

interpretation cand: logged_entity candidate_entity candidate_terminal
  by unfold_locales (simp_all add: candidate_entity_def candidate_transition_allowed_def candidate_from_name)

interpretation roll: logged_entity rollout_entity rollout_terminal
  by unfold_locales (simp_all add: rollout_entity_def rollout_transition_allowed_def rollout_from_name)

interpretation prnd: logged_entity proposer_round_entity proposer_round_terminal
  by unfold_locales
    (simp_all add: proposer_round_entity_def proposer_round_transition_allowed_def proposer_round_from_name)

lemma entity_types_distinct:
  "ENTITY_TYPE candidate_entity \<noteq> ENTITY_TYPE rollout_entity"
  "ENTITY_TYPE candidate_entity \<noteq> ENTITY_TYPE proposer_round_entity"
  "ENTITY_TYPE rollout_entity \<noteq> ENTITY_TYPE proposer_round_entity"
  by (simp_all add: gepa_entity_defs)

lemma entity_types_not_run:
  "ENTITY_TYPE candidate_entity \<noteq> ''run''" "ENTITY_TYPE rollout_entity \<noteq> ''run''"
  "ENTITY_TYPE proposer_round_entity \<noteq> ''run''"
  by (simp_all add: gepa_entity_defs)

subsection \<open>Logs that a run writes\<close>

text \<open>A codec for concrete examples, on logs whose metadata is \<open>null\<close>.\<close>

definition plain_codec :: json_codec where
  "plain_codec = \<lparr>jc_to_string = (\<lambda>_. ''null''), jc_from_str = (\<lambda>_. Inr JNull)\<rparr>"

text \<open>
  The writes of a run: a transition of one of the three entities, or a row of the run machine itself
  (\<open>transition_run\<close> calls \<open>record\<close> with entity type \<open>run\<close>).
\<close>

inductive gepa_log :: "json_codec \<Rightarrow> transition_log \<Rightarrow> bool" for c where
  empty: "gepa_log c []"
| candidate: "gepa_log c tlog \<Longrightarrow>
    gepa_log c (fst (transition_entity_at c now candidate_entity ts i to trigger gen parent md tlog))"
| rollout: "gepa_log c tlog \<Longrightarrow>
    gepa_log c (fst (transition_entity_at c now rollout_entity ts i rto rtrigger gen parent md tlog))"
| proposer: "gepa_log c tlog \<Longrightarrow>
    gepa_log c (fst (transition_entity_at c now proposer_round_entity ts i pto ptrigger gen parent md tlog))"
| run: "gepa_log c tlog \<Longrightarrow> ti_entity_type input = ''run'' \<Longrightarrow>
    gepa_log c (fst (record_row c now input tlog))"

definition log_valid :: "transition_log \<Rightarrow> bool" where
  "log_valid tlog \<longleftrightarrow>
     on_path candidate_entity tlog \<and> on_path rollout_entity tlog \<and> on_path proposer_round_entity tlog"

lemma log_valid_gepa: "gepa_log c tlog \<Longrightarrow> log_valid tlog"
  by (induction rule: gepa_log.induct)
     (use entity_types_distinct entity_types_not_run in
      \<open>auto simp: log_valid_def intro: on_path_Nil on_path_other on_path_record_other
         cand.on_path_own roll.on_path_own prnd.on_path_own\<close>)

subsection \<open>The recorded workflows\<close>

lemma may_enter_None [simp]: "may_enter E None t g \<longleftrightarrow> t = initial_state E"
  by (simp add: may_enter_def)

lemma may_enter_Some [simp]: "may_enter E (Some f) t g \<longleftrightarrow> transition_allowed E f t g"
  by (simp add: may_enter_def)

lemma proposer_step_ok:
  "entity_at proposer_round_entity i b tlog \<Longrightarrow> may_enter proposer_round_entity b to trigger \<Longrightarrow>
     \<exists>tlog' row. proposer_step c now i gen parent md to trigger tlog = (tlog', Inr row) \<and>
       entity_at proposer_round_entity i (Some to) tlog'"
  unfolding proposer_step_def transition_entity_def by (rule prnd.step_ok)

lemma rollout_step_ok:
  "entity_at rollout_entity i b tlog \<Longrightarrow> may_enter rollout_entity b to trigger \<Longrightarrow>
     \<exists>tlog' row. rollout_step c ts i gen cid md to trigger tlog = (tlog', Inr row) \<and>
       entity_at rollout_entity i (Some to) tlog'"
  unfolding rollout_step_def by (rule roll.step_ok)

lemmas proposer_guards = proposer_round_entity_def proposer_round_transition_allowed_def
  proposer_round_terminal_def proposer_round_edges_def
lemmas rollout_guards = rollout_entity_def rollout_transition_allowed_def
  rollout_terminal_def rollout_edges_def

lemma proposer_round_opening_ok:
  assumes "entity_at proposer_round_entity i None tlog"
  shows "\<exists>tlog'. proposer_round_opening c clk i gen parent md tlog = (tlog', Inr ()) \<and>
           entity_at proposer_round_entity i (Some PsGenerating) tlog'"
  unfolding proposer_round_opening_def
  by (rule then_do_step, rule proposer_step_ok [OF assms], simp add: proposer_guards,
      rule then_do_step, erule proposer_step_ok, simp add: proposer_guards,
      rule then_do_step, erule proposer_step_ok, simp add: proposer_guards,
      simp add: return_ok_def)

lemma proposer_round_completed_ok:
  assumes "entity_at proposer_round_entity i b tlog" and "b \<in> {None, Some PsGenerating}"
  shows "\<exists>tlog'. record_proposer_round_completed c clk i gen parent n md tlog = (tlog', Inr ()) \<and>
           entity_at proposer_round_entity i (Some PsClosed) tlog'"
proof -
  let ?open = "if latest_state (ENTITY_TYPE proposer_round_entity) i tlog = None
    then proposer_round_opening c clk i (map_option usize_to_i64 gen) parent md else return_ok ()"
  have "\<exists>tlog' x. ?open tlog = (tlog', Inr x) \<and> entity_at proposer_round_entity i (Some PsGenerating) tlog'"
    using assms entity_at_latest [OF assms(1)]
    by (auto simp: return_ok_def intro!: proposer_round_opening_ok)
  then show ?thesis
    unfolding record_proposer_round_completed_def Let_def
    by (rule then_do_step)
       (rule then_do_step, erule proposer_step_ok, simp add: proposer_guards,
        rule then_do_step, erule proposer_step_ok, simp add: proposer_guards,
        rule then_do_step, erule proposer_step_ok, simp add: proposer_guards,
        simp add: return_ok_def)
qed

lemma rollout_span_ok:
  assumes "entity_at rollout_entity (rollout_id_of job idx) None tlog"
  shows "\<exists>tlog'. record_rollout_transition_span c model ag job re idx cid stage ex hit dws jws cost usage
             end_ms tlog = (tlog', Inr ()) \<and>
           entity_at rollout_entity (rollout_id_of job idx) (Some (if hit then RsCached else RsCompleted)) tlog'"
proof (cases hit)
  case True
  show ?thesis
    unfolding record_rollout_transition_span_def Let_def
    by (rule then_do_step, rule rollout_step_ok [OF assms], simp add: rollout_guards, simp add: True,
        rule then_do_step, erule rollout_step_ok, simp add: rollout_guards,
        simp add: return_ok_def)
next
  case False
  show ?thesis
    unfolding record_rollout_transition_span_def Let_def
    by (rule then_do_step, rule rollout_step_ok [OF assms], simp add: rollout_guards, simp add: False,
        rule then_do_step, erule rollout_step_ok, simp add: rollout_guards,
        rule then_do_step, erule rollout_step_ok, simp add: rollout_guards,
        simp add: return_ok_def)
qed

text \<open>The time span of a rollout is never empty or negative, as long as the clock is in range.\<close>

lemma i64_saturating_sub_less:
  "0 < d \<Longrightarrow> d \<le> i64_max \<Longrightarrow> 0 \<le> e \<Longrightarrow> e \<le> i64_max \<Longrightarrow> i64_saturating_sub e d < e"
  by (simp add: i64_saturating_sub_def i64_max_def)

subsection \<open>Candidates\<close>

text \<open>
  States that only a full-train evaluation leads to: nothing outside this set enters it except
  through \<open>full_train_evaluating\<close>, and held-out evaluation lies inside it.
\<close>

definition after_full_train :: "candidate_state set" where
  "after_full_train = {CsFullTrainEvaluated, CsAccepted, CsRejectedFullTrain, CsHeldoutEvaluating, CsHeldoutScored}"

lemma enters_after_full_train:
  "candidate_transition_allowed f t g \<Longrightarrow> t \<in> after_full_train \<Longrightarrow> f \<notin> after_full_train \<Longrightarrow>
     f = CsFullTrainEvaluating \<and> t = CsFullTrainEvaluated"
  by (auto simp: candidate_transition_allowed_def candidate_edges_def after_full_train_def split: if_splits)

subsection \<open>Properties\<close>

text \<open>
  C21. In every log that a run can write, the rows of each candidate, rollout and proposer round form
  a path of that entity's guard: the first row enters the initial state, every later row starts in
  the state the previous one entered, and its trigger is admitted there.
\<close>
theorem gepa_log_rows_are_paths:
  assumes "gepa_log c tlog"
  shows "(\<exists>b. valid_rows candidate_entity None (entity_rows ''candidate'' i tlog) b) \<and>
    (\<exists>b. valid_rows rollout_entity None (entity_rows ''rollout'' i tlog) b) \<and>
    (\<exists>b. valid_rows proposer_round_entity None (entity_rows ''proposer_round'' i tlog) b)"
  using log_valid_gepa [OF assms]
  by (auto simp: log_valid_def on_path_def entity_at_def gepa_entity_defs)

theorem gepa_log_rows_are_paths_witness:
  "\<exists>b. valid_rows candidate_entity None
     (entity_rows ''candidate'' ''c1''
        (fst (transition_entity_at plain_codec 5 candidate_entity None ''c1'' CsRegistered CtRegistered
               (Some 0) None JNull []))) b"
  using gepa_log_rows_are_paths [OF gepa_log.candidate [OF gepa_log.empty]] by simp

text \<open>
  Completing a proposer round (\<open>record_proposer_round_completed\<close>) succeeds both for a job that
  was started before and for one the log has never seen, and closes the round.
\<close>
theorem proposer_round_completes:
  assumes "entity_at proposer_round_entity job_id b tlog" and "b = None \<or> b = Some PsGenerating"
  shows "\<exists>tlog'. record_proposer_round_completed c clk job_id gen parent n md tlog = (tlog', Inr ()) \<and>
    latest_state ''proposer_round'' job_id tlog' = Some ''closed''"
  using proposer_round_completed_ok [OF assms(1)] assms(2) entity_at_latest
  by (fastforce simp: proposer_round_entity_def)

theorem proposer_round_completes_witness:
  "\<exists>tlog'. record_proposer_round_completed plain_codec (\<lambda>k. int k) ''j1'' None None 0 JNull [] = (tlog', Inr ()) \<and>
    latest_state ''proposer_round'' ''j1'' tlog' = Some ''closed''"
  using proposer_round_completes [OF entity_at_fresh [OF log_sorted_Nil]]
  by (simp add: entity_rows_def)

text \<open>
  A rollout span is recorded once: for a job and index the log has not seen it succeeds and ends
  in \<open>cached\<close> or \<open>completed\<close>; recording the same job and index again is refused and leaves the log
  unchanged.
\<close>
theorem rollout_span_recorded_once:
  assumes "log_sorted tlog" and "entity_rows ''rollout'' (rollout_id_of job idx) tlog = []"
  shows "\<exists>tlog' st. record_rollout_transition_span c model ag job re idx cid stage ex hit dws jws cost usage
      end_ms tlog = (tlog', Inr ()) \<and>
    latest_state ''rollout'' (rollout_id_of job idx) tlog' = Some st \<and>
    st = (if hit then ''cached'' else ''completed'') \<and>
    record_rollout_transition_span c model' ag' job re' idx cid' stage' ex' hit' dws' jws' cost' usage'
      end_ms' tlog' = (tlog', Inl (StateTransition st ''queued'' ''scheduled''))"
proof -
  have fresh: "entity_at rollout_entity (rollout_id_of job idx) None tlog"
    using assms by (intro entity_at_fresh) (simp_all add: rollout_entity_def)
  let ?s = "if hit then RsCached else RsCompleted"
  obtain tlog' where 1: "record_rollout_transition_span c model ag job re idx cid stage ex hit dws jws cost
      usage end_ms tlog = (tlog', Inr ())"
    and 2: "entity_at rollout_entity (rollout_id_of job idx) (Some ?s) tlog'"
    using rollout_span_ok [OF fresh] by blast
  have "rollout_step c ts (rollout_id_of job idx) gen cid' md RsQueued RtScheduled tlog' =
      (tlog', Inl (StateTransition (rollout_state_name ?s) ''queued'' ''scheduled''))" for ts gen md
    using roll.terminal_rejects [OF 2, of c 0 "Some ts" RsQueued RtScheduled]
    by (simp add: rollout_step_def rollout_terminal_def rollout_entity_def)
  then have "record_rollout_transition_span c model' ag' job re' idx cid' stage' ex' hit' dws' jws' cost'
      usage' end_ms' tlog' = (tlog', Inl (StateTransition (rollout_state_name ?s) ''queued'' ''scheduled''))"
    unfolding record_rollout_transition_span_def Let_def by (simp add: then_do_def)
  with 1 entity_at_latest [OF 2] show ?thesis
    by (simp add: rollout_entity_def)
qed

theorem rollout_span_recorded_once_witness:
  "\<exists>tlog' st. record_rollout_transition_span plain_codec ''m'' None ''j1'' None 0 ''c1'' ''heldout'' ''ex'' False
      f64_zero f64_zero None JNull 1000 [] = (tlog', Inr ()) \<and>
    latest_state ''rollout'' (rollout_id_of ''j1'' 0) tlog' = Some st \<and> st = ''completed''"
  using rollout_span_recorded_once [OF log_sorted_Nil, of "''j1''" 0 plain_codec "''m''" None None "''c1''"
      "''heldout''" "''ex''" False f64_zero f64_zero None JNull 1000 "''m''" None None "''c1''"
      "''heldout''" "''ex''" False f64_zero f64_zero None JNull 1000]
  by (auto simp: entity_rows_def)

text \<open>
  The guard and the insertion of \<open>transition_entity_at\<close> hold the log's lock separately. When a
  second writer of the same rollout inserts between them, both transitions are accepted although
  the second would be refused on the log it is appended to: the rows are no longer a path.
\<close>
theorem check_then_record_races:
  "let l0 = fst (transition_entity_at plain_codec 1 rollout_entity None ''r'' RsQueued RtScheduled None None JNull []);
       chk1 = check_transition rollout_entity ''r'' RsCancelled RtCancelled l0;
       chk2 = check_transition rollout_entity ''r'' RsRunning RtStarted l0;
       l1 = fst (record_row plain_codec 2
              (transition_input_for rollout_entity None ''r'' (Some RsQueued) RsCancelled RtCancelled None None JNull) l0);
       l2 = fst (record_row plain_codec 3
              (transition_input_for rollout_entity None ''r'' (Some RsQueued) RsRunning RtStarted None None JNull) l1)
   in chk1 = Inr (Some RsQueued) \<and> chk2 = Inr (Some RsQueued) \<and>
      (\<nexists>b. valid_rows rollout_entity None (entity_rows ''rollout'' ''r'' l2) b)"
proof -
  define l0 where "l0 = fst (transition_entity_at plain_codec 1 rollout_entity None ''r'' RsQueued
    RtScheduled None None JNull [])"
  define l1 where "l1 = fst (record_row plain_codec 2 (transition_input_for rollout_entity None ''r''
    (Some RsQueued) RsCancelled RtCancelled None None JNull) l0)"
  define l2 where "l2 = fst (record_row plain_codec 3 (transition_input_for rollout_entity None ''r''
    (Some RsQueued) RsRunning RtStarted None None JNull) l1)"
  have chk: "check_transition rollout_entity ''r'' RsCancelled RtCancelled l0 = Inr (Some RsQueued)"
    "check_transition rollout_entity ''r'' RsRunning RtStarted l0 = Inr (Some RsQueued)"
    unfolding l0_def by code_simp+
  have frm: "map sr_from_state (entity_rows ''rollout'' ''r'' l2) = [None, Some ''queued'', Some ''queued'']"
    and tos: "map sr_to_state (entity_rows ''rollout'' ''r'' l2) = [''queued'', ''cancelled'', ''running'']"
    unfolding l2_def l1_def l0_def by code_simp+
  obtain r1 r2 r3 where rows: "entity_rows ''rollout'' ''r'' l2 = [r1, r2] @ [r3]"
    using frm by (auto simp: map_eq_Cons_conv)
  have "\<not> valid_rows rollout_entity None ([r1, r2] @ [r3]) b" for b
  proof
    assume "valid_rows rollout_entity None ([r1, r2] @ [r3]) b"
    then obtain f where v: "valid_rows rollout_entity None [r1, r2] f"
      and f: "sr_from_state r3 = map_option (state_name rollout_entity) f"
      by (rule valid_rows_snocE) auto
    have "Some (sr_to_state r2) = sr_from_state r3"
      using valid_rows_last [OF v] f by simp
    then show False
      using frm tos rows by simp
  qed
  then show ?thesis
    using chk unfolding rows [symmetric] by (simp add: Let_def l0_def l1_def l2_def)
qed

end
