(* ===== verification/Run_Limits.thy ===== *)
theory Run_Limits
  imports Optimizer_Error
begin

text \<open>
  \<open>limits.rs\<close>: the limits of a run, the budget ledger and the admission test of a runtime effect.
  The records keep the fields of the source, prefixed by the record they belong to; the
  \<open>.._Input\<close> structures, which only carry the arguments of a constructor, are the arguments of the
  corresponding \<open>.._from_input\<close> function. Time stamps (\<open>now_rfc3339()\<close>) are arguments.

  Counters are 64-bit words. \<open>breach_for_request\<close>, \<open>exceeded_limit\<close> and \<open>budget_ledger_status\<close> add
  what is spent and what is reserved with a plain \<open>+\<close>, which wraps; \<open>remaining_u64\<close> saturates.
\<close>

subsection \<open>Records\<close>

record run_limits_record =
  rl_schema_version :: string
  rl_run_limits_id :: string
  rl_run_id :: string
  rl_max_total_rollouts :: "u64 option"
  rl_max_cost_usd :: "f64 option"
  rl_max_time_seconds :: "u64 option"
  rl_max_prompt_tokens :: "u64 option"
  rl_max_completion_tokens :: "u64 option"
  rl_max_total_tokens :: "u64 option"
  rl_hard_limit :: bool
  rl_stop_policy :: string
  rl_metadata :: json_map
  rl_updated_at :: string

record run_limits_input =
  rli_run_id :: string
  rli_max_total_rollouts :: "u64 option"
  rli_max_cost_usd :: "f64 option"
  rli_max_time_seconds :: "u64 option"
  rli_max_prompt_tokens :: "u64 option"
  rli_max_completion_tokens :: "u64 option"
  rli_max_total_tokens :: "u64 option"
  rli_hard_limit :: bool
  rli_stop_policy :: string
  rli_metadata :: json_map

record budget_ledger_totals =
  bt_cost_usd :: "f64 option"
  bt_prompt_tokens :: u64
  bt_completion_tokens :: u64
  bt_total_tokens :: u64
  bt_rollouts :: u64
  bt_wall_seconds :: u64

record budget_estimate =
  es_max_cost_usd :: "f64 option"
  es_max_prompt_tokens :: "u64 option"
  es_max_completion_tokens :: "u64 option"
  es_max_total_tokens :: "u64 option"
  es_max_rollouts :: "u64 option"
  es_max_wall_seconds :: "u64 option"

record budget_ledger_snapshot =
  bl_run_id :: string
  bl_spent_cost_usd :: "f64 option"
  bl_reserved_cost_usd :: f64
  bl_spent_prompt_tokens :: u64
  bl_reserved_prompt_tokens :: u64
  bl_spent_completion_tokens :: u64
  bl_reserved_completion_tokens :: u64
  bl_spent_total_tokens :: u64
  bl_reserved_total_tokens :: u64
  bl_spent_rollouts :: u64
  bl_reserved_rollouts :: u64
  bl_spent_wall_seconds :: u64
  bl_reserved_wall_seconds :: u64
  bl_max_cost_usd :: "f64 option"
  bl_max_prompt_tokens :: "u64 option"
  bl_max_completion_tokens :: "u64 option"
  bl_max_total_tokens :: "u64 option"
  bl_max_total_rollouts :: "u64 option"
  bl_max_time_seconds :: "u64 option"
  bl_remaining_cost_usd :: "f64 option"
  bl_remaining_prompt_tokens :: "u64 option"
  bl_remaining_completion_tokens :: "u64 option"
  bl_remaining_total_tokens :: "u64 option"
  bl_remaining_rollouts :: "u64 option"
  bl_remaining_wall_seconds :: "u64 option"
  bl_hard_limit :: bool
  bl_status :: string
  bl_recorded_at :: string

record budget_limit_breach =
  lb_limit :: string
  lb_requested :: string
  lb_available :: string

record runtime_effect_admission_record =
  ad_schema_version :: string
  ad_admission_id :: string
  ad_run_id :: string
  ad_runtime_effect_id :: string
  ad_effect_kind :: string
  ad_lane :: string
  ad_subject_type :: string
  ad_subject_id :: string
  ad_idempotency_key :: string
  ad_status :: string
  ad_rejection_reason :: "string option"
  ad_estimate :: budget_estimate
  ad_ledger :: budget_ledger_snapshot
  ad_metadata :: json_map
  ad_checked_at :: string

record budget_reservation_record =
  rv_schema_version :: string
  rv_budget_reservation_id :: string
  rv_run_id :: string
  rv_runtime_effect_id :: string
  rv_status :: string
  rv_max_cost_usd :: "f64 option"
  rv_max_prompt_tokens :: "u64 option"
  rv_max_completion_tokens :: "u64 option"
  rv_max_total_tokens :: "u64 option"
  rv_max_rollouts :: "u64 option"
  rv_max_wall_seconds :: "u64 option"
  rv_metadata :: json_map
  rv_reserved_at :: string
  rv_updated_at :: string

record budget_commit_record =
  bc_schema_version :: string
  bc_budget_commit_id :: string
  bc_run_id :: string
  bc_runtime_effect_id :: string
  bc_budget_reservation_id :: string
  bc_cost_usd :: "f64 option"
  bc_prompt_tokens :: u64
  bc_completion_tokens :: u64
  bc_total_tokens :: u64
  bc_rollout_count :: u64
  bc_wall_seconds :: u64
  bc_metadata :: json_map
  bc_committed_at :: string

record budget_release_record =
  re_schema_version :: string
  re_budget_release_id :: string
  re_run_id :: string
  re_runtime_effect_id :: string
  re_budget_reservation_id :: string
  re_release_reason :: string
  re_released_cost_usd :: f64
  re_released_prompt_tokens :: u64
  re_released_completion_tokens :: u64
  re_released_total_tokens :: u64
  re_released_rollouts :: u64
  re_released_wall_seconds :: u64
  re_metadata :: json_map
  re_released_at :: string

subsection \<open>Estimates\<close>

definition positive_f64 :: "f64 option \<Rightarrow> f64 option" where
  "positive_f64 v = opt_filter (\<lambda>x. f64_lt f64_zero x) v"

definition requested_budget :: "budget_estimate \<Rightarrow> budget_ledger_totals" where
  "requested_budget e =
     (let prompt_tokens = unwrap_or 0 (es_max_prompt_tokens e);
          completion_tokens = unwrap_or 0 (es_max_completion_tokens e)
      in \<lparr>bt_cost_usd = Some (unwrap_or f64_zero (es_max_cost_usd e)),
          bt_prompt_tokens = prompt_tokens,
          bt_completion_tokens = completion_tokens,
          bt_total_tokens = unwrap_or (saturating_add prompt_tokens completion_tokens)
                              (es_max_total_tokens e),
          bt_rollouts = unwrap_or 0 (es_max_rollouts e),
          bt_wall_seconds = unwrap_or 0 (es_max_wall_seconds e)\<rparr>)"

definition estimate_error :: "string \<Rightarrow> string \<Rightarrow> string \<Rightarrow> optimizer_error" where
  "estimate_error run_id effect_kind limit =
     Config (''run_id='' @ run_id @ '' effect_kind='' @ effect_kind @
             '' requires positive budget estimate for '' @ limit)"

definition require_positive_u64_estimate :: "string \<Rightarrow> string \<Rightarrow> string \<Rightarrow> u64 option \<Rightarrow> unit result" where
  "require_positive_u64_estimate run_id effect_kind limit v =
     (if unwrap_or 0 v = 0 then Inl (estimate_error run_id effect_kind limit) else Inr ())"

definition require_positive_f64_estimate :: "string \<Rightarrow> string \<Rightarrow> string \<Rightarrow> f64 option \<Rightarrow> unit result" where
  "require_positive_f64_estimate run_id effect_kind limit v =
     (if f64_le (unwrap_or f64_zero v) f64_zero then Inl (estimate_error run_id effect_kind limit)
      else Inr ())"

text \<open>A sequence of checks that stops at the first error.\<close>

fun check_all :: "unit result list \<Rightarrow> unit result" where
  "check_all [] = Inr ()"
| "check_all (Inl e # cs) = Inl e"
| "check_all (Inr _ # cs) = check_all cs"

definition when_limited :: "'a option \<Rightarrow> unit result \<Rightarrow> unit result" where
  "when_limited limit check = (if limit = None then Inr () else check)"

definition estimated_total :: "budget_estimate \<Rightarrow> u64 option" where
  "estimated_total e =
     or_else (es_max_total_tokens e)
       (map_option (\<lambda>(a, b). saturating_add a b)
          (opt_zip (es_max_prompt_tokens e) (es_max_completion_tokens e)))"

definition validate_for_limits :: "string \<Rightarrow> string \<Rightarrow> run_limits_record \<Rightarrow> budget_estimate \<Rightarrow> unit result" where
  "validate_for_limits run_id effect_kind limits e =
     check_all
      [when_limited (rl_max_cost_usd limits)
         (require_positive_f64_estimate run_id effect_kind ''max_cost_usd'' (es_max_cost_usd e)),
       when_limited (rl_max_prompt_tokens limits)
         (require_positive_u64_estimate run_id effect_kind ''max_prompt_tokens'' (es_max_prompt_tokens e)),
       when_limited (rl_max_completion_tokens limits)
         (require_positive_u64_estimate run_id effect_kind ''max_completion_tokens''
            (es_max_completion_tokens e)),
       when_limited (rl_max_total_tokens limits)
         (require_positive_u64_estimate run_id effect_kind ''max_total_tokens'' (estimated_total e)),
       (if effect_kind = ''container_rollout'' then
          when_limited (rl_max_total_rollouts limits)
            (require_positive_u64_estimate run_id effect_kind ''max_total_rollouts'' (es_max_rollouts e))
        else Inr ()),
       when_limited (rl_max_time_seconds limits)
         (require_positive_u64_estimate run_id effect_kind ''max_time_seconds'' (es_max_wall_seconds e))]"

subsection \<open>Limits and the ledger\<close>

definition run_limits_from_input :: "string \<Rightarrow> run_limits_input \<Rightarrow> run_limits_record" where
  "run_limits_from_input now i =
     \<lparr>rl_schema_version = ''run_limits.v1'', rl_run_limits_id = ''run_limits_'' @ rli_run_id i,
      rl_run_id = rli_run_id i, rl_max_total_rollouts = rli_max_total_rollouts i,
      rl_max_cost_usd = positive_f64 (rli_max_cost_usd i),
      rl_max_time_seconds = rli_max_time_seconds i, rl_max_prompt_tokens = rli_max_prompt_tokens i,
      rl_max_completion_tokens = rli_max_completion_tokens i,
      rl_max_total_tokens = rli_max_total_tokens i, rl_hard_limit = rli_hard_limit i,
      rl_stop_policy = rli_stop_policy i, rl_metadata = rli_metadata i, rl_updated_at = now\<rparr>"

definition at_limit :: "u64 option \<Rightarrow> u64 \<Rightarrow> bool" where
  "at_limit limit current = (case limit of None \<Rightarrow> False | Some mx \<Rightarrow> mx \<le> current)"

definition cost_at_limit :: "f64 option \<Rightarrow> f64 option \<Rightarrow> f64 option \<Rightarrow> bool" where
  "cost_at_limit limit spent reserved =
     (case limit of None \<Rightarrow> False
      | Some mx \<Rightarrow> (case opt_zip spent reserved of None \<Rightarrow> False | Some (s, r) \<Rightarrow> f64_le mx (f64_add s r)))"

definition budget_ledger_status ::
  "run_limits_record \<Rightarrow> budget_ledger_totals \<Rightarrow> budget_ledger_totals \<Rightarrow> string" where
  "budget_ledger_status limits spent reserved =
     (let exhausted =
        at_limit (rl_max_total_rollouts limits) (bt_rollouts spent + bt_rollouts reserved) \<or>
        cost_at_limit (rl_max_cost_usd limits) (bt_cost_usd spent) (bt_cost_usd reserved) \<or>
        at_limit (rl_max_total_tokens limits) (bt_total_tokens spent + bt_total_tokens reserved) \<or>
        at_limit (rl_max_prompt_tokens limits) (bt_prompt_tokens spent + bt_prompt_tokens reserved) \<or>
        at_limit (rl_max_completion_tokens limits)
          (bt_completion_tokens spent + bt_completion_tokens reserved) \<or>
        at_limit (rl_max_time_seconds limits) (bt_wall_seconds spent + bt_wall_seconds reserved)
      in if rl_max_cost_usd limits \<noteq> None \<and> bt_cost_usd spent = None then ''unknown_cost''
         else if exhausted then ''exhausted'' else ''within_limits'')"

definition remaining_u64 :: "u64 option \<Rightarrow> u64 \<Rightarrow> u64 \<Rightarrow> u64 option" where
  "remaining_u64 mx spent reserved =
     map_option (\<lambda>limit. saturating_sub limit (saturating_add spent reserved)) mx"

definition from_totals ::
  "string \<Rightarrow> string \<Rightarrow> run_limits_record \<Rightarrow> budget_ledger_totals \<Rightarrow> budget_ledger_totals \<Rightarrow>
   budget_ledger_snapshot" where
  "from_totals now run_id limits spent reserved =
     \<lparr>bl_run_id = run_id,
      bl_spent_cost_usd = bt_cost_usd spent,
      bl_reserved_cost_usd = unwrap_or f64_zero (bt_cost_usd reserved),
      bl_spent_prompt_tokens = bt_prompt_tokens spent,
      bl_reserved_prompt_tokens = bt_prompt_tokens reserved,
      bl_spent_completion_tokens = bt_completion_tokens spent,
      bl_reserved_completion_tokens = bt_completion_tokens reserved,
      bl_spent_total_tokens = bt_total_tokens spent,
      bl_reserved_total_tokens = bt_total_tokens reserved,
      bl_spent_rollouts = bt_rollouts spent,
      bl_reserved_rollouts = bt_rollouts reserved,
      bl_spent_wall_seconds = bt_wall_seconds spent,
      bl_reserved_wall_seconds = bt_wall_seconds reserved,
      bl_max_cost_usd = rl_max_cost_usd limits,
      bl_max_prompt_tokens = rl_max_prompt_tokens limits,
      bl_max_completion_tokens = rl_max_completion_tokens limits,
      bl_max_total_tokens = rl_max_total_tokens limits,
      bl_max_total_rollouts = rl_max_total_rollouts limits,
      bl_max_time_seconds = rl_max_time_seconds limits,
      bl_remaining_cost_usd =
        Option.bind (rl_max_cost_usd limits)
          (\<lambda>mx. map_option (\<lambda>(s, r). f64_max (f64_sub (f64_sub mx s) r) f64_zero)
                  (opt_zip (bt_cost_usd spent) (bt_cost_usd reserved))),
      bl_remaining_prompt_tokens =
        remaining_u64 (rl_max_prompt_tokens limits) (bt_prompt_tokens spent) (bt_prompt_tokens reserved),
      bl_remaining_completion_tokens =
        remaining_u64 (rl_max_completion_tokens limits) (bt_completion_tokens spent)
          (bt_completion_tokens reserved),
      bl_remaining_total_tokens =
        remaining_u64 (rl_max_total_tokens limits) (bt_total_tokens spent) (bt_total_tokens reserved),
      bl_remaining_rollouts =
        remaining_u64 (rl_max_total_rollouts limits) (bt_rollouts spent) (bt_rollouts reserved),
      bl_remaining_wall_seconds =
        remaining_u64 (rl_max_time_seconds limits) (bt_wall_seconds spent) (bt_wall_seconds reserved),
      bl_hard_limit = rl_hard_limit limits,
      bl_status = budget_ledger_status limits spent reserved,
      bl_recorded_at = now\<rparr>"

subsection \<open>Breaches\<close>

definition u64_limit_breach :: "string \<Rightarrow> u64 option \<Rightarrow> u64 \<Rightarrow> u64 \<Rightarrow> budget_limit_breach option" where
  "u64_limit_breach limit mx0 current requested =
     (case mx0 of None \<Rightarrow> None
      | Some mx \<Rightarrow>
          (let available = saturating_sub mx current in
           if mx \<le> current \<or> available < requested
           then Some \<lparr>lb_limit = limit, lb_requested = show_word requested, lb_available = show_word available\<rparr>
           else None))"

definition f64_limit_breach ::
  "string \<Rightarrow> f64 option \<Rightarrow> f64 option \<Rightarrow> f64 option \<Rightarrow> budget_limit_breach option" where
  "f64_limit_breach limit mx0 current0 requested0 =
     (case mx0 of None \<Rightarrow> None
      | Some mx \<Rightarrow>
          (case current0 of
             None \<Rightarrow> Some \<lparr>lb_limit = ''unknown_cost'',
                          lb_requested = (case requested0 of None \<Rightarrow> ''unknown'' | Some v \<Rightarrow> f64_format 6 v),
                          lb_available = ''unknown''\<rparr>
           | Some current \<Rightarrow>
               (case requested0 of None \<Rightarrow> None
                | Some requested \<Rightarrow>
                    (let available = f64_max (f64_sub mx current) f64_zero in
                     if f64_le mx current \<or> f64_lt available requested
                     then Some \<lparr>lb_limit = limit, lb_requested = f64_format 6 requested,
                                lb_available = f64_format 6 available\<rparr>
                     else None))))"

definition u64_limit_exceeded :: "string \<Rightarrow> u64 option \<Rightarrow> u64 \<Rightarrow> budget_limit_breach option" where
  "u64_limit_exceeded limit mx0 current =
     (case mx0 of None \<Rightarrow> None
      | Some mx \<Rightarrow>
          if mx < current
          then Some \<lparr>lb_limit = limit, lb_requested = show_word current, lb_available = show_word mx\<rparr>
          else None)"

definition f64_limit_exceeded :: "string \<Rightarrow> f64 option \<Rightarrow> f64 option \<Rightarrow> budget_limit_breach option" where
  "f64_limit_exceeded limit mx0 current0 =
     (case mx0 of None \<Rightarrow> None
      | Some mx \<Rightarrow>
          (case current0 of
             None \<Rightarrow> Some \<lparr>lb_limit = ''unknown_cost'', lb_requested = ''unknown'',
                          lb_available = f64_format 6 mx\<rparr>
           | Some current \<Rightarrow>
               if f64_lt mx current
               then Some \<lparr>lb_limit = limit, lb_requested = f64_format 6 current,
                          lb_available = f64_format 6 mx\<rparr>
               else None))"

definition used_cost :: "budget_ledger_snapshot \<Rightarrow> f64 option" where
  "used_cost l = map_option (\<lambda>spent. f64_add spent (bl_reserved_cost_usd l)) (bl_spent_cost_usd l)"

definition breach_for_request :: "budget_ledger_snapshot \<Rightarrow> budget_ledger_totals \<Rightarrow> budget_limit_breach option" where
  "breach_for_request l q =
     or_else (f64_limit_breach ''max_cost_usd'' (bl_max_cost_usd l) (used_cost l) (bt_cost_usd q))
    (or_else (u64_limit_breach ''max_prompt_tokens'' (bl_max_prompt_tokens l)
                (bl_spent_prompt_tokens l + bl_reserved_prompt_tokens l) (bt_prompt_tokens q))
    (or_else (u64_limit_breach ''max_completion_tokens'' (bl_max_completion_tokens l)
                (bl_spent_completion_tokens l + bl_reserved_completion_tokens l) (bt_completion_tokens q))
    (or_else (u64_limit_breach ''max_total_tokens'' (bl_max_total_tokens l)
                (bl_spent_total_tokens l + bl_reserved_total_tokens l) (bt_total_tokens q))
    (or_else (u64_limit_breach ''max_total_rollouts'' (bl_max_total_rollouts l)
                (bl_spent_rollouts l + bl_reserved_rollouts l) (bt_rollouts q))
             (u64_limit_breach ''max_time_seconds'' (bl_max_time_seconds l)
                (bl_spent_wall_seconds l + bl_reserved_wall_seconds l) (bt_wall_seconds q))))))"

definition exceeded_limit :: "budget_ledger_snapshot \<Rightarrow> budget_limit_breach option" where
  "exceeded_limit l =
     or_else (f64_limit_exceeded ''max_cost_usd'' (bl_max_cost_usd l) (used_cost l))
    (or_else (u64_limit_exceeded ''max_prompt_tokens'' (bl_max_prompt_tokens l)
                (bl_spent_prompt_tokens l + bl_reserved_prompt_tokens l))
    (or_else (u64_limit_exceeded ''max_completion_tokens'' (bl_max_completion_tokens l)
                (bl_spent_completion_tokens l + bl_reserved_completion_tokens l))
    (or_else (u64_limit_exceeded ''max_total_tokens'' (bl_max_total_tokens l)
                (bl_spent_total_tokens l + bl_reserved_total_tokens l))
    (or_else (u64_limit_exceeded ''max_total_rollouts'' (bl_max_total_rollouts l)
                (bl_spent_rollouts l + bl_reserved_rollouts l))
             (u64_limit_exceeded ''max_time_seconds'' (bl_max_time_seconds l)
                (bl_spent_wall_seconds l + bl_reserved_wall_seconds l))))))"

definition is_exhausted :: "budget_ledger_snapshot \<Rightarrow> bool" where
  "is_exhausted l \<longleftrightarrow> bl_status l \<in> set [''exhausted'', ''unknown_cost'']"

definition active_reservations :: "budget_ledger_snapshot \<Rightarrow> budget_ledger_totals" where
  "active_reservations l =
     \<lparr>bt_cost_usd = Some (bl_reserved_cost_usd l), bt_prompt_tokens = bl_reserved_prompt_tokens l,
      bt_completion_tokens = bl_reserved_completion_tokens l, bt_total_tokens = bl_reserved_total_tokens l,
      bt_rollouts = bl_reserved_rollouts l, bt_wall_seconds = bl_reserved_wall_seconds l\<rparr>"

subsection \<open>Constructors of the persisted records\<close>

definition admission_from_input ::
  "hashing \<Rightarrow> timestamp \<Rightarrow> run_ident \<Rightarrow> string \<Rightarrow> string \<Rightarrow> string \<Rightarrow> string \<Rightarrow> string \<Rightarrow> string \<Rightarrow> string \<Rightarrow>
   string option \<Rightarrow> budget_estimate \<Rightarrow> budget_ledger_snapshot \<Rightarrow> json_map \<Rightarrow> runtime_effect_admission_record" where
  "admission_from_input h now run_id effect_id effect_kind lane subject_type subject_id idempotency_key
     status rejection_reason e ledger metadata =
     \<lparr>ad_schema_version = ''runtime_effect_admission.v1'',
      ad_admission_id = prefixed_hash_id h ''effect_admission'' (JObj (obj_of
        [(''schema_version'', JStr ''runtime_effect_admission.v1''), (''run_id'', JStr run_id),
         (''runtime_effect_id'', JStr effect_id), (''status'', JStr status),
         (''idempotency_key'', JStr idempotency_key)])),
      ad_run_id = run_id, ad_runtime_effect_id = effect_id, ad_effect_kind = effect_kind,
      ad_lane = lane, ad_subject_type = subject_type, ad_subject_id = subject_id,
      ad_idempotency_key = idempotency_key, ad_status = status,
      ad_rejection_reason = rejection_reason,
      ad_estimate = e\<lparr>es_max_cost_usd := positive_f64 (es_max_cost_usd e)\<rparr>,
      ad_ledger = ledger, ad_metadata = metadata, ad_checked_at = now\<rparr>"

definition reservation_from_input ::
  "hashing \<Rightarrow> string \<Rightarrow> string \<Rightarrow> string \<Rightarrow> string \<Rightarrow> budget_estimate \<Rightarrow> json_map \<Rightarrow> budget_reservation_record" where
  "reservation_from_input h now run_id effect_id status e metadata =
     \<lparr>rv_schema_version = ''budget_reservation.v1'',
      rv_budget_reservation_id = prefixed_hash_id h ''budget_reservation'' (JObj (obj_of
        [(''run_id'', JStr run_id), (''runtime_effect_id'', JStr effect_id)])),
      rv_run_id = run_id, rv_runtime_effect_id = effect_id, rv_status = status,
      rv_max_cost_usd = positive_f64 (es_max_cost_usd e),
      rv_max_prompt_tokens = es_max_prompt_tokens e,
      rv_max_completion_tokens = es_max_completion_tokens e,
      rv_max_total_tokens = es_max_total_tokens e, rv_max_rollouts = es_max_rollouts e,
      rv_max_wall_seconds = es_max_wall_seconds e, rv_metadata = metadata,
      rv_reserved_at = now, rv_updated_at = now\<rparr>"

definition reserved_budget :: "budget_reservation_record \<Rightarrow> budget_ledger_totals" where
  "reserved_budget r =
     \<lparr>bt_cost_usd = Some (unwrap_or f64_zero (rv_max_cost_usd r)),
      bt_prompt_tokens = unwrap_or 0 (rv_max_prompt_tokens r),
      bt_completion_tokens = unwrap_or 0 (rv_max_completion_tokens r),
      bt_total_tokens =
        unwrap_or (saturating_add (unwrap_or 0 (rv_max_prompt_tokens r))
                     (unwrap_or 0 (rv_max_completion_tokens r))) (rv_max_total_tokens r),
      bt_rollouts = unwrap_or 0 (rv_max_rollouts r),
      bt_wall_seconds = unwrap_or 0 (rv_max_wall_seconds r)\<rparr>"

definition settlement_identity :: "string \<Rightarrow> string \<Rightarrow> string \<Rightarrow> json" where
  "settlement_identity run_id effect_id reservation_id =
     JObj (obj_of [(''run_id'', JStr run_id), (''runtime_effect_id'', JStr effect_id),
                   (''budget_reservation_id'', JStr reservation_id)])"

definition commit_from_input ::
  "hashing \<Rightarrow> string \<Rightarrow> string \<Rightarrow> string \<Rightarrow> string \<Rightarrow> budget_ledger_totals \<Rightarrow> json_map \<Rightarrow> budget_commit_record" where
  "commit_from_input h now run_id effect_id reservation_id t metadata =
     \<lparr>bc_schema_version = ''budget_commit.v1'',
      bc_budget_commit_id = prefixed_hash_id h ''budget_commit'' (settlement_identity run_id effect_id reservation_id),
      bc_run_id = run_id, bc_runtime_effect_id = effect_id, bc_budget_reservation_id = reservation_id,
      bc_cost_usd = bt_cost_usd t, bc_prompt_tokens = bt_prompt_tokens t,
      bc_completion_tokens = bt_completion_tokens t, bc_total_tokens = bt_total_tokens t,
      bc_rollout_count = bt_rollouts t, bc_wall_seconds = bt_wall_seconds t,
      bc_metadata = metadata, bc_committed_at = now\<rparr>"

definition committed_budget :: "budget_commit_record \<Rightarrow> budget_ledger_totals" where
  "committed_budget c =
     \<lparr>bt_cost_usd = bc_cost_usd c, bt_prompt_tokens = bc_prompt_tokens c,
      bt_completion_tokens = bc_completion_tokens c, bt_total_tokens = bc_total_tokens c,
      bt_rollouts = bc_rollout_count c, bt_wall_seconds = bc_wall_seconds c\<rparr>"

definition release_from_input ::
  "hashing \<Rightarrow> string \<Rightarrow> string \<Rightarrow> string \<Rightarrow> string \<Rightarrow> string \<Rightarrow> f64 \<Rightarrow> u64 \<Rightarrow> u64 \<Rightarrow> u64 \<Rightarrow> u64 \<Rightarrow> u64 \<Rightarrow>
   json_map \<Rightarrow> budget_release_record" where
  "release_from_input h now run_id effect_id reservation_id reason cost prompt completion total_tokens rollouts
     wall metadata =
     \<lparr>re_schema_version = ''budget_release.v1'',
      re_budget_release_id = prefixed_hash_id h ''budget_release'' (settlement_identity run_id effect_id reservation_id),
      re_run_id = run_id, re_runtime_effect_id = effect_id, re_budget_reservation_id = reservation_id,
      re_release_reason = reason, re_released_cost_usd = f64_max cost f64_zero,
      re_released_prompt_tokens = prompt, re_released_completion_tokens = completion,
      re_released_total_tokens = total_tokens, re_released_rollouts = rollouts,
      re_released_wall_seconds = wall, re_metadata = metadata, re_released_at = now\<rparr>"

subsection \<open>The single limit\<close>

lemma u64_limit_breach_None_iff:
  "u64_limit_breach limit (Some mx) current requested = None \<longleftrightarrow>
     current < mx \<and> unat current + unat requested \<le> unat mx"
proof (cases "current < mx")
  case True
  then have "saturating_sub mx current < requested \<longleftrightarrow> unat mx < unat current + unat requested"
    by (auto simp: word_less_nat_alt sat_simps)
  with True show ?thesis
    by (auto simp: u64_limit_breach_def Let_def)
qed (auto simp: u64_limit_breach_def Let_def)

lemma u64_limit_breach_unlimited [simp]: "u64_limit_breach limit None current requested = None"
  by (simp add: u64_limit_breach_def)

lemma u64_limit_breach_reached: "at_limit mx current \<Longrightarrow> u64_limit_breach limit mx current requested \<noteq> None"
  by (auto simp: at_limit_def u64_limit_breach_def Let_def split: option.splits)

lemma u64_limit_breach_zero: "u64_limit_breach limit mx current 0 \<noteq> None \<longleftrightarrow> at_limit mx current"
  by (auto simp: at_limit_def u64_limit_breach_def Let_def split: option.splits)

lemma f64_limit_breach_zero:
  "f64_limit_breach limit mx current (Some f64_zero) \<noteq> None \<longleftrightarrow>
     (case mx of None \<Rightarrow> False | Some m \<Rightarrow> (case current of None \<Rightarrow> True | Some c \<Rightarrow> f64_le m c))"
proof -
  have "\<not> f64_lt (f64_max x f64_zero) f64_zero" for x
    using f64_max_zero_nonneg f64_lt_not_le by blast
  then show ?thesis
    by (auto simp: f64_limit_breach_def Let_def split: option.splits)
qed

lemma f64_limit_breach_reached:
  "mx = Some m \<Longrightarrow> current = None \<or> current = Some c \<and> f64_le m c \<Longrightarrow>
     f64_limit_breach limit mx current (Some q) \<noteq> None"
  by (auto simp: f64_limit_breach_def Let_def)

text \<open>Whether a limit is reached does not depend on the request; a larger one only adds breaches.\<close>

definition zero_request :: budget_ledger_totals where
  "zero_request = \<lparr>bt_cost_usd = Some f64_zero, bt_prompt_tokens = 0, bt_completion_tokens = 0,
     bt_total_tokens = 0, bt_rollouts = 0, bt_wall_seconds = 0\<rparr>"

lemma breach_zero_iff_exhausted:
  assumes "bt_cost_usd reserved \<noteq> None"
  shows "breach_for_request (from_totals now run_id limits spent reserved) zero_request \<noteq> None \<longleftrightarrow>
    is_exhausted (from_totals now run_id limits spent reserved)"
proof -
  obtain r where r: "bt_cost_usd reserved = Some r"
    using assms by blast
  let ?l = "from_totals now run_id limits spent reserved"
  have cost: "f64_limit_breach ''max_cost_usd'' (bl_max_cost_usd ?l) (used_cost ?l) (Some f64_zero) \<noteq> None \<longleftrightarrow>
      rl_max_cost_usd limits \<noteq> None \<and> bt_cost_usd spent = None \<or>
      cost_at_limit (rl_max_cost_usd limits) (bt_cost_usd spent) (bt_cost_usd reserved)"
    unfolding f64_limit_breach_zero
    by (auto simp: from_totals_def used_cost_def cost_at_limit_def r split: option.splits)
  show ?thesis
    unfolding breach_for_request_def or_else_None_iff de_Morgan_conj zero_request_def
      budget_ledger_totals.simps cost u64_limit_breach_zero
    by (auto simp: from_totals_def is_exhausted_def budget_ledger_status_def Let_def)
qed

lemma breach_mono_zero:
  assumes "breach_for_request l zero_request \<noteq> None" and "bt_cost_usd q \<noteq> None"
  shows "breach_for_request l q \<noteq> None"
proof -
  obtain c where c: "bt_cost_usd q = Some c"
    using assms(2) by blast
  have f: "f64_limit_breach n mx cur (Some f64_zero) \<noteq> None \<Longrightarrow> f64_limit_breach n mx cur (Some c) \<noteq> None"
    for n mx cur
    unfolding f64_limit_breach_zero by (auto simp: f64_limit_breach_def Let_def split: option.splits)
  have u: "u64_limit_breach n mx cur 0 \<noteq> None \<Longrightarrow> u64_limit_breach n mx cur x \<noteq> None" for n mx cur x
    unfolding u64_limit_breach_zero by (rule u64_limit_breach_reached)
  show ?thesis
    using assms(1) f u
    unfolding breach_for_request_def or_else_None_iff de_Morgan_conj zero_request_def
      budget_ledger_totals.simps c by blast
qed

subsection \<open>Admission within the limits\<close>

text \<open>What the admission test promises of one counter, as a fact on natural numbers.\<close>

definition fits :: "u64 option \<Rightarrow> u64 \<Rightarrow> u64 \<Rightarrow> u64 \<Rightarrow> bool" where
  "fits mx spent reserved requested =
     (case mx of None \<Rightarrow> True
      | Some m \<Rightarrow> unat spent + unat reserved < 2 ^ 64 \<longrightarrow>
                 unat spent + unat reserved + unat requested \<le> unat m)"

lemma u64_limit_fits:
  "u64_limit_breach limit mx (spent + reserved) requested = None \<Longrightarrow> fits mx spent reserved requested"
  by (auto simp: fits_def u64_limit_breach_None_iff unat_add_no_overflow split: option.splits)

lemma u64_limit_fits_iff:
  assumes "unat spent + unat reserved < 2 ^ 64" "requested \<noteq> 0"
  shows "u64_limit_breach limit mx (spent + reserved) requested = None \<longleftrightarrow> fits mx spent reserved requested"
proof -
  have "0 < unat requested"
    using assms(2) by (simp add: unat_gt_0)
  then show ?thesis
    using assms(1) by (auto simp: fits_def u64_limit_breach_None_iff unat_add_no_overflow
        word_less_nat_alt split: option.splits)
qed

lemma fits_remaining:
  "fits mx spent reserved requested \<Longrightarrow> mx = Some m \<Longrightarrow> unat spent + unat reserved < 2 ^ 64 \<Longrightarrow>
     \<exists>rem. remaining_u64 mx spent reserved = Some rem \<and> requested \<le> rem"
  by (auto simp: fits_def remaining_u64_def word_le_nat_alt sat_simps)

lemma requested_budget_cost: "bt_cost_usd (requested_budget e) \<noteq> None"
  by (simp add: requested_budget_def Let_def)

subsection \<open>Validation of estimates\<close>

lemma check_all_ok_iff: "check_all cs = Inr () \<longleftrightarrow> (\<forall>c \<in> set cs. c = Inr ())"
  by (induction cs rule: check_all.induct) auto

lemma when_limited_ok_iff [simp]: "when_limited l c = Inr () \<longleftrightarrow> l = None \<or> c = Inr ()"
  by (cases l) (simp_all add: when_limited_def)

lemma require_positive_u64_ok_iff [simp]:
  "require_positive_u64_estimate r k n v = Inr () \<longleftrightarrow> (\<exists>x. v = Some x \<and> 0 < x)"
  by (cases v) (simp_all add: require_positive_u64_estimate_def word_gt_0)

lemma require_positive_f64_ok_iff [simp]:
  "require_positive_f64_estimate r k n v = Inr () \<longleftrightarrow> (\<exists>x. v = Some x \<and> \<not> f64_le x f64_zero)"
  by (cases v) (simp_all add: require_positive_f64_estimate_def)

subsection \<open>Concrete limits, for examples\<close>

lemma validate_for_limits_okI:
  assumes "rl_max_cost_usd limits = None \<or> (\<exists>x. es_max_cost_usd e = Some x \<and> \<not> f64_le x f64_zero)"
    and "rl_max_prompt_tokens limits = None \<or> (\<exists>x. es_max_prompt_tokens e = Some x \<and> 0 < x)"
    and "rl_max_completion_tokens limits = None \<or> (\<exists>x. es_max_completion_tokens e = Some x \<and> 0 < x)"
    and "rl_max_total_tokens limits = None \<or> (\<exists>x. estimated_total e = Some x \<and> 0 < x)"
    and "rl_max_total_rollouts limits = None \<or> kind \<noteq> ''container_rollout'' \<or> (\<exists>x. es_max_rollouts e = Some x \<and> 0 < x)"
    and "rl_max_time_seconds limits = None \<or> (\<exists>x. es_max_wall_seconds e = Some x \<and> 0 < x)"
  shows "validate_for_limits run_id kind limits e = Inr ()"
  using assms unfolding validate_for_limits_def check_all_ok_iff by auto

definition unlimited :: run_limits_record where
  "unlimited = run_limits_from_input ''now'' \<lparr>rli_run_id = ''r'', rli_max_total_rollouts = None,
     rli_max_cost_usd = None, rli_max_time_seconds = None, rli_max_prompt_tokens = None,
     rli_max_completion_tokens = None, rli_max_total_tokens = None, rli_hard_limit = True,
     rli_stop_policy = ''stop'', rli_metadata = []\<rparr>"

definition no_estimate :: budget_estimate where
  "no_estimate = \<lparr>es_max_cost_usd = None, es_max_prompt_tokens = None, es_max_completion_tokens = None,
     es_max_total_tokens = None, es_max_rollouts = None, es_max_wall_seconds = None\<rparr>"

subsection \<open>Properties\<close>

text \<open>
  A request that \<open>breach_for_request\<close> admits on a ledger snapshot fits every counter's limit:
  unless spent and reserved together overflow 64 bits, spent, reserved and requested sum to at most
  the limit, for prompt, completion and total tokens, rollouts and wall seconds.
\<close>
theorem admitted_request_fits:
  assumes "breach_for_request (from_totals now run_id limits spent reserved) q = None"
  shows "fits (rl_max_prompt_tokens limits) (bt_prompt_tokens spent) (bt_prompt_tokens reserved) (bt_prompt_tokens q) \<and>
    fits (rl_max_completion_tokens limits) (bt_completion_tokens spent) (bt_completion_tokens reserved)
      (bt_completion_tokens q) \<and>
    fits (rl_max_total_tokens limits) (bt_total_tokens spent) (bt_total_tokens reserved) (bt_total_tokens q) \<and>
    fits (rl_max_total_rollouts limits) (bt_rollouts spent) (bt_rollouts reserved) (bt_rollouts q) \<and>
    fits (rl_max_time_seconds limits) (bt_wall_seconds spent) (bt_wall_seconds reserved) (bt_wall_seconds q)"
  using assms unfolding breach_for_request_def or_else_None_iff
  by (simp add: from_totals_def) (blast intro: u64_limit_fits)

theorem admitted_request_fits_witness:
  "breach_for_request (from_totals ''now'' ''r'' (unlimited\<lparr>rl_max_total_rollouts := Some 10\<rparr>)
      (zero_request\<lparr>bt_rollouts := 4\<rparr>) (zero_request\<lparr>bt_rollouts := 3\<rparr>)) (zero_request\<lparr>bt_rollouts := 3\<rparr>) = None
   \<and> fits (Some 10) 4 3 3"
proof -
  have "breach_for_request (from_totals ''now'' ''r'' (unlimited\<lparr>rl_max_total_rollouts := Some 10\<rparr>)
      (zero_request\<lparr>bt_rollouts := 4\<rparr>) (zero_request\<lparr>bt_rollouts := 3\<rparr>)) (zero_request\<lparr>bt_rollouts := 3\<rparr>) = None"
    by code_simp
  from this admitted_request_fits [OF this] show ?thesis
    by simp
qed

text \<open>
  C19. The ledger status agrees with the admission test: a snapshot is exhausted (or its cost is
  unknown) exactly when even a request for nothing is refused, and then every request that an
  estimate makes is refused.
\<close>
theorem exhausted_iff_nothing_admitted:
  assumes "bt_cost_usd reserved \<noteq> None"
  shows "is_exhausted (from_totals now run_id limits spent reserved) \<longleftrightarrow>
    (\<forall>e. breach_for_request (from_totals now run_id limits spent reserved) (requested_budget e) \<noteq> None)"
proof
  assume "is_exhausted (from_totals now run_id limits spent reserved)"
  then show "\<forall>e. breach_for_request (from_totals now run_id limits spent reserved) (requested_budget e) \<noteq> None"
    using breach_zero_iff_exhausted [OF assms] breach_mono_zero requested_budget_cost by blast
next
  assume "\<forall>e. breach_for_request (from_totals now run_id limits spent reserved) (requested_budget e) \<noteq> None"
  then have "breach_for_request (from_totals now run_id limits spent reserved) (requested_budget no_estimate) \<noteq> None"
    by blast
  moreover have "requested_budget no_estimate = zero_request"
    by (simp add: requested_budget_def no_estimate_def zero_request_def saturating_add_def)
  ultimately show "is_exhausted (from_totals now run_id limits spent reserved)"
    using breach_zero_iff_exhausted [OF assms] by simp
qed

theorem exhausted_iff_nothing_admitted_witness:
  "breach_for_request (from_totals ''now'' ''r'' (unlimited\<lparr>rl_max_time_seconds := Some 60\<rparr>)
     (zero_request\<lparr>bt_wall_seconds := 60\<rparr>) zero_request) (requested_budget no_estimate) \<noteq> None"
proof -
  have "is_exhausted (from_totals ''now'' ''r'' (unlimited\<lparr>rl_max_time_seconds := Some 60\<rparr>)
      (zero_request\<lparr>bt_wall_seconds := 60\<rparr>) zero_request)"
    by code_simp
  then show ?thesis
    using exhausted_iff_nothing_admitted [of zero_request "''now''" "''r''"] by (simp add: zero_request_def)
qed

text \<open>
  When the spent and reserved counters overflow 64 bits together, the admission test and the
  status wrap around: a run whose limit has long been passed is reported within its limits and
  admits a request, while the reported remainder, which saturates, is zero.
\<close>
theorem counter_overflow_admits:
  "let limits = unlimited\<lparr>rl_max_total_tokens := Some 1000\<rparr>;
       l = from_totals ''now'' ''r'' limits (zero_request\<lparr>bt_total_tokens := - 1\<rparr>) (zero_request\<lparr>bt_total_tokens := 1\<rparr>)
   in bl_status l = ''within_limits'' \<and> bl_remaining_total_tokens l = Some 0 \<and>
      breach_for_request l (zero_request\<lparr>bt_total_tokens := 1000\<rparr>) = None"
  by code_simp

text \<open>
  \<open>validate_for_limits\<close> accepts an estimate exactly when it is positive for every quantity the
  run limits, with the total of prompt and completion standing in for a missing total and rollouts
  required of container rollouts only.
\<close>
theorem validate_for_limits_ok_iff:
  "validate_for_limits run_id kind limits e = Inr () \<longleftrightarrow>
    (rl_max_cost_usd limits = None \<or> (\<exists>x. es_max_cost_usd e = Some x \<and> \<not> f64_le x f64_zero)) \<and>
    (rl_max_prompt_tokens limits = None \<or> (\<exists>x. es_max_prompt_tokens e = Some x \<and> 0 < x)) \<and>
    (rl_max_completion_tokens limits = None \<or> (\<exists>x. es_max_completion_tokens e = Some x \<and> 0 < x)) \<and>
    (rl_max_total_tokens limits = None \<or>
      (case es_max_total_tokens e of Some t \<Rightarrow> 0 < t
       | None \<Rightarrow> \<exists>p c. es_max_prompt_tokens e = Some p \<and> es_max_completion_tokens e = Some c \<and>
                   0 < unat p + unat c)) \<and>
    (rl_max_total_rollouts limits = None \<or> kind \<noteq> ''container_rollout'' \<or>
      (\<exists>x. es_max_rollouts e = Some x \<and> 0 < x)) \<and>
    (rl_max_time_seconds limits = None \<or> (\<exists>x. es_max_wall_seconds e = Some x \<and> 0 < x))"
proof -
  have "0 < saturating_add p c \<longleftrightarrow> 0 < unat p + unat c" for p c :: u64
    unfolding word_less_nat_alt by (simp add: sat_simps)
  then have "(\<exists>x. estimated_total e = Some x \<and> 0 < x) \<longleftrightarrow>
      (case es_max_total_tokens e of Some t \<Rightarrow> 0 < t
       | None \<Rightarrow> \<exists>p c. es_max_prompt_tokens e = Some p \<and> es_max_completion_tokens e = Some c \<and>
                   0 < unat p + unat c)"
    by (auto simp: estimated_total_def split: option.splits)
  then show ?thesis
    unfolding validate_for_limits_def check_all_ok_iff by auto
qed

theorem validate_for_limits_ok_iff_witness:
  "validate_for_limits ''r'' ''container_rollout'' (unlimited\<lparr>rl_max_total_tokens := Some 90, rl_max_total_rollouts := Some 5\<rparr>)
     (no_estimate\<lparr>es_max_prompt_tokens := Some 0, es_max_completion_tokens := Some 30, es_max_rollouts := Some 3\<rparr>) = Inr () \<and>
   validate_for_limits ''r'' ''container_rollout'' (unlimited\<lparr>rl_max_total_rollouts := Some 5\<rparr>)
     (no_estimate\<lparr>es_max_rollouts := Some 0\<rparr>) \<noteq> Inr ()"
  unfolding validate_for_limits_ok_iff by (simp add: unlimited_def no_estimate_def run_limits_from_input_def positive_f64_def)

text \<open>
  The budget a reservation record accounts for is the budget its estimate requested, in every
  component, provided the estimated cost is absent, zero or positive.
\<close>
theorem reservation_accounts_for_request:
  assumes "\<And>c. es_max_cost_usd e = Some c \<Longrightarrow> c = f64_zero \<or> f64_lt f64_zero c"
  shows "reserved_budget (reservation_from_input h now run_id effect_id status e md) = requested_budget e"
  using assms
  by (auto simp: reserved_budget_def reservation_from_input_def requested_budget_def Let_def positive_f64_def
      opt_filter_def split: option.splits)

theorem reservation_accounts_for_request_witness:
  "reserved_budget (reservation_from_input \<lparr>to_json_string = (\<lambda>_. []), sha256_hex = id\<rparr> ''now'' ''r'' ''e''
     ''reserved'' (no_estimate\<lparr>es_max_prompt_tokens := Some 5, es_max_completion_tokens := Some 7\<rparr>) []) =
   requested_budget (no_estimate\<lparr>es_max_prompt_tokens := Some 5, es_max_completion_tokens := Some 7\<rparr>)"
  by (rule reservation_accounts_for_request) (simp add: no_estimate_def)

end
