(* ===== verification/Keyed_Table.thy ===== *)
theory Keyed_Table
  imports Prelude
begin

text \<open>
  SQL tables as lists of rows. A row type has a key (the table's primary key); the statements of
  \<open>workspace.rs\<close> and \<open>fsm.rs\<close> write a table in three ways:
  \<^item> \<open>INSERT .. ON CONFLICT(key) DO UPDATE SET ..\<close> is \<open>upsert\<close>: the row with the same key is replaced,
    and a new key is appended;
  \<^item> \<open>UPDATE .. SET .. WHERE ..\<close> is \<open>update_where\<close>, whose number of changed rows is
    \<open>count_where\<close>;
  \<^item> a plain \<open>INSERT\<close> is list append.
  The locale \<open>row_store\<close> is the interface the clients of a keyed table rely on; it is interpreted
  on these definitions at the end of the theory.
\<close>

fun upsert :: "('r \<Rightarrow> 'k) \<Rightarrow> 'r \<Rightarrow> 'r list \<Rightarrow> 'r list" where
  "upsert key r [] = [r]"
| "upsert key r (x # xs) = (if key x = key r then r # xs else x # upsert key r xs)"

definition lookup_row :: "('r \<Rightarrow> 'k) \<Rightarrow> 'r list \<Rightarrow> 'k \<Rightarrow> 'r option" where
  "lookup_row key xs k = find (\<lambda>x. key x = k) xs"

definition update_where :: "('r \<Rightarrow> bool) \<Rightarrow> ('r \<Rightarrow> 'r) \<Rightarrow> 'r list \<Rightarrow> 'r list" where
  "update_where p f xs = map (\<lambda>x. if p x then f x else x) xs"

definition count_where :: "('r \<Rightarrow> bool) \<Rightarrow> 'r list \<Rightarrow> nat" where
  "count_where p xs = length (filter p xs)"

definition distinct_keys :: "('r \<Rightarrow> 'k) \<Rightarrow> 'r list \<Rightarrow> bool" where
  "distinct_keys key xs = distinct (map key xs)"

subsection \<open>Rows and keys\<close>

lemma lookup_row_Nil [table_simps]: "lookup_row key [] k = None"
  by (simp add: lookup_row_def)

lemma lookup_row_Cons [table_simps]:
  "lookup_row key (x # xs) k = (if key x = k then Some x else lookup_row key xs k)"
  by (simp add: lookup_row_def)

lemma lookup_row_SomeD: "lookup_row key xs k = Some x \<Longrightarrow> x \<in> set xs \<and> key x = k"
  by (auto simp: lookup_row_def find_Some_iff)

lemma lookup_row_None_iff: "lookup_row key xs k = None \<longleftrightarrow> k \<notin> key ` set xs"
  by (auto simp: lookup_row_def find_None_iff)

lemma lookup_row_distinct:
  "distinct_keys key xs \<Longrightarrow> x \<in> set xs \<Longrightarrow> lookup_row key xs (key x) = Some x"
  by (induction xs) (auto simp: table_simps distinct_keys_def)

lemma lookup_upsert [table_simps]:
  "lookup_row key (upsert key r xs) k = (if k = key r then Some r else lookup_row key xs k)"
  by (induction xs) (auto simp: table_simps)

lemma keys_upsert [table_simps]: "key ` set (upsert key r xs) = insert (key r) (key ` set xs)"
  by (induction xs) auto

lemma set_upsert_subset: "set (upsert key r xs) \<subseteq> insert r (set xs)"
  by (induction xs) auto

lemma mem_upsert [simp]: "r \<in> set (upsert key r xs)"
  by (induction xs) auto

lemma mem_upsert_other: "x \<in> set xs \<Longrightarrow> key x \<noteq> key r \<Longrightarrow> x \<in> set (upsert key r xs)"
  by (induction xs) auto

lemma distinct_keys_upsert [intro]: "distinct_keys key xs \<Longrightarrow> distinct_keys key (upsert key r xs)"
proof (induction xs)
  case Nil
  then show ?case by (simp add: distinct_keys_def)
next
  case (Cons x xs)
  then show ?case
    using keys_upsert [of key r xs] by (auto simp: distinct_keys_def)
qed

lemma upsert_new: "key r \<notin> key ` set xs \<Longrightarrow> upsert key r xs = xs @ [r]"
  by (induction xs) auto

lemma distinct_keys_Nil [simp, intro]: "distinct_keys key []"
  by (simp add: distinct_keys_def)

lemma set_upsert:
  "distinct_keys key t \<Longrightarrow> set (upsert key r t) = insert r {x \<in> set t. key x \<noteq> key r}"
proof (induction t)
  case (Cons x t)
  show ?case
  proof (cases "key x = key r")
    case True
    with Cons.prems have "\<forall>y \<in> set t. key y \<noteq> key r"
      by (auto simp: distinct_keys_def) (metis image_eqI)
    with True show ?thesis
      by auto
  next
    case False
    with Cons show ?thesis
      by (auto simp: distinct_keys_def)
  qed
qed simp

text \<open>
  Sums over a table with distinct keys change by exactly the row that is written.
\<close>

lemma sum_list_upsert_new:
  fixes f :: "'r \<Rightarrow> 'n::comm_monoid_add"
  shows "key r \<notin> key ` set xs \<Longrightarrow> sum_list (map f (upsert key r xs)) = sum_list (map f xs) + f r"
  by (simp add: upsert_new)

lemma sum_list_upsert_old:
  fixes f :: "'r \<Rightarrow> 'n::comm_monoid_add"
  shows "distinct_keys key xs \<Longrightarrow> x \<in> set xs \<Longrightarrow> key x = key r \<Longrightarrow>
    sum_list (map f (upsert key r xs)) + f x = sum_list (map f xs) + f r"
proof (induction xs)
  case Nil
  then show ?case by simp
next
  case (Cons y xs)
  show ?case
  proof (cases "key y = key r")
    case True
    with Cons.prems have "y = x"
      by (auto simp: distinct_keys_def) (metis image_eqI)
    with True show ?thesis
      by (simp add: ac_simps)
  next
    case False
    with Cons.prems have "x \<in> set xs" "distinct_keys key xs"
      by (auto simp: distinct_keys_def)
    then have "sum_list (map f (upsert key r xs)) + f x = sum_list (map f xs) + f r"
      using Cons.IH Cons.prems by simp
    with False show ?thesis
      by (simp add: add.assoc)
  qed
qed

subsection \<open>UPDATE .. WHERE\<close>

lemma length_update_where [simp]: "length (update_where p f xs) = length xs"
  by (simp add: update_where_def)

lemma keys_update_where:
  "(\<And>x. key (f x) = key x) \<Longrightarrow> map key (update_where p f xs) = map key xs"
  by (simp add: update_where_def)

lemma distinct_keys_update_where [intro]:
  "(\<And>x. key (f x) = key x) \<Longrightarrow> distinct_keys key xs \<Longrightarrow> distinct_keys key (update_where p f xs)"
  by (simp add: distinct_keys_def keys_update_where)

lemma lookup_update_where:
  "(\<And>x. key (f x) = key x) \<Longrightarrow> lookup_row key (update_where p f xs) k =
     map_option (\<lambda>x. if p x then f x else x) (lookup_row key xs k)"
  by (induction xs) (auto simp: table_simps update_where_def)

lemma mem_update_whereD:
  "y \<in> set (update_where p f xs) \<Longrightarrow> \<exists>x \<in> set xs. y = (if p x then f x else x)"
  by (auto simp: update_where_def)

lemma count_where_zero_iff: "count_where p xs = 0 \<longleftrightarrow> (\<forall>x \<in> set xs. \<not> p x)"
  by (simp add: count_where_def filter_empty_conv)

lemma update_where_none: "count_where p xs = 0 \<Longrightarrow> update_where p f xs = xs"
  by (simp add: count_where_zero_iff update_where_def map_idI)

text \<open>On a primary key at most one row is updated.\<close>

lemma count_where_key_le_one:
  assumes "distinct_keys key xs"
  shows "count_where (\<lambda>x. key x = k \<and> q x) xs \<le> 1"
  using assms
proof (induction xs)
  case Nil
  then show ?case by (simp add: count_where_def)
next
  case (Cons x xs)
  then have IH: "count_where (\<lambda>x. key x = k \<and> q x) xs \<le> 1" and new: "key x \<notin> key ` set xs"
    by (auto simp: distinct_keys_def)
  show ?case
  proof (cases "key x = k")
    case True
    with new have "count_where (\<lambda>x. key x = k \<and> q x) xs = 0"
      unfolding count_where_zero_iff by (metis imageI)
    then show ?thesis by (simp add: count_where_def)
  next
    case False
    with IH show ?thesis by (simp add: count_where_def)
  qed
qed

lemma count_where_key:
  "distinct_keys key xs \<Longrightarrow> 0 < count_where (\<lambda>x. key x = k \<and> q x) xs \<longleftrightarrow>
     (\<exists>x. lookup_row key xs k = Some x \<and> q x)"
proof -
  assume d: "distinct_keys key xs"
  have "0 < count_where (\<lambda>x. key x = k \<and> q x) xs \<longleftrightarrow> (\<exists>x \<in> set xs. key x = k \<and> q x)"
    using count_where_zero_iff [of "\<lambda>x. key x = k \<and> q x" xs] by auto
  also have "\<dots> \<longleftrightarrow> (\<exists>x. lookup_row key xs k = Some x \<and> q x)"
    using d lookup_row_distinct lookup_row_SomeD by fastforce
  finally show ?thesis .
qed

subsection \<open>The interface of a keyed store\<close>

locale row_store =
  fixes key :: "'r \<Rightarrow> 'k"
    and put :: "'r \<Rightarrow> 't \<Rightarrow> 't"
    and get :: "'t \<Rightarrow> 'k \<Rightarrow> 'r option"
    and ok :: "'t \<Rightarrow> bool"
  assumes get_put: "ok t \<Longrightarrow> get (put r t) k = (if k = key r then Some r else get t k)"
    and ok_put: "ok t \<Longrightarrow> ok (put r t)"
    and get_key: "ok t \<Longrightarrow> get t k = Some r \<Longrightarrow> key r = k"
begin

lemma get_put_same: "ok t \<Longrightarrow> get (put r t) (key r) = Some r"
  by (simp add: get_put)

lemma get_put_other: "ok t \<Longrightarrow> k \<noteq> key r \<Longrightarrow> get (put r t) k = get t k"
  by (simp add: get_put)

lemma put_put_same: "ok t \<Longrightarrow> key r = key r' \<Longrightarrow> get (put r' (put r t)) = get (put r' t)"
  by (auto simp: get_put ok_put)

lemma put_swap: "ok t \<Longrightarrow> key r \<noteq> key r' \<Longrightarrow> get (put r (put r' t)) = get (put r' (put r t))"
  by (auto simp: get_put ok_put)

lemma put_get_id: "ok t \<Longrightarrow> get t k = Some r \<Longrightarrow> get (put r t) = get t"
  by (rule ext) (auto simp: get_put dest: get_key)

end

text \<open>The tables of the workspace database are such stores, for any row type and key.\<close>

interpretation tbl: row_store key "upsert key" "lookup_row key" "distinct_keys key"
  for key :: "'r \<Rightarrow> 'k"
  by unfold_locales (auto simp: table_simps dest: lookup_row_SomeD)

end
