(* ===== verification/Job_Store.thy ===== *)
theory Job_Store
  imports Keyed_Table Optimizer_Error "HOL-Library.Product_Lexorder"
begin

text \<open>
  The job queue: \<open>jobs.rs\<close> and the \<open>optimizer_jobs\<close> table of \<open>workspace.rs\<close> with its operations
  (record, claim, mark running, heartbeat, schedule a retry, recover expired leases).

  A row holds the job and the \<open>updated_at\<close> column. SQLite's \<open>datetime\<close> texts have a fixed width and
  second resolution, so they order like the instants they name; an instant is an \<open>int\<close>, seconds
  since 1970. \<open>datetime('now', '+N seconds')\<close> is NULL beyond the year 9999 (\<open>datetime_plus\<close>). One
  operation reads the clock once. The policy, failure and payload columns are JSON texts of the
  values kept here. The primary key of a row is run id and job id; the operations keep it unique
  (\<open>distinct_keys\<close>).
\<close>

subsection \<open>jobs.rs\<close>

datatype optimizer_job_kind = JkRollout | JkAnnotation | JkVerification | JkSubagent | JkProposer | JkCheckpoint

fun job_kind_str :: "optimizer_job_kind \<Rightarrow> string" where
  "job_kind_str JkRollout = ''rollout''"
| "job_kind_str JkAnnotation = ''annotation''"
| "job_kind_str JkVerification = ''verification''"
| "job_kind_str JkSubagent = ''subagent''"
| "job_kind_str JkProposer = ''proposer''"
| "job_kind_str JkCheckpoint = ''checkpoint''"

definition job_kind_parse :: "string \<Rightarrow> optimizer_job_kind option" where
  "job_kind_parse v =
     (if v = ''rollout'' then Some JkRollout
      else if v = ''annotation'' then Some JkAnnotation
      else if v = ''verification'' then Some JkVerification
      else if v = ''subagent'' then Some JkSubagent
      else if v = ''proposer'' then Some JkProposer
      else if v = ''checkpoint'' then Some JkCheckpoint
      else None)"

datatype optimizer_job_status =
    JsPending | JsLeased | JsRunning | JsAnnotating | JsVerifying | JsCompleted | JsFailed
  | JsCancelled | JsExpired | JsRetryScheduled

fun job_status_str :: "optimizer_job_status \<Rightarrow> string" where
  "job_status_str JsPending = ''pending''"
| "job_status_str JsLeased = ''leased''"
| "job_status_str JsRunning = ''running''"
| "job_status_str JsAnnotating = ''annotating''"
| "job_status_str JsVerifying = ''verifying''"
| "job_status_str JsCompleted = ''completed''"
| "job_status_str JsFailed = ''failed''"
| "job_status_str JsCancelled = ''cancelled''"
| "job_status_str JsExpired = ''expired''"
| "job_status_str JsRetryScheduled = ''retry_scheduled''"

definition job_status_parse :: "string \<Rightarrow> optimizer_job_status option" where
  "job_status_parse v =
     (if v = ''pending'' then Some JsPending
      else if v = ''leased'' then Some JsLeased
      else if v = ''running'' then Some JsRunning
      else if v = ''annotating'' then Some JsAnnotating
      else if v = ''verifying'' then Some JsVerifying
      else if v = ''completed'' then Some JsCompleted
      else if v = ''failed'' then Some JsFailed
      else if v = ''cancelled'' \<or> v = ''canceled'' then Some JsCancelled
      else if v = ''expired'' then Some JsExpired
      else if v = ''retry_scheduled'' then Some JsRetryScheduled
      else None)"

definition job_status_is_terminal :: "optimizer_job_status \<Rightarrow> bool" where
  "job_status_is_terminal s \<longleftrightarrow> s \<in> set [JsCompleted, JsFailed, JsCancelled, JsExpired]"

record retry_policy =
  rp_max_attempts :: u32
  rp_backoff_seconds :: u64
  rp_retryable_failure_types :: "string list"

definition retry_policy_default :: retry_policy where
  "retry_policy_default =
     \<lparr>rp_max_attempts = 1, rp_backoff_seconds = 0, rp_retryable_failure_types = []\<rparr>"

type_synonym instant = int

record optimizer_job =
  oj_job_id :: string
  oj_run_id :: string
  oj_kind :: optimizer_job_kind
  oj_status :: optimizer_job_status
  oj_candidate_id :: "string option"
  oj_attempt :: u32
  oj_lease_id :: "string option"
  oj_worker_id :: "string option"
  oj_leased_at :: "instant option"
  oj_lease_expires_at :: "instant option"
  oj_heartbeat_at :: "instant option"
  oj_next_retry_at :: "instant option"
  oj_retry_policy :: retry_policy
  oj_failure :: "failure_payload option"
  oj_payload :: json_map

definition optimizer_job_new :: "string \<Rightarrow> string \<Rightarrow> optimizer_job_kind \<Rightarrow> optimizer_job" where
  "optimizer_job_new job_id run_id kind =
     \<lparr>oj_job_id = job_id, oj_run_id = run_id, oj_kind = kind, oj_status = JsPending,
      oj_candidate_id = None, oj_attempt = 0, oj_lease_id = None, oj_worker_id = None,
      oj_leased_at = None, oj_lease_expires_at = None, oj_heartbeat_at = None,
      oj_next_retry_at = None, oj_retry_policy = retry_policy_default, oj_failure = None,
      oj_payload = []\<rparr>"

subsection \<open>The table\<close>

text \<open>
  The \<open>attempt\<close> column is a 64-bit integer that is written from a \<open>u32\<close>, incremented by SQL, and
  read back with \<open>max(0) as u32\<close>; the row keeps it as the \<open>int\<close> it is in the table.
\<close>

record job_row =
  jr_job :: optimizer_job
  jr_attempt :: int
  jr_updated_at :: instant

type_synonym job_table = "job_row list"

definition job_key :: "job_row \<Rightarrow> string \<times> string" where
  "job_key r = (oj_run_id (jr_job r), oj_job_id (jr_job r))"

text \<open>The last instant of the year 9999.\<close>

definition datetime_max :: instant where
  "datetime_max = 253402300799"

definition datetime_plus :: "instant \<Rightarrow> u64 \<Rightarrow> instant option" where
  "datetime_plus now seconds =
     (if now + uint seconds \<le> datetime_max then Some (now + uint seconds) else None)"

definition optimizer_job_from_row :: "job_row \<Rightarrow> optimizer_job" where
  "optimizer_job_from_row r = (jr_job r)\<lparr>oj_attempt := word_of_int (max 0 (jr_attempt r))\<rparr>"

definition maybe_optimizer_job :: "string \<Rightarrow> string \<Rightarrow> job_table \<Rightarrow> optimizer_job option" where
  "maybe_optimizer_job run_id job_id jobs =
     map_option optimizer_job_from_row (lookup_row job_key jobs (run_id, job_id))"

definition get_optimizer_job :: "string \<Rightarrow> string \<Rightarrow> job_table \<Rightarrow> optimizer_job result" where
  "get_optimizer_job run_id job_id jobs =
     (case maybe_optimizer_job run_id job_id jobs of
        Some j \<Rightarrow> Inr j
      | None \<Rightarrow> Inl (Config (''optimizer job does not exist run_id='' @ run_id @ '' job_id='' @ job_id)))"

definition record_optimizer_job :: "instant \<Rightarrow> optimizer_job \<Rightarrow> job_table \<Rightarrow> job_table" where
  "record_optimizer_job now job jobs =
     upsert job_key \<lparr>jr_job = job, jr_attempt = uint (oj_attempt job), jr_updated_at = now\<rparr> jobs"

definition claimable :: "instant \<Rightarrow> job_row \<Rightarrow> bool" where
  "claimable now r =
     (let j = jr_job r in
      oj_status j = JsPending \<or>
      oj_status j = JsRetryScheduled \<and>
        (case oj_next_retry_at j of None \<Rightarrow> True | Some t \<Rightarrow> t \<le> now))"

definition active_status :: "optimizer_job_status \<Rightarrow> bool" where
  "active_status s \<longleftrightarrow> s \<in> set [JsLeased, JsRunning, JsAnnotating, JsVerifying]"

definition lease_expired :: "instant \<Rightarrow> job_row \<Rightarrow> bool" where
  "lease_expired now r =
     (let j = jr_job r in
      active_status (oj_status j) \<and> (case oj_lease_expires_at j of None \<Rightarrow> False | Some t \<Rightarrow> t \<le> now))"

text \<open>The result of an \<open>UPDATE\<close> that must hit its row: the job if a row changed.\<close>

definition updated_job :: "string \<Rightarrow> string \<Rightarrow> (job_row \<Rightarrow> bool) \<Rightarrow> (job_row \<Rightarrow> job_row) \<Rightarrow> job_table \<Rightarrow>
  job_table \<times> optimizer_job option result" where
  "updated_job run_id job_id p f jobs =
     (let q = (\<lambda>r. job_key r = (run_id, job_id) \<and> p r); jobs' = update_where q f jobs in
      if count_where q jobs = 0 then (jobs', Inr None)
      else case get_optimizer_job run_id job_id jobs' of Inl e \<Rightarrow> (jobs', Inl e) | Inr j \<Rightarrow> (jobs', Inr (Some j)))"

subsection \<open>Recovery of expired leases\<close>

definition recover_row :: "instant \<Rightarrow> bool \<Rightarrow> u64 \<Rightarrow> job_row \<Rightarrow> job_row" where
  "recover_row now retryable backoff r =
     r\<lparr>jr_job := (jr_job r)\<lparr>oj_status := (if retryable then JsRetryScheduled else JsExpired),
                            oj_lease_id := None, oj_worker_id := None, oj_lease_expires_at := None,
                            oj_heartbeat_at := None,
                            oj_next_retry_at := (if retryable then datetime_plus now backoff else None)\<rparr>,
       jr_updated_at := now\<rparr>"

text \<open>One round of the loop, for a job that the query selected with its attempt and policy.\<close>

definition recover_one :: "instant \<Rightarrow> string \<Rightarrow> string \<times> u32 \<times> retry_policy \<Rightarrow> job_table \<times> optimizer_job list \<Rightarrow>
  (job_table \<times> optimizer_job list) result" where
  "recover_one now run_id e st =
     (case e of (job_id, attempt, policy) \<Rightarrow> case st of (jobs, recovered) \<Rightarrow>
       (let retryable = attempt < rp_max_attempts policy;
            q = (\<lambda>r. job_key r = (run_id, job_id) \<and> lease_expired now r);
            jobs' = update_where q (recover_row now retryable (rp_backoff_seconds policy)) jobs
        in if count_where q jobs = 0 then Inr (jobs', recovered)
           else map_sum id (\<lambda>j. (jobs', recovered @ [j])) (get_optimizer_job run_id job_id jobs')))"

fun recover_loop :: "instant \<Rightarrow> string \<Rightarrow> (string \<times> u32 \<times> retry_policy) list \<Rightarrow> job_table \<times> optimizer_job list \<Rightarrow>
  (job_table \<times> optimizer_job list) result" where
  "recover_loop now run_id [] st = Inr st"
| "recover_loop now run_id (e # es) st =
     (case recover_one now run_id e st of Inl err \<Rightarrow> Inl err | Inr st' \<Rightarrow> recover_loop now run_id es st')"

definition expired_jobs :: "instant \<Rightarrow> string \<Rightarrow> job_table \<Rightarrow> (string \<times> u32 \<times> retry_policy) list" where
  "expired_jobs now run_id jobs =
     map (\<lambda>r. (oj_job_id (jr_job r), oj_attempt (optimizer_job_from_row r), oj_retry_policy (jr_job r)))
       (sort_key (\<lambda>r. (case oj_lease_expires_at (jr_job r) of None \<Rightarrow> 0 | Some t \<Rightarrow> t, oj_job_id (jr_job r)))
         (filter (\<lambda>r. oj_run_id (jr_job r) = run_id \<and> lease_expired now r) jobs))"

definition recover_expired_optimizer_jobs :: "instant \<Rightarrow> string \<Rightarrow> job_table \<Rightarrow>
  (job_table \<times> optimizer_job list) result" where
  "recover_expired_optimizer_jobs now run_id jobs =
     recover_loop now run_id (expired_jobs now run_id jobs) (jobs, [])"

subsection \<open>Claiming\<close>

definition lease_row :: "instant \<Rightarrow> string \<Rightarrow> string option \<Rightarrow> u64 \<Rightarrow> job_row \<Rightarrow> job_row" where
  "lease_row now lease_id worker_id lease_seconds r =
     r\<lparr>jr_job := (jr_job r)\<lparr>oj_status := JsLeased, oj_lease_id := Some lease_id, oj_worker_id := worker_id,
                            oj_leased_at := Some now,
                            oj_lease_expires_at := datetime_plus now lease_seconds,
                            oj_heartbeat_at := Some now, oj_next_retry_at := None\<rparr>,
       jr_attempt := jr_attempt r + 1, jr_updated_at := now\<rparr>"

definition lease_job :: "instant \<Rightarrow> string \<Rightarrow> string \<Rightarrow> string \<Rightarrow> string option \<Rightarrow> u64 \<Rightarrow> job_table \<Rightarrow>
  job_table \<times> optimizer_job option result" where
  "lease_job now run_id job_id lease_id worker_id lease_seconds jobs =
     updated_job run_id job_id (claimable now) (lease_row now lease_id worker_id lease_seconds) jobs"

definition claim_optimizer_job :: "instant \<Rightarrow> string \<Rightarrow> string \<Rightarrow> string \<Rightarrow> string option \<Rightarrow> u64 \<Rightarrow>
  (job_table, optimizer_job option) op" where
  "claim_optimizer_job now run_id job_id lease_id worker_id lease_seconds jobs =
     (case recover_expired_optimizer_jobs now run_id jobs of
        Inl e \<Rightarrow> (jobs, Inl e)
      | Inr (jobs', _) \<Rightarrow> lease_job now run_id job_id lease_id worker_id lease_seconds jobs')"

definition next_claimable :: "instant \<Rightarrow> string \<Rightarrow> job_table \<Rightarrow> string option" where
  "next_claimable now run_id jobs =
     (case sort_key (\<lambda>r. (jr_updated_at r, oj_job_id (jr_job r)))
             (filter (\<lambda>r. oj_run_id (jr_job r) = run_id \<and> claimable now r) jobs) of
        [] \<Rightarrow> None | r # _ \<Rightarrow> Some (oj_job_id (jr_job r)))"

definition claim_next_optimizer_job :: "instant \<Rightarrow> string \<Rightarrow> string \<Rightarrow> string option \<Rightarrow> u64 \<Rightarrow>
  (job_table, optimizer_job option) op" where
  "claim_next_optimizer_job now run_id lease_id worker_id lease_seconds jobs =
     (case recover_expired_optimizer_jobs now run_id jobs of
        Inl e \<Rightarrow> (jobs, Inl e)
      | Inr (jobs', _) \<Rightarrow>
          (case next_claimable now run_id jobs' of
             None \<Rightarrow> (jobs', Inr None)
           | Some job_id \<Rightarrow> lease_job now run_id job_id lease_id worker_id lease_seconds jobs'))"

definition optimizer_job_claimable :: "instant \<Rightarrow> string \<Rightarrow> string \<Rightarrow> job_table \<Rightarrow> bool" where
  "optimizer_job_claimable now run_id job_id jobs \<longleftrightarrow>
     0 < count_where (\<lambda>r. job_key r = (run_id, job_id) \<and> claimable now r) jobs"

subsection \<open>Work under a lease\<close>

definition holds_lease :: "string \<Rightarrow> job_row \<Rightarrow> bool" where
  "holds_lease lease_id r \<longleftrightarrow> oj_lease_id (jr_job r) = Some lease_id \<and> active_status (oj_status (jr_job r))"

definition beat_row :: "instant \<Rightarrow> u64 \<Rightarrow> job_row \<Rightarrow> job_row" where
  "beat_row now lease_seconds r =
     r\<lparr>jr_job := (jr_job r)\<lparr>oj_heartbeat_at := Some now, oj_lease_expires_at := datetime_plus now lease_seconds\<rparr>,
       jr_updated_at := now\<rparr>"

definition run_row :: "instant \<Rightarrow> u64 \<Rightarrow> job_row \<Rightarrow> job_row" where
  "run_row now lease_seconds r =
     (let r' = beat_row now lease_seconds r in r'\<lparr>jr_job := (jr_job r')\<lparr>oj_status := JsRunning\<rparr>\<rparr>)"

definition mark_optimizer_job_running :: "instant \<Rightarrow> string \<Rightarrow> string \<Rightarrow> string \<Rightarrow> u64 \<Rightarrow>
  (job_table, optimizer_job option) op" where
  "mark_optimizer_job_running now run_id job_id lease_id lease_seconds jobs =
     updated_job run_id job_id (holds_lease lease_id) (run_row now lease_seconds) jobs"

definition heartbeat_optimizer_job :: "instant \<Rightarrow> string \<Rightarrow> string \<Rightarrow> string \<Rightarrow> u64 \<Rightarrow>
  (job_table, optimizer_job option) op" where
  "heartbeat_optimizer_job now run_id job_id lease_id lease_seconds jobs =
     updated_job run_id job_id (holds_lease lease_id) (beat_row now lease_seconds) jobs"

definition retry_row :: "instant \<Rightarrow> u64 \<Rightarrow> failure_payload \<Rightarrow> job_row \<Rightarrow> job_row" where
  "retry_row now backoff failure r =
     r\<lparr>jr_job := (jr_job r)\<lparr>oj_status := JsRetryScheduled, oj_lease_id := None, oj_worker_id := None,
                            oj_leased_at := None, oj_lease_expires_at := None, oj_heartbeat_at := None,
                            oj_next_retry_at := datetime_plus now backoff, oj_failure := Some failure\<rparr>,
       jr_updated_at := now\<rparr>"

definition schedule_optimizer_job_retry :: "instant \<Rightarrow> string \<Rightarrow> string \<Rightarrow> string \<Rightarrow> u64 \<Rightarrow> failure_payload \<Rightarrow>
  (job_table, optimizer_job option) op" where
  "schedule_optimizer_job_retry now run_id job_id lease_id backoff failure jobs =
     updated_job run_id job_id
       (\<lambda>r. oj_lease_id (jr_job r) = Some lease_id \<and> oj_status (jr_job r) \<in> set [JsLeased, JsRunning])
       (retry_row now backoff failure) jobs"

definition schedule_terminal_optimizer_job_retry :: "instant \<Rightarrow> string \<Rightarrow> string \<Rightarrow> u64 \<Rightarrow> failure_payload \<Rightarrow>
  (job_table, optimizer_job option) op" where
  "schedule_terminal_optimizer_job_retry now run_id job_id backoff failure jobs =
     updated_job run_id job_id (\<lambda>r. oj_status (jr_job r) \<in> set [JsFailed, JsExpired])
       (retry_row now backoff failure) jobs"

subsection \<open>Retry decisions of the runtime\<close>

definition rollout_retry_backoff_seconds :: "optimizer_job \<Rightarrow> u64" where
  "rollout_retry_backoff_seconds job =
     (let exponent = min (saturating_sub (oj_attempt job) 1) 8 in
      max (saturating_mul (rp_backoff_seconds (oj_retry_policy job)) (push_bit (unat exponent) 1)) 1)"

fun is_retryable_rollout_runtime_error :: "optimizer_error \<Rightarrow> bool" where
  "is_retryable_rollout_runtime_error (HttpError _ _) = True"
| "is_retryable_rollout_runtime_error (Container _) = True"
| "is_retryable_rollout_runtime_error (ContainerHttpStatus _ s _) =
     (s \<in> set [408, 409, 425, 429] \<or> 500 \<le> s \<and> s \<le> 599)"
| "is_retryable_rollout_runtime_error (ErrFailed _) = True"
| "is_retryable_rollout_runtime_error (JsonError _) = True"
| "is_retryable_rollout_runtime_error _ = False"

definition is_retryable_runtime_job_error :: "optimizer_job \<Rightarrow> optimizer_error \<Rightarrow> bool" where
  "is_retryable_runtime_job_error job e =
     (case oj_kind job of
        JkRollout \<Rightarrow> is_retryable_rollout_runtime_error e
      | JkProposer \<Rightarrow> (case e of Proposer _ \<Rightarrow> True | _ \<Rightarrow> False)
      | _ \<Rightarrow> False)"

text \<open>The instant of the next retry is printed as the \<open>datetime\<close> text that \<open>fmt\<close> gives.\<close>

definition schedule_runtime_retry_if_allowed :: "(instant \<Rightarrow> string) \<Rightarrow> instant \<Rightarrow> optimizer_job \<Rightarrow> string \<Rightarrow>
  optimizer_error \<Rightarrow> (job_table, optimizer_error option) op" where
  "schedule_runtime_retry_if_allowed fmt now job lease_id err jobs =
     (if \<not> is_retryable_runtime_job_error job err \<or> rp_max_attempts (oj_retry_policy job) \<le> oj_attempt job
      then (jobs, Inr None)
      else case schedule_optimizer_job_retry now (oj_run_id job) (oj_job_id job) lease_id
                  (rollout_retry_backoff_seconds job) (from_optimizer_error err) jobs of
             (jobs', Inl e) \<Rightarrow> (jobs', Inl e)
           | (jobs', Inr None) \<Rightarrow> (jobs', Inr None)
           | (jobs', Inr (Some updated)) \<Rightarrow>
               (jobs', Inr (Some (ErrFailed
                 (''retryable runtime failure scheduled for retry job_id='' @ oj_job_id updated @
                  '' kind='' @ job_kind_str (oj_kind updated) @
                  '' attempt='' @ show_word (saturating_add (oj_attempt updated) 1) @ ''/'' @
                  show_word (rp_max_attempts (oj_retry_policy updated)) @ '' next_retry_at='' @
                  (case oj_next_retry_at updated of None \<Rightarrow> ''now'' | Some t \<Rightarrow> fmt t))))))"

text \<open>
  The queue part of \<open>schedule_failed_runtime_retry_if_allowed\<close>; a scheduled retry also persists the
  run state, which is outside the queue.
\<close>

definition schedule_failed_retry_if_allowed :: "instant \<Rightarrow> optimizer_job \<Rightarrow> (job_table, optimizer_job option) op" where
  "schedule_failed_retry_if_allowed now job jobs =
     (if oj_kind job \<notin> set [JkRollout, JkProposer] \<or> oj_status job = JsCancelled then (jobs, Inr None)
      else let failure = (case oj_failure job of Some f \<Rightarrow> f
                          | None \<Rightarrow> from_optimizer_error (ErrFailed
                              (''GEPA runtime job '' @ oj_job_id job @ '' '' @ job_status_str (oj_status job))))
           in if \<not> fp_retryable failure \<or> rp_max_attempts (oj_retry_policy job) \<le> oj_attempt job
              then (jobs, Inr None)
              else schedule_terminal_optimizer_job_retry now (oj_run_id job) (oj_job_id job)
                     (rollout_retry_backoff_seconds job) failure jobs)"

subsection \<open>Rows are found by their key\<close>

definition jobs_ok :: "job_table \<Rightarrow> bool" where
  "jobs_ok jobs \<longleftrightarrow> distinct_keys job_key jobs"

lemma job_key_updates [simp]:
  "job_key (lease_row now l w s r) = job_key r" "job_key (beat_row now s r) = job_key r"
  "job_key (run_row now s r) = job_key r" "job_key (retry_row now b f r) = job_key r"
  "job_key (recover_row now rt b r) = job_key r"
  by (simp_all add: job_key_def lease_row_def beat_row_def run_row_def retry_row_def recover_row_def Let_def)

lemma jobs_ok_update_where:
  "jobs_ok jobs \<Longrightarrow> (\<And>r. job_key (f r) = job_key r) \<Longrightarrow> jobs_ok (update_where p f jobs)"
  unfolding jobs_ok_def by (rule distinct_keys_update_where)

lemma update_where_keyed_lookup:
  assumes "\<And>r. job_key (f r) = job_key r"
  shows "lookup_row job_key (update_where (\<lambda>r. job_key r = k \<and> p r) f jobs) k' =
    map_option (\<lambda>r. if k' = k \<and> p r then f r else r) (lookup_row job_key jobs k')"
  unfolding lookup_update_where [where key = job_key and f = f, OF assms]
  by (cases "lookup_row job_key jobs k'") (auto dest: lookup_row_SomeD)

text \<open>An update under a primary key either finds its row and returns it, or changes nothing.\<close>

lemma updated_job_eq:
  assumes ok: "jobs_ok jobs" and key: "\<And>r. job_key (f r) = job_key r"
  shows "updated_job run_id job_id p f jobs =
    (update_where (\<lambda>r. job_key r = (run_id, job_id) \<and> p r) f jobs,
     Inr (case lookup_row job_key jobs (run_id, job_id) of None \<Rightarrow> None
          | Some r \<Rightarrow> if p r then Some (optimizer_job_from_row (f r)) else None))"
proof -
  let ?q = "\<lambda>r. job_key r = (run_id, job_id) \<and> p r"
  have hit: "0 < count_where ?q jobs \<longleftrightarrow> (\<exists>r. lookup_row job_key jobs (run_id, job_id) = Some r \<and> p r)"
    using ok unfolding jobs_ok_def by (rule count_where_key)
  show ?thesis
  proof (cases "\<exists>r. lookup_row job_key jobs (run_id, job_id) = Some r \<and> p r")
    case True
    then obtain r where r: "lookup_row job_key jobs (run_id, job_id) = Some r" "p r"
      by blast
    with hit have "count_where ?q jobs \<noteq> 0"
      by auto
    then show ?thesis
      using r by (simp add: updated_job_def Let_def get_optimizer_job_def maybe_optimizer_job_def
          update_where_keyed_lookup key)
  next
    case False
    with hit have z: "count_where ?q jobs = 0"
      by auto
    with False show ?thesis
      by (auto simp: updated_job_def Let_def split: option.splits)
  qed
qed

lemma updated_job_miss:
  assumes "jobs_ok jobs" and "\<And>r. job_key (f r) = job_key r"
    and "snd (updated_job run_id job_id p f jobs) = Inr None"
  shows "fst (updated_job run_id job_id p f jobs) = jobs"
proof -
  have "\<nexists>r. lookup_row job_key jobs (run_id, job_id) = Some r \<and> p r"
    using assms by (auto simp: updated_job_eq split: option.splits if_splits)
  then have "count_where (\<lambda>r. job_key r = (run_id, job_id) \<and> p r) jobs = 0"
    using count_where_key [of job_key jobs "(run_id, job_id)" p] assms(1) by (auto simp: jobs_ok_def)
  then show ?thesis
    using assms(1,2) by (simp add: updated_job_eq update_where_none)
qed

subsection \<open>Recovery is one update of all expired leases\<close>

definition recovered_row :: "instant \<Rightarrow> job_row \<Rightarrow> job_row" where
  "recovered_row now r =
     recover_row now (oj_attempt (optimizer_job_from_row r) < rp_max_attempts (oj_retry_policy (jr_job r)))
       (rp_backoff_seconds (oj_retry_policy (jr_job r))) r"

definition recovered_table :: "instant \<Rightarrow> string \<Rightarrow> job_table \<Rightarrow> job_table" where
  "recovered_table now run_id jobs =
     update_where (\<lambda>r. oj_run_id (jr_job r) = run_id \<and> lease_expired now r) (recovered_row now) jobs"

definition recover_entry :: "job_row \<Rightarrow> string \<times> u32 \<times> retry_policy" where
  "recover_entry r = (oj_job_id (jr_job r), oj_attempt (optimizer_job_from_row r), oj_retry_policy (jr_job r))"

lemma job_key_recovered_row [simp]: "job_key (recovered_row now r) = job_key r"
  by (simp add: recovered_row_def)

lemma not_expired_recovered_row [simp]: "\<not> lease_expired now' (recovered_row now r)"
  by (simp add: recovered_row_def recover_row_def lease_expired_def Let_def active_status_def)

lemma recover_one_entry:
  fixes D :: "(string \<times> string) set"
  assumes ok: "jobs_ok jobs" and r: "r \<in> set jobs" "oj_run_id (jr_job r) = run_id" "lease_expired now r"
    and D: "job_key r \<notin> D"
  defines "J \<equiv> \<lambda>D. update_where (\<lambda>x. job_key x \<in> D \<and> lease_expired now x) (recovered_row now) jobs"
  shows "recover_one now run_id (recover_entry r) (J D, acc) =
    Inr (J (insert (job_key r) D), acc @ [optimizer_job_from_row (recovered_row now r)])"
proof -
  let ?k = "job_key r"
  have k: "(run_id, oj_job_id (jr_job r)) = ?k"
    using r(2) by (simp add: job_key_def)
  have uniq: "x = r" if "x \<in> set jobs" "job_key x = ?k" for x
    using ok that r(1) lookup_row_distinct [of job_key jobs] by (metis jobs_ok_def option.inject)
  let ?q = "\<lambda>x. job_key x = ?k \<and> lease_expired now x"
  let ?f = "recover_row now (oj_attempt (optimizer_job_from_row r) < rp_max_attempts (oj_retry_policy (jr_job r)))
    (rp_backoff_seconds (oj_retry_policy (jr_job r)))"
  have J: "update_where ?q ?f (J D) = J (insert ?k D)"
    unfolding J_def update_where_def list.map_comp
  proof (rule map_cong [OF refl])
    fix x
    assume "x \<in> set jobs"
    with D uniq show "((\<lambda>x. if ?q x then ?f x else x) \<circ>
        (\<lambda>x. if job_key x \<in> D \<and> lease_expired now x then recovered_row now x else x)) x =
      (if job_key x \<in> insert ?k D \<and> lease_expired now x then recovered_row now x else x)"
      by (cases "job_key x = ?k") (auto simp: recovered_row_def)
  qed
  have "r \<in> set (J D)"
    using r(1) D by (auto simp: J_def update_where_def)
  then have hit: "count_where ?q (J D) \<noteq> 0"
    using r(3) by (auto simp: count_where_zero_iff)
  have "lookup_row job_key jobs ?k = Some r"
    using ok r(1) unfolding jobs_ok_def by (rule lookup_row_distinct)
  then have "lookup_row job_key (J (insert ?k D)) ?k = Some (recovered_row now r)"
    using r(3) by (simp add: J_def lookup_update_where)
  then show ?thesis
    using hit J by (simp add: recover_one_def recover_entry_def Let_def k get_optimizer_job_def
        maybe_optimizer_job_def)
qed

lemma recover_loop_entries:
  assumes "jobs_ok jobs" and "\<forall>r \<in> set rs. r \<in> set jobs \<and> oj_run_id (jr_job r) = run_id \<and> lease_expired now r"
    and "distinct (map job_key rs)" and "D \<inter> job_key ` set rs = {}"
  shows "recover_loop now run_id (map recover_entry rs)
      (update_where (\<lambda>x. job_key x \<in> D \<and> lease_expired now x) (recovered_row now) jobs, acc) =
    Inr (update_where (\<lambda>x. job_key x \<in> D \<union> job_key ` set rs \<and> lease_expired now x) (recovered_row now) jobs,
         acc @ map (\<lambda>r. optimizer_job_from_row (recovered_row now r)) rs)"
  using assms(2-4)
proof (induction rs arbitrary: D acc)
  case (Cons r rs)
  have 1: "r \<in> set jobs" "oj_run_id (jr_job r) = run_id" "lease_expired now r" "job_key r \<notin> D"
    using Cons.prems by auto
  have 2: "\<forall>r \<in> set rs. r \<in> set jobs \<and> oj_run_id (jr_job r) = run_id \<and> lease_expired now r"
    "distinct (map job_key rs)" "insert (job_key r) D \<inter> job_key ` set rs = {}"
    using Cons.prems by auto
  show ?case
    using recover_one_entry [OF assms(1) 1] Cons.IH [OF 2] by (simp add: insert_commute)
qed simp

lemma recover_expired_eq:
  assumes "jobs_ok jobs"
  shows "\<exists>recovered. recover_expired_optimizer_jobs now run_id jobs = Inr (recovered_table now run_id jobs, recovered)"
proof -
  let ?rs = "sort_key (\<lambda>r. (case oj_lease_expires_at (jr_job r) of None \<Rightarrow> 0 | Some t \<Rightarrow> t, oj_job_id (jr_job r)))
    (filter (\<lambda>r. oj_run_id (jr_job r) = run_id \<and> lease_expired now r) jobs)"
  have d: "distinct (map job_key ?rs)"
  proof -
    have "distinct jobs" "inj_on job_key (set jobs)"
      using assms by (simp_all add: jobs_ok_def distinct_keys_def distinct_map)
    then show ?thesis
      by (auto simp: distinct_map inj_on_def)
  qed
  have sel: "\<forall>r \<in> set ?rs. r \<in> set jobs \<and> oj_run_id (jr_job r) = run_id \<and> lease_expired now r"
    by auto
  have start: "update_where (\<lambda>x. job_key x \<in> {} \<and> lease_expired now x) (recovered_row now) jobs = jobs"
    by (simp add: update_where_def)
  have final: "update_where (\<lambda>x. job_key x \<in> {} \<union> job_key ` set ?rs \<and> lease_expired now x) (recovered_row now) jobs =
      recovered_table now run_id jobs"
    unfolding recovered_table_def update_where_def
    by (rule map_cong [OF refl]) (auto simp: job_key_def)
  show ?thesis
    using recover_loop_entries [OF assms sel d, of "{}" "[]"] unfolding start final
    by (auto simp: recover_expired_optimizer_jobs_def expired_jobs_def recover_entry_def [abs_def])
qed

subsection \<open>The operations, row by row\<close>

lemma jobs_ok_recovered [intro]: "jobs_ok jobs \<Longrightarrow> jobs_ok (recovered_table now run_id jobs)"
  unfolding recovered_table_def by (rule jobs_ok_update_where) simp_all

lemma lookup_recovered_table:
  "lookup_row job_key (recovered_table now run_id jobs) (run, i) =
     map_option (\<lambda>r. if run = run_id \<and> lease_expired now r then recovered_row now r else r)
       (lookup_row job_key jobs (run, i))"
  unfolding recovered_table_def lookup_update_where [where key = job_key, OF job_key_recovered_row]
  by (cases "lookup_row job_key jobs (run, i)") (auto dest!: lookup_row_SomeD simp: job_key_def)

lemma claim_eq:
  assumes "jobs_ok jobs"
  shows "claim_optimizer_job now run_id job_id lease_id worker_id secs jobs =
    lease_job now run_id job_id lease_id worker_id secs (recovered_table now run_id jobs)"
  using recover_expired_eq [OF assms, of now run_id] by (auto simp: claim_optimizer_job_def)

lemma lease_job_eq:
  assumes "jobs_ok jobs"
  shows "lease_job now run_id job_id lease_id worker_id secs jobs =
    (update_where (\<lambda>r. job_key r = (run_id, job_id) \<and> claimable now r) (lease_row now lease_id worker_id secs) jobs,
     Inr (case lookup_row job_key jobs (run_id, job_id) of None \<Rightarrow> None
          | Some r \<Rightarrow> if claimable now r then Some (optimizer_job_from_row (lease_row now lease_id worker_id secs r))
                      else None))"
  unfolding lease_job_def by (rule updated_job_eq [OF assms]) simp

lemma active_not_claimable: "active_status (oj_status (jr_job r)) \<Longrightarrow> \<not> claimable now r"
  by (auto simp: active_status_def claimable_def Let_def)

lemma lease_row_sel [simp]:
  "oj_status (jr_job (lease_row now l w s r)) = JsLeased"
  "oj_lease_id (jr_job (lease_row now l w s r)) = Some l"
  "oj_lease_expires_at (jr_job (lease_row now l w s r)) = datetime_plus now s"
  "jr_attempt (lease_row now l w s r) = jr_attempt r + 1"
  by (simp_all add: lease_row_def)

text \<open>A successful claim leaves the leased row in the table.\<close>

lemma claim_some_row:
  assumes "jobs_ok jobs"
    and "claim_optimizer_job now run_id job_id lease_id worker_id secs jobs = (jobs', Inr (Some j))"
  obtains r where "lookup_row job_key jobs' (run_id, job_id) = Some (lease_row now lease_id worker_id secs r)"
    "j = optimizer_job_from_row (lease_row now lease_id worker_id secs r)" "jobs_ok jobs'"
proof -
  let ?t = "recovered_table now run_id jobs"
  have ok: "jobs_ok ?t"
    using assms(1) by blast
  have eq: "lease_job now run_id job_id lease_id worker_id secs ?t = (jobs', Inr (Some j))"
    using assms by (simp add: claim_eq)
  then obtain r where r: "lookup_row job_key ?t (run_id, job_id) = Some r" "claimable now r"
    "j = optimizer_job_from_row (lease_row now lease_id worker_id secs r)"
    by (auto simp: lease_job_eq [OF ok] split: option.splits if_splits)
  have t': "jobs' = update_where (\<lambda>r. job_key r = (run_id, job_id) \<and> claimable now r)
      (lease_row now lease_id worker_id secs) ?t"
    using eq by (simp add: lease_job_eq [OF ok])
  have "lookup_row job_key jobs' (run_id, job_id) = Some (lease_row now lease_id worker_id secs r)"
    using r by (simp add: t' update_where_keyed_lookup)
  moreover have "jobs_ok jobs'"
    unfolding t' by (rule jobs_ok_update_where [OF ok]) simp
  ultimately show ?thesis
    using that r(3) by blast
qed

subsection \<open>Attempts\<close>

definition attempts_ok :: "job_row \<Rightarrow> bool" where
  "attempts_ok r \<longleftrightarrow> 0 \<le> jr_attempt r \<and> jr_attempt r \<le> uint (rp_max_attempts (oj_retry_policy (jr_job r))) \<and>
     (oj_status (jr_job r) \<in> {JsPending, JsRetryScheduled} \<longrightarrow>
        jr_attempt r < uint (rp_max_attempts (oj_retry_policy (jr_job r))))"

lemma uint_attempt_from_row:
  assumes "attempts_ok r"
  shows "uint (oj_attempt (optimizer_job_from_row r)) = jr_attempt r"
proof -
  have "jr_attempt r < 2 ^ 32"
    using assms uint_lt2p [of "rp_max_attempts (oj_retry_policy (jr_job r))"]
    by (simp add: attempts_ok_def)
  then show ?thesis
    using assms by (simp add: optimizer_job_from_row_def attempts_ok_def uint_word_of_int)
qed

lemma attempts_ok_lease_row: "attempts_ok r \<Longrightarrow> claimable now r \<Longrightarrow> attempts_ok (lease_row now l w s r)"
  by (auto simp: attempts_ok_def lease_row_def claimable_def Let_def)

lemma attempts_ok_beat_row: "attempts_ok r \<Longrightarrow> attempts_ok (beat_row now s r)"
  by (auto simp: attempts_ok_def beat_row_def)

lemma attempts_ok_run_row: "attempts_ok r \<Longrightarrow> attempts_ok (run_row now s r)"
  by (auto simp: attempts_ok_def run_row_def beat_row_def Let_def)

lemma attempts_ok_retry_row:
  "attempts_ok r \<Longrightarrow> oj_attempt (optimizer_job_from_row r) < rp_max_attempts (oj_retry_policy (jr_job r)) \<Longrightarrow>
     attempts_ok (retry_row now b f r)"
  using uint_attempt_from_row [of r] by (auto simp: attempts_ok_def retry_row_def word_less_def)

lemma attempts_ok_recovered_row: "attempts_ok r \<Longrightarrow> attempts_ok (recovered_row now r)"
  using uint_attempt_from_row [of r]
  by (auto simp: attempts_ok_def recovered_row_def recover_row_def word_less_def)

definition queue_ok :: "job_table \<Rightarrow> bool" where
  "queue_ok jobs \<longleftrightarrow> jobs_ok jobs \<and> list_all attempts_ok jobs"

lemma queue_ok_update_where:
  assumes "queue_ok jobs" and "\<And>r. job_key (f r) = job_key r"
    and "\<And>r. r \<in> set jobs \<Longrightarrow> p r \<Longrightarrow> attempts_ok r \<Longrightarrow> attempts_ok (f r)"
  shows "queue_ok (update_where p f jobs)"
proof -
  have "list_all attempts_ok (update_where p f jobs)"
    using assms(1,3) by (auto simp: queue_ok_def list_all_iff dest!: mem_update_whereD)
  then show ?thesis
    using assms(1,2) by (simp add: queue_ok_def jobs_ok_update_where)
qed

lemma queue_ok_updated_job:
  assumes "queue_ok jobs" and "\<And>r. job_key (f r) = job_key r"
    and "\<And>r. lookup_row job_key jobs (run_id, job_id) = Some r \<Longrightarrow> p r \<Longrightarrow> attempts_ok r \<Longrightarrow> attempts_ok (f r)"
  shows "queue_ok (fst (updated_job run_id job_id p f jobs))"
proof -
  have ok: "jobs_ok jobs"
    using assms(1) by (simp add: queue_ok_def)
  have "attempts_ok (f r)" if "r \<in> set jobs" "job_key r = (run_id, job_id) \<and> p r" "attempts_ok r" for r
    using assms(3) [of r] that ok lookup_row_distinct [of job_key jobs r] by (simp add: jobs_ok_def)
  then show ?thesis
    using assms(1,2) by (simp add: updated_job_eq [OF ok] queue_ok_update_where)
qed

lemma queue_ok_recovered: "queue_ok jobs \<Longrightarrow> queue_ok (recovered_table now run_id jobs)"
  unfolding recovered_table_def by (rule queue_ok_update_where) (simp_all add: attempts_ok_recovered_row)

lemma queue_ok_lease_job: "queue_ok jobs \<Longrightarrow> queue_ok (fst (lease_job now run_id job_id l w s jobs))"
  unfolding lease_job_def by (rule queue_ok_updated_job) (simp_all add: attempts_ok_lease_row)

lemma queue_ok_upsert: "queue_ok jobs \<Longrightarrow> attempts_ok r \<Longrightarrow> queue_ok (upsert job_key r jobs)"
  using set_upsert_subset [of job_key r jobs]
  by (auto simp: queue_ok_def jobs_ok_def list_all_iff distinct_keys_upsert)

subsection \<open>The queue of a run\<close>

text \<open>
  The steps that change the queue: a new job is submitted, claimed, kept alive, retried by the
  runtime or after it failed, recovered, or finished. The retry decisions are made on the job as it
  stands in the table.
\<close>

inductive queue :: "job_table \<Rightarrow> bool" where
  init: "queue []"
| submit: "queue jobs \<Longrightarrow> maybe_optimizer_job (oj_run_id job) (oj_job_id job) jobs = None \<Longrightarrow>
    oj_status job = JsPending \<Longrightarrow> oj_attempt job = 0 \<Longrightarrow> 0 < rp_max_attempts (oj_retry_policy job) \<Longrightarrow>
    queue (record_optimizer_job now job jobs)"
| finish: "queue jobs \<Longrightarrow> maybe_optimizer_job run_id job_id jobs = Some job \<Longrightarrow> job_status_is_terminal st \<Longrightarrow>
    queue (record_optimizer_job now (job\<lparr>oj_status := st, oj_failure := failure, oj_payload := payload\<rparr>) jobs)"
| claim: "queue jobs \<Longrightarrow> queue (fst (claim_optimizer_job now run_id job_id lease_id worker_id secs jobs))"
| claim_next: "queue jobs \<Longrightarrow> queue (fst (claim_next_optimizer_job now run_id lease_id worker_id secs jobs))"
| running: "queue jobs \<Longrightarrow> queue (fst (mark_optimizer_job_running now run_id job_id lease_id secs jobs))"
| heartbeat: "queue jobs \<Longrightarrow> queue (fst (heartbeat_optimizer_job now run_id job_id lease_id secs jobs))"
| recover: "queue jobs \<Longrightarrow> recover_expired_optimizer_jobs now run_id jobs = Inr (jobs', recovered) \<Longrightarrow> queue jobs'"
| retry: "queue jobs \<Longrightarrow> maybe_optimizer_job run_id job_id jobs = Some job \<Longrightarrow>
    queue (fst (schedule_runtime_retry_if_allowed fmt now job lease_id err jobs))"
| retry_failed: "queue jobs \<Longrightarrow> maybe_optimizer_job run_id job_id jobs = Some job \<Longrightarrow>
    queue (fst (schedule_failed_retry_if_allowed now job jobs))"

lemma maybe_optimizer_job_SomeE:
  assumes "maybe_optimizer_job run_id job_id jobs = Some job"
  obtains r where "lookup_row job_key jobs (run_id, job_id) = Some r" "job = optimizer_job_from_row r"
    "oj_run_id job = run_id" "oj_job_id job = job_id"
    "oj_retry_policy job = oj_retry_policy (jr_job r)" "r \<in> set jobs"
proof -
  obtain r where r: "lookup_row job_key jobs (run_id, job_id) = Some r" "job = optimizer_job_from_row r"
    using assms by (auto simp: maybe_optimizer_job_def)
  from lookup_row_SomeD [OF r(1)] have "r \<in> set jobs" "job_key r = (run_id, job_id)"
    by auto
  with r that show ?thesis
    by (simp add: optimizer_job_from_row_def job_key_def)
qed

lemma queue_ok_schedule_retry:
  assumes "queue_ok jobs" and "maybe_optimizer_job run_id job_id jobs = Some job"
  shows "queue_ok (fst (schedule_runtime_retry_if_allowed fmt now job lease_id err jobs))"
    and "queue_ok (fst (schedule_failed_retry_if_allowed now job jobs))"
proof -
  obtain r where r: "lookup_row job_key jobs (run_id, job_id) = Some r" "job = optimizer_job_from_row r"
    "oj_run_id job = run_id" "oj_job_id job = job_id" "oj_retry_policy job = oj_retry_policy (jr_job r)"
    using assms(2) by (elim maybe_optimizer_job_SomeE)
  have upd: "queue_ok (fst (updated_job run_id job_id p (retry_row now b f) jobs))"
    if "oj_attempt job < rp_max_attempts (oj_retry_policy job)" for p b f
    using assms(1) that r by (intro queue_ok_updated_job) (auto intro!: attempts_ok_retry_row)
  show "queue_ok (fst (schedule_runtime_retry_if_allowed fmt now job lease_id err jobs))"
  proof (cases "\<not> is_retryable_runtime_job_error job err \<or> rp_max_attempts (oj_retry_policy job) \<le> oj_attempt job")
    case False
    have "fst (schedule_runtime_retry_if_allowed fmt now job lease_id err jobs) =
        fst (schedule_optimizer_job_retry now run_id job_id lease_id (rollout_retry_backoff_seconds job)
               (from_optimizer_error err) jobs)"
      using False by (simp add: schedule_runtime_retry_if_allowed_def r(3,4) split: prod.split sum.split option.split)
    with False show ?thesis
      by (simp add: schedule_optimizer_job_retry_def upd not_le)
  qed (simp add: schedule_runtime_retry_if_allowed_def assms(1))
  show "queue_ok (fst (schedule_failed_retry_if_allowed now job jobs))"
    using assms(1) upd unfolding schedule_failed_retry_if_allowed_def schedule_terminal_optimizer_job_retry_def r(3,4)
    by (auto simp: Let_def not_le)
qed

lemma queue_ok_queue: "queue jobs \<Longrightarrow> queue_ok jobs"
proof (induction rule: queue.induct)
  case init
  show ?case by (simp add: queue_ok_def jobs_ok_def)
next
  case (submit jobs job now)
  then show ?case
    unfolding record_optimizer_job_def
    by (intro queue_ok_upsert) (auto simp: attempts_ok_def word_less_def)
next
  case (finish jobs run_id job_id job st now failure payload)
  then obtain r where r: "job = optimizer_job_from_row r" "r \<in> set jobs"
    "oj_retry_policy job = oj_retry_policy (jr_job r)"
    by (elim maybe_optimizer_job_SomeE) auto
  have "attempts_ok r"
    using finish.IH r(2) by (simp add: queue_ok_def list_all_iff)
  then show ?case
    using finish r uint_attempt_from_row [of r] unfolding record_optimizer_job_def
    by (intro queue_ok_upsert) (auto simp: attempts_ok_def job_status_is_terminal_def)
next
  case (claim jobs now run_id job_id lease_id worker_id secs)
  then show ?case
    using claim_eq queue_ok_lease_job queue_ok_recovered by (simp add: queue_ok_def [of jobs])
next
  case (claim_next jobs now run_id lease_id worker_id secs)
  then obtain rec where "recover_expired_optimizer_jobs now run_id jobs = Inr (recovered_table now run_id jobs, rec)"
    using recover_expired_eq [of jobs now run_id] by (auto simp: queue_ok_def)
  then show ?case
    using claim_next queue_ok_lease_job queue_ok_recovered
    by (auto simp: claim_next_optimizer_job_def split: option.splits)
next
  case (running jobs now run_id job_id lease_id secs)
  then show ?case
    unfolding mark_optimizer_job_running_def by (intro queue_ok_updated_job) (auto intro: attempts_ok_run_row)
next
  case (heartbeat jobs now run_id job_id lease_id secs)
  then show ?case
    unfolding heartbeat_optimizer_job_def by (intro queue_ok_updated_job) (auto intro: attempts_ok_beat_row)
next
  case (recover jobs now run_id jobs' recovered)
  then show ?case
    using recover_expired_eq [of jobs now run_id] queue_ok_recovered by (auto simp: queue_ok_def)
next
  case (retry jobs run_id job_id job fmt now lease_id err)
  then show ?case by (intro queue_ok_schedule_retry(1))
next
  case (retry_failed jobs run_id job_id job now)
  then show ?case by (intro queue_ok_schedule_retry(2))
qed

subsection \<open>Choosing the next job\<close>

lemma next_claimable_None_iff:
  "next_claimable now run_id jobs = None \<longleftrightarrow> (\<forall>r \<in> set jobs. oj_run_id (jr_job r) = run_id \<longrightarrow> \<not> claimable now r)"
proof -
  let ?f = "\<lambda>r. (jr_updated_at r, oj_job_id (jr_job r))"
  let ?xs = "filter (\<lambda>r. oj_run_id (jr_job r) = run_id \<and> claimable now r) jobs"
  have "next_claimable now run_id jobs = None \<longleftrightarrow> sort_key ?f ?xs = []"
    by (simp add: next_claimable_def split: list.split)
  also have "\<dots> \<longleftrightarrow> ?xs = []"
    by (simp only: length_0_conv [symmetric] length_sort)
  finally show ?thesis
    by (simp add: filter_empty_conv)
qed

lemma next_claimable_SomeD:
  assumes "next_claimable now run_id jobs = Some i"
  obtains r where "r \<in> set jobs" "job_key r = (run_id, i)" "claimable now r"
    "\<And>x. x \<in> set jobs \<Longrightarrow> oj_run_id (jr_job x) = run_id \<Longrightarrow> claimable now x \<Longrightarrow>
       (jr_updated_at r, i) \<le> (jr_updated_at x, oj_job_id (jr_job x))"
proof -
  let ?f = "\<lambda>r. (jr_updated_at r, oj_job_id (jr_job r))"
  let ?xs = "filter (\<lambda>r. oj_run_id (jr_job r) = run_id \<and> claimable now r) jobs"
  obtain r rs where s: "sort_key ?f ?xs = r # rs" and i: "i = oj_job_id (jr_job r)"
    using assms by (auto simp: next_claimable_def split: list.splits)
  have mem: "set (r # rs) = set ?xs"
    using s by (metis set_sort)
  have "sorted (map ?f (r # rs))"
    using s sorted_sort_key [of ?f ?xs] by simp
  then have "?f r \<le> ?f x" if "x \<in> set ?xs" for x
    using that mem by auto
  moreover have "r \<in> set ?xs"
    using mem by auto
  ultimately show ?thesis
    using that [of r] i by (auto simp: job_key_def)
qed

subsection \<open>Properties\<close>

text \<open>
  C2. Claims exclude each other: after a successful claim, no claim of the same job, by any worker
  and lease, succeeds before the lease expires; it returns nothing and leaves the leased row as it is.
\<close>
theorem claim_is_exclusive:
  assumes "jobs_ok jobs"
    and "claim_optimizer_job now run_id job_id lease_id worker_id secs jobs = (jobs', Inr (Some j))"
    and "\<And>e. datetime_plus now secs = Some e \<Longrightarrow> now' < e"
  shows "snd (claim_optimizer_job now' run_id job_id lease_id' worker_id' secs' jobs') = Inr None \<and>
    lookup_row job_key (fst (claim_optimizer_job now' run_id job_id lease_id' worker_id' secs' jobs')) (run_id, job_id) =
    lookup_row job_key jobs' (run_id, job_id)"
proof -
  obtain r where r: "lookup_row job_key jobs' (run_id, job_id) = Some (lease_row now lease_id worker_id secs r)"
    and ok': "jobs_ok jobs'"
    using claim_some_row [OF assms(1,2)] by metis
  let ?r = "lease_row now lease_id worker_id secs r"
  have "\<not> lease_expired now' ?r"
    using assms(3) by (auto simp: lease_expired_def Let_def split: option.splits)
  then have l: "lookup_row job_key (recovered_table now' run_id jobs') (run_id, job_id) = Some ?r"
    by (simp add: lookup_recovered_table r)
  have "\<not> claimable now' ?r"
    by (rule active_not_claimable) (simp add: active_status_def)
  then show ?thesis
    using l r by (simp add: claim_eq [OF ok'] lease_job_eq [OF jobs_ok_recovered [OF ok']] update_where_keyed_lookup)
qed

theorem claim_is_exclusive_witness:
  "let jobs = record_optimizer_job 100 (optimizer_job_new ''j'' ''r'' JkRollout) [];
       jobs' = fst (claim_optimizer_job 100 ''r'' ''j'' ''lease1'' None 60 jobs)
   in snd (claim_optimizer_job 150 ''r'' ''j'' ''lease2'' None 60 jobs') = Inr None"
proof -
  let ?jobs = "record_optimizer_job 100 (optimizer_job_new ''j'' ''r'' JkRollout) []"
  have ok: "jobs_ok ?jobs"
    by (simp add: record_optimizer_job_def jobs_ok_def distinct_keys_def)
  have "case claim_optimizer_job 100 ''r'' ''j'' ''lease1'' None 60 ?jobs of (_, Inr (Some _)) \<Rightarrow> True | _ \<Rightarrow> False"
    by code_simp
  then obtain jobs' j where c: "claim_optimizer_job 100 ''r'' ''j'' ''lease1'' None 60 ?jobs = (jobs', Inr (Some j))"
    by (auto split: prod.splits sum.splits option.splits)
  have e: "datetime_plus 100 60 = Some 160"
    by code_simp
  show ?thesis
    using claim_is_exclusive [OF ok c, of 150 "''lease2''" None 60] c e by (simp add: Let_def)
qed

text \<open>
  Work on a job needs its lease: marking it running, a heartbeat or a scheduled retry under a
  lease id other than the row's returns nothing and leaves the whole table unchanged.
\<close>
theorem wrong_lease_changes_nothing:
  assumes "jobs_ok jobs" and "lookup_row job_key jobs (run_id, job_id) = Some r"
    and "oj_lease_id (jr_job r) \<noteq> Some lease_id"
  shows "mark_optimizer_job_running now run_id job_id lease_id secs jobs = (jobs, Inr None) \<and>
    heartbeat_optimizer_job now run_id job_id lease_id secs jobs = (jobs, Inr None) \<and>
    schedule_optimizer_job_retry now run_id job_id lease_id backoff failure jobs = (jobs, Inr None)"
proof -
  have "updated_job run_id job_id p f jobs = (jobs, Inr None)"
    if "\<not> p r" "\<And>r. job_key (f r) = job_key r" for p f
  proof -
    have "snd (updated_job run_id job_id p f jobs) = Inr None"
      using assms(1,2) that by (simp add: updated_job_eq)
    with updated_job_miss [OF assms(1) that(2) this] show ?thesis
      by (metis prod.collapse)
  qed
  then show ?thesis
    using assms(3) by (simp add: mark_optimizer_job_running_def heartbeat_optimizer_job_def
        schedule_optimizer_job_retry_def holds_lease_def)
qed

theorem wrong_lease_changes_nothing_witness:
  "let jobs = record_optimizer_job 100 (optimizer_job_new ''j'' ''r'' JkRollout) []
   in heartbeat_optimizer_job 101 ''r'' ''j'' ''stolen'' 60 jobs = (jobs, Inr None)"
  using wrong_lease_changes_nothing
    [of "record_optimizer_job 100 (optimizer_job_new ''j'' ''r'' JkRollout) []" "''r''" "''j''" _ "''stolen''" 101 60]
  by (simp add: record_optimizer_job_def jobs_ok_def distinct_keys_def table_simps job_key_def optimizer_job_new_def)

text \<open>
  C16. The recovery loop is one update: it never fails, it rewrites exactly the rows of the run whose
  lease has expired (to \<open>retry_scheduled\<close> with the policy's backoff while attempts remain, else to
  \<open>expired\<close>), and afterwards no lease of the run is expired.
\<close>
theorem recovery_is_one_update:
  assumes "jobs_ok jobs"
  shows "\<exists>recovered. recover_expired_optimizer_jobs now run_id jobs = Inr (recovered_table now run_id jobs, recovered) \<and>
    (\<forall>r \<in> set (recovered_table now run_id jobs). oj_run_id (jr_job r) = run_id \<longrightarrow> \<not> lease_expired now r)"
proof -
  have "\<not> lease_expired now r"
    if "r \<in> set (recovered_table now run_id jobs)" "oj_run_id (jr_job r) = run_id" for r
    using that not_expired_recovered_row
    by (auto simp: recovered_table_def dest!: mem_update_whereD split: if_splits)
  then show ?thesis
    using recover_expired_eq [OF assms, of now run_id] by blast
qed

theorem recovery_is_one_update_witness:
  "let jobs = fst (claim_optimizer_job 100 ''r'' ''j'' ''lease1'' None 60
                 (record_optimizer_job 100 (optimizer_job_new ''j'' ''r'' JkRollout) []))
   in \<exists>recovered. recover_expired_optimizer_jobs 160 ''r'' jobs = Inr (recovered_table 160 ''r'' jobs, recovered) \<and>
        map (\<lambda>r. oj_status (jr_job r)) (recovered_table 160 ''r'' jobs) = [JsExpired]"
proof -
  let ?jobs = "fst (claim_optimizer_job 100 ''r'' ''j'' ''lease1'' None 60
    (record_optimizer_job 100 (optimizer_job_new ''j'' ''r'' JkRollout) []))"
  have 1: "jobs_ok ?jobs" "map (\<lambda>r. oj_status (jr_job r)) (recovered_table 160 ''r'' ?jobs) = [JsExpired]"
    by (code_simp, code_simp)
  show ?thesis
    using recovery_is_one_update [OF 1(1), of 160 "''r''"] 1(2) unfolding Let_def by metis
qed

text \<open>
  C15. A job is attempted at most as often as its retry policy allows: in every queue built from
  submissions with attempts left by claims, heartbeats, retries, recoveries and completions, the
  attempt counter of each job stays within \<open>max_attempts\<close>.
\<close>
theorem attempts_within_policy:
  assumes "queue jobs" and "r \<in> set jobs"
  shows "0 \<le> jr_attempt r \<and> jr_attempt r \<le> uint (rp_max_attempts (oj_retry_policy (jr_job r)))"
  using queue_ok_queue [OF assms(1)] assms(2) by (simp add: queue_ok_def list_all_iff attempts_ok_def)

theorem attempts_within_policy_witness:
  "list_all (\<lambda>r. jr_attempt r \<le> uint (rp_max_attempts (oj_retry_policy (jr_job r))))
     (fst (claim_optimizer_job 100 ''r'' ''j'' ''lease1'' None 60
        (record_optimizer_job 100 (optimizer_job_new ''j'' ''r'' JkRollout) [])))"
proof -
  have "queue (fst (claim_optimizer_job 100 ''r'' ''j'' ''lease1'' None 60
      (record_optimizer_job 100 (optimizer_job_new ''j'' ''r'' JkRollout) [])))"
    by (intro queue.claim queue.submit queue.init)
       (simp_all add: optimizer_job_new_def maybe_optimizer_job_def table_simps retry_policy_default_def)
  from attempts_within_policy [OF this] show ?thesis
    unfolding list_all_iff by blast
qed

text \<open>
  \<open>claim_next_optimizer_job\<close> makes progress and is fair: it returns nothing exactly when,
  after recovery, no job of the run can be claimed, and otherwise leases the claimable job that has
  waited longest (ties by job id).
\<close>
theorem claim_next_takes_oldest:
  assumes "jobs_ok jobs"
  shows "(\<forall>r \<in> set (recovered_table now run_id jobs). oj_run_id (jr_job r) = run_id \<longrightarrow> \<not> claimable now r) \<and>
      claim_next_optimizer_job now run_id lease_id worker_id secs jobs = (recovered_table now run_id jobs, Inr None) \<or>
    (\<exists>r \<in> set (recovered_table now run_id jobs). oj_run_id (jr_job r) = run_id \<and> claimable now r \<and>
      (\<forall>x \<in> set (recovered_table now run_id jobs). oj_run_id (jr_job x) = run_id \<longrightarrow> claimable now x \<longrightarrow>
         (jr_updated_at r, oj_job_id (jr_job r)) \<le> (jr_updated_at x, oj_job_id (jr_job x))) \<and>
      snd (claim_next_optimizer_job now run_id lease_id worker_id secs jobs) =
        Inr (Some (optimizer_job_from_row (lease_row now lease_id worker_id secs r))))"
proof -
  let ?t = "recovered_table now run_id jobs"
  have ok: "jobs_ok ?t"
    using assms by blast
  obtain rec where rec: "recover_expired_optimizer_jobs now run_id jobs = Inr (?t, rec)"
    using recover_expired_eq [OF assms] by blast
  show ?thesis
  proof (cases "next_claimable now run_id ?t")
    case None
    then have "\<forall>r \<in> set ?t. oj_run_id (jr_job r) = run_id \<longrightarrow> \<not> claimable now r"
      by (simp only: next_claimable_None_iff)
    moreover have "claim_next_optimizer_job now run_id lease_id worker_id secs jobs = (?t, Inr None)"
      using None rec by (simp add: claim_next_optimizer_job_def)
    ultimately show ?thesis
      by blast
  next
    case (Some i)
    then obtain r where r: "r \<in> set ?t" "job_key r = (run_id, i)" "claimable now r"
      and min: "\<And>x. x \<in> set ?t \<Longrightarrow> oj_run_id (jr_job x) = run_id \<Longrightarrow> claimable now x \<Longrightarrow>
        (jr_updated_at r, i) \<le> (jr_updated_at x, oj_job_id (jr_job x))"
      by (rule next_claimable_SomeD) blast
    have "lookup_row job_key ?t (run_id, i) = Some r"
      using ok r(1,2) lookup_row_distinct by (metis jobs_ok_def)
    then show ?thesis
      using rec Some r min
      by (intro disjI2 bexI [of _ r])
         (auto simp: claim_next_optimizer_job_def lease_job_eq [OF ok] job_key_def)
  qed
qed

theorem claim_next_takes_oldest_witness:
  "snd (claim_next_optimizer_job 100 ''r'' ''l'' None 60
     (record_optimizer_job 90 (optimizer_job_new ''b'' ''r'' JkRollout)
       (record_optimizer_job 95 (optimizer_job_new ''a'' ''r'' JkRollout) []))) \<noteq> Inr None"
proof -
  let ?jobs = "record_optimizer_job 90 (optimizer_job_new ''b'' ''r'' JkRollout)
    (record_optimizer_job 95 (optimizer_job_new ''a'' ''r'' JkRollout) [])"
  have "jobs_ok ?jobs" "\<exists>r \<in> set (recovered_table 100 ''r'' ?jobs). oj_run_id (jr_job r) = ''r'' \<and> claimable 100 r"
    by (code_simp, code_simp)
  then show ?thesis
    using claim_next_takes_oldest [of ?jobs 100 "''r''" "''l''" None 60] by auto
qed

end
