(* ===== verification/Job_Payload.thy ===== *)
theory Job_Payload
  imports Job_Store
begin

text \<open>
  \<open>lib.rs\<close>: the summary that replaces the payload of a completed runtime job
  (\<open>compact_completed_optimizer_job_payload\<close> and the functions it calls), the JSON form of a failure
  payload, and the retry policy of a runtime job.
\<close>

subsection \<open>Copying members\<close>

definition copy_keys :: "string list \<Rightarrow> json \<Rightarrow> json_map \<Rightarrow> json_map" where
  "copy_keys ks src m = fold (\<lambda>k. insert_opt k (json_get src k)) ks m"

definition insert_counted :: "string \<Rightarrow> string \<Rightarrow> (json \<Rightarrow> json) \<Rightarrow> json option \<Rightarrow> json_map \<Rightarrow> json_map" where
  "insert_counted count_key key f v m =
     (case Option.bind v as_array of None \<Rightarrow> m
      | Some xs \<Rightarrow> obj_insert key (JArr (map f xs)) (obj_insert count_key (json_len xs) m))"

subsection \<open>Summaries\<close>

definition compact_sensor_frame_value_summary :: "json \<Rightarrow> json" where
  "compact_sensor_frame_value_summary frame =
     JObj (copy_keys [''sensor_frame_id'', ''candidate_id'', ''rollout_id'', ''example_id'', ''task_id'', ''split'',
       ''evaluation_stage'', ''reward'', ''status'', ''success_status'', ''objective_scores'', ''usage'',
       ''trace_digest'', ''failure'', ''artifact_refs''] frame [])"

definition compact_candidate_value_summary :: "json \<Rightarrow> json" where
  "compact_candidate_value_summary candidate =
     (let s = copy_keys [''candidate_id'', ''parent_id'', ''source'', ''status'', ''minibatch_reward'',
                ''train_reward'', ''heldout_reward'', ''acceptance_score''] candidate [];
          s = insert_opt ''payload'' (json_get candidate ''payload'') s;
          s = insert_opt ''minibatch_score_count''
                (map_option json_len (Option.bind (json_get candidate ''minibatch_scores'') as_array)) s;
          s = insert_opt ''train_score_count''
                (map_option json_len (Option.bind (json_get candidate ''train_scores'') as_array)) s
      in JObj (insert_counted ''sensor_frame_count'' ''sensor_frames'' compact_sensor_frame_value_summary
                 (json_get candidate ''sensor_frames'') s))"

definition compact_pool :: "json \<Rightarrow> json" where
  "compact_pool pool =
     (let row_count = unwrap_or 0
            (or_else (Option.bind (json_get pool ''row_count'') as_u64)
               (map_option (\<lambda>rows. word_of_nat (length rows)) (Option.bind (json_get pool ''rows'') as_array)))
      in JObj (insert_opt ''task_ids'' (json_get pool ''task_ids'') [(''row_count'', json_u64 row_count)]))"

definition compact_task_pool_rows :: "json \<Rightarrow> json" where
  "compact_task_pool_rows task_pool_rows =
     (case as_object task_pool_rows of
        None \<Rightarrow> JObj []
      | Some obj \<Rightarrow>
          JObj (fold (\<lambda>(name, pool) s. if name = ''schema_version'' then s else obj_insert name (compact_pool pool) s)
                 obj (insert_opt ''schema_version'' (map_of obj ''schema_version'') [])))"

definition compact_runtime_request_summary :: "json \<Rightarrow> json" where
  "compact_runtime_request_summary request =
     (let s = obj_of [(''schema'', JStr ''synth_gepa.runtime_request_summary.v1''), (''storage_compacted'', JBool True)];
          s = copy_keys [''backend'', ''execution_mode'', ''runtime_substrate'', ''model'', ''generation'',
                ''proposal_count'', ''target_modules'', ''parent_candidate_id'', ''workspace_root'',
                ''run_artifact_dir'', ''proposal_artifact_dir''] request s;
          s = insert_opt ''parent'' (map_option compact_candidate_value_summary (json_get request ''parent'')) s;
          s = insert_counted ''candidate_count'' ''candidates'' compact_candidate_value_summary
                (json_get request ''candidates'') s;
          s = insert_opt ''task_pool_rows'' (map_option compact_task_pool_rows (json_get request ''task_pool_rows'')) s;
          s = insert_opt ''frontier_summary'' (json_get request ''frontier_summary'') s;
          s = insert_opt ''minibatch_failures'' (json_get request ''minibatch_failures'') s;
          s = insert_opt ''rollout_trace_artifact_ref_count''
                (map_option (\<lambda>v. case as_array v of None \<Rightarrow> json_u64 0 | Some xs \<Rightarrow> json_len xs)
                   (json_get request ''rollout_trace_artifact_refs'')) s
      in JObj (insert_opt ''merge_evidence_artifacts'' (json_get request ''merge_evidence_artifacts'') s))"

text \<open>\<open>project_json_fields\<close>: the named members of an object that are present.\<close>

definition project_json_fields :: "json \<Rightarrow> string list \<Rightarrow> json" where
  "project_json_fields v ks = JObj (copy_keys ks v [])"

definition compact_rollout_request_summary :: "json \<Rightarrow> json" where
  "compact_rollout_request_summary request =
     (let s = copy_keys [''task_id'', ''candidate_id'', ''policy''] request [];
          s = insert_opt ''candidate'' (json_get request ''candidate'') s
      in JObj (insert_opt ''task''
                (map_option (\<lambda>task. project_json_fields task
                   [''task_id'', ''task_instance_id'', ''split'', ''seed'', ''objective''])
                   (json_get request ''task'')) s))"

definition compact_runtime_rollout_dispatch_summary :: "json \<Rightarrow> json" where
  "compact_runtime_rollout_dispatch_summary rollout =
     (let s = copy_keys [''candidate_id'', ''stage'', ''example_id'', ''task_id''] rollout []
      in JObj (insert_opt ''request_summary''
                (map_option compact_rollout_request_summary (json_get rollout ''request'')) s))"

definition compact_completed_optimizer_job_payload :: "json_map \<Rightarrow> json_map" where
  "compact_completed_optimizer_job_payload payload =
     (let s = obj_of [(''schema_version'', JStr ''synth_gepa.runtime_job_summary.v1''),
                      (''storage_compacted'', JBool True)];
          s = fold (\<lambda>k. insert_opt (if k = ''schema_version'' then ''original_schema_version'' else k)
                        (map_of payload k))
                [''schema_version'', ''dispatch_kind'', ''runtime_effect_id'', ''effect_kind'', ''lane'',
                 ''subject_type'', ''subject_id'', ''idempotency_key'', ''cache_key'', ''budget_reservation_id'',
                 ''queue_state'', ''generation'', ''parent_candidate_id'', ''candidate_id'', ''stage'',
                 ''example_id'', ''task_id'', ''proposer_workspace_dir'', ''effect_payload'', ''runtime_outcome''] s;
          s = insert_opt ''request_summary''
                (map_option compact_runtime_request_summary (map_of payload ''request'')) s
      in insert_counted ''rollout_count'' ''rollouts'' compact_runtime_rollout_dispatch_summary
           (map_of payload ''rollouts'') s)"

subsection \<open>Failures and retry policies\<close>

definition failure_to_json :: "failure_payload \<Rightarrow> json" where
  "failure_to_json f =
     JObj (obj_of [(''failure_type'', JStr (failure_type_str (fp_failure_type f))),
       (''reason_code'', JStr (fp_reason_code f)), (''message'', JStr (fp_message f)),
       (''retryable'', JBool (fp_retryable f)), (''mutated'', JBool (fp_mutated f)),
       (''details'', JObj (fp_details f))])"

definition runtime_effect_retry_policy :: "optimizer_job_kind \<Rightarrow> retry_policy" where
  "runtime_effect_retry_policy kind =
     (case kind of
        JkRollout \<Rightarrow> \<lparr>rp_max_attempts = 3, rp_backoff_seconds = 2,
                     rp_retryable_failure_types = [''synth_optimizer_http_error'',
                       ''synth_optimizer_container_error'', ''synth_optimizer_failed'']\<rparr>
      | JkProposer \<Rightarrow> \<lparr>rp_max_attempts = 1, rp_backoff_seconds = 0, rp_retryable_failure_types = []\<rparr>
      | _ \<Rightarrow> retry_policy_default)"

subsection \<open>Lookups\<close>

lemma map_of_obj_insert [simp]: "map_of (obj_insert k v m) k' = (if k' = k then Some v else map_of m k')"
  by (induction m) auto

lemma map_of_insert_opt [simp]:
  "map_of (insert_opt k v m) k' = (if k' = k then or_else v (map_of m k) else map_of m k')"
  by (simp add: insert_opt_def split: option.split)

lemma map_of_insert_counted_other:
  "k' \<noteq> count_key \<Longrightarrow> k' \<noteq> key \<Longrightarrow> map_of (insert_counted count_key key f v m) k' = map_of m k'"
  by (simp add: insert_counted_def split: option.split)

text \<open>The summary keeps the ids that tie the job to its effect and its reservation.\<close>

lemma compact_keeps_ids:
  "map_of (compact_completed_optimizer_job_payload payload) ''runtime_effect_id'' = map_of payload ''runtime_effect_id''"
  "map_of (compact_completed_optimizer_job_payload payload) ''budget_reservation_id'' =
     map_of payload ''budget_reservation_id''"
  by (simp_all add: compact_completed_optimizer_job_payload_def Let_def map_of_insert_counted_other obj_of_def)

end
