(* ===== verification/Effect_Admission.thy ===== *)
theory Effect_Admission
  imports Run_Limits Job_Payload
begin

text \<open>
  The admission and settlement of runtime effects: \<open>record_runtime_effect_planned\<close>,
  \<open>record_runtime_effect_job\<close>, \<open>record_runtime_effect_completed\<close>, \<open>record_runtime_effect_failed\<close>
  (\<open>lib.rs\<close> of the GEPA crate) over the tables of the workspace database they use
  (\<open>workspace.rs\<close>), with the records of \<open>runtime_records.rs\<close>.

  A table is a list of records keyed by run id and record id; the \<open>record_json\<close> column is the record
  itself, and the columns that the ledger query sums are fields of it. The environment of an
  operation (\<open>runtime_env\<close>) holds what the code takes from outside: hashing, the clock (read once per
  operation), the duration between two RFC 3339 texts, and SQLite's \<open>SUM\<close> over a column of reals,
  whose rounding is SQLite's own. \<open>SUM\<close> over integers is exact and fails on overflow
  (\<open>sum_i64\<close>). The parents that foreign keys refer to are written by the same operations first; the
  run itself is taken to be registered.
\<close>

subsection \<open>Records and tables\<close>

record runtime_effect_record =
  ef_schema_version :: string
  ef_runtime_effect_id :: string
  ef_run_id :: string
  ef_effect_kind :: string
  ef_lane :: string
  ef_status :: string
  ef_subject_type :: string
  ef_subject_id :: string
  ef_idempotency_key :: string
  ef_cache_key :: "string option"
  ef_job_id :: "string option"
  ef_budget_reservation_id :: "string option"
  ef_attempt :: u32
  ef_failure_class :: "string option"
  ef_payload :: json
  ef_metadata :: json_map
  ef_planned_at :: string
  ef_updated_at :: string
  ef_terminal_at :: "string option"

record run_phase_timing_record =
  pt_schema_version :: string
  pt_timing_id :: string
  pt_run_id :: string
  pt_lane :: string
  pt_kind :: string
  pt_stage :: "string option"
  pt_generation :: "u64 option"
  pt_candidate_id :: "string option"
  pt_subject_type :: string
  pt_subject_id :: string
  pt_status :: string
  pt_started_at :: string
  pt_finished_at :: "string option"
  pt_wall_seconds :: "f64 option"
  pt_item_count :: "u64 option"
  pt_prompt_tokens :: u64
  pt_completion_tokens :: u64
  pt_total_tokens :: u64
  pt_cost_usd :: "f64 option"
  pt_source_effect_id :: string
  pt_metadata :: json_map
  pt_recorded_at :: string

record limits_row =
  lr_record :: run_limits_record
  lr_updated_at :: instant

record workspace =
  ws_run_limits :: "limits_row list"
  ws_effects :: "runtime_effect_record list"
  ws_timings :: "run_phase_timing_record list"
  ws_admissions :: "runtime_effect_admission_record list"
  ws_reservations :: "budget_reservation_record list"
  ws_commits :: "budget_commit_record list"
  ws_releases :: "budget_release_record list"
  ws_jobs :: job_table

record runtime_env =
  en_hashing :: hashing
  en_now :: instant
  en_now_rfc3339 :: string
  en_elapsed :: "string \<Rightarrow> string \<Rightarrow> f64 option"
  en_real_sum :: "f64 list \<Rightarrow> f64"

definition limits_key :: "limits_row \<Rightarrow> string \<times> string" where
  "limits_key r = (rl_run_id (lr_record r), rl_run_limits_id (lr_record r))"

definition effect_key :: "runtime_effect_record \<Rightarrow> string \<times> string" where
  "effect_key r = (ef_run_id r, ef_runtime_effect_id r)"

definition timing_key :: "run_phase_timing_record \<Rightarrow> string \<times> string" where
  "timing_key r = (pt_run_id r, pt_timing_id r)"

definition admission_key :: "runtime_effect_admission_record \<Rightarrow> string \<times> string" where
  "admission_key r = (ad_run_id r, ad_admission_id r)"

definition reservation_key :: "budget_reservation_record \<Rightarrow> string \<times> string" where
  "reservation_key r = (rv_run_id r, rv_budget_reservation_id r)"

definition commit_key :: "budget_commit_record \<Rightarrow> string \<times> string" where
  "commit_key r = (bc_run_id r, bc_budget_commit_id r)"

definition release_key :: "budget_release_record \<Rightarrow> string \<times> string" where
  "release_key r = (re_run_id r, re_budget_release_id r)"

subsection \<open>runtime_records.rs\<close>

definition effect_from_input ::
  "hashing \<Rightarrow> timestamp \<Rightarrow> run_ident \<Rightarrow> string \<Rightarrow> string \<Rightarrow> string \<Rightarrow> string \<Rightarrow> string \<Rightarrow> string \<Rightarrow> string option \<Rightarrow>
   string option \<Rightarrow> string option \<Rightarrow> u32 \<Rightarrow> string option \<Rightarrow> json \<Rightarrow> json_map \<Rightarrow> runtime_effect_record" where
  "effect_from_input h now run_id effect_kind lane status subject_type subject_id idempotency_key cache_key
     job_id reservation_id attempt fclass payload metadata =
     \<lparr>ef_schema_version = ''runtime_effect.v1'',
      ef_runtime_effect_id = prefixed_hash_id h ''effect'' (JObj (obj_of
        [(''run_id'', JStr run_id), (''effect_kind'', JStr effect_kind), (''subject_type'', JStr subject_type),
         (''subject_id'', JStr subject_id), (''idempotency_key'', JStr idempotency_key),
         (''attempt'', json_u64 (ucast attempt))])),
      ef_run_id = run_id, ef_effect_kind = effect_kind, ef_lane = lane, ef_status = status,
      ef_subject_type = subject_type, ef_subject_id = subject_id, ef_idempotency_key = idempotency_key,
      ef_cache_key = cache_key, ef_job_id = job_id, ef_budget_reservation_id = reservation_id,
      ef_attempt = attempt, ef_failure_class = fclass, ef_payload = payload, ef_metadata = metadata,
      ef_planned_at = now, ef_updated_at = now,
      ef_terminal_at = (if status \<in> set [''completed'', ''failed'', ''cancelled'', ''canceled'', ''expired'', ''rejected'']
                        then Some now else None)\<rparr>"

subsection \<open>workspace.rs: writing and reading the tables\<close>

definition record_run_limits :: "instant \<Rightarrow> run_limits_record \<Rightarrow> workspace \<Rightarrow> workspace" where
  "record_run_limits now r ws =
     ws\<lparr>ws_run_limits := upsert limits_key \<lparr>lr_record = r, lr_updated_at = now\<rparr> (ws_run_limits ws)\<rparr>"

definition record_runtime_effect :: "runtime_effect_record \<Rightarrow> workspace \<Rightarrow> workspace" where
  "record_runtime_effect r ws = ws\<lparr>ws_effects := upsert effect_key r (ws_effects ws)\<rparr>"

definition record_run_phase_timing :: "run_phase_timing_record \<Rightarrow> workspace \<Rightarrow> workspace" where
  "record_run_phase_timing r ws = ws\<lparr>ws_timings := upsert timing_key r (ws_timings ws)\<rparr>"

definition record_runtime_effect_admission :: "runtime_effect_admission_record \<Rightarrow> workspace \<Rightarrow> workspace" where
  "record_runtime_effect_admission r ws = ws\<lparr>ws_admissions := upsert admission_key r (ws_admissions ws)\<rparr>"

definition record_budget_reservation :: "budget_reservation_record \<Rightarrow> workspace \<Rightarrow> workspace" where
  "record_budget_reservation r ws = ws\<lparr>ws_reservations := upsert reservation_key r (ws_reservations ws)\<rparr>"

definition record_budget_commit :: "budget_commit_record \<Rightarrow> workspace \<Rightarrow> workspace" where
  "record_budget_commit r ws = ws\<lparr>ws_commits := upsert commit_key r (ws_commits ws)\<rparr>"

definition record_budget_release :: "budget_release_record \<Rightarrow> workspace \<Rightarrow> workspace" where
  "record_budget_release r ws = ws\<lparr>ws_releases := upsert release_key r (ws_releases ws)\<rparr>"

definition runtime_effect :: "string \<Rightarrow> string \<Rightarrow> workspace \<Rightarrow> runtime_effect_record result" where
  "runtime_effect run_id effect_id ws =
     (case lookup_row effect_key (ws_effects ws) (run_id, effect_id) of
        Some r \<Rightarrow> Inr r
      | None \<Rightarrow> Inl (Invariant (''runtime effect does not exist run_id='' @ run_id @
                   '' runtime_effect_id='' @ effect_id)))"

definition budget_reservation :: "string \<Rightarrow> string \<Rightarrow> workspace \<Rightarrow> budget_reservation_record result" where
  "budget_reservation run_id reservation_id ws =
     (case lookup_row reservation_key (ws_reservations ws) (run_id, reservation_id) of
        Some r \<Rightarrow> Inr r
      | None \<Rightarrow> Inl (Invariant (''budget reservation does not exist run_id='' @ run_id @
                   '' budget_reservation_id='' @ reservation_id)))"

definition latest_run_limits :: "string \<Rightarrow> workspace \<Rightarrow> run_limits_record option" where
  "latest_run_limits run_id ws =
     (let rows = sort_key (\<lambda>r. (lr_updated_at r, rl_run_limits_id (lr_record r)))
                   (filter (\<lambda>r. rl_run_id (lr_record r) = run_id) (ws_run_limits ws))
      in if rows = [] then None else Some (lr_record (last rows)))"

definition required_run_limits :: "string \<Rightarrow> workspace \<Rightarrow> run_limits_record result" where
  "required_run_limits run_id ws =
     (case latest_run_limits run_id ws of
        Some l \<Rightarrow> Inr l
      | None \<Rightarrow> Inl (Invariant (''run_id='' @ run_id @ '' has no run_limits record before runtime effect admission'')))"

subsection \<open>workspace.rs: the ledger query\<close>

text \<open>\<open>SUM\<close> over an INTEGER column: NULLs are skipped, an overflowing partial sum is an error.\<close>

fun sum_i64 :: "int \<Rightarrow> int list \<Rightarrow> int result" where
  "sum_i64 acc [] = Inr acc"
| "sum_i64 acc (x # xs) =
     (if - (2 ^ 63) \<le> acc + x \<and> acc + x < 2 ^ 63 then sum_i64 (acc + x) xs
      else Inl (Sqlite ''integer overflow''))"

definition nonnegative_u64 :: "int \<Rightarrow> u64" where
  "nonnegative_u64 v = word_of_int (max 0 v)"

definition sum_column :: "u64 option list \<Rightarrow> u64 result" where
  "sum_column col = map_sum id nonnegative_u64 (sum_i64 0 (map sint (List.map_filter id col)))"

text \<open>A NaN is stored as NULL.\<close>

definition sql_real :: "f64 option \<Rightarrow> f64 option" where
  "sql_real v = opt_filter (\<lambda>x. \<not> is_nan x) v"

definition active_reservation :: "string \<Rightarrow> budget_reservation_record \<Rightarrow> bool" where
  "active_reservation run_id r \<longleftrightarrow>
     rv_run_id r = run_id \<and> rv_status r \<in> set [''reserved'', ''planned'', ''active'', ''leased'', ''running'']"

definition totals_of :: "f64 option \<Rightarrow> u64 result \<Rightarrow> u64 result \<Rightarrow> u64 result \<Rightarrow> u64 result \<Rightarrow> u64 result \<Rightarrow>
  budget_ledger_totals result" where
  "totals_of cost p c t r w =
     (case p of Inl e \<Rightarrow> Inl e | Inr p \<Rightarrow>
     (case c of Inl e \<Rightarrow> Inl e | Inr c \<Rightarrow>
     (case t of Inl e \<Rightarrow> Inl e | Inr t \<Rightarrow>
     (case r of Inl e \<Rightarrow> Inl e | Inr r \<Rightarrow>
     (case w of Inl e \<Rightarrow> Inl e | Inr w \<Rightarrow>
        Inr \<lparr>bt_cost_usd = cost, bt_prompt_tokens = p, bt_completion_tokens = c, bt_total_tokens = t,
             bt_rollouts = r, bt_wall_seconds = w\<rparr>)))))"

definition spent_totals :: "(f64 list \<Rightarrow> f64) \<Rightarrow> string \<Rightarrow> budget_commit_record list \<Rightarrow> budget_ledger_totals result" where
  "spent_totals real_sum run_id commits =
     (let rows = filter (\<lambda>r. bc_run_id r = run_id) commits;
          costs = List.map_filter (\<lambda>r. sql_real (bc_cost_usd r)) rows;
          cost = (if rows = [] then Some f64_zero
                  else if length costs = length rows then sql_real (Some (real_sum costs)) else None)
      in totals_of cost (sum_column (map (\<lambda>r. Some (bc_prompt_tokens r)) rows))
           (sum_column (map (\<lambda>r. Some (bc_completion_tokens r)) rows))
           (sum_column (map (\<lambda>r. Some (bc_total_tokens r)) rows))
           (sum_column (map (\<lambda>r. Some (bc_rollout_count r)) rows))
           (sum_column (map (\<lambda>r. Some (bc_wall_seconds r)) rows)))"

definition reserved_totals :: "(f64 list \<Rightarrow> f64) \<Rightarrow> string \<Rightarrow> budget_reservation_record list \<Rightarrow> budget_ledger_totals result" where
  "reserved_totals real_sum run_id reservations =
     (let rows = filter (active_reservation run_id) reservations;
          costs = List.map_filter (\<lambda>r. sql_real (rv_max_cost_usd r)) rows;
          cost = (if costs = [] then f64_zero else unwrap_or f64_zero (sql_real (Some (real_sum costs))))
      in totals_of (Some cost) (sum_column (map rv_max_prompt_tokens rows))
           (sum_column (map rv_max_completion_tokens rows)) (sum_column (map rv_max_total_tokens rows))
           (sum_column (map rv_max_rollouts rows)) (sum_column (map rv_max_wall_seconds rows)))"

definition budget_ledger_snapshot :: "runtime_env \<Rightarrow> string \<Rightarrow> workspace \<Rightarrow> budget_ledger_snapshot result" where
  "budget_ledger_snapshot env run_id ws =
     (case required_run_limits run_id ws of Inl e \<Rightarrow> Inl e | Inr limits \<Rightarrow>
     (case spent_totals (en_real_sum env) run_id (ws_commits ws) of Inl e \<Rightarrow> Inl e | Inr spent \<Rightarrow>
     (case reserved_totals (en_real_sum env) run_id (ws_reservations ws) of Inl e \<Rightarrow> Inl e | Inr reserved \<Rightarrow>
        Inr (from_totals (en_now_rfc3339 env) run_id limits spent reserved))))"

subsection \<open>lib.rs: jobs of effects\<close>

definition put_effect_fields :: "runtime_effect_record \<Rightarrow> budget_reservation_record option \<Rightarrow> string \<Rightarrow> json_map \<Rightarrow> json_map" where
  "put_effect_fields effect reservation queue_state p =
     (let p = obj_insert ''runtime_effect_id'' (JStr (ef_runtime_effect_id effect)) p;
          p = obj_insert ''effect_kind'' (JStr (ef_effect_kind effect)) p;
          p = obj_insert ''lane'' (JStr (ef_lane effect)) p;
          p = obj_insert ''subject_type'' (JStr (ef_subject_type effect)) p;
          p = obj_insert ''subject_id'' (JStr (ef_subject_id effect)) p;
          p = obj_insert ''idempotency_key'' (JStr (ef_idempotency_key effect)) p;
          p = insert_opt ''cache_key'' (map_option JStr (ef_cache_key effect)) p;
          p = insert_opt ''budget_reservation_id''
                (map_option (\<lambda>r. JStr (rv_budget_reservation_id r)) reservation) p;
          p = obj_insert ''effect_payload'' (ef_payload effect) p
      in obj_insert ''queue_state'' (JStr queue_state) p)"

definition record_runtime_effect_job ::
  "runtime_env \<Rightarrow> string \<Rightarrow> string \<Rightarrow> optimizer_job_kind \<Rightarrow> optimizer_job_status \<Rightarrow> string option \<Rightarrow>
   runtime_effect_record \<Rightarrow> budget_reservation_record option \<Rightarrow> json option \<Rightarrow> string \<Rightarrow> failure_payload option \<Rightarrow>
   (workspace, unit) op" where
  "record_runtime_effect_job env job_id run_id kind status candidate_id effect reservation dispatch queue_state
     failure ws =
     (let job = (optimizer_job_new job_id run_id kind)
            \<lparr>oj_status := status, oj_candidate_id := candidate_id,
             oj_retry_policy := runtime_effect_retry_policy kind,
             oj_attempt := (if status = JsPending then saturating_sub (ef_attempt effect) 1 else ef_attempt effect)\<rparr>;
          job = (if status \<noteq> JsPending then
                   (case maybe_optimizer_job run_id job_id (ws_jobs ws) of
                      None \<Rightarrow> job
                    | Some x \<Rightarrow> job\<lparr>oj_lease_id := oj_lease_id x, oj_worker_id := oj_worker_id x,
                                   oj_leased_at := oj_leased_at x, oj_lease_expires_at := oj_lease_expires_at x,
                                   oj_heartbeat_at := oj_heartbeat_at x, oj_next_retry_at := oj_next_retry_at x,
                                   oj_attempt := oj_attempt x, oj_retry_policy := oj_retry_policy x,
                                   oj_payload := oj_payload x\<rparr>)
                 else job)
      in case (case dispatch of None \<Rightarrow> Inr (oj_payload job)
               | Some d \<Rightarrow> (case as_object d of
                              None \<Rightarrow> Inl (Invariant ''GEPA runtime dispatch payload is not an object'')
                            | Some m \<Rightarrow> Inr m)) of
           Inl e \<Rightarrow> (ws, Inl e)
         | Inr payload \<Rightarrow>
             (let payload = put_effect_fields effect reservation queue_state payload;
                  payload = (if status = JsCompleted then compact_completed_optimizer_job_payload payload else payload);
                  job = job\<lparr>oj_payload := payload, oj_failure := failure\<rparr>
              in (ws\<lparr>ws_jobs := record_optimizer_job (en_now env) job (ws_jobs ws)\<rparr>, Inr ())))"

definition budget_exceeded_error :: "string \<Rightarrow> budget_limit_breach \<Rightarrow> optimizer_error" where
  "budget_exceeded_error run_id b = BudgetExceeded run_id (lb_limit b) (lb_requested b) (lb_available b)"

subsection \<open>lib.rs: planning an effect\<close>

record plan_input =
  pi_run_id :: string
  pi_effect_kind :: string
  pi_lane :: string
  pi_subject_type :: string
  pi_subject_id :: string
  pi_idempotency_key :: string
  pi_job_kind :: optimizer_job_kind
  pi_candidate_id :: "string option"
  pi_cache_key :: "string option"
  pi_budget_estimate :: budget_estimate
  pi_payload :: json
  pi_dispatch_payload :: json
  pi_metadata :: json_map

record queued_runtime_effect =
  qe_effect :: runtime_effect_record
  qe_reservation :: budget_reservation_record
  qe_job :: optimizer_job
  qe_dispatch :: json

definition plan_effect :: "runtime_env \<Rightarrow> plan_input \<Rightarrow> string \<Rightarrow> string option \<Rightarrow> json_map \<Rightarrow> runtime_effect_record" where
  "plan_effect env i status fclass metadata =
     effect_from_input (en_hashing env) (en_now_rfc3339 env) (pi_run_id i) (pi_effect_kind i) (pi_lane i) status
       (pi_subject_type i) (pi_subject_id i) (pi_idempotency_key i) (pi_cache_key i) None None 1 fclass
       (pi_payload i) metadata"

definition plan_job_id :: "runtime_env \<Rightarrow> plan_input \<Rightarrow> string" where
  "plan_job_id env i = ''effect:'' @ ef_runtime_effect_id (plan_effect env i ''planned'' None (pi_metadata i))"

definition plan_admission :: "runtime_env \<Rightarrow> plan_input \<Rightarrow> runtime_effect_record \<Rightarrow> string \<Rightarrow> string option \<Rightarrow>
  budget_ledger_snapshot \<Rightarrow> json_map \<Rightarrow> runtime_effect_admission_record" where
  "plan_admission env i effect status reason ledger metadata =
     admission_from_input (en_hashing env) (en_now_rfc3339 env) (pi_run_id i) (ef_runtime_effect_id effect)
       (pi_effect_kind i) (pi_lane i) (pi_subject_type i) (pi_subject_id i) (pi_idempotency_key i) status reason
       (pi_budget_estimate i) ledger metadata"

text \<open>The branch for a job that already exists.\<close>

definition requeue_existing :: "plan_input \<Rightarrow> runtime_effect_record \<Rightarrow> optimizer_job \<Rightarrow> (workspace, queued_runtime_effect) op" where
  "requeue_existing i effect job ws =
     (let effect_id = unwrap_or (ef_runtime_effect_id effect)
            (Option.bind (map_of (oj_payload job) ''runtime_effect_id'') as_str)
      in case runtime_effect (pi_run_id i) effect_id ws of Inl e \<Rightarrow> (ws, Inl e) | Inr existing \<Rightarrow>
        (case Option.bind (map_of (oj_payload job) ''budget_reservation_id'') as_str of
           None \<Rightarrow> (ws, Inl (Invariant (''existing GEPA runtime job '' @ oj_job_id job @ '' has no budget_reservation_id'')))
         | Some reservation_id \<Rightarrow>
             (case budget_reservation (pi_run_id i) reservation_id ws of Inl e \<Rightarrow> (ws, Inl e)
              | Inr reservation \<Rightarrow>
                  (ws, Inr \<lparr>qe_effect = existing, qe_reservation = reservation, qe_job = job,
                            qe_dispatch = pi_dispatch_payload i\<rparr>))))"

text \<open>The branch for a request that breaches a limit.\<close>

definition reject_plan :: "runtime_env \<Rightarrow> plan_input \<Rightarrow> runtime_effect_record \<Rightarrow> budget_ledger_snapshot \<Rightarrow>
  budget_limit_breach \<Rightarrow> (workspace, queued_runtime_effect) op" where
  "reject_plan env i effect ledger breach ws =
     (let metadata = obj_insert ''available'' (JStr (lb_available breach))
            (obj_insert ''requested'' (JStr (lb_requested breach))
              (obj_insert ''limit'' (JStr (lb_limit breach)) (pi_metadata i)));
          ws = record_runtime_effect_admission
                 (plan_admission env i effect ''rejected'' (Some ''budget_limit_exceeded'') ledger metadata) ws;
          ws = record_runtime_effect (plan_effect env i ''rejected'' (Some ''budget_exceeded'') metadata) ws
      in (ws, Inl (budget_exceeded_error (pi_run_id i) breach)))"

text \<open>The branch for an admitted request.\<close>

definition plan_reservation :: "runtime_env \<Rightarrow> plan_input \<Rightarrow> runtime_effect_record \<Rightarrow> budget_reservation_record" where
  "plan_reservation env i effect =
     reservation_from_input (en_hashing env) (en_now_rfc3339 env) (pi_run_id i) (ef_runtime_effect_id effect)
       ''reserved'' (pi_budget_estimate i) (pi_metadata i)"

definition admit_plan :: "runtime_env \<Rightarrow> plan_input \<Rightarrow> runtime_effect_record \<Rightarrow> budget_ledger_snapshot \<Rightarrow>
  (workspace, queued_runtime_effect) op" where
  "admit_plan env i effect ledger ws =
     (let job_id = plan_job_id env i;
          ws = record_runtime_effect_admission (plan_admission env i effect ''admitted'' None ledger (pi_metadata i)) ws;
          reservation = plan_reservation env i effect;
          ws = record_budget_reservation reservation ws
      in then_do (record_runtime_effect_job env job_id (pi_run_id i) (pi_job_kind i) JsPending (pi_candidate_id i)
                    effect (Some reservation) (Some (pi_dispatch_payload i)) ''queued'' None)
           (\<lambda>_ ws.
              (let effect = effect\<lparr>ef_budget_reservation_id := Some (rv_budget_reservation_id reservation),
                                   ef_job_id := Some job_id\<rparr>;
                   ws = record_runtime_effect effect ws
               in case get_optimizer_job (pi_run_id i) job_id (ws_jobs ws) of
                    Inl e \<Rightarrow> (ws, Inl e)
                  | Inr job \<Rightarrow> (ws, Inr \<lparr>qe_effect = effect, qe_reservation = reservation, qe_job = job,
                                        qe_dispatch = pi_dispatch_payload i\<rparr>))) ws)"

definition record_runtime_effect_planned :: "runtime_env \<Rightarrow> plan_input \<Rightarrow> (workspace, queued_runtime_effect) op" where
  "record_runtime_effect_planned env i ws =
     (case required_run_limits (pi_run_id i) ws of Inl e \<Rightarrow> (ws, Inl e) | Inr limits \<Rightarrow>
     (case validate_for_limits (pi_run_id i) (pi_effect_kind i) limits (pi_budget_estimate i) of
        Inl e \<Rightarrow> (ws, Inl e)
      | Inr _ \<Rightarrow>
         (let effect = plan_effect env i ''planned'' None (pi_metadata i) in
          case maybe_optimizer_job (pi_run_id i) (plan_job_id env i) (ws_jobs ws) of
            Some job \<Rightarrow> requeue_existing i effect job ws
          | None \<Rightarrow>
             (let requested = requested_budget (pi_budget_estimate i);
                  ws = record_runtime_effect effect ws
              in case budget_ledger_snapshot env (pi_run_id i) ws of
                   Inl e \<Rightarrow> (ws, Inl e)
                 | Inr ledger \<Rightarrow>
                     (case breach_for_request ledger requested of
                        Some breach \<Rightarrow> reject_plan env i effect ledger breach ws
                      | None \<Rightarrow> admit_plan env i effect ledger ws)))))"

subsection \<open>lib.rs: phase timings\<close>

record usage_totals =
  ut_prompt_tokens :: u64
  ut_completion_tokens :: u64
  ut_total_tokens :: u64
  ut_rollout_calls :: u64
  ut_proposer_calls :: u64

definition usage_default :: usage_totals where
  "usage_default = \<lparr>ut_prompt_tokens = 0, ut_completion_tokens = 0, ut_total_tokens = 0,
     ut_rollout_calls = 0, ut_proposer_calls = 0\<rparr>"

text \<open>\<open>str::parse::<u64>\<close>: an optional \<open>+\<close>, then decimal digits within 64 bits.\<close>

definition is_digit :: "char \<Rightarrow> bool" where
  "is_digit c \<longleftrightarrow> (48 :: int) \<le> of_char c \<and> of_char c \<le> (57 :: int)"

definition parse_u64 :: "string \<Rightarrow> u64 option" where
  "parse_u64 s =
     (let ds = (case s of c # cs \<Rightarrow> if c = CHR ''+'' then cs else s | [] \<Rightarrow> []);
          n = foldl (\<lambda>n c. 10 * n + (of_char c - 48)) (0 :: int) ds
      in if ds = [] \<or> \<not> list_all is_digit ds \<or> 2 ^ 64 \<le> n then None else Some (word_of_int n))"

definition strip_prefix :: "string \<Rightarrow> string \<Rightarrow> string option" where
  "strip_prefix p s = (if starts_with s p then Some (drop (length p) s) else None)"

definition payload_get :: "runtime_effect_record \<Rightarrow> string \<Rightarrow> json option" where
  "payload_get effect k = json_get (ef_payload effect) k"

definition single_string :: "json option \<Rightarrow> string option" where
  "single_string v = Option.bind (Option.bind v as_array) (\<lambda>xs. case xs of [x] \<Rightarrow> as_str x | _ \<Rightarrow> None)"

definition phase_timing_stage :: "runtime_effect_record \<Rightarrow> string option" where
  "phase_timing_stage effect =
     or_else (single_string (payload_get effect ''stages''))
       (Option.bind (Option.bind (map_of (ef_metadata effect) ''stages'') as_object)
          (\<lambda>m. case m of [(k, _)] \<Rightarrow> Some k | _ \<Rightarrow> None))"

definition phase_timing_generation :: "runtime_effect_record \<Rightarrow> u64 option" where
  "phase_timing_generation effect =
     or_else (Option.bind (payload_get effect ''generation'') as_u64)
       (Option.bind (strip_prefix ''generation_'' (ef_subject_id effect)) parse_u64)"

definition phase_timing_candidate_id :: "runtime_effect_record \<Rightarrow> string option" where
  "phase_timing_candidate_id effect =
     or_else (single_string (payload_get effect ''candidate_ids''))
       (Option.bind (payload_get effect ''parent_candidate_id'') as_str)"

definition phase_timing_item_count :: "runtime_effect_record \<Rightarrow> json_map \<Rightarrow> u64 \<Rightarrow> u64 option" where
  "phase_timing_item_count effect metadata rollout_count =
     (if ef_lane effect = ''rollout'' then
        or_else (Option.bind (payload_get effect ''rollout_count'') as_u64)
          (or_else (Option.bind (map_of metadata ''rollout_count'') as_u64)
             (if 0 < rollout_count then Some rollout_count else None))
      else if ef_lane effect = ''proposer'' then
        or_else (Option.bind (map_of metadata ''proposal_count'') as_u64)
          (Option.bind (payload_get effect ''proposal_count'') as_u64)
      else None)"

definition nonnegative_f64 :: "f64 option \<Rightarrow> f64 option" where
  "nonnegative_f64 v = opt_filter (\<lambda>s. is_finite s \<and> f64_le f64_zero s) v"

definition phase_timing_wall_seconds :: "runtime_env \<Rightarrow> runtime_effect_record \<Rightarrow> runtime_effect_record \<Rightarrow> f64 option" where
  "phase_timing_wall_seconds env planned completed =
     Option.bind (ef_terminal_at completed)
       (\<lambda>finished_at. nonnegative_f64 (en_elapsed env (ef_planned_at planned) finished_at))"

definition timing_from_input :: "hashing \<Rightarrow> string \<Rightarrow> run_phase_timing_record \<Rightarrow> run_phase_timing_record" where
  "timing_from_input h now t =
     t\<lparr>pt_schema_version := ''run_phase_timing.v1'',
       pt_timing_id := prefixed_hash_id h ''timing'' (JObj (obj_of
         [(''run_id'', JStr (pt_run_id t)), (''source_effect_id'', JStr (pt_source_effect_id t)),
          (''lane'', JStr (pt_lane t)), (''kind'', JStr (pt_kind t)), (''status'', JStr (pt_status t))])),
       pt_recorded_at := now\<rparr>"

definition record_run_phase_timing_from_effect ::
  "runtime_env \<Rightarrow> runtime_effect_record \<Rightarrow> runtime_effect_record \<Rightarrow> f64 option \<Rightarrow> usage_totals \<Rightarrow> u64 \<Rightarrow> json_map \<Rightarrow>
   workspace \<Rightarrow> workspace" where
  "record_run_phase_timing_from_effect env planned completed cost usage rollout_count metadata ws =
     (if ef_lane planned \<notin> set [''proposer'', ''rollout''] then ws
      else record_run_phase_timing (timing_from_input (en_hashing env) (en_now_rfc3339 env)
        \<lparr>pt_schema_version = [], pt_timing_id = [], pt_run_id = ef_run_id planned, pt_lane = ef_lane planned,
         pt_kind = ef_effect_kind planned, pt_stage = phase_timing_stage planned,
         pt_generation = phase_timing_generation planned, pt_candidate_id = phase_timing_candidate_id planned,
         pt_subject_type = ef_subject_type planned, pt_subject_id = ef_subject_id planned,
         pt_status = ef_status completed, pt_started_at = ef_planned_at planned,
         pt_finished_at = ef_terminal_at completed,
         pt_wall_seconds = nonnegative_f64 (or_else (phase_timing_wall_seconds env planned completed)
           (Option.bind (map_of metadata ''wall_seconds'') as_f64)),
         pt_item_count = phase_timing_item_count planned metadata rollout_count,
         pt_prompt_tokens = ut_prompt_tokens usage, pt_completion_tokens = ut_completion_tokens usage,
         pt_total_tokens = ut_total_tokens usage, pt_cost_usd = cost,
         pt_source_effect_id = ef_runtime_effect_id planned, pt_metadata = metadata, pt_recorded_at = []\<rparr>) ws)"

subsection \<open>lib.rs: completing an effect\<close>

definition settled_effect_cost :: "string \<Rightarrow> f64 option \<Rightarrow> f64 option \<Rightarrow> f64 option" where
  "settled_effect_cost status reported reserved =
     or_else reported (if status = ''completed'' then reserved else None)"

definition budget_release_for_completion ::
  "runtime_env \<Rightarrow> budget_reservation_record \<Rightarrow> budget_commit_record \<Rightarrow> string \<Rightarrow> json_map \<Rightarrow> budget_release_record" where
  "budget_release_for_completion env reservation commit status metadata =
     (let reserved = reserved_budget reservation; committed = committed_budget commit in
      release_from_input (en_hashing env) (en_now_rfc3339 env) (rv_run_id reservation)
        (rv_runtime_effect_id reservation) (rv_budget_reservation_id reservation)
        (if status = ''completed'' then ''committed_unused_budget'' else status)
        (unwrap_or f64_zero (Option.bind (bt_cost_usd committed)
           (\<lambda>c. map_option (\<lambda>r. f64_max (f64_sub r c) f64_zero) (bt_cost_usd reserved))))
        (saturating_sub (bt_prompt_tokens reserved) (bt_prompt_tokens committed))
        (saturating_sub (bt_completion_tokens reserved) (bt_completion_tokens committed))
        (saturating_sub (bt_total_tokens reserved) (bt_total_tokens committed))
        (saturating_sub (bt_rollouts reserved) (bt_rollouts committed))
        (saturating_sub (bt_wall_seconds reserved) (bt_wall_seconds committed)) metadata)"

definition runtime_effect_job_kind :: "runtime_effect_record \<Rightarrow> optimizer_job_kind" where
  "runtime_effect_job_kind effect =
     (if ef_effect_kind effect = ''candidate_proposal'' then JkProposer
      else if ef_effect_kind effect = ''container_rollout'' then JkRollout
      else JkCheckpoint)"

definition optimizer_job_status_from_effect_status :: "string \<Rightarrow> optimizer_job_status" where
  "optimizer_job_status_from_effect_status status =
     (if status = ''completed'' then JsCompleted
      else if status = ''cancelled'' \<or> status = ''canceled'' then JsCancelled
      else if status = ''expired'' then JsExpired
      else if status = ''running'' then JsRunning
      else if status = ''planned'' \<or> status = ''reserved'' then JsPending
      else JsFailed)"

definition runtime_effect_candidate_id :: "runtime_effect_record \<Rightarrow> string option" where
  "runtime_effect_candidate_id effect =
     Option.bind (or_else (payload_get effect ''candidate_id'') (payload_get effect ''parent_candidate_id'')) as_str"

record completion_input =
  co_planned :: runtime_effect_record
  co_reservation :: budget_reservation_record
  co_status :: string
  co_cost_usd :: f64
  co_reported_cost_usd :: "f64 option"
  co_usage :: usage_totals
  co_rollout_count :: u64
  co_failure :: "failure_payload option"
  co_metadata :: json_map

definition completion_cost :: "completion_input \<Rightarrow> f64 option" where
  "completion_cost i =
     settled_effect_cost (co_status i) (co_reported_cost_usd i) (rv_max_cost_usd (co_reservation i))"

definition completion_payload :: "completion_input \<Rightarrow> json" where
  "completion_payload i =
     (case ef_payload (co_planned i) of
        JObj m \<Rightarrow> JObj (insert_opt ''failure'' (map_option failure_to_json (co_failure i))
                         (obj_insert ''completion_status'' (JStr (co_status i)) m))
      | v \<Rightarrow> v)"

definition completion_metadata :: "completion_input \<Rightarrow> json_map" where
  "completion_metadata i =
     insert_opt ''failure'' (map_option failure_to_json (co_failure i))
       (if co_reported_cost_usd i = None \<and> completion_cost i \<noteq> None
        then obj_insert ''cost_source'' (JStr ''reserved_ceiling_on_missing_provider_cost'') (co_metadata i)
        else co_metadata i)"

definition completed_effect :: "runtime_env \<Rightarrow> completion_input \<Rightarrow> runtime_effect_record" where
  "completed_effect env i =
     (let p = co_planned i in
      effect_from_input (en_hashing env) (en_now_rfc3339 env) (ef_run_id p) (ef_effect_kind p) (ef_lane p) (co_status i)
        (ef_subject_type p) (ef_subject_id p) (ef_idempotency_key p) (ef_cache_key p) (ef_job_id p)
        (Some (rv_budget_reservation_id (co_reservation i))) (ef_attempt p)
        (map_option failure_class (co_failure i)) (completion_payload i) (completion_metadata i))"

definition settled_reservation :: "completion_input \<Rightarrow> budget_reservation_record" where
  "settled_reservation i =
     (co_reservation i)\<lparr>rv_status := (if co_status i = ''completed'' then ''committed'' else co_status i)\<rparr>"

definition completion_commit :: "runtime_env \<Rightarrow> completion_input \<Rightarrow> budget_commit_record" where
  "completion_commit env i =
     commit_from_input (en_hashing env) (en_now_rfc3339 env) (ef_run_id (co_planned i))
       (ef_runtime_effect_id (co_planned i)) (rv_budget_reservation_id (co_reservation i))
       \<lparr>bt_cost_usd = completion_cost i, bt_prompt_tokens = ut_prompt_tokens (co_usage i),
        bt_completion_tokens = ut_completion_tokens (co_usage i), bt_total_tokens = ut_total_tokens (co_usage i),
        bt_rollouts = co_rollout_count i,
        bt_wall_seconds = unwrap_or 0 (rv_max_wall_seconds (co_reservation i))\<rparr>
       (completion_metadata i)"

definition completion_writes :: "runtime_env \<Rightarrow> completion_input \<Rightarrow> workspace \<Rightarrow> workspace" where
  "completion_writes env i ws =
     (let metadata = completion_metadata i; completed = completed_effect env i; commit = completion_commit env i;
          ws = record_runtime_effect completed ws;
          ws = record_run_phase_timing_from_effect env (co_planned i) completed (completion_cost i) (co_usage i)
                 (co_rollout_count i) metadata ws;
          ws = record_budget_reservation (settled_reservation i) ws;
          ws = record_budget_commit commit ws
      in record_budget_release (budget_release_for_completion env (co_reservation i) commit (co_status i) metadata) ws)"

definition completion_job :: "runtime_env \<Rightarrow> completion_input \<Rightarrow> (workspace, unit) op" where
  "completion_job env i =
     (case ef_job_id (co_planned i) of
        None \<Rightarrow> return_ok ()
      | Some job_id \<Rightarrow>
          record_runtime_effect_job env job_id (ef_run_id (co_planned i)) (runtime_effect_job_kind (co_planned i))
            (optimizer_job_status_from_effect_status (co_status i)) (runtime_effect_candidate_id (co_planned i))
            (co_planned i) (Some (co_reservation i)) None (co_status i) (co_failure i))"

definition record_runtime_effect_completed :: "runtime_env \<Rightarrow> completion_input \<Rightarrow> (workspace, unit) op" where
  "record_runtime_effect_completed env i ws =
     then_do (completion_job env i)
       (\<lambda>_ ws. case budget_ledger_snapshot env (ef_run_id (co_planned i)) ws of
                 Inl e \<Rightarrow> (ws, Inl e)
               | Inr ledger \<Rightarrow>
                   (case exceeded_limit ledger of
                      Some breach \<Rightarrow> (ws, Inl (budget_exceeded_error (ef_run_id (co_planned i)) breach))
                    | None \<Rightarrow> (ws, Inr ()))) (completion_writes env i ws)"

definition record_runtime_effect_failed :: "runtime_env \<Rightarrow> runtime_effect_record \<Rightarrow> budget_reservation_record \<Rightarrow>
  optimizer_error \<Rightarrow> json_map \<Rightarrow> (workspace, unit) op" where
  "record_runtime_effect_failed env planned reservation err metadata =
     record_runtime_effect_completed env
       \<lparr>co_planned = planned, co_reservation = reservation, co_status = ''failed'', co_cost_usd = f64_zero,
        co_reported_cost_usd = None, co_usage = usage_default, co_rollout_count = 0,
        co_failure = Some (from_optimizer_error err),
        co_metadata = obj_insert ''error_code'' (JStr (error_code err)) metadata\<rparr>"

definition fail_runtime_effect_and_return :: "runtime_env \<Rightarrow> runtime_effect_record \<Rightarrow> budget_reservation_record \<Rightarrow>
  optimizer_error \<Rightarrow> string \<Rightarrow> (workspace, 'a) op" where
  "fail_runtime_effect_and_return env planned reservation err phase =
     then_do (record_runtime_effect_failed env planned reservation err [(''failure_phase'', JStr phase)])
       (\<lambda>_ ws. (ws, Inl err))"

definition record_runtime_effect_running :: "runtime_env \<Rightarrow> runtime_effect_record \<Rightarrow> budget_reservation_record \<Rightarrow>
  string \<Rightarrow> (workspace, runtime_effect_record) op" where
  "record_runtime_effect_running env planned reservation job_id ws =
     (let metadata = obj_insert ''algorithm_id'' (JStr ''synth_gepa.v1'')
            (obj_insert ''runtime_executor'' (JStr ''gepa'') (ef_metadata planned));
          running = effect_from_input (en_hashing env) (en_now_rfc3339 env) (ef_run_id planned)
            (ef_effect_kind planned) (ef_lane planned) ''running'' (ef_subject_type planned) (ef_subject_id planned)
            (ef_idempotency_key planned) (ef_cache_key planned) (Some job_id)
            (Some (rv_budget_reservation_id reservation)) (ef_attempt planned) None (ef_payload planned) metadata
      in (record_runtime_effect running ws, Inr running))"

subsection \<open>Sums of a column\<close>

lemma sum_i64_append:
  "sum_i64 acc (xs @ ys) = (case sum_i64 acc xs of Inl e \<Rightarrow> Inl e | Inr s \<Rightarrow> sum_i64 s ys)"
  by (induction xs arbitrary: acc) auto

lemma sum_i64_value: "sum_i64 acc xs = Inr s \<Longrightarrow> s = acc + sum_list xs"
  by (induction xs arbitrary: acc) (fastforce split: if_splits)+

lemma sum_i64_range:
  "sum_i64 acc xs = Inr s \<Longrightarrow> - (2 ^ 63) \<le> acc \<Longrightarrow> acc < 2 ^ 63 \<Longrightarrow> - (2 ^ 63) \<le> s \<and> s < 2 ^ 63"
  by (induction xs arbitrary: acc) (auto split: if_splits)

lemma unat_nonnegative_u64: "s < 2 ^ 64 \<Longrightarrow> unat (nonnegative_u64 s) = nat s"
  by (cases "0 \<le> s") (simp_all add: nonnegative_u64_def unat_eq_nat_uint uint_word_of_int)

lemma sum_columnE:
  assumes "sum_column col = Inr R"
  obtains s where "sum_i64 0 (map sint (List.map_filter id col)) = Inr s" "R = nonnegative_u64 s"
    "- (2 ^ 63) \<le> s" "s < 2 ^ 63" "unat R = nat s"
proof -
  obtain s where s: "sum_i64 0 (map sint (List.map_filter id col)) = Inr s" "R = nonnegative_u64 s"
    using assms by (cases "sum_i64 0 (map sint (List.map_filter id col))") (auto simp: sum_column_def)
  with sum_i64_range [OF s(1)] that show ?thesis
    by (simp add: unat_nonnegative_u64)
qed

lemma sum_column_bound: "sum_column col = Inr R \<Longrightarrow> unat R < 2 ^ 63"
  by (erule sum_columnE) simp

text \<open>A new row raises a sum by at most what the row asks for.\<close>

lemma sum_column_snoc:
  assumes "sum_column col = Inr R" and "sum_column (col @ [x]) = Inr R'"
    and "unat (unwrap_or 0 x) < 2 ^ 63"
  shows "unat R' \<le> unat R + unat (unwrap_or 0 x)"
proof (cases x)
  case None
  then show ?thesis
    using assms(1,2) by (simp add: sum_column_def List.map_filter_def)
next
  case (Some v)
  from assms(1) obtain s where s: "sum_i64 0 (map sint (List.map_filter id col)) = Inr s" "unat R = nat s"
    by (rule sum_columnE)
  from assms(2) obtain s' where s': "sum_i64 0 (map sint (List.map_filter id (col @ [x]))) = Inr s'" "unat R' = nat s'"
    by (rule sum_columnE)
  have "s' = s + sint v"
    using sum_i64_value [OF s(1)] sum_i64_value [OF s'(1)] Some by (simp add: List.map_filter_def)
  moreover have "sint v = int (unat v)"
    using assms(3) Some by (simp add: sint_small)
  ultimately show ?thesis
    using s(2) s'(2) Some by (simp add: nat_le_iff)
qed

lemma counter_within:
  assumes "u64_limit_breach n (Some m) (S + R) q = None" and "unat S < 2 ^ 63" and "unat R < 2 ^ 63"
    and "unat R' \<le> unat R + unat q"
  shows "unat S + unat R' \<le> unat m"
proof -
  have "unat (S + R) = unat S + unat R"
    using assms(2,3) by (intro unat_add_no_overflow) simp
  with assms(1,4) show ?thesis
    by (simp add: u64_limit_breach_None_iff)
qed

subsection \<open>Ledger totals\<close>

lemma totals_of_ok_iff:
  "totals_of cost p c t r w = Inr x \<longleftrightarrow>
     p = Inr (bt_prompt_tokens x) \<and> c = Inr (bt_completion_tokens x) \<and> t = Inr (bt_total_tokens x) \<and>
     r = Inr (bt_rollouts x) \<and> w = Inr (bt_wall_seconds x) \<and> bt_cost_usd x = cost"
  by (cases x) (auto simp: totals_of_def split: sum.splits)

lemma spent_totals_bounds:
  "spent_totals f run_id cs = Inr t \<Longrightarrow>
     unat (bt_prompt_tokens t) < 2 ^ 63 \<and> unat (bt_completion_tokens t) < 2 ^ 63 \<and>
     unat (bt_total_tokens t) < 2 ^ 63 \<and> unat (bt_rollouts t) < 2 ^ 63 \<and> unat (bt_wall_seconds t) < 2 ^ 63"
  unfolding spent_totals_def Let_def totals_of_ok_iff by (meson sum_column_bound)

lemma reserved_totals_bounds:
  "reserved_totals f run_id rs = Inr t \<Longrightarrow>
     unat (bt_prompt_tokens t) < 2 ^ 63 \<and> unat (bt_completion_tokens t) < 2 ^ 63 \<and>
     unat (bt_total_tokens t) < 2 ^ 63 \<and> unat (bt_rollouts t) < 2 ^ 63 \<and> unat (bt_wall_seconds t) < 2 ^ 63"
  unfolding reserved_totals_def Let_def totals_of_ok_iff by (meson sum_column_bound)

lemma snapshot_ok_iff:
  "budget_ledger_snapshot env run_id ws = Inr l \<longleftrightarrow>
     (\<exists>limits spent reserved. required_run_limits run_id ws = Inr limits \<and>
        spent_totals (en_real_sum env) run_id (ws_commits ws) = Inr spent \<and>
        reserved_totals (en_real_sum env) run_id (ws_reservations ws) = Inr reserved \<and>
        l = from_totals (en_now_rfc3339 env) run_id limits spent reserved)"
  by (auto simp: budget_ledger_snapshot_def split: sum.splits)

subsection \<open>What the operations leave alone\<close>

lemma job_write_frame:
  "record_runtime_effect_job env job_id run_id kind st cand effect rv d qs f ws = (ws', x) \<Longrightarrow>
     ws_run_limits ws' = ws_run_limits ws \<and> ws_commits ws' = ws_commits ws \<and>
     ws_reservations ws' = ws_reservations ws \<and> ws_effects ws' = ws_effects ws"
  by (auto simp: record_runtime_effect_job_def Let_def split: sum.splits option.splits if_splits)

lemma required_run_limits_frame:
  "ws_run_limits ws' = ws_run_limits ws \<Longrightarrow> required_run_limits run_id ws' = required_run_limits run_id ws"
  by (simp add: required_run_limits_def latest_run_limits_def)

lemma admit_plan_tables:
  assumes "admit_plan env i effect ledger ws = (ws', Inr q)"
  shows "ws_run_limits ws' = ws_run_limits ws" "ws_commits ws' = ws_commits ws"
    "ws_reservations ws' = upsert reservation_key (plan_reservation env i effect) (ws_reservations ws)"
    "qe_reservation q = plan_reservation env i effect"
proof -
  let ?w = "record_budget_reservation (plan_reservation env i effect)
    (record_runtime_effect_admission (plan_admission env i effect ''admitted'' None ledger (pi_metadata i)) ws)"
  obtain w1 where w1: "record_runtime_effect_job env (plan_job_id env i) (pi_run_id i) (pi_job_kind i) JsPending
      (pi_candidate_id i) effect (Some (plan_reservation env i effect)) (Some (pi_dispatch_payload i)) ''queued'' None
      ?w = (w1, Inr ())"
    and w2: "ws' = record_runtime_effect (effect\<lparr>ef_budget_reservation_id :=
        Some (rv_budget_reservation_id (plan_reservation env i effect)), ef_job_id := Some (plan_job_id env i)\<rparr>) w1"
      "qe_reservation q = plan_reservation env i effect"
    using assms by (auto simp: admit_plan_def Let_def then_do_def split: prod.splits sum.splits)
  show "ws_run_limits ws' = ws_run_limits ws" "ws_commits ws' = ws_commits ws"
    "ws_reservations ws' = upsert reservation_key (plan_reservation env i effect) (ws_reservations ws)"
    "qe_reservation q = plan_reservation env i effect"
    using job_write_frame [OF w1] w2
    by (simp_all add: record_runtime_effect_def record_budget_reservation_def record_runtime_effect_admission_def)
qed

text \<open>Planning a new effect: the path through the checks to the reservation.\<close>

lemma planned_newE:
  assumes "record_runtime_effect_planned env i ws = (ws', Inr q)"
    and "maybe_optimizer_job (pi_run_id i) (plan_job_id env i) (ws_jobs ws) = None"
  obtains limits ledger where
    "required_run_limits (pi_run_id i) ws = Inr limits"
    "validate_for_limits (pi_run_id i) (pi_effect_kind i) limits (pi_budget_estimate i) = Inr ()"
    "budget_ledger_snapshot env (pi_run_id i) (record_runtime_effect (plan_effect env i ''planned'' None (pi_metadata i)) ws) =
       Inr ledger"
    "breach_for_request ledger (requested_budget (pi_budget_estimate i)) = None"
    "admit_plan env i (plan_effect env i ''planned'' None (pi_metadata i)) ledger
       (record_runtime_effect (plan_effect env i ''planned'' None (pi_metadata i)) ws) = (ws', Inr q)"
  using assms by (auto simp: record_runtime_effect_planned_def Let_def reject_plan_def
      split: sum.splits option.splits)

subsection \<open>Reservations stay within the limits\<close>

definition counter_ok :: "u64 option \<Rightarrow> u64 \<Rightarrow> u64 \<Rightarrow> bool" where
  "counter_ok mx spent reserved = (case mx of None \<Rightarrow> True | Some m \<Rightarrow> unat spent + unat reserved \<le> unat m)"

text \<open>Limits that fit a signed 64-bit integer, the type of the columns.\<close>

definition i64_limit :: "u64 option \<Rightarrow> bool" where
  "i64_limit mx = (case mx of None \<Rightarrow> True | Some m \<Rightarrow> unat m < 2 ^ 63)"

lemma counter_ok_after:
  assumes breach: "u64_limit_breach n mx (S + R) (unwrap_or 0 x) = None"
    and S: "unat S < 2 ^ 63" and R: "sum_column col = Inr R" and R': "sum_column (col @ [x]) = Inr R'"
    and mx: "i64_limit mx"
  shows "counter_ok mx S R'"
proof (cases mx)
  case (Some m)
  have q: "unat (unwrap_or 0 x) < 2 ^ 63"
    using breach mx Some by (simp add: u64_limit_breach_None_iff i64_limit_def)
  show ?thesis
    using counter_within [OF breach [unfolded Some] S sum_column_bound [OF R] sum_column_snoc [OF R R' q]]
    by (simp add: counter_ok_def Some)
qed (simp add: counter_ok_def)

lemma reservation_appended:
  assumes "lookup_row reservation_key rs (reservation_key r) = None" and "active_reservation run_id r"
  shows "filter (active_reservation run_id) (upsert reservation_key r rs) = filter (active_reservation run_id) rs @ [r]"
  using assms by (simp add: upsert_new lookup_row_None_iff)

text \<open>What a ledger with these limits promises after an admission.\<close>

definition ledger_ok :: "run_limits_record \<Rightarrow> budget_estimate \<Rightarrow> budget_ledger_snapshot \<Rightarrow> bool" where
  "ledger_ok limits e l \<longleftrightarrow>
     counter_ok (rl_max_prompt_tokens limits) (bl_spent_prompt_tokens l) (bl_reserved_prompt_tokens l) \<and>
     counter_ok (rl_max_completion_tokens limits) (bl_spent_completion_tokens l) (bl_reserved_completion_tokens l) \<and>
     counter_ok (rl_max_total_rollouts limits) (bl_spent_rollouts l) (bl_reserved_rollouts l) \<and>
     counter_ok (rl_max_time_seconds limits) (bl_spent_wall_seconds l) (bl_reserved_wall_seconds l) \<and>
     (es_max_total_tokens e \<noteq> None \<longrightarrow>
        counter_ok (rl_max_total_tokens limits) (bl_spent_total_tokens l) (bl_reserved_total_tokens l))"

definition i64_limits :: "run_limits_record \<Rightarrow> bool" where
  "i64_limits l \<longleftrightarrow> i64_limit (rl_max_prompt_tokens l) \<and> i64_limit (rl_max_completion_tokens l) \<and>
     i64_limit (rl_max_total_tokens l) \<and> i64_limit (rl_max_total_rollouts l) \<and> i64_limit (rl_max_time_seconds l)"

lemma admission_keeps_ledger:
  assumes breach: "breach_for_request (from_totals now run_id limits spent reserved) (requested_budget e) = None"
    and spent: "spent_totals f run_id cs = Inr spent"
    and reserved: "reserved_totals f run_id rs = Inr reserved"
    and reserved': "reserved_totals f run_id (upsert reservation_key r rs) = Inr reserved'"
    and new: "lookup_row reservation_key rs (reservation_key r) = None" "active_reservation run_id r"
    and r: "rv_max_prompt_tokens r = es_max_prompt_tokens e" "rv_max_completion_tokens r = es_max_completion_tokens e"
      "rv_max_total_tokens r = es_max_total_tokens e" "rv_max_rollouts r = es_max_rollouts e"
      "rv_max_wall_seconds r = es_max_wall_seconds e"
    and lim: "i64_limits limits"
  shows "ledger_ok limits e (from_totals now' run_id limits spent reserved')"
proof -
  let ?rows = "filter (active_reservation run_id) rs"
  note S = spent_totals_bounds [OF spent]
  have R: "sum_column (map rv_max_prompt_tokens ?rows) = Inr (bt_prompt_tokens reserved)"
    "sum_column (map rv_max_completion_tokens ?rows) = Inr (bt_completion_tokens reserved)"
    "sum_column (map rv_max_total_tokens ?rows) = Inr (bt_total_tokens reserved)"
    "sum_column (map rv_max_rollouts ?rows) = Inr (bt_rollouts reserved)"
    "sum_column (map rv_max_wall_seconds ?rows) = Inr (bt_wall_seconds reserved)"
    using reserved by (simp_all add: reserved_totals_def Let_def totals_of_ok_iff)
  have R': "sum_column (map rv_max_prompt_tokens ?rows @ [es_max_prompt_tokens e]) = Inr (bt_prompt_tokens reserved')"
    "sum_column (map rv_max_completion_tokens ?rows @ [es_max_completion_tokens e]) = Inr (bt_completion_tokens reserved')"
    "sum_column (map rv_max_total_tokens ?rows @ [es_max_total_tokens e]) = Inr (bt_total_tokens reserved')"
    "sum_column (map rv_max_rollouts ?rows @ [es_max_rollouts e]) = Inr (bt_rollouts reserved')"
    "sum_column (map rv_max_wall_seconds ?rows @ [es_max_wall_seconds e]) = Inr (bt_wall_seconds reserved')"
    using reserved' r by (simp_all add: reserved_totals_def Let_def totals_of_ok_iff reservation_appended [OF new])
  have B: "u64_limit_breach ''max_prompt_tokens'' (rl_max_prompt_tokens limits)
      (bt_prompt_tokens spent + bt_prompt_tokens reserved) (unwrap_or 0 (es_max_prompt_tokens e)) = None"
    "u64_limit_breach ''max_completion_tokens'' (rl_max_completion_tokens limits)
      (bt_completion_tokens spent + bt_completion_tokens reserved) (unwrap_or 0 (es_max_completion_tokens e)) = None"
    "u64_limit_breach ''max_total_tokens'' (rl_max_total_tokens limits)
      (bt_total_tokens spent + bt_total_tokens reserved) (bt_total_tokens (requested_budget e)) = None"
    "u64_limit_breach ''max_total_rollouts'' (rl_max_total_rollouts limits)
      (bt_rollouts spent + bt_rollouts reserved) (unwrap_or 0 (es_max_rollouts e)) = None"
    "u64_limit_breach ''max_time_seconds'' (rl_max_time_seconds limits)
      (bt_wall_seconds spent + bt_wall_seconds reserved) (unwrap_or 0 (es_max_wall_seconds e)) = None"
    using breach by (simp_all add: breach_for_request_def from_totals_def requested_budget_def Let_def)
  have tot: "es_max_total_tokens e \<noteq> None \<Longrightarrow> bt_total_tokens (requested_budget e) = unwrap_or 0 (es_max_total_tokens e)"
    by (auto simp: requested_budget_def Let_def)
  note c = counter_ok_after
  have "counter_ok (rl_max_prompt_tokens limits) (bt_prompt_tokens spent) (bt_prompt_tokens reserved')"
    using c [OF B(1) _ R(1) R'(1)] S lim by (simp add: i64_limits_def)
  moreover have "counter_ok (rl_max_completion_tokens limits) (bt_completion_tokens spent) (bt_completion_tokens reserved')"
    using c [OF B(2) _ R(2) R'(2)] S lim by (simp add: i64_limits_def)
  moreover have "counter_ok (rl_max_total_rollouts limits) (bt_rollouts spent) (bt_rollouts reserved')"
    using c [OF B(4) _ R(4) R'(4)] S lim by (simp add: i64_limits_def)
  moreover have "counter_ok (rl_max_time_seconds limits) (bt_wall_seconds spent) (bt_wall_seconds reserved')"
    using c [OF B(5) _ R(5) R'(5)] S lim by (simp add: i64_limits_def)
  moreover have "counter_ok (rl_max_total_tokens limits) (bt_total_tokens spent) (bt_total_tokens reserved')"
    if "es_max_total_tokens e \<noteq> None"
    using c [OF B(3) [unfolded tot [OF that]] _ R(3) R'(3)] S lim by (simp add: i64_limits_def)
  ultimately show ?thesis
    by (simp add: ledger_ok_def from_totals_def)
qed

subsection \<open>A concrete environment, for examples\<close>

fun json_leaves :: "json \<Rightarrow> string" and json_member_leaves :: "json_map \<Rightarrow> string" and json_item_leaves :: "json list \<Rightarrow> string" where
  "json_leaves (JStr s) = s"
| "json_leaves (JObj m) = json_member_leaves m"
| "json_leaves (JArr xs) = json_item_leaves xs"
| "json_leaves _ = []"
| "json_member_leaves [] = []"
| "json_member_leaves ((_, v) # m) = json_leaves v @ json_member_leaves m"
| "json_item_leaves [] = []"
| "json_item_leaves (x # xs) = json_leaves x @ json_item_leaves xs"

definition sample_env :: runtime_env where
  "sample_env = \<lparr>en_hashing = \<lparr>to_json_string = json_leaves, sha256_hex = (\<lambda>s. s)\<rparr>, en_now = 1000, en_now_rfc3339 = ''t'',
     en_elapsed = (\<lambda>_ _. None), en_real_sum = (\<lambda>xs. foldl f64_add f64_zero xs)\<rparr>"

definition sample_workspace :: "run_limits_record \<Rightarrow> workspace" where
  "sample_workspace limits = record_run_limits 1 limits
     \<lparr>ws_run_limits = [], ws_effects = [], ws_timings = [], ws_admissions = [], ws_reservations = [],
      ws_commits = [], ws_releases = [], ws_jobs = []\<rparr>"

definition sample_plan :: "string \<Rightarrow> budget_estimate \<Rightarrow> plan_input" where
  "sample_plan key e = \<lparr>pi_run_id = ''r'', pi_effect_kind = ''k'', pi_lane = ''rollout'', pi_subject_type = ''s'',
     pi_subject_id = ''x'', pi_idempotency_key = key, pi_job_kind = JkRollout, pi_candidate_id = None,
     pi_cache_key = None, pi_budget_estimate = e, pi_payload = JObj [], pi_dispatch_payload = JObj [], pi_metadata = []\<rparr>"

definition split_estimate :: budget_estimate where
  "split_estimate = no_estimate\<lparr>es_max_prompt_tokens := Some 60, es_max_completion_tokens := Some 30\<rparr>"

definition sample_completion :: completion_input where
  "sample_completion =
     (let e = plan_effect sample_env (sample_plan ''a'' split_estimate) ''planned'' None []
      in \<lparr>co_planned = e, co_reservation = plan_reservation sample_env (sample_plan ''a'' split_estimate) e,
          co_status = ''completed'', co_cost_usd = f64_zero, co_reported_cost_usd = None, co_usage = usage_default,
          co_rollout_count = 1, co_failure = None, co_metadata = []\<rparr>)"

definition accepted :: "'a result \<Rightarrow> bool" where
  "accepted r = (case r of Inl _ \<Rightarrow> False | Inr _ \<Rightarrow> True)"

lemma accepted_Inr: "accepted r \<Longrightarrow> \<exists>x. r = Inr x"
  by (cases r) (simp_all add: accepted_def)

subsection \<open>Settlement\<close>

lemma completion_writes_tables:
  "ws_run_limits (completion_writes env i ws) = ws_run_limits ws"
  "ws_reservations (completion_writes env i ws) = upsert reservation_key (settled_reservation i) (ws_reservations ws)"
  "ws_commits (completion_writes env i ws) = upsert commit_key (completion_commit env i) (ws_commits ws)"
  "ws_jobs (completion_writes env i ws) = ws_jobs ws"
  by (simp_all add: completion_writes_def Let_def record_runtime_effect_def record_run_phase_timing_from_effect_def
      record_run_phase_timing_def record_budget_reservation_def record_budget_commit_def record_budget_release_def)

lemma completion_job_ok: "\<exists>ws'. completion_job env i ws = (ws', Inr ())"
  by (auto simp: completion_job_def return_ok_def record_runtime_effect_job_def Let_def split: option.splits)

lemma completion_job_frame:
  "completion_job env i ws = (ws', x) \<Longrightarrow> ws_run_limits ws' = ws_run_limits ws \<and> ws_commits ws' = ws_commits ws \<and>
     ws_reservations ws' = ws_reservations ws"
  by (auto simp: completion_job_def return_ok_def dest: job_write_frame split: option.splits)

lemma completed_tables:
  assumes "record_runtime_effect_completed env i ws = (ws', x)"
  shows "ws_run_limits ws' = ws_run_limits ws"
    "ws_reservations ws' = upsert reservation_key (settled_reservation i) (ws_reservations ws)"
    "ws_commits ws' = upsert commit_key (completion_commit env i) (ws_commits ws)"
    "x = (case budget_ledger_snapshot env (ef_run_id (co_planned i)) ws' of
            Inl e \<Rightarrow> Inl e
          | Inr ledger \<Rightarrow> (case exceeded_limit ledger of
                Some b \<Rightarrow> Inl (budget_exceeded_error (ef_run_id (co_planned i)) b) | None \<Rightarrow> Inr ()))"
proof -
  obtain w where w: "completion_job env i (completion_writes env i ws) = (w, Inr ())"
    using completion_job_ok by blast
  have "ws' = w" and x: "x = (case budget_ledger_snapshot env (ef_run_id (co_planned i)) w of
            Inl e \<Rightarrow> Inl e
          | Inr ledger \<Rightarrow> (case exceeded_limit ledger of
                Some b \<Rightarrow> Inl (budget_exceeded_error (ef_run_id (co_planned i)) b) | None \<Rightarrow> Inr ()))"
    using assms w by (auto simp: record_runtime_effect_completed_def then_do_def split: sum.splits option.splits)
  then show "ws_run_limits ws' = ws_run_limits ws"
    "ws_reservations ws' = upsert reservation_key (settled_reservation i) (ws_reservations ws)"
    "ws_commits ws' = upsert commit_key (completion_commit env i) (ws_commits ws)"
    "x = (case budget_ledger_snapshot env (ef_run_id (co_planned i)) ws' of
            Inl e \<Rightarrow> Inl e
          | Inr ledger \<Rightarrow> (case exceeded_limit ledger of
                Some b \<Rightarrow> Inl (budget_exceeded_error (ef_run_id (co_planned i)) b) | None \<Rightarrow> Inr ()))"
    using completion_job_frame [OF w] by (simp_all add: completion_writes_tables)
qed

lemma map_filter_shorter: "x \<in> set xs \<Longrightarrow> g x = None \<Longrightarrow> length (List.map_filter g xs) < length xs"
  unfolding List.map_filter_def length_map by (rule length_filter_less) auto

text \<open>A commit without a cost makes the spent cost of its run unknown.\<close>

lemma unknown_cost_spent:
  assumes "spent_totals f run_id cs = Inr t" and "c \<in> set cs" "bc_run_id c = run_id" "bc_cost_usd c = None"
  shows "bt_cost_usd t = None"
proof -
  let ?rows = "filter (\<lambda>r. bc_run_id r = run_id) cs"
  have c: "c \<in> set ?rows"
    using assms by simp
  have "length (List.map_filter (\<lambda>r. sql_real (bc_cost_usd r)) ?rows) < length ?rows"
    by (rule map_filter_shorter [OF c]) (simp add: sql_real_def assms(4))
  with c show ?thesis
    using assms(1) unfolding spent_totals_def Let_def totals_of_ok_iff by auto
qed

lemma unknown_cost_exceeds:
  "bt_cost_usd spent = None \<Longrightarrow> rl_max_cost_usd limits = Some mx \<Longrightarrow>
     exceeded_limit (from_totals now run_id limits spent reserved) =
       Some \<lparr>lb_limit = ''unknown_cost'', lb_requested = ''unknown'', lb_available = f64_format 6 mx\<rparr>"
  by (simp add: exceeded_limit_def f64_limit_exceeded_def from_totals_def used_cost_def)

subsection \<open>Planning twice\<close>

lemma admitted_job:
  assumes "admit_plan env i effect ledger ws = (ws', Inr q)"
  shows "maybe_optimizer_job (pi_run_id i) (plan_job_id env i) (ws_jobs ws') = Some (qe_job q)"
    "map_of (oj_payload (qe_job q)) ''runtime_effect_id'' = Some (JStr (ef_runtime_effect_id effect))"
    "map_of (oj_payload (qe_job q)) ''budget_reservation_id'' =
       Some (JStr (rv_budget_reservation_id (plan_reservation env i effect)))"
    "lookup_row effect_key (ws_effects ws') (ef_run_id effect, ef_runtime_effect_id effect) = Some (qe_effect q)"
    "qe_dispatch q = pi_dispatch_payload i"
  using assms
  by (auto simp: admit_plan_def Let_def then_do_def record_runtime_effect_job_def record_optimizer_job_def
      maybe_optimizer_job_def get_optimizer_job_def table_simps job_key_def optimizer_job_from_row_def
      optimizer_job_new_def record_runtime_effect_def effect_key_def put_effect_fields_def
      split: sum.splits option.splits)

text \<open>The identity of a plan depends on the environment through hashing only.\<close>

lemma plan_ids:
  assumes "en_hashing env' = en_hashing env"
  shows "plan_job_id env' i = plan_job_id env i"
    "ef_runtime_effect_id (plan_effect env' i st fc md) = ef_runtime_effect_id (plan_effect env i st' fc' md')"
    "ef_run_id (plan_effect env' i st fc md) = pi_run_id i"
  using assms by (simp_all add: plan_job_id_def plan_effect_def effect_from_input_def)

subsection \<open>Properties\<close>



text \<open>
  C33. A refused effect costs nothing: when planning ends in a budget error, no reservation, commit
  or job has been written.
\<close>
theorem refused_plan_reserves_nothing:
  assumes "record_runtime_effect_planned env i ws = (ws', Inl (BudgetExceeded a b c d))"
  shows "ws_reservations ws' = ws_reservations ws \<and> ws_commits ws' = ws_commits ws \<and> ws_jobs ws' = ws_jobs ws"
  using assms
  by (auto simp: record_runtime_effect_planned_def Let_def reject_plan_def requeue_existing_def admit_plan_def
      then_do_def record_runtime_effect_job_def record_runtime_effect_def record_runtime_effect_admission_def
      get_optimizer_job_def runtime_effect_def budget_reservation_def required_run_limits_def
      split: sum.splits option.splits prod.splits if_splits)

theorem refused_plan_reserves_nothing_witness:
  "let ws = sample_workspace (unlimited\<lparr>rl_max_total_rollouts := Some 5\<rparr>);
       r = record_runtime_effect_planned sample_env (sample_plan ''a'' (no_estimate\<lparr>es_max_rollouts := Some 6\<rparr>)) ws
   in snd r = Inl (BudgetExceeded ''r'' ''max_total_rollouts'' ''6'' ''5'') \<and>
      ws_reservations (fst r) = ws_reservations ws \<and> ws_jobs (fst r) = ws_jobs ws"
proof -
  let ?ws = "sample_workspace (unlimited\<lparr>rl_max_total_rollouts := Some 5\<rparr>)"
  let ?r = "record_runtime_effect_planned sample_env (sample_plan ''a'' (no_estimate\<lparr>es_max_rollouts := Some 6\<rparr>)) ?ws"
  have "case snd ?r of Inl (BudgetExceeded a b c d) \<Rightarrow>
      a = ''r'' \<and> b = ''max_total_rollouts'' \<and> c = ''6'' \<and> d = ''5'' | _ \<Rightarrow> False"
    by code_simp
  then have e: "snd ?r = Inl (BudgetExceeded ''r'' ''max_total_rollouts'' ''6'' ''5'')"
    by (auto split: sum.splits optimizer_error.splits)
  then have "?r = (fst ?r, Inl (BudgetExceeded ''r'' ''max_total_rollouts'' ''6'' ''5''))"
    by (metis prod.collapse)
  from refused_plan_reserves_nothing [OF this] e show ?thesis
    by (simp add: Let_def)
qed

text \<open>
  Without an explicit total in the estimates the total-token limit is not enforced: the request
  is checked as the sum of its prompt and completion tokens, but its reservation stores no total, so
  the ledger counts it as zero. Under a limit of 100 total tokens two effects of 60 + 30 tokens are
  both admitted and the ledger still reports nothing reserved.
\<close>
theorem split_estimates_overrun_total:
  "let limits = unlimited\<lparr>rl_max_total_tokens := Some 100\<rparr>;
       r1 = record_runtime_effect_planned sample_env (sample_plan ''a'' split_estimate) (sample_workspace limits);
       r2 = record_runtime_effect_planned sample_env (sample_plan ''b'' split_estimate) (fst r1)
   in accepted (snd r1) \<and> accepted (snd r2) \<and> length (ws_reservations (fst r2)) = 2 \<and>
      map_sum id bl_reserved_total_tokens (budget_ledger_snapshot sample_env ''r'' (fst r2)) = Inr 0 \<and>
      bt_total_tokens (requested_budget split_estimate) = 90"
  by code_simp

text \<open>
  C32. Planning is idempotent: planning the same effect again, at any later time, returns the effect,
  reservation and job of the first time and leaves the workspace unchanged.
\<close>
theorem planning_is_idempotent:
  assumes "record_runtime_effect_planned env i ws = (ws', Inr q)"
    and "maybe_optimizer_job (pi_run_id i) (plan_job_id env i) (ws_jobs ws) = None"
    and "en_hashing env' = en_hashing env"
  shows "record_runtime_effect_planned env' i ws' = (ws', Inr q)"
proof -
  let ?eff = "plan_effect env i ''planned'' None (pi_metadata i)"
  from assms(1,2) obtain limits ledger where
    p: "required_run_limits (pi_run_id i) ws = Inr limits"
    "validate_for_limits (pi_run_id i) (pi_effect_kind i) limits (pi_budget_estimate i) = Inr ()"
    "admit_plan env i ?eff ledger (record_runtime_effect ?eff ws) = (ws', Inr q)"
    by (rule planned_newE)
  have "ws_run_limits ws' = ws_run_limits ws"
    using admit_plan_tables(1) [OF p(3)] by (simp add: record_runtime_effect_def)
  from required_run_limits_frame [OF this] p(1)
  have lim: "required_run_limits (pi_run_id i) ws' = Inr limits"
    by simp
  note j = admitted_job [OF p(3)]
  have run: "ef_run_id ?eff = pi_run_id i"
    by (simp add: plan_effect_def effect_from_input_def)
  have res: "lookup_row reservation_key (ws_reservations ws')
      (pi_run_id i, rv_budget_reservation_id (plan_reservation env i ?eff)) = Some (qe_reservation q)"
    unfolding admit_plan_tables(3,4) [OF p(3)]
    by (simp add: table_simps reservation_key_def plan_reservation_def reservation_from_input_def)
  have "requeue_existing i (plan_effect env' i ''planned'' None (pi_metadata i)) (qe_job q) ws' = (ws', Inr q)"
    using j(2-5) res run
    by (cases q) (simp add: requeue_existing_def runtime_effect_def budget_reservation_def)
  then show ?thesis
    unfolding record_runtime_effect_planned_def lim
    by (simp add: p(2) plan_ids(1) [OF assms(3)] j(1) Let_def)
qed

theorem planning_is_idempotent_witness:
  "let ws' = fst (record_runtime_effect_planned sample_env (sample_plan ''a'' split_estimate) (sample_workspace unlimited))
   in fst (record_runtime_effect_planned (sample_env\<lparr>en_now := 2000\<rparr>) (sample_plan ''a'' split_estimate) ws') = ws'"
proof -
  let ?i = "sample_plan ''a'' split_estimate"
  have "accepted (snd (record_runtime_effect_planned sample_env ?i (sample_workspace unlimited)))"
    by code_simp
  then obtain ws' q where p: "record_runtime_effect_planned sample_env ?i (sample_workspace unlimited) = (ws', Inr q)"
    by (auto simp: accepted_def split: sum.splits) (metis prod.collapse)
  have "maybe_optimizer_job (pi_run_id ?i) (plan_job_id sample_env ?i) (ws_jobs (sample_workspace unlimited)) = None"
    by (simp add: sample_workspace_def record_run_limits_def maybe_optimizer_job_def table_simps)
  from planning_is_idempotent [OF p this, of "sample_env\<lparr>en_now := 2000\<rparr>"] p show ?thesis
    by (simp add: Let_def)
qed

text \<open>
  C18. Completing an effect settles it: whatever the ledger check then says, the effect's reservation
  is no longer counted as reserved and its commit, with the reported usage and the reserved wall time,
  is in the ledger's table.
\<close>
theorem completion_settles_reservation:
  assumes "record_runtime_effect_completed env i ws = (ws', x)" and "co_status i = ''completed''"
  shows "lookup_row reservation_key (ws_reservations ws') (reservation_key (co_reservation i)) =
      Some (settled_reservation i) \<and>
    \<not> active_reservation run_id (settled_reservation i) \<and>
    lookup_row commit_key (ws_commits ws') (commit_key (completion_commit env i)) = Some (completion_commit env i) \<and>
    bc_total_tokens (completion_commit env i) = ut_total_tokens (co_usage i) \<and>
    bc_wall_seconds (completion_commit env i) = unwrap_or 0 (rv_max_wall_seconds (co_reservation i))"
proof -
  have "reservation_key (settled_reservation i) = reservation_key (co_reservation i)"
    by (simp add: settled_reservation_def reservation_key_def)
  then show ?thesis
    using completed_tables(2,3) [OF assms(1)] assms(2)
    by (simp add: table_simps active_reservation_def completion_commit_def commit_from_input_def)
      (simp add: settled_reservation_def)
qed

theorem completion_settles_reservation_witness:
  "let ws' = fst (record_runtime_effect_completed sample_env sample_completion (sample_workspace unlimited))
   in lookup_row reservation_key (ws_reservations ws') (reservation_key (co_reservation sample_completion)) =
        Some (settled_reservation sample_completion)"
proof -
  obtain ws' x where p: "record_runtime_effect_completed sample_env sample_completion (sample_workspace unlimited) = (ws', x)"
    by fastforce
  have "co_status sample_completion = ''completed''"
    by (simp add: sample_completion_def Let_def)
  from completion_settles_reservation [OF p this] p show ?thesis
    by (simp add: Let_def)
qed

text \<open>
  In a run with a cost limit a failed effect hides its own error: failing an effect records a
  commit of unknown cost, the ledger check then reports the unknown cost as an exceeded budget, and
  \<open>fail_runtime_effect_and_return\<close> returns that budget error instead of the error it was given
  (unless the ledger query itself fails).
\<close>
theorem failure_surfaces_as_budget_error:
  assumes "required_run_limits (ef_run_id planned) ws = Inr limits" and "rl_max_cost_usd limits = Some mx"
    and "fail_runtime_effect_and_return env planned reservation err phase ws = (ws', x)"
    and "budget_ledger_snapshot env (ef_run_id planned) ws' = Inr l"
  shows "x = Inl (BudgetExceeded (ef_run_id planned) ''unknown_cost'' ''unknown'' (f64_format 6 mx))"
proof -
  define i where "i = \<lparr>co_planned = planned, co_reservation = reservation, co_status = ''failed'', co_cost_usd = f64_zero,
        co_reported_cost_usd = None, co_usage = usage_default, co_rollout_count = 0,
        co_failure = Some (from_optimizer_error err),
        co_metadata = obj_insert ''error_code'' (JStr (error_code err)) [(''failure_phase'', JStr phase)]\<rparr>"
  have pl: "co_planned i = planned"
    by (simp add: i_def)
  obtain w y where w: "record_runtime_effect_completed env i ws = (w, y)"
    by fastforce
  note t = completed_tables [OF w]
  have "ws' = w"
    using assms(3) w
    by (auto simp: fail_runtime_effect_and_return_def record_runtime_effect_failed_def then_do_def i_def split: sum.splits)
  have "completion_commit env i \<in> set (ws_commits w)"
    unfolding t(3) by simp
  moreover have "bc_cost_usd (completion_commit env i) = None" "bc_run_id (completion_commit env i) = ef_run_id planned"
    by (simp_all add: completion_commit_def commit_from_input_def completion_cost_def settled_effect_cost_def i_def)
  ultimately have unknown: "spent_totals f (ef_run_id planned) (ws_commits w) = Inr s \<Longrightarrow> bt_cost_usd s = None" for f s
    using unknown_cost_spent by blast
  have "required_run_limits (ef_run_id planned) w = Inr limits"
    using assms(1) required_run_limits_frame [OF t(1)] by simp
  then have "exceeded_limit l = Some \<lparr>lb_limit = ''unknown_cost'', lb_requested = ''unknown'', lb_available = f64_format 6 mx\<rparr>"
    using assms(2,4) \<open>ws' = w\<close> unknown unknown_cost_exceeds by (auto simp: snapshot_ok_iff)
  then have "y = Inl (BudgetExceeded (ef_run_id planned) ''unknown_cost'' ''unknown'' (f64_format 6 mx))"
    using t(4) assms(4) \<open>ws' = w\<close> by (simp add: pl budget_exceeded_error_def)
  then show ?thesis
    using assms(3) w
    by (auto simp: fail_runtime_effect_and_return_def record_runtime_effect_failed_def then_do_def i_def split: sum.splits)
qed

theorem failure_surfaces_as_budget_error_witness:
  "snd (fail_runtime_effect_and_return sample_env (co_planned sample_completion) (co_reservation sample_completion)
     (Container ''oom'') ''dispatch'' (sample_workspace (unlimited\<lparr>rl_max_cost_usd := Some (F64_Fin False 1)\<rparr>))) =
   (Inl (BudgetExceeded ''r'' ''unknown_cost'' ''unknown'' (f64_format 6 (F64_Fin False 1))) :: unit result)"
proof -
  let ?limits = "unlimited\<lparr>rl_max_cost_usd := Some (F64_Fin False 1)\<rparr>"
  let ?ws = "sample_workspace ?limits"
  let ?p = "co_planned sample_completion"
  let ?r = "fail_runtime_effect_and_return sample_env ?p (co_reservation sample_completion) (Container ''oom'') ''dispatch'' ?ws
    :: workspace \<times> unit result"
  have run: "ef_run_id ?p = ''r''"
    by (simp add: sample_completion_def Let_def plan_effect_def effect_from_input_def sample_plan_def)
  have 1: "required_run_limits (ef_run_id ?p) ?ws = Inr ?limits"
    by (simp add: required_run_limits_def latest_run_limits_def sample_workspace_def record_run_limits_def run
        unlimited_def run_limits_from_input_def)
  have "accepted (budget_ledger_snapshot sample_env ''r'' (fst ?r))"
    by code_simp
  then obtain l where 2: "budget_ledger_snapshot sample_env (ef_run_id ?p) (fst ?r) = Inr l"
    unfolding run by (auto simp: accepted_def split: sum.splits)
  have "rl_max_cost_usd ?limits = Some (F64_Fin False 1)"
    by simp
  from failure_surfaces_as_budget_error [OF 1 this _ 2, of _ "Container ''oom''" "''dispatch''" "snd ?r"] show ?thesis
    unfolding run by simp
qed

text \<open>
  What a completion releases is exactly what it did not use: for every counter the committed and
  the released amount add up to the larger of reserved and committed, and no released cost is
  negative.
\<close>
theorem release_returns_unused_budget:
  "let rel = budget_release_for_completion env rv commit status md; r = reserved_budget rv; c = committed_budget commit in
   unat (bt_prompt_tokens c) + unat (re_released_prompt_tokens rel) = max (unat (bt_prompt_tokens r)) (unat (bt_prompt_tokens c)) \<and>
   unat (bt_completion_tokens c) + unat (re_released_completion_tokens rel) =
     max (unat (bt_completion_tokens r)) (unat (bt_completion_tokens c)) \<and>
   unat (bt_total_tokens c) + unat (re_released_total_tokens rel) = max (unat (bt_total_tokens r)) (unat (bt_total_tokens c)) \<and>
   unat (bt_rollouts c) + unat (re_released_rollouts rel) = max (unat (bt_rollouts r)) (unat (bt_rollouts c)) \<and>
   unat (bt_wall_seconds c) + unat (re_released_wall_seconds rel) = max (unat (bt_wall_seconds r)) (unat (bt_wall_seconds c)) \<and>
   f64_le f64_zero (re_released_cost_usd rel)"
proof -
  have "c + (r - c) = max r c" for r c :: nat
    by simp
  then show ?thesis
    by (simp add: budget_release_for_completion_def release_from_input_def Let_def sat_simps f64_max_zero_nonneg
        del: f64_le.simps)
qed

end
