(* ===== verification/Btree_Map.thy ===== *)
theory Btree_Map
  imports Prelude
begin

text \<open>
  \<open>BTreeMap\<close> and \<open>BTreeSet\<close> of the Rust standard library: association lists with strictly ascending
  keys and lists in strictly ascending order, so that iteration in key order is list order. Strings
  are ordered by their bytes, as in Rust.
\<close>

named_theorems bt_simps \<open>rewrite rules for maps and sets in key order\<close>

fun bt_insert :: "'k::linorder \<Rightarrow> 'v \<Rightarrow> ('k \<times> 'v) list \<Rightarrow> ('k \<times> 'v) list" where
  "bt_insert k v [] = [(k, v)]"
| "bt_insert k v ((k', v') # m) =
     (if k = k' then (k, v) # m
      else if k < k' then (k, v) # (k', v') # m else (k', v') # bt_insert k v m)"

text \<open>\<open>entry(k).or_insert(d)\<close>, changed in place by \<open>f\<close>.\<close>

definition bt_entry :: "'k::linorder \<Rightarrow> 'v \<Rightarrow> ('v \<Rightarrow> 'v) \<Rightarrow> ('k \<times> 'v) list \<Rightarrow> ('k \<times> 'v) list" where
  "bt_entry k d f m = bt_insert k (f (unwrap_or d (map_of m k))) m"

text \<open>\<open>collect()\<close> into a map: a later pair replaces an earlier one with the same key.\<close>

definition bt_collect :: "('k::linorder \<times> 'v) list \<Rightarrow> ('k \<times> 'v) list" where
  "bt_collect kvs = fold (\<lambda>(k, v). bt_insert k v) kvs []"

definition bt_set :: "'a::linorder list \<Rightarrow> 'a list" where
  "bt_set xs = sort (remdups xs)"

definition bt_wf :: "('k::linorder \<times> 'v) list \<Rightarrow> bool" where
  "bt_wf m \<longleftrightarrow> sorted_wrt (<) (map fst m)"

subsection \<open>Maps\<close>

lemma bt_wf_Nil [simp, bt_simps]: "bt_wf []"
  by (simp add: bt_wf_def)

lemma keys_bt_insert [simp, bt_simps]: "fst ` set (bt_insert k v m) = insert k (fst ` set m)"
  by (induction m rule: bt_insert.induct) auto

lemma set_bt_insert: "set (bt_insert k v m) \<subseteq> insert (k, v) (set m)"
  by (induction k v m rule: bt_insert.induct) auto

lemma map_of_bt_insert [simp, bt_simps]: "map_of (bt_insert k v m) = (map_of m)(k \<mapsto> v)"
  by (induction k v m rule: bt_insert.induct) (auto simp: fun_eq_iff)

lemma bt_wf_bt_insert [simp, intro]: "bt_wf m \<Longrightarrow> bt_wf (bt_insert k v m)"
proof (induction k v m rule: bt_insert.induct)
  case (2 k v k' v' m)
  then show ?case
    using set_bt_insert [of k v m] by (auto simp: bt_wf_def)
qed (simp add: bt_wf_def)

lemma bt_wf_distinct: "bt_wf m \<Longrightarrow> distinct (map fst m)"
  unfolding bt_wf_def using strict_sorted_iff by blast

lemma bt_wf_map_of: "bt_wf m \<Longrightarrow> map_of m k = Some v \<longleftrightarrow> (k, v) \<in> set m"
  by (meson bt_wf_distinct map_of_eq_Some_iff)

lemma map_of_bt_entry [simp, bt_simps]:
  "map_of (bt_entry k d f m) = (map_of m)(k \<mapsto> f (unwrap_or d (map_of m k)))"
  by (simp add: bt_entry_def)

lemma bt_wf_bt_entry [simp, intro]: "bt_wf m \<Longrightarrow> bt_wf (bt_entry k d f m)"
  by (simp add: bt_entry_def)

lemma keys_bt_entry [simp, bt_simps]: "fst ` set (bt_entry k d f m) = insert k (fst ` set m)"
  by (simp add: bt_entry_def)

lemma map_of_fold_bt_insert:
  "map_of (fold (\<lambda>(k, v). bt_insert k v) kvs m) = map_of m ++ map_of (rev kvs)"
  by (induction kvs arbitrary: m) (auto simp: fun_eq_iff map_add_def split: option.splits)

lemma bt_wf_fold_bt_insert: "bt_wf m \<Longrightarrow> bt_wf (fold (\<lambda>(k, v). bt_insert k v) kvs m)"
  by (induction kvs arbitrary: m) auto

lemma bt_wf_bt_collect [simp]: "bt_wf (bt_collect kvs)"
  by (simp add: bt_collect_def bt_wf_fold_bt_insert)

lemma map_of_bt_collect [bt_simps]: "map_of (bt_collect kvs) = map_of (rev kvs)"
  by (simp add: bt_collect_def map_of_fold_bt_insert)

lemma keys_bt_collect [simp, bt_simps]: "fst ` set (bt_collect kvs) = fst ` set kvs"
proof -
  have "dom (map_of (bt_collect kvs)) = dom (map_of (rev kvs))"
    by (simp only: map_of_bt_collect)
  then show ?thesis
    by (simp add: dom_map_of_conv_image_fst)
qed

lemma bt_collect_empty_iff [simp]: "bt_collect kvs = [] \<longleftrightarrow> kvs = []"
  by (metis keys_bt_collect image_is_empty set_empty)

lemma length_bt_wf: "bt_wf m \<Longrightarrow> length m = card (fst ` set m)"
  by (metis bt_wf_distinct distinct_card length_map set_map)

text \<open>Two maps with the same bindings are the same list.\<close>

lemma bt_wf_eqI:
  assumes "bt_wf m" "bt_wf n" "map_of m = map_of n"
  shows "m = n"
proof -
  have eq: "set m = set n"
    using assms by (auto simp: bt_wf_map_of [symmetric])
  have keys: "map fst m = map fst n"
    using assms(1,2) eq unfolding bt_wf_def by (intro strict_sorted_equal) auto
  then have len: "length m = length n"
    by (metis length_map)
  show ?thesis
  proof (rule nth_equalityI [OF len])
    fix i
    assume i: "i < length m"
    then have "fst (m ! i) = fst (n ! i)"
      using arg_cong [OF keys, of "\<lambda>ks. ks ! i"] len by simp
    moreover have "m ! i \<in> set n" "n ! i \<in> set n"
      using nth_mem [OF i] nth_mem [of i n] i len eq by simp_all
    ultimately show "m ! i = n ! i"
      using bt_wf_distinct [OF assms(2)] by (auto simp: distinct_map inj_on_def)
  qed
qed

subsection \<open>Sets\<close>

lemma set_bt_set [simp, bt_simps]: "set (bt_set xs) = set xs"
  by (simp add: bt_set_def)

lemma sorted_bt_set [simp]: "sorted (bt_set xs)"
  by (simp add: bt_set_def)

lemma distinct_bt_set [simp]: "distinct (bt_set xs)"
  by (simp add: bt_set_def)

lemma bt_set_Nil_iff [simp]: "bt_set xs = [] \<longleftrightarrow> xs = []"
  by (metis set_bt_set set_empty)

lemma bt_set_eq_iff: "bt_set xs = bt_set ys \<longleftrightarrow> set xs = set ys"
proof
  assume "bt_set xs = bt_set ys"
  then show "set xs = set ys"
    by (metis set_bt_set)
next
  assume "set xs = set ys"
  then show "bt_set xs = bt_set ys"
    by (intro sorted_distinct_set_unique) simp_all
qed

lemma strict_sorted_bt_set: "sorted_wrt (<) (bt_set xs)"
  by (simp add: strict_sorted_iff)

end
