(* ===== verification/Gepa_Config.thy ===== *)
theory Gepa_Config
  imports Run_Limits Btree_Map
begin

text \<open>
  The search sections of a run's configuration (\<open>config.rs\<close>): the records with their defaults, the
  validators in the order in which they run, and the run limits and budget estimates that are
  configured from them (\<open>configured_limits.rs\<close>).

  \<open>synth_optimizer_config\<close> holds the sections that \<open>validate\<close> reads up to the check of the limits;
  the sections checked after that (proposer runtime, workflow add-on, disk budget) are represented
  by the one field the limits need of them, the time limit of a proposer turn.
\<close>

subsection \<open>Records\<close>

record gepa_candidate_selector_config =
  cs_name :: string
  cs_epsilon :: "f64 option"
  cs_k :: "usize option"

record gepa_batch_sampler_config =
  bs_name :: string
  bs_epoch_width :: "usize option"
  bs_field :: "string option"

record gepa_task_pools_config =
  tp_pareto :: "string list"
  tp_minibatch :: "string list"
  tp_reflection :: "string list"
  tp_heldout :: "string list"

record gepa_objective_acceptance_config =
  oa_min_objective_delta :: "f64 option"
  oa_objective_regression_tolerance :: "f64 option"
  oa_protected_objectives :: "string list"

record gepa_leakage_config =
  lk_policy :: string
  lk_min_span_chars :: usize

datatype gepa_pipeline_mode = SyncSerial | AsyncPipelined | FlashEvolve

datatype gepa_staleness_policy = StaleFull | StaleGuarded | StaleReflective

record gepa_speculative_completion_config =
  sx_enabled :: bool
  sx_alpha :: f64

record gepa_adaptive_stage_workers_config =
  aw_enabled :: bool
  aw_min :: usize
  aw_max :: usize
  aw_backlog_threshold :: usize
  aw_stale_gap_threshold :: u64

record gepa_adaptive_rollout_concurrency_config =
  ac_enabled :: bool
  ac_initial :: usize
  ac_min :: usize
  ac_max :: usize
  ac_increase_step :: usize
  ac_decrease_step :: usize
  ac_increase_after_successes :: usize
  ac_overload_status_codes :: "u16 list"

record gepa_pipeline_workers =
  wk_propose :: usize
  wk_rollout :: usize
  wk_evaluate :: usize

record gepa_pipeline_config =
  pl_mode :: "gepa_pipeline_mode option"
  pl_staleness_policy :: gepa_staleness_policy
  pl_max_in_flight_candidates :: usize
  pl_workers :: gepa_pipeline_workers
  pl_delta_max :: u64
  pl_speculative_completion :: gepa_speculative_completion_config
  pl_adaptive_stage_workers :: gepa_adaptive_stage_workers_config
  pl_adaptive_rollout_concurrency :: gepa_adaptive_rollout_concurrency_config

record gepa_config =
  gc_max_generations :: usize
  gc_proposals_per_generation :: usize
  gc_minibatch_size :: usize
  gc_minibatch_accept_margin :: f64
  gc_minibatch_acceptance_criterion :: string
  gc_max_total_rollouts :: usize
  gc_max_train_rollouts :: "usize option"
  gc_max_heldout_rollouts :: "usize option"
  gc_rollout_submission_mode :: string
  gc_rollout_poll_interval_ms :: u64
  gc_rollout_async_timeout_seconds :: u64
  gc_rollout_chunk_size :: "usize option"
  gc_rollout_failure_rate_tolerance :: f64
  gc_frontier_type :: string
  gc_selection_objective :: "string option"
  gc_objective_keys :: "string list"
  gc_objective_directions :: "(string \<times> string) list"
  gc_acceptance_criterion :: string
  gc_objective_acceptance :: gepa_objective_acceptance_config
  gc_candidate_selector :: gepa_candidate_selector_config
  gc_batch_sampler :: gepa_batch_sampler_config
  gc_task_pools :: gepa_task_pools_config
  gc_pipeline :: gepa_pipeline_config
  gc_deployment_rule :: string
  gc_leakage :: gepa_leakage_config
  gc_max_cost_usd :: f64
  gc_max_time_seconds :: "u64 option"
  gc_no_improvement_generations :: "usize option"
  gc_no_improvement_metric :: "string option"
  gc_score_threshold_value :: "f64 option"
  gc_score_threshold_metric :: "string option"
  gc_max_prompt_tokens :: "u64 option"
  gc_max_completion_tokens :: "u64 option"
  gc_max_total_tokens :: "u64 option"
  gc_proposer_estimated_cost_usd :: "f64 option"
  gc_proposer_estimated_prompt_tokens :: "u64 option"
  gc_proposer_estimated_completion_tokens :: "u64 option"
  gc_proposer_estimated_total_tokens :: "u64 option"
  gc_rollout_estimated_cost_usd :: "f64 option"
  gc_rollout_estimated_prompt_tokens :: "u64 option"
  gc_rollout_estimated_completion_tokens :: "u64 option"
  gc_rollout_estimated_total_tokens :: "u64 option"
  gc_rollout_estimated_wall_seconds :: "u64 option"

subsection \<open>Defaults\<close>

definition candidate_selector_default :: gepa_candidate_selector_config where
  "candidate_selector_default = \<lparr>cs_name = ''pareto_weighted'', cs_epsilon = None, cs_k = None\<rparr>"

definition batch_sampler_default :: gepa_batch_sampler_config where
  "batch_sampler_default = \<lparr>bs_name = ''seeded_shuffle'', bs_epoch_width = None, bs_field = None\<rparr>"

definition task_pools_default :: gepa_task_pools_config where
  "task_pools_default = \<lparr>tp_pareto = [], tp_minibatch = [], tp_reflection = [], tp_heldout = []\<rparr>"

definition objective_acceptance_default :: gepa_objective_acceptance_config where
  "objective_acceptance_default =
     \<lparr>oa_min_objective_delta = None, oa_objective_regression_tolerance = None, oa_protected_objectives = []\<rparr>"

definition leakage_default :: gepa_leakage_config where
  "leakage_default = \<lparr>lk_policy = ''forbid'', lk_min_span_chars = 32\<rparr>"

definition speculative_completion_default :: gepa_speculative_completion_config where
  "speculative_completion_default = \<lparr>sx_enabled = False, sx_alpha = f64_lit (1 / 4)\<rparr>"

definition adaptive_stage_workers_default :: gepa_adaptive_stage_workers_config where
  "adaptive_stage_workers_default =
     \<lparr>aw_enabled = False, aw_min = 1, aw_max = 128, aw_backlog_threshold = 2, aw_stale_gap_threshold = 2\<rparr>"

definition adaptive_rollout_concurrency_default :: gepa_adaptive_rollout_concurrency_config where
  "adaptive_rollout_concurrency_default =
     \<lparr>ac_enabled = True, ac_initial = 50, ac_min = 1, ac_max = 120, ac_increase_step = 10, ac_decrease_step = 10,
      ac_increase_after_successes = 16, ac_overload_status_codes = [408, 425, 429, 500, 502, 503, 504, 529]\<rparr>"

definition pipeline_workers_default :: gepa_pipeline_workers where
  "pipeline_workers_default = \<lparr>wk_propose = 1, wk_rollout = 10, wk_evaluate = 1\<rparr>"

definition pipeline_default :: gepa_pipeline_config where
  "pipeline_default =
     \<lparr>pl_mode = None, pl_staleness_policy = StaleFull, pl_max_in_flight_candidates = 10,
      pl_workers = pipeline_workers_default, pl_delta_max = 2,
      pl_speculative_completion = speculative_completion_default,
      pl_adaptive_stage_workers = adaptive_stage_workers_default,
      pl_adaptive_rollout_concurrency = adaptive_rollout_concurrency_default\<rparr>"

definition gepa_config_default :: gepa_config where
  "gepa_config_default =
     \<lparr>gc_max_generations = 2, gc_proposals_per_generation = 1, gc_minibatch_size = 8,
      gc_minibatch_accept_margin = f64_zero, gc_minibatch_acceptance_criterion = ''primary_improvement'',
      gc_max_total_rollouts = 256, gc_max_train_rollouts = None, gc_max_heldout_rollouts = None,
      gc_rollout_submission_mode = ''async'', gc_rollout_poll_interval_ms = 250,
      gc_rollout_async_timeout_seconds = 600, gc_rollout_chunk_size = None,
      gc_rollout_failure_rate_tolerance = f64_lit (1 / 4), gc_frontier_type = ''per_example'',
      gc_selection_objective = None, gc_objective_keys = [], gc_objective_directions = [],
      gc_acceptance_criterion = ''primary_improvement'', gc_objective_acceptance = objective_acceptance_default,
      gc_candidate_selector = candidate_selector_default, gc_batch_sampler = batch_sampler_default,
      gc_task_pools = task_pools_default, gc_pipeline = pipeline_default,
      gc_deployment_rule = ''optimization_selected'', gc_leakage = leakage_default, gc_max_cost_usd = f64_zero,
      gc_max_time_seconds = None, gc_no_improvement_generations = None, gc_no_improvement_metric = None,
      gc_score_threshold_value = None, gc_score_threshold_metric = None, gc_max_prompt_tokens = None,
      gc_max_completion_tokens = None, gc_max_total_tokens = None, gc_proposer_estimated_cost_usd = None,
      gc_proposer_estimated_prompt_tokens = None, gc_proposer_estimated_completion_tokens = None,
      gc_proposer_estimated_total_tokens = None, gc_rollout_estimated_cost_usd = None,
      gc_rollout_estimated_prompt_tokens = None, gc_rollout_estimated_completion_tokens = None,
      gc_rollout_estimated_total_tokens = None, gc_rollout_estimated_wall_seconds = None\<rparr>"

subsection \<open>Methods of the configuration records\<close>

definition split_rollout_budgets_enabled :: "gepa_config \<Rightarrow> bool" where
  "split_rollout_budgets_enabled g \<longleftrightarrow> gc_max_train_rollouts g \<noteq> None \<or> gc_max_heldout_rollouts g \<noteq> None"

definition train_rollout_limit :: "gepa_config \<Rightarrow> usize" where
  "train_rollout_limit g = unwrap_or (gc_max_total_rollouts g) (gc_max_train_rollouts g)"

definition heldout_rollout_limit :: "gepa_config \<Rightarrow> usize" where
  "heldout_rollout_limit g = unwrap_or (gc_max_total_rollouts g) (gc_max_heldout_rollouts g)"

definition effective_max_total_rollouts :: "gepa_config \<Rightarrow> usize" where
  "effective_max_total_rollouts g =
     (if split_rollout_budgets_enabled g
      then saturating_add (train_rollout_limit g) (heldout_rollout_limit g) else gc_max_total_rollouts g)"

fun pipeline_mode_str :: "gepa_pipeline_mode \<Rightarrow> string" where
  "pipeline_mode_str SyncSerial = ''sync_serial''"
| "pipeline_mode_str AsyncPipelined = ''async_pipelined''"
| "pipeline_mode_str FlashEvolve = ''flash_evolve''"

fun staleness_policy_str :: "gepa_staleness_policy \<Rightarrow> string" where
  "staleness_policy_str StaleFull = ''full''"
| "staleness_policy_str StaleGuarded = ''guarded''"
| "staleness_policy_str StaleReflective = ''reflective''"

definition resolved_mode :: "gepa_pipeline_config \<Rightarrow> gepa_pipeline_mode" where
  "resolved_mode c = unwrap_or SyncSerial (pl_mode c)"

definition mode_is_explicit :: "gepa_pipeline_config \<Rightarrow> bool" where
  "mode_is_explicit c \<longleftrightarrow> pl_mode c \<noteq> None"

text \<open>\<open>value.trim().to_ascii_lowercase().replace('-', "_")\<close>, the form in which names are compared.\<close>

definition normalize_enum_value :: "string \<Rightarrow> string" where
  "normalize_enum_value v = map (\<lambda>c. if c = CHR ''-'' then CHR ''_'' else c) (to_ascii_lowercase (trim v))"

end
