(* ===== verification/Config_Validation.thy ===== *)
theory Config_Validation
  imports Gepa_Config
begin

text \<open>
  \<open>SynthOptimizerConfig::validate\<close> up to the check of the limits, with every validator it calls on
  the way, and the limits of a run and the estimates of its effects as they are configured
  (\<open>configured_limits.rs\<close>). A validator is the list of its checks; the first that fails is the error.
\<close>

record policy_config =
  po_enabled :: bool
  po_provider :: string
  po_model :: string
  po_policy_type :: "string option"
  po_api_family :: string
  po_base_url :: "string option"
  po_inference_url :: "string option"
  po_max_tokens :: "u64 option"
  po_disable_reasoning :: string
  po_tool_call_style :: string
  po_proxy_mode :: string
  po_credential_mode :: string
  po_api_key_env :: "string option"
  po_config :: json_map

record taskset_config =
  ts_train_split :: string
  ts_heldout_split :: string
  ts_train_ids :: "string list"
  ts_heldout_ids :: "string list"
  ts_filters :: json_map

record candidate_config =
  cn_target_modules :: "string list"
  cn_candidate_id_prefix :: "string option"

record synth_optimizer_config =
  so_run_id :: string
  so_container_url :: "string option"
  so_container_pool_id :: "string option"
  so_taskset :: taskset_config
  so_candidate :: candidate_config
  so_policy :: policy_config
  so_proposer_timeout_seconds :: u64
  so_gepa :: gepa_config

subsection \<open>Checks\<close>

definition ensure :: "bool \<Rightarrow> string \<Rightarrow> unit result" where
  "ensure ok message = (if ok then Inr () else Inl (Config message))"

definition blank :: "string \<Rightarrow> bool" where
  "blank s \<longleftrightarrow> trim s = []"

definition quoted :: "string \<Rightarrow> string" where
  "quoted s = [CHR 0x22] @ s @ [CHR 0x22]"

text \<open>\<open>{:?}\<close> of a list of strings, and of a set, which differs in the brackets.\<close>

definition debug_list :: "string list \<Rightarrow> string" where
  "debug_list xs = ''['' @ join_with '', '' (map str_debug xs) @ '']''"

definition debug_set :: "string list \<Rightarrow> string" where
  "debug_set xs = [CHR 0x7B] @ join_with '', '' (map str_debug xs) @ [CHR 0x7D]"

definition in_unit_interval :: "f64 \<Rightarrow> bool" where
  "in_unit_interval x \<longleftrightarrow> f64_le f64_zero x \<and> f64_le x (F64_Fin False 1)"

definition validate_positive_option :: "string \<Rightarrow> u64 option \<Rightarrow> unit result" where
  "validate_positive_option name v = ensure (v \<noteq> Some 0) (name @ '' must be positive'')"

definition validate_positive_f64_option :: "string \<Rightarrow> f64 option \<Rightarrow> unit result" where
  "validate_positive_f64_option name v =
     ensure (case v of None \<Rightarrow> True | Some x \<Rightarrow> is_finite x \<and> \<not> f64_le x f64_zero) (name @ '' must be positive'')"

definition validate_gepa_objective_direction :: "string \<Rightarrow> string \<Rightarrow> unit result" where
  "validate_gepa_objective_direction name direction =
     ensure (to_ascii_lowercase (trim direction) \<in> set [''max'', ''maximize'', ''higher'', ''higher_is_better'', ''up'',
         ''min'', ''minimize'', ''lower'', ''lower_is_better'', ''down''])
       (name @ '' values must be maximize/higher_is_better or minimize/lower_is_better; got '' @ str_debug direction)"

definition validate_gepa_acceptance_criterion :: "string \<Rightarrow> unit result" where
  "validate_gepa_acceptance_criterion criterion =
     (let criterion = normalize_enum_value criterion
      in ensure (criterion \<in> set [''primary_improvement'', ''improvement_or_equal'', ''primary_or_objective'',
             ''any_objective_improved'', ''protected_objective_guard''])
           (''gepa.acceptance_criterion must be primary_improvement, improvement_or_equal, primary_or_objective, any_objective_improved, or protected_objective_guard; got ''
            @ str_debug criterion))"

definition validate_gepa_objective_acceptance_config :: "gepa_objective_acceptance_config \<Rightarrow> unit result" where
  "validate_gepa_objective_acceptance_config c =
     (let nonneg = (\<lambda>v. case v of None \<Rightarrow> True | Some x \<Rightarrow> is_finite x \<and> \<not> f64_lt x f64_zero)
      in check_all
        [ensure (nonneg (oa_min_objective_delta c))
           ''gepa.objective_acceptance.min_objective_delta must be finite and non-negative'',
         ensure (nonneg (oa_objective_regression_tolerance c))
           ''gepa.objective_acceptance.objective_regression_tolerance must be finite and non-negative'',
         ensure (list_all (\<lambda>obj. \<not> blank obj) (oa_protected_objectives c))
           ''gepa.objective_acceptance.protected_objectives entries must be non-empty''])"

definition validate_gepa_candidate_selector_config :: "gepa_candidate_selector_config \<Rightarrow> unit result" where
  "validate_gepa_candidate_selector_config c =
     check_all
       [ensure (normalize_enum_value (cs_name c) \<in> set [''pareto_weighted'', ''pareto'', ''uniform_pareto'', ''random'',
            ''current_best'', ''top_k_pareto'', ''epsilon_greedy''])
          (''gepa.candidate_selector.name must be pareto_weighted, pareto, uniform_pareto, random, current_best, top_k_pareto, or epsilon_greedy; got ''
           @ str_debug (cs_name c)),
        ensure (case cs_epsilon c of None \<Rightarrow> True | Some e \<Rightarrow> is_finite e \<and> in_unit_interval e)
          ''gepa.candidate_selector.epsilon must be finite and between 0.0 and 1.0'',
        ensure (cs_k c \<noteq> Some 0) ''gepa.candidate_selector.k must be positive when set'']"

definition validate_gepa_batch_sampler_config :: "gepa_batch_sampler_config \<Rightarrow> unit result" where
  "validate_gepa_batch_sampler_config c =
     check_all
       [ensure (normalize_enum_value (bs_name c) \<in> set [''seeded_shuffle'', ''epoch_shuffled'', ''ordered_epoch'',
            ''sequential_epoch'', ''stratified'', ''stratified_by_field''])
          (''gepa.batch_sampler.name must be seeded_shuffle, epoch_shuffled, ordered_epoch, or stratified; got ''
           @ str_debug (bs_name c)),
        ensure (bs_epoch_width c \<noteq> Some 0) ''gepa.batch_sampler.epoch_width must be positive when set'',
        ensure (case bs_field c of None \<Rightarrow> True | Some f \<Rightarrow> \<not> blank f)
          ''gepa.batch_sampler.field must be non-empty when set'']"

definition validate_pool :: "string \<times> string list \<Rightarrow> unit result" where
  "validate_pool np =
     check_all
       [ensure (snd np \<noteq> []) (fst np @ '' must contain at least one task id''),
        ensure (list_all (\<lambda>v. \<not> blank v) (snd np)) (fst np @ '' entries must be non-empty'')]"

definition validate_gepa_task_pools_config :: "gepa_task_pools_config \<Rightarrow> unit result" where
  "validate_gepa_task_pools_config c =
     (let not_reflected = filter (\<lambda>v. v \<notin> set (tp_reflection c)) (bt_set (tp_minibatch c));
          overlaps = bt_set (filter (\<lambda>v. v \<in> set (tp_pareto c) \<or> v \<in> set (tp_minibatch c) \<or> v \<in> set (tp_reflection c))
                       (tp_heldout c))
      in check_all
        [check_all (map validate_pool
           [(''gepa.task_pools.pareto'', tp_pareto c), (''gepa.task_pools.minibatch'', tp_minibatch c),
            (''gepa.task_pools.reflection'', tp_reflection c), (''gepa.task_pools.heldout'', tp_heldout c)]),
         ensure (not_reflected = [])
           (''gepa.task_pools.minibatch must be a subset of gepa.task_pools.reflection; missing from reflection: ''
            @ debug_list not_reflected),
         ensure (overlaps = [])
           (''gepa.task_pools.heldout must be disjoint from pareto, minibatch, and reflection pools; overlaps: ''
            @ debug_set overlaps)])"

definition validate_task_pools_against_taskset ::
  "gepa_task_pools_config \<Rightarrow> string list \<Rightarrow> string list \<Rightarrow> unit result" where
  "validate_task_pools_against_taskset c train_ids heldout_ids =
     (let unknown_search = bt_set (filter (\<lambda>v. v \<notin> set train_ids) (tp_pareto c @ tp_minibatch c @ tp_reflection c));
          unknown_heldout = bt_set (filter (\<lambda>v. v \<notin> set heldout_ids) (tp_heldout c))
      in check_all
        [ensure (unknown_search = [])
           (''gepa.task_pools pareto/minibatch/reflection ids must come from taskset.train_ids; unknown: ''
            @ debug_list unknown_search),
         ensure (unknown_heldout = [])
           (''gepa.task_pools.heldout ids must come from taskset.heldout_ids; unknown: '' @ debug_list unknown_heldout)])"

fun staleness_policy_debug :: "gepa_staleness_policy \<Rightarrow> string" where
  "staleness_policy_debug StaleFull = ''Full''"
| "staleness_policy_debug StaleGuarded = ''Guarded''"
| "staleness_policy_debug StaleReflective = ''Reflective''"

definition validate_staleness :: "gepa_pipeline_mode \<Rightarrow> gepa_staleness_policy \<Rightarrow> unit result" where
  "validate_staleness mode policy =
     (case mode of
        SyncSerial \<Rightarrow> ensure (policy = StaleFull)
          (''gepa.pipeline.staleness_policy = '' @ staleness_policy_debug policy @ '' is incompatible with sync_serial; use full'')
      | AsyncPipelined \<Rightarrow> ensure (policy = StaleFull)
          (''gepa.pipeline.staleness_policy = '' @ staleness_policy_debug policy
           @ '' is reserved for flash_evolve; use full with async_pipelined'')
      | FlashEvolve \<Rightarrow> Inr ())"

definition validate_gepa_pipeline_config :: "gepa_pipeline_config \<Rightarrow> unit result" where
  "validate_gepa_pipeline_config c =
     (let w = pl_workers c; sx = pl_speculative_completion c; stage = pl_adaptive_stage_workers c;
          adaptive = pl_adaptive_rollout_concurrency c;
          conc = (\<lambda>m. ''gepa.pipeline.adaptive_rollout_concurrency.'' @ m);
          stg = (\<lambda>m. ''gepa.pipeline.adaptive_stage_workers.'' @ m)
      in check_all
        [validate_staleness (resolved_mode c) (pl_staleness_policy c),
         ensure (pl_max_in_flight_candidates c \<noteq> 0) ''gepa.pipeline.max_in_flight_candidates must be positive'',
         ensure (wk_propose w \<noteq> 0) ''gepa.pipeline.workers.propose must be positive'',
         ensure (wk_rollout w \<noteq> 0) ''gepa.pipeline.workers.rollout must be positive'',
         ensure (wk_evaluate w \<noteq> 0) ''gepa.pipeline.workers.evaluate must be positive'',
         ensure (sx_enabled sx \<longrightarrow> resolved_mode c = FlashEvolve)
           (''gepa.pipeline.speculative_completion requires mode = '' @ quoted ''flash_evolve''),
         ensure (sx_enabled sx \<longrightarrow> is_finite (sx_alpha sx) \<and> \<not> f64_le (sx_alpha sx) f64_zero
                   \<and> \<not> f64_lt (F64_Fin False 1) (sx_alpha sx))
           ''gepa.pipeline.speculative_completion.alpha must be in (0, 1]'',
         ensure (aw_min stage \<noteq> 0) (stg ''min must be positive''),
         ensure (\<not> aw_max stage < aw_min stage) (stg ''max must be >= min''),
         ensure (aw_backlog_threshold stage \<noteq> 0) (stg ''backlog_threshold must be positive''),
         ensure (ac_min adaptive \<noteq> 0) (conc ''min must be positive''),
         ensure (\<not> ac_max adaptive < ac_min adaptive) (conc ''max must be >= min''),
         ensure (\<not> (ac_initial adaptive < ac_min adaptive \<or> ac_max adaptive < ac_initial adaptive))
           (conc ''initial must be between min and max''),
         ensure (ac_increase_step adaptive \<noteq> 0) (conc ''increase_step must be positive''),
         ensure (ac_decrease_step adaptive \<noteq> 0) (conc ''decrease_step must be positive''),
         ensure (ac_increase_after_successes adaptive \<noteq> 0) (conc ''increase_after_successes must be positive'')])"

definition validate_gepa_search_pipeline_contract :: "usize \<Rightarrow> gepa_pipeline_config \<Rightarrow> unit result" where
  "validate_gepa_search_pipeline_contract proposals_per_generation c =
     ensure (\<not> (1 < proposals_per_generation \<and> \<not> mode_is_explicit c \<and> resolved_mode c = SyncSerial))
       (''gepa.proposals_per_generation > 1 with implicit SyncSerial is invalid; set [gepa.pipeline] mode = ''
        @ quoted ''async_pipelined'' @ '' (recommended) or mode = '' @ quoted ''sync_serial'' @ '' explicitly'')"

definition validate_gepa_deployment_rule :: "string \<Rightarrow> unit result" where
  "validate_gepa_deployment_rule rule =
     (let r = normalize_enum_value rule
      in ensure (r \<in> set [''optimization_selected'', ''heldout_best''])
           (''gepa.deployment_rule must be optimization_selected or heldout_best; got '' @ str_debug r))"

definition validate_gepa_leakage_config :: "gepa_leakage_config \<Rightarrow> unit result" where
  "validate_gepa_leakage_config c =
     (let p = to_ascii_lowercase (trim (lk_policy c))
      in check_all
        [ensure (p \<in> set [''forbid'', ''warn'', ''allow''])
           (''gepa.leakage.policy must be forbid, warn, or allow; got '' @ str_debug p),
         ensure (lk_min_span_chars c \<noteq> 0) ''gepa.leakage.min_span_chars must be positive''])"

subsection \<open>The policy section\<close>

definition credential_shaped :: "string \<Rightarrow> bool" where
  "credential_shaped key =
     (let k = normalize_enum_value key
      in str_contains k ''api_key'' \<or> str_contains k ''authorization'' \<or> k = ''token'' \<or> ends_with k ''_token'')"

definition ensure_one_of :: "string \<Rightarrow> string \<Rightarrow> string \<Rightarrow> string list \<Rightarrow> unit result" where
  "ensure_one_of name expected v allowed =
     ensure (normalize_enum_value v \<in> set allowed) (name @ '' must be '' @ expected @ ''; got '' @ str_debug v)"

definition validate_policy_config :: "policy_config \<Rightarrow> unit result" where
  "validate_policy_config c =
     (if \<not> po_enabled c then Inr () else check_all
       [ensure (\<not> blank (po_provider c)) ''policy.provider must be non-empty'',
        ensure (\<not> blank (po_model c)) ''policy.model must be non-empty'',
        (case po_policy_type c of None \<Rightarrow> Inr ()
         | Some t \<Rightarrow> ensure_one_of ''policy.policy_type'' ''dag, react, or codex'' t [''dag'', ''react'', ''codex'']),
        validate_positive_option ''policy.max_tokens'' (po_max_tokens c),
        ensure_one_of ''policy.api_family'' ''chat_completions or responses'' (po_api_family c)
          [''chat_completions'', ''responses''],
        ensure_one_of ''policy.disable_reasoning'' ''auto, on, or off'' (po_disable_reasoning c)
          [''auto'', ''on'', ''off'', ''true'', ''false'', ''1'', ''0''],
        ensure_one_of ''policy.tool_call_style'' ''openai_chat, openai_responses, codex_session_native, or none''
          (po_tool_call_style c) [''openai_chat'', ''openai_responses'', ''codex_session_native'', ''none''],
        ensure_one_of ''policy.proxy_mode'' ''proxy_only or assert_proxy'' (po_proxy_mode c)
          [''proxy_only'', ''assert_proxy''],
        ensure_one_of ''policy.credential_mode'' ''byok or proxy'' (po_credential_mode c) [''byok'', ''proxy''],
        ensure (normalize_enum_value (po_credential_mode c) = ''proxy'' \<longrightarrow>
                (case po_inference_url c of None \<Rightarrow> False | Some u \<Rightarrow> \<not> blank u))
          ''policy.inference_url must be set when policy.credential_mode is proxy'',
        (case find credential_shaped (map fst (po_config c)) of None \<Rightarrow> Inr ()
         | Some key \<Rightarrow> Inl (Config (''policy.config must not contain credential-shaped key '' @ str_debug key)))])"

subsection \<open>configured_limits.rs\<close>

definition gepa_cost_limit_usd :: "gepa_config \<Rightarrow> f64 option" where
  "gepa_cost_limit_usd g = (if f64_lt f64_zero (gc_max_cost_usd g) then Some (gc_max_cost_usd g) else None)"

definition gepa_proposer_budget_estimate :: "gepa_config \<Rightarrow> u64 \<Rightarrow> budget_estimate" where
  "gepa_proposer_budget_estimate g timeout_seconds =
     \<lparr>es_max_cost_usd = gc_proposer_estimated_cost_usd g, es_max_prompt_tokens = gc_proposer_estimated_prompt_tokens g,
      es_max_completion_tokens = gc_proposer_estimated_completion_tokens g,
      es_max_total_tokens = gc_proposer_estimated_total_tokens g, es_max_rollouts = None,
      es_max_wall_seconds = Some timeout_seconds\<rparr>"

definition gepa_rollout_budget_estimate :: "gepa_config \<Rightarrow> budget_estimate" where
  "gepa_rollout_budget_estimate g =
     \<lparr>es_max_cost_usd = gc_rollout_estimated_cost_usd g, es_max_prompt_tokens = gc_rollout_estimated_prompt_tokens g,
      es_max_completion_tokens = gc_rollout_estimated_completion_tokens g,
      es_max_total_tokens = gc_rollout_estimated_total_tokens g, es_max_rollouts = Some 1,
      es_max_wall_seconds = gc_rollout_estimated_wall_seconds g\<rparr>"

record configured_gepa_run_limits =
  cl_max_total_rollouts :: "u64 option"
  cl_max_cost_usd :: "f64 option"
  cl_max_time_seconds :: "u64 option"
  cl_max_prompt_tokens :: "u64 option"
  cl_max_completion_tokens :: "u64 option"
  cl_max_total_tokens :: "u64 option"
  cl_hard_limit :: bool
  cl_stop_policy :: string
  cl_proposer_estimate :: budget_estimate
  cl_rollout_estimate :: budget_estimate

definition configured_limits_from_config :: "synth_optimizer_config \<Rightarrow> configured_gepa_run_limits" where
  "configured_limits_from_config c =
     (let g = so_gepa c in
      \<lparr>cl_max_total_rollouts = Some (effective_max_total_rollouts g), cl_max_cost_usd = gepa_cost_limit_usd g,
       cl_max_time_seconds = gc_max_time_seconds g, cl_max_prompt_tokens = gc_max_prompt_tokens g,
       cl_max_completion_tokens = gc_max_completion_tokens g, cl_max_total_tokens = gc_max_total_tokens g,
       cl_hard_limit = True, cl_stop_policy = ''graceful_finish_generation'',
       cl_proposer_estimate = gepa_proposer_budget_estimate g (so_proposer_timeout_seconds c),
       cl_rollout_estimate = gepa_rollout_budget_estimate g\<rparr>)"

text \<open>\<open>RunLimitPolicy::to_run_limits_record\<close> of the configured limits.\<close>

definition to_run_limits_record ::
  "timestamp \<Rightarrow> configured_gepa_run_limits \<Rightarrow> run_ident \<Rightarrow> json_map \<Rightarrow> run_limits_record" where
  "to_run_limits_record now l run_id metadata =
     run_limits_from_input now
       \<lparr>rli_run_id = run_id, rli_max_total_rollouts = cl_max_total_rollouts l, rli_max_cost_usd = cl_max_cost_usd l,
        rli_max_time_seconds = cl_max_time_seconds l, rli_max_prompt_tokens = cl_max_prompt_tokens l,
        rli_max_completion_tokens = cl_max_completion_tokens l, rli_max_total_tokens = cl_max_total_tokens l,
        rli_hard_limit = cl_hard_limit l, rli_stop_policy = cl_stop_policy l, rli_metadata = metadata\<rparr>"

definition require_positive :: "string \<Rightarrow> u64 option \<Rightarrow> unit result" where
  "require_positive name v =
     ensure (unwrap_or 0 v \<noteq> 0) (name @ '' is required and must be positive when the corresponding hard limit is set'')"

definition require_positive_f64 :: "string \<Rightarrow> f64 option \<Rightarrow> unit result" where
  "require_positive_f64 name v =
     ensure (case v of None \<Rightarrow> False | Some x \<Rightarrow> is_finite x \<and> f64_lt f64_zero x)
       (name @ '' is required and must be positive when the corresponding hard limit is set'')"

definition require_total_token_estimate :: "string \<Rightarrow> u64 option \<Rightarrow> u64 option \<Rightarrow> u64 option \<Rightarrow> unit result" where
  "require_total_token_estimate name tot prompt completion =
     ensure (0 < unwrap_or 0 tot \<or> 0 < unwrap_or 0 prompt + unwrap_or 0 completion)
       (name @ '' requires either a positive total token estimate or positive prompt/completion estimates when gepa.max_total_tokens is set'')"

definition validate_gepa_limit_config :: "gepa_config \<Rightarrow> unit result" where
  "validate_gepa_limit_config g =
     check_all
       [when_limited (gepa_cost_limit_usd g)
          (require_positive_f64 ''gepa.proposer_estimated_cost_usd'' (gc_proposer_estimated_cost_usd g)),
        when_limited (gepa_cost_limit_usd g)
          (require_positive_f64 ''gepa.rollout_estimated_cost_usd'' (gc_rollout_estimated_cost_usd g)),
        when_limited (gc_max_prompt_tokens g)
          (require_positive ''gepa.proposer_estimated_prompt_tokens'' (gc_proposer_estimated_prompt_tokens g)),
        when_limited (gc_max_prompt_tokens g)
          (require_positive ''gepa.rollout_estimated_prompt_tokens'' (gc_rollout_estimated_prompt_tokens g)),
        when_limited (gc_max_completion_tokens g)
          (require_positive ''gepa.proposer_estimated_completion_tokens'' (gc_proposer_estimated_completion_tokens g)),
        when_limited (gc_max_completion_tokens g)
          (require_positive ''gepa.rollout_estimated_completion_tokens'' (gc_rollout_estimated_completion_tokens g)),
        when_limited (gc_max_total_tokens g)
          (require_total_token_estimate ''gepa proposer token estimate'' (gc_proposer_estimated_total_tokens g)
             (gc_proposer_estimated_prompt_tokens g) (gc_proposer_estimated_completion_tokens g)),
        when_limited (gc_max_total_tokens g)
          (require_total_token_estimate ''gepa rollout token estimate'' (gc_rollout_estimated_total_tokens g)
             (gc_rollout_estimated_prompt_tokens g) (gc_rollout_estimated_completion_tokens g)),
        when_limited (gc_max_time_seconds g)
          (require_positive ''gepa.rollout_estimated_wall_seconds'' (gc_rollout_estimated_wall_seconds g))]"

subsection \<open>SynthOptimizerConfig::validate\<close>

definition validate_run_sections :: "synth_optimizer_config \<Rightarrow> unit result" where
  "validate_run_sections c =
     check_all
       [ensure (\<not> blank (so_run_id c)) ''run.run_id is required'',
        ensure (\<not> blank (unwrap_or [] (so_container_url c)) \<or>
                (case so_container_pool_id c of None \<Rightarrow> False | Some p \<Rightarrow> \<not> blank p))
          ''container.url or container.pool.pool_id is required'',
        ensure (ts_train_ids (so_taskset c) \<noteq> []) ''taskset.train_ids must contain at least one task id'',
        ensure (ts_heldout_ids (so_taskset c) \<noteq> []) ''taskset.heldout_ids must contain at least one task id'',
        ensure (list_all (\<lambda>m. \<not> blank m) (cn_target_modules (so_candidate c)))
          ''candidate.target_modules entries must be non-empty'']"

definition validate_gepa_scalars :: "gepa_config \<Rightarrow> unit result" where
  "validate_gepa_scalars g =
     check_all
       [ensure (gc_minibatch_size g \<noteq> 0) ''gepa.minibatch_size must be positive'',
        ensure (gc_max_total_rollouts g \<noteq> 0) ''gepa.max_total_rollouts must be positive'',
        ensure (gc_max_train_rollouts g \<noteq> Some 0) ''gepa.max_train_rollouts must be positive when set'',
        ensure (gc_max_heldout_rollouts g \<noteq> Some 0) ''gepa.max_heldout_rollouts must be positive when set'',
        ensure (to_ascii_lowercase (trim (gc_rollout_submission_mode g)) \<in> set [''sync'', ''async''])
          (''gepa.rollout_submission_mode must be sync or async, got '' @ str_debug (gc_rollout_submission_mode g)),
        ensure (gc_rollout_poll_interval_ms g \<noteq> 0) ''gepa.rollout_poll_interval_ms must be positive'',
        ensure (gc_rollout_async_timeout_seconds g \<noteq> 0) ''gepa.rollout_async_timeout_seconds must be positive'',
        ensure (in_unit_interval (gc_rollout_failure_rate_tolerance g))
          ''gepa.rollout_failure_rate_tolerance must be between 0.0 and 1.0'',
        ensure (normalize_enum_value (gc_frontier_type g) \<in> set [''per_example'', ''per_objective'', ''per_example_objective''])
          (''gepa.frontier_type must be per_example, per_objective, or per_example_objective, got ''
           @ str_debug (gc_frontier_type g)),
        ensure (case gc_selection_objective g of None \<Rightarrow> True | Some s \<Rightarrow> \<not> blank s)
          ''gepa.selection_objective must be non-empty when set'',
        ensure (list_all (\<lambda>k. \<not> blank k) (gc_objective_keys g)) ''gepa.objective_keys entries must be non-empty'',
        check_all (concat (map (\<lambda>(k, d).
          [ensure (\<not> blank k) ''gepa.objective_directions keys must be non-empty'',
           validate_gepa_objective_direction ''gepa.objective_directions'' d]) (gc_objective_directions g))),
        ensure (is_finite (gc_minibatch_accept_margin g) \<and> \<not> f64_lt (gc_minibatch_accept_margin g) f64_zero)
          ''gepa.minibatch_accept_margin must be finite and non-negative'',
        validate_gepa_acceptance_criterion (gc_acceptance_criterion g),
        validate_gepa_acceptance_criterion (gc_minibatch_acceptance_criterion g)]"

definition validate_policy_delivery :: "synth_optimizer_config \<Rightarrow> unit result" where
  "validate_policy_delivery c =
     check_all
       [validate_policy_config (so_policy c),
        ensure (po_enabled (so_policy c) \<longrightarrow> cn_target_modules (so_candidate c) \<noteq> [])
          ''GEPA policy runs require candidate.target_modules so prompt delivery assertions can be bound to candidate fields'',
        ensure (po_enabled (so_policy c) \<longrightarrow> normalize_enum_value (po_proxy_mode (so_policy c)) \<noteq> ''allow_direct'')
          (''policy.proxy_mode = '' @ quoted ''allow_direct'' @
           '' is forbidden for GEPA policy runs; use proxy_only or assert_proxy so candidate prompts are applied through the inference proxy'')]"

definition validate_gepa_estimates :: "gepa_config \<Rightarrow> unit result" where
  "validate_gepa_estimates g =
     check_all
       [ensure (is_finite (gc_max_cost_usd g) \<and> \<not> f64_lt (gc_max_cost_usd g) f64_zero)
          ''gepa.max_cost_usd must be finite and non-negative'',
        validate_positive_option ''gepa.max_time_seconds'' (gc_max_time_seconds g),
        validate_positive_option ''gepa.max_prompt_tokens'' (gc_max_prompt_tokens g),
        validate_positive_option ''gepa.max_completion_tokens'' (gc_max_completion_tokens g),
        validate_positive_option ''gepa.max_total_tokens'' (gc_max_total_tokens g),
        validate_positive_f64_option ''gepa.proposer_estimated_cost_usd'' (gc_proposer_estimated_cost_usd g),
        validate_positive_f64_option ''gepa.rollout_estimated_cost_usd'' (gc_rollout_estimated_cost_usd g),
        validate_positive_option ''gepa.proposer_estimated_prompt_tokens'' (gc_proposer_estimated_prompt_tokens g),
        validate_positive_option ''gepa.proposer_estimated_completion_tokens'' (gc_proposer_estimated_completion_tokens g),
        validate_positive_option ''gepa.proposer_estimated_total_tokens'' (gc_proposer_estimated_total_tokens g),
        validate_positive_option ''gepa.rollout_estimated_prompt_tokens'' (gc_rollout_estimated_prompt_tokens g),
        validate_positive_option ''gepa.rollout_estimated_completion_tokens'' (gc_rollout_estimated_completion_tokens g),
        validate_positive_option ''gepa.rollout_estimated_total_tokens'' (gc_rollout_estimated_total_tokens g),
        validate_positive_option ''gepa.rollout_estimated_wall_seconds'' (gc_rollout_estimated_wall_seconds g),
        ensure (gc_rollout_chunk_size g \<noteq> Some 0) ''gepa.rollout_chunk_size must be positive'']"

definition validate_search_sections :: "synth_optimizer_config \<Rightarrow> unit result" where
  "validate_search_sections c =
     (let g = so_gepa c in
      check_all
       [validate_run_sections c, validate_gepa_scalars g, validate_policy_delivery c,
        validate_gepa_objective_acceptance_config (gc_objective_acceptance g),
        validate_gepa_candidate_selector_config (gc_candidate_selector g),
        validate_gepa_batch_sampler_config (gc_batch_sampler g),
        validate_gepa_task_pools_config (gc_task_pools g),
        validate_task_pools_against_taskset (gc_task_pools g) (ts_train_ids (so_taskset c)) (ts_heldout_ids (so_taskset c)),
        validate_gepa_pipeline_config (gc_pipeline g),
        validate_gepa_search_pipeline_contract (gc_proposals_per_generation g) (gc_pipeline g),
        validate_gepa_deployment_rule (gc_deployment_rule g), validate_gepa_leakage_config (gc_leakage g),
        validate_gepa_estimates g, validate_gepa_limit_config g])"

subsection \<open>What a valid configuration guarantees\<close>

lemma ensure_ok_iff [simp]: "ensure p m = Inr () \<longleftrightarrow> p"
  by (simp add: ensure_def)

lemma check_all_Cons_ok: "check_all (c # cs) = Inr () \<longleftrightarrow> c = Inr () \<and> check_all cs = Inr ()"
  by (cases c) auto

lemma validate_positive_option_ok [simp]: "validate_positive_option n v = Inr () \<longleftrightarrow> v \<noteq> Some 0"
  by (simp add: validate_positive_option_def)

lemma require_positive_ok [simp]: "require_positive n v = Inr () \<longleftrightarrow> (\<exists>x. v = Some x \<and> x \<noteq> 0)"
  by (cases v) (simp_all add: require_positive_def)

lemma require_positive_f64_ok [simp]:
  "require_positive_f64 n v = Inr () \<longleftrightarrow> (\<exists>x. v = Some x \<and> is_finite x \<and> f64_lt f64_zero x)"
  by (cases v) (simp_all add: require_positive_f64_def)

lemma search_sections_ok:
  assumes "validate_search_sections c = Inr ()"
  shows "validate_run_sections c = Inr ()" "validate_gepa_scalars (so_gepa c) = Inr ()"
    "validate_gepa_task_pools_config (gc_task_pools (so_gepa c)) = Inr ()"
    "validate_task_pools_against_taskset (gc_task_pools (so_gepa c)) (ts_train_ids (so_taskset c))
       (ts_heldout_ids (so_taskset c)) = Inr ()"
    "validate_gepa_pipeline_config (gc_pipeline (so_gepa c)) = Inr ()"
    "validate_gepa_estimates (so_gepa c) = Inr ()" "validate_gepa_limit_config (so_gepa c) = Inr ()"
    "validate_gepa_candidate_selector_config (gc_candidate_selector (so_gepa c)) = Inr ()"
    "validate_gepa_batch_sampler_config (gc_batch_sampler (so_gepa c)) = Inr ()"
    "validate_gepa_leakage_config (gc_leakage (so_gepa c)) = Inr ()"
  using assms unfolding validate_search_sections_def Let_def check_all_Cons_ok by simp_all

definition sample_pools :: gepa_task_pools_config where
  "sample_pools = \<lparr>tp_pareto = [''t1'', ''t2''], tp_minibatch = [''t1''], tp_reflection = [''t1'', ''t2''], tp_heldout = [''h1'']\<rparr>"

definition sample_policy :: policy_config where
  "sample_policy =
     \<lparr>po_enabled = True, po_provider = ''openai'', po_model = ''gpt-4.1-nano'', po_policy_type = None,
      po_api_family = ''chat_completions'', po_base_url = None, po_inference_url = None, po_max_tokens = None,
      po_disable_reasoning = ''auto'', po_tool_call_style = ''none'', po_proxy_mode = ''proxy_only'',
      po_credential_mode = ''byok'', po_api_key_env = None, po_config = []\<rparr>"

definition sample_config :: "gepa_config \<Rightarrow> synth_optimizer_config" where
  "sample_config g =
     \<lparr>so_run_id = ''run'', so_container_url = Some ''http://localhost'', so_container_pool_id = None,
      so_taskset = \<lparr>ts_train_split = ''train'', ts_heldout_split = ''test'', ts_train_ids = [''t1'', ''t2''],
                    ts_heldout_ids = [''h1''], ts_filters = []\<rparr>,
      so_candidate = \<lparr>cn_target_modules = [''system''], cn_candidate_id_prefix = None\<rparr>,
      so_policy = sample_policy, so_proposer_timeout_seconds = 600, so_gepa = g\<lparr>gc_task_pools := sample_pools\<rparr>\<rparr>"

definition token_limited :: "u64 option \<Rightarrow> gepa_config" where
  "token_limited completion =
     gepa_config_default\<lparr>gc_max_total_tokens := Some 1000,
       gc_proposer_estimated_total_tokens := Some 100, gc_rollout_estimated_prompt_tokens := Some 60,
       gc_rollout_estimated_completion_tokens := completion\<rparr>"

lemma sample_config_valid:
  "validate_search_sections (sample_config (token_limited (Some 30))) = Inr ()"
  "validate_search_sections (sample_config (token_limited None)) = Inr ()"
  by code_simp+

text \<open>
  C31. A configuration that passes validation never scores candidates on what it holds out: no task of
  the held-out pool is in the Pareto, minibatch or reflection pool, every minibatch task is one the
  proposer reflects on, the search pools come from the training tasks, the held-out pool from the
  held-out tasks, and no pool is empty.
\<close>
theorem valid_config_separates_heldout:
  assumes "validate_search_sections c = Inr ()"
  defines "p \<equiv> gc_task_pools (so_gepa c)" and "t \<equiv> so_taskset c"
  shows "set (tp_heldout p) \<inter> (set (tp_pareto p) \<union> set (tp_minibatch p) \<union> set (tp_reflection p)) = {} \<and>
    set (tp_minibatch p) \<subseteq> set (tp_reflection p) \<and>
    set (tp_pareto p) \<union> set (tp_reflection p) \<subseteq> set (ts_train_ids t) \<and>
    set (tp_heldout p) \<subseteq> set (ts_heldout_ids t) \<and>
    tp_pareto p \<noteq> [] \<and> tp_minibatch p \<noteq> [] \<and> tp_heldout p \<noteq> []"
proof -
  have "validate_gepa_task_pools_config p = Inr ()"
    "validate_task_pools_against_taskset p (ts_train_ids t) (ts_heldout_ids t) = Inr ()"
    using search_sections_ok [OF assms(1)] by (simp_all add: p_def t_def)
  then show ?thesis
    unfolding validate_gepa_task_pools_config_def validate_task_pools_against_taskset_def validate_pool_def Let_def
      check_all_Cons_ok ensure_ok_iff bt_set_Nil_iff filter_empty_conv list.map fst_conv snd_conv set_bt_set
    by auto
qed

theorem valid_config_separates_heldout_witness:
  "let p = gc_task_pools (so_gepa (sample_config gepa_config_default))
   in set (tp_heldout p) \<inter> (set (tp_pareto p) \<union> set (tp_minibatch p) \<union> set (tp_reflection p)) = {} \<and> tp_heldout p = [''h1'']"
  unfolding Let_def
  using valid_config_separates_heldout [OF sample_config_valid(1)]
  by (simp add: sample_config_def sample_pools_def)

lemma configured_limits_sel:
  "rl_max_cost_usd (to_run_limits_record now (configured_limits_from_config c) run_id md) =
     positive_f64 (gepa_cost_limit_usd (so_gepa c))"
  "rl_max_prompt_tokens (to_run_limits_record now (configured_limits_from_config c) run_id md) =
     gc_max_prompt_tokens (so_gepa c)"
  "rl_max_completion_tokens (to_run_limits_record now (configured_limits_from_config c) run_id md) =
     gc_max_completion_tokens (so_gepa c)"
  "rl_max_total_tokens (to_run_limits_record now (configured_limits_from_config c) run_id md) =
     gc_max_total_tokens (so_gepa c)"
  "rl_max_time_seconds (to_run_limits_record now (configured_limits_from_config c) run_id md) =
     gc_max_time_seconds (so_gepa c)"
  by (simp_all add: to_run_limits_record_def run_limits_from_input_def configured_limits_from_config_def Let_def)

lemma configured_estimate_sel:
  "es_max_cost_usd (cl_rollout_estimate (configured_limits_from_config c)) = gc_rollout_estimated_cost_usd (so_gepa c)"
  "es_max_prompt_tokens (cl_rollout_estimate (configured_limits_from_config c)) = gc_rollout_estimated_prompt_tokens (so_gepa c)"
  "es_max_completion_tokens (cl_rollout_estimate (configured_limits_from_config c)) =
     gc_rollout_estimated_completion_tokens (so_gepa c)"
  "es_max_total_tokens (cl_rollout_estimate (configured_limits_from_config c)) = gc_rollout_estimated_total_tokens (so_gepa c)"
  "es_max_rollouts (cl_rollout_estimate (configured_limits_from_config c)) = Some 1"
  "es_max_wall_seconds (cl_rollout_estimate (configured_limits_from_config c)) = gc_rollout_estimated_wall_seconds (so_gepa c)"
  "es_max_cost_usd (cl_proposer_estimate (configured_limits_from_config c)) = gc_proposer_estimated_cost_usd (so_gepa c)"
  "es_max_prompt_tokens (cl_proposer_estimate (configured_limits_from_config c)) = gc_proposer_estimated_prompt_tokens (so_gepa c)"
  "es_max_completion_tokens (cl_proposer_estimate (configured_limits_from_config c)) =
     gc_proposer_estimated_completion_tokens (so_gepa c)"
  "es_max_total_tokens (cl_proposer_estimate (configured_limits_from_config c)) = gc_proposer_estimated_total_tokens (so_gepa c)"
  "es_max_wall_seconds (cl_proposer_estimate (configured_limits_from_config c)) = Some (so_proposer_timeout_seconds c)"
  by (simp_all add: configured_limits_from_config_def gepa_rollout_budget_estimate_def
      gepa_proposer_budget_estimate_def Let_def)

lemma estimated_total_positive:
  assumes "es_max_total_tokens e \<noteq> Some 0" "es_max_prompt_tokens e \<noteq> Some 0"
    and "es_max_total_tokens e \<noteq> None \<or> es_max_prompt_tokens e \<noteq> None \<and> es_max_completion_tokens e \<noteq> None"
  shows "\<exists>x. estimated_total e = Some x \<and> 0 < x"
proof -
  have "p \<noteq> 0 \<Longrightarrow> 0 < saturating_add p q" for p q :: u64
    unfolding word_less_nat_alt by (simp add: sat_simps unat_gt_0)
  with assms show ?thesis
    by (cases "es_max_total_tokens e") (auto simp: estimated_total_def word_gt_0)
qed



text \<open>
  Validation accepts a total-token limit with an estimate of prompt tokens alone, and then no
  rollout can ever be planned: the check of the estimate asks for both prompt and completion tokens
  before it takes their sum for the total.
\<close>
theorem valid_config_unusable_estimate:
  "validate_search_sections (sample_config (token_limited None)) = Inr () \<and>
   (let l = configured_limits_from_config (sample_config (token_limited None))
    in validate_for_limits ''run'' ''container_rollout'' (to_run_limits_record now l ''run'' md) (cl_rollout_estimate l) =
       Inl (estimate_error ''run'' ''container_rollout'' ''max_total_tokens''))"
proof
  show "validate_search_sections (sample_config (token_limited None)) = Inr ()"
    by (rule sample_config_valid)
  show "let l = configured_limits_from_config (sample_config (token_limited None))
    in validate_for_limits ''run'' ''container_rollout'' (to_run_limits_record now l ''run'' md) (cl_rollout_estimate l) =
       Inl (estimate_error ''run'' ''container_rollout'' ''max_total_tokens'')"
    by (simp add: Let_def validate_for_limits_def configured_limits_sel configured_estimate_sel sample_config_def
        token_limited_def gepa_config_default_def gepa_cost_limit_usd_def positive_f64_def when_limited_def
        estimated_total_def require_positive_u64_estimate_def)
qed

end
