(* ===== verification/Score_Vectors.thy ===== *)
theory Score_Vectors
  imports Optimizer_Error Btree_Map "HOL-Library.Product_Lexorder"
begin

text \<open>
  \<open>scores.rs\<close>: objectives, the scores a rollout reports for them, the vector of mean scores of a
  candidate and the Pareto comparison of two vectors; with the sensor frames of \<open>sensors.rs\<close> and the
  task identities of \<open>container_contract.rs\<close> they are built from.

  A digest of a trace and artifact references, which no modelled function inspects, are kept in
  their JSON form. The text of a JSON number is the one \<open>serde_json\<close> prints, that is
  \<open>to_json_string\<close> of the parameter record.
\<close>

subsection \<open>Records\<close>

record objective_score =
  os_objective :: string
  os_value :: f64
  os_source :: string
  os_rationale :: "string option"
  os_metadata :: json_map

record sensor_frame =
  sf_schema_version :: string
  sf_sensor_frame_id :: string
  sf_candidate_id :: string
  sf_rollout_id :: "string option"
  sf_example_id :: string
  sf_task_id :: string
  sf_split :: string
  sf_evaluation_stage :: string
  sf_reward :: f64
  sf_status :: string
  sf_success_status :: "string option"
  sf_objective_scores :: "objective_score list"
  sf_usage :: json
  sf_trace_digest :: "json option"
  sf_actionable_side_info :: "json option"
  sf_artifact_refs :: "json list"
  sf_failure :: "failure_payload option"
  sf_metadata :: json_map

record objective_spec =
  sp_schema_version :: string
  sp_objective_id :: string
  sp_name :: string
  sp_direction :: string
  sp_source :: string
  sp_aggregation :: string
  sp_split_policy :: string
  sp_metadata :: json_map

record objective_set_record =
  ob_schema_version :: string
  ob_objective_set_id :: string
  ob_objective_set_hash :: string
  ob_selection_objective :: string
  ob_frontier_type :: string
  ob_objectives :: "objective_spec list"
  ob_metadata :: json_map

record score_record =
  sc_schema_version :: string
  sc_score_id :: string
  sc_objective_id :: string
  sc_objective :: string
  sc_candidate_id :: string
  sc_sensor_frame_id :: string
  sc_rollout_id :: "string option"
  sc_example_id :: string
  sc_task_id :: string
  sc_split :: string
  sc_evaluation_stage :: string
  sc_source :: string
  sc_value :: f64
  sc_rationale :: "string option"
  sc_metadata :: json_map

record score_vector_record =
  sv_schema_version :: string
  sv_score_vector_id :: string
  sv_objective_set_id :: string
  sv_objective_set_hash :: string
  sv_candidate_id :: string
  sv_split :: string
  sv_evaluation_stage :: string
  sv_status :: string
  sv_selection_objective :: string
  sv_selection_score :: "f64 option"
  sv_mean_reward :: "f64 option"
  sv_score_count :: u64
  sv_objective_values :: json_map
  sv_covered_objectives :: "string list"
  sv_missing_objectives :: "string list"
  sv_example_ids :: "string list"
  sv_task_ids :: "string list"
  sv_metadata :: json_map

record pareto_comparison_record =
  pc_schema_version :: string
  pc_pareto_comparison_id :: string
  pc_objective_set_id :: string
  pc_objective_set_hash :: string
  pc_frontier_type :: string
  pc_split :: string
  pc_evaluation_stage :: string
  pc_challenger_candidate_id :: string
  pc_incumbent_candidate_id :: string
  pc_challenger_score_vector_id :: string
  pc_incumbent_score_vector_id :: string
  pc_result :: string
  pc_dominance :: json
  pc_rationale :: string
  pc_metadata :: json_map

record sensor_score_records =
  ss_objectives :: "objective_spec list"
  ss_scores :: "score_record list"

subsection \<open>container_contract.rs: task identities\<close>

definition identity_part :: "hashing \<Rightarrow> json option \<Rightarrow> string option" where
  "identity_part h v =
     (case v of
        Some (JStr s) \<Rightarrow> (let t = trim s in if t = [] then None else Some t)
      | Some (JNum n) \<Rightarrow> Some (to_json_string h (JNum n))
      | _ \<Rightarrow> None)"

fun task_identity :: "hashing \<Rightarrow> json \<Rightarrow> string result" where
  "task_identity h (JObj m) =
     (case List.map_filter (\<lambda>k. identity_part h (map_of m k))
             [''task_id'', ''task_instance_id'', ''example_id'', ''id''] of
        identity # _ \<Rightarrow> Inr identity
      | [] \<Rightarrow> Inl (Container ''task must include stable task_id''))"
| "task_identity h _ = Inl (Container ''task must be an object'')"

subsection \<open>Objective sets\<close>

text \<open>\<open>Vec::dedup_by\<close>: an element is dropped when it is the same as the last one kept.\<close>

fun dedup_by :: "('a \<Rightarrow> 'a \<Rightarrow> bool) \<Rightarrow> 'a list \<Rightarrow> 'a list" where
  "dedup_by same (x # y # zs) = (if same y x then dedup_by same (x # zs) else x # dedup_by same (y # zs))"
| "dedup_by same xs = xs"

definition objective_spec_json :: "objective_spec \<Rightarrow> json" where
  "objective_spec_json obj =
     JObj (obj_of
       [(''schema_version'', JStr (sp_schema_version obj)), (''objective_id'', JStr (sp_objective_id obj)),
        (''name'', JStr (sp_name obj)), (''direction'', JStr (sp_direction obj)), (''source'', JStr (sp_source obj)),
        (''aggregation'', JStr (sp_aggregation obj)), (''split_policy'', JStr (sp_split_policy obj)),
        (''metadata'', JObj (sp_metadata obj))])"

definition objective_set_from_specs ::
  "hashing \<Rightarrow> string \<Rightarrow> string \<Rightarrow> objective_spec list \<Rightarrow> json_map \<Rightarrow> objective_set_record" where
  "objective_set_from_specs h selection_objective frontier_type objectives metadata =
     (let objectives = dedup_by (\<lambda>l r. sp_name l = sp_name r \<and> sp_source l = sp_source r \<and> sp_direction l = sp_direction r)
            (sort_key (\<lambda>obj. (sp_name obj, sp_source obj, sp_objective_id obj)) objectives);
          set_hash = stable_value_hash h (JObj (obj_of
            [(''schema_version'', JStr ''objective_set_identity.v1''),
             (''selection_objective'', JStr selection_objective), (''frontier_type'', JStr frontier_type),
             (''objectives'', JArr (map objective_spec_json objectives))]))
      in \<lparr>ob_schema_version = ''objective_set.v1'', ob_objective_set_id = ''objective_set_'' @ take 16 set_hash,
          ob_objective_set_hash = set_hash, ob_selection_objective = selection_objective,
          ob_frontier_type = frontier_type, ob_objectives = objectives, ob_metadata = metadata\<rparr>)"

definition objective_spec_from_score :: "hashing \<Rightarrow> objective_score \<Rightarrow> objective_spec" where
  "objective_spec_from_score h s =
     \<lparr>sp_schema_version = ''objective_spec.v1'',
      sp_objective_id = stable_id h ''objective'' [os_objective s, os_source s],
      sp_name = os_objective s, sp_direction = ''maximize'', sp_source = os_source s,
      sp_aggregation = ''mean'', sp_split_policy = ''per_split_then_overall'', sp_metadata = os_metadata s\<rparr>"

definition score_record_from_sensor_frame ::
  "hashing \<Rightarrow> sensor_frame \<Rightarrow> objective_spec \<Rightarrow> objective_score \<Rightarrow> score_record" where
  "score_record_from_sensor_frame h frame obj s =
     \<lparr>sc_schema_version = ''score_record.v1'',
      sc_score_id = stable_id h ''score''
        [sf_candidate_id frame, sf_sensor_frame_id frame, sp_objective_id obj, os_source s],
      sc_objective_id = sp_objective_id obj, sc_objective = os_objective s,
      sc_candidate_id = sf_candidate_id frame, sc_sensor_frame_id = sf_sensor_frame_id frame,
      sc_rollout_id = sf_rollout_id frame, sc_example_id = sf_example_id frame, sc_task_id = sf_task_id frame,
      sc_split = sf_split frame, sc_evaluation_stage = sf_evaluation_stage frame, sc_source = os_source s,
      sc_value = os_value s, sc_rationale = os_rationale s, sc_metadata = os_metadata s\<rparr>"

definition sensor_score_records_from_frame :: "hashing \<Rightarrow> sensor_frame \<Rightarrow> sensor_score_records" where
  "sensor_score_records_from_frame h frame =
     (let objective_scores =
            (if sf_objective_scores frame = []
             then [\<lparr>os_objective = ''outcome_reward'', os_value = sf_reward frame,
                     os_source = ''sensor_frame.reward'', os_rationale = None, os_metadata = []\<rparr>]
             else sf_objective_scores frame);
          specs = map (objective_spec_from_score h) objective_scores;
          push = (\<lambda>obj os. if \<exists>e\<in>set os. sp_objective_id e = sp_objective_id obj then os else os @ [obj])
      in \<lparr>ss_objectives = fold push specs [],
          ss_scores = map2 (score_record_from_sensor_frame h frame) specs objective_scores\<rparr>)"

subsection \<open>Score vectors\<close>

definition score_totals :: "score_record list \<Rightarrow> (string \<times> f64 \<times> u64) list" where
  "score_totals scores =
     fold (\<lambda>s. bt_entry (sc_objective s) (f64_zero, 0) (\<lambda>(t, c). (f64_add t (sc_value s), c + 1))) scores []"

definition score_means :: "score_record list \<Rightarrow> json_map" where
  "score_means scores =
     map (\<lambda>(objective, t, c). (objective, json_f64 (f64_div t (f64_of_nat (unat c)))))
       (filter (\<lambda>(_, _, c). 0 < c) (score_totals scores))"

definition score_vector_from_scores ::
  "hashing \<Rightarrow> objective_set_record \<Rightarrow> string \<Rightarrow> string \<Rightarrow> string \<Rightarrow> score_record list \<Rightarrow> json_map \<Rightarrow> score_vector_record" where
  "score_vector_from_scores h oset candidate_id split stage scores metadata =
     (let objective_values = score_means scores;
          declared = bt_set (map sp_name (ob_objectives oset));
          covered = filter (\<lambda>obj. map_of objective_values obj \<noteq> None) declared;
          missing = filter (\<lambda>obj. map_of objective_values obj = None) declared;
          selection_score = Option.bind (map_of objective_values (ob_selection_objective oset)) as_f64
      in \<lparr>sv_schema_version = ''score_vector.v1'',
          sv_score_vector_id = stable_id h ''scorevector''
            [ob_objective_set_id oset, candidate_id, split, stage],
          sv_objective_set_id = ob_objective_set_id oset, sv_objective_set_hash = ob_objective_set_hash oset,
          sv_candidate_id = candidate_id, sv_split = split, sv_evaluation_stage = stage,
          sv_status = (if scores = [] then ''empty'' else if missing = [] then ''complete'' else ''partial''),
          sv_selection_objective = ob_selection_objective oset, sv_selection_score = selection_score,
          sv_mean_reward = or_else (Option.bind (map_of objective_values ''outcome_reward'') as_f64) selection_score,
          sv_score_count = of_nat (length scores), sv_objective_values = objective_values,
          sv_covered_objectives = covered, sv_missing_objectives = missing,
          sv_example_ids = bt_set (map sc_example_id scores), sv_task_ids = bt_set (map sc_task_id scores),
          sv_metadata = metadata\<rparr>)"

definition objective_value :: "score_vector_record \<Rightarrow> string \<Rightarrow> f64 option" where
  "objective_value v objective = Option.bind (map_of (sv_objective_values v) objective) as_f64"

subsection \<open>Pareto comparison\<close>

definition f64_epsilon :: f64 where
  "f64_epsilon = F64_Fin False (1 / 4503599627370496)"

definition objective_direction :: "string \<Rightarrow> f64" where
  "objective_direction direction =
     (if to_ascii_lowercase (trim direction) \<in> set [''min'', ''minimize'', ''lower'', ''lower_is_better'', ''down'']
      then F64_Fin True 1 else F64_Fin False 1)"

datatype objective_verdict = Better | Worse | Equal | Missing

definition compare_objective :: "score_vector_record \<Rightarrow> score_vector_record \<Rightarrow> objective_spec \<Rightarrow> objective_verdict" where
  "compare_objective challenger incumbent obj =
     (case (objective_value challenger (sp_name obj), objective_value incumbent (sp_name obj)) of
        (Some left, Some right) \<Rightarrow>
          (let delta = f64_mul (f64_sub left right) (objective_direction (sp_direction obj))
           in if f64_lt f64_epsilon delta then Better
              else if f64_lt delta (f64_neg f64_epsilon) then Worse else Equal)
      | _ \<Rightarrow> Missing)"

definition comparison_result :: "objective_verdict list \<Rightarrow> string" where
  "comparison_result vs =
     (let better = Better \<in> set vs; worse = Worse \<in> set vs; equal = Equal \<in> set vs
      in if \<not> better \<and> \<not> worse \<and> equal then ''tie''
         else if better \<and> \<not> worse then ''challenger_dominates''
         else if \<not> better \<and> worse then ''incumbent_dominates''
         else if better \<and> worse then ''mixed'' else ''incomparable'')"

definition comparison_rationale :: "string \<Rightarrow> string" where
  "comparison_rationale r =
     (if r = ''challenger_dominates''
      then ''challenger is at least as good on all comparable objectives and better on at least one''
      else if r = ''incumbent_dominates''
      then ''incumbent is at least as good on all comparable objectives and better on at least one''
      else if r = ''tie'' then ''challenger and incumbent tie on comparable objectives''
      else if r = ''mixed'' then ''challenger improves some objectives and regresses others''
      else ''comparison has no comparable objective values'')"

definition json_f64_opt :: "f64 option \<Rightarrow> json" where
  "json_f64_opt x = (case x of None \<Rightarrow> JNull | Some v \<Rightarrow> json_f64 v)"

definition pareto_comparison_from_vectors ::
  "hashing \<Rightarrow> objective_set_record \<Rightarrow> string \<Rightarrow> string \<Rightarrow> string \<Rightarrow> score_vector_record \<Rightarrow> score_vector_record \<Rightarrow>
   json_map \<Rightarrow> pareto_comparison_record" where
  "pareto_comparison_from_vectors h oset frontier_type split stage challenger incumbent metadata =
     (let verdict = compare_objective challenger incumbent;
          names = (\<lambda>v. map sp_name (filter (\<lambda>obj. verdict obj = v) (ob_objectives oset)));
          result = comparison_result (map verdict (ob_objectives oset))
      in \<lparr>pc_schema_version = ''pareto_comparison.v1'',
          pc_pareto_comparison_id = stable_id h ''pareto''
            [ob_objective_set_id oset, frontier_type, split, stage, sv_candidate_id challenger, sv_candidate_id incumbent],
          pc_objective_set_id = ob_objective_set_id oset, pc_objective_set_hash = ob_objective_set_hash oset,
          pc_frontier_type = frontier_type, pc_split = split, pc_evaluation_stage = stage,
          pc_challenger_candidate_id = sv_candidate_id challenger,
          pc_incumbent_candidate_id = sv_candidate_id incumbent,
          pc_challenger_score_vector_id = sv_score_vector_id challenger,
          pc_incumbent_score_vector_id = sv_score_vector_id incumbent,
          pc_result = result,
          pc_dominance = JObj (obj_of
            [(''better_objectives'', json_strs (names Better)), (''worse_objectives'', json_strs (names Worse)),
             (''equal_objectives'', json_strs (names Equal)), (''missing_objectives'', json_strs (names Missing)),
             (''challenger_selection_score'', json_f64_opt (sv_selection_score challenger)),
             (''incumbent_selection_score'', json_f64_opt (sv_selection_score incumbent))]),
          pc_rationale = comparison_rationale result, pc_metadata = metadata\<rparr>)"

subsection \<open>The comparison is antisymmetric\<close>

lemma objective_direction_cases:
  "objective_direction d = F64_Fin True 1 \<or> objective_direction d = F64_Fin False 1"
  by (simp add: objective_direction_def)

lemma zero_within_epsilon:
  "\<not> f64_lt f64_epsilon (f64_mul (F64_Fin s 0) (F64_Fin t 1))"
  "\<not> f64_lt (f64_mul (F64_Fin s 0) (F64_Fin t 1)) (f64_neg f64_epsilon)"
  by (simp_all add: f64_epsilon_def f64_round_def)

text \<open>What is an improvement in one direction is a regression of the same size in the other.\<close>

lemma delta_swap:
  "f64_lt f64_epsilon (f64_mul (f64_sub x y) (objective_direction d)) \<longleftrightarrow>
   f64_lt (f64_mul (f64_sub y x) (objective_direction d)) (f64_neg f64_epsilon)"
proof (cases "f64_sub y x = f64_neg (f64_sub x y)")
  case True
  then show ?thesis
    by (simp add: f64_mul_neg)
next
  case False
  then obtain s t where "f64_sub y x = F64_Fin s 0" "f64_sub x y = F64_Fin t 0"
    using f64_sub_swap by blast
  then show ?thesis
    using objective_direction_cases [of d] zero_within_epsilon by metis
qed

fun swap_verdict :: "objective_verdict \<Rightarrow> objective_verdict" where
  "swap_verdict Better = Worse"
| "swap_verdict Worse = Better"
| "swap_verdict v = v"

lemma f64_lt_epsilon_exclusive: "f64_lt f64_epsilon x \<Longrightarrow> \<not> f64_lt x (f64_neg f64_epsilon)"
  by (cases x) (auto simp: f64_epsilon_def f64_lt_def)

lemma compare_objective_swap: "compare_objective v w obj = swap_verdict (compare_objective w v obj)"
  using delta_swap f64_lt_epsilon_exclusive
  by (auto simp: compare_objective_def Let_def split: option.splits)

definition swap_result :: "string \<Rightarrow> string" where
  "swap_result r = (if r = ''challenger_dominates'' then ''incumbent_dominates''
     else if r = ''incumbent_dominates'' then ''challenger_dominates'' else r)"

lemma swap_verdict_in_set:
  "Better \<in> swap_verdict ` V \<longleftrightarrow> Worse \<in> V" "Worse \<in> swap_verdict ` V \<longleftrightarrow> Better \<in> V"
  "Equal \<in> swap_verdict ` V \<longleftrightarrow> Equal \<in> V"
proof -
  have inv: "swap_verdict (swap_verdict x) = x" for x
    by (cases x) simp_all
  then have "v \<in> swap_verdict ` V \<longleftrightarrow> swap_verdict v \<in> V" for v
    by (metis image_iff)
  then show "Better \<in> swap_verdict ` V \<longleftrightarrow> Worse \<in> V" "Worse \<in> swap_verdict ` V \<longleftrightarrow> Better \<in> V"
    "Equal \<in> swap_verdict ` V \<longleftrightarrow> Equal \<in> V"
    by simp_all
qed

lemma comparison_result_swap: "comparison_result (map swap_verdict vs) = swap_result (comparison_result vs)"
  by (simp add: comparison_result_def swap_result_def swap_verdict_in_set Let_def)

text \<open>
  A Pareto comparison does not depend on who is called the challenger: with the two score vectors
  exchanged, domination changes sides and tie, mixed and incomparable stay, for every pair of
  vectors, infinite and undefined scores included.
\<close>
theorem comparison_antisymmetric:
  "pc_result (pareto_comparison_from_vectors h oset ft split stage v w md) =
   swap_result (pc_result (pareto_comparison_from_vectors h oset ft split stage w v md))"
proof -
  have "map (compare_objective v w) (ob_objectives oset) =
      map swap_verdict (map (compare_objective w v) (ob_objectives oset))"
    by (simp add: compare_objective_swap [of v w])
  then show ?thesis
    by (simp only: pareto_comparison_from_vectors_def Let_def pareto_comparison_record.select_convs
        comparison_result_swap)
qed

subsection \<open>A score vector holds the mean of every objective\<close>

definition values_of :: "string \<Rightarrow> score_record list \<Rightarrow> f64 list" where
  "values_of objective scores = map sc_value (filter (\<lambda>s. sc_objective s = objective) scores)"

lemma map_of_score_totals_fold:
  "map_of (fold (\<lambda>s. bt_entry (sc_objective s) (f64_zero, 0 :: u64) (\<lambda>(t, c). (f64_add t (sc_value s), c + 1))) scores m) objective =
   (case unwrap_or (f64_zero, 0) (map_of m objective) of (t, c) \<Rightarrow>
      if values_of objective scores = [] then map_of m objective
      else Some (foldl f64_add t (values_of objective scores), c + of_nat (length (values_of objective scores))))"
proof (induction scores arbitrary: m)
  case (Cons s scores)
  show ?case
    by (cases "unwrap_or (f64_zero, 0) (map_of m objective)")
       (auto simp: Cons.IH values_of_def add.assoc split: prod.split)
qed (simp add: values_of_def split: prod.split)

lemma map_of_score_totals:
  "map_of (score_totals scores) objective =
   (if values_of objective scores = [] then None
    else Some (foldl f64_add f64_zero (values_of objective scores), of_nat (length (values_of objective scores))))"
  by (simp add: score_totals_def map_of_score_totals_fold)

lemma bt_wf_score_totals: "bt_wf (score_totals scores)"
proof -
  have "bt_wf m \<Longrightarrow> bt_wf (fold (\<lambda>s. bt_entry (sc_objective s) (f64_zero, 0 :: u64)
      (\<lambda>(t, c). (f64_add t (sc_value s), c + 1))) scores m)" for m
    by (induction scores arbitrary: m) auto
  then show ?thesis
    by (simp add: score_totals_def)
qed

lemma map_of_map_filter:
  assumes "distinct (map fst m)"
  shows "map_of (map (\<lambda>(k, v). (k, f v)) (filter (\<lambda>(k, v). p v) m)) k = map_option f (opt_filter p (map_of m k))"
  using assms
proof (induction m)
  case (Cons kv m)
  then show ?case
    by (cases kv) (auto simp: opt_filter_def map_of_eq_None_iff image_iff split: option.split)
qed (simp add: opt_filter_def)

text \<open>
  The value a score vector holds for an objective is the mean of the scores reported for it, summed
  in the order of the records: there is none when no record carries the objective, and none when the
  mean is not a finite number.
\<close>
theorem objective_value_is_mean:
  assumes "length scores < 2 ^ 64"
  shows "objective_value (score_vector_from_scores h oset candidate_id split stage scores md) objective =
    (let vs = values_of objective scores;
         mean = f64_div (foldl f64_add f64_zero vs) (f64_of_nat (length vs))
     in if vs = [] \<or> \<not> is_finite mean then None else Some mean)"
proof -
  let ?vs = "values_of objective scores"
  have "length ?vs \<le> length scores"
    by (simp add: values_of_def)
  then have len: "unat (of_nat (length ?vs) :: u64) = length ?vs"
    using assms by (intro of_nat_inverse [OF refl]) simp
  have "map_of (score_means scores) objective =
      map_option (\<lambda>(t, c). json_f64 (f64_div t (f64_of_nat (unat c))))
        (opt_filter (\<lambda>(_, c). 0 < c) (map_of (score_totals scores) objective))"
    using map_of_map_filter [OF bt_wf_distinct [OF bt_wf_score_totals],
        of "\<lambda>(t, c). json_f64 (f64_div t (f64_of_nat (unat c)))" "\<lambda>(_, c). 0 < c"]
    by (simp add: score_means_def case_prod_beta')
  moreover have "?vs \<noteq> [] \<Longrightarrow> 0 < (of_nat (length ?vs) :: u64)"
    using len by (simp add: word_gt_0 unat_eq_zero [symmetric])
  ultimately show ?thesis
    by (auto simp: objective_value_def score_vector_from_scores_def Let_def map_of_score_totals len
        opt_filter_def json_f64_def)
qed

definition sample_score :: "string \<Rightarrow> rat \<Rightarrow> score_record" where
  "sample_score objective v =
     \<lparr>sc_schema_version = [], sc_score_id = [], sc_objective_id = [], sc_objective = objective, sc_candidate_id = [],
      sc_sensor_frame_id = [], sc_rollout_id = None, sc_example_id = [], sc_task_id = [], sc_split = [],
      sc_evaluation_stage = [], sc_source = [], sc_value = f64_lit v, sc_rationale = None, sc_metadata = []\<rparr>"

definition sample_hashing :: hashing where
  "sample_hashing = \<lparr>to_json_string = (\<lambda>_. []), sha256_hex = (\<lambda>text. text)\<rparr>"

theorem objective_value_is_mean_witness:
  "objective_value (score_vector_from_scores sample_hashing
     (objective_set_from_specs sample_hashing ''accuracy'' ''per_example'' [] []) ''c'' ''train'' ''stage''
     [sample_score ''accuracy'' 1, sample_score ''latency'' 3, sample_score ''accuracy'' 0] []) ''accuracy'' =
   Some (f64_lit (1 / 2))"
proof -
  let ?scores = "[sample_score ''accuracy'' 1, sample_score ''latency'' 3, sample_score ''accuracy'' 0]"
  have vs: "values_of ''accuracy'' ?scores = [f64_lit 1, f64_lit 0]"
    by (simp add: values_of_def sample_score_def)
  have mean: "f64_div (f64_add (f64_add f64_zero (f64_lit 1)) (f64_lit 0)) (f64_of_nat 2) = f64_lit (1 / 2)"
    by code_simp
  have fin: "is_finite (f64_lit (1 / 2))"
    by code_simp
  show ?thesis
    by (subst objective_value_is_mean) (simp_all add: vs mean fin Let_def numeral_2_eq_2 [symmetric])
qed

end
