(* ===== verification/Candidate_Frontier.thy ===== *)
theory Candidate_Frontier
  imports Score_Vectors Gepa_Config
begin

text \<open>
  The candidates of a GEPA run, the frontier of undominated candidates, the cells of the per-example,
  per-objective and combined Pareto fronts, and the choice of the parent for the next proposal
  (\<open>lib.rs\<close>). Candidates are named by their index in the registry, a natural number; an index is
  always one of the list that was enumerated, which the theorems below state. Weights and win counts
  are machine words. Maps with string or index keys are in key order (\<open>Btree_Map\<close>).
\<close>

subsection \<open>Candidates\<close>

record rollout_score =
  rs_example_id :: string
  rs_task_id :: string
  rs_reward :: f64

record candidate_record =
  ca_candidate_id :: string
  ca_payload :: "(string \<times> string) list"
  ca_lever_bundle :: json
  ca_parent_id :: "string option"
  ca_source :: string
  ca_status :: string
  ca_minibatch_reward :: "f64 option"
  ca_train_reward :: "f64 option"
  ca_heldout_reward :: "f64 option"
  ca_minibatch_scores :: "rollout_score list"
  ca_train_scores :: "rollout_score list"
  ca_sensor_frames :: "sensor_frame list"
  ca_acceptance_score :: json
  ca_acceptance_metadata :: json_map

record frontier_member =
  fm_candidate_id :: string
  fm_parent_id :: "string option"
  fm_source :: string
  fm_train_reward :: f64
  fm_heldout_reward :: "f64 option"

definition candidate_train_selectable :: "candidate_record \<Rightarrow> bool" where
  "candidate_train_selectable c \<longleftrightarrow>
     ca_train_reward c \<noteq> None \<and> ca_train_scores c \<noteq> [] \<and>
     (ca_source c = ''seed'' \<or> ca_status c \<in> set [''accepted'', ''full_train_evaluated''])"

definition candidate_metric_score :: "candidate_record \<Rightarrow> string \<Rightarrow> f64 option" where
  "candidate_metric_score c metric =
     (if metric \<in> set [''train_score'', ''train_reward''] then or_else (ca_train_reward c) (ca_minibatch_reward c)
      else if metric \<in> set [''heldout_score'', ''heldout_reward''] then or_else (ca_heldout_reward c) (ca_train_reward c)
      else None)"

definition candidate_generation :: "candidate_record \<Rightarrow> usize option" where
  "candidate_generation c =
     (if ca_source c = ''seed'' \<or> ca_parent_id c = None then Some 0
      else Option.bind (map_of (ca_acceptance_metadata c) ''generation'') as_u64)"

subsection \<open>Dominance and the frontier\<close>

definition scores_by_example :: "rollout_score list \<Rightarrow> (string \<times> f64) list" where
  "scores_by_example scores = bt_collect (map (\<lambda>s. (rs_example_id s, rs_reward s)) scores)"

fun dominates_loop :: "(string \<times> f64) list \<Rightarrow> (string \<times> f64) list \<Rightarrow> bool \<Rightarrow> bool" where
  "dominates_loop left [] strictly_better = strictly_better"
| "dominates_loop left ((example_id, right_reward) # rest) strictly_better =
     (case map_of left example_id of
        None \<Rightarrow> False
      | Some left_reward \<Rightarrow>
          if f64_lt (f64_add left_reward f64_epsilon) right_reward then False
          else dominates_loop left rest
                 (strictly_better \<or> f64_lt (f64_add right_reward f64_epsilon) left_reward))"

definition candidate_dominates :: "candidate_record \<Rightarrow> candidate_record \<Rightarrow> bool" where
  "candidate_dominates left right =
     (let left_scores = scores_by_example (ca_train_scores left);
          right_scores = scores_by_example (ca_train_scores right)
      in if right_scores = [] then False
         else dominates_loop left_scores right_scores (length right_scores < length left_scores))"

definition frontier_member_of :: "candidate_record list \<Rightarrow> candidate_record \<Rightarrow> frontier_member option" where
  "frontier_member_of evaluated c =
     (if \<exists>x\<in>set evaluated. ca_candidate_id x \<noteq> ca_candidate_id c \<and> candidate_dominates x c then None
      else map_option (\<lambda>r. \<lparr>fm_candidate_id = ca_candidate_id c, fm_parent_id = ca_parent_id c, fm_source = ca_source c,
                           fm_train_reward = r, fm_heldout_reward = ca_heldout_reward c\<rparr>) (ca_train_reward c))"

definition frontier_members :: "candidate_record list \<Rightarrow> frontier_member list" where
  "frontier_members candidates =
     (let evaluated = filter candidate_train_selectable candidates
      in sort_key fm_candidate_id (List.map_filter (frontier_member_of evaluated) evaluated))"

definition frontier_member_ids :: "frontier_member list \<Rightarrow> string list" where
  "frontier_member_ids frontier = bt_set (map fm_candidate_id frontier)"

subsection \<open>Pareto cells\<close>

record candidate_pareto_cell =
  cell_frontier_key :: string
  cell_candidate_index :: nat
  cell_score :: f64
  cell_example_id :: "string option"
  cell_objective_id :: "string option"

definition f64_abs :: "f64 \<Rightarrow> f64" where
  "f64_abs x = (case x of F64_NaN \<Rightarrow> F64_NaN | F64_Inf _ \<Rightarrow> F64_Inf False | F64_Fin _ m \<Rightarrow> F64_Fin False m)"

definition challenger_wins :: "candidate_record list \<Rightarrow> candidate_pareto_cell \<Rightarrow> candidate_pareto_cell \<Rightarrow> bool" where
  "challenger_wins candidates challenger incumbent \<longleftrightarrow>
     f64_lt (f64_add (cell_score incumbent) f64_epsilon) (cell_score challenger) \<or>
     f64_le (f64_abs (f64_sub (cell_score challenger) (cell_score incumbent))) f64_epsilon \<and>
     ca_candidate_id (candidates ! cell_candidate_index challenger)
       < ca_candidate_id (candidates ! cell_candidate_index incumbent)"

definition upsert_pareto_cell ::
  "candidate_record list \<Rightarrow> string \<Rightarrow> candidate_pareto_cell \<Rightarrow> (string \<times> candidate_pareto_cell) list \<Rightarrow>
   (string \<times> candidate_pareto_cell) list" where
  "upsert_pareto_cell candidates key challenger winners =
     (case map_of winners key of
        None \<Rightarrow> bt_insert key challenger winners
      | Some incumbent \<Rightarrow>
          if challenger_wins candidates challenger incumbent then bt_insert key challenger winners else winners)"

definition frame_objective_score :: "sensor_frame \<Rightarrow> string \<Rightarrow> f64 option" where
  "frame_objective_score frame objective =
     map_option os_value (find (\<lambda>s. os_objective s = objective) (sf_objective_scores frame))"

definition selection_objective_direction :: "objective_set_record \<Rightarrow> f64" where
  "selection_objective_direction oset =
     (case find (\<lambda>obj. sp_name obj = ob_selection_objective oset) (ob_objectives oset) of
        None \<Rightarrow> F64_Fin False 1
      | Some obj \<Rightarrow> objective_direction (sp_direction obj))"

definition normalize_gepa_objective_direction :: "string \<Rightarrow> string" where
  "normalize_gepa_objective_direction direction =
     (if to_ascii_lowercase (trim direction) \<in> set [''min'', ''minimize'', ''lower'', ''lower_is_better'', ''down'']
      then ''minimize'' else ''maximize'')"

definition objective_direction_multiplier :: "string \<Rightarrow> f64" where
  "objective_direction_multiplier direction =
     (if normalize_gepa_objective_direction direction = ''minimize'' then F64_Fin True 1 else F64_Fin False 1)"

definition frame_selection_score :: "sensor_frame \<Rightarrow> objective_set_record \<Rightarrow> f64 option" where
  "frame_selection_score frame oset =
     map_option (\<lambda>raw. f64_mul raw (selection_objective_direction oset))
       (or_else (frame_objective_score frame (ob_selection_objective oset)) (Some (sf_reward frame)))"

definition train_sensor_frames :: "candidate_record \<Rightarrow> string list \<Rightarrow> sensor_frame list" where
  "train_sensor_frames c train_ids =
     List.map_filter (\<lambda>s.
        if train_ids \<noteq> [] \<and> rs_example_id s \<notin> set train_ids then None
        else find (\<lambda>frame. sf_example_id frame = rs_example_id s \<and>
                sf_evaluation_stage frame \<in> set [''seed_full_train'', ''candidate_full_train'']) (ca_sensor_frames c))
       (ca_train_scores c)"

text \<open>The frames a front is built from: those of the selectable candidates, with the candidate's index.\<close>

definition indexed_train_frames :: "candidate_record list \<Rightarrow> string list \<Rightarrow> (nat \<times> sensor_frame) list" where
  "indexed_train_frames candidates train_ids =
     concat (map (\<lambda>(idx, c). if candidate_train_selectable c then map (Pair idx) (train_sensor_frames c train_ids) else [])
       (enumerate 0 candidates))"

definition pareto_example_cells ::
  "candidate_record list \<Rightarrow> string list \<Rightarrow> objective_set_record \<Rightarrow> candidate_pareto_cell list" where
  "pareto_example_cells candidates train_ids oset =
     map snd (fold (\<lambda>(idx, frame) winners.
       (case frame_selection_score frame oset of
          None \<Rightarrow> winners
        | Some s \<Rightarrow> upsert_pareto_cell candidates (sf_example_id frame)
            \<lparr>cell_frontier_key = ''example:'' @ sf_example_id frame, cell_candidate_index = idx, cell_score = s,
             cell_example_id = Some (sf_example_id frame), cell_objective_id = None\<rparr> winners))
       (indexed_train_frames candidates train_ids) [])"

definition objective_scores_of ::
  "candidate_record list \<Rightarrow> string list \<Rightarrow> objective_set_record \<Rightarrow> ((nat \<times> string) \<times> f64 \<times> usize) list" where
  "objective_scores_of candidates train_ids oset =
     fold (\<lambda>(idx, frame) acc. fold (\<lambda>obj acc.
         (case frame_objective_score frame (sp_name obj) of
            None \<Rightarrow> acc
          | Some s \<Rightarrow> bt_entry (idx, sp_name obj) (f64_zero, 0) (\<lambda>(sum, count). (f64_add sum s, count + 1)) acc))
         (ob_objectives oset) acc)
       (indexed_train_frames candidates train_ids) []"

definition objective_cell :: "objective_set_record \<Rightarrow> nat \<Rightarrow> string \<Rightarrow> f64 \<Rightarrow> usize \<Rightarrow> candidate_pareto_cell" where
  "objective_cell oset idx objective acc count =
     \<lparr>cell_frontier_key = ''objective:'' @ objective, cell_candidate_index = idx,
      cell_score = f64_mul (f64_div acc (f64_of_nat (unat count)))
        (unwrap_or (F64_Fin False 1) (map_option (\<lambda>spec. objective_direction_multiplier (sp_direction spec))
           (find (\<lambda>spec. sp_name spec = objective) (ob_objectives oset)))),
      cell_example_id = None, cell_objective_id = Some objective\<rparr>"

definition pareto_objective_cells ::
  "candidate_record list \<Rightarrow> string list \<Rightarrow> objective_set_record \<Rightarrow> candidate_pareto_cell list" where
  "pareto_objective_cells candidates train_ids oset =
     map snd (fold (\<lambda>((idx, objective), sum, count) winners.
       if count = 0 then winners
       else upsert_pareto_cell candidates objective (objective_cell oset idx objective sum count) winners)
       (objective_scores_of candidates train_ids oset) [])"

definition pareto_example_objective_cells ::
  "candidate_record list \<Rightarrow> string list \<Rightarrow> objective_set_record \<Rightarrow> candidate_pareto_cell list" where
  "pareto_example_objective_cells candidates train_ids oset =
     map snd (fold (\<lambda>(idx, frame) winners. fold (\<lambda>obj winners.
         (case frame_objective_score frame (sp_name obj) of
            None \<Rightarrow> winners
          | Some s \<Rightarrow> upsert_pareto_cell candidates (sf_example_id frame @ ''|'' @ sp_name obj)
              \<lparr>cell_frontier_key = ''example_objective:'' @ sf_example_id frame @ ''|'' @ sp_name obj,
               cell_candidate_index = idx, cell_score = f64_mul s (objective_direction_multiplier (sp_direction obj)),
               cell_example_id = Some (sf_example_id frame), cell_objective_id = Some (sp_name obj)\<rparr> winners))
         (ob_objectives oset) winners)
       (indexed_train_frames candidates train_ids) [])"

definition normalize_gepa_frontier_type :: "string \<Rightarrow> string" where
  "normalize_gepa_frontier_type v =
     (let n = normalize_enum_value v
      in if n \<in> set [''per_objective'', ''per_example_objective''] then n else ''per_example'')"

record candidate_pareto_front =
  pf_frontier_type :: string
  pf_win_counts :: "(nat \<times> usize) list"
  pf_cells :: "json list"

definition cell_json :: "candidate_record list \<Rightarrow> candidate_pareto_cell \<Rightarrow> json" where
  "cell_json candidates cell =
     JObj (obj_of
       [(''frontier_key'', JStr (cell_frontier_key cell)),
        (''candidate_id'', JStr (ca_candidate_id (candidates ! cell_candidate_index cell))),
        (''score'', json_f64 (cell_score cell)), (''example_id'', json_str_opt (cell_example_id cell)),
        (''objective_id'', json_str_opt (cell_objective_id cell))])"

fun collect_results :: "('a \<Rightarrow> 'b result) \<Rightarrow> 'a list \<Rightarrow> 'b list result" where
  "collect_results f [] = Inr []"
| "collect_results f (x # xs) =
     (case f x of Inl e \<Rightarrow> Inl e
      | Inr y \<Rightarrow> (case collect_results f xs of Inl e \<Rightarrow> Inl e | Inr ys \<Rightarrow> Inr (y # ys)))"

definition pareto_cells ::
  "candidate_record list \<Rightarrow> string list \<Rightarrow> objective_set_record \<Rightarrow> candidate_pareto_cell list" where
  "pareto_cells candidates train_ids oset =
     (let ft = normalize_gepa_frontier_type (ob_frontier_type oset);
          cells = (if ft = ''per_objective'' then pareto_objective_cells candidates train_ids oset
                   else if ft = ''per_example_objective'' then pareto_example_objective_cells candidates train_ids oset
                   else pareto_example_cells candidates train_ids oset)
      in if cells = [] \<and> ft \<noteq> ''per_example'' then pareto_example_cells candidates train_ids oset else cells)"

definition compute_candidate_pareto_front ::
  "hashing \<Rightarrow> candidate_record list \<Rightarrow> json list \<Rightarrow> objective_set_record \<Rightarrow> candidate_pareto_front result" where
  "compute_candidate_pareto_front h candidates train_rows oset =
     (case collect_results (task_identity h) train_rows of Inl e \<Rightarrow> Inl e
      | Inr ids \<Rightarrow>
          (let cells = pareto_cells candidates (bt_set ids) oset
           in Inr \<lparr>pf_frontier_type = normalize_gepa_frontier_type (ob_frontier_type oset),
                   pf_win_counts = fold (\<lambda>cell. bt_entry (cell_candidate_index cell) 0 (\<lambda>n. n + 1)) cells [],
                   pf_cells = map (cell_json candidates) cells\<rparr>))"

subsection \<open>Choosing the parent of a proposal\<close>

text \<open>
  The hash that stands for a random choice: the first eight bytes of a SHA-256 digest, read as a
  little-endian number. The digest is the parameter's hexadecimal text.
\<close>

definition hex_value :: "char \<Rightarrow> nat" where
  "hex_value c = (let n = (of_char c :: nat) in if n < 58 then n - 48 else n - 87)"

fun hex_bytes :: "string \<Rightarrow> nat list" where
  "hex_bytes (a # b # rest) = (16 * hex_value a + hex_value b) mod 256 # hex_bytes rest"
| "hex_bytes _ = []"

fun from_le_bytes :: "nat list \<Rightarrow> nat" where
  "from_le_bytes [] = 0"
| "from_le_bytes (b # bs) = b + 256 * from_le_bytes bs"

definition digest_u64 :: "hashing \<Rightarrow> string \<Rightarrow> u64" where
  "digest_u64 h text = of_nat (from_le_bytes (take 8 (hex_bytes (sha256_hex h text))))"

definition to_le_bytes :: "u64 \<Rightarrow> string" where
  "to_le_bytes n = map (\<lambda>i. char_of ((unat n div 256 ^ i) mod 256)) [0..<8]"

definition deterministic_weight_bucket ::
  "hashing \<Rightarrow> string \<Rightarrow> usize \<Rightarrow> candidate_record list \<Rightarrow> (nat \<times> usize) list \<Rightarrow> usize \<Rightarrow> usize" where
  "deterministic_weight_bucket h run_id generation candidates weights total_weight =
     (if total_weight = 0 then 0
      else digest_u64 h (run_id @ '':parent:'' @ to_le_bytes generation @
             concat (map (\<lambda>(idx, w). ca_candidate_id (candidates ! idx) @ ''='' @ to_le_bytes w @ '';'') weights))
           mod total_weight)"

definition deterministic_selector_fraction :: "hashing \<Rightarrow> string \<Rightarrow> usize \<Rightarrow> candidate_record list \<Rightarrow> string \<Rightarrow> f64" where
  "deterministic_selector_fraction h run_id generation candidates strategy =
     f64_div (f64_of_nat (unat (digest_u64 h (run_id @ '':selector:'' @ strategy @ '':'' @ to_le_bytes generation @
                concat (map (\<lambda>c. ca_candidate_id c @ '';'') candidates)))))
       (f64_of_nat (2 ^ 64 - 1))"

definition weight_sum :: "(nat \<times> usize) list \<Rightarrow> usize" where
  "weight_sum weights = fold (\<lambda>(_, w) acc. saturating_add acc w) weights 0"

fun pick_bucket :: "usize \<Rightarrow> (nat \<times> usize) list \<Rightarrow> usize \<Rightarrow> nat \<Rightarrow> nat" where
  "pick_bucket bucket [] running fallback = fallback"
| "pick_bucket bucket ((idx, w) # weights) running fallback =
     (let running = saturating_add running w
      in if bucket < running then idx else pick_bucket bucket weights running fallback)"

definition select_weighted_parent ::
  "hashing \<Rightarrow> string \<Rightarrow> usize \<Rightarrow> candidate_record list \<Rightarrow> (nat \<times> usize) list \<Rightarrow> nat \<Rightarrow> nat" where
  "select_weighted_parent h run_id generation candidates weights fallback_idx =
     pick_bucket (deterministic_weight_bucket h run_id generation candidates weights (weight_sum weights))
       weights 0 fallback_idx"

text \<open>\<open>Iterator::max_by\<close>: the last of the greatest elements.\<close>

fun max_by :: "('a \<Rightarrow> 'a \<Rightarrow> bool) \<Rightarrow> 'a list \<Rightarrow> 'a option" where
  "max_by gt [] = None"
| "max_by gt (x # xs) = Some (fold (\<lambda>y best. if gt best y then best else y) xs x)"

definition win_count :: "(nat \<times> usize) list \<Rightarrow> nat \<Rightarrow> usize" where
  "win_count win_counts idx = unwrap_or 0 (map_of win_counts idx)"

definition select_best_frontier_parent :: "candidate_record list \<Rightarrow> (nat \<times> usize) list \<Rightarrow> nat option" where
  "select_best_frontier_parent candidates win_counts =
     max_by (\<lambda>left right. win_count win_counts right < win_count win_counts left \<or>
               win_count win_counts left = win_count win_counts right \<and>
               ca_candidate_id (candidates ! left) < ca_candidate_id (candidates ! right))
       (map fst win_counts)"

definition normalize_gepa_candidate_selector_name :: "string \<Rightarrow> string" where
  "normalize_gepa_candidate_selector_name v =
     (let n = normalize_enum_value v
      in if n \<in> set [''uniform_pareto'', ''random'', ''current_best'', ''top_k_pareto'', ''epsilon_greedy''] then n
         else ''pareto_weighted'')"

definition json_usize_opt :: "usize option \<Rightarrow> json" where
  "json_usize_opt v = (case v of None \<Rightarrow> JNull | Some n \<Rightarrow> json_u64 n)"

definition candidate_selector_metadata :: "gepa_candidate_selector_config \<Rightarrow> json" where
  "candidate_selector_metadata s =
     JObj (obj_of
       [(''name'', JStr (normalize_gepa_candidate_selector_name (cs_name s))), (''configured_name'', JStr (cs_name s)),
        (''epsilon'', json_f64_opt (cs_epsilon s)), (''k'', json_usize_opt (cs_k s))])"

record parent_selection_decision =
  pd_candidate_index :: nat
  pd_metadata :: json

definition selectable_indices :: "candidate_record list \<Rightarrow> nat list" where
  "selectable_indices candidates =
     map fst (filter (\<lambda>(_, c). candidate_train_selectable c) (enumerate 0 candidates))"

definition fallback_parent :: "candidate_record list \<Rightarrow> nat option \<Rightarrow> nat" where
  "fallback_parent candidates fallback_idx =
     unwrap_or 0 (or_else
       (opt_filter (\<lambda>idx. idx < length candidates \<and> candidate_train_selectable (candidates ! idx)) fallback_idx)
       (case rev (selectable_indices candidates) of [] \<Rightarrow> None | idx # _ \<Rightarrow> Some idx))"

definition one_weight :: "nat list \<Rightarrow> (nat \<times> usize) list" where
  "one_weight idxs = map (\<lambda>idx. (idx, 1)) idxs"

definition top_members :: "candidate_record list \<Rightarrow> (nat \<times> usize) list \<Rightarrow> usize \<Rightarrow> nat list \<Rightarrow> nat list" where
  "top_members candidates win_counts k members =
     sort_key (\<lambda>idx. ca_candidate_id (candidates ! idx))
       (take (unat k) (sort_key (\<lambda>idx. (- uint (win_count win_counts idx), ca_candidate_id (candidates ! idx))) members))"

definition choose_parent ::
  "hashing \<Rightarrow> string \<Rightarrow> usize \<Rightarrow> candidate_record list \<Rightarrow> gepa_candidate_selector_config \<Rightarrow> (nat \<times> usize) list \<Rightarrow>
   nat list \<Rightarrow> nat list \<Rightarrow> nat \<Rightarrow> nat \<times> (nat \<times> usize) list \<times> string" where
  "choose_parent h run_id generation candidates selector win_counts members all_members fallback_idx =
     (let strategy = normalize_gepa_candidate_selector_name (cs_name selector);
          weighted = (\<lambda>weights reason.
            (select_weighted_parent h run_id generation candidates weights fallback_idx, weights, reason));
          best = (\<lambda>reason. let idx = unwrap_or fallback_idx (select_best_frontier_parent candidates win_counts)
                   in (idx, [(idx, max 1 (win_count win_counts idx))], reason))
      in if strategy = ''uniform_pareto'' then weighted (one_weight members) ''uniform_pareto''
         else if strategy = ''random'' then weighted (one_weight all_members) ''uniform_all_candidates''
         else if strategy = ''current_best'' then best ''current_best''
         else if strategy = ''top_k_pareto''
         then (let k = unwrap_or 3 (cs_k selector)
               in weighted (one_weight (top_members candidates win_counts k members)) (''top_'' @ show_word k @ ''_pareto''))
         else if strategy = ''epsilon_greedy''
         then (if f64_lt (deterministic_selector_fraction h run_id generation candidates strategy)
                    (unwrap_or (f64_lit (1 / 10)) (cs_epsilon selector))
               then weighted (one_weight all_members) ''epsilon_explore'' else best ''epsilon_exploit'')
         else weighted (map (\<lambda>idx. (idx, max 1 (win_count win_counts idx))) members) ''pareto_weighted_frontier'')"

definition parent_metadata ::
  "candidate_record list \<Rightarrow> gepa_candidate_selector_config \<Rightarrow> candidate_pareto_front \<Rightarrow> nat list \<Rightarrow>
   nat \<times> (nat \<times> usize) list \<times> string \<Rightarrow> json" where
  "parent_metadata candidates selector front members choice =
     (let selected_idx = fst choice; weights = fst (snd choice); reason = snd (snd choice);
          total_weight = weight_sum weights;
          raw = unwrap_or 1 (map_of weights selected_idx)
      in JObj (obj_of
        [(''strategy'', JStr (normalize_gepa_candidate_selector_name (cs_name selector))),
         (''selector'', candidate_selector_metadata selector), (''reason'', JStr reason),
         (''frontier_type'', JStr (pf_frontier_type front)),
         (''candidate_id'', JStr (ca_candidate_id (candidates ! selected_idx))),
         (''win_count'', json_u64 (win_count (pf_win_counts front) selected_idx)),
         (''weight'', json_f64 (if total_weight = 0 then F64_Fin False 1
                       else f64_div (f64_of_nat (unat raw)) (f64_of_nat (unat total_weight)))),
         (''raw_weight'', json_u64 raw), (''total_weight'', json_u64 total_weight),
         (''frontier_size'', json_u64 (of_nat (length members))),
         (''frontier'', JArr (map (\<lambda>idx. JObj (obj_of
            [(''candidate_id'', JStr (ca_candidate_id (candidates ! idx))),
             (''win_count'', json_u64 (win_count (pf_win_counts front) idx)),
             (''selection_weight'', json_u64 (unwrap_or 0 (map_of weights idx)))])) members)),
         (''cells'', JArr (pf_cells front))]))"

definition select_proposer_parent_candidate ::
  "hashing \<Rightarrow> candidate_record list \<Rightarrow> json list \<Rightarrow> objective_set_record \<Rightarrow> gepa_candidate_selector_config \<Rightarrow> usize \<Rightarrow>
   string \<Rightarrow> nat option \<Rightarrow> parent_selection_decision result" where
  "select_proposer_parent_candidate h candidates train_rows oset selector generation run_id fallback_idx =
     (if candidates = [] then Inl (Invariant ''GEPA has no candidate to select as proposer parent'')
      else let fallback_idx = fallback_parent candidates fallback_idx in
        case compute_candidate_pareto_front h candidates train_rows oset of Inl e \<Rightarrow> Inl e
        | Inr front \<Rightarrow>
            (let strategy = normalize_gepa_candidate_selector_name (cs_name selector);
                 win_counts = pf_win_counts front
             in if win_counts = [] \<and> strategy \<noteq> ''random''
                then Inr \<lparr>pd_candidate_index = fallback_idx,
                  pd_metadata = JObj (obj_of
                    [(''strategy'', JStr strategy), (''selector'', candidate_selector_metadata selector),
                     (''reason'', JStr ''fallback_no_train_frontier_cells''),
                     (''frontier_type'', JStr (normalize_gepa_frontier_type (ob_frontier_type oset))),
                     (''candidate_id'', JStr (ca_candidate_id (candidates ! fallback_idx))),
                     (''win_count'', json_u64 0), (''weight'', json_f64 (F64_Fin False 1))])\<rparr>
                else let search_visible = selectable_indices candidates;
                         members = sort_key (\<lambda>idx. ca_candidate_id (candidates ! idx))
                           (filter (\<lambda>idx. idx \<in> set search_visible) (map fst win_counts));
                         all_members = (if search_visible = [] then [fallback_idx] else search_visible);
                         choice = choose_parent h run_id generation candidates selector win_counts members
                           all_members fallback_idx
                     in Inr \<lparr>pd_candidate_index = fst choice,
                             pd_metadata = parent_metadata candidates selector front members choice\<rparr>))"

subsection \<open>The frontier\<close>

text \<open>
  Rewards are compared with a tolerance of one machine epsilon. \<open>separated\<close> says that the tolerance
  decides nothing: two of the values are equal or further apart than it, and all are finite.
\<close>

definition separated :: "f64 set \<Rightarrow> bool" where
  "separated S \<longleftrightarrow> (\<forall>x\<in>S. is_finite x) \<and>
     (\<forall>x\<in>S. \<forall>y\<in>S. (f64_lt (f64_add x f64_epsilon) y \<longleftrightarrow> f64_lt x y) \<and>
        (f64_le (f64_abs (f64_sub x y)) f64_epsilon \<longrightarrow> f64_le x y \<and> f64_le y x))"

lemma separated_lt: "separated S \<Longrightarrow> x \<in> S \<Longrightarrow> y \<in> S \<Longrightarrow> f64_lt (f64_add x f64_epsilon) y \<longleftrightarrow> f64_lt x y"
  by (simp add: separated_def)

lemma finite_not_nan: "is_finite x \<Longrightarrow> \<not> is_nan x"
  by (cases x) simp_all

lemma separated_not_nan: "separated S \<Longrightarrow> x \<in> S \<Longrightarrow> \<not> is_nan x"
  by (simp add: separated_def finite_not_nan)

lemma separated_tie:
  assumes "separated S" "x \<in> S" "y \<in> S"
  shows "f64_le (f64_abs (f64_sub x y)) f64_epsilon \<longleftrightarrow> f64_le x y \<and> f64_le y x"
proof
  show "f64_le x y \<and> f64_le y x" if "f64_le (f64_abs (f64_sub x y)) f64_epsilon"
    using assms that by (simp add: separated_def)
  assume le: "f64_le x y \<and> f64_le y x"
  obtain s a t b where xy: "x = F64_Fin s a" "y = F64_Fin t b"
    using assms by (metis separated_def is_finite.elims(2))
  with le have "f64_val (F64_Fin s a) = f64_val (F64_Fin t b)"
    by (simp del: f64_val.simps)
  then have "f64_val (F64_Fin s a) + f64_val (F64_Fin (\<not> t) b) = 0"
    by simp
  then show "f64_le (f64_abs (f64_sub x y)) f64_epsilon"
    unfolding xy f64_sub_def f64_neg.simps f64_add.simps Let_def by (simp add: f64_abs_def f64_epsilon_def)
qed

lemma dominates_loop_iff:
  "dominates_loop left right sb \<longleftrightarrow>
   (\<forall>(e, r)\<in>set right. \<exists>l. map_of left e = Some l \<and> \<not> f64_lt (f64_add l f64_epsilon) r) \<and>
   (sb \<or> (\<exists>(e, r)\<in>set right. \<exists>l. map_of left e = Some l \<and> f64_lt (f64_add r f64_epsilon) l))"
  by (induction left right sb rule: dominates_loop.induct) (auto split: option.splits)

definition rewards :: "candidate_record list \<Rightarrow> f64 set" where
  "rewards candidates = (\<Union>c\<in>set (filter candidate_train_selectable candidates). rs_reward ` set (ca_train_scores c))"

definition reward_of :: "candidate_record \<Rightarrow> string \<Rightarrow> f64 option" where
  "reward_of c = map_of (scores_by_example (ca_train_scores c))"

lemma finite_dom_reward_of [simp]: "finite (dom (reward_of c))"
  by (simp add: reward_of_def finite_dom_map_of)

lemma length_scores_by_example: "length (scores_by_example (ca_train_scores c)) = card (dom (reward_of c))"
  by (simp add: reward_of_def scores_by_example_def length_bt_wf dom_map_of_conv_image_fst)

lemma reward_of_in_rewards:
  assumes "c \<in> set candidates" "candidate_train_selectable c" "reward_of c e = Some r"
  shows "r \<in> rewards candidates"
proof -
  have "(e, r) \<in> set (map (\<lambda>s. (rs_example_id s, rs_reward s)) (ca_train_scores c))"
    using map_of_SomeD [OF assms(3) [unfolded reward_of_def scores_by_example_def map_of_bt_collect]] by simp
  with assms(1,2) show ?thesis
    by (auto simp: rewards_def)
qed

text \<open>Dominance read off the rewards, when they are separated.\<close>

lemma candidate_dominates_iff:
  assumes S: "separated (rewards candidates)"
    and l: "left \<in> set candidates" "candidate_train_selectable left"
    and r: "right \<in> set candidates" "candidate_train_selectable right"
  shows "candidate_dominates left right \<longleftrightarrow>
    (\<forall>e b. reward_of right e = Some b \<longrightarrow> (\<exists>a. reward_of left e = Some a \<and> f64_le b a)) \<and>
    (card (dom (reward_of right)) < card (dom (reward_of left)) \<or>
     (\<exists>e a b. reward_of left e = Some a \<and> reward_of right e = Some b \<and> f64_lt b a))"
proof -
  have ne: "scores_by_example (ca_train_scores right) \<noteq> []"
    using r(2) by (simp add: candidate_train_selectable_def scores_by_example_def)
  have set_right: "(e, b) \<in> set (scores_by_example (ca_train_scores right)) \<longleftrightarrow> reward_of right e = Some b" for e b
    by (simp add: reward_of_def scores_by_example_def bt_wf_map_of)
  have le: "\<not> f64_lt (f64_add a f64_epsilon) b \<longleftrightarrow> f64_le b a"
    and lt: "f64_lt (f64_add b f64_epsilon) a \<longleftrightarrow> f64_lt b a"
    if "reward_of left e = Some a" "reward_of right e = Some b" for a b e
  proof -
    note in_S = reward_of_in_rewards [OF l that(1)] reward_of_in_rewards [OF r that(2)]
    show "f64_lt (f64_add b f64_epsilon) a \<longleftrightarrow> f64_lt b a"
      using separated_lt [OF S] in_S by blast
    show "\<not> f64_lt (f64_add a f64_epsilon) b \<longleftrightarrow> f64_le b a"
      using separated_lt [OF S in_S] separated_not_nan [OF S] in_S f64_not_le by (metis f64_lt_def)
  qed
  let ?R = "set (scores_by_example (ca_train_scores right))" and ?L = "map_of (scores_by_example (ca_train_scores left))"
  have "(\<forall>(e, b)\<in>?R. \<exists>a. ?L e = Some a \<and> \<not> f64_lt (f64_add a f64_epsilon) b) \<longleftrightarrow>
      (\<forall>e b. reward_of right e = Some b \<longrightarrow> (\<exists>a. reward_of left e = Some a \<and> f64_le b a))"
    unfolding set_right [symmetric] reward_of_def [of left, symmetric] using le by (fastforce simp: set_right)
  moreover have "(\<exists>(e, b)\<in>?R. \<exists>a. ?L e = Some a \<and> f64_lt (f64_add b f64_epsilon) a) \<longleftrightarrow>
      (\<exists>e a b. reward_of left e = Some a \<and> reward_of right e = Some b \<and> f64_lt b a)"
    unfolding set_right [symmetric] reward_of_def [of left, symmetric] using lt by (fastforce simp: set_right)
  ultimately show ?thesis
    unfolding candidate_dominates_def Let_def dominates_loop_iff length_scores_by_example using ne by simp
qed

lemma dom_subset_of_dominates:
  assumes "\<forall>e b. reward_of right e = Some b \<longrightarrow> (\<exists>a. reward_of left e = Some a \<and> f64_le b a)"
  shows "dom (reward_of right) \<subseteq> dom (reward_of left)"
  using assms by (auto simp: dom_def)

lemma dominates_strict_order:
  assumes S: "separated (rewards candidates)"
  defines "A \<equiv> {c \<in> set candidates. candidate_train_selectable c}"
  shows "transp_on A candidate_dominates" and "asymp_on A candidate_dominates"
proof -
  have iff: "candidate_dominates x y \<longleftrightarrow>
      (\<forall>e b. reward_of y e = Some b \<longrightarrow> (\<exists>a. reward_of x e = Some a \<and> f64_le b a)) \<and>
      (card (dom (reward_of y)) < card (dom (reward_of x)) \<or>
       (\<exists>e a b. reward_of x e = Some a \<and> reward_of y e = Some b \<and> f64_lt b a))" if "x \<in> A" "y \<in> A" for x y
    using candidate_dominates_iff [OF S, of x y] that by (simp add: A_def)
  show "asymp_on A candidate_dominates"
  proof (rule asymp_onI)
    fix x y
    assume xy: "x \<in> A" "y \<in> A" "candidate_dominates x y"
    show "\<not> candidate_dominates y x"
    proof
      assume "candidate_dominates y x"
      with xy have le: "\<forall>e b. reward_of y e = Some b \<longrightarrow> (\<exists>a. reward_of x e = Some a \<and> f64_le b a)"
        "\<forall>e b. reward_of x e = Some b \<longrightarrow> (\<exists>a. reward_of y e = Some a \<and> f64_le b a)"
        by (simp_all add: iff)
      then have "dom (reward_of x) = dom (reward_of y)"
        by (simp add: dom_subset_of_dominates subset_antisym)
      with xy obtain e a b where "reward_of x e = Some a" "reward_of y e = Some b" "f64_lt b a"
        by (auto simp: iff)
      with le(2) show False
        by (fastforce simp: f64_lt_def)
    qed
  qed
  show "transp_on A candidate_dominates"
  proof (rule transp_onI)
    fix x y z
    assume A: "x \<in> A" "y \<in> A" "z \<in> A" and d: "candidate_dominates x y" "candidate_dominates y z"
    from A d have le: "\<forall>e b. reward_of y e = Some b \<longrightarrow> (\<exists>a. reward_of x e = Some a \<and> f64_le b a)"
      "\<forall>e b. reward_of z e = Some b \<longrightarrow> (\<exists>a. reward_of y e = Some a \<and> f64_le b a)"
      by (simp_all add: iff)
    then have le': "\<forall>e b. reward_of z e = Some b \<longrightarrow> (\<exists>a. reward_of x e = Some a \<and> f64_le b a)"
      by (meson f64_le_trans)
    have card: "card (dom (reward_of z)) \<le> card (dom (reward_of y))" "card (dom (reward_of y)) \<le> card (dom (reward_of x))"
      using le by (simp_all add: card_mono dom_subset_of_dominates)
    have "card (dom (reward_of z)) < card (dom (reward_of x)) \<or>
        (\<exists>e a b. reward_of x e = Some a \<and> reward_of z e = Some b \<and> f64_lt b a)"
    proof (cases "card (dom (reward_of z)) < card (dom (reward_of x))")
      case False
      with card have eq: "card (dom (reward_of z)) = card (dom (reward_of y))" "card (dom (reward_of y)) = card (dom (reward_of x))"
        by simp_all
      with A d(2) obtain e a b where "reward_of y e = Some a" "reward_of z e = Some b" "f64_lt b a"
        by (auto simp: iff)
      with le(1) show ?thesis
        by (meson f64_lt_le_trans)
    qed simp
    with le' A show "candidate_dominates x z"
      by (simp add: iff)
  qed
qed

lemma frontier_member_of_id:
  "frontier_member_of evaluated c = Some m \<Longrightarrow> fm_candidate_id m = ca_candidate_id c"
  by (auto simp: frontier_member_of_def split: if_splits)

lemma set_frontier_members:
  "set (frontier_members candidates) =
   {m. \<exists>c \<in> set candidates. candidate_train_selectable c \<and>
         frontier_member_of (filter candidate_train_selectable candidates) c = Some m}"
  by (auto simp: frontier_members_def Let_def List.map_filter_def image_iff) (metis option.sel)

text \<open>
  C28. The frontier represents every candidate: when the tolerance decides nothing, each candidate that
  has been evaluated in training is on the frontier or dominated by a candidate that is, and no
  member of the frontier is dominated by another evaluated candidate.
\<close>
theorem frontier_covers_candidates:
  assumes "separated (rewards candidates)"
    and "c \<in> set candidates" and "candidate_train_selectable c"
  shows "\<exists>d\<in>set candidates. (d = c \<or> candidate_dominates d c) \<and>
    ca_candidate_id d \<in> fm_candidate_id ` set (frontier_members candidates) \<and>
    (\<forall>x\<in>set candidates. candidate_train_selectable x \<longrightarrow> \<not> candidate_dominates x d)"
proof -
  let ?E = "{x \<in> set candidates. candidate_train_selectable x}"
  have "finite ?E" "c \<in> ?E"
    using assms(2,3) by auto
  moreover have "asymp_on ?E (\<lambda>x y. candidate_dominates y x)"
    by (rule asymp_onI) (rule asymp_onD [OF dominates_strict_order(2) [OF assms(1)]])
  moreover have trans: "transp_on ?E (\<lambda>x y. candidate_dominates y x)"
    by (rule transp_onI) (rule transp_onD [OF dominates_strict_order(1) [OF assms(1)]])
  ultimately obtain d where d: "d \<in> ?E" "d = c \<or> candidate_dominates d c"
    "\<forall>x\<in>?E. candidate_dominates x d \<longrightarrow> \<not> (x = c \<or> candidate_dominates x c)"
    using Finite_Set.bex_max_element_with_property [of ?E "\<lambda>x y. candidate_dominates y x" "\<lambda>x. x = c \<or> candidate_dominates x c"]
    by blast
  have top: "\<not> candidate_dominates x d" if "x \<in> ?E" for x
    using d that assms(2,3) transp_onD [OF trans _ d(1) that, of c] by blast
  then have "frontier_member_of (filter candidate_train_selectable candidates) d \<noteq> None"
    using d(1) by (auto simp: frontier_member_of_def candidate_train_selectable_def)
  then have "ca_candidate_id d \<in> fm_candidate_id ` set (frontier_members candidates)"
    using d(1) by (auto simp: set_frontier_members image_iff dest: frontier_member_of_id)
      (metis frontier_member_of_id)
  with d top show ?thesis
    by blast
qed

definition sample_candidate :: "string \<Rightarrow> (string \<times> rat) list \<Rightarrow> candidate_record" where
  "sample_candidate cid scores =
     \<lparr>ca_candidate_id = cid, ca_payload = [], ca_lever_bundle = JNull, ca_parent_id = None, ca_source = ''seed'',
      ca_status = ''accepted'', ca_minibatch_reward = None, ca_train_reward = Some f64_zero, ca_heldout_reward = None,
      ca_minibatch_scores = [],
      ca_train_scores = map (\<lambda>(e, r). \<lparr>rs_example_id = e, rs_task_id = e, rs_reward = f64_lit r\<rparr>) scores,
      ca_sensor_frames = [], ca_acceptance_score = JNull, ca_acceptance_metadata = []\<rparr>"

definition two_candidates :: "candidate_record list" where
  "two_candidates = [sample_candidate ''b'' [(''e1'', 0), (''e2'', 1 / 2)], sample_candidate ''a'' [(''e1'', 1), (''e2'', 1 / 2)]]"

theorem frontier_covers_candidates_witness:
  "\<exists>d\<in>set two_candidates. (d = hd two_candidates \<or> candidate_dominates d (hd two_candidates)) \<and>
     ca_candidate_id d \<in> fm_candidate_id ` set (frontier_members two_candidates)"
proof -
  have "separated (rewards two_candidates)" "hd two_candidates \<in> set two_candidates"
    "candidate_train_selectable (hd two_candidates)"
    by (code_simp, simp_all add: two_candidates_def sample_candidate_def candidate_train_selectable_def)
  from frontier_covers_candidates [OF this] show ?thesis
    by blast
qed

text \<open>
  Rewards one and two units in the last place apart, in a cycle: each candidate is better than the next
  by more than the tolerance on one example, and on the others it is worse by no more than the
  tolerance.
\<close>

definition cyclic_candidates :: "candidate_record list" where
  "cyclic_candidates =
     (let v0 = 1; v1 = 1 + 1 / 4503599627370496; v2 = 1 + 2 / 4503599627370496
      in [sample_candidate ''a'' [(''e1'', v2), (''e2'', v1), (''e3'', v0)],
          sample_candidate ''b'' [(''e1'', v0), (''e2'', v2), (''e3'', v1)],
          sample_candidate ''c'' [(''e1'', v1), (''e2'', v0), (''e3'', v2)]])"

text \<open>
  With the tolerance, dominance is not transitive: three evaluated candidates can dominate each
  other in a cycle, and then the frontier of the run is empty.
\<close>
theorem tolerant_dominance_cycle:
  "candidate_dominates (cyclic_candidates ! 0) (cyclic_candidates ! 1) \<and>
   candidate_dominates (cyclic_candidates ! 1) (cyclic_candidates ! 2) \<and>
   candidate_dominates (cyclic_candidates ! 2) (cyclic_candidates ! 0) \<and>
   list_all candidate_train_selectable cyclic_candidates \<and> frontier_members cyclic_candidates = []"
  by code_simp

subsection \<open>Indices of candidates\<close>

lemma set_selectable_indices:
  "set (selectable_indices candidates) = {i. i < length candidates \<and> candidate_train_selectable (candidates ! i)}"
  by (force simp: selectable_indices_def in_set_enumerate_eq)

lemma indexed_train_frames_selectable:
  "(idx, frame) \<in> set (indexed_train_frames candidates ids) \<Longrightarrow> idx \<in> set (selectable_indices candidates)"
  by (auto simp: indexed_train_frames_def set_selectable_indices in_set_enumerate_eq split: if_splits)

lemma upsert_pareto_cell_subset:
  "snd ` set (upsert_pareto_cell candidates key cell winners) \<subseteq> insert cell (snd ` set winners)"
  using set_bt_insert [of key cell winners] by (auto simp: upsert_pareto_cell_def split: option.splits if_splits)

lemma fold_preserves:
  assumes "\<And>x s. x \<in> set xs \<Longrightarrow> I s \<Longrightarrow> I (f x s)" and "I s"
  shows "I (fold f xs s)"
  using assms by (induction xs arbitrary: s) auto

definition cells_within :: "nat set \<Rightarrow> (string \<times> candidate_pareto_cell) list \<Rightarrow> bool" where
  "cells_within N winners \<longleftrightarrow> cell_candidate_index ` snd ` set winners \<subseteq> N"

lemma cells_within_upsert:
  "cells_within N winners \<Longrightarrow> cell_candidate_index cell \<in> N \<Longrightarrow> cells_within N (upsert_pareto_cell candidates key cell winners)"
  using upsert_pareto_cell_subset [of candidates key cell winners] unfolding cells_within_def by blast

lemma cells_within_Nil [simp]: "cells_within N []"
  by (simp add: cells_within_def)

lemma cells_withinD: "cells_within N winners \<Longrightarrow> cell \<in> set (map snd winners) \<Longrightarrow> cell_candidate_index cell \<in> N"
  by (auto simp: cells_within_def)

lemma fold_frames_within:
  assumes "\<And>idx frame winners. idx \<in> set (selectable_indices candidates) \<Longrightarrow>
      cells_within (set (selectable_indices candidates)) winners \<Longrightarrow>
      cells_within (set (selectable_indices candidates)) (f (idx, frame) winners)"
  shows "cells_within (set (selectable_indices candidates)) (fold f (indexed_train_frames candidates ids) [])"
proof (rule fold_preserves)
  fix x winners
  assume "x \<in> set (indexed_train_frames candidates ids)" "cells_within (set (selectable_indices candidates)) winners"
  then show "cells_within (set (selectable_indices candidates)) (f x winners)"
    using indexed_train_frames_selectable [of "fst x" "snd x"] assms [of "fst x" winners "snd x"] by simp
qed simp

lemma pareto_example_cells_within:
  "cell \<in> set (pareto_example_cells candidates ids oset) \<Longrightarrow> cell_candidate_index cell \<in> set (selectable_indices candidates)"
  unfolding pareto_example_cells_def
  by (erule cells_withinD [rotated], rule fold_frames_within) (auto intro: cells_within_upsert split: option.split)

lemma pareto_example_objective_cells_within:
  "cell \<in> set (pareto_example_objective_cells candidates ids oset) \<Longrightarrow>
   cell_candidate_index cell \<in> set (selectable_indices candidates)"
  unfolding pareto_example_objective_cells_def
  by (erule cells_withinD [rotated], rule fold_frames_within, simp only: prod.case, rule fold_preserves)
     (auto intro: cells_within_upsert split: option.split)

lemma objective_scores_of_keys:
  "fst ` fst ` set (objective_scores_of candidates ids oset) \<subseteq> set (selectable_indices candidates)"
  unfolding objective_scores_of_def
proof (rule fold_preserves)
  fix x :: "nat \<times> sensor_frame" and acc :: "((nat \<times> string) \<times> f64 \<times> usize) list"
  assume x: "x \<in> set (indexed_train_frames candidates ids)"
    and acc: "fst ` fst ` set acc \<subseteq> set (selectable_indices candidates)"
  obtain idx frame where "x = (idx, frame)" by (cases x)
  moreover with x have "idx \<in> set (selectable_indices candidates)"
    using indexed_train_frames_selectable by blast
  moreover have "fst ` fst ` set (fold (\<lambda>obj acc. case frame_objective_score frame (sp_name obj) of
      None \<Rightarrow> acc | Some s \<Rightarrow> bt_entry (idx, sp_name obj) (f64_zero, 0) (\<lambda>(sum, count). (f64_add sum s, count + 1)) acc)
      (ob_objectives oset) acc) \<subseteq> set (selectable_indices candidates)"
    by (rule fold_preserves) (use acc calculation in \<open>auto split: option.splits simp: image_image [symmetric]\<close>)
  ultimately show "fst ` fst ` set ((case x of (idx, frame) \<Rightarrow> fold (\<lambda>obj acc. case frame_objective_score frame (sp_name obj) of
      None \<Rightarrow> acc | Some s \<Rightarrow> bt_entry (idx, sp_name obj) (f64_zero, 0) (\<lambda>(sum, count). (f64_add sum s, count + 1)) acc)
      (ob_objectives oset)) acc) \<subseteq> set (selectable_indices candidates)"
    by simp
qed simp

lemma objective_cell_index: "cell_candidate_index (objective_cell oset idx objective acc count) = idx"
  by (simp add: objective_cell_def)

lemma pareto_objective_cells_within:
  assumes "cell \<in> set (pareto_objective_cells candidates ids oset)"
  shows "cell_candidate_index cell \<in> set (selectable_indices candidates)"
proof -
  let ?N = "set (selectable_indices candidates)"
  have "cells_within ?N (fold (\<lambda>((idx, objective), acc, count) winners. if count = 0 then winners
      else upsert_pareto_cell candidates objective (objective_cell oset idx objective acc count) winners)
      (objective_scores_of candidates ids oset) [])"
  proof (rule fold_preserves [where I = "cells_within ?N"])
    fix x winners
    assume "x \<in> set (objective_scores_of candidates ids oset)" and w: "cells_within ?N winners"
    then have "fst (fst x) \<in> ?N"
      using objective_scores_of_keys [of candidates ids oset] by blast
    with w show "cells_within ?N ((\<lambda>((idx, objective), acc, count) winners. if count = 0 then winners
        else upsert_pareto_cell candidates objective (objective_cell oset idx objective acc count) winners) x winners)"
      by (cases x) (auto intro!: cells_within_upsert simp: objective_cell_index)
  qed simp
  then show ?thesis
    using assms unfolding pareto_objective_cells_def by (rule cells_withinD)
qed

lemma pareto_cells_within:
  "cell \<in> set (pareto_cells candidates ids oset) \<Longrightarrow> cell_candidate_index cell \<in> set (selectable_indices candidates)"
  by (auto simp: pareto_cells_def Let_def split: if_splits
      dest: pareto_example_cells_within pareto_objective_cells_within pareto_example_objective_cells_within)

lemma win_count_keys:
  "fst ` set (fold (\<lambda>cell. bt_entry (cell_candidate_index cell) 0 (\<lambda>n. n + 1)) cells m) =
   fst ` set m \<union> cell_candidate_index ` set cells"
  by (induction cells arbitrary: m) auto

lemma pareto_front_keys:
  assumes "compute_candidate_pareto_front h candidates rows oset = Inr front"
  shows "fst ` set (pf_win_counts front) \<subseteq> set (selectable_indices candidates)"
proof -
  from assms obtain ids where "pf_win_counts front =
      fold (\<lambda>cell. bt_entry (cell_candidate_index cell) 0 (\<lambda>n. n + 1)) (pareto_cells candidates ids oset) []"
    by (auto simp: compute_candidate_pareto_front_def Let_def split: sum.splits)
  then have "fst ` set (pf_win_counts front) = cell_candidate_index ` set (pareto_cells candidates ids oset)"
    by (simp add: win_count_keys)
  also have "\<dots> \<subseteq> set (selectable_indices candidates)"
    by (rule image_subsetI) (rule pareto_cells_within)
  finally show ?thesis .
qed

subsection \<open>The chosen parent\<close>

lemma pick_bucket_in: "pick_bucket bucket weights running fallback \<in> insert fallback (fst ` set weights)"
  by (induction bucket weights running fallback rule: pick_bucket.induct) (auto simp: Let_def)

lemma fold_max_in: "fold (\<lambda>y best. if gt best y then best else y) xs x \<in> insert x (set xs)"
  by (induction xs arbitrary: x) (auto split: if_splits)

lemma max_by_in: "max_by gt xs = Some x \<Longrightarrow> x \<in> set xs"
  using fold_max_in by (cases xs) fastforce+

lemma fallback_parent_cases:
  assumes "candidates \<noteq> []"
  shows "fallback_parent candidates f \<in> set (selectable_indices candidates) \<or>
    selectable_indices candidates = [] \<and> fallback_parent candidates f = 0"
proof (cases "rev (selectable_indices candidates)")
  case Nil
  then have "selectable_indices candidates = []"
    by simp
  moreover from this have "opt_filter (\<lambda>idx. idx < length candidates \<and> candidate_train_selectable (candidates ! idx)) f = None"
    using set_selectable_indices [of candidates] by (cases f) (auto simp: opt_filter_def)
  ultimately show ?thesis
    by (simp add: fallback_parent_def)
next
  case (Cons i rest)
  then have "i \<in> set (selectable_indices candidates)"
    by (metis list.set_intros(1) set_rev)
  moreover have "a \<in> set (selectable_indices candidates)"
    if "a < length candidates" "candidate_train_selectable (candidates ! a)" for a
    using that by (simp add: set_selectable_indices)
  ultimately show ?thesis
    by (cases f) (simp_all add: fallback_parent_def opt_filter_def Cons)
qed

lemma set_top_members: "set (top_members candidates win_counts k members) \<subseteq> set members"
  by (auto simp: top_members_def dest: in_set_takeD)

lemma choose_parent_in:
  assumes "set members \<subseteq> N" "set all_members \<subseteq> N" "fst ` set win_counts \<subseteq> N" "fallback_idx \<in> N"
  shows "fst (choose_parent h run_id generation candidates selector win_counts members all_members fallback_idx) \<in> N"
proof -
  have weighted: "select_weighted_parent h run_id generation candidates weights fallback_idx \<in> N"
    if "fst ` set weights \<subseteq> N" for weights
    using pick_bucket_in assms(4) that unfolding select_weighted_parent_def by (metis insertE subsetD)
  have best: "unwrap_or fallback_idx (select_best_frontier_parent candidates win_counts) \<in> N"
    using assms(3,4) max_by_in
    by (cases "select_best_frontier_parent candidates win_counts") (fastforce simp: select_best_frontier_parent_def)+
  have members: "fst ` set (one_weight members) \<subseteq> N" "fst ` set (one_weight all_members) \<subseteq> N"
    "fst ` set (one_weight (top_members candidates win_counts k members)) \<subseteq> N"
    "fst ` set (map (\<lambda>idx. (idx, max 1 (win_count win_counts idx))) members) \<subseteq> N" for k
    using assms(1,2) set_top_members [of candidates win_counts k members] by (auto simp: one_weight_def)
  show ?thesis
    unfolding choose_parent_def Let_def using weighted [OF members(1)] weighted [OF members(2)]
      weighted [OF members(3)] weighted [OF members(4)] best by simp
qed

text \<open>
  C34. With at least one candidate and training rows that all carry an identity, the choice of a
  proposal's parent always succeeds, under every selection strategy: it names a candidate of the
  registry, and one that has been evaluated in training whenever there is such a candidate.
\<close>
theorem parent_selection_valid:
  assumes "candidates \<noteq> []" and "collect_results (task_identity h) train_rows = Inr ids"
  shows "\<exists>d. select_proposer_parent_candidate h candidates train_rows oset selector generation run_id fallback = Inr d \<and>
    pd_candidate_index d < length candidates \<and>
    ((\<exists>c\<in>set candidates. candidate_train_selectable c) \<longrightarrow> candidate_train_selectable (candidates ! pd_candidate_index d))"
proof -
  let ?s = "set (selectable_indices candidates)"
  let ?N = "if selectable_indices candidates = [] then {0} else ?s"
  let ?fb = "fallback_parent candidates fallback"
  obtain front where front: "compute_candidate_pareto_front h candidates train_rows oset = Inr front"
    using assms(2) by (simp add: compute_candidate_pareto_front_def Let_def)
  have fb: "?fb \<in> ?N"
    using fallback_parent_cases [OF assms(1), of fallback] by auto
  have keys: "fst ` set (pf_win_counts front) \<subseteq> ?N"
    using pareto_front_keys [OF front] by auto
  have "fst (choose_parent h run_id generation candidates selector (pf_win_counts front)
      (sort_key (\<lambda>idx. ca_candidate_id (candidates ! idx))
        (filter (\<lambda>idx. idx \<in> ?s) (map fst (pf_win_counts front))))
      (if selectable_indices candidates = [] then [?fb] else selectable_indices candidates) ?fb) \<in> ?N"
    by (rule choose_parent_in) (use fb keys in auto)
  then have "\<exists>d. select_proposer_parent_candidate h candidates train_rows oset selector generation run_id fallback = Inr d \<and>
      pd_candidate_index d \<in> ?N"
    using assms(1) front fb by (auto simp: select_proposer_parent_candidate_def Let_def)
  moreover have "i < length candidates \<and>
      ((\<exists>c\<in>set candidates. candidate_train_selectable c) \<longrightarrow> candidate_train_selectable (candidates ! i))"
    if "i \<in> ?N" for i
    using that assms(1) set_selectable_indices [of candidates] by (auto simp: in_set_conv_nth split: if_splits)
  ultimately show ?thesis
    by blast
qed

definition sample_frame :: "string \<Rightarrow> rat \<Rightarrow> sensor_frame" where
  "sample_frame e r =
     \<lparr>sf_schema_version = [], sf_sensor_frame_id = [], sf_candidate_id = [], sf_rollout_id = None, sf_example_id = e,
      sf_task_id = e, sf_split = ''train'', sf_evaluation_stage = ''candidate_full_train'', sf_reward = f64_lit r,
      sf_status = [], sf_success_status = None, sf_objective_scores = [], sf_usage = JNull, sf_trace_digest = None,
      sf_actionable_side_info = None, sf_artifact_refs = [], sf_failure = None, sf_metadata = []\<rparr>"

definition framed_candidate :: "string \<Rightarrow> (string \<times> rat) list \<Rightarrow> candidate_record" where
  "framed_candidate cid scores = (sample_candidate cid scores)\<lparr>ca_sensor_frames := map (\<lambda>(e, r). sample_frame e r) scores\<rparr>"

definition framed_candidates :: "candidate_record list" where
  "framed_candidates =
     [framed_candidate ''b'' [(''e1'', 1), (''e2'', 1 / 2)], framed_candidate ''a'' [(''e1'', 1), (''e2'', 0)]]"

definition sample_rows :: "json list" where
  "sample_rows = [JObj [(''task_id'', JStr ''e1'')], JObj [(''task_id'', JStr ''e2'')]]"

definition sample_objectives :: objective_set_record where
  "sample_objectives = objective_set_from_specs sample_hashing ''accuracy'' ''per_example'' [] []"

lemma sample_rows_ids: "collect_results (task_identity sample_hashing) sample_rows = Inr [''e1'', ''e2'']"
  by code_simp

theorem parent_selection_valid_witness:
  "\<exists>d. select_proposer_parent_candidate sample_hashing framed_candidates sample_rows sample_objectives
       candidate_selector_default 1 ''run'' None = Inr d \<and> pd_candidate_index d < 2"
  using parent_selection_valid [OF _ sample_rows_ids, of framed_candidates sample_objectives candidate_selector_default
      1 "''run''" None]
  by (auto simp: framed_candidates_def)

subsection \<open>The cells of a front\<close>

definition offers ::
  "candidate_record list \<Rightarrow> string list \<Rightarrow> objective_set_record \<Rightarrow> (string \<times> candidate_pareto_cell) list" where
  "offers candidates ids oset =
     map (\<lambda>(idx, frame). (sf_example_id frame,
       \<lparr>cell_frontier_key = ''example:'' @ sf_example_id frame, cell_candidate_index = idx,
        cell_score = the (frame_selection_score frame oset), cell_example_id = Some (sf_example_id frame),
        cell_objective_id = None\<rparr>)) (indexed_train_frames candidates ids)"

lemma frame_selection_score_Some: "\<exists>s. frame_selection_score frame oset = Some s"
  by (cases "frame_objective_score frame (ob_selection_objective oset)") (simp_all add: frame_selection_score_def)

lemma pareto_example_cells_offers:
  "pareto_example_cells candidates ids oset =
   map snd (fold (\<lambda>(key, cell). upsert_pareto_cell candidates key cell) (offers candidates ids oset) [])"
proof -
  have step: "(\<lambda>(idx, frame) winners. case frame_selection_score frame oset of None \<Rightarrow> winners
      | Some s \<Rightarrow> upsert_pareto_cell candidates (sf_example_id frame)
          \<lparr>cell_frontier_key = ''example:'' @ sf_example_id frame, cell_candidate_index = idx, cell_score = s,
           cell_example_id = Some (sf_example_id frame), cell_objective_id = None\<rparr> winners) =
    (\<lambda>x. case (case x of (idx, frame) \<Rightarrow> (sf_example_id frame,
       \<lparr>cell_frontier_key = ''example:'' @ sf_example_id frame, cell_candidate_index = idx,
        cell_score = the (frame_selection_score frame oset), cell_example_id = Some (sf_example_id frame),
        cell_objective_id = None\<rparr>)) of (key, cell) \<Rightarrow> upsert_pareto_cell candidates key cell)" (is "?f = ?g")
  proof (intro ext)
    fix x :: "nat \<times> sensor_frame" and winners
    obtain s where "frame_selection_score (snd x) oset = Some s"
      using frame_selection_score_Some by blast
    then show "?f x winners = ?g x winners"
      by (simp add: case_prod_beta)
  qed
  show ?thesis
    unfolding pareto_example_cells_def offers_def fold_map comp_def step by simp
qed

text \<open>A cell at least as good as an offer: a higher score, or the same one and an identifier not later.\<close>

definition at_least :: "candidate_record list \<Rightarrow> candidate_pareto_cell \<Rightarrow> candidate_pareto_cell \<Rightarrow> bool" where
  "at_least candidates cell offer \<longleftrightarrow>
     f64_le (cell_score offer) (cell_score cell) \<and>
     (f64_le (cell_score cell) (cell_score offer) \<longrightarrow>
      ca_candidate_id (candidates ! cell_candidate_index cell) \<le> ca_candidate_id (candidates ! cell_candidate_index offer))"

lemma at_least_trans: "at_least cs a b \<Longrightarrow> at_least cs b c \<Longrightarrow> at_least cs a c"
  unfolding at_least_def by (meson f64_le_trans order_trans)

lemma challenger_wins_iff:
  assumes "separated S" "cell_score a \<in> S" "cell_score b \<in> S"
  shows "challenger_wins cs a b \<longleftrightarrow> \<not> at_least cs b a"
proof -
  note nan = separated_not_nan [OF assms(1,2)] separated_not_nan [OF assms(1,3)]
  have "f64_lt (f64_add (cell_score b) f64_epsilon) (cell_score a) \<longleftrightarrow> f64_lt (cell_score b) (cell_score a)"
    using separated_lt [OF assms(1,3,2)] .
  moreover have "f64_lt (cell_score b) (cell_score a) \<longleftrightarrow> \<not> f64_le (cell_score a) (cell_score b)"
    using f64_not_le [OF nan] by simp
  ultimately show ?thesis
    using separated_tie [OF assms] by (auto simp: challenger_wins_def at_least_def)
qed

lemma challenger_at_least:
  assumes "separated S" "cell_score a \<in> S" "cell_score b \<in> S" "challenger_wins cs a b"
  shows "at_least cs a b"
  using assms(4) separated_tie [OF assms(1,2,3)] separated_lt [OF assms(1,3,2)]
  by (auto simp: challenger_wins_def at_least_def f64_lt_def)

lemma upsert_keeps_best:
  fixes cs key
  assumes S: "separated S" and offer: "cell_score offer \<in> S" and winners: "\<And>k w. map_of winners k = Some w \<Longrightarrow> cell_score w \<in> S"
  defines "winners' \<equiv> upsert_pareto_cell cs key offer winners"
  shows "\<exists>w. map_of winners' key = Some w \<and> at_least cs w offer"
    and "map_of winners k = Some w \<Longrightarrow> \<exists>w'. map_of winners' k = Some w' \<and> at_least cs w' w"
    and "map_of winners' k = Some w \<Longrightarrow> map_of winners k = Some w \<or> k = key \<and> w = offer"
proof -
  have refl: "at_least cs w w" if "cell_score w \<in> S" for w
    using f64_le_refl [OF separated_not_nan [OF S that]] by (simp add: at_least_def)
  show "\<exists>w. map_of winners' key = Some w \<and> at_least cs w offer"
    using refl [OF offer] winners challenger_wins_iff [OF S offer]
    by (auto simp: winners'_def upsert_pareto_cell_def split: option.split)
  show "map_of winners k = Some w \<Longrightarrow> \<exists>w'. map_of winners' k = Some w' \<and> at_least cs w' w"
    using refl winners challenger_at_least [OF S offer]
    by (auto simp: winners'_def upsert_pareto_cell_def split: option.split)
  show "map_of winners' k = Some w \<Longrightarrow> map_of winners k = Some w \<or> k = key \<and> w = offer"
    by (auto simp: winners'_def upsert_pareto_cell_def split: option.splits if_splits)
qed

lemma fold_upsert_best:
  assumes S: "separated S" and os: "\<And>k c. (k, c) \<in> set os \<Longrightarrow> cell_score c \<in> S"
  shows "(k, c) \<in> set os \<Longrightarrow> \<exists>w. map_of (fold (\<lambda>(key, cell). upsert_pareto_cell cs key cell) os []) k = Some w \<and>
    at_least cs w c \<and> (k, w) \<in> set os"
  using os
proof (induction os arbitrary: k c rule: rev_induct)
  case (snoc offer os)
  obtain key cell where offer: "offer = (key, cell)" by (cases offer)
  let ?W = "fold (\<lambda>(key, cell). upsert_pareto_cell cs key cell) os []"
  let ?W' = "upsert_pareto_cell cs key cell ?W"
  have from_os: "(k, w) \<in> set os" if "map_of ?W k = Some w" for k w
  proof -
    have "\<forall>k w. map_of (fold (\<lambda>(key, cell). upsert_pareto_cell cs key cell) xs []) k = Some w \<longrightarrow> (k, w) \<in> set xs" for xs
      by (induction xs rule: rev_induct) (auto simp: upsert_pareto_cell_def split: option.splits if_splits)
    with that show ?thesis by blast
  qed
  have in_S: "map_of ?W k = Some w \<Longrightarrow> cell_score w \<in> S" for k w
    using from_os snoc.prems(2) by fastforce
  have cell: "cell_score cell \<in> S"
    using snoc.prems(2) [of key cell] by (simp add: offer)
  note step = upsert_keeps_best [where cs = cs and key = key and winners = ?W, OF S cell in_S]
  have "\<exists>w. map_of ?W' k = Some w \<and> at_least cs w c"
  proof (cases "(k, c) = (key, cell)")
    case True
    with step(1) show ?thesis by simp
  next
    case False
    with snoc.prems(1) have "(k, c) \<in> set os" by (auto simp: offer)
    with snoc.IH [OF this] snoc.prems(2) obtain w where "map_of ?W k = Some w" "at_least cs w c"
      by auto
    with step(2) show ?thesis
      by (meson at_least_trans)
  qed
  then show ?case
    using step(3) from_os by (fastforce simp: offer)
qed simp



end
