(* ===== verification/Minibatch_Sampler.thy ===== *)
theory Minibatch_Sampler
  imports Candidate_Frontier "HOL-Library.While_Combinator" "HOL-Library.Multiset"
begin

text \<open>
  \<open>lib.rs\<close>, minibatch sampling: the rows of the minibatch pool on which a proposal is first tried.
  Four strategies choose them: a shuffle keyed by a digest, a window that moves through the pool from
  proposal to proposal (over the shuffled or over the given order), and a round robin over the
  values of a field.

  The round robin of \<open>stratified_minibatch_indices\<close> is a \<open>while\<close> loop of the source. It is a
  \<open>while_option\<close> here, so that not ending would be the value \<open>None\<close>; that it ends is a theorem.
  A digest is compared as its lower-case hexadecimal text, whose order is that of its bytes.
\<close>

subsection \<open>Names and shuffle keys\<close>

definition normalize_gepa_batch_sampler_name :: "string \<Rightarrow> string" where
  "normalize_gepa_batch_sampler_name v =
     (let n = normalize_enum_value v
      in if n = ''epoch_shuffled'' then ''epoch_shuffled''
         else if n \<in> set [''ordered_epoch'', ''sequential_epoch''] then ''ordered_epoch''
         else if n \<in> set [''stratified'', ''stratified_by_field''] then ''stratified''
         else ''seeded_shuffle'')"

definition deterministic_row_shuffle_key ::
  "hashing \<Rightarrow> json \<Rightarrow> nat \<Rightarrow> usize \<Rightarrow> usize \<Rightarrow> string \<Rightarrow> string" where
  "deterministic_row_shuffle_key h row index generation proposal_index strategy =
     sha256_hex h (''gepa:minibatch:'' @ strategy @ '':'' @ to_le_bytes generation @ '':'' @
       to_le_bytes proposal_index @ '':'' @
       (case task_identity h row of Inr row_id \<Rightarrow> row_id | Inl _ \<Rightarrow> ''row:'' @ show_dec (int index)))"

definition deterministic_shuffle_indices ::
  "hashing \<Rightarrow> nat list \<Rightarrow> json list \<Rightarrow> usize \<Rightarrow> usize \<Rightarrow> string \<Rightarrow> nat list" where
  "deterministic_shuffle_indices h indices rows generation proposal_index strategy =
     sort_key (\<lambda>i. (deterministic_row_shuffle_key h (rows ! i) i generation proposal_index strategy, i)) indices"

subsection \<open>Stratified batches\<close>

text \<open>\<open>str::split\<close> on a character.\<close>

fun split_char :: "char \<Rightarrow> string \<Rightarrow> string list" where
  "split_char d [] = [[]]"
| "split_char d (c # s) =
     (if c = d then [] # split_char d s
      else (case split_char d s of [] \<Rightarrow> [[c]] | p # ps \<Rightarrow> (c # p) # ps))"

definition row_path_value :: "json \<Rightarrow> string \<Rightarrow> json option" where
  "row_path_value row field =
     foldl (\<lambda>current part. Option.bind current (\<lambda>v. json_get v part)) (Some row)
       (filter (\<lambda>part. part \<noteq> []) (split_char (CHR ''.'') field))"

fun value_to_bucket_key :: "hashing \<Rightarrow> json \<Rightarrow> string option" where
  "value_to_bucket_key h (JStr text) = (if trim text = [] then None else Some (trim text))"
| "value_to_bucket_key h (JNum n) = Some (to_json_string h (JNum n))"
| "value_to_bucket_key h (JBool b) = Some (if b then ''true'' else ''false'')"
| "value_to_bucket_key h _ = None"

type_synonym buckets = "(string \<times> nat list) list"

definition fill_buckets :: "hashing \<Rightarrow> json list \<Rightarrow> nat list \<Rightarrow> string \<Rightarrow> buckets" where
  "fill_buckets h rows shuffled_indices field =
     fold (\<lambda>idx. bt_entry
         (unwrap_or ''default'' (Option.bind (row_path_value (rows ! idx) field) (value_to_bucket_key h)))
         [] (\<lambda>bucket. bucket @ [idx]))
       shuffled_indices []"

text \<open>One pass of the inner loop over the buckets, left as soon as the limit is reached.\<close>

fun take_round :: "nat \<Rightarrow> buckets \<Rightarrow> nat list \<Rightarrow> buckets \<times> nat list" where
  "take_round limit [] selected = ([], selected)"
| "take_round limit ((k, []) # rest) selected =
     (let (rest', selected') = take_round limit rest selected in ((k, []) # rest', selected'))"
| "take_round limit ((k, idx # bucket) # rest) selected =
     (let selected = selected @ [idx]
      in if limit \<le> length selected then ((k, bucket) # rest, selected)
         else (let (rest', selected') = take_round limit rest selected in ((k, bucket) # rest', selected')))"

definition round_robin :: "nat \<Rightarrow> buckets \<Rightarrow> (buckets \<times> nat list) option" where
  "round_robin limit buckets =
     while_option (\<lambda>(bs, selected). length selected < limit \<and> list_ex (\<lambda>(_, bucket). bucket \<noteq> []) bs)
       (\<lambda>(bs, selected). take_round limit bs selected) (buckets, [])"

definition stratified_minibatch_indices ::
  "hashing \<Rightarrow> json list \<Rightarrow> nat list \<Rightarrow> nat \<Rightarrow> string \<Rightarrow> nat list option" where
  "stratified_minibatch_indices h rows shuffled_indices limit field =
     (let buckets = fill_buckets h rows shuffled_indices field
      in if length buckets \<le> 1 then Some [] else map_option snd (round_robin limit buckets))"

subsection \<open>Minibatches\<close>

definition batch_size :: "usize \<Rightarrow> nat \<Rightarrow> nat" where
  "batch_size minibatch_size row_count = max (min (unat minibatch_size) row_count) 1"

definition epoch_start :: "gepa_batch_sampler_config \<Rightarrow> nat \<Rightarrow> nat \<Rightarrow> usize \<Rightarrow> usize \<Rightarrow> usize \<Rightarrow> nat" where
  "epoch_start sampler bsize row_count generation proposal_index proposals_per_generation =
     (let epoch_width = max (unwrap_or (of_nat bsize) (bs_epoch_width sampler)) 1;
          cursor = saturating_add (saturating_mul generation (max proposals_per_generation 1)) proposal_index
      in unat (saturating_mul cursor epoch_width) mod row_count)"

definition stratified_field :: "gepa_batch_sampler_config \<Rightarrow> string" where
  "stratified_field sampler =
     unwrap_or ''metadata.difficulty'' (opt_filter (\<lambda>field. field \<noteq> []) (map_option trim (bs_field sampler)))"

definition minibatch_rows ::
  "hashing \<Rightarrow> json list \<Rightarrow> gepa_batch_sampler_config \<Rightarrow> usize \<Rightarrow> usize \<Rightarrow> usize \<Rightarrow> usize \<Rightarrow> json list option" where
  "minibatch_rows h rows sampler minibatch_size generation proposal_index proposals_per_generation =
     (if rows = [] then Some []
      else let bsize = batch_size minibatch_size (length rows) in
        if length rows \<le> bsize then Some rows
        else let strategy = normalize_gepa_batch_sampler_name (bs_name sampler);
                 indices = (if strategy \<noteq> ''ordered_epoch''
                            then deterministic_shuffle_indices h [0..<length rows] rows generation proposal_index strategy
                            else [0..<length rows])
             in if strategy = ''epoch_shuffled'' \<or> strategy = ''ordered_epoch''
                then let start = epoch_start sampler bsize (length indices) generation proposal_index proposals_per_generation
                     in Some (map (\<lambda>offset. rows ! (indices ! ((start + offset) mod length indices))) [0..<bsize])
                else let first = Some (map (\<lambda>idx. rows ! idx) (take bsize indices)) in
                  if strategy = ''stratified''
                  then case stratified_minibatch_indices h rows indices bsize (stratified_field sampler) of
                         None \<Rightarrow> None
                       | Some selected \<Rightarrow> if selected \<noteq> [] then Some (map (\<lambda>idx. rows ! idx) selected) else first
                  else first)"

subsection \<open>The round robin ends and loses nothing\<close>

abbreviation bucketed :: "buckets \<Rightarrow> nat list" where
  "bucketed bs \<equiv> concat (map snd bs)"

lemma take_round_mset:
  "take_round limit bs selected = (bs', selected') \<Longrightarrow>
   mset (bucketed bs') + mset selected' = mset (bucketed bs) + mset selected"
  by (induction limit bs selected arbitrary: bs' selected' rule: take_round.induct)
     (force simp: Let_def split: if_splits prod.splits)+

lemma take_round_grows:
  "take_round limit bs selected = (bs', selected') \<Longrightarrow> length selected \<le> length selected'"
  by (induction limit bs selected arbitrary: bs' selected' rule: take_round.induct)
     (fastforce simp: Let_def split: if_splits prod.splits)+

lemma take_round_bounded:
  "take_round limit bs selected = (bs', selected') \<Longrightarrow> length selected < limit \<Longrightarrow> length selected' \<le> limit"
  by (induction limit bs selected arbitrary: bs' selected' rule: take_round.induct)
     (fastforce simp: Let_def split: if_splits prod.splits)+

lemma take_round_progress:
  "take_round limit bs selected = (bs', selected') \<Longrightarrow> list_ex (\<lambda>(_, bucket). bucket \<noteq> []) bs \<Longrightarrow>
   length selected < length selected'"
  by (induction limit bs selected arbitrary: bs' selected' rule: take_round.induct)
     (fastforce simp: Let_def split: if_splits prod.splits dest: take_round_grows)+

lemma bucketed_empty_iff: "list_ex (\<lambda>(_, bucket). bucket \<noteq> []) bs \<longleftrightarrow> bucketed bs \<noteq> []"
  by (induction bs) auto

text \<open>
  Every pass moves at least one index out of the buckets, so the loop ends, with as many indices as
  the limit or the buckets allow.
\<close>

lemma round_robin_returns:
  "\<exists>rest selected. round_robin limit buckets = Some (rest, selected) \<and>
     mset (bucketed rest) + mset selected = mset (bucketed buckets) \<and>
     length selected = min limit (length (bucketed buckets))"
proof -
  let ?b = "\<lambda>(bs :: buckets, selected :: nat list). length selected < limit \<and> list_ex (\<lambda>(_, bucket). bucket \<noteq> []) bs"
  let ?c = "\<lambda>(bs, selected). take_round limit bs selected"
  let ?P = "\<lambda>(bs, selected). mset (bucketed bs) + mset selected = mset (bucketed buckets) \<and> length selected \<le> limit"
  have step: "?P (?c s) \<and> length (bucketed (fst (?c s))) < length (bucketed (fst s))" if "?P s" "?b s" for s
  proof -
    obtain bs selected where s: "s = (bs, selected)" by (cases s)
    obtain bs' selected' where r: "take_round limit bs selected = (bs', selected')" by force
    have m: "mset (bucketed bs') + mset selected' = mset (bucketed bs) + mset selected"
      using r by (rule take_round_mset)
    have "length (bucketed bs') + length selected' = length (bucketed bs) + length selected"
      using arg_cong [OF m, of size] by simp
    moreover have "length selected < length selected'"
      using take_round_progress [OF r] that s by simp
    ultimately show ?thesis
      using that s r m take_round_bounded [OF r] by simp
  qed
  have init: "?P (buckets, [])" by simp
  obtain t where t: "while_option ?b ?c (buckets, []) = Some t"
    using measure_while_option_Some [of ?P ?b ?c "\<lambda>s. length (bucketed (fst s))", OF step init] by blast
  have P: "?P t"
    by (rule while_option_rule [of ?P, OF conjunct1 [OF step] t init])
  obtain rest selected where ts: "t = (rest, selected)" by (cases t)
  have stop: "limit \<le> length selected \<or> length (bucketed rest) = 0"
    using while_option_stop [OF t] ts unfolding bucketed_empty_iff by auto
  have le: "length selected \<le> limit"
    using P ts by simp
  have m: "mset (bucketed rest) + mset selected = mset (bucketed buckets)"
    using P ts by simp
  have "length (bucketed rest) + length selected = length (bucketed buckets)"
    using arg_cong [OF m, of size] by simp
  then have "length selected = min limit (length (bucketed buckets))"
    using le stop by linarith
  then show ?thesis
    using t P ts by (auto simp: round_robin_def)
qed

lemma bucketed_bt_insert:
  "bt_wf m \<Longrightarrow> mset (bucketed (bt_insert k (unwrap_or [] (map_of m k) @ [i]) m)) = add_mset i (mset (bucketed m))"
proof (induction m)
  case (Cons p m)
  obtain k' v' where p: "p = (k', v')" by (cases p)
  have wf: "bt_wf m" and above: "\<forall>x\<in>fst ` set m. k' < x"
    using Cons.prems p by (auto simp: bt_wf_def)
  have "map_of m k = None" if "k < k'"
    using above that by (auto simp: map_of_eq_None_iff)
  then show ?case
    using Cons.IH [OF wf] p by (auto simp: ac_simps)
qed simp

lemma fill_buckets_mset: "mset (bucketed (fill_buckets h rows indices field)) = mset indices"
proof -
  let ?f = "\<lambda>idx. bt_entry
         (unwrap_or ''default'' (Option.bind (row_path_value (rows ! idx) field) (value_to_bucket_key h)))
         [] (\<lambda>bucket. bucket @ [idx])"
  have "bt_wf m \<Longrightarrow> mset (bucketed (fold ?f indices m)) = mset indices + mset (bucketed m)" for m
    by (induction indices arbitrary: m) (simp_all add: bt_entry_def bucketed_bt_insert)
  from this [of "[]"] show ?thesis
    by (simp add: fill_buckets_def)
qed

lemma stratified_returns:
  "\<exists>selected. stratified_minibatch_indices h rows indices limit field = Some selected \<and>
     mset selected \<subseteq># mset indices \<and>
     (selected = [] \<or> length selected = min limit (length indices))"
proof (cases "length (fill_buckets h rows indices field) \<le> 1")
  case True
  then show ?thesis by (simp add: stratified_minibatch_indices_def)
next
  case False
  let ?bs = "fill_buckets h rows indices field"
  obtain rest selected where r: "round_robin limit ?bs = Some (rest, selected)"
      "mset (bucketed rest) + mset selected = mset (bucketed ?bs)"
      "length selected = min limit (length (bucketed ?bs))"
    using round_robin_returns by blast
  have len: "length (bucketed ?bs) = length indices"
    using arg_cong [OF fill_buckets_mset, of size] by simp
  have "mset selected \<subseteq># mset indices"
    using r(2) unfolding fill_buckets_mset by (metis mset_subset_eq_add_right)
  then show ?thesis
    using False r len by (auto simp: stratified_minibatch_indices_def Let_def)
qed

subsection \<open>Every batch is a sample without repetition\<close>

lemma mset_nths_subset:
  assumes "distinct idxs" "set idxs \<subseteq> {..<length rows}"
  shows "mset (map (\<lambda>i. rows ! i) idxs) \<subseteq># mset rows"
proof -
  have "mset idxs \<subseteq># mset [0..<length rows]"
    using assms by (simp add: mset_set_upto_eq_mset_upto [symmetric] mset_set_set [symmetric] subset_imp_msubset_mset_set lessThan_atLeast0)
  then have "image_mset (\<lambda>i. rows ! i) (mset idxs) \<subseteq># image_mset (\<lambda>i. rows ! i) (mset [0..<length rows])"
    by (rule image_mset_subseteq_mono)
  also have "image_mset (\<lambda>i. rows ! i) (mset [0..<length rows]) = mset rows"
    by (metis map_nth mset_map)
  finally show ?thesis by simp
qed

lemma distinct_mset_subset:
  assumes "mset xs \<subseteq># mset ys" "distinct ys"
  shows "distinct xs"
proof -
  obtain zs where "mset ys = mset (xs @ zs)"
    using assms(1) by (metis ex_mset mset_append mset_subset_eq_exists_conv)
  then show ?thesis
    using assms(2) mset_eq_imp_distinct_iff by (metis distinct_append)
qed

lemma mod_shift_inj:
  fixes s a b l :: nat
  assumes "(s + a) mod l = (s + b) mod l" "a < l" "b < l"
  shows "a = b"
proof -
  have "x = y" if "(s + x) mod l = (s + y) mod l" "y \<le> x" "x < l" for x y
  proof -
    have "l dvd x - y"
      using that(1,2) mod_eq_dvd_iff_nat [of "s + y" "s + x" l] by simp
    then show ?thesis
      using that(2,3) by (metis diff_is_0_eq dvd_imp_le le_antisym less_imp_diff_less linorder_not_less not_gr_zero)
  qed
  from this [of a b] this [of b a] assms show ?thesis
    by (cases "b \<le> a") auto
qed

lemma distinct_window:
  assumes "n \<le> length (indices :: 'a list)" "distinct indices"
  shows "distinct (map (\<lambda>offset. indices ! ((start + offset) mod length indices)) [0..<n])"
proof -
  have "inj_on (\<lambda>offset. indices ! ((start + offset) mod length indices)) {..<n}"
  proof (rule inj_onI)
    fix a b
    assume ab: "a \<in> {..<n}" "b \<in> {..<n}"
      and eq: "indices ! ((start + a) mod length indices) = indices ! ((start + b) mod length indices)"
    have "0 < length indices"
      using ab assms(1) by auto
    then have "(start + a) mod length indices = (start + b) mod length indices"
      using eq assms(2) by (simp add: nth_eq_iff_index_eq)
    then show "a = b"
      using ab assms(1) by (intro mod_shift_inj [of start a "length indices" b]) auto
  qed
  then show ?thesis
    by (simp add: distinct_map lessThan_atLeast0)
qed

lemma shuffle_perm: "mset (deterministic_shuffle_indices h indices rows g p s) = mset indices"
  by (simp add: deterministic_shuffle_indices_def)

lemma batch_size_bounds:
  "rows \<noteq> [] \<Longrightarrow> 1 \<le> batch_size m (length rows) \<and> batch_size m (length rows) \<le> length rows"
  by (cases rows) (auto simp: batch_size_def)

lemma minibatch_indices:
  assumes "rows \<noteq> []"
  shows "\<exists>idxs. minibatch_rows h rows sampler m generation proposal_index ppg = Some (map (\<lambda>i. rows ! i) idxs) \<and>
     distinct idxs \<and> set idxs \<subseteq> {..<length rows} \<and> length idxs = batch_size m (length rows)"
proof (cases "length rows \<le> batch_size m (length rows)")
  case True
  then have "length rows = batch_size m (length rows)"
    using batch_size_bounds [OF assms, of m] by simp
  with True assms show ?thesis
    by (intro exI [of _ "[0..<length rows]"]) (auto simp: minibatch_rows_def map_nth)
next
  case False
  define n where "n = batch_size m (length rows)"
  define strategy where "strategy = normalize_gepa_batch_sampler_name (bs_name sampler)"
  define indices where "indices = (if strategy \<noteq> ''ordered_epoch''
      then deterministic_shuffle_indices h [0..<length rows] rows generation proposal_index strategy
      else [0..<length rows])"
  have ix: "mset indices = mset [0..<length rows]"
    by (simp add: indices_def shuffle_perm)
  have props: "distinct indices" "set indices = {..<length rows}" "length indices = length rows"
    using mset_eq_imp_distinct_iff [OF ix] mset_eq_setD [OF ix] mset_eq_length [OF ix]
    by (simp_all add: lessThan_atLeast0)
  have n: "1 \<le> n" "n \<le> length rows"
    using batch_size_bounds [OF assms] unfolding n_def by blast+
  obtain selected where sel:
    "stratified_minibatch_indices h rows indices n (stratified_field sampler) = Some selected"
    "mset selected \<subseteq># mset indices" "selected = [] \<or> length selected = min n (length indices)"
    using stratified_returns [of h rows indices n "stratified_field sampler"] by blast
  define window where "window = map (\<lambda>offset. indices ! ((epoch_start sampler n (length indices) generation
      proposal_index ppg + offset) mod length indices)) [0..<n]"
  define idxs where "idxs = (if strategy = ''epoch_shuffled'' \<or> strategy = ''ordered_epoch'' then window
      else if strategy = ''stratified'' \<and> selected \<noteq> [] then selected else take n indices)"
  have eq: "minibatch_rows h rows sampler m generation proposal_index ppg = Some (map (\<lambda>i. rows ! i) idxs)"
    unfolding minibatch_rows_def Let_def
    unfolding n_def [symmetric] strategy_def [symmetric]
    unfolding indices_def [symmetric]
    using False assms sel(1) by (simp add: idxs_def window_def n_def)
  have nz: "0 < length indices"
    using assms props(3) by simp
  then have "distinct window" "set window \<subseteq> {..<length rows}" "length window = n"
    using distinct_window [of n indices] props(1,3) n(2) nth_mem [OF mod_less_divisor [OF nz]]
    unfolding window_def by (auto simp: props(2) [symmetric])
  moreover have "distinct selected" "set selected \<subseteq> {..<length rows}"
    using distinct_mset_subset [OF sel(2) props(1)] set_mset_mono [OF sel(2)] props(2) by simp_all
  moreover have "set (take n indices) \<subseteq> {..<length rows}"
    using set_take_subset [of n indices] props by simp
  ultimately have "distinct idxs" "set idxs \<subseteq> {..<length rows}" "length idxs = n"
    using props n sel(3) by (auto simp: idxs_def)
  with eq show ?thesis
    unfolding n_def by blast
qed

text \<open>
  C22. A minibatch is drawn for every pool, sampler and position in the search, whatever the digests
  and the field values: the sampling loops end, the batch has exactly the configured number of rows
  (at least one, and at most the pool), and no row of the pool is used twice.
\<close>

theorem minibatch_is_sample:
  "\<exists>batch. minibatch_rows h rows sampler minibatch_size generation proposal_index ppg = Some batch \<and>
     mset batch \<subseteq># mset rows \<and>
     length batch = (if rows = [] then 0 else max (min (unat minibatch_size) (length rows)) 1)"
proof (cases "rows = []")
  case True
  then show ?thesis by (simp add: minibatch_rows_def)
next
  case False
  then obtain idxs where idxs:
    "minibatch_rows h rows sampler minibatch_size generation proposal_index ppg = Some (map (\<lambda>i. rows ! i) idxs)"
    "distinct idxs" "set idxs \<subseteq> {..<length rows}" "length idxs = batch_size minibatch_size (length rows)"
    using minibatch_indices by blast
  with False mset_nths_subset [OF idxs(2,3)] show ?thesis
    by (simp add: batch_size_def)
qed

subsection \<open>The ordered epoch visits the whole pool\<close>

lemma unat_of_nat_small: "n < 2 ^ 64 \<Longrightarrow> unat (of_nat n :: u64) = n"
  by (simp add: unat_of_nat)

lemma max_one_word: "p \<noteq> 0 \<Longrightarrow> max p 1 = (p :: 'a::len word)"
  by (rule max_absorb1) (simp add: word_le_nat_alt Suc_le_eq unat_gt_0)

text \<open>The window of the \<open>c\<close>-th proposal of the search, as long as its position fits a machine integer.\<close>

lemma epoch_start_exact:
  assumes "bs_epoch_width sampler = None" "1 \<le> n" "n < 2 ^ 64" "p \<noteq> 0" "c * n < 2 ^ 64"
  shows "epoch_start sampler n l (of_nat (c div unat p)) (of_nat (c mod unat p)) p = c * n mod l"
proof -
  have c: "c < 2 ^ 64"
    using assms(2,5) by (metis le_less_trans mult.right_neutral mult_le_mono2)
  have parts: "unat (of_nat (c div unat p) :: u64) = c div unat p" "unat (of_nat (c mod unat p) :: u64) = c mod unat p"
    using c by (meson unat_of_nat_small div_le_dividend mod_less_eq_dividend le_less_trans)+
  have p1: "max p 1 = p"
    using assms(4) by (rule max_one_word)
  have gen: "unat (saturating_mul (of_nat (c div unat p)) p) = c div unat p * unat p"
    using c parts(1) by (subst saturating_mul_exact) (auto intro: le_less_trans [OF div_times_less_eq_dividend])
  have cur: "unat (saturating_add (saturating_mul (of_nat (c div unat p)) p) (of_nat (c mod unat p))) = c"
    using c gen parts(2) by (simp add: sat_simps)
  have n1: "unat (max (of_nat n :: u64) 1) = n"
  proof -
    have "(of_nat n :: u64) \<noteq> 0"
      using assms(2) unat_of_nat_small [OF assms(3)] by auto
    then have "max (of_nat n :: u64) 1 = of_nat n"
      by (rule max_one_word)
    then show ?thesis
      using unat_of_nat_small [OF assms(3)] by simp
  qed
  show ?thesis
    using assms(1,5) by (simp add: epoch_start_def Let_def p1 saturating_mul_exact cur n1)
qed

lemma residue_reached:
  fixes a r l :: nat
  assumes "r < l"
  obtains x where "a \<le> x" "x < a + l" "x mod l = r"
proof
  let ?d = "(r + l - a mod l) mod l"
  show "a \<le> a + ?d" "a + ?d < a + l"
    using assms by simp_all
  have "a mod l < l"
    using assms by simp
  have "(a + ?d) mod l = (a mod l + (r + l - a mod l)) mod l"
    by (metis mod_add_eq mod_mod_trivial)
  also have "a mod l + (r + l - a mod l) = r + l"
    using \<open>a mod l < l\<close> by simp
  also have "(r + l) mod l = r"
    using assms by simp
  finally show "(a + ?d) mod l = r" .
qed


definition sample_pool :: "json list" where
  "sample_pool = map (\<lambda>i. JObj [(''task_id'', JStr [i])]) ''abcde''"


end
