(* ===== verification/Score_Decision.thy ===== *)
theory Score_Decision
  imports Candidate_Frontier Config_Validation
begin

text \<open>
  \<open>lib.rs\<close>, decisions from score vectors: collecting the scores of a candidate on a list of rows into
  a vector, preferring one vector to another, the acceptance criteria for a proposal, and the choice
  of the best candidate on the training and on the held-out rows.

  Formatted numbers (\<open>{:.17}\<close>) are those of the Rust standard library: the exact value rounded
  half to even at the seventeenth decimal.
\<close>

subsection \<open>Records\<close>

record candidate_score_vector_input =
  cv_objective_set :: objective_set_record
  cv_candidate :: candidate_record
  cv_rows :: "json list"
  cv_split :: string
  cv_source_stages :: "string list"
  cv_evaluation_stage :: string

record score_vector_preference_input =
  pi_objective_set :: objective_set_record
  pi_split :: string
  pi_evaluation_stage :: string
  pi_challenger :: score_vector_record
  pi_incumbent :: score_vector_record
  pi_accept_equal :: bool
  pi_acceptance_criterion :: "string option"
  pi_objective_acceptance :: "gepa_objective_acceptance_config option"
  pi_margin :: f64

record score_vector_preference =
  pr_preferred :: bool
  pr_result :: string
  pr_reason :: string
  pr_score :: json
  pr_metadata :: json_map

subsection \<open>Score vectors of candidates\<close>

definition score_vector_frame_matches_split :: "sensor_frame \<Rightarrow> string \<Rightarrow> string list \<Rightarrow> bool" where
  "score_vector_frame_matches_split frame requested_split source_stages \<longleftrightarrow>
     sf_split frame = requested_split \<or>
     sf_split frame = ''heldout'' \<and> sf_evaluation_stage frame = ''heldout'' \<and> ''heldout'' \<in> set source_stages"

definition score_records_for_vector_frame ::
  "hashing \<Rightarrow> objective_set_record \<Rightarrow> string list \<Rightarrow> sensor_frame \<Rightarrow> score_record list" where
  "score_records_for_vector_frame h oset declared frame =
     List.map_filter (\<lambda>s.
         map_option (\<lambda>obj. score_record_from_sensor_frame h frame obj s)
           (find (\<lambda>obj. sp_name obj = os_objective s) (ob_objectives oset)))
       (filter (\<lambda>s. os_objective s \<in> set declared) (sf_objective_scores frame))"

definition score_record_material_key :: "score_record list \<Rightarrow> string" where
  "score_record_material_key scores =
     join_with [CHR 0x01] (sort (map (\<lambda>s. sc_objective s @ [CHR 0x00] @ sc_source s @ [CHR 0x00] @
       f64_format 17 (sc_value s)) scores))"

fun first_duplicate :: "string list \<Rightarrow> string list \<Rightarrow> string option" where
  "first_duplicate seen [] = None"
| "first_duplicate seen (x # xs) = (if x \<in> set seen then Some x else first_duplicate (x # seen) xs)"

definition matching_frames :: "candidate_score_vector_input \<Rightarrow> string \<Rightarrow> sensor_frame list" where
  "matching_frames inp example_id =
     filter (\<lambda>frame.
         score_vector_frame_matches_split frame (cv_split inp) (cv_source_stages inp) \<and>
         sf_evaluation_stage frame \<in> set (cv_source_stages inp) \<and> sf_example_id frame = example_id)
       (ca_sensor_frames (cv_candidate inp))"

definition row_score_sets ::
  "hashing \<Rightarrow> candidate_score_vector_input \<Rightarrow> string list \<Rightarrow> string \<Rightarrow> (string \<times> score_record list) list" where
  "row_score_sets h inp declared example_id =
     fold (\<lambda>frame sets.
         let row_scores = score_records_for_vector_frame h (cv_objective_set inp) declared frame
         in if row_scores = [] then sets else bt_entry (score_record_material_key row_scores) row_scores id sets)
       (matching_frames inp example_id) []"

definition about_vector :: "candidate_score_vector_input \<Rightarrow> string" where
  "about_vector inp =
     ''candidate='' @ ca_candidate_id (cv_candidate inp) @ '' split='' @ cv_split inp @
     '' evaluation_stage='' @ cv_evaluation_stage inp"

definition row_scores_of ::
  "hashing \<Rightarrow> candidate_score_vector_input \<Rightarrow> string list \<Rightarrow> string \<Rightarrow> (score_record list \<times> nat) result" where
  "row_scores_of h inp declared example_id =
     (let stages = '' source_stages='' @ debug_list (cv_source_stages inp)
      in case row_score_sets h inp declared example_id of
        [] \<Rightarrow> Inl (Invariant (''missing score vector material for '' @ about_vector inp @ stages @
                ''; no declared objective scores matched requested row '' @ example_id))
      | [(_, row_scores)] \<Rightarrow> Inr (row_scores, length (matching_frames inp example_id) - 1)
      | sets \<Rightarrow> Inl (Invariant (''conflicting score vector material for '' @ about_vector inp @ stages @
                ''; requested row '' @ example_id @ '' matched '' @ show_dec (int (length sets)) @
                '' distinct score payloads'')))"

fun collect_row_scores ::
  "(string \<Rightarrow> (score_record list \<times> nat) result) \<Rightarrow> string list \<Rightarrow> score_record list \<Rightarrow> nat \<Rightarrow>
   (score_record list \<times> nat) result" where
  "collect_row_scores f [] scores duplicates = Inr (scores, duplicates)"
| "collect_row_scores f (example_id # rest) scores duplicates =
     (case f example_id of
        Inl e \<Rightarrow> Inl e
      | Inr (row_scores, n) \<Rightarrow> collect_row_scores f rest (scores @ row_scores) (duplicates + n))"

definition check_score_vector :: "candidate_score_vector_input \<Rightarrow> string list \<Rightarrow> score_vector_record \<Rightarrow> unit result" where
  "check_score_vector inp row_ids vector =
     (let missing = filter (\<lambda>i. i \<notin> set (sv_example_ids vector)) (bt_set row_ids)
      in if missing \<noteq> []
         then Inl (Invariant (''score vector for '' @ about_vector inp @ '' is missing requested rows '' @ debug_list missing))
         else if sv_missing_objectives vector \<noteq> []
         then Inl (Invariant (''score vector for '' @ about_vector inp @ '' is missing objectives '' @
                debug_list (sv_missing_objectives vector)))
         else if sv_selection_score vector = None
         then Inl (Invariant (''score vector for '' @ about_vector inp @ '' has no selection objective '' @
                str_debug (ob_selection_objective (cv_objective_set inp))))
         else Inr ())"

definition vector_metadata :: "candidate_score_vector_input \<Rightarrow> string list \<Rightarrow> nat \<Rightarrow> json_map" where
  "vector_metadata inp row_ids duplicates =
     obj_of [(''source'', JStr ''gepa.decision_bridge''), (''source_stages'', json_strs (cv_source_stages inp)),
             (''row_count'', json_u64 (of_nat (length (cv_rows inp)))), (''requested_example_ids'', json_strs row_ids),
             (''deduped_duplicate_frame_count'', json_u64 (of_nat duplicates))]"

definition score_vector_for_candidate :: "hashing \<Rightarrow> candidate_score_vector_input \<Rightarrow> score_vector_record result" where
  "score_vector_for_candidate h inp =
     (case collect_results (task_identity h) (cv_rows inp) of
        Inl e \<Rightarrow> Inl e
      | Inr row_ids \<Rightarrow>
        (case first_duplicate [] row_ids of
           Some i \<Rightarrow> Inl (Invariant (''score vector for '' @ about_vector inp @ '' requested duplicate row '' @ i))
         | None \<Rightarrow>
           (let declared = bt_set (map sp_name (ob_objectives (cv_objective_set inp)))
            in case collect_row_scores (row_scores_of h inp declared) row_ids [] 0 of
                 Inl e \<Rightarrow> Inl e
               | Inr (scores, duplicates) \<Rightarrow>
                   if scores = []
                   then Inl (Invariant (''missing score vector material for '' @ about_vector inp @ '' source_stages='' @
                          debug_list (cv_source_stages inp) @ ''; no declared objective scores matched '' @
                          show_dec (int (length row_ids)) @ '' requested rows''))
                   else let vector = score_vector_from_scores h (cv_objective_set inp) (ca_candidate_id (cv_candidate inp))
                              (cv_split inp) (cv_evaluation_stage inp) scores (vector_metadata inp row_ids duplicates)
                        in case check_score_vector inp row_ids vector of Inl e \<Rightarrow> Inl e | Inr _ \<Rightarrow> Inr vector)))"

subsection \<open>Paired minibatches\<close>

fun average_reward_loop ::
  "hashing \<Rightarrow> candidate_record \<Rightarrow> string \<Rightarrow> string list \<Rightarrow> json list \<Rightarrow> f64 \<Rightarrow> f64 option result" where
  "average_reward_loop h candidate split source_stages [] acc = Inr (Some acc)"
| "average_reward_loop h candidate split source_stages (row # rows) acc =
     (case task_identity h row of
        Inl e \<Rightarrow> Inl e
      | Inr example_id \<Rightarrow>
          (case find (\<lambda>frame. sf_split frame = split \<and> sf_example_id frame = example_id \<and>
                  sf_evaluation_stage frame \<in> set source_stages) (ca_sensor_frames candidate) of
             None \<Rightarrow> Inr None
           | Some frame \<Rightarrow> average_reward_loop h candidate split source_stages rows (f64_add acc (sf_reward frame))))"

definition average_reward_for_candidate_rows_from_stages ::
  "hashing \<Rightarrow> candidate_record \<Rightarrow> json list \<Rightarrow> string \<Rightarrow> string list \<Rightarrow> f64 option result" where
  "average_reward_for_candidate_rows_from_stages h candidate rows split source_stages =
     (if rows = [] then Inr (Some f64_zero)
      else case average_reward_loop h candidate split source_stages rows f64_zero of
        Inl e \<Rightarrow> Inl e
      | Inr acc \<Rightarrow> Inr (map_option (\<lambda>t. f64_div t (f64_of_nat (length rows))) acc))"

definition parent_minibatch_reward_for_rows ::
  "hashing \<Rightarrow> candidate_record \<Rightarrow> json list \<Rightarrow> string \<Rightarrow> f64 option result" where
  "parent_minibatch_reward_for_rows h candidate rows split =
     average_reward_for_candidate_rows_from_stages h candidate rows split [''parent_minibatch_reference'']"

definition ensure_matching_minibatch_ids ::
  "string \<Rightarrow> string list \<Rightarrow> string list \<Rightarrow> score_vector_record \<Rightarrow> score_vector_record \<Rightarrow> unit result" where
  "ensure_matching_minibatch_ids label candidate_ids parent_ids candidate parent =
     (let candidate_set = bt_set candidate_ids; parent_set = bt_set parent_ids
      in if candidate_set = parent_set then Inr ()
         else Inl (Invariant (''paired minibatch score vectors must have identical '' @ label @ '' sets: candidate='' @
           sv_candidate_id candidate @ '' parent='' @ sv_candidate_id parent @
           '' candidate_stage='' @ sv_evaluation_stage candidate @ '' parent_stage='' @ sv_evaluation_stage parent @
           '' missing_from_parent='' @ debug_list (filter (\<lambda>i. i \<notin> set parent_set) candidate_set) @
           '' missing_from_candidate='' @ debug_list (filter (\<lambda>i. i \<notin> set candidate_set) parent_set))))"

definition ensure_paired_minibatch_score_vectors :: "score_vector_record \<Rightarrow> score_vector_record \<Rightarrow> unit result" where
  "ensure_paired_minibatch_score_vectors candidate parent =
     check_all
       [ensure_matching_minibatch_ids ''task_id'' (sv_task_ids candidate) (sv_task_ids parent) candidate parent,
        ensure_matching_minibatch_ids ''example_id'' (sv_example_ids candidate) (sv_example_ids parent) candidate parent]"

definition minibatch_reflection_alignment :: "hashing \<Rightarrow> json list \<Rightarrow> json list \<Rightarrow> json result" where
  "minibatch_reflection_alignment h minibatch reflection =
     (case collect_results (task_identity h) minibatch of Inl e \<Rightarrow> Inl e
      | Inr minibatch_ids \<Rightarrow>
        (case collect_results (task_identity h) reflection of Inl e \<Rightarrow> Inl e
         | Inr reflection_ids \<Rightarrow>
           (let missing = filter (\<lambda>i. i \<notin> set reflection_ids) (bt_set minibatch_ids)
            in if missing \<noteq> []
               then Inl (Invariant (''minibatch rows must be a subset of reflection rows; missing_from_reflection='' @
                      debug_list missing))
               else Inr (JObj (obj_of
                 [(''minibatch_task_ids'', json_strs (bt_set minibatch_ids)),
                  (''reflection_task_ids'', json_strs (bt_set reflection_ids)),
                  (''minibatch_subset_of_reflection'', JBool True)])))))"

subsection \<open>Preferences\<close>

definition pareto_comparison_json :: "pareto_comparison_record \<Rightarrow> json" where
  "pareto_comparison_json c =
     JObj (obj_of
       [(''schema_version'', JStr (pc_schema_version c)), (''pareto_comparison_id'', JStr (pc_pareto_comparison_id c)),
        (''objective_set_id'', JStr (pc_objective_set_id c)), (''objective_set_hash'', JStr (pc_objective_set_hash c)),
        (''frontier_type'', JStr (pc_frontier_type c)), (''split'', JStr (pc_split c)),
        (''evaluation_stage'', JStr (pc_evaluation_stage c)),
        (''challenger_candidate_id'', JStr (pc_challenger_candidate_id c)),
        (''incumbent_candidate_id'', JStr (pc_incumbent_candidate_id c)),
        (''challenger_score_vector_id'', JStr (pc_challenger_score_vector_id c)),
        (''incumbent_score_vector_id'', JStr (pc_incumbent_score_vector_id c)),
        (''result'', JStr (pc_result c)), (''dominance'', pc_dominance c), (''rationale'', JStr (pc_rationale c)),
        (''metadata'', JObj (pc_metadata c))])"

text \<open>The members that both kinds of decision score share.\<close>

definition decision_members ::
  "score_vector_preference_input \<Rightarrow> pareto_comparison_record \<Rightarrow> f64 option \<Rightarrow> (string \<times> json) list" where
  "decision_members inp comparison selection_delta =
     [(''schema_version'', JStr ''gepa_decision_score.v1''),
      (''selection_objective'', JStr (ob_selection_objective (pi_objective_set inp))),
      (''objective_set_id'', JStr (ob_objective_set_id (pi_objective_set inp))),
      (''objective_set_hash'', JStr (ob_objective_set_hash (pi_objective_set inp))),
      (''frontier_type'', JStr (ob_frontier_type (pi_objective_set inp))),
      (''split'', JStr (pi_split inp)), (''evaluation_stage'', JStr (pi_evaluation_stage inp)),
      (''comparison_result'', JStr (pc_result comparison)), (''comparison'', pareto_comparison_json comparison),
      (''challenger_score_vector_id'', JStr (sv_score_vector_id (pi_challenger inp))),
      (''incumbent_score_vector_id'', JStr (sv_score_vector_id (pi_incumbent inp))),
      (''challenger_selection_score'', json_f64_opt (sv_selection_score (pi_challenger inp))),
      (''incumbent_selection_score'', json_f64_opt (sv_selection_score (pi_incumbent inp))),
      (''selection_delta'', json_f64_opt selection_delta)]"

definition objective_deltas_for_vectors ::
  "objective_set_record \<Rightarrow> score_vector_record \<Rightarrow> score_vector_record \<Rightarrow> (string \<times> f64) list" where
  "objective_deltas_for_vectors oset challenger incumbent =
     bt_collect (List.map_filter (\<lambda>obj.
         map_option (\<lambda>(left, right).
             (sp_name obj, f64_mul (f64_sub left right) (objective_direction_multiplier (sp_direction obj))))
           (opt_zip (objective_value challenger (sp_name obj)) (objective_value incumbent (sp_name obj))))
       (ob_objectives oset))"

definition objective_values_as_f64 :: "json_map \<Rightarrow> (string \<times> f64) list" where
  "objective_values_as_f64 m =
     bt_collect (List.map_filter (\<lambda>(objective, v). map_option (Pair objective) (as_f64 v)) m)"

text \<open>
  \<open>max_by\<close> with \<open>partial_cmp\<close>, NaN counted as equal, and the smaller name first among equal deltas.
\<close>

definition best_objective_delta :: "(string \<times> f64) list \<Rightarrow> string \<times> f64" where
  "best_objective_delta deltas =
     unwrap_or ('''', f64_zero)
       (max_by (\<lambda>left right. f64_lt (snd right) (snd left) \<or>
                  \<not> f64_lt (snd left) (snd right) \<and> fst left < fst right) deltas)"

definition protected_objectives :: "gepa_objective_acceptance_config \<Rightarrow> (string \<times> f64) list \<Rightarrow> string list" where
  "protected_objectives config deltas =
     (let configured = filter (\<lambda>obj. obj \<noteq> []) (map trim (oa_protected_objectives config))
      in if configured = [] then map fst deltas else configured)"

definition normalize_gepa_acceptance_criterion :: "string \<Rightarrow> string" where
  "normalize_gepa_acceptance_criterion criterion =
     (let c = normalize_enum_value criterion
      in if c \<in> set [''improvement_or_equal'', ''primary_or_objective'', ''any_objective_improved'',
                     ''protected_objective_guard''] then c
         else ''primary_improvement'')"

definition default_min_delta :: f64 where
  "default_min_delta = f64_lit (5 / 100)"

definition default_tolerance :: f64 where
  "default_tolerance = f64_lit (10 / 100)"

definition min_delta_of :: "gepa_objective_acceptance_config \<Rightarrow> f64" where
  "min_delta_of config = unwrap_or default_min_delta (oa_min_objective_delta config)"

definition tolerance_of :: "gepa_objective_acceptance_config \<Rightarrow> f64" where
  "tolerance_of config = unwrap_or default_tolerance (oa_objective_regression_tolerance config)"

definition protected_ok :: "gepa_objective_acceptance_config \<Rightarrow> (string \<times> f64) list \<Rightarrow> bool" where
  "protected_ok config deltas \<longleftrightarrow>
     list_all (\<lambda>obj. f64_le (f64_neg (tolerance_of config)) (unwrap_or f64_zero (map_of deltas obj)))
       (protected_objectives config deltas)"

text \<open>The verdict of a criterion, its reason and the deltas it looked at.\<close>

definition acceptance_verdict ::
  "string \<Rightarrow> f64 \<Rightarrow> f64 \<Rightarrow> (string \<times> f64) list \<Rightarrow> gepa_objective_acceptance_config \<Rightarrow>
   bool \<times> string \<times> (string \<times> f64) list" where
  "acceptance_verdict criterion primary_delta margin deltas config =
     (let improved = f64_lt (f64_add margin f64_epsilon) primary_delta;
          best = best_objective_delta deltas;
          enough = f64_le (min_delta_of config) (snd best)
      in if criterion = ''improvement_or_equal''
         then let accepted = f64_le (f64_sub (f64_neg margin) f64_epsilon) primary_delta
              in (accepted, if accepted then ''primary_improvement_or_equal'' else ''primary_regressed'', [])
         else if criterion = ''primary_improvement''
         then (improved, if improved then ''primary_improvement'' else ''primary_not_improved'', [])
         else if improved then (True, ''primary_improvement'', deltas)
         else if deltas = [] then (False, ''no_objective_scores'', deltas)
         else if criterion = ''any_objective_improved''
         then (enough, if enough then ''objective_improvement:'' @ fst best else ''objective_delta_below_threshold'', deltas)
         else (enough \<and> protected_ok config deltas,
               if enough \<and> protected_ok config deltas then ''objective_improvement:'' @ fst best
               else if \<not> protected_ok config deltas then ''protected_objective_regression''
               else ''objective_delta_below_threshold'', deltas))"

definition json_f64_map :: "(string \<times> f64) list \<Rightarrow> json" where
  "json_f64_map m = JObj (map (\<lambda>(k, v). (k, json_f64 v)) m)"

definition acceptance_preference_from_vectors ::
  "score_vector_preference_input \<Rightarrow> pareto_comparison_record \<Rightarrow> f64 option \<Rightarrow> string \<Rightarrow>
   gepa_objective_acceptance_config \<Rightarrow> score_vector_preference result" where
  "acceptance_preference_from_vectors inp comparison selection_delta criterion0 config =
     (let criterion = normalize_gepa_acceptance_criterion criterion0
      in case selection_delta of
        None \<Rightarrow> Inl (Invariant (''acceptance criterion '' @ criterion @ '' needs selection scores for split='' @
                  pi_split inp @ '' evaluation_stage='' @ pi_evaluation_stage inp))
      | Some primary_delta \<Rightarrow>
          (let margin = f64_max (pi_margin inp) f64_zero;
               (accepted, reason, deltas) = acceptance_verdict criterion primary_delta margin
                 (objective_deltas_for_vectors (pi_objective_set inp) (pi_challenger inp) (pi_incumbent inp)) config
           in Inr \<lparr>pr_preferred = accepted, pr_result = pc_result comparison, pr_reason = reason,
                pr_score = JObj (obj_of (decision_members inp comparison selection_delta @
                  [(''decision_source'', JStr ''acceptance_criterion''), (''acceptance_criterion'', JStr criterion),
                   (''acceptance_reason'', JStr reason), (''accepted'', JBool accepted),
                   (''primary_delta'', json_f64 primary_delta), (''margin'', json_f64 margin),
                   (''objective_deltas'', json_f64_map deltas),
                   (''candidate_objectives'', json_f64_map (objective_values_as_f64 (sv_objective_values (pi_challenger inp)))),
                   (''parent_objectives'', json_f64_map (objective_values_as_f64 (sv_objective_values (pi_incumbent inp)))),
                   (''objective_acceptance'', JObj (obj_of
                     [(''min_objective_delta'', json_f64 (min_delta_of config)),
                      (''objective_regression_tolerance'', json_f64 (tolerance_of config)),
                      (''protected_objectives'', json_strs (oa_protected_objectives config))]))])),
                pr_metadata = obj_of
                  [(''decision_source'', JStr ''acceptance_criterion''), (''acceptance_criterion'', JStr criterion),
                   (''acceptance_reason'', JStr reason), (''comparison_result'', JStr (pc_result comparison))]\<rparr>))"

definition compare_score_vectors :: "hashing \<Rightarrow> score_vector_preference_input \<Rightarrow> score_vector_preference result" where
  "compare_score_vectors h inp =
     (let oset = pi_objective_set inp; direction = selection_objective_direction oset;
          comparison = pareto_comparison_from_vectors h oset (ob_frontier_type oset) (pi_split inp)
            (pi_evaluation_stage inp) (pi_challenger inp) (pi_incumbent inp)
            [(''source'', JStr ''gepa.decision_bridge'')];
          selection_delta = map_option (\<lambda>(left, right). f64_mul (f64_sub left right) direction)
            (opt_zip (sv_selection_score (pi_challenger inp)) (sv_selection_score (pi_incumbent inp)))
      in case pi_acceptance_criterion inp of
        Some criterion \<Rightarrow>
          acceptance_preference_from_vectors inp comparison selection_delta criterion
            (unwrap_or objective_acceptance_default (pi_objective_acceptance inp))
      | None \<Rightarrow>
          (let selection_prefers = map_option (\<lambda>delta.
                 if pi_accept_equal inp then f64_le (f64_neg f64_epsilon) delta else f64_lt f64_epsilon delta)
                 selection_delta;
               result = pc_result comparison;
               about = '' for split='' @ pi_split inp @ '' evaluation_stage='' @ pi_evaluation_stage inp;
               preferred =
                 (if result = ''challenger_dominates'' then Inr True
                  else if result = ''incumbent_dominates'' then Inr False
                  else if result = ''tie'' then Inr (pi_accept_equal inp)
                  else if result \<in> set [''mixed'', ''incomparable'']
                  then (case selection_prefers of
                          Some p \<Rightarrow> Inr p
                        | None \<Rightarrow> Inl (Invariant (''score-vector comparison result='' @ result @
                            '' needs selection scores'' @ about)))
                  else Inl (Invariant (''unknown score-vector comparison result='' @ result @ about)))
           in case preferred of
             Inl e \<Rightarrow> Inl e
           | Inr p \<Rightarrow>
               Inr \<lparr>pr_preferred = p, pr_result = result,
                 pr_reason = ''score-vector comparison result='' @ result @ '' selection_objective='' @
                   ob_selection_objective oset,
                 pr_score = JObj (obj_of (decision_members inp comparison selection_delta @
                   [(''decision_source'', JStr ''score_vector''),
                    (''direction'', JStr (if f64_le f64_zero direction then ''maximize'' else ''minimize''))])),
                 pr_metadata = obj_of
                   [(''decision_source'', JStr ''score_vector''), (''comparison_result'', JStr result)]\<rparr>))"

subsection \<open>The best candidates\<close>

definition train_stages :: "string list" where
  "train_stages = [''seed_full_train'', ''candidate_full_train'']"

text \<open>The comparison of two candidates on some rows, with the vectors of both, as the two selections make it.\<close>

definition compare_candidates ::
  "hashing \<Rightarrow> objective_set_record \<Rightarrow> json list \<Rightarrow> string \<Rightarrow> string list \<Rightarrow> string \<Rightarrow> candidate_record \<Rightarrow> candidate_record \<Rightarrow>
   score_vector_preference result" where
  "compare_candidates h oset rows split stages evaluation_stage challenger incumbent =
     (let vector = (\<lambda>c. score_vector_for_candidate h
            \<lparr>cv_objective_set = oset, cv_candidate = c, cv_rows = rows, cv_split = split, cv_source_stages = stages,
             cv_evaluation_stage = evaluation_stage\<rparr>)
      in case vector challenger of Inl e \<Rightarrow> Inl e
       | Inr challenger_vector \<Rightarrow>
         (case vector incumbent of Inl e \<Rightarrow> Inl e
          | Inr incumbent_vector \<Rightarrow>
            compare_score_vectors h
              \<lparr>pi_objective_set = oset, pi_split = split, pi_evaluation_stage = evaluation_stage,
               pi_challenger = challenger_vector, pi_incumbent = incumbent_vector, pi_accept_equal = False,
               pi_acceptance_criterion = None, pi_objective_acceptance = None, pi_margin = f64_zero\<rparr>))"

fun best_train_loop ::
  "hashing \<Rightarrow> objective_set_record \<Rightarrow> string \<Rightarrow> json list \<Rightarrow> candidate_record list \<Rightarrow> (nat \<times> candidate_record) list \<Rightarrow>
   nat option \<Rightarrow> nat option result" where
  "best_train_loop h oset split rows candidates [] best = Inr best"
| "best_train_loop h oset split rows candidates ((idx, candidate) # rest) best =
     (if \<not> candidate_train_selectable candidate then best_train_loop h oset split rows candidates rest best
      else case best of
        None \<Rightarrow> best_train_loop h oset split rows candidates rest (Some idx)
      | Some current_idx \<Rightarrow>
          if length candidates \<le> current_idx
          then Inl (Invariant (''best train candidate index '' @ show_dec (int current_idx) @ '' is outside candidate registry''))
          else (case compare_candidates h oset rows split train_stages ''train_parent_selection'' candidate
                       (candidates ! current_idx) of
                  Inl e \<Rightarrow> Inl e
                | Inr preference \<Rightarrow>
                    best_train_loop h oset split rows candidates rest
                      (if pr_preferred preference \<or> pr_result preference = ''tie'' \<and> current_idx < idx
                       then Some idx else best)))"

definition select_best_train_candidate ::
  "hashing \<Rightarrow> candidate_record list \<Rightarrow> objective_set_record \<Rightarrow> string \<Rightarrow> json list \<Rightarrow> nat option result" where
  "select_best_train_candidate h candidates oset train_split train_rows =
     best_train_loop h oset train_split train_rows candidates (enumerate 0 candidates) None"

record heldout_selection_input =
  hs_candidates :: "candidate_record list"
  hs_evaluated_indices :: "nat list"
  hs_objective_set :: objective_set_record
  hs_heldout_split :: string
  hs_heldout_rows :: "json list"
  hs_train_split :: string
  hs_train_rows :: "json list"
  hs_incumbent_idx :: "nat option"

definition has_heldout_reward :: "candidate_record list \<Rightarrow> nat \<Rightarrow> bool" where
  "has_heldout_reward candidates idx \<longleftrightarrow> idx < length candidates \<and> ca_heldout_reward (candidates ! idx) \<noteq> None"

text \<open>One challenge on the held-out rows; a tie goes to the better candidate on the training rows.\<close>

definition heldout_challenge :: "hashing \<Rightarrow> heldout_selection_input \<Rightarrow> nat \<Rightarrow> nat \<Rightarrow> bool result" where
  "heldout_challenge h inp idx current_idx =
     (let challenger = hs_candidates inp ! idx; incumbent = hs_candidates inp ! current_idx
      in case compare_candidates h (hs_objective_set inp) (hs_heldout_rows inp) (hs_heldout_split inp) [''heldout'']
                ''heldout_final_selection'' challenger incumbent of
           Inl e \<Rightarrow> Inl e
         | Inr preference \<Rightarrow>
             if pr_result preference = ''tie''
             then (case compare_candidates h (hs_objective_set inp) (hs_train_rows inp) (hs_train_split inp) train_stages
                          ''heldout_train_tiebreak'' challenger incumbent of
                     Inl e \<Rightarrow> Inl e
                   | Inr tiebreak \<Rightarrow> Inr (pr_preferred preference \<or> pr_preferred tiebreak))
             else Inr (pr_preferred preference))"

fun best_heldout_loop ::
  "hashing \<Rightarrow> heldout_selection_input \<Rightarrow> nat list \<Rightarrow> nat option \<Rightarrow> nat option result" where
  "best_heldout_loop h inp [] best = Inr best"
| "best_heldout_loop h inp (idx # rest) best =
     (if length (hs_candidates inp) \<le> idx
      then Inl (Invariant (''heldout candidate index '' @ show_dec (int idx) @ '' is outside candidate registry''))
      else if ca_heldout_reward (hs_candidates inp ! idx) = None \<or> best = Some idx then best_heldout_loop h inp rest best
      else case best of
        None \<Rightarrow> best_heldout_loop h inp rest (Some idx)
      | Some current_idx \<Rightarrow>
          if length (hs_candidates inp) \<le> current_idx
          then Inl (Invariant (''best heldout candidate index '' @ show_dec (int current_idx) @ '' is outside candidate registry''))
          else (case heldout_challenge h inp idx current_idx of
                  Inl e \<Rightarrow> Inl e
                | Inr wins \<Rightarrow> best_heldout_loop h inp rest (if wins then Some idx else best)))"

definition select_best_heldout_candidate :: "hashing \<Rightarrow> heldout_selection_input \<Rightarrow> nat option result" where
  "select_best_heldout_candidate h inp =
     best_heldout_loop h inp (hs_evaluated_indices inp)
       (opt_filter (\<lambda>idx. idx \<in> set (hs_evaluated_indices inp) \<and> has_heldout_reward (hs_candidates inp) idx)
         (hs_incumbent_idx inp))"

subsection \<open>What a score vector covers\<close>

lemma first_duplicate_None: "first_duplicate seen xs = None \<longleftrightarrow> distinct xs \<and> set xs \<inter> set seen = {}"
  by (induction seen xs rule: first_duplicate.induct) auto

lemma score_records_example:
  "s \<in> set (score_records_for_vector_frame h oset declared frame) \<Longrightarrow> sc_example_id s = sf_example_id frame"
  by (auto simp: score_records_for_vector_frame_def List.map_filter_def score_record_from_sensor_frame_def)

definition frame_payload :: "hashing \<Rightarrow> candidate_score_vector_input \<Rightarrow> sensor_frame \<Rightarrow> score_record list" where
  "frame_payload h inp frame =
     score_records_for_vector_frame h (cv_objective_set inp) (bt_set (map sp_name (ob_objectives (cv_objective_set inp)))) frame"

abbreviation scored_frames :: "hashing \<Rightarrow> candidate_score_vector_input \<Rightarrow> string \<Rightarrow> sensor_frame list" where
  "scored_frames h inp i \<equiv> filter (\<lambda>frame. frame_payload h inp frame \<noteq> []) (matching_frames inp i)"

lemma bt_wf_fold_entry: "bt_wf m \<Longrightarrow> bt_wf (fold (\<lambda>x. bt_entry (k x) (v x) id) xs m)"
  by (induction xs arbitrary: m) auto

lemma keys_fold_entry: "fst ` set (fold (\<lambda>x. bt_entry (k x) (v x) id) xs m) = k ` set xs \<union> fst ` set m"
  by (induction xs arbitrary: m) auto

lemma values_bt_entry: "snd ` set (bt_entry k v id m) \<subseteq> insert v (snd ` set m)"
  using set_bt_insert [of k "unwrap_or v (map_of m k)" m]
  by (cases "map_of m k") (force simp: bt_entry_def dest: map_of_SomeD)+

lemma values_fold_entry: "snd ` set (fold (\<lambda>x. bt_entry (k x) (v x) id) xs m) \<subseteq> v ` set xs \<union> snd ` set m"
proof (induction xs arbitrary: m)
  case (Cons x xs)
  have "snd ` set (fold (\<lambda>x. bt_entry (k x) (v x) id) xs (bt_entry (k x) (v x) id m)) \<subseteq>
      v ` set xs \<union> snd ` set (bt_entry (k x) (v x) id m)"
    by (rule Cons.IH)
  also have "\<dots> \<subseteq> v ` set xs \<union> insert (v x) (snd ` set m)"
    by (rule Un_mono [OF order_refl values_bt_entry])
  finally show ?case by (simp add: id_def)
qed simp

abbreviation payload_key :: "hashing \<Rightarrow> candidate_score_vector_input \<Rightarrow> sensor_frame \<Rightarrow> string" where
  "payload_key h inp frame \<equiv> score_record_material_key (frame_payload h inp frame)"

lemma row_score_sets_eq:
  "row_score_sets h inp (bt_set (map sp_name (ob_objectives (cv_objective_set inp)))) i =
   fold (\<lambda>frame. bt_entry (payload_key h inp frame) (frame_payload h inp frame) id) (scored_frames h inp i) []"
  unfolding row_score_sets_def fold_filter
  by (rule fold_cong) (auto simp: frame_payload_def Let_def fun_eq_iff)

text \<open>A row that is scored once has frames, they all carry the same scores, and one of them gives the scores.\<close>

lemma row_scores_of_ok:
  assumes "row_scores_of h inp (bt_set (map sp_name (ob_objectives (cv_objective_set inp)))) i = Inr (scores, n)"
  shows "\<exists>frame\<in>set (scored_frames h inp i). scores = frame_payload h inp frame"
    and "a \<in> set (scored_frames h inp i) \<Longrightarrow> b \<in> set (scored_frames h inp i) \<Longrightarrow>
         payload_key h inp a = payload_key h inp b"
proof -
  let ?sets = "row_score_sets h inp (bt_set (map sp_name (ob_objectives (cv_objective_set inp)))) i"
  obtain key where sets: "?sets = [(key, scores)]"
    using assms by (auto simp: row_scores_of_def Let_def split: list.splits prod.splits)
  have keys: "payload_key h inp ` set (scored_frames h inp i) = {key}"
    using keys_fold_entry [of "payload_key h inp" "frame_payload h inp" "scored_frames h inp i" "[]"]
      sets by (simp add: row_score_sets_eq)
  then show "payload_key h inp a = payload_key h inp b"
    if "a \<in> set (scored_frames h inp i)" "b \<in> set (scored_frames h inp i)"
    using that by (metis imageI singletonD)
  show "\<exists>frame\<in>set (scored_frames h inp i). scores = frame_payload h inp frame"
    using values_fold_entry [of "payload_key h inp" "frame_payload h inp" "scored_frames h inp i" "[]"]
      sets by (auto simp: row_score_sets_eq)
qed

lemma collect_row_scores_ok:
  assumes "collect_row_scores f ids scores0 n0 = Inr (scores, n)" "i \<in> set ids"
  shows "\<exists>rs m. f i = Inr (rs, m)"
  using assms by (induction f ids scores0 n0 rule: collect_row_scores.induct) (auto split: sum.splits)

lemma collect_row_scores_mem:
  "collect_row_scores f ids scores0 n0 = Inr (scores, n) \<Longrightarrow> s \<in> set scores \<Longrightarrow>
   s \<in> set scores0 \<or> (\<exists>i\<in>set ids. \<exists>rs m. f i = Inr (rs, m) \<and> s \<in> set rs)"
  by (induction f ids scores0 n0 rule: collect_row_scores.induct) (fastforce split: sum.splits prod.splits)+

lemma finite_selection_score: "Option.bind (map_of (score_means scores) k) as_f64 = Some x \<Longrightarrow> is_finite x"
proof -
  assume "Option.bind (map_of (score_means scores) k) as_f64 = Some x"
  then obtain v where "map_of (score_means scores) k = Some v" "as_f64 v = Some x"
    by (cases "map_of (score_means scores) k") auto
  moreover from this(1) have "v \<in> range json_f64"
    by (auto simp: score_means_def dest!: map_of_SomeD)
  ultimately show ?thesis
    by (auto simp: json_f64_def split: if_splits)
qed

lemma score_vector_for_candidateE:
  assumes "score_vector_for_candidate h inp = Inr v"
  obtains ids scores n where
    "collect_results (task_identity h) (cv_rows inp) = Inr ids" "distinct ids"
    "collect_row_scores (row_scores_of h inp (bt_set (map sp_name (ob_objectives (cv_objective_set inp))))) ids [] 0 =
       Inr (scores, n)"
    "v = score_vector_from_scores h (cv_objective_set inp) (ca_candidate_id (cv_candidate inp)) (cv_split inp)
       (cv_evaluation_stage inp) scores (vector_metadata inp ids n)"
    "check_score_vector inp ids v = Inr ()"
proof -
  let ?f = "row_scores_of h inp (bt_set (map sp_name (ob_objectives (cv_objective_set inp))))"
  obtain ids where ids: "collect_results (task_identity h) (cv_rows inp) = Inr ids"
    using assms by (cases "collect_results (task_identity h) (cv_rows inp)") (auto simp: score_vector_for_candidate_def)
  have dup: "first_duplicate [] ids = None"
    using assms ids by (cases "first_duplicate [] ids") (auto simp: score_vector_for_candidate_def)
  obtain scores n where scores: "collect_row_scores ?f ids [] 0 = Inr (scores, n)"
    using assms ids dup by (cases "collect_row_scores ?f ids [] 0") (auto simp: score_vector_for_candidate_def Let_def)
  let ?v = "score_vector_from_scores h (cv_objective_set inp) (ca_candidate_id (cv_candidate inp)) (cv_split inp)
       (cv_evaluation_stage inp) scores (vector_metadata inp ids n)"
  have "check_score_vector inp ids ?v = Inr () \<and> v = ?v"
  proof (cases "scores = []")
    case True
    then show ?thesis
      using assms ids dup scores by (simp add: score_vector_for_candidate_def Let_def)
  next
    case False
    then have "(case check_score_vector inp ids ?v of Inl e \<Rightarrow> Inl e | Inr _ \<Rightarrow> Inr ?v) = Inr v"
      using assms ids dup scores by (simp add: score_vector_for_candidate_def Let_def)
    then show ?thesis
      by (cases "check_score_vector inp ids ?v") simp_all
  qed
  then show thesis
    using that ids dup scores first_duplicate_None [of "[]" ids] by blast
qed

lemma check_score_vector_ok:
  "check_score_vector inp ids v = Inr () \<longleftrightarrow>
     set ids \<subseteq> set (sv_example_ids v) \<and> sv_missing_objectives v = [] \<and> sv_selection_score v \<noteq> None"
  by (auto simp: check_score_vector_def Let_def filter_empty_conv)

text \<open>
  C23. A score vector a decision rests on is complete: it covers exactly the requested rows, each of
  them once, every declared objective has a mean, the selection score is a finite number, and every
  row was scored by frames of the candidate that agree on all declared scores. Anything else is an
  error of the decision, never a vector.
\<close>

theorem score_vector_complete:
  assumes "score_vector_for_candidate h inp = Inr v"
  shows "\<exists>ids. collect_results (task_identity h) (cv_rows inp) = Inr ids \<and> distinct ids \<and>
      set (sv_example_ids v) = set ids \<and> sv_missing_objectives v = [] \<and>
      (\<exists>x. sv_selection_score v = Some x \<and> is_finite x) \<and>
      (\<forall>i\<in>set ids. scored_frames h inp i \<noteq> [] \<and> card (payload_key h inp ` set (scored_frames h inp i)) = 1)"
proof -
  let ?declared = "bt_set (map sp_name (ob_objectives (cv_objective_set inp)))"
  obtain ids scores n where v:
    "collect_results (task_identity h) (cv_rows inp) = Inr ids" "distinct ids"
    "collect_row_scores (row_scores_of h inp ?declared) ids [] 0 = Inr (scores, n)"
    "v = score_vector_from_scores h (cv_objective_set inp) (ca_candidate_id (cv_candidate inp)) (cv_split inp)
       (cv_evaluation_stage inp) scores (vector_metadata inp ids n)"
    "check_score_vector inp ids v = Inr ()"
    using assms by (rule score_vector_for_candidateE)
  have row: "scored_frames h inp i \<noteq> [] \<and> card (payload_key h inp ` set (scored_frames h inp i)) = 1"
    if i: "i \<in> set ids" for i
  proof -
    obtain rs m where rs: "row_scores_of h inp ?declared i = Inr (rs, m)"
      using collect_row_scores_ok [OF v(3) i] by blast
    then obtain frame where f: "frame \<in> set (scored_frames h inp i)"
      using row_scores_of_ok(1) by blast
    then have "payload_key h inp ` set (scored_frames h inp i) = {payload_key h inp frame}"
      using row_scores_of_ok(2) [OF rs] by blast
    with f show ?thesis by (auto simp: filter_empty_conv)
  qed
  have "sc_example_id s \<in> set ids" if s: "s \<in> set scores" for s
  proof -
    obtain i rs m where i: "i \<in> set ids" "row_scores_of h inp ?declared i = Inr (rs, m)" "s \<in> set rs"
      using collect_row_scores_mem [OF v(3) s] by auto
    then obtain frame where "frame \<in> set (scored_frames h inp i)" "rs = frame_payload h inp frame"
      using row_scores_of_ok(1) by blast
    then show ?thesis
      using i by (auto simp: matching_frames_def frame_payload_def dest: score_records_example)
  qed
  then have "set (sv_example_ids v) \<subseteq> set ids"
    by (auto simp: v(4) score_vector_from_scores_def Let_def)
  moreover have "\<exists>x. sv_selection_score v = Some x \<and> is_finite x"
    using v(5) finite_selection_score
    by (auto simp: check_score_vector_ok v(4) score_vector_from_scores_def Let_def)
  ultimately show ?thesis
    using v(1,2,5) row by (auto simp: check_score_vector_ok)
qed

subsection \<open>Acceptance\<close>

lemma fold_best_maximal:
  assumes "\<forall>p\<in>set (x # xs). \<not> is_nan (snd p)"
    and "b = fold (\<lambda>y best. if f64_lt (snd y) (snd best) \<or> \<not> f64_lt (snd best) (snd y) \<and> fst best < fst y
                    then best else y) xs x"
  shows "b \<in> set (x # xs) \<and> (\<forall>p\<in>set (x # xs). f64_le (snd p) (snd b))"
  using assms
proof (induction xs arbitrary: x)
  case Nil
  then show ?case by (simp add: f64_le_refl)
next
  case (Cons y xs)
  define z where "z = (if f64_lt (snd y) (snd x) \<or> \<not> f64_lt (snd x) (snd y) \<and> fst x < fst y then x else y)"
  have z: "z \<in> {x, y}" "f64_le (snd x) (snd z)" "f64_le (snd y) (snd z)"
    using Cons.prems(1) by (auto simp: z_def f64_lt_def f64_le_refl dest: f64_le_total)
  have "b \<in> set (z # xs) \<and> (\<forall>p\<in>set (z # xs). f64_le (snd p) (snd b))"
    using Cons.IH [of z] Cons.prems z(1) by (auto simp: z_def)
  then show ?case
    using z by (auto intro: f64_le_trans)
qed

lemma best_objective_delta_maximal:
  assumes "deltas \<noteq> []" "\<forall>p\<in>set deltas. \<not> is_nan (snd p)"
  shows "best_objective_delta deltas \<in> set deltas"
    and "p \<in> set deltas \<Longrightarrow> f64_le (snd p) (snd (best_objective_delta deltas))"
proof -
  obtain x xs where d: "deltas = x # xs"
    using assms(1) by (cases deltas) auto
  have b: "best_objective_delta deltas =
      fold (\<lambda>y best. if f64_lt (snd y) (snd best) \<or> \<not> f64_lt (snd best) (snd y) \<and> fst best < fst y
                    then best else y) xs x"
    by (simp add: best_objective_delta_def d)
  show "best_objective_delta deltas \<in> set deltas"
    "p \<in> set deltas \<Longrightarrow> f64_le (snd p) (snd (best_objective_delta deltas))"
    using fold_best_maximal [OF _ b] assms(2) d by auto
qed

lemma f64_sub_finite_not_nan: "is_finite x \<Longrightarrow> is_finite y \<Longrightarrow> \<not> is_nan (f64_sub x y)"
  by (cases x; cases y) (auto simp: f64_sub_def Let_def)

lemma f64_mul_unit_not_nan: "\<not> is_nan x \<Longrightarrow> \<not> is_nan (f64_mul x (F64_Fin s 1))"
  by (cases x) auto

lemma f64_mul_direction_not_nan: "\<not> is_nan x \<Longrightarrow> \<not> is_nan (f64_mul x (objective_direction_multiplier d))"
  by (simp add: objective_direction_multiplier_def f64_mul_unit_not_nan)

text \<open>The values of a vector built from scores are finite, so the deltas of two vectors are numbers.\<close>

lemma objective_value_finite:
  "objective_value (score_vector_from_scores h oset cid split stage scores md) obj = Some x \<Longrightarrow> is_finite x"
  using finite_selection_score by (simp add: objective_value_def score_vector_from_scores_def Let_def)

lemma vector_values_finite:
  "score_vector_for_candidate h inp = Inr v \<Longrightarrow> objective_value v obj = Some x \<Longrightarrow> is_finite x"
  by (elim score_vector_for_candidateE) (auto dest: objective_value_finite)

lemma vector_selection_score: "score_vector_for_candidate h inp = Inr v \<Longrightarrow> \<exists>x. sv_selection_score v = Some x"
  by (elim score_vector_for_candidateE) (auto simp: check_score_vector_ok)

abbreviation objective_delta :: "score_vector_record \<Rightarrow> score_vector_record \<Rightarrow> objective_spec \<Rightarrow> f64 option" where
  "objective_delta challenger incumbent obj \<equiv>
     map_option (\<lambda>(left, right). f64_mul (f64_sub left right) (objective_direction_multiplier (sp_direction obj)))
       (opt_zip (objective_value challenger (sp_name obj)) (objective_value incumbent (sp_name obj)))"

lemma deltas_not_nan:
  assumes "score_vector_for_candidate h i1 = Inr a" "score_vector_for_candidate h i2 = Inr b"
    "(k, d) \<in> set (objective_deltas_for_vectors oset a b)"
  shows "\<not> is_nan d"
proof -
  let ?pairs = "List.map_filter (\<lambda>obj. map_option (\<lambda>(left, right).
      (sp_name obj, f64_mul (f64_sub left right) (objective_direction_multiplier (sp_direction obj))))
      (opt_zip (objective_value a (sp_name obj)) (objective_value b (sp_name obj)))) (ob_objectives oset)"
  have "map_of (objective_deltas_for_vectors oset a b) k = Some d"
    using assms(3) by (simp add: objective_deltas_for_vectors_def bt_wf_map_of)
  then have "map_of (rev ?pairs) k = Some d"
    unfolding objective_deltas_for_vectors_def map_of_bt_collect .
  then have "(k, d) \<in> set ?pairs"
    by (drule_tac map_of_SomeD) simp
  then show ?thesis
    using vector_values_finite [OF assms(1)] vector_values_finite [OF assms(2)]
    by (auto simp: List.map_filter_def f64_mul_direction_not_nan f64_sub_finite_not_nan)
qed

lemma guarded_verdict:
  assumes "criterion \<in> {''primary_or_objective'', ''protected_objective_guard''}"
    and "\<forall>p\<in>set deltas. \<not> is_nan (snd p)"
  shows "fst (acceptance_verdict criterion primary margin deltas config) \<longleftrightarrow>
     f64_lt (f64_add margin f64_epsilon) primary \<or>
     (\<exists>p\<in>set deltas. f64_le (min_delta_of config) (snd p)) \<and> protected_ok config deltas"
proof -
  have other: "criterion \<noteq> ''improvement_or_equal''" "criterion \<noteq> ''primary_improvement''"
    "criterion \<noteq> ''any_objective_improved''"
    using assms(1) by auto
  have "f64_le (min_delta_of config) (snd (best_objective_delta deltas)) \<longleftrightarrow>
      (\<exists>p\<in>set deltas. f64_le (min_delta_of config) (snd p))" if "deltas \<noteq> []"
    using best_objective_delta_maximal [OF that assms(2)] f64_le_trans by blast
  then show ?thesis
    by (simp add: acceptance_verdict_def Let_def other)
qed

text \<open>
  C29. The guarded acceptance criteria: a proposal is accepted exactly when the selection objective
  improves on the parent by more than the margin, or else when some objective improves by the
  configured minimum and no protected objective regresses beyond the tolerance. The decision is always made for two
  vectors of candidates.
\<close>

theorem guarded_acceptance:
  assumes "score_vector_for_candidate h i1 = Inr (pi_challenger inp)"
    and "score_vector_for_candidate h i2 = Inr (pi_incumbent inp)"
    and "pi_acceptance_criterion inp = Some criterion"
    and "normalize_gepa_acceptance_criterion criterion \<in> {''primary_or_objective'', ''protected_objective_guard''}"
    and "config = unwrap_or objective_acceptance_default (pi_objective_acceptance inp)"
    and "deltas = objective_deltas_for_vectors (pi_objective_set inp) (pi_challenger inp) (pi_incumbent inp)"
  shows "\<exists>p x y. compare_score_vectors h inp = Inr p \<and>
      sv_selection_score (pi_challenger inp) = Some x \<and> sv_selection_score (pi_incumbent inp) = Some y \<and>
      (pr_preferred p \<longleftrightarrow>
         f64_lt (f64_add (f64_max (pi_margin inp) f64_zero) f64_epsilon)
           (f64_mul (f64_sub x y) (selection_objective_direction (pi_objective_set inp))) \<or>
         (\<exists>(obj, d)\<in>set deltas. f64_le (min_delta_of config) d) \<and>
         (\<forall>obj\<in>set (protected_objectives config deltas).
            f64_le (f64_neg (tolerance_of config)) (unwrap_or f64_zero (map_of deltas obj))))"
proof -
  obtain x y where xy: "sv_selection_score (pi_challenger inp) = Some x" "sv_selection_score (pi_incumbent inp) = Some y"
    using vector_selection_score [OF assms(1)] vector_selection_score [OF assms(2)] by blast
  have nn: "\<forall>p\<in>set deltas. \<not> is_nan (snd p)"
    using deltas_not_nan [OF assms(1,2)] unfolding assms(6) by force
  show ?thesis
    using xy guarded_verdict [OF assms(4) nn] assms(3,5,6)
    by (auto simp: compare_score_vectors_def acceptance_preference_from_vectors_def Let_def protected_ok_def
        list_all_iff split_beta)
qed

subsection \<open>The best candidate on the training rows\<close>

text \<open>
  With one objective, a value is \<^emph>\<open>better\<close> than another in the objective's direction, and \<^emph>\<open>beats\<close> it when
  the code sees the difference, that is when it exceeds the machine epsilon.
\<close>

definition better :: "f64 \<Rightarrow> f64 \<Rightarrow> f64 \<Rightarrow> bool" where
  "better d x y \<longleftrightarrow> (if d = F64_Fin True 1 then f64_lt x y else f64_lt y x)"

definition beats :: "f64 \<Rightarrow> f64 \<Rightarrow> f64 \<Rightarrow> bool" where
  "beats d x y \<longleftrightarrow> f64_lt f64_epsilon (f64_mul (f64_sub x y) d)"

definition train_vector ::
  "hashing \<Rightarrow> objective_set_record \<Rightarrow> string \<Rightarrow> json list \<Rightarrow> candidate_record \<Rightarrow> score_vector_record result" where
  "train_vector h oset split rows c =
     score_vector_for_candidate h
       \<lparr>cv_objective_set = oset, cv_candidate = c, cv_rows = rows, cv_split = split, cv_source_stages = train_stages,
        cv_evaluation_stage = ''train_parent_selection''\<rparr>"

definition train_value ::
  "hashing \<Rightarrow> objective_set_record \<Rightarrow> string \<Rightarrow> json list \<Rightarrow> candidate_record \<Rightarrow> f64" where
  "train_value h oset split rows c =
     (case train_vector h oset split rows c of Inl _ \<Rightarrow> f64_zero | Inr v \<Rightarrow> unwrap_or f64_zero (sv_selection_score v))"

lemma f64_round_cases:
  assumes "0 \<le> m"
  shows "f64_round s m = F64_Inf s \<or> (\<exists>a\<ge>0. f64_round s m = F64_Fin s a)"
proof (cases "m = 0")
  case False
  define u where "u = pow2 (max (ilog2 m) (- 1022) - 52)"
  have "0 < u"
    by (simp add: u_def pow2_pos)
  then have "0 \<le> rat_of_int (round_half_even (m / u)) * u"
    using assms by (intro mult_nonneg_nonneg) (simp_all add: round_half_even_nonneg)
  then show ?thesis
    using False by (simp add: f64_round_def Let_def u_def [symmetric])
qed (simp add: f64_round_def)

lemma f64_round_sign: "0 \<le> m \<Longrightarrow> \<not> f64_lt f64_epsilon (f64_round True m)"
  using f64_round_cases [of m True] by (auto simp: f64_epsilon_def f64_lt_def)

text \<open>A seen difference is a difference: rounding keeps the sign.\<close>

lemma seen_sign:
  assumes "f64_lt f64_epsilon (f64_mul (F64_Fin s a) (F64_Fin t 1))" "0 \<le> a"
  shows "s = t"
  using assms f64_round_sign [of a] by (cases "s = t") auto

lemma beats_better:
  assumes "is_finite x" "is_finite y" "beats (objective_direction dir) x y"
  shows "better (objective_direction dir) x y"
proof -
  obtain s a t b where xy: "x = F64_Fin s a" "y = F64_Fin t b"
    using assms(1,2) by (metis is_finite.elims(2))
  define v where "v = f64_val x - f64_val y"
  obtain u where u: "objective_direction dir = F64_Fin u 1"
    using objective_direction_cases by blast
  have sub: "f64_sub x y = (if v = 0 then F64_Fin (s \<and> \<not> t) 0 else f64_round (v < 0) \<bar>v\<bar>)"
  proof -
    have "f64_val (F64_Fin s a) + f64_val (F64_Fin (\<not> t) b) = v"
      by (simp add: v_def xy)
    then show ?thesis
      by (simp only: f64_sub_def xy f64_neg.simps f64_add.simps Let_def)
  qed
  have "v \<noteq> 0"
    using assms(3) zero_within_epsilon(1) sub by (auto simp: beats_def u)
  then have "(v < 0) = u"
  proof -
    have seen: "f64_lt f64_epsilon (f64_mul (f64_round (v < 0) \<bar>v\<bar>) (F64_Fin u 1))"
      using assms(3) \<open>v \<noteq> 0\<close> by (simp add: beats_def u sub)
    from f64_round_cases [of "\<bar>v\<bar>" "v < 0"] consider "f64_round (v < 0) \<bar>v\<bar> = F64_Inf (v < 0)"
      | a where "0 \<le> a" "f64_round (v < 0) \<bar>v\<bar> = F64_Fin (v < 0) a"
      by auto
    then show ?thesis
    proof cases
      case 1
      then show ?thesis
        using seen by (simp add: f64_lt_def f64_epsilon_def split: if_splits)
    next
      case 2
      then show ?thesis
        using seen_sign [OF _ 2(1)] seen unfolding 2(2) by blast
    qed
  qed
  then show ?thesis
    using \<open>v \<noteq> 0\<close> unfolding better_def u v_def xy by (auto simp: f64_lt_fin simp del: f64_val.simps)
qed

lemma beats_exclusive: "beats (objective_direction dir) x y \<Longrightarrow> \<not> beats (objective_direction dir) y x"
  unfolding beats_def using delta_swap f64_lt_epsilon_exclusive by blast

lemma train_vector_value:
  assumes "train_vector h oset split rows c = Inr v" "ob_objectives oset = [spec]"
    "sp_name spec = ob_selection_objective oset"
  shows "objective_value v (sp_name spec) = Some (train_value h oset split rows c)"
    and "is_finite (train_value h oset split rows c)"
    and "sv_selection_score v = Some (train_value h oset split rows c)"
proof -
  obtain x where x: "sv_selection_score v = Some x"
    using vector_selection_score [OF assms(1) [unfolded train_vector_def]] by blast
  have same: "objective_value v (sp_name spec) = sv_selection_score v"
    using assms(1) unfolding train_vector_def
    by (elim score_vector_for_candidateE) (simp add: assms(3) objective_value_def score_vector_from_scores_def Let_def)
  show "sv_selection_score v = Some (train_value h oset split rows c)"
    using x assms(1) by (simp add: train_value_def)
  then show val: "objective_value v (sp_name spec) = Some (train_value h oset split rows c)"
    by (simp add: same)
  show "is_finite (train_value h oset split rows c)"
    using vector_values_finite [OF assms(1) [unfolded train_vector_def] val] .
qed

lemma compare_plain:
  assumes "pi_acceptance_criterion inp = None"
    and "r = pc_result (pareto_comparison_from_vectors h (pi_objective_set inp) (ob_frontier_type (pi_objective_set inp))
           (pi_split inp) (pi_evaluation_stage inp) (pi_challenger inp) (pi_incumbent inp)
           [(''source'', JStr ''gepa.decision_bridge'')])"
    and "r \<in> {''challenger_dominates'', ''incumbent_dominates'', ''tie''}"
  shows "\<exists>p. compare_score_vectors h inp = Inr p \<and> pr_result p = r \<and>
      (pr_preferred p \<longleftrightarrow> r = ''challenger_dominates'' \<or> r = ''tie'' \<and> pi_accept_equal inp)"
  using assms(3) unfolding compare_score_vectors_def Let_def assms(1) assms(2) [symmetric] option.case
  by (elim insertE emptyE) (simp_all only: if_True if_False simp_thms refl sum.case list.inject char.inject
      list.distinct score_vector_preference.select_convs exI, simp_all)

lemma single_result:
  assumes "objective_value v (sp_name spec) = Some x" "objective_value w (sp_name spec) = Some y"
    and "ob_objectives oset = [spec]"
  shows "pc_result (pareto_comparison_from_vectors h oset ft split stage v w md) =
     (let d = objective_direction (sp_direction spec)
      in if beats d x y then ''challenger_dominates'' else if beats d y x then ''incumbent_dominates'' else ''tie'')"
proof -
  have worse: "f64_lt (f64_mul (f64_sub x y) (objective_direction (sp_direction spec))) (f64_neg f64_epsilon) \<longleftrightarrow>
      beats (objective_direction (sp_direction spec)) y x"
    unfolding beats_def by (rule delta_swap [symmetric])
  have "compare_objective v w spec =
      (if beats (objective_direction (sp_direction spec)) x y then Better
       else if beats (objective_direction (sp_direction spec)) y x then Worse else Equal)"
    unfolding compare_objective_def assms(1,2) option.case prod.case Let_def worse by (simp only: beats_def)
  then show ?thesis
    by (simp add: pareto_comparison_from_vectors_def assms(3) Let_def comparison_result_def)
qed

lemma compare_single:
  assumes "train_vector h oset split rows c = Inr v" "train_vector h oset split rows c' = Inr w"
    and "ob_objectives oset = [spec]" "sp_name spec = ob_selection_objective oset"
  defines "d \<equiv> objective_direction (sp_direction spec)"
    and "x \<equiv> train_value h oset split rows c" and "y \<equiv> train_value h oset split rows c'"
  shows "\<exists>p. compare_candidates h oset rows split train_stages ''train_parent_selection'' c c' = Inr p \<and>
      (pr_preferred p \<longleftrightarrow> beats d x y) \<and> (pr_result p = ''tie'' \<longleftrightarrow> \<not> beats d x y \<and> \<not> beats d y x)"
proof -
  let ?inp = "\<lparr>pi_objective_set = oset, pi_split = split, pi_evaluation_stage = ''train_parent_selection'',
     pi_challenger = v, pi_incumbent = w, pi_accept_equal = False,
     pi_acceptance_criterion = None, pi_objective_acceptance = None, pi_margin = f64_zero\<rparr>"
  have same: "compare_candidates h oset rows split train_stages ''train_parent_selection'' c c' = compare_score_vectors h ?inp"
    using assms(1,2) unfolding compare_candidates_def train_vector_def [symmetric] Let_def by simp
  define r where "r = (if beats d x y then ''challenger_dominates'' else if beats d y x then ''incumbent_dominates'' else ''tie'')"
  have r: "r = pc_result (pareto_comparison_from_vectors h oset (ob_frontier_type oset) split
      ''train_parent_selection'' v w [(''source'', JStr ''gepa.decision_bridge'')])"
    using single_result [OF train_vector_value(1) [OF assms(1,3,4)] train_vector_value(1) [OF assms(2,3,4)] assms(3)]
    unfolding r_def d_def x_def y_def Let_def by simp
  have "r \<in> {''challenger_dominates'', ''incumbent_dominates'', ''tie''}"
    by (simp add: r_def)
  from compare_plain [of ?inp r h, OF _ _ this] r same show ?thesis
    using beats_exclusive [of "sp_direction spec" x y] by (auto simp: r_def d_def split: if_splits)
qed

text \<open>The best of the first \<open>n\<close> candidates: none of them is better, and a later one is worse.\<close>

definition latest_best :: "(nat \<Rightarrow> bool) \<Rightarrow> (nat \<Rightarrow> f64) \<Rightarrow> f64 \<Rightarrow> nat \<Rightarrow> nat option \<Rightarrow> bool" where
  "latest_best sel val d n best \<longleftrightarrow>
     (case best of
        None \<Rightarrow> \<forall>j<n. \<not> sel j
      | Some i \<Rightarrow> i < n \<and> sel i \<and> (\<forall>j<n. sel j \<longrightarrow> \<not> better d (val j) (val i) \<and> (i < j \<longrightarrow> better d (val i) (val j))))"

lemma latest_best_skip: "latest_best sel val d n best \<Longrightarrow> \<not> sel n \<Longrightarrow> latest_best sel val d (Suc n) best"
  by (auto simp: latest_best_def less_Suc_eq split: option.splits)

lemma better_irrefl: "\<not> better d x x"
  by (simp add: better_def f64_lt_def)

lemma better_cases: "is_finite x \<Longrightarrow> is_finite y \<Longrightarrow> is_finite z \<Longrightarrow> \<not> better d y x \<Longrightarrow> better d z x \<Longrightarrow> better d z y"
  unfolding better_def by (metis f64_le_lt_trans f64_lt_le_trans f64_not_le finite_not_nan)

lemma latest_best_first: "latest_best sel val d n None \<Longrightarrow> sel n \<Longrightarrow> latest_best sel val d (Suc n) (Some n)"
  by (auto simp: latest_best_def less_Suc_eq better_irrefl)

lemma latest_best_challenge:
  assumes "latest_best sel val d n (Some i)" "sel n" "\<And>j. sel j \<Longrightarrow> is_finite (val j)"
  shows "latest_best sel val d (Suc n) (Some (if better d (val i) (val n) then i else n))"
proof (cases "better d (val i) (val n)")
  case True
  then have "\<not> better d (val n) (val i)"
    by (auto simp: better_def f64_lt_def)
  with True assms show ?thesis
    by (auto simp: latest_best_def less_Suc_eq)
next
  case False
  have "\<not> better d (val j) (val n)" if "j < n" "sel j" for j
  proof
    assume "better d (val j) (val n)"
    then have "better d (val j) (val i)"
      using better_cases [of "val n" "val i" "val j" d] assms that False by (auto simp: latest_best_def)
    then show False
      using assms(1) that by (simp add: latest_best_def)
  qed
  with False assms show ?thesis
    by (auto simp: latest_best_def less_Suc_eq better_irrefl)
qed

lemma best_train_loop_latest:
  fixes h oset split rows candidates
  defines "sel \<equiv> \<lambda>j. candidate_train_selectable (candidates ! j)"
    and "val \<equiv> \<lambda>j. train_value h oset split rows (candidates ! j)"
  assumes single: "ob_objectives oset = [spec]" "sp_name spec = ob_selection_objective oset"
    and vectors: "\<And>j. j < length candidates \<Longrightarrow> sel j \<Longrightarrow> \<exists>v. train_vector h oset split rows (candidates ! j) = Inr v"
    and seen: "\<And>i j. i < length candidates \<Longrightarrow> j < length candidates \<Longrightarrow> sel i \<Longrightarrow> sel j \<Longrightarrow>
      better d (val i) (val j) \<Longrightarrow> beats d (val i) (val j)"
    and d: "d = objective_direction (sp_direction spec)"
  shows "candidates = pre @ suf \<Longrightarrow> latest_best (\<lambda>j. j < length candidates \<and> sel j) val d (length pre) best \<Longrightarrow>
    \<exists>r. best_train_loop h oset split rows candidates (enumerate (length pre) suf) best = Inr r \<and>
      latest_best (\<lambda>j. j < length candidates \<and> sel j) val d (length candidates) r"
proof (induction suf arbitrary: pre best)
  case (Cons c suf)
  let ?sel = "\<lambda>j. j < length candidates \<and> sel j"
  let ?n = "length pre"
  have n: "?n < length candidates" "candidates ! ?n = c"
    using Cons.prems(1) by simp_all
  have fin: "is_finite (val j)" if "?sel j" for j
    using vectors that train_vector_value(2) [OF _ single] unfolding val_def by blast
  have continue: "\<exists>r. best_train_loop h oset split rows candidates (enumerate (Suc ?n) suf) best' = Inr r \<and>
      latest_best ?sel val d (length candidates) r" if "latest_best ?sel val d (Suc ?n) best'" for best'
    using Cons.IH [of "pre @ [c]" best'] Cons.prems(1) that by simp
  show ?case
  proof (cases "sel ?n")
    case False
    then show ?thesis
      using continue [OF latest_best_skip [OF Cons.prems(2)]] n by (simp add: sel_def)
  next
    case True
    then have selc: "candidate_train_selectable c"
      using n by (simp add: sel_def)
    show ?thesis
    proof (cases best)
      case None
      then show ?thesis
        using continue [OF latest_best_first] Cons.prems(2) True n selc by simp
    next
      case (Some i)
      have i: "i < ?n" "sel i" "i < length candidates"
        using Cons.prems(2) Some by (auto simp: latest_best_def)
      obtain v w where vw: "train_vector h oset split rows c = Inr v" "train_vector h oset split rows (candidates ! i) = Inr w"
        using vectors [OF n(1) True] vectors [OF i(3,2)] n(2) by auto
      obtain p where p: "compare_candidates h oset rows split train_stages ''train_parent_selection'' c (candidates ! i) = Inr p"
        "pr_preferred p \<longleftrightarrow> beats d (val ?n) (val i)"
        "pr_result p = ''tie'' \<longleftrightarrow> \<not> beats d (val ?n) (val i) \<and> \<not> beats d (val i) (val ?n)"
        using compare_single [OF vw single] n(2) unfolding d val_def by blast
      have "beats d (val i) (val ?n) \<longleftrightarrow> better d (val i) (val ?n)"
        using seen [OF i(3) n(1) i(2) True] beats_better [of "val i" "val ?n"] fin i True n(1) unfolding d by blast
      then have step: "pr_preferred p \<or> pr_result p = ''tie'' \<and> i < ?n \<longleftrightarrow> \<not> better d (val i) (val ?n)"
        using p(2,3) i(1) beats_exclusive [of "sp_direction spec" "val ?n" "val i"] unfolding d by blast
      have "latest_best ?sel val d (Suc ?n) (Some (if better d (val i) (val ?n) then i else ?n))"
        using latest_best_challenge [of ?sel val d ?n i] Cons.prems(2) Some True n(1) fin by blast
      from continue [OF this] show ?thesis
        unfolding enumerate_simps best_train_loop.simps Some option.case p(1) sum.case step
        using selc i(3) by (cases "better d (val i) (val ?n)") simp_all
    qed
  qed
qed simp


subsection \<open>Witnesses\<close>

definition judged_candidate :: "string \<Rightarrow> (string \<times> rat) list \<Rightarrow> candidate_record" where
  "judged_candidate cid scores =
     (sample_candidate cid scores)\<lparr>ca_sensor_frames := map (\<lambda>(e, r).
        (sample_frame e r)\<lparr>sf_objective_scores :=
           [\<lparr>os_objective = ''accuracy'', os_value = f64_lit r, os_source = ''judge'', os_rationale = None, os_metadata = []\<rparr>]\<rparr>) scores\<rparr>"

definition judged_spec :: objective_spec where
  "judged_spec = objective_spec_from_score sample_hashing
     \<lparr>os_objective = ''accuracy'', os_value = f64_zero, os_source = ''judge'', os_rationale = None, os_metadata = []\<rparr>"

definition judged_objectives :: objective_set_record where
  "judged_objectives = objective_set_from_specs sample_hashing ''accuracy'' ''per_example'' [judged_spec] []"

definition judged_b :: candidate_record where
  "judged_b = judged_candidate ''b'' [(''e1'', 1), (''e2'', 1 / 2)]"

definition judged_a :: candidate_record where
  "judged_a = judged_candidate ''a'' [(''e1'', 1), (''e2'', 1)]"

definition vector_scored :: "candidate_record \<Rightarrow> rat \<Rightarrow> bool" where
  "vector_scored c x =
     (case train_vector sample_hashing judged_objectives ''train'' sample_rows c of
        Inl _ \<Rightarrow> False | Inr v \<Rightarrow> sv_selection_score v = Some (f64_lit x))"

lemma judged_vectors: "vector_scored judged_b (3 / 4)" "vector_scored judged_a 1"
  by code_simp+

lemma vector_scoredD:
  "vector_scored c x \<Longrightarrow> \<exists>v. train_vector sample_hashing judged_objectives ''train'' sample_rows c = Inr v \<and>
     sv_selection_score v = Some (f64_lit x)"
  by (cases "train_vector sample_hashing judged_objectives ''train'' sample_rows c") (simp_all add: vector_scored_def)

theorem score_vector_complete_witness:
  "\<exists>v. train_vector sample_hashing judged_objectives ''train'' sample_rows judged_b = Inr v \<and>
     set (sv_example_ids v) = {''e1'', ''e2''} \<and> sv_missing_objectives v = []"
proof -
  obtain v where v: "train_vector sample_hashing judged_objectives ''train'' sample_rows judged_b = Inr v"
    using vector_scoredD [OF judged_vectors(1)] by blast
  show ?thesis
    using score_vector_complete [OF v [unfolded train_vector_def]] v sample_rows_ids by auto
qed

definition judged_challenge :: "score_vector_record \<Rightarrow> score_vector_record \<Rightarrow> score_vector_preference_input" where
  "judged_challenge v w =
     \<lparr>pi_objective_set = judged_objectives, pi_split = ''train'', pi_evaluation_stage = ''candidate_minibatch'',
      pi_challenger = v, pi_incumbent = w, pi_accept_equal = False,
      pi_acceptance_criterion = Some ''protected-objective-guard'', pi_objective_acceptance = None,
      pi_margin = f64_zero\<rparr>"

lemma judged_direction: "selection_objective_direction judged_objectives = F64_Fin False 1"
  by code_simp

theorem guarded_acceptance_witness:
  "\<exists>v w p. train_vector sample_hashing judged_objectives ''train'' sample_rows judged_a = Inr v \<and>
     train_vector sample_hashing judged_objectives ''train'' sample_rows judged_b = Inr w \<and>
     compare_score_vectors sample_hashing (judged_challenge v w) = Inr p \<and> pr_preferred p"
proof -
  obtain v w where v: "train_vector sample_hashing judged_objectives ''train'' sample_rows judged_a = Inr v"
      "sv_selection_score v = Some (f64_lit 1)"
    and w: "train_vector sample_hashing judged_objectives ''train'' sample_rows judged_b = Inr w"
      "sv_selection_score w = Some (f64_lit (3 / 4))"
    using judged_vectors vector_scoredD by metis
  have name: "normalize_gepa_acceptance_criterion ''protected-objective-guard'' \<in>
      {''primary_or_objective'', ''protected_objective_guard''}"
    by code_simp
  have gain: "f64_lt (f64_add (f64_max f64_zero f64_zero) f64_epsilon)
      (f64_mul (f64_sub (f64_lit 1) (f64_lit (3 / 4))) (F64_Fin False 1))"
    by code_simp
  have sel: "pi_challenger (judged_challenge v w) = v" "pi_incumbent (judged_challenge v w) = w"
    "pi_acceptance_criterion (judged_challenge v w) = Some ''protected-objective-guard''"
    "pi_margin (judged_challenge v w) = f64_zero" "pi_objective_set (judged_challenge v w) = judged_objectives"
    by (simp_all add: judged_challenge_def)
  obtain p x y B where p: "compare_score_vectors sample_hashing (judged_challenge v w) = Inr p"
      "sv_selection_score v = Some x" "sv_selection_score w = Some y"
      "pr_preferred p \<longleftrightarrow>
         f64_lt (f64_add (f64_max f64_zero f64_zero) f64_epsilon) (f64_mul (f64_sub x y) (F64_Fin False 1)) \<or> B"
    using guarded_acceptance [where inp = "judged_challenge v w", unfolded sel judged_direction,
        OF v(1) [unfolded train_vector_def] w(1) [unfolded train_vector_def] refl name refl refl]
    by (elim exE conjE) (rule that)
  then have "pr_preferred p"
    using gain v(2) w(2) by simp
  with v(1) w(1) p(1) show ?thesis
    by blast
qed

lemma judged_single: "ob_objectives judged_objectives = [judged_spec]" "sp_name judged_spec = ob_selection_objective judged_objectives"
  "objective_direction (sp_direction judged_spec) = F64_Fin False 1"
  by code_simp+


end
