(* ===== verification/Active_Evaluation.thy ===== *)
theory Active_Evaluation
  imports Minibatch_Sampler Effect_Admission
begin

text \<open>
  \<open>lib.rs\<close>, the evaluation in progress: one candidate, or a group of candidates, is evaluated on the
  rows of a stage, in chunks of bounded size that are planned as runtime jobs. This theory holds the
  state of an evaluation, which of its rows are settled (scored, or given up after failures), how a
  chunk is chosen and recorded, and how outcomes are folded in.

  Indices and lengths are naturals; the counters of the records are machine words. \<open>None\<close> is a
  panic (a slice out of range) or, for the minibatch sampler, a loop that does not end.
\<close>

subsection \<open>Records\<close>

record provider_signal =
  ps_status_code :: "u16 option"
  ps_provider_error_code :: "string option"
  ps_overload :: bool
  ps_retryable :: bool

record failed_rollout_attempt =
  fa_candidate_id :: string
  fa_stage :: string
  fa_example_id :: string
  fa_job_id :: string
  fa_attempt :: u32
  fa_max_attempts :: u32
  fa_failure :: failure_payload
  fa_provider_signal :: provider_signal

record acceptance_decision =
  ad_candidate_id :: string
  ad_parent_id :: string
  ad_accepted_minibatch :: bool
  ad_accepted_full_train :: bool
  ad_reason :: string
  ad_candidate_minibatch_reward :: f64
  ad_parent_minibatch_reward :: f64
  ad_candidate_train_reward :: "f64 option"
  ad_best_train_reward :: f64
  ad_comparison_result :: string
  ad_score :: json

text \<open>The evaluation of one candidate of a group.\<close>

record active_candidate_evaluation =
  ace_candidate_id :: string
  ace_candidate_index :: nat
  ace_generation :: usize
  ace_proposal_index :: usize
  ace_row_ids :: "string list"
  ace_next_row_index :: nat
  ace_heldout_candidate_index :: "nat option"
  ace_parent_id :: "string option"
  ace_scores :: "rollout_score list"
  ace_failed_attempts :: "failed_rollout_attempt list"
  ace_sensor_frames :: "sensor_frame list"
  ace_reward_sum :: f64
  ace_usage :: usage_totals
  ace_cost_usd :: f64
  ace_rollout_count :: usize
  ace_parent_minibatch_reward :: "f64 option"
  ace_decision :: "acceptance_decision option"

record active_evaluation =
  ae_stage :: string
  ae_candidate_id :: "string option"
  ae_candidate_index :: "nat option"
  ae_generation :: usize
  ae_proposal_index :: usize
  ae_row_ids :: "string list"
  ae_next_row_index :: nat
  ae_planned_job_id :: "string option"
  ae_effect_id :: "string option"
  ae_reservation_id :: "string option"
  ae_heldout_candidate_index :: "nat option"
  ae_parent_id :: "string option"
  ae_scores :: "rollout_score list"
  ae_failed_attempts :: "failed_rollout_attempt list"
  ae_sensor_frames :: "sensor_frame list"
  ae_reward_sum :: f64
  ae_usage :: usage_totals
  ae_cost_usd :: f64
  ae_rollout_count :: usize
  ae_parent_minibatch_reward :: "f64 option"
  ae_decision :: "acceptance_decision option"
  ae_candidate_evaluations :: "active_candidate_evaluation list"

record candidate_evaluation =
  ev_average_reward :: f64
  ev_rollout_count :: usize
  ev_required_rollout_count :: usize
  ev_failed_attempts :: "failed_rollout_attempt list"
  ev_usage :: usage_totals
  ev_cost_usd :: f64
  ev_scores :: "rollout_score list"
  ev_sensor_frames :: "sensor_frame list"

text \<open>The rows of the run that a step works on (the container client and the prompt program are not modelled).\<close>

record gepa_step_resources =
  sr_objective_set :: objective_set_record
  sr_train_rows :: "json list"
  sr_minibatch_rows :: "json list"
  sr_reflection_rows :: "json list"
  sr_heldout_rows :: "json list"
  sr_rollout_task_id :: string

record rollout_batch_candidate =
  rb_candidate :: candidate_record
  rb_rows :: "json list"
  rb_stage :: string

record gepa_rollout_chunk_partial =
  ch_chunk_id :: string
  ch_stage :: string
  ch_generation :: usize
  ch_candidate_ids :: "string list"
  ch_row_ids :: "string list"
  ch_first_row_index :: nat
  ch_row_count :: nat
  ch_job_id :: "string option"
  ch_effect_id :: "string option"
  ch_reservation_ids :: "string list"
  ch_status :: string
  ch_folded :: bool
  ch_attempt :: u32
  ch_metadata :: json

record gepa_async_candidate_partial =
  pa_partial_id :: string
  pa_lane :: string
  pa_stage :: string
  pa_generation :: usize
  pa_parent_pool_version :: u64
  pa_parent_candidate_id :: "string option"
  pa_candidate_ids :: "string list"
  pa_active_evaluation :: "json option"
  pa_proposal_queue :: json
  pa_rollout_chunks :: "(string \<times> gepa_rollout_chunk_partial) list"
  pa_metadata :: json

subsection \<open>Methods of the evaluation\<close>

definition is_rollout_stage :: "active_evaluation \<Rightarrow> bool" where
  "is_rollout_stage a \<longleftrightarrow> ae_stage a \<in> set [''seed_full_train'', ''parent_minibatch_reference'',
     ''candidate_minibatch'', ''candidate_full_train'', ''heldout'']"

definition average_reward :: "active_evaluation \<Rightarrow> f64" where
  "average_reward a = (if ae_rollout_count a = 0 then f64_zero
     else f64_div (ae_reward_sum a) (f64_of_nat (unat (ae_rollout_count a))))"

definition is_group :: "active_evaluation \<Rightarrow> bool" where
  "is_group a \<longleftrightarrow> ae_candidate_evaluations a \<noteq> []"

definition candidate_average_reward :: "active_candidate_evaluation \<Rightarrow> f64" where
  "candidate_average_reward c = (if ace_rollout_count c = 0 then f64_zero
     else f64_div (ace_reward_sum c) (f64_of_nat (unat (ace_rollout_count c))))"

subsection \<open>Settled rows\<close>

definition scored_example_ids :: "rollout_score list \<Rightarrow> string list" where
  "scored_example_ids scores = bt_set (map rs_example_id scores)"

definition completed_score_example_count :: "rollout_score list \<Rightarrow> nat" where
  "completed_score_example_count scores = length (scored_example_ids scores)"

definition rollout_scores_contain_example :: "rollout_score list \<Rightarrow> string \<Rightarrow> bool" where
  "rollout_scores_contain_example scores example_id = list_ex (\<lambda>s. rs_example_id s = example_id) scores"

definition failed_example_ids :: "failed_rollout_attempt list \<Rightarrow> string list" where
  "failed_example_ids failures = bt_set (map fa_example_id failures)"

text \<open>The set that three functions of the source build: identifiers with a score or a recorded failure.\<close>

definition completed_ids :: "rollout_score list \<Rightarrow> failed_rollout_attempt list \<Rightarrow> string list" where
  "completed_ids scores failures = bt_set (scored_example_ids scores @ failed_example_ids failures)"

definition completed_example_count :: "rollout_score list \<Rightarrow> failed_rollout_attempt list \<Rightarrow> nat" where
  "completed_example_count scores failures = length (completed_ids scores failures)"

definition next_unscored_row_index ::
  "string list \<Rightarrow> rollout_score list \<Rightarrow> failed_rollout_attempt list \<Rightarrow> nat" where
  "next_unscored_row_index row_ids scores failures =
     length (takeWhile (\<lambda>row_id. row_id \<in> set (completed_ids scores failures)) row_ids)"

text \<open>The first row whose identity cannot be read ends the collection with its error.\<close>

fun skip_completed :: "hashing \<Rightarrow> string list \<Rightarrow> json list \<Rightarrow> json list result" where
  "skip_completed h completed [] = Inr []"
| "skip_completed h completed (row # rows) =
     (case task_identity h row of Inl e \<Rightarrow> Inl e
      | Inr example_id \<Rightarrow>
          (case skip_completed h completed rows of Inl e \<Rightarrow> Inl e
           | Inr rest \<Rightarrow> Inr (if example_id \<in> set completed then rest else row # rest)))"

definition unscored_rollout_rows ::
  "hashing \<Rightarrow> json list \<Rightarrow> rollout_score list \<Rightarrow> failed_rollout_attempt list \<Rightarrow> json list result" where
  "unscored_rollout_rows h rows scores failures = skip_completed h (completed_ids scores failures) rows"

fun row_index_from :: "hashing \<Rightarrow> nat \<Rightarrow> json list \<Rightarrow> string \<Rightarrow> string \<Rightarrow> nat result" where
  "row_index_from h i [] stage example_id =
     Inl (Invariant (''rollout outcome example_id '' @ example_id @ '' is not part of active '' @ stage @ '' rows''))"
| "row_index_from h i (row # rows) stage example_id =
     (case task_identity h row of Inl e \<Rightarrow> Inl e
      | Inr row_id \<Rightarrow> if row_id = example_id then Inr i else row_index_from h (Suc i) rows stage example_id)"

definition rollout_row_index_by_example_id :: "hashing \<Rightarrow> json list \<Rightarrow> string \<Rightarrow> string \<Rightarrow> nat result" where
  "rollout_row_index_by_example_id h rows stage example_id = row_index_from h 0 rows stage example_id"

definition active_candidate_completed_rows :: "active_candidate_evaluation \<Rightarrow> nat" where
  "active_candidate_completed_rows c =
     min (completed_example_count (ace_scores c) (ace_failed_attempts c)) (length (ace_row_ids c))"

definition active_candidate_rollout_complete :: "active_candidate_evaluation \<Rightarrow> bool" where
  "active_candidate_rollout_complete c \<longleftrightarrow>
     ace_row_ids c \<noteq> [] \<and> length (ace_row_ids c) \<le> active_candidate_completed_rows c"

definition active_rollout_evaluation_complete :: "active_evaluation \<Rightarrow> bool" where
  "active_rollout_evaluation_complete a \<longleftrightarrow>
     (if is_group a then list_all active_candidate_rollout_complete (ae_candidate_evaluations a)
      else ae_row_ids a \<noteq> [] \<and> length (ae_row_ids a) \<le> completed_example_count (ae_scores a) (ae_failed_attempts a))"

definition active_rollout_completed_rows :: "active_evaluation \<Rightarrow> nat" where
  "active_rollout_completed_rows a =
     (if is_group a then sum_list (map active_candidate_completed_rows (ae_candidate_evaluations a))
      else min (completed_example_count (ae_scores a) (ae_failed_attempts a)) (length (ae_row_ids a)))"

definition active_rollout_total_rows :: "active_evaluation \<Rightarrow> nat" where
  "active_rollout_total_rows a =
     (if is_group a then sum_list (map (\<lambda>c. length (ace_row_ids c)) (ae_candidate_evaluations a))
      else length (ae_row_ids a))"

subsection \<open>New evaluations\<close>

definition new_rollout_evaluation ::
  "hashing \<Rightarrow> string \<Rightarrow> nat \<Rightarrow> json list \<Rightarrow> usize \<Rightarrow> usize \<Rightarrow> nat option \<Rightarrow> active_evaluation result" where
  "new_rollout_evaluation h stage candidate_index rows generation proposal_index heldout_candidate_index =
     (case collect_results (task_identity h) rows of Inl e \<Rightarrow> Inl e
      | Inr row_ids \<Rightarrow> Inr
          \<lparr>ae_stage = stage, ae_candidate_id = None, ae_candidate_index = Some candidate_index,
           ae_generation = generation, ae_proposal_index = proposal_index, ae_row_ids = row_ids,
           ae_next_row_index = 0, ae_planned_job_id = None, ae_effect_id = None, ae_reservation_id = None,
           ae_heldout_candidate_index = heldout_candidate_index, ae_parent_id = None, ae_scores = [],
           ae_failed_attempts = [], ae_sensor_frames = [], ae_reward_sum = f64_zero, ae_usage = usage_default,
           ae_cost_usd = f64_zero, ae_rollout_count = 0, ae_parent_minibatch_reward = None,
           ae_decision = None, ae_candidate_evaluations = []\<rparr>)"

definition new_active_candidate_evaluation ::
  "hashing \<Rightarrow> string \<Rightarrow> nat \<Rightarrow> json list \<Rightarrow> usize \<Rightarrow> usize \<Rightarrow> nat option \<Rightarrow> active_candidate_evaluation result" where
  "new_active_candidate_evaluation h candidate_id candidate_index rows generation proposal_index heldout_candidate_index =
     (case collect_results (task_identity h) rows of Inl e \<Rightarrow> Inl e
      | Inr row_ids \<Rightarrow> Inr
          \<lparr>ace_candidate_id = candidate_id, ace_candidate_index = candidate_index, ace_generation = generation,
           ace_proposal_index = proposal_index, ace_row_ids = row_ids, ace_next_row_index = 0,
           ace_heldout_candidate_index = heldout_candidate_index, ace_parent_id = None, ace_scores = [],
           ace_failed_attempts = [], ace_sensor_frames = [], ace_reward_sum = f64_zero, ace_usage = usage_default,
           ace_cost_usd = f64_zero, ace_rollout_count = 0, ace_parent_minibatch_reward = None,
           ace_decision = None\<rparr>)"

definition group_row_ids :: "active_candidate_evaluation list \<Rightarrow> string list" where
  "group_row_ids cs = concat (map (\<lambda>c. map (\<lambda>row_id. ace_candidate_id c @ '':'' @ row_id) (ace_row_ids c)) cs)"

definition new_rollout_group_evaluation ::
  "string \<Rightarrow> active_candidate_evaluation list \<Rightarrow> usize \<Rightarrow> active_evaluation" where
  "new_rollout_group_evaluation stage candidate_evaluations generation =
     \<lparr>ae_stage = stage, ae_candidate_id = None, ae_candidate_index = None, ae_generation = generation,
      ae_proposal_index = 0, ae_row_ids = group_row_ids candidate_evaluations, ae_next_row_index = 0,
      ae_planned_job_id = None, ae_effect_id = None, ae_reservation_id = None,
      ae_heldout_candidate_index = None, ae_parent_id = None, ae_scores = [], ae_failed_attempts = [],
      ae_sensor_frames = [], ae_reward_sum = f64_zero, ae_usage = usage_default, ae_cost_usd = f64_zero,
      ae_rollout_count = 0, ae_parent_minibatch_reward = None, ae_decision = None,
      ae_candidate_evaluations = candidate_evaluations\<rparr>"

text \<open>The part of a running group that is already complete, released before the rest.\<close>

definition speculative_release_active :: "active_evaluation \<Rightarrow> active_evaluation option" where
  "speculative_release_active a =
     (if is_group a
      then let complete = filter active_candidate_rollout_complete (ae_candidate_evaluations a) in
        if complete = [] then None
        else let row_ids = group_row_ids complete in
          Some (a\<lparr>ae_candidate_evaluations := complete, ae_row_ids := row_ids, ae_next_row_index := length row_ids\<rparr>)
      else if active_rollout_evaluation_complete a then Some a else None)"

subsection \<open>Rows and chunks\<close>

definition rows_for_rollout_stage ::
  "hashing \<Rightarrow> gepa_config \<Rightarrow> gepa_step_resources \<Rightarrow> string \<Rightarrow> usize \<Rightarrow> usize \<Rightarrow> json list option" where
  "rows_for_rollout_stage h g resources stage generation proposal_index =
     (if stage \<in> set [''parent_minibatch_reference'', ''candidate_minibatch'']
      then minibatch_rows h (sr_minibatch_rows resources) (gc_batch_sampler g) (gc_minibatch_size g)
             generation proposal_index (gc_proposals_per_generation g)
      else if stage \<in> set [''seed_full_train'', ''candidate_full_train''] then Some (sr_train_rows resources)
      else if stage = ''heldout'' then Some (sr_heldout_rows resources)
      else Some [])"

text \<open>\<open>Ord::clamp\<close> with constant bounds in order.\<close>

definition clamp_1_128 :: "usize \<Rightarrow> usize" where
  "clamp_1_128 x = (if x < 1 then 1 else if 128 < x then 128 else x)"

definition async_rollout_chunk_size :: "gepa_config \<Rightarrow> usize" where
  "async_rollout_chunk_size g =
     max (case opt_filter (\<lambda>v. 0 < v) (gc_rollout_chunk_size g) of Some v \<Rightarrow> v
          | None \<Rightarrow> if ac_enabled (pl_adaptive_rollout_concurrency (gc_pipeline g))
                    then clamp_1_128 (ac_initial (pl_adaptive_rollout_concurrency (gc_pipeline g)))
                    else clamp_1_128 (wk_rollout (pl_workers (gc_pipeline g)))) 1"

definition rollout_rows_for_chunk :: "gepa_config \<Rightarrow> json list \<Rightarrow> json list option" where
  "rollout_rows_for_chunk g rows =
     (let chunk_size = max (min (unat (async_rollout_chunk_size g)) (length rows)) 1
      in if chunk_size \<le> length rows then Some (take chunk_size rows) else None)"

fun take_count_for_group_rollout_chunk :: "nat \<Rightarrow> nat option \<Rightarrow> nat \<times> nat option" where
  "take_count_for_group_rollout_chunk remaining_len None = (remaining_len, None)"
| "take_count_for_group_rollout_chunk remaining_len (Some budget) =
     (let count = min remaining_len budget in (count, Some (budget - count)))"

fun group_chunk_rows ::
  "hashing \<Rightarrow> gepa_config \<Rightarrow> gepa_step_resources \<Rightarrow> string \<Rightarrow> active_candidate_evaluation list \<Rightarrow> nat option \<Rightarrow>
   json list result option" where
  "group_chunk_rows h g resources stage [] budget = Some (Inr [])"
| "group_chunk_rows h g resources stage (c # cs) budget =
     (case rows_for_rollout_stage h g resources stage (ace_generation c) (ace_proposal_index c) of None \<Rightarrow> None
      | Some stage_rows \<Rightarrow>
        (case unscored_rollout_rows h stage_rows (ace_scores c) (ace_failed_attempts c) of Inl e \<Rightarrow> Some (Inl e)
         | Inr remaining \<Rightarrow>
           (case take_count_for_group_rollout_chunk (length remaining) budget of
              (take_count, budget) \<Rightarrow>
                if take_count = 0 then Some (Inr [])
                else map_option (map_sum id (\<lambda>rows. take take_count remaining @ rows))
                       (group_chunk_rows h g resources stage cs budget))))"

definition rows_for_active_rollout_chunk ::
  "hashing \<Rightarrow> gepa_config \<Rightarrow> gepa_step_resources \<Rightarrow> active_evaluation \<Rightarrow> json list result option" where
  "rows_for_active_rollout_chunk h g resources a =
     (if is_group a
      then group_chunk_rows h g resources (ae_stage a) (ae_candidate_evaluations a)
             (Some (unat (async_rollout_chunk_size g)))
      else case rows_for_rollout_stage h g resources (ae_stage a) (ae_generation a) (ae_proposal_index a) of
             None \<Rightarrow> None
           | Some rows \<Rightarrow>
             (case unscored_rollout_rows h rows (ae_scores a) (ae_failed_attempts a) of Inl e \<Rightarrow> Some (Inl e)
              | Inr remaining \<Rightarrow> map_option Inr (rollout_rows_for_chunk g remaining)))"

definition row_ids_for_chunk :: "hashing \<Rightarrow> json list \<Rightarrow> string list result" where
  "row_ids_for_chunk h rows = collect_results (task_identity h) rows"

text \<open>\<open>Iterator::min\<close> of the cursors, the group's own cursor for an empty group.\<close>

definition first_unscored_row_index_for_active :: "active_evaluation \<Rightarrow> nat" where
  "first_unscored_row_index_for_active a =
     (if is_group a
      then Min (set (map (\<lambda>c. next_unscored_row_index (ace_row_ids c) (ace_scores c) (ace_failed_attempts c))
                  (ae_candidate_evaluations a)))
      else next_unscored_row_index (ae_row_ids a) (ae_scores a) (ae_failed_attempts a))"

definition candidate_ids_for_active :: "active_evaluation \<Rightarrow> string list" where
  "candidate_ids_for_active a =
     (if is_group a then map ace_candidate_id (ae_candidate_evaluations a)
      else case ae_candidate_id a of None \<Rightarrow> [] | Some candidate_id \<Rightarrow> [candidate_id])"

definition stable_gepa_id :: "hashing \<Rightarrow> string \<Rightarrow> string list \<Rightarrow> string" where
  "stable_gepa_id h prefix parts =
     prefix @ ''_'' @ take 16 (sha256_hex h (prefix @ concat (map (\<lambda>part. char_of (0 :: int) # part) parts)))"

definition async_rollout_chunk_id :: "hashing \<Rightarrow> active_evaluation \<Rightarrow> json list \<Rightarrow> string result" where
  "async_rollout_chunk_id h a rows =
     (case row_ids_for_chunk h rows of Inl e \<Rightarrow> Inl e
      | Inr row_ids \<Rightarrow> Inr (stable_gepa_id h ''gepa_chunk''
          [ae_stage a, show_word (ae_generation a), show_word (ae_proposal_index a),
           show_dec (int (first_unscored_row_index_for_active a)),
           join_with '','' (candidate_ids_for_active a), join_with '','' row_ids]))"

text \<open>The partials of the pipeline state are a map in key order; the chunk is put into its partial.\<close>

definition record_async_rollout_chunk ::
  "hashing \<Rightarrow> string \<Rightarrow> active_evaluation \<Rightarrow> json list \<Rightarrow> string \<Rightarrow> string option \<Rightarrow> string list \<Rightarrow>
   ((string \<times> gepa_async_candidate_partial) list, string) op" where
  "record_async_rollout_chunk h partial_id a rows job_id effect_id reservation_ids partials =
     (case async_rollout_chunk_id h a rows of Inl e \<Rightarrow> (partials, Inl e)
      | Inr chunk_id \<Rightarrow>
        (case map_of partials partial_id of
           None \<Rightarrow> (partials, Inl (Invariant
             (''async rollout partial '' @ partial_id @ '' missing while recording chunk'')))
         | Some partial \<Rightarrow>
           (case row_ids_for_chunk h rows of Inl e \<Rightarrow> (partials, Inl e)
            | Inr row_ids \<Rightarrow>
              (let chunk =
                 \<lparr>ch_chunk_id = chunk_id, ch_stage = ae_stage a, ch_generation = ae_generation a,
                  ch_candidate_ids = candidate_ids_for_active a, ch_row_ids = row_ids,
                  ch_first_row_index = first_unscored_row_index_for_active a, ch_row_count = length rows,
                  ch_job_id = Some job_id, ch_effect_id = effect_id, ch_reservation_ids = reservation_ids,
                  ch_status = ''leased'', ch_folded = False, ch_attempt = 0,
                  ch_metadata = JObj [(''chunk_size'', json_u64 (of_nat (length rows)))]\<rparr>
               in (bt_insert partial_id
                     (partial\<lparr>pa_rollout_chunks := bt_insert chunk_id chunk (pa_rollout_chunks partial)\<rparr>) partials,
                   Inr chunk_id)))))"

subsection \<open>Settled and pending rows\<close>

definition settled :: "active_candidate_evaluation \<Rightarrow> string set" where
  "settled c = rs_example_id ` set (ace_scores c) \<union> fa_example_id ` set (ace_failed_attempts c)"

definition pending :: "active_candidate_evaluation \<Rightarrow> string list" where
  "pending c = filter (\<lambda>i. i \<notin> settled c) (ace_row_ids c)"

lemma set_completed_ids:
  "set (completed_ids scores failures) = rs_example_id ` set scores \<union> fa_example_id ` set failures"
  by (simp add: completed_ids_def scored_example_ids_def failed_example_ids_def bt_set_def image_Un)

lemma completed_count_card: "completed_example_count scores failures = card (set (completed_ids scores failures))"
  by (simp add: completed_example_count_def completed_ids_def bt_set_def length_remdups_card_conv)

lemma completed_ids_settled [simp]: "set (completed_ids (ace_scores c) (ace_failed_attempts c)) = settled c"
  by (simp add: set_completed_ids settled_def)

lemma scores_contain_iff [simp]:
  "rollout_scores_contain_example scores i \<longleftrightarrow> i \<in> rs_example_id ` set scores"
  by (auto simp: rollout_scores_contain_example_def list_ex_iff)

lemma collect_results_length: "collect_results f xs = Inr ys \<Longrightarrow> length ys = length xs"
  by (induction xs arbitrary: ys) (auto split: sum.splits)

lemma skip_completed_ids:
  assumes "collect_results (task_identity h) rows = Inr ids"
  obtains rest where "skip_completed h completed rows = Inr rest"
    and "collect_results (task_identity h) rest = Inr (filter (\<lambda>i. i \<notin> set completed) ids)"
    and "set rest \<subseteq> set rows"
  using assms
proof (induction rows arbitrary: ids thesis)
  case Nil
  then show ?case by simp
next
  case (Cons row rows)
  then obtain i ids' where i: "task_identity h row = Inr i" and r: "collect_results (task_identity h) rows = Inr ids'"
    and "ids = i # ids'"
    by (auto split: sum.splits)
  obtain rest where "skip_completed h completed rows = Inr rest" "set rest \<subseteq> set rows"
    "collect_results (task_identity h) rest = Inr (filter (\<lambda>i. i \<notin> set completed) ids')"
    using Cons.IH [OF _ r] by blast
  then show ?case
    using Cons.prems(1) i \<open>ids = i # ids'\<close> by (cases "i \<in> set completed") auto
qed

lemma row_index_found:
  assumes "collect_results (task_identity h) rows = Inr ids" "i \<in> set ids"
  obtains k where "rollout_row_index_by_example_id h rows stage i = Inr k" "k < length rows"
    "task_identity h (rows ! k) = Inr i"
proof -
  have "\<exists>k. row_index_from h n rows stage i = Inr (n + k) \<and> k < length rows \<and> task_identity h (rows ! k) = Inr i" for n
    using assms
  proof (induction rows arbitrary: ids n)
    case (Cons row rows)
    then obtain j js where j: "task_identity h row = Inr j" "collect_results (task_identity h) rows = Inr js"
      and "ids = j # js"
      by (auto split: sum.splits)
    show ?case
    proof (cases "j = i")
      case True
      then show ?thesis
        using j by (intro exI [of _ 0]) simp
    next
      case False
      with Cons.prems \<open>ids = j # js\<close> have "i \<in> set js"
        by auto
      then obtain k where "row_index_from h (Suc n) rows stage i = Inr (Suc n + k)" "k < length rows"
        "task_identity h (rows ! k) = Inr i"
        using Cons.IH [OF j(2)] by blast
      then show ?thesis
        using j False by (intro exI [of _ "Suc k"]) simp
    qed
  qed simp
  from this [of 0] that show ?thesis
    by (auto simp: rollout_row_index_by_example_id_def)
qed

text \<open>
  An evaluation of a candidate is sound for its stage when its rows are the stage's rows with distinct
  identities, everything settled is one of them, and the registry holds the candidate.
\<close>

definition sound_candidate ::
  "hashing \<Rightarrow> gepa_config \<Rightarrow> gepa_step_resources \<Rightarrow> candidate_record list \<Rightarrow> string \<Rightarrow> active_candidate_evaluation \<Rightarrow> bool" where
  "sound_candidate h g resources candidates stage c \<longleftrightarrow>
     (\<exists>rows. rows_for_rollout_stage h g resources stage (ace_generation c) (ace_proposal_index c) = Some rows \<and>
        collect_results (task_identity h) rows = Inr (ace_row_ids c)) \<and>
     distinct (ace_row_ids c) \<and> ace_row_ids c \<noteq> [] \<and> settled c \<subseteq> set (ace_row_ids c) \<and>
     ace_candidate_index c < length candidates \<and>
     ca_candidate_id (candidates ! ace_candidate_index c) = ace_candidate_id c"

lemma new_candidate_sound:
  assumes "rows_for_rollout_stage h g resources stage generation proposal_index = Some rows" "rows \<noteq> []"
    and "new_active_candidate_evaluation h (ca_candidate_id (candidates ! i)) i rows generation proposal_index heldout = Inr c"
    and "i < length candidates" "distinct (ace_row_ids c)"
  shows "sound_candidate h g resources candidates stage c" "settled c = {}"
  using assms collect_results_length [of "task_identity h" rows]
  by (auto simp: new_active_candidate_evaluation_def sound_candidate_def settled_def split: sum.splits)

lemma settled_card_le:
  assumes "sound_candidate h g resources candidates stage c"
  shows "card (settled c) \<le> length (ace_row_ids c)"
    and "card (settled c) = length (ace_row_ids c) \<longleftrightarrow> pending c = []"
proof -
  have d: "distinct (ace_row_ids c)" "settled c \<subseteq> set (ace_row_ids c)"
    using assms by (simp_all add: sound_candidate_def)
  then show "card (settled c) \<le> length (ace_row_ids c)"
    by (metis List.finite_set card_mono distinct_card)
  show "card (settled c) = length (ace_row_ids c) \<longleftrightarrow> pending c = []"
    using d by (metis (no_types, lifting) List.finite_set card_subset_eq distinct_card filter_False filter_empty_conv
        pending_def subset_antisym subsetI)
qed

text \<open>The count that the source compares says the same as the rows themselves.\<close>

lemma candidate_complete_iff:
  assumes "sound_candidate h g resources candidates stage c"
  shows "active_candidate_rollout_complete c \<longleftrightarrow> pending c = []"
  using settled_card_le [OF assms] assms
  by (auto simp: active_candidate_rollout_complete_def active_candidate_completed_rows_def completed_count_card
      sound_candidate_def)

lemma unscored_rows_pending:
  assumes "sound_candidate h g resources candidates stage c"
  obtains rows rest where
    "rows_for_rollout_stage h g resources stage (ace_generation c) (ace_proposal_index c) = Some rows"
    "unscored_rollout_rows h rows (ace_scores c) (ace_failed_attempts c) = Inr rest"
    "collect_results (task_identity h) rest = Inr (pending c)" "length rest = length (pending c)"
proof -
  obtain rows where r: "rows_for_rollout_stage h g resources stage (ace_generation c) (ace_proposal_index c) = Some rows"
    "collect_results (task_identity h) rows = Inr (ace_row_ids c)"
    using assms by (auto simp: sound_candidate_def)
  obtain rest where "skip_completed h (completed_ids (ace_scores c) (ace_failed_attempts c)) rows = Inr rest"
    "collect_results (task_identity h) rest = Inr (pending c)"
    using skip_completed_ids [OF r(2)] by (metis completed_ids_settled pending_def)
  then show ?thesis
    using that r(1) collect_results_length by (metis unscored_rollout_rows_def)
qed

end
