(* ===== verification/Rollout_Planning.thy ===== *)
theory Rollout_Planning
  imports Active_Evaluation
begin

text \<open>
  \<open>lib.rs\<close>, planning the next chunk of a group evaluation and folding its outcomes: how many rollouts
  the run's budgets still allow, which rows of which candidates the next job gets, the scores and
  failures of a finished job, and the coverage that held-out promotion requires.

  What reading a response involves (the sensor frame, the trace artifact, the materialisation records
  and the events) is left to the caller: the folds take the frame and the reward that were read.
\<close>

subsection \<open>Remaining capacity\<close>

definition remaining_rollout_capacity :: "runtime_env \<Rightarrow> workspace \<Rightarrow> string \<Rightarrow> usize result" where
  "remaining_rollout_capacity env ws run_id =
     map_sum id (\<lambda>ledger. unwrap_or (- 1) (bl_remaining_rollouts ledger)) (budget_ledger_snapshot env run_id ws)"

definition remaining_train_rollout_capacity ::
  "runtime_env \<Rightarrow> workspace \<Rightarrow> string \<Rightarrow> gepa_config \<Rightarrow> usize \<Rightarrow> usize result" where
  "remaining_train_rollout_capacity env ws run_id g rollout_count =
     map_sum id (\<lambda>n. min n (saturating_sub (train_rollout_limit g) rollout_count))
       (remaining_rollout_capacity env ws run_id)"

definition heldout_rollout_count :: "candidate_record list \<Rightarrow> nat" where
  "heldout_rollout_count candidates =
     length (filter (\<lambda>frame. sf_evaluation_stage frame = ''heldout'') (concat (map ca_sensor_frames candidates)))"

definition remaining_heldout_rollout_capacity ::
  "runtime_env \<Rightarrow> workspace \<Rightarrow> string \<Rightarrow> gepa_config \<Rightarrow> candidate_record list \<Rightarrow> usize result" where
  "remaining_heldout_rollout_capacity env ws run_id g candidates =
     map_sum id (\<lambda>n. if split_rollout_budgets_enabled g
                     then min n (saturating_sub (heldout_rollout_limit g) (of_nat (heldout_rollout_count candidates)))
                     else n)
       (remaining_rollout_capacity env ws run_id)"

definition remaining_rollout_capacity_for_stage ::
  "runtime_env \<Rightarrow> workspace \<Rightarrow> string \<Rightarrow> gepa_config \<Rightarrow> candidate_record list \<Rightarrow> usize \<Rightarrow> string \<Rightarrow> usize result" where
  "remaining_rollout_capacity_for_stage env ws run_id g candidates rollout_count stage =
     (if stage = ''heldout'' then remaining_heldout_rollout_capacity env ws run_id g candidates
      else remaining_train_rollout_capacity env ws run_id g rollout_count)"

subsection \<open>The next batch of a group\<close>

definition outside_registry :: "nat \<Rightarrow> optimizer_error" where
  "outside_registry i =
     Invariant (''active evaluation candidate index '' @ show_dec (int i) @ '' is outside candidate registry'')"

text \<open>The loop over the candidates: complete ones are passed over, an exhausted budget ends it.\<close>

fun plan_groups ::
  "hashing \<Rightarrow> gepa_config \<Rightarrow> gepa_step_resources \<Rightarrow> candidate_record list \<Rightarrow> string \<Rightarrow>
   active_candidate_evaluation list \<Rightarrow> nat option \<Rightarrow> rollout_batch_candidate list result option" where
  "plan_groups h g resources candidates stage [] budget = Some (Inr [])"
| "plan_groups h g resources candidates stage (c # cs) budget =
     (if length candidates \<le> ace_candidate_index c then Some (Inl (outside_registry (ace_candidate_index c)))
      else case rows_for_rollout_stage h g resources stage (ace_generation c) (ace_proposal_index c) of None \<Rightarrow> None
      | Some rows \<Rightarrow>
        (case unscored_rollout_rows h rows (ace_scores c) (ace_failed_attempts c) of Inl e \<Rightarrow> Some (Inl e)
         | Inr remaining \<Rightarrow>
           if remaining = [] then plan_groups h g resources candidates stage cs budget
           else (case take_count_for_group_rollout_chunk (length remaining) budget of
              (take_count, budget) \<Rightarrow>
                if take_count = 0 then Some (Inr [])
                else map_option (map_sum id (\<lambda>groups.
                         \<lparr>rb_candidate = candidates ! ace_candidate_index c, rb_rows = take take_count remaining,
                          rb_stage = stage\<rparr> # groups))
                       (plan_groups h g resources candidates stage cs budget))))"

definition requested_rollouts :: "rollout_batch_candidate list \<Rightarrow> nat" where
  "requested_rollouts groups = sum_list (map (\<lambda>gr. length (rb_rows gr)) groups)"

datatype next_batch =
    FinalizeEvaluation
  | DeferForBudget nat nat
  | PlanBatch "rollout_batch_candidate list"

text \<open>What \<open>plan_next_rollout_group_batch\<close> decides before it records transitions and the job.\<close>

definition next_group_batch ::
  "runtime_env \<Rightarrow> workspace \<Rightarrow> string \<Rightarrow> gepa_config \<Rightarrow> gepa_step_resources \<Rightarrow> candidate_record list \<Rightarrow> usize \<Rightarrow>
   active_evaluation \<Rightarrow> next_batch result option" where
  "next_group_batch env ws run_id g resources candidates rollout_count a =
     (case plan_groups (en_hashing env) g resources candidates (ae_stage a) (ae_candidate_evaluations a)
             (Some (unat (async_rollout_chunk_size g))) of
        None \<Rightarrow> None
      | Some (Inl e) \<Rightarrow> Some (Inl e)
      | Some (Inr groups) \<Rightarrow>
          Some (if groups = []
                then Inr (if active_rollout_evaluation_complete a then FinalizeEvaluation else DeferForBudget 1 0)
                else (case remaining_rollout_capacity_for_stage env ws run_id g candidates rollout_count (ae_stage a) of
                        Inl e \<Rightarrow> Inl e
                      | Inr capacity \<Rightarrow>
                          Inr (if unat capacity < requested_rollouts groups
                               then DeferForBudget (requested_rollouts groups) (unat capacity)
                               else PlanBatch groups))))"

subsection \<open>Folding outcomes\<close>

text \<open>Plain \<open>+=\<close> on the counters: it wraps in a release build.\<close>

definition usage_merge :: "usage_totals \<Rightarrow> usage_totals \<Rightarrow> usage_totals" where
  "usage_merge u v =
     \<lparr>ut_prompt_tokens = ut_prompt_tokens u + ut_prompt_tokens v,
      ut_completion_tokens = ut_completion_tokens u + ut_completion_tokens v,
      ut_total_tokens = ut_total_tokens u + ut_total_tokens v,
      ut_rollout_calls = ut_rollout_calls u + ut_rollout_calls v,
      ut_proposer_calls = ut_proposer_calls u + ut_proposer_calls v\<rparr>"

definition row_task_id :: "hashing \<Rightarrow> json \<Rightarrow> string" where
  "row_task_id h row = (case task_identity h row of Inr i \<Rightarrow> i | Inl _ \<Rightarrow> ''unknown'')"

definition fold_score ::
  "string \<Rightarrow> string \<Rightarrow> f64 \<Rightarrow> usage_totals \<Rightarrow> f64 \<Rightarrow> sensor_frame \<Rightarrow> active_candidate_evaluation \<Rightarrow>
   active_candidate_evaluation" where
  "fold_score task_id example_id reward usage cost_usd frame c =
     (let scores = ace_scores c @ [\<lparr>rs_example_id = example_id, rs_task_id = task_id, rs_reward = reward\<rparr>]
      in c\<lparr>ace_reward_sum := f64_add (ace_reward_sum c) reward, ace_rollout_count := ace_rollout_count c + 1,
           ace_usage := usage_merge (ace_usage c) usage, ace_cost_usd := f64_add (ace_cost_usd c) cost_usd,
           ace_scores := scores, ace_sensor_frames := ace_sensor_frames c @ [frame],
           ace_next_row_index := next_unscored_row_index (ace_row_ids c) scores (ace_failed_attempts c)\<rparr>)"

fun find_index :: "('a \<Rightarrow> bool) \<Rightarrow> 'a list \<Rightarrow> nat option" where
  "find_index p [] = None"
| "find_index p (x # xs) = (if p x then Some 0 else map_option Suc (find_index p xs))"

text \<open>An outcome of the running job: a scored rollout with what was read from its response.\<close>

record rollout_outcome =
  ro_candidate_id :: "string option"
  ro_stage :: string
  ro_example_id :: string
  ro_reward :: f64
  ro_usage :: usage_totals
  ro_cost_usd :: f64
  ro_frame :: sensor_frame

definition consume_group_rollout_outcome ::
  "hashing \<Rightarrow> gepa_config \<Rightarrow> gepa_step_resources \<Rightarrow> candidate_record list \<Rightarrow> rollout_outcome \<Rightarrow> active_evaluation \<Rightarrow>
   active_evaluation result option" where
  "consume_group_rollout_outcome h g resources candidates out a =
     (case ro_candidate_id out of
        None \<Rightarrow> Some (Inl (Invariant ''rollout batch outcome for grouped evaluation has no candidate_id''))
      | Some candidate_id \<Rightarrow>
        if ae_stage a \<noteq> ro_stage out
        then Some (Inl (Invariant (''rollout outcome stage '' @ ro_stage out @
               '' does not match active stage '' @ ae_stage a)))
        else case find_index (\<lambda>c. ace_candidate_id c = candidate_id) (ae_candidate_evaluations a) of
          None \<Rightarrow> Some (Inl (Invariant (''rollout batch outcome candidate_id '' @ candidate_id @ '' is not active'')))
        | Some i \<Rightarrow>
          (let c = ae_candidate_evaluations a ! i in
           if length candidates \<le> ace_candidate_index c
           then Some (Inl (Invariant (''rollout outcome candidate index '' @ show_dec (int (ace_candidate_index c)) @
                  '' is outside candidate registry'')))
           else case rows_for_rollout_stage h g resources (ro_stage out) (ace_generation c) (ace_proposal_index c) of
             None \<Rightarrow> None
           | Some rows \<Rightarrow>
             Some (case rollout_row_index_by_example_id h rows (ro_stage out) (ro_example_id out) of
               Inl e \<Rightarrow> Inl e
             | Inr row_index \<Rightarrow>
               if rollout_scores_contain_example (ace_scores c) (ro_example_id out) then Inr a
               else Inr (a\<lparr>ae_candidate_evaluations := (ae_candidate_evaluations a)
                 [i := fold_score (row_task_id h (rows ! row_index)) (ro_example_id out) (ro_reward out) (ro_usage out)
                         (ro_cost_usd out) (ro_frame out) c]\<rparr>))))"

text \<open>An evaluation of a single candidate keeps the scores itself; a group hands the outcome to its candidate.\<close>

definition fold_single_score ::
  "string \<Rightarrow> rollout_outcome \<Rightarrow> active_evaluation \<Rightarrow> active_evaluation" where
  "fold_single_score task_id out a =
     (let scores = ae_scores a @ [\<lparr>rs_example_id = ro_example_id out, rs_task_id = task_id, rs_reward = ro_reward out\<rparr>]
      in a\<lparr>ae_reward_sum := f64_add (ae_reward_sum a) (ro_reward out), ae_rollout_count := ae_rollout_count a + 1,
           ae_usage := usage_merge (ae_usage a) (ro_usage out), ae_cost_usd := f64_add (ae_cost_usd a) (ro_cost_usd out),
           ae_scores := scores, ae_sensor_frames := ae_sensor_frames a @ [ro_frame out],
           ae_next_row_index := next_unscored_row_index (ae_row_ids a) scores (ae_failed_attempts a)\<rparr>)"

definition consume_rollout_outcome ::
  "hashing \<Rightarrow> gepa_config \<Rightarrow> gepa_step_resources \<Rightarrow> candidate_record list \<Rightarrow> rollout_outcome \<Rightarrow> active_evaluation \<Rightarrow>
   active_evaluation result option" where
  "consume_rollout_outcome h g resources candidates out a =
     (if is_group a then consume_group_rollout_outcome h g resources candidates out a
      else if ae_stage a \<noteq> ro_stage out
      then Some (Inl (Invariant (''rollout outcome stage '' @ ro_stage out @
             '' does not match active stage '' @ ae_stage a)))
      else case ae_candidate_index a of
        None \<Rightarrow> Some (Inl (Invariant ''rollout outcome active evaluation has no candidate_index''))
      | Some candidate_index \<Rightarrow>
        if length candidates \<le> candidate_index
        then Some (Inl (Invariant (''rollout outcome candidate index '' @ show_dec (int candidate_index) @
               '' is outside candidate registry'')))
        else case rows_for_rollout_stage h g resources (ro_stage out) (ae_generation a) (ae_proposal_index a) of
          None \<Rightarrow> None
        | Some rows \<Rightarrow>
          Some (case rollout_row_index_by_example_id h rows (ro_stage out) (ro_example_id out) of
            Inl e \<Rightarrow> Inl e
          | Inr row_index \<Rightarrow>
            if rollout_scores_contain_example (ae_scores a) (ro_example_id out) then Inr a
            else Inr (fold_single_score (row_task_id h (rows ! row_index)) out a)))"

text \<open>A failed attempt is recorded once for a row, and never for a row that has a score.\<close>

definition already_settled :: "rollout_score list \<Rightarrow> failed_rollout_attempt list \<Rightarrow> string \<Rightarrow> bool" where
  "already_settled scores failures example_id \<longleftrightarrow>
     rollout_scores_contain_example scores example_id \<or>
     list_ex (\<lambda>attempt. fa_example_id attempt = example_id) failures"

definition failed_attempt_for ::
  "string \<Rightarrow> string \<Rightarrow> string \<Rightarrow> optimizer_job \<Rightarrow> failure_payload \<Rightarrow> provider_signal \<Rightarrow> failed_rollout_attempt" where
  "failed_attempt_for candidate_id stage example_id job failure signal =
     \<lparr>fa_candidate_id = candidate_id, fa_stage = stage, fa_example_id = example_id, fa_job_id = oj_job_id job,
      fa_attempt = oj_attempt job, fa_max_attempts = rp_max_attempts (oj_retry_policy job), fa_failure = failure,
      fa_provider_signal = signal\<rparr>"

definition consume_failed_rollout_attempt ::
  "candidate_record list \<Rightarrow> string option \<Rightarrow> string \<Rightarrow> string \<Rightarrow> optimizer_job \<Rightarrow> failure_payload \<Rightarrow> provider_signal \<Rightarrow>
   active_evaluation \<Rightarrow> active_evaluation result" where
  "consume_failed_rollout_attempt candidates candidate_id stage example_id job failure signal a =
     (if ae_stage a \<noteq> stage
      then Inl (Invariant (''failed rollout stage '' @ stage @ '' does not match active stage '' @ ae_stage a))
      else if is_group a then
        (case candidate_id of None \<Rightarrow> Inl (Invariant ''grouped failed rollout omitted candidate_id'')
         | Some candidate_id \<Rightarrow>
           (case find_index (\<lambda>c. ace_candidate_id c = candidate_id) (ae_candidate_evaluations a) of
              None \<Rightarrow> Inl (Invariant (''failed rollout candidate '' @ candidate_id @ '' is not active''))
            | Some i \<Rightarrow>
              (let c = ae_candidate_evaluations a ! i in
               if already_settled (ace_scores c) (ace_failed_attempts c) example_id then Inr a
               else let failures = ace_failed_attempts c @
                          [failed_attempt_for (ace_candidate_id c) stage example_id job failure signal]
                    in Inr (a\<lparr>ae_candidate_evaluations := (ae_candidate_evaluations a)[i := c
                         \<lparr>ace_failed_attempts := failures,
                          ace_next_row_index := next_unscored_row_index (ace_row_ids c) (ace_scores c) failures\<rparr>]\<rparr>))))
      else
        (case ae_candidate_index a of None \<Rightarrow> Inl (Invariant ''failed rollout has no candidate index'')
         | Some candidate_index \<Rightarrow>
           if length candidates \<le> candidate_index
           then Inl (Invariant (''failed rollout candidate index '' @ show_dec (int candidate_index) @ '' is missing''))
           else if already_settled (ae_scores a) (ae_failed_attempts a) example_id then Inr a
           else let failures = ae_failed_attempts a @
                      [failed_attempt_for (ca_candidate_id (candidates ! candidate_index)) stage example_id job failure signal]
                in Inr (a\<lparr>ae_failed_attempts := failures,
                      ae_next_row_index := next_unscored_row_index (ae_row_ids a) (ae_scores a) failures\<rparr>)))"

subsection \<open>Coverage\<close>

definition evaluation_from_active_candidate :: "active_candidate_evaluation \<Rightarrow> candidate_evaluation" where
  "evaluation_from_active_candidate c =
     \<lparr>ev_average_reward = candidate_average_reward c, ev_rollout_count = ace_rollout_count c,
      ev_required_rollout_count = of_nat (length (ace_row_ids c)), ev_failed_attempts = ace_failed_attempts c,
      ev_usage = ace_usage c, ev_cost_usd = ace_cost_usd c, ev_scores = ace_scores c,
      ev_sensor_frames = ace_sensor_frames c\<rparr>"

definition effective_required_rollout_count :: "candidate_evaluation \<Rightarrow> usize" where
  "effective_required_rollout_count eval =
     (if ev_required_rollout_count eval = 0 \<and> 0 < ev_rollout_count eval \<and> ev_failed_attempts eval = []
      then ev_rollout_count eval else ev_required_rollout_count eval)"

text \<open>The event of a blocked promotion is not modelled.\<close>

definition require_complete_heldout_coverage :: "string \<Rightarrow> candidate_evaluation \<Rightarrow> unit result" where
  "require_complete_heldout_coverage candidate_id eval =
     (let required = effective_required_rollout_count eval in
      if ev_rollout_count eval = required \<and> ev_failed_attempts eval = [] then Inr ()
      else Inl (ErrFailed (''heldout coverage incomplete for candidate '' @ candidate_id @ '': scored='' @
             show_word (ev_rollout_count eval) @ '' failed='' @ show_dec (int (length (ev_failed_attempts eval))) @
             '' required='' @ show_word required)))"

subsection \<open>The plan is the first pending rows of the group\<close>

text \<open>Pairs of a candidate and a row: all of the group, the pending ones in the group's order, the planned ones.\<close>

definition all_pairs :: "active_candidate_evaluation list \<Rightarrow> (string \<times> string) list" where
  "all_pairs cs = concat (map (\<lambda>c. map (Pair (ace_candidate_id c)) (ace_row_ids c)) cs)"

definition pending_pairs :: "active_candidate_evaluation list \<Rightarrow> (string \<times> string) list" where
  "pending_pairs cs = concat (map (\<lambda>c. map (Pair (ace_candidate_id c)) (pending c)) cs)"

definition planned_pairs :: "hashing \<Rightarrow> rollout_batch_candidate list \<Rightarrow> (string \<times> string) list" where
  "planned_pairs h groups =
     concat (map (\<lambda>gr. map (\<lambda>row. (ca_candidate_id (rb_candidate gr), row_task_id h row)) (rb_rows gr)) groups)"

definition settled_pairs :: "active_candidate_evaluation list \<Rightarrow> (string \<times> string) set" where
  "settled_pairs cs = (\<Union>c \<in> set cs. Pair (ace_candidate_id c) ` settled c)"

lemma length_planned_pairs: "length (planned_pairs h groups) = requested_rollouts groups"
  by (simp add: planned_pairs_def requested_rollouts_def length_concat comp_def)

lemma row_task_ids_collected:
  "collect_results (task_identity h) rows = Inr ids \<Longrightarrow> map (row_task_id h) rows = ids"
  by (induction rows arbitrary: ids) (auto simp: row_task_id_def split: sum.splits)

lemma plan_groups_prefix:
  assumes "\<forall>c \<in> set cs. sound_candidate h g resources candidates stage c"
  shows "\<exists>groups. plan_groups h g resources candidates stage cs (Some budget) = Some (Inr groups) \<and>
     planned_pairs h groups = take budget (pending_pairs cs) \<and>
     (\<forall>gr \<in> set groups. rb_rows gr \<noteq> [] \<and> rb_stage gr = stage \<and> rb_candidate gr \<in> set candidates)"
  using assms
proof (induction cs arbitrary: budget)
  case Nil
  then show ?case by (simp add: planned_pairs_def pending_pairs_def)
next
  case (Cons c cs)
  then have sound: "sound_candidate h g resources candidates stage c"
    by simp
  then have ix: "ace_candidate_index c < length candidates"
    and cid: "ca_candidate_id (candidates ! ace_candidate_index c) = ace_candidate_id c"
    by (simp_all add: sound_candidate_def)
  obtain rows rest where rows:
    "rows_for_rollout_stage h g resources stage (ace_generation c) (ace_proposal_index c) = Some rows"
    "unscored_rollout_rows h rows (ace_scores c) (ace_failed_attempts c) = Inr rest"
    "collect_results (task_identity h) rest = Inr (pending c)" "length rest = length (pending c)"
    using unscored_rows_pending [OF sound] .
  have ids: "map (row_task_id h) rest = pending c"
    using rows(3) by (rule row_task_ids_collected)
  have pend: "pending_pairs (c # cs) = map (Pair (ace_candidate_id c)) (pending c) @ pending_pairs cs"
    by (simp add: pending_pairs_def)
  let ?n = "min (length rest) budget"
  consider "rest = []" | "rest \<noteq> []" "budget = 0" | "rest \<noteq> []" "budget \<noteq> 0"
    by blast
  then show ?case
  proof cases
    case 1
    then show ?thesis
      using Cons.IH [of budget] Cons.prems ix rows(1,2) ids pend by auto
  next
    case 2
    then show ?thesis
      using ix rows(1,2) by (simp add: planned_pairs_def)
  next
    case 3
    obtain groups where IH: "plan_groups h g resources candidates stage cs (Some (budget - ?n)) = Some (Inr groups)"
      "planned_pairs h groups = take (budget - ?n) (pending_pairs cs)"
      "\<forall>gr \<in> set groups. rb_rows gr \<noteq> [] \<and> rb_stage gr = stage \<and> rb_candidate gr \<in> set candidates"
      using Cons.IH [of "budget - ?n"] Cons.prems by auto
    let ?gr = "\<lparr>rb_candidate = candidates ! ace_candidate_index c, rb_rows = take ?n rest, rb_stage = stage\<rparr>"
    have "?n \<noteq> 0"
      using 3 by simp
    then have run: "plan_groups h g resources candidates stage (c # cs) (Some budget) = Some (Inr (?gr # groups))"
      using ix rows(1,2) 3 IH(1) by (simp add: Let_def)
    have "map (\<lambda>row. (ace_candidate_id c, row_task_id h row)) (take ?n rest)
        = map (Pair (ace_candidate_id c)) (take ?n (pending c))"
      by (simp add: take_map flip: ids)
    then have "planned_pairs h (?gr # groups)
        = map (Pair (ace_candidate_id c)) (take ?n (pending c)) @ planned_pairs h groups"
      using cid by (simp add: planned_pairs_def)
    also have "\<dots> = take budget (pending_pairs (c # cs))"
      using IH(2) rows(4) by (simp add: pend take_map min_def)
    finally show ?thesis
      using run IH(3) 3 ix by (intro exI [of _ "?gr # groups"]) auto
  qed
qed

subsection \<open>Outcomes settle exactly their rows\<close>

text \<open>What the fold of an outcome leaves alone.\<close>

definition same_task :: "active_candidate_evaluation \<Rightarrow> active_candidate_evaluation \<Rightarrow> bool" where
  "same_task c c' \<longleftrightarrow> ace_candidate_id c' = ace_candidate_id c \<and> ace_candidate_index c' = ace_candidate_index c \<and>
     ace_generation c' = ace_generation c \<and> ace_proposal_index c' = ace_proposal_index c \<and>
     ace_row_ids c' = ace_row_ids c"

definition sound_group ::
  "hashing \<Rightarrow> gepa_config \<Rightarrow> gepa_step_resources \<Rightarrow> candidate_record list \<Rightarrow> active_evaluation \<Rightarrow> bool" where
  "sound_group h g resources candidates a \<longleftrightarrow>
     is_group a \<and> distinct (map ace_candidate_id (ae_candidate_evaluations a)) \<and>
     (\<forall>c \<in> set (ae_candidate_evaluations a). sound_candidate h g resources candidates (ae_stage a) c)"

lemma sound_same_task:
  assumes "sound_candidate h g resources candidates stage c" "same_task c c'" "settled c' \<subseteq> set (ace_row_ids c)"
  shows "sound_candidate h g resources candidates stage c'"
  using assms by (simp add: sound_candidate_def same_task_def)

lemma find_index_SomeD: "find_index p xs = Some i \<Longrightarrow> i < length xs \<and> p (xs ! i)"
  by (induction xs arbitrary: i) (auto split: if_splits)

lemma find_index_exists: "x \<in> set xs \<Longrightarrow> p x \<Longrightarrow> \<exists>i. find_index p xs = Some i"
  by (induction xs) auto

lemma pending_pairs_filter:
  assumes "distinct (map ace_candidate_id cs)"
  shows "pending_pairs cs = filter (\<lambda>p. p \<notin> settled_pairs cs) (all_pairs cs)"
proof -
  have "map (Pair (ace_candidate_id c)) (pending c)
      = filter (\<lambda>p. p \<notin> settled_pairs cs) (map (Pair (ace_candidate_id c)) (ace_row_ids c))" if "c \<in> set cs" for c
  proof -
    have "(ace_candidate_id c, i) \<in> settled_pairs cs \<longleftrightarrow> i \<in> settled c" for i
      using assms that by (auto simp: settled_pairs_def distinct_map dest: inj_onD)
    then show ?thesis
      by (simp add: pending_def filter_map comp_def)
  qed
  then have "map (\<lambda>c. map (Pair (ace_candidate_id c)) (pending c)) cs
      = map (filter (\<lambda>p. p \<notin> settled_pairs cs) \<circ> (\<lambda>c. map (Pair (ace_candidate_id c)) (ace_row_ids c))) cs"
    by simp
  then show ?thesis
    by (simp only: pending_pairs_def all_pairs_def filter_concat map_map)
qed

lemma settle_at:
  assumes "sound_group h g resources candidates a" "i < length (ae_candidate_evaluations a)"
    and "same_task (ae_candidate_evaluations a ! i) c'"
    and "settled c' = insert eid (settled (ae_candidate_evaluations a ! i))"
    and "eid \<in> set (ace_row_ids (ae_candidate_evaluations a ! i))"
  defines "a' \<equiv> a\<lparr>ae_candidate_evaluations := (ae_candidate_evaluations a)[i := c']\<rparr>"
  shows "sound_group h g resources candidates a'"
    and "pending_pairs (ae_candidate_evaluations a')
       = filter (\<lambda>p. p \<noteq> (ace_candidate_id (ae_candidate_evaluations a ! i), eid))
           (pending_pairs (ae_candidate_evaluations a))"
proof -
  let ?cs = "ae_candidate_evaluations a" and ?c = "ae_candidate_evaluations a ! i"
  have ids: "map ace_candidate_id (?cs[i := c']) = map ace_candidate_id ?cs"
    using assms(2,3) by (simp add: map_update same_task_def) (metis list_update_id nth_map)
  have pairs: "all_pairs (?cs[i := c']) = all_pairs ?cs"
  proof -
    have "map (\<lambda>c. map (Pair (ace_candidate_id c)) (ace_row_ids c)) (?cs[i := c'])
        = map (\<lambda>c. map (Pair (ace_candidate_id c)) (ace_row_ids c)) ?cs"
      using assms(2,3) by (simp add: map_update same_task_def) (metis (mono_tags, lifting) list_update_id nth_map)
    then show ?thesis by (simp only: all_pairs_def)
  qed
  have sound: "sound_candidate h g resources candidates (ae_stage a) ?c"
    using assms(1,2) by (simp add: sound_group_def)
  then have "settled c' \<subseteq> set (ace_row_ids ?c)"
    using assms(4,5) by (simp add: sound_candidate_def)
  with sound assms(3) have "sound_candidate h g resources candidates (ae_stage a) c'"
    by (rule sound_same_task)
  then show group: "sound_group h g resources candidates a'"
    using assms(1) ids set_update_subset_insert [of ?cs i c'] by (auto simp: sound_group_def a'_def is_group_def)
  have settled: "settled_pairs (?cs[i := c']) = insert (ace_candidate_id ?c, eid) (settled_pairs ?cs)"
  proof -
    have split: "set xs = insert (xs ! i) (set (take i xs @ drop (Suc i) xs))" if "i < length xs" for xs :: "'z list"
      using that by (metis (no_types, lifting) Un_insert_right id_take_nth_drop list.simps(15) set_append)
    have "take i (?cs[i := c']) @ drop (Suc i) (?cs[i := c']) = take i ?cs @ drop (Suc i) ?cs"
      using assms(2) by simp
    then show ?thesis
      using split [of ?cs] split [of "?cs[i := c']"] assms(2,3,4)
      by (auto simp: settled_pairs_def same_task_def simp del: set_append)
  qed
  have "distinct (map ace_candidate_id ?cs)"
    using assms(1) by (simp add: sound_group_def)
  then show "pending_pairs (ae_candidate_evaluations a')
      = filter (\<lambda>p. p \<noteq> (ace_candidate_id ?c, eid)) (pending_pairs ?cs)"
    using ids by (simp add: a'_def pending_pairs_filter pairs settled) (metis (lifting))
qed

lemma settled_fold_score: "settled (fold_score t eid r u co fr c) = insert eid (settled c)"
  by (auto simp: fold_score_def settled_def Let_def)

lemma same_task_fold_score: "same_task c (fold_score t eid r u co fr c)"
  by (simp add: fold_score_def same_task_def Let_def)

text \<open>An answer to a planned row: a scored rollout, or a failed attempt that is given up.\<close>

datatype rollout_answer =
    Scored f64 usage_totals f64 sensor_frame
  | GivenUp optimizer_job failure_payload provider_signal

type_synonym keyed_answer = "(string \<times> string) \<times> rollout_answer"

fun consume_answer ::
  "hashing \<Rightarrow> gepa_config \<Rightarrow> gepa_step_resources \<Rightarrow> candidate_record list \<Rightarrow> keyed_answer \<Rightarrow> active_evaluation \<Rightarrow>
   active_evaluation result option" where
  "consume_answer h g resources candidates ((cid, eid), Scored reward usage cost_usd frame) a =
     consume_rollout_outcome h g resources candidates
       \<lparr>ro_candidate_id = Some cid, ro_stage = ae_stage a, ro_example_id = eid, ro_reward = reward,
        ro_usage = usage, ro_cost_usd = cost_usd, ro_frame = frame\<rparr> a"
| "consume_answer h g resources candidates ((cid, eid), GivenUp job failure signal) a =
     Some (consume_failed_rollout_attempt candidates (Some cid) (ae_stage a) eid job failure signal a)"

fun consume_answers ::
  "hashing \<Rightarrow> gepa_config \<Rightarrow> gepa_step_resources \<Rightarrow> candidate_record list \<Rightarrow> keyed_answer list \<Rightarrow> active_evaluation \<Rightarrow>
   active_evaluation result option" where
  "consume_answers h g resources candidates [] a = Some (Inr a)"
| "consume_answers h g resources candidates (x # xs) a =
     (case consume_answer h g resources candidates x a of
        None \<Rightarrow> None | Some (Inl e) \<Rightarrow> Some (Inl e)
      | Some (Inr a) \<Rightarrow> consume_answers h g resources candidates xs a)"

lemma find_candidate:
  assumes "(cid, eid) \<in> set (all_pairs cs)"
  obtains i where "find_index (\<lambda>c. ace_candidate_id c = cid) cs = Some i" "i < length cs"
    "ace_candidate_id (cs ! i) = cid"
proof -
  obtain c where "c \<in> set cs" "ace_candidate_id c = cid"
    using assms by (auto simp: all_pairs_def)
  with find_index_exists [of c cs "\<lambda>c. ace_candidate_id c = cid"] obtain i where
    "find_index (\<lambda>c. ace_candidate_id c = cid) cs = Some i"
    by blast
  with find_index_SomeD [OF this] that show ?thesis
    by blast
qed

lemma pair_row:
  assumes "distinct (map ace_candidate_id cs)" "(ace_candidate_id (cs ! i), eid) \<in> set (all_pairs cs)" "i < length cs"
  shows "eid \<in> set (ace_row_ids (cs ! i))"
proof -
  obtain c where c: "c \<in> set cs" "ace_candidate_id c = ace_candidate_id (cs ! i)" "eid \<in> set (ace_row_ids c)"
    using assms(2) by (auto simp: all_pairs_def)
  then have "c = cs ! i"
    using assms(1,3) by (meson distinct_map inj_onD nth_mem)
  with c(3) show ?thesis by simp
qed

text \<open>Folding an answer to any row of the group succeeds, keeps the group sound and settles that row alone.\<close>

lemma filter_not_pending:
  "eid \<in> settled c \<Longrightarrow> distinct (map ace_candidate_id cs) \<Longrightarrow> c \<in> set cs \<Longrightarrow>
   filter (\<lambda>p. p \<noteq> (ace_candidate_id c, eid)) (pending_pairs cs) = pending_pairs cs"
  by (auto simp: pending_pairs_filter settled_pairs_def intro!: filter_cong)

lemma consume_answer_settles:
  assumes "sound_group h g resources candidates a" "(cid, eid) \<in> set (all_pairs (ae_candidate_evaluations a))"
  shows "\<exists>a'. consume_answer h g resources candidates ((cid, eid), w) a = Some (Inr a') \<and>
     sound_group h g resources candidates a' \<and>
     all_pairs (ae_candidate_evaluations a') = all_pairs (ae_candidate_evaluations a) \<and>
     pending_pairs (ae_candidate_evaluations a')
       = filter (\<lambda>p. p \<noteq> (cid, eid)) (pending_pairs (ae_candidate_evaluations a))"
proof -
  let ?cs = "ae_candidate_evaluations a"
  obtain i where i: "find_index (\<lambda>c. ace_candidate_id c = cid) ?cs = Some i" "i < length ?cs"
    "ace_candidate_id (?cs ! i) = cid"
    using assms(2) by (rule find_candidate)
  let ?c = "?cs ! i"
  have d: "distinct (map ace_candidate_id ?cs)" and grp: "is_group a"
    using assms(1) by (simp_all add: sound_group_def)
  have row: "eid \<in> set (ace_row_ids ?c)"
    using pair_row [OF d _ i(2)] assms(2) i(3) by simp
  have sound: "sound_candidate h g resources candidates (ae_stage a) ?c"
    using assms(1) i(2) by (simp add: sound_group_def)
  then obtain rows where rows: "rows_for_rollout_stage h g resources (ae_stage a) (ace_generation ?c) (ace_proposal_index ?c) = Some rows"
    "collect_results (task_identity h) rows = Inr (ace_row_ids ?c)" and ix: "ace_candidate_index ?c < length candidates"
    by (auto simp: sound_candidate_def)
  obtain k where k: "rollout_row_index_by_example_id h rows (ae_stage a) eid = Inr k"
    using row_index_found [OF rows(2) row] by metis
  have settle: "sound_group h g resources candidates (a\<lparr>ae_candidate_evaluations := ?cs[i := c']\<rparr>) \<and>
      all_pairs (?cs[i := c']) = all_pairs ?cs \<and>
      pending_pairs (?cs[i := c']) = filter (\<lambda>p. p \<noteq> (cid, eid)) (pending_pairs ?cs)"
    if "same_task ?c c'" "settled c' = insert eid (settled ?c)" for c'
  proof -
    have "all_pairs (?cs[i := c']) = all_pairs ?cs"
    proof -
      have "map (\<lambda>c. map (Pair (ace_candidate_id c)) (ace_row_ids c)) (?cs[i := c'])
          = map (\<lambda>c. map (Pair (ace_candidate_id c)) (ace_row_ids c)) ?cs"
        using i(2) \<open>same_task ?c c'\<close> by (simp add: map_update same_task_def) (metis (mono_tags, lifting) list_update_id nth_map)
      then show ?thesis by (simp only: all_pairs_def)
    qed
    then show ?thesis
      using settle_at [OF assms(1) i(2) \<open>same_task ?c c'\<close> \<open>settled c' = _\<close> row] i(3) by simp
  qed
  have keep: "filter (\<lambda>p. p \<noteq> (cid, eid)) (pending_pairs ?cs) = pending_pairs ?cs" if "eid \<in> settled ?c"
    using filter_not_pending [OF that d] i(2,3) by simp
  show ?thesis
  proof (cases w)
    case (Scored reward usage cost_usd frame)
    let ?c' = "fold_score (row_task_id h (rows ! k)) eid reward usage cost_usd frame ?c"
    show ?thesis
    proof (cases "eid \<in> rs_example_id ` set (ace_scores ?c)")
      case True
      then have "eid \<in> settled ?c"
        by (simp add: settled_def)
      from keep [OF this] True show ?thesis
        using Scored grp i(1) rows(1) k ix assms(1)
        by (simp add: consume_rollout_outcome_def consume_group_rollout_outcome_def Let_def not_le)
    next
      case False
      then show ?thesis
        using Scored grp i(1) rows(1) k ix settle [OF same_task_fold_score settled_fold_score]
        by (simp add: consume_rollout_outcome_def consume_group_rollout_outcome_def Let_def not_le)
    qed
  next
    case (GivenUp job failure signal)
    let ?fails = "ace_failed_attempts ?c @ [failed_attempt_for (ace_candidate_id ?c) (ae_stage a) eid job failure signal]"
    let ?c' = "?c\<lparr>ace_failed_attempts := ?fails,
       ace_next_row_index := next_unscored_row_index (ace_row_ids ?c) (ace_scores ?c) ?fails\<rparr>"
    have done_iff: "already_settled (ace_scores ?c) (ace_failed_attempts ?c) eid \<longleftrightarrow> eid \<in> settled ?c"
      by (auto simp: already_settled_def settled_def list_ex_iff)
    have step: "same_task ?c ?c'" "settled ?c' = insert eid (settled ?c)"
      by (auto simp: same_task_def settled_def failed_attempt_for_def)
    show ?thesis
    proof (cases "eid \<in> settled ?c")
      case True
      from keep [OF this] show ?thesis
        using True done_iff GivenUp grp i(1) assms(1) by (simp add: consume_failed_rollout_attempt_def Let_def)
    next
      case False
      then show ?thesis
        using done_iff GivenUp grp i(1) settle [OF step] by (simp add: consume_failed_rollout_attempt_def Let_def)
    qed
  qed
qed

lemma consume_answers_settle:
  assumes "sound_group h g resources candidates a" "fst ` set ws \<subseteq> set (all_pairs (ae_candidate_evaluations a))"
  shows "\<exists>a'. consume_answers h g resources candidates ws a = Some (Inr a') \<and>
     sound_group h g resources candidates a' \<and>
     all_pairs (ae_candidate_evaluations a') = all_pairs (ae_candidate_evaluations a) \<and>
     pending_pairs (ae_candidate_evaluations a')
       = filter (\<lambda>p. p \<notin> fst ` set ws) (pending_pairs (ae_candidate_evaluations a))"
  using assms
proof (induction ws arbitrary: a)
  case Nil
  then show ?case by simp
next
  case (Cons w ws)
  obtain cid eid v where w: "w = ((cid, eid), v)"
    by (metis surj_pair)
  have "(cid, eid) \<in> set (all_pairs (ae_candidate_evaluations a))"
    using Cons.prems(2) w by simp
  then obtain a1 where a1: "consume_answer h g resources candidates w a = Some (Inr a1)"
    "sound_group h g resources candidates a1"
    "all_pairs (ae_candidate_evaluations a1) = all_pairs (ae_candidate_evaluations a)"
    "pending_pairs (ae_candidate_evaluations a1)
       = filter (\<lambda>p. p \<noteq> (cid, eid)) (pending_pairs (ae_candidate_evaluations a))"
    using consume_answer_settles [OF Cons.prems(1)] w by blast
  obtain a2 where "consume_answers h g resources candidates ws a1 = Some (Inr a2)"
    "sound_group h g resources candidates a2"
    "all_pairs (ae_candidate_evaluations a2) = all_pairs (ae_candidate_evaluations a1)"
    "pending_pairs (ae_candidate_evaluations a2)
       = filter (\<lambda>p. p \<notin> fst ` set ws) (pending_pairs (ae_candidate_evaluations a1))"
    using Cons.IH [OF a1(2)] Cons.prems(2) a1(3) by auto
  then show ?case
    using a1 w by (intro exI [of _ a2]) (auto intro: filter_cong)
qed

subsection \<open>Repeated planning completes an evaluation\<close>

fun run_batches ::
  "hashing \<Rightarrow> gepa_config \<Rightarrow> gepa_step_resources \<Rightarrow> candidate_record list \<Rightarrow>
   (nat \<Rightarrow> (string \<times> string) list \<Rightarrow> keyed_answer list) \<Rightarrow> nat \<Rightarrow> active_evaluation \<Rightarrow> active_evaluation result option" where
  "run_batches h g resources candidates respond 0 a = Some (Inr a)"
| "run_batches h g resources candidates respond (Suc k) a =
     (case plan_groups h g resources candidates (ae_stage a) (ae_candidate_evaluations a)
             (Some (unat (async_rollout_chunk_size g))) of
        None \<Rightarrow> None | Some (Inl e) \<Rightarrow> Some (Inl e)
      | Some (Inr groups) \<Rightarrow>
          (case consume_answers h g resources candidates (respond k (planned_pairs h groups)) a of
             None \<Rightarrow> None | Some (Inl e) \<Rightarrow> Some (Inl e)
           | Some (Inr a) \<Rightarrow> run_batches h g resources candidates respond k a))"

lemma chunk_size_pos: "0 < unat (async_rollout_chunk_size g)"
proof -
  have "1 \<le> async_rollout_chunk_size g"
    by (simp add: async_rollout_chunk_size_def)
  then show ?thesis
    by (simp add: word_le_nat_alt)
qed

lemma pending_pairs_Nil_iff: "pending_pairs cs = [] \<longleftrightarrow> (\<forall>c \<in> set cs. pending c = [])"
  by (simp add: pending_pairs_def)

lemma group_complete_iff:
  assumes "sound_group h g resources candidates a"
  shows "active_rollout_evaluation_complete a \<longleftrightarrow> pending_pairs (ae_candidate_evaluations a) = []"
proof -
  have "active_candidate_rollout_complete c \<longleftrightarrow> pending c = []" if "c \<in> set (ae_candidate_evaluations a)" for c
    using assms that candidate_complete_iff unfolding sound_group_def by blast
  then show ?thesis
    using assms
    by (simp add: active_rollout_evaluation_complete_def sound_group_def list_all_iff pending_pairs_Nil_iff)
qed

lemma pending_pairs_subset: "set (pending_pairs cs) \<subseteq> set (all_pairs cs)"
  by (auto simp: pending_pairs_def all_pairs_def pending_def)

lemma distinct_all_pairs:
  assumes "distinct (map ace_candidate_id cs)" "\<forall>c \<in> set cs. distinct (ace_row_ids c)"
  shows "distinct (all_pairs cs)"
  using assms by (induction cs) (auto simp: all_pairs_def distinct_map inj_on_def)

lemma pending_pairs_distinct:
  assumes "sound_group h g resources candidates a"
  shows "distinct (pending_pairs (ae_candidate_evaluations a))"
  using assms distinct_all_pairs
  by (auto simp: sound_group_def pending_pairs_filter sound_candidate_def intro!: distinct_filter)

lemma filter_not_take: "distinct xs \<Longrightarrow> filter (\<lambda>x. x \<notin> set (take n xs)) xs = drop n xs"
proof -
  assume "distinct xs"
  then have "filter (\<lambda>x. x \<notin> set (take n xs)) (take n xs @ drop n xs) = drop n xs"
    unfolding filter_append
    by (metis (no_types, lifting) append_Nil append_take_drop_id disjoint_iff distinct_append filter_False filter_True)
  then show ?thesis by simp
qed

lemma run_batches_settle:
  assumes "sound_group h g resources candidates a" and "\<And>k ps. fst ` set (respond k ps) = set ps"
  shows "\<exists>a'. run_batches h g resources candidates respond k a = Some (Inr a') \<and>
     sound_group h g resources candidates a' \<and>
     pending_pairs (ae_candidate_evaluations a')
       = drop (k * unat (async_rollout_chunk_size g)) (pending_pairs (ae_candidate_evaluations a))"
  using assms(1)
proof (induction k arbitrary: a)
  case 0
  then show ?case by simp
next
  case (Suc k)
  let ?n = "unat (async_rollout_chunk_size g)" and ?cs = "ae_candidate_evaluations a"
  obtain groups where plan: "plan_groups h g resources candidates (ae_stage a) ?cs (Some ?n) = Some (Inr groups)"
    "planned_pairs h groups = take ?n (pending_pairs ?cs)"
    using plan_groups_prefix Suc.prems by (metis sound_group_def)
  have "fst ` set (respond k (planned_pairs h groups)) \<subseteq> set (all_pairs ?cs)"
    using assms(2) plan(2) pending_pairs_subset set_take_subset by (metis subset_trans)
  from consume_answers_settle [OF Suc.prems this] obtain a1 where
    a1: "consume_answers h g resources candidates (respond k (planned_pairs h groups)) a = Some (Inr a1)"
    "sound_group h g resources candidates a1"
    "pending_pairs (ae_candidate_evaluations a1) = filter (\<lambda>p. p \<notin> set (take ?n (pending_pairs ?cs))) (pending_pairs ?cs)"
    using assms(2) plan(2) by auto
  have "pending_pairs (ae_candidate_evaluations a1) = drop ?n (pending_pairs ?cs)"
    using a1(3) filter_not_take pending_pairs_distinct [OF Suc.prems] by metis
  with Suc.IH [OF a1(2)] plan(1) a1(1) show ?case
    by (auto simp: algebra_simps)
qed

text \<open>
  C17. The plan of a group is the first pending rows in the order of the group: as many as a chunk
  holds, none of them settled, none left out before them. It is planned when the remaining budget
  covers it and deferred with both numbers otherwise; only a group with nothing pending is finalised.
\<close>

theorem group_plan_is_prefix:
  assumes "sound_group (en_hashing env) g resources candidates a"
    and "remaining_rollout_capacity_for_stage env ws run_id g candidates rollout_count (ae_stage a) = Inr capacity"
    and "todo = take (unat (async_rollout_chunk_size g)) (pending_pairs (ae_candidate_evaluations a))"
  shows "\<exists>groups. planned_pairs (en_hashing env) groups = todo \<and>
     (\<forall>gr \<in> set groups. rb_rows gr \<noteq> [] \<and> rb_stage gr = ae_stage a \<and> rb_candidate gr \<in> set candidates) \<and>
     next_group_batch env ws run_id g resources candidates rollout_count a = Some (Inr
       (if pending_pairs (ae_candidate_evaluations a) = [] then FinalizeEvaluation
        else if unat capacity < length todo then DeferForBudget (length todo) (unat capacity)
        else PlanBatch groups))"
proof -
  obtain groups where plan:
    "plan_groups (en_hashing env) g resources candidates (ae_stage a) (ae_candidate_evaluations a)
       (Some (unat (async_rollout_chunk_size g))) = Some (Inr groups)"
    "planned_pairs (en_hashing env) groups = todo"
    "\<forall>gr \<in> set groups. rb_rows gr \<noteq> [] \<and> rb_stage gr = ae_stage a \<and> rb_candidate gr \<in> set candidates"
    using plan_groups_prefix assms(1,3) by (metis sound_group_def)
  have len: "requested_rollouts groups = length todo"
    by (simp add: plan(2) flip: length_planned_pairs [of "en_hashing env"])
  have empty: "groups = [] \<longleftrightarrow> pending_pairs (ae_candidate_evaluations a) = []"
  proof
    assume "groups = []"
    then have "todo = []"
      using plan(2) by (simp add: planned_pairs_def)
    then show "pending_pairs (ae_candidate_evaluations a) = []"
      using chunk_size_pos [of g] assms(3) by simp
  next
    assume "pending_pairs (ae_candidate_evaluations a) = []"
    then have "planned_pairs (en_hashing env) groups = []"
      using plan(2) assms(3) by simp
    then show "groups = []"
      using plan(3) by (cases groups) (auto simp: planned_pairs_def)
  qed
  show ?thesis
    using plan assms(2) group_complete_iff [OF assms(1)] len empty
    by (intro exI [of _ groups]) (simp add: next_group_batch_def)
qed


subsection \<open>The recorded chunk\<close>

text \<open>
  The asynchronous driver recomputes the rows of a planned batch to record them
  (\<open>rows_for_active_rollout_chunk\<close>); its loop does not pass over complete candidates, so that it agrees
  with the plan only while none is complete.
\<close>

lemma group_chunk_rows_planned:
  assumes "\<forall>c \<in> set cs. sound_candidate h g resources candidates stage c" "\<forall>c \<in> set cs. pending c \<noteq> []"
    and "plan_groups h g resources candidates stage cs budget = Some (Inr groups)"
  shows "group_chunk_rows h g resources stage cs budget = Some (Inr (concat (map rb_rows groups)))"
  using assms
proof (induction cs arbitrary: budget groups)
  case Nil
  then show ?case by simp
next
  case (Cons c cs)
  then have sound: "sound_candidate h g resources candidates stage c" and "pending c \<noteq> []"
    by simp_all
  obtain rows rest where rows:
    "rows_for_rollout_stage h g resources stage (ace_generation c) (ace_proposal_index c) = Some rows"
    "unscored_rollout_rows h rows (ace_scores c) (ace_failed_attempts c) = Inr rest"
    "length rest = length (pending c)"
    using unscored_rows_pending [OF sound] .
  have "rest \<noteq> []"
    using rows(3) \<open>pending c \<noteq> []\<close> by auto
  obtain n b where nb: "take_count_for_group_rollout_chunk (length rest) budget = (n, b)"
    by fastforce
  show ?case
  proof (cases "n = 0")
    case True
    then show ?thesis
      using Cons.prems(3) sound rows(1,2) nb \<open>rest \<noteq> []\<close> by (simp add: sound_candidate_def)
  next
    case False
    let ?gr = "\<lparr>rb_candidate = candidates ! ace_candidate_index c, rb_rows = take n rest, rb_stage = stage\<rparr>"
    have "map_option (map_sum id ((#) ?gr)) (plan_groups h g resources candidates stage cs b) = Some (Inr groups)"
      using False Cons.prems(3) sound rows(1,2) nb \<open>rest \<noteq> []\<close> by (simp add: sound_candidate_def)
    then obtain z where z: "plan_groups h g resources candidates stage cs b = Some z" "map_sum id ((#) ?gr) z = Inr groups"
      by blast
    then obtain groups' where "plan_groups h g resources candidates stage cs b = Some (Inr groups')"
      and "concat (map rb_rows groups) = take n rest @ concat (map rb_rows groups')"
      by (cases z) auto
    moreover from this Cons.IH [of b groups'] Cons.prems(1,2) have
      "group_chunk_rows h g resources stage cs b = Some (Inr (concat (map rb_rows groups')))"
      by simp
    ultimately show ?thesis
      using rows(1,2) nb False by simp
  qed
qed

text \<open>
  While no candidate of a group is complete, the rows that the asynchronous driver records for the
  leased chunk are exactly the rows of the planned job, in its order, and at most a chunk of them.
\<close>

theorem recorded_chunk_is_planned:
  assumes "sound_group h g resources candidates a"
    and "\<forall>c \<in> set (ae_candidate_evaluations a). \<not> active_candidate_rollout_complete c"
  shows "\<exists>groups. plan_groups h g resources candidates (ae_stage a) (ae_candidate_evaluations a)
       (Some (unat (async_rollout_chunk_size g))) = Some (Inr groups) \<and>
     rows_for_active_rollout_chunk h g resources a = Some (Inr (concat (map rb_rows groups))) \<and>
     length (concat (map rb_rows groups)) \<le> unat (async_rollout_chunk_size g)"
proof -
  have sound: "\<forall>c \<in> set (ae_candidate_evaluations a). sound_candidate h g resources candidates (ae_stage a) c"
    and "is_group a"
    using assms(1) by (simp_all add: sound_group_def)
  obtain groups where plan: "plan_groups h g resources candidates (ae_stage a) (ae_candidate_evaluations a)
      (Some (unat (async_rollout_chunk_size g))) = Some (Inr groups)"
    "planned_pairs h groups = take (unat (async_rollout_chunk_size g)) (pending_pairs (ae_candidate_evaluations a))"
    using plan_groups_prefix [OF sound] by blast
  have "\<forall>c \<in> set (ae_candidate_evaluations a). pending c \<noteq> []"
    using sound assms(2) candidate_complete_iff by blast
  from group_chunk_rows_planned [OF sound this plan(1)] \<open>is_group a\<close> have
    "rows_for_active_rollout_chunk h g resources a = Some (Inr (concat (map rb_rows groups)))"
    by (simp add: rows_for_active_rollout_chunk_def)
  moreover have "length (concat (map rb_rows groups)) \<le> unat (async_rollout_chunk_size g)"
  proof -
    have "length (concat (map rb_rows groups)) = length (planned_pairs h groups)"
      by (simp add: length_concat requested_rollouts_def comp_def length_planned_pairs)
    with plan(2) show ?thesis by simp
  qed
  ultimately show ?thesis
    using plan(1) by blast
qed

subsection \<open>Coverage of held-out evaluations\<close>

text \<open>The counters of an evaluation follow its scores: at most one score for a row of the evaluation.\<close>

definition counted :: "active_candidate_evaluation \<Rightarrow> bool" where
  "counted c \<longleftrightarrow> ace_rollout_count c = of_nat (length (ace_scores c)) \<and>
     distinct (map rs_example_id (ace_scores c)) \<and> length (ace_row_ids c) < 2 ^ 64"

lemma new_candidate_counted:
  assumes "new_active_candidate_evaluation h cid i rows generation proposal_index heldout = Inr c"
    and "length rows < 2 ^ 64"
  shows "counted c"
  using assms collect_results_length [of "task_identity h" rows]
  by (auto simp: new_active_candidate_evaluation_def counted_def split: sum.splits)

lemma counted_fold_score:
  "counted c \<Longrightarrow> eid \<notin> rs_example_id ` set (ace_scores c) \<Longrightarrow> counted (fold_score t eid r u co fr c)"
  by (auto simp: counted_def fold_score_def Let_def)

text \<open>
  C38. A candidate passes the held-out coverage check exactly when every row of its evaluation has a
  score and no attempt at one was given up; recorded failures alone, which complete the evaluation,
  never pass.
\<close>

theorem heldout_coverage_exact:
  assumes "sound_candidate h g resources candidates ''heldout'' c" "counted c"
  shows "require_complete_heldout_coverage cid (evaluation_from_active_candidate c) = Inr () \<longleftrightarrow>
     set (ace_row_ids c) = rs_example_id ` set (ace_scores c) \<and> ace_failed_attempts c = []"
proof -
  let ?rows = "ace_row_ids c" and ?scored = "rs_example_id ` set (ace_scores c)"
  have d: "distinct ?rows" "?scored \<subseteq> set ?rows" "?rows \<noteq> []"
    using assms(1) by (auto simp: sound_candidate_def settled_def)
  have len: "length (ace_scores c) = card ?scored" "length ?rows = card (set ?rows)"
    using assms(2) d(1) by (metis counted_def distinct_card length_map list.set_map) (simp add: d(1) distinct_card)
  then have le: "length (ace_scores c) \<le> length ?rows"
    by (simp add: card_mono d(2))
  have small: "length ?rows < 2 ^ 64" "length (ace_scores c) < 2 ^ 64"
    using assms(2) le by (auto simp: counted_def)
  have words: "(of_nat m :: u64) = of_nat n \<longleftrightarrow> m = n" if "m < 2 ^ 64" "n < 2 ^ 64" for m n
    using that unat_of_nat_small by metis
  have nonzero: "(of_nat (length ?rows) :: u64) \<noteq> 0"
    using words [of "length ?rows" 0] small d(3) by simp
  have "of_nat (length (ace_scores c)) = (of_nat (length ?rows) :: u64) \<longleftrightarrow> ?scored = set ?rows"
    using words [OF small(2,1)] len d(2) by (metis List.finite_set card_subset_eq)
  then show ?thesis
    using assms(2) nonzero
    by (auto simp: require_complete_heldout_coverage_def evaluation_from_active_candidate_def
        effective_required_rollout_count_def counted_def Let_def)
qed

subsection \<open>Concrete evaluations\<close>

text \<open>Two candidates on two held-out rows, with chunks of one row and of two rows.\<close>

definition sample_resources :: gepa_step_resources where
  "sample_resources = \<lparr>sr_objective_set = sample_objectives, sr_train_rows = [], sr_minibatch_rows = [],
     sr_reflection_rows = [], sr_heldout_rows = sample_rows, sr_rollout_task_id = ''t''\<rparr>"

definition chunked_config :: "usize \<Rightarrow> gepa_config" where
  "chunked_config n = gepa_config_default\<lparr>gc_rollout_chunk_size := Some n\<rparr>"

definition sample_active :: "string \<Rightarrow> nat \<Rightarrow> rollout_score list \<Rightarrow> active_candidate_evaluation" where
  "sample_active cid i scores =
     \<lparr>ace_candidate_id = cid, ace_candidate_index = i, ace_generation = 0, ace_proposal_index = 0,
      ace_row_ids = [''e1'', ''e2''], ace_next_row_index = length scores, ace_heldout_candidate_index = Some i,
      ace_parent_id = None, ace_scores = scores, ace_failed_attempts = [], ace_sensor_frames = [],
      ace_reward_sum = f64_zero, ace_usage = usage_default, ace_cost_usd = f64_zero,
      ace_rollout_count = of_nat (length scores), ace_parent_minibatch_reward = None, ace_decision = None\<rparr>"

definition sample_scored :: "string \<Rightarrow> rollout_score" where
  "sample_scored e = \<lparr>rs_example_id = e, rs_task_id = e, rs_reward = f64_lit 1\<rparr>"

definition sample_group :: "rollout_score list \<Rightarrow> active_evaluation" where
  "sample_group scores =
     new_rollout_group_evaluation ''heldout'' [sample_active ''b'' 0 scores, sample_active ''a'' 1 []] 0"

lemma framed_candidate_ids: "ca_candidate_id (framed_candidates ! 0) = ''b''" "ca_candidate_id (framed_candidates ! 1) = ''a''"
  "length framed_candidates = 2"
  by (simp_all add: framed_candidates_def framed_candidate_def sample_candidate_def)

lemma sample_active_sound:
  assumes "i < 2" "cid = [''b'', ''a''] ! i" "rs_example_id ` set scores \<subseteq> {''e1'', ''e2''}"
  shows "sound_candidate sample_hashing g sample_resources framed_candidates ''heldout'' (sample_active cid i scores)"
proof -
  have "ca_candidate_id (framed_candidates ! i) = cid"
    using assms(1,2) framed_candidate_ids by (auto simp: less_2_cases_iff)
  then show ?thesis
    using assms sample_rows_ids framed_candidate_ids(3)
    by (simp add: sound_candidate_def rows_for_rollout_stage_def sample_resources_def sample_active_def settled_def)
qed

lemma sample_group_sound:
  "rs_example_id ` set scores \<subseteq> {''e1'', ''e2''} \<Longrightarrow>
   sound_group sample_hashing g sample_resources framed_candidates (sample_group scores)"
  using sample_active_sound [of 0 "''b''" scores g] sample_active_sound [of 1 "''a''" "[]" g]
  by (simp add: sound_group_def sample_group_def new_rollout_group_evaluation_def is_group_def)
     (simp add: sample_active_def)

lemma chunk_size_chunked: "n \<noteq> 0 \<Longrightarrow> async_rollout_chunk_size (chunked_config n) = n"
  using max_one_word [of n] by (simp add: async_rollout_chunk_size_def chunked_config_def opt_filter_def word_neq_0_conv)

lemma sample_pending: "pending_pairs (ae_candidate_evaluations (sample_group [])) =
    [(''b'', ''e1''), (''b'', ''e2''), (''a'', ''e1''), (''a'', ''e2'')]"
  by (simp add: sample_group_def new_rollout_group_evaluation_def pending_pairs_def pending_def settled_def sample_active_def)

text \<open>A job scores what it can and gives up the row \<open>e2\<close> of \<open>b\<close>.\<close>

definition sample_answers :: "nat \<Rightarrow> (string \<times> string) list \<Rightarrow> keyed_answer list" where
  "sample_answers k ps = map (\<lambda>p. (p,
     if p = (''b'', ''e2'')
     then GivenUp (optimizer_job_new ''j'' ''r'' JkRollout) (from_optimizer_error (ErrFailed ''timeout''))
            \<lparr>ps_status_code = None, ps_provider_error_code = None, ps_overload = False, ps_retryable = True\<rparr>
     else Scored (f64_lit 1) usage_default f64_zero (sample_frame (snd p) 1))) ps"


theorem recorded_chunk_is_planned_witness:
  "\<exists>groups. plan_groups sample_hashing (chunked_config 3) sample_resources framed_candidates ''heldout''
       (ae_candidate_evaluations (sample_group [])) (Some (unat (async_rollout_chunk_size (chunked_config 3)))) = Some (Inr groups) \<and>
     rows_for_active_rollout_chunk sample_hashing (chunked_config 3) sample_resources (sample_group [])
       = Some (Inr (concat (map rb_rows groups))) \<and>
     length (concat (map rb_rows groups)) \<le> unat (async_rollout_chunk_size (chunked_config 3))"
proof -
  have s: "sound_group sample_hashing (chunked_config 3) sample_resources framed_candidates (sample_group [])"
    by (rule sample_group_sound) simp
  have "\<forall>c \<in> set (ae_candidate_evaluations (sample_group [])). \<not> active_candidate_rollout_complete c"
    by (simp add: sample_group_def new_rollout_group_evaluation_def active_candidate_rollout_complete_def
        active_candidate_completed_rows_def completed_count_card set_completed_ids sample_active_def)
  from recorded_chunk_is_planned [OF s this] show ?thesis
    by (simp add: sample_group_def new_rollout_group_evaluation_def)
qed

text \<open>
  Once the first candidate is complete the two loops differ: the job plans a row of the second
  candidate, and the chunk recorded for the job is empty.
\<close>

lemma recorded_chunk_misses_plan:
  "map_option (map_sum id requested_rollouts) (plan_groups sample_hashing (chunked_config 1) sample_resources framed_candidates ''heldout''
       (ae_candidate_evaluations (sample_group [sample_scored ''e1'', sample_scored ''e2''])) (Some 1)) = Some (Inr 1) \<and>
   rows_for_active_rollout_chunk sample_hashing (chunked_config 1) sample_resources
     (sample_group [sample_scored ''e1'', sample_scored ''e2'']) = Some (Inr [])"
  by code_simp

theorem heldout_coverage_exact_witness:
  "require_complete_heldout_coverage ''b''
     (evaluation_from_active_candidate (sample_active ''b'' 0 [sample_scored ''e2'', sample_scored ''e1''])) = Inr ()"
proof -
  have "sound_candidate sample_hashing gepa_config_default sample_resources framed_candidates ''heldout''
      (sample_active ''b'' 0 [sample_scored ''e2'', sample_scored ''e1''])"
    by (rule sample_active_sound) (simp_all add: sample_scored_def)
  moreover have "counted (sample_active ''b'' 0 [sample_scored ''e2'', sample_scored ''e1''])"
    by (simp add: counted_def sample_active_def sample_scored_def)
  ultimately show ?thesis
    by (subst heldout_coverage_exact) (auto simp: sample_active_def sample_scored_def)
qed

definition planning_env :: runtime_env where
  "planning_env = sample_env\<lparr>en_hashing := sample_hashing\<rparr>"

definition three_rollouts :: workspace where
  "three_rollouts = sample_workspace (unlimited\<lparr>rl_max_total_rollouts := Some 3\<rparr>)"

lemma sample_capacity:
  "remaining_rollout_capacity_for_stage planning_env three_rollouts ''r'' (chunked_config n) framed_candidates 0 ''heldout'' = Inr 3"
proof -
  have "map_sum id bl_remaining_rollouts (budget_ledger_snapshot planning_env ''r'' three_rollouts) = Inr (Some 3)"
    by code_simp
  then have "map_sum id (\<lambda>l. unwrap_or (- 1) (bl_remaining_rollouts l)) (budget_ledger_snapshot planning_env ''r'' three_rollouts) = Inr 3"
    by (cases "budget_ledger_snapshot planning_env ''r'' three_rollouts") simp_all
  moreover have "\<not> split_rollout_budgets_enabled (chunked_config n)"
    by (simp add: split_rollout_budgets_enabled_def chunked_config_def gepa_config_default_def)
  ultimately show ?thesis
    by (simp add: remaining_rollout_capacity_for_stage_def remaining_heldout_rollout_capacity_def
        remaining_rollout_capacity_def)
qed

theorem group_plan_is_prefix_witness:
  "\<exists>groups. planned_pairs sample_hashing groups = [(''b'', ''e1''), (''b'', ''e2''), (''a'', ''e1'')] \<and>
     next_group_batch planning_env three_rollouts ''r'' (chunked_config 3) sample_resources framed_candidates 0
       (sample_group []) = Some (Inr (PlanBatch groups))"
proof -
  have h: "en_hashing planning_env = sample_hashing" "ae_stage (sample_group []) = ''heldout''"
    by (simp_all add: planning_env_def sample_group_def new_rollout_group_evaluation_def)
  have "sound_group (en_hashing planning_env) (chunked_config 3) sample_resources framed_candidates (sample_group [])"
    by (simp add: h sample_group_sound)
  moreover have "remaining_rollout_capacity_for_stage planning_env three_rollouts ''r'' (chunked_config 3) framed_candidates 0
      (ae_stage (sample_group [])) = Inr 3"
    by (simp add: h sample_capacity)
  ultimately show ?thesis
    using group_plan_is_prefix [OF _ _ refl, of planning_env "chunked_config 3" sample_resources framed_candidates
        "sample_group []" three_rollouts "''r''" 0 3]
    by (auto simp: h sample_pending chunk_size_chunked)
qed

end
