(* ===== verification/F64_Exact.thy ===== *)
theory F64_Exact
  imports F64
begin

text \<open>
  Rounding is exact on the numbers that a binary64 can hold: a multiple of a power of two with at most
  53 significant bits. Counters and their halves below \<open>2\<^sup>5\<^sup>3\<close> are such numbers.
\<close>

lemma bit_length_bounds: "0 < n \<Longrightarrow> 2 ^ nat (bit_length n - 1) \<le> n \<and> n < 2 ^ nat (bit_length n) \<and> 1 \<le> bit_length n"
proof (induction n rule: bit_length.induct)
  case (1 n)
  show ?case
  proof (cases "n = 1")
    case True
    then show ?thesis
      by (simp add: bit_length.simps)
  next
    case False
    with 1 have pos: "0 < n div 2" "\<not> n \<le> 0"
      by auto
    with 1 have IH: "2 ^ nat (bit_length (n div 2) - 1) \<le> n div 2" "n div 2 < 2 ^ nat (bit_length (n div 2))"
      "1 \<le> bit_length (n div 2)"
      by auto
    let ?k = "nat (bit_length (n div 2) - 1)"
    have k: "nat (bit_length (n div 2)) = Suc ?k" "nat (1 + bit_length (n div 2) - 1) = Suc ?k"
      "nat (1 + bit_length (n div 2)) = Suc (Suc ?k)"
      using IH(3) by simp_all
    have "bit_length n = 1 + bit_length (n div 2)"
      using pos by (subst bit_length.simps) simp
    moreover have "2 ^ Suc ?k \<le> n" "n < 2 ^ Suc (Suc ?k)"
    proof -
      have "2 * 2 ^ ?k \<le> 2 * (n div 2)" "2 * (n div 2) + 2 \<le> 2 * 2 ^ Suc ?k"
        using IH(1,2) k(1) by simp_all
      then show "2 ^ Suc ?k \<le> n" "n < 2 ^ Suc (Suc ?k)"
        by simp_all
    qed
    ultimately show ?thesis
      using k IH(3) by simp
  qed
qed

lemma pow2_powr: "pow2 e = (2 :: rat) powi e"
  by (simp add: pow2_def ipow2_eq power_int_def power_one_over)

lemma pow2_add: "pow2 (a + b) = pow2 a * pow2 b"
  by (simp add: pow2_powr power_int_add)

lemma pow2_mono: "a \<le> b \<Longrightarrow> pow2 a \<le> pow2 b"
  by (simp add: pow2_powr power_int_increasing)

lemma pow2_nat: "pow2 (int n) = 2 ^ n"
  by (simp add: pow2_powr)

lemma ilog2_lower:
  assumes "0 < r"
  shows "pow2 (ilog2 r) \<le> r"
proof -
  obtain a b where ab: "quotient_of r = (a, b)"
    by fastforce
  then have b: "0 < b" and r: "r = of_int a / of_int b"
    by (simp_all add: quotient_of_denom_pos quotient_of_div)
  with assms have a: "0 < a"
    by (simp add: zero_less_divide_iff)
  let ?k = "bit_length a - bit_length b"
  show ?thesis
  proof (cases "pow2 ?k \<le> r")
    case True
    then show ?thesis
      using ab by (simp add: ilog2_def Let_def)
  next
    case False
    have la: "1 \<le> bit_length a" "2 ^ nat (bit_length a - 1) \<le> a"
      using bit_length_bounds [OF a] by auto
    have lb: "1 \<le> bit_length b" "b < 2 ^ nat (bit_length b)"
      using bit_length_bounds [OF b] by auto
    have "pow2 (bit_length a - 1) \<le> of_int a"
    proof -
      have "pow2 (bit_length a - 1) = of_int (2 ^ nat (bit_length a - 1))"
        using la(1) pow2_nat [of "nat (bit_length a - 1)"] by simp
      also have "\<dots> \<le> of_int a"
        using la(2) by (rule of_int_le_iff [THEN iffD2])
      finally show ?thesis .
    qed
    moreover have "of_int b \<le> pow2 (bit_length b)"
    proof -
      have "of_int b \<le> (of_int (2 ^ nat (bit_length b)) :: rat)"
        using lb(2) by (simp only: of_int_le_iff)
      also have "\<dots> = pow2 (bit_length b)"
        using lb(1) pow2_nat [of "nat (bit_length b)"] by simp
      finally show ?thesis .
    qed
    ultimately have "pow2 (?k - 1) * of_int b \<le> of_int a"
    proof -
      have "pow2 (?k - 1) * of_int b \<le> pow2 (?k - 1) * pow2 (bit_length b)"
        using \<open>of_int b \<le> pow2 (bit_length b)\<close> pow2_pos [of "?k - 1"] by simp
      also have "\<dots> = pow2 (bit_length a - 1)"
        by (simp flip: pow2_add)
      also have "\<dots> \<le> of_int a"
        by (rule \<open>pow2 (bit_length a - 1) \<le> of_int a\<close>)
      finally show ?thesis .
    qed
    then have "pow2 (?k - 1) \<le> r"
      using b r by (simp add: pos_le_divide_eq)
    then show ?thesis
      using False ab by (simp add: ilog2_def Let_def)
  qed
qed

text \<open>A multiple \<open>n\<close> of \<open>2\<^sup>e\<close> with \<open>n < 2\<^sup>5\<^sup>3\<close>, in the range of normal numbers, is a binary64.\<close>

lemma f64_round_exact:
  assumes "0 < n" "n < 2 ^ 53" "- 1074 \<le> e" "e \<le> 900"
  shows "f64_round s (of_int n * pow2 e) = F64_Fin s (of_int n * pow2 e)"
proof -
  let ?m = "of_int n * pow2 e :: rat"
  define k where k: "k = max (ilog2 (of_int n * pow2 e)) (- 1022) - 52"
  have pos: "0 < ?m"
    using assms(1) pow2_pos by simp
  have small: "?m < pow2 (53 + e)"
  proof -
    have "of_int n < (of_int (2 ^ 53) :: rat)"
      using assms(2) by (simp only: of_int_less_iff)
    then have "of_int n < pow2 53"
      using pow2_nat [of 53] by simp
    then show ?thesis
      using pow2_pos [of e] by (simp add: pow2_add)
  qed
  have "ilog2 ?m < 53 + e"
  proof (rule ccontr)
    assume "\<not> ilog2 ?m < 53 + e"
    then have "pow2 (53 + e) \<le> pow2 (ilog2 ?m)"
      by (intro pow2_mono) simp
    with ilog2_lower [OF pos] small show False
      by simp
  qed
  then have ke: "k \<le> e"
    using assms(3) by (simp add: k)
  have split: "pow2 e = pow2 (e - k) * pow2 k"
    by (simp flip: pow2_add)
  have whole: "pow2 (e - k) = of_int (2 ^ nat (e - k))"
    using ke pow2_nat [of "nat (e - k)"] by simp
  have "?m / pow2 k = of_int (n * 2 ^ nat (e - k))"
    using pow2_pos [of k] by (subst split) (simp only: whole, simp)
  then have "of_int (round_half_even (?m / pow2 k)) * pow2 k = of_int (n * 2 ^ nat (e - k)) * pow2 k"
    by (simp only: round_half_even_int)
  also have "\<dots> = of_int n * (of_int (2 ^ nat (e - k)) * pow2 k)"
    by (simp only: of_int_mult mult.assoc)
  also have "\<dots> = ?m"
    by (simp only: split whole)
  finally have round: "of_int (round_half_even (?m / pow2 k)) * pow2 k = ?m" .
  have "pow2 (53 + e) \<le> pow2 1024"
    using assms(4) by (intro pow2_mono) simp
  with small have "\<not> pow2 1024 \<le> ?m"
    by simp
  moreover have "?m \<noteq> 0"
    using pos by (rule less_imp_neq [symmetric])
  ultimately show ?thesis
    by (simp only: f64_round_def Let_def round if_False flip: k)
qed

lemma f64_of_nat_exact: "n < 2 ^ 53 \<Longrightarrow> f64_of_nat n = F64_Fin False (of_nat n)"
proof (cases "n = 0")
  case True
  then show ?thesis
    by (simp add: f64_of_nat_def f64_round_def)
next
  case False
  assume "n < 2 ^ 53"
  with False have "0 < int n" "int n < 2 ^ 53"
    by simp_all
  from f64_round_exact [OF this, of 0 False] show ?thesis
    by (simp add: f64_of_nat_def pow2_nat [of 0, simplified])
qed

lemma f64_half: "f64_lit (1 / 2) = F64_Fin False (1 / 2)"
proof -
  have "pow2 (- 1) = 1 / 2"
    by (simp add: pow2_powr power_int_minus)
  with f64_round_exact [of 1 "- 1" False] show ?thesis
    by (simp add: f64_lit_def)
qed

text \<open>Half of a counter, truncated, is its integer half.\<close>

lemma f64_half_floor:
  assumes "n < 2 ^ 53"
  shows "f64_to_u64 (f64_floor (f64_mul (f64_of_nat n) (f64_lit (1 / 2)))) = of_nat (n div 2)"
proof -
  have half: "of_nat n * (1 / 2) = (of_int (int n) * pow2 (- 1) :: rat)"
    by (simp add: pow2_powr power_int_minus)
  have "f64_mul (f64_of_nat n) (f64_lit (1 / 2)) = F64_Fin False (of_nat n * (1 / 2))"
  proof (cases "n = 0")
    case True
    then show ?thesis
      by (simp add: f64_of_nat_def f64_round_def f64_half)
  next
    case False
    then show ?thesis
      using f64_round_exact [of "int n" "- 1" False] assms
      by (simp only: f64_of_nat_exact [OF assms] f64_half f64_mul.simps half) simp
  qed
  moreover have floor: "\<lfloor>of_nat n * (1 / 2) :: rat\<rfloor> = int (n div 2)"
  proof -
    have "\<lfloor>of_int (int n) / (of_int 2 :: rat)\<rfloor> = int n div 2"
      by (rule floor_divide_of_int_eq)
    then show ?thesis
      by (simp add: zdiv_int)
  qed
  moreover have "n div 2 < 2 ^ 64"
    using assms by simp
  ultimately show ?thesis
    by (simp add: floor)
qed

end
