(* ===== verification/Gepa_Pipeline.thy ===== *)
theory Gepa_Pipeline
  imports Active_Evaluation Config_Validation F64_Exact
begin

text \<open>
  The asynchronous pipeline of the GEPA driver: its plan and how stale work is treated
  (\<open>pipeline.rs\<close>), the state that the cursor keeps of it (\<open>planner.rs\<close>), the limits that adapt to
  overload and backlog, the circuit breaker over failing rollouts, and the provider signals that
  drive them (\<open>lib.rs\<close>).

  Events are not modelled: an operation is the change of the state, without the events it emits.
  \<open>None\<close> is the panic of \<open>clamp\<close> with bounds out of order.
\<close>

subsection \<open>Plans\<close>

record gepa_async_pipeline_plan =
  pp_mode :: gepa_pipeline_mode
  pp_rollout_transport :: string
  pp_staleness_policy :: gepa_staleness_policy
  pp_delta_max :: u64
  pp_propose_workers :: usize
  pp_rollout_workers :: usize
  pp_evaluate_workers :: usize
  pp_max_in_flight_candidates :: usize
  pp_rollout_chunk_size :: usize
  pp_adaptive_rollout_concurrency :: gepa_adaptive_rollout_concurrency_config
  pp_adaptive_stage_workers :: gepa_adaptive_stage_workers_config
  pp_speculative_completion :: gepa_speculative_completion_config

datatype gepa_pipeline_runtime_plan =
    PlanSyncSerial string
  | PlanAsyncPipelined gepa_async_pipeline_plan
  | PlanFlashEvolve gepa_async_pipeline_plan

datatype gepa_pipeline_lane = LanePropose | LaneRollout | LaneEvaluate

definition async_plan_supported :: "gepa_pipeline_mode \<Rightarrow> gepa_staleness_policy \<Rightarrow> unit result" where
  "async_plan_supported mode policy =
     (case mode of
        AsyncPipelined \<Rightarrow>
          if policy = StaleFull then Inr ()
          else Inl (Config (''gepa.pipeline.staleness_policy = '' @ staleness_policy_debug policy @
                 '' is reserved for flash_evolve; use full with async_pipelined''))
      | FlashEvolve \<Rightarrow> Inr ()
      | SyncSerial \<Rightarrow> Inl (Config ''sync_serial does not use an async pipeline plan''))"

definition async_plan_from_config ::
  "gepa_pipeline_mode \<Rightarrow> gepa_pipeline_config \<Rightarrow> string \<Rightarrow> usize option \<Rightarrow> gepa_async_pipeline_plan result" where
  "async_plan_from_config mode c rollout_transport rollout_chunk_size =
     (case async_plan_supported mode (pl_staleness_policy c) of Inl e \<Rightarrow> Inl e
      | Inr _ \<Rightarrow> Inr
          \<lparr>pp_mode = mode, pp_rollout_transport = rollout_transport, pp_staleness_policy = pl_staleness_policy c,
           pp_delta_max = pl_delta_max c, pp_propose_workers = wk_propose (pl_workers c),
           pp_rollout_workers = wk_rollout (pl_workers c), pp_evaluate_workers = wk_evaluate (pl_workers c),
           pp_max_in_flight_candidates = pl_max_in_flight_candidates c,
           pp_rollout_chunk_size = (case rollout_chunk_size of Some n \<Rightarrow> n
             | None \<Rightarrow> if ac_enabled (pl_adaptive_rollout_concurrency c)
                       then clamp_1_128 (ac_initial (pl_adaptive_rollout_concurrency c))
                       else clamp_1_128 (wk_rollout (pl_workers c))),
           pp_adaptive_rollout_concurrency = pl_adaptive_rollout_concurrency c,
           pp_adaptive_stage_workers = pl_adaptive_stage_workers c,
           pp_speculative_completion = pl_speculative_completion c\<rparr>)"

definition runtime_plan_from_config :: "gepa_config \<Rightarrow> gepa_pipeline_runtime_plan result" where
  "runtime_plan_from_config g =
     (case resolved_mode (gc_pipeline g) of
        SyncSerial \<Rightarrow> Inr (PlanSyncSerial (gc_rollout_submission_mode g))
      | AsyncPipelined \<Rightarrow> map_sum id PlanAsyncPipelined
          (async_plan_from_config AsyncPipelined (gc_pipeline g) (gc_rollout_submission_mode g) (gc_rollout_chunk_size g))
      | FlashEvolve \<Rightarrow> map_sum id PlanFlashEvolve
          (async_plan_from_config FlashEvolve (gc_pipeline g) (gc_rollout_submission_mode g) (gc_rollout_chunk_size g)))"

fun plan_mode :: "gepa_pipeline_runtime_plan \<Rightarrow> gepa_pipeline_mode" where
  "plan_mode (PlanSyncSerial _) = SyncSerial"
| "plan_mode (PlanAsyncPipelined plan) = pp_mode plan"
| "plan_mode (PlanFlashEvolve plan) = pp_mode plan"

definition plan_lanes :: "gepa_async_pipeline_plan \<Rightarrow> gepa_pipeline_lane list" where
  "plan_lanes plan = [LanePropose, LaneRollout, LaneEvaluate]"

definition plan_label :: "gepa_async_pipeline_plan \<Rightarrow> string" where
  "plan_label plan = pipeline_mode_str (pp_mode plan)"

definition uses_generation_barrier :: "gepa_async_pipeline_plan \<Rightarrow> bool" where
  "uses_generation_barrier plan \<longleftrightarrow> pp_mode plan = AsyncPipelined"

subsection \<open>Stale work\<close>

datatype gepa_stale_item_disposition = AcceptAsIs | Discard | ReflectivePatch

record gepa_stale_item_decision =
  sd_disposition :: gepa_stale_item_disposition
  sd_current_pool_version :: u64
  sd_stale_gap :: u64
  sd_reason :: string

definition stale_item_disposition ::
  "gepa_async_pipeline_plan \<Rightarrow> u64 \<Rightarrow> u64 \<Rightarrow> gepa_stale_item_decision" where
  "stale_item_disposition plan parent_pool_version current_pool_version =
     (let stale_gap = saturating_sub current_pool_version parent_pool_version in
      if pp_mode plan = FlashEvolve \<and> pp_staleness_policy plan = StaleGuarded \<and> pp_delta_max plan < stale_gap
      then \<lparr>sd_disposition = Discard, sd_current_pool_version = current_pool_version, sd_stale_gap = stale_gap,
            sd_reason = ''stale gap '' @ show_word stale_gap @ '' exceeds guarded delta_max '' @ show_word (pp_delta_max plan)\<rparr>
      else if pp_mode plan = FlashEvolve \<and> pp_staleness_policy plan = StaleReflective \<and> 0 < stale_gap
      then \<lparr>sd_disposition = ReflectivePatch, sd_current_pool_version = current_pool_version, sd_stale_gap = stale_gap,
            sd_reason = ''stale item requires reflective review''\<rparr>
      else \<lparr>sd_disposition = AcceptAsIs, sd_current_pool_version = current_pool_version, sd_stale_gap = stale_gap,
            sd_reason = if stale_gap = 0 then ''item is current'' else ''staleness policy accepts stale item''\<rparr>)"

record gepa_pipeline_work_item =
  wi_lane :: gepa_pipeline_lane
  wi_subject_id :: string
  wi_generation :: usize
  wi_parent_pool_version :: u64
  wi_current_pool_version :: "u64 option"
  wi_stale_gap :: "u64 option"

definition with_current_pool_version :: "u64 \<Rightarrow> gepa_pipeline_work_item \<Rightarrow> gepa_pipeline_work_item" where
  "with_current_pool_version current item =
     item\<lparr>wi_stale_gap := Some (saturating_sub current (wi_parent_pool_version item)),
          wi_current_pool_version := Some current\<rparr>"

subsection \<open>The state of the pipeline\<close>

record gepa_adaptive_rollout_concurrency_adjustment =
  ca_direction :: string
  ca_old_limit :: usize
  ca_new_limit :: usize
  ca_reason :: string
  ca_completed_rollouts :: usize

record gepa_adaptive_rollout_concurrency_state =
  cc_initialized :: bool
  cc_current_limit :: usize
  cc_successes_since_adjustment :: usize
  cc_completed_rollouts :: usize
  cc_overload_count :: usize
  cc_last_adjustment :: "gepa_adaptive_rollout_concurrency_adjustment option"
  cc_adjustments :: "gepa_adaptive_rollout_concurrency_adjustment list"

record gepa_adaptive_stage_workers_adjustment =
  wa_lane :: string
  wa_direction :: string
  wa_old_limit :: usize
  wa_new_limit :: usize
  wa_reason :: string

record gepa_adaptive_stage_workers_state =
  ws_initialized :: bool
  ws_propose_limit :: usize
  ws_rollout_limit :: usize
  ws_evaluate_limit :: usize
  ws_last_adjustment :: "gepa_adaptive_stage_workers_adjustment option"
  ws_adjustments :: "gepa_adaptive_stage_workers_adjustment list"

record gepa_speculative_release_record =
  sl_release_id :: string
  sl_source_partial_id :: string
  sl_evaluate_partial_id :: string
  sl_stage :: string
  sl_generation :: usize
  sl_candidate_ids :: "string list"
  sl_completed_rows :: usize
  sl_total_rows :: usize
  sl_alpha :: f64

record gepa_staleness_review_record =
  sw_review_id :: string
  sw_item_id :: string
  sw_stage :: string
  sw_generation :: usize
  sw_candidate_ids :: "string list"
  sw_verdict :: string
  sw_reason :: string
  sw_stale_gap :: u64
  sw_parent_pool_version :: u64
  sw_current_pool_version :: u64
  sw_reviewer_workspace :: "string option"

record gepa_rollout_failure_sample =
  fs_infra_failed :: bool
  fs_stage :: string
  fs_example_id :: string
  fs_failure_class :: "string option"
  fs_provider_status_code :: "u16 option"

record gepa_rollout_circuit_breaker =
  cb_rolling_rate :: f64
  cb_tolerance :: f64
  cb_sample_count :: nat
  cb_reason :: string

record gepa_rollout_resilience_state =
  rr_rolling_samples :: "gepa_rollout_failure_sample list"
  rr_degraded_rollouts :: usize
  rr_scored_rollouts :: usize
  rr_last_failure_rate :: f64
  rr_last_circuit_breaker :: "gepa_rollout_circuit_breaker option"

record gepa_async_lane_work_item =
  li_item_id :: string
  li_lane :: string
  li_stage :: string
  li_generation :: usize
  li_proposal_index :: usize
  li_parent_candidate_id :: "string option"
  li_parent_pool_version :: u64
  li_current_pool_version :: "u64 option"
  li_stale_gap :: "u64 option"
  li_candidate_ids :: "string list"
  li_partial_id :: "string option"
  li_job_id :: "string option"
  li_effect_id :: "string option"
  li_reservation_ids :: "string list"
  li_status :: string
  li_metadata :: json

record gepa_async_lane_lease =
  ll_lease_id :: string
  ll_lane :: string
  ll_stage :: string
  ll_generation :: usize
  ll_parent_pool_version :: u64
  ll_partial_id :: "string option"
  ll_job_id :: "string option"
  ll_effect_id :: "string option"
  ll_reservation_ids :: "string list"
  ll_status :: string
  ll_metadata :: json

record gepa_async_pipeline_cursor_state =
  ap_pool_version :: u64
  ap_parent_pool_version :: "u64 option"
  ap_parent_candidate_id :: "string option"
  ap_in_flight_candidate_count :: nat
  ap_propose_queue :: "gepa_async_lane_work_item list"
  ap_rollout_queue :: "gepa_async_lane_work_item list"
  ap_evaluate_queue :: "gepa_async_lane_work_item list"
  ap_lane_leases :: "(string \<times> gepa_async_lane_lease) list"
  ap_pending_job_ids :: "string list"
  ap_pending_effect_ids :: "string list"
  ap_candidate_partials :: "(string \<times> gepa_async_candidate_partial) list"
  ap_adaptive_rollout_concurrency :: gepa_adaptive_rollout_concurrency_state
  ap_adaptive_stage_workers :: gepa_adaptive_stage_workers_state
  ap_speculative_releases :: "gepa_speculative_release_record list"
  ap_staleness_reviews :: "gepa_staleness_review_record list"
  ap_rollout_resilience :: gepa_rollout_resilience_state
  ap_terminal_readiness :: json

definition concurrency_state_default :: gepa_adaptive_rollout_concurrency_state where
  "concurrency_state_default = \<lparr>cc_initialized = False, cc_current_limit = 0, cc_successes_since_adjustment = 0,
     cc_completed_rollouts = 0, cc_overload_count = 0, cc_last_adjustment = None, cc_adjustments = []\<rparr>"

definition stage_workers_state_default :: gepa_adaptive_stage_workers_state where
  "stage_workers_state_default = \<lparr>ws_initialized = False, ws_propose_limit = 0, ws_rollout_limit = 0,
     ws_evaluate_limit = 0, ws_last_adjustment = None, ws_adjustments = []\<rparr>"

definition resilience_state_default :: gepa_rollout_resilience_state where
  "resilience_state_default = \<lparr>rr_rolling_samples = [], rr_degraded_rollouts = 0, rr_scored_rollouts = 0,
     rr_last_failure_rate = f64_zero, rr_last_circuit_breaker = None\<rparr>"

definition async_lane_lease_count :: "gepa_async_pipeline_cursor_state \<Rightarrow> string \<Rightarrow> nat" where
  "async_lane_lease_count ps lane = length (filter (\<lambda>lease. ll_lane lease = lane) (map snd (ap_lane_leases ps)))"

definition async_job_has_lane_lease :: "gepa_async_pipeline_cursor_state \<Rightarrow> string \<Rightarrow> bool" where
  "async_job_has_lane_lease ps job_id = list_ex (\<lambda>lease. ll_job_id lease = Some job_id) (map snd (ap_lane_leases ps))"

definition async_pipeline_has_no_lane_work :: "gepa_async_pipeline_cursor_state \<Rightarrow> bool" where
  "async_pipeline_has_no_lane_work ps \<longleftrightarrow>
     ap_lane_leases ps = [] \<and> ap_propose_queue ps = [] \<and> ap_rollout_queue ps = [] \<and> ap_evaluate_queue ps = []"

definition async_rollout_chunks_folded :: "gepa_async_pipeline_cursor_state \<Rightarrow> bool" where
  "async_rollout_chunks_folded ps =
     list_all (\<lambda>chunk. ch_folded chunk \<or> ch_status chunk = ''folded'')
       (concat (map (\<lambda>(_, partial). map snd (pa_rollout_chunks partial)) (ap_candidate_partials ps)))"

definition async_pipeline_retry_scheduled :: "gepa_async_pipeline_cursor_state \<Rightarrow> bool" where
  "async_pipeline_retry_scheduled ps =
     list_ex (\<lambda>lease. ll_status lease = job_status_str JsRetryScheduled) (map snd (ap_lane_leases ps))"

text \<open>\<open>push\<close>, then \<open>remove(0)\<close> when there are more than 32 entries.\<close>

definition push_window :: "'a \<Rightarrow> 'a list \<Rightarrow> 'a list" where
  "push_window x xs = (let ys = xs @ [x] in if 32 < length ys then tl ys else ys)"

subsection \<open>Adaptive rollout concurrency\<close>

definition ensure_adaptive_rollout_concurrency_state ::
  "gepa_async_pipeline_plan \<Rightarrow> gepa_adaptive_rollout_concurrency_state \<Rightarrow> gepa_adaptive_rollout_concurrency_state option" where
  "ensure_adaptive_rollout_concurrency_state plan s =
     (let adaptive = pp_adaptive_rollout_concurrency plan in
      if \<not> ac_enabled adaptive then Some (s\<lparr>cc_current_limit := max (pp_rollout_workers plan) 1\<rparr>)
      else if \<not> cc_initialized s
      then map_option (\<lambda>limit. s\<lparr>cc_initialized := True, cc_current_limit := limit, cc_successes_since_adjustment := 0\<rparr>)
             (checked_clamp (ac_initial adaptive) (ac_min adaptive) (ac_max adaptive))
      else Some s)"

definition adaptive_rollout_worker_limit ::
  "gepa_async_pipeline_plan \<Rightarrow> gepa_adaptive_rollout_concurrency_state \<Rightarrow> usize option" where
  "adaptive_rollout_worker_limit plan s =
     (let adaptive = pp_adaptive_rollout_concurrency plan in
      if \<not> ac_enabled adaptive then Some (max (pp_rollout_workers plan) 1)
      else map_option (\<lambda>limit. max limit 1) (checked_clamp (cc_current_limit s) (ac_min adaptive) (ac_max adaptive)))"

definition record_adjustment ::
  "string \<Rightarrow> usize \<Rightarrow> string \<Rightarrow> gepa_adaptive_rollout_concurrency_state \<Rightarrow> gepa_adaptive_rollout_concurrency_state" where
  "record_adjustment direction new_limit reason s =
     (let adjustment = \<lparr>ca_direction = direction, ca_old_limit = cc_current_limit s, ca_new_limit = new_limit,
            ca_reason = reason, ca_completed_rollouts = cc_completed_rollouts s\<rparr>
      in s\<lparr>cc_current_limit := new_limit, cc_last_adjustment := Some adjustment,
           cc_adjustments := push_window adjustment (cc_adjustments s)\<rparr>)"

definition raised_limit :: "usize \<Rightarrow> usize" where
  "raised_limit old_limit =
     max (f64_to_u64 (f64_ceil (f64_mul (f64_of_nat (unat old_limit)) (f64_lit (11 / 10))))) (saturating_add old_limit 1)"

definition record_adaptive_rollout_success ::
  "gepa_async_pipeline_plan \<Rightarrow> usize \<Rightarrow> gepa_adaptive_rollout_concurrency_state \<Rightarrow>
   gepa_adaptive_rollout_concurrency_state option" where
  "record_adaptive_rollout_success plan rollout_count s =
     (let adaptive = pp_adaptive_rollout_concurrency plan in
      if rollout_count = 0 \<or> \<not> ac_enabled adaptive then Some s
      else case ensure_adaptive_rollout_concurrency_state plan s of None \<Rightarrow> None
      | Some s \<Rightarrow>
        (let s = s\<lparr>cc_completed_rollouts := saturating_add (cc_completed_rollouts s) rollout_count,
                   cc_successes_since_adjustment := saturating_add (cc_successes_since_adjustment s) rollout_count\<rparr> in
         if cc_successes_since_adjustment s < ac_increase_after_successes adaptive then Some s
         else case checked_clamp (raised_limit (cc_current_limit s)) (ac_min adaptive) (ac_max adaptive) of None \<Rightarrow> None
         | Some new_limit \<Rightarrow>
           (let s = s\<lparr>cc_successes_since_adjustment := 0\<rparr> in
            if new_limit = cc_current_limit s then Some s
            else Some (record_adjustment ''up'' new_limit
              (''multiplicative_healthy_after_'' @ show_word (ac_increase_after_successes adaptive) @ ''_rollout_successes'') s))))"

definition lowered_limit :: "usize \<Rightarrow> usize" where
  "lowered_limit old_limit = f64_to_u64 (f64_floor (f64_mul (f64_of_nat (unat old_limit)) (f64_lit (1 / 2))))"

definition record_adaptive_rollout_overload ::
  "gepa_async_pipeline_plan \<Rightarrow> provider_signal \<Rightarrow> gepa_adaptive_rollout_concurrency_state \<Rightarrow>
   gepa_adaptive_rollout_concurrency_state option" where
  "record_adaptive_rollout_overload plan signal s =
     (let adaptive = pp_adaptive_rollout_concurrency plan in
      if \<not> ac_enabled adaptive \<or> \<not> ps_overload signal then Some s
      else case ensure_adaptive_rollout_concurrency_state plan s of None \<Rightarrow> None
      | Some s \<Rightarrow>
        (let s = s\<lparr>cc_overload_count := saturating_add (cc_overload_count s) 1, cc_successes_since_adjustment := 0\<rparr> in
         case checked_clamp (lowered_limit (cc_current_limit s)) (ac_min adaptive) (ac_max adaptive) of None \<Rightarrow> None
         | Some new_limit \<Rightarrow>
           if new_limit = cc_current_limit s then Some s
           else Some (record_adjustment ''down'' new_limit ''provider_overload'' s)))"

subsection \<open>Adaptive stage workers\<close>

definition ensure_adaptive_stage_workers_state ::
  "gepa_async_pipeline_plan \<Rightarrow> gepa_adaptive_stage_workers_state \<Rightarrow> gepa_adaptive_stage_workers_state option" where
  "ensure_adaptive_stage_workers_state plan s =
     (let adaptive = pp_adaptive_stage_workers plan; bound = (\<lambda>n. checked_clamp n (aw_min adaptive) (aw_max adaptive)) in
      if \<not> aw_enabled adaptive
      then Some (s\<lparr>ws_propose_limit := max (pp_propose_workers plan) 1, ws_rollout_limit := max (pp_rollout_workers plan) 1,
                   ws_evaluate_limit := max (pp_evaluate_workers plan) 1\<rparr>)
      else if ws_initialized s then Some s
      else case (bound (pp_propose_workers plan), bound (pp_rollout_workers plan), bound (pp_evaluate_workers plan)) of
        (Some p, Some r, Some e) \<Rightarrow>
          Some (s\<lparr>ws_initialized := True, ws_propose_limit := p, ws_rollout_limit := r, ws_evaluate_limit := e\<rparr>)
      | _ \<Rightarrow> None)"

definition stage_limit :: "string \<Rightarrow> gepa_adaptive_stage_workers_state \<Rightarrow> usize" where
  "stage_limit lane s =
     (if lane = ''propose'' then ws_propose_limit s else if lane = ''evaluate'' then ws_evaluate_limit s
      else ws_rollout_limit s)"

definition set_stage_limit :: "string \<Rightarrow> usize \<Rightarrow> gepa_adaptive_stage_workers_state \<Rightarrow> gepa_adaptive_stage_workers_state" where
  "set_stage_limit lane n s =
     (if lane = ''propose'' then s\<lparr>ws_propose_limit := n\<rparr> else if lane = ''evaluate'' then s\<lparr>ws_evaluate_limit := n\<rparr>
      else s\<lparr>ws_rollout_limit := n\<rparr>)"

definition adaptive_stage_worker_limit ::
  "gepa_async_pipeline_plan \<Rightarrow> string \<Rightarrow> gepa_adaptive_stage_workers_state \<Rightarrow> usize option" where
  "adaptive_stage_worker_limit plan lane s =
     (let adaptive = pp_adaptive_stage_workers plan in
      if \<not> aw_enabled adaptive
      then Some (max (if lane = ''propose'' then pp_propose_workers plan
                      else if lane = ''evaluate'' then pp_evaluate_workers plan else pp_rollout_workers plan) 1)
      else map_option (\<lambda>n. max n 1) (checked_clamp (stage_limit lane s) (aw_min adaptive) (aw_max adaptive)))"

definition adaptive_rollout_lane_limit ::
  "gepa_async_pipeline_plan \<Rightarrow> gepa_async_pipeline_cursor_state \<Rightarrow> usize option" where
  "adaptive_rollout_lane_limit plan ps =
     (case (adaptive_rollout_worker_limit plan (ap_adaptive_rollout_concurrency ps),
            adaptive_stage_worker_limit plan ''rollout'' (ap_adaptive_stage_workers ps)) of
        (Some a, Some b) \<Rightarrow> Some (max (min a b) 1) | _ \<Rightarrow> None)"

definition adjust_adaptive_stage_worker_limit ::
  "gepa_async_pipeline_plan \<Rightarrow> string \<Rightarrow> string \<Rightarrow> string \<Rightarrow> gepa_adaptive_stage_workers_state \<Rightarrow>
   gepa_adaptive_stage_workers_state option" where
  "adjust_adaptive_stage_worker_limit plan lane direction reason s =
     (let adaptive = pp_adaptive_stage_workers plan; bound = (\<lambda>n. checked_clamp n (aw_min adaptive) (aw_max adaptive)) in
      case map_option (\<lambda>n. max n 1) (bound (stage_limit lane s)) of None \<Rightarrow> None
      | Some old_limit \<Rightarrow>
        (case (if direction = ''up'' then bound (saturating_add old_limit 1)
               else if direction = ''down'' then bound (saturating_sub old_limit 1) else Some old_limit) of
           None \<Rightarrow> None
         | Some new_limit \<Rightarrow>
             if new_limit = old_limit then Some s
             else let adjustment = \<lparr>wa_lane = lane, wa_direction = direction, wa_old_limit = old_limit,
                        wa_new_limit = new_limit, wa_reason = reason\<rparr>;
                      s = set_stage_limit lane new_limit s
                  in Some (s\<lparr>ws_last_adjustment := Some adjustment,
                             ws_adjustments := push_window adjustment (ws_adjustments s)\<rparr>)))"

text \<open>The largest gap of the queue, zero when it is empty.\<close>

definition max_stale_gap :: "u64 \<Rightarrow> gepa_async_lane_work_item list \<Rightarrow> u64" where
  "max_stale_gap pool_version items =
     foldr (\<lambda>item. max (saturating_sub pool_version (li_parent_pool_version item))) items 0"

definition adjust_adaptive_stage_workers ::
  "gepa_async_pipeline_plan \<Rightarrow> gepa_async_pipeline_cursor_state \<Rightarrow> gepa_async_pipeline_cursor_state option" where
  "adjust_adaptive_stage_workers plan ps =
     (let adaptive = pp_adaptive_stage_workers plan in
      if \<not> aw_enabled adaptive then Some ps
      else case ensure_adaptive_stage_workers_state plan (ap_adaptive_stage_workers ps) of None \<Rightarrow> None
      | Some s \<Rightarrow>
        (let adjust = (\<lambda>lane direction reason. adjust_adaptive_stage_worker_limit plan lane direction reason s) in
         map_option (\<lambda>s. ps\<lparr>ap_adaptive_stage_workers := s\<rparr>)
          (if unat (aw_backlog_threshold adaptive) \<le> length (ap_rollout_queue ps)
           then adjust ''rollout'' ''up'' ''rollout_queue_backlog''
           else if unat (aw_backlog_threshold adaptive) \<le> length (ap_evaluate_queue ps)
           then adjust ''evaluate'' ''up'' ''evaluate_queue_backlog''
           else if aw_stale_gap_threshold adaptive < max_stale_gap (ap_pool_version ps) (ap_evaluate_queue ps)
           then adjust ''propose'' ''down'' ''stale_gap_pressure''
           else if ap_rollout_queue ps = [] \<and> async_lane_lease_count ps ''rollout'' = 0
           then adjust ''rollout'' ''down'' ''rollout_lane_idle''
           else Some s)))"

subsection \<open>Provider signals\<close>

text \<open>The text after the first occurrence of a marker (\<open>str::find\<close>).\<close>

fun text_after :: "string \<Rightarrow> string \<Rightarrow> string option" where
  "text_after marker [] = (if marker = [] then Some [] else None)"
| "text_after marker (c # s) =
     (if starts_with (c # s) marker then Some (drop (length marker) (c # s)) else text_after marker s)"

text \<open>The pieces of a text between characters that are not decimal digits.\<close>

fun digit_tokens :: "string \<Rightarrow> string list" where
  "digit_tokens [] = [[]]"
| "digit_tokens (c # s) =
     (if is_digit c then (case digit_tokens s of [] \<Rightarrow> [[c]] | t # ts \<Rightarrow> (c # t) # ts) else [] # digit_tokens s)"

definition token_status :: "string \<Rightarrow> u16 option" where
  "token_status token =
     (if length token \<noteq> 3 then None
      else let n = foldl (\<lambda>n c. n * 10 + (of_char c - 48)) (0 :: nat) token in
        if 400 \<le> n \<and> n \<le> 599 then Some (of_nat n) else None)"

definition http_status_from_error_text :: "string \<Rightarrow> u16 option" where
  "http_status_from_error_text text =
     (let lowered = to_ascii_lowercase text in
      first_some (\<lambda>marker. case text_after marker lowered of None \<Rightarrow> None
                    | Some tail \<Rightarrow> first_some token_status (digit_tokens tail))
        [''httpexception'', ''http status'', ''status_code'', ''status''])"

definition fallback_error_text_is_overload :: "optimizer_error \<Rightarrow> bool" where
  "fallback_error_text_is_overload e =
     list_ex (\<lambda>needle. str_contains (to_ascii_lowercase (error_to_string e)) needle)
       [''429'', ''rate limit'', ''rate_limit'', ''overload'', ''overloaded'', ''too many requests'', ''temporarily unavailable'']"

fun rollout_error_is_retryable :: "optimizer_error \<Rightarrow> bool" where
  "rollout_error_is_retryable (HttpError _ _) = True"
| "rollout_error_is_retryable (Container _) = True"
| "rollout_error_is_retryable (ContainerHttpStatus _ status_code _) \<longleftrightarrow>
     status_code \<in> set [408, 409, 425, 429] \<or> 500 \<le> status_code \<and> status_code \<le> 599"
| "rollout_error_is_retryable (ErrFailed _) = True"
| "rollout_error_is_retryable (JsonError _) = True"
| "rollout_error_is_retryable _ = False"

fun error_status_code :: "optimizer_error \<Rightarrow> u16 option" where
  "error_status_code (ContainerHttpStatus _ status_code _) = Some status_code"
| "error_status_code (HttpError _ status) = status"
| "error_status_code e = http_status_from_error_text (error_to_string e)"

definition status_is_overload :: "gepa_config \<Rightarrow> u16 option \<Rightarrow> bool" where
  "status_is_overload g status_code =
     (case status_code of None \<Rightarrow> False
      | Some status \<Rightarrow> status \<in> set (ac_overload_status_codes (pl_adaptive_rollout_concurrency (gc_pipeline g))))"

definition provider_signal_from_error :: "gepa_config \<Rightarrow> optimizer_error \<Rightarrow> provider_signal" where
  "provider_signal_from_error g e =
     \<lparr>ps_status_code = error_status_code e, ps_provider_error_code = None,
      ps_overload = status_is_overload g (error_status_code e) \<or> fallback_error_text_is_overload e,
      ps_retryable = rollout_error_is_retryable e\<rparr>"

definition u16_of_u64 :: "u64 \<Rightarrow> u16 option" where
  "u16_of_u64 n = (if unat n < 2 ^ 16 then Some (ucast n) else None)"

definition provider_signal_from_failure :: "gepa_config \<Rightarrow> failure_payload option \<Rightarrow> provider_signal" where
  "provider_signal_from_failure g failure =
     (let status_code = or_else
            (Option.bind (Option.bind (Option.bind failure (\<lambda>f. map_of (fp_details f) ''status'')) as_u64) u16_of_u64)
            (Option.bind failure (\<lambda>f. http_status_from_error_text (fp_message f)))
      in \<lparr>ps_status_code = status_code, ps_provider_error_code = map_option fp_reason_code failure,
          ps_overload = status_is_overload g status_code,
          ps_retryable = (case failure of None \<Rightarrow> False | Some f \<Rightarrow> fp_retryable f)\<rparr>)"

subsection \<open>The circuit breaker\<close>

record rollout_resilience_observation =
  ob_stage :: string
  ob_example_id :: string
  ob_degraded :: bool
  ob_failure :: "failure_payload option"
  ob_provider_signal :: provider_signal

definition observed_sample :: "rollout_resilience_observation \<Rightarrow> gepa_rollout_failure_sample" where
  "observed_sample x =
     \<lparr>fs_infra_failed = ob_degraded x, fs_stage = ob_stage x, fs_example_id = ob_example_id x,
      fs_failure_class = map_option failure_class (ob_failure x),
      fs_provider_status_code = ps_status_code (ob_provider_signal x)\<rparr>"

definition failure_rate :: "gepa_rollout_failure_sample list \<Rightarrow> f64" where
  "failure_rate samples =
     (if samples = [] then f64_zero
      else f64_div (f64_of_nat (length (filter fs_infra_failed samples))) (f64_of_nat (length samples)))"

definition breaker_error :: "gepa_rollout_circuit_breaker \<Rightarrow> optimizer_error" where
  "breaker_error b = ErrFailed (''rollout infra failure rate '' @ f64_format 2 (cb_rolling_rate b) @
     '' exceeds tolerance '' @ f64_format 2 (cb_tolerance b) @ '' (window='' @ show_dec (int (cb_sample_count b)) @ '' rollouts)'')"

definition record_rollout_resilience_sample ::
  "gepa_config \<Rightarrow> rollout_resilience_observation \<Rightarrow> (gepa_rollout_resilience_state, unit) op" where
  "record_rollout_resilience_sample g x s =
     (let samples = push_window (observed_sample x) (rr_rolling_samples s);
          rate = failure_rate samples;
          s = s\<lparr>rr_rolling_samples := samples,
                rr_degraded_rollouts := (if ob_degraded x then saturating_add (rr_degraded_rollouts s) 1 else rr_degraded_rollouts s),
                rr_scored_rollouts := (if ob_degraded x then rr_scored_rollouts s else saturating_add (rr_scored_rollouts s) 1),
                rr_last_failure_rate := rate\<rparr>;
          tolerance = gc_rollout_failure_rate_tolerance g
      in if 8 \<le> length samples \<and> f64_lt tolerance rate
         then let breaker = \<lparr>cb_rolling_rate = rate, cb_tolerance = tolerance, cb_sample_count = length samples,
                    cb_reason = ''rolling_failure_rate_exceeded''\<rparr>
              in (s\<lparr>rr_last_circuit_breaker := Some breaker\<rparr>, Inl (breaker_error breaker))
         else (s, Inr ()))"

definition check_rollout_section_breaker ::
  "gepa_config \<Rightarrow> string \<Rightarrow> nat \<Rightarrow> nat \<Rightarrow> (gepa_rollout_resilience_state, unit) op" where
  "check_rollout_section_breaker g stage scored_count degraded_count s =
     (if scored_count = 0 \<and> 2 \<le> degraded_count
      then (s\<lparr>rr_last_circuit_breaker := Some \<lparr>cb_rolling_rate = rr_last_failure_rate s,
              cb_tolerance = gc_rollout_failure_rate_tolerance g, cb_sample_count = length (rr_rolling_samples s),
              cb_reason = ''section_zero_scored_rollouts''\<rparr>\<rparr>,
            Inl (ErrFailed (''rollout section '' @ stage @ '' produced zero scored rollouts ('' @
              show_dec (int degraded_count) @ '' degraded)'')))
      else (s, Inr ()))"

subsection \<open>Plans of valid configurations\<close>

lemma check_all_Inr_iff: "check_all cs = Inr () \<longleftrightarrow> (\<forall>c \<in> set cs. c = Inr ())"
  by (induction cs rule: check_all.induct) auto

lemma stale_gap_iff:
  "d < saturating_sub current parent \<longleftrightarrow> unat parent + unat d < unat (current :: u64)"
  by (simp add: word_less_nat_alt sat_simps less_diff_conv add.commute)

text \<open>
  A valid pipeline configuration has a runtime plan of its mode. Under it a stale item is discarded
  exactly in guarded flash-evolve, when the pool has moved on by more than \<open>delta_max\<close> versions since
  the item's parent was chosen, and reviewed exactly in reflective flash-evolve, when it has moved on
  at all; everything else is accepted as it is.
\<close>

theorem valid_pipeline_plan:
  assumes "validate_gepa_pipeline_config (gc_pipeline g) = Inr ()"
  shows "\<exists>plan. runtime_plan_from_config g = Inr plan \<and> plan_mode plan = resolved_mode (gc_pipeline g) \<and>
     (\<forall>p parent current. plan \<in> {PlanAsyncPipelined p, PlanFlashEvolve p} \<longrightarrow>
        (sd_disposition (stale_item_disposition p parent current) = Discard \<longleftrightarrow>
           resolved_mode (gc_pipeline g) = FlashEvolve \<and> pl_staleness_policy (gc_pipeline g) = StaleGuarded \<and>
           unat parent + unat (pl_delta_max (gc_pipeline g)) < unat current) \<and>
        (sd_disposition (stale_item_disposition p parent current) = ReflectivePatch \<longleftrightarrow>
           resolved_mode (gc_pipeline g) = FlashEvolve \<and> pl_staleness_policy (gc_pipeline g) = StaleReflective \<and>
           parent < current))"
proof -
  have ok: "validate_staleness (resolved_mode (gc_pipeline g)) (pl_staleness_policy (gc_pipeline g)) = Inr ()"
    using assms by (simp add: validate_gepa_pipeline_config_def Let_def check_all_Inr_iff)
  have gap0: "(0 :: u64) < saturating_sub current parent \<longleftrightarrow> parent < current" for current parent
    using stale_gap_iff [of 0 current parent] by (simp add: word_less_nat_alt)
  show ?thesis
  proof (cases "resolved_mode (gc_pipeline g)")
    case SyncSerial
    then show ?thesis
      by (simp add: runtime_plan_from_config_def)
  next
    case AsyncPipelined
    with ok have "pl_staleness_policy (gc_pipeline g) = StaleFull"
      by (simp add: validate_staleness_def ensure_def split: if_splits)
    with AsyncPipelined show ?thesis
      by (simp add: runtime_plan_from_config_def async_plan_from_config_def async_plan_supported_def
          stale_item_disposition_def Let_def)
  next
    case FlashEvolve
    have "\<exists>p. runtime_plan_from_config g = Inr (PlanFlashEvolve p) \<and> pp_mode p = FlashEvolve \<and>
        pp_staleness_policy p = pl_staleness_policy (gc_pipeline g) \<and> pp_delta_max p = pl_delta_max (gc_pipeline g)"
      by (simp add: runtime_plan_from_config_def async_plan_from_config_def async_plan_supported_def FlashEvolve)
    then obtain p where "runtime_plan_from_config g = Inr (PlanFlashEvolve p)" "pp_mode p = FlashEvolve"
      "pp_staleness_policy p = pl_staleness_policy (gc_pipeline g)" "pp_delta_max p = pl_delta_max (gc_pipeline g)"
      by blast
    moreover from this have "sd_disposition (stale_item_disposition p parent current) =
        (if pl_staleness_policy (gc_pipeline g) = StaleGuarded \<and> pl_delta_max (gc_pipeline g) < saturating_sub current parent then Discard
         else if pl_staleness_policy (gc_pipeline g) = StaleReflective \<and> 0 < saturating_sub current parent then ReflectivePatch
         else AcceptAsIs)" for parent current
      by (simp add: stale_item_disposition_def Let_def)
    ultimately show ?thesis
      using FlashEvolve by (simp add: gap0) (simp add: stale_gap_iff)
  qed
qed

theorem valid_pipeline_plan_witness:
  "let g = gepa_config_default\<lparr>gc_pipeline := pipeline_default\<lparr>pl_mode := Some FlashEvolve, pl_staleness_policy := StaleGuarded\<rparr>\<rparr>
   in \<exists>p. runtime_plan_from_config g = Inr (PlanFlashEvolve p) \<and>
        sd_disposition (stale_item_disposition p 2 5) = Discard \<and>
        sd_disposition (stale_item_disposition p 3 5) \<noteq> Discard"
proof -
  let ?g = "gepa_config_default\<lparr>gc_pipeline := pipeline_default\<lparr>pl_mode := Some FlashEvolve, pl_staleness_policy := StaleGuarded\<rparr>\<rparr>"
  have c: "pl_staleness_policy (gc_pipeline ?g) = StaleGuarded" "pl_delta_max (gc_pipeline ?g) = 2"
    "resolved_mode (gc_pipeline ?g) = FlashEvolve"
    by (simp_all add: pipeline_default_def resolved_mode_def)
  have "validate_gepa_pipeline_config (gc_pipeline ?g) = Inr ()"
    by code_simp
  from valid_pipeline_plan [OF this] obtain plan where plan: "runtime_plan_from_config ?g = Inr plan"
    "plan_mode plan = FlashEvolve"
    "\<And>p parent current. plan \<in> {PlanAsyncPipelined p, PlanFlashEvolve p} \<Longrightarrow>
        sd_disposition (stale_item_disposition p parent current) = Discard \<longleftrightarrow> unat parent + 2 < unat current"
    unfolding c by auto
  moreover obtain p where "plan = PlanFlashEvolve p"
    using plan(1) c(3) by (auto simp: runtime_plan_from_config_def async_plan_from_config_def async_plan_supported_def)
  ultimately show ?thesis
    by (auto simp: Let_def)
qed

subsection \<open>The concurrency limit\<close>

datatype rollout_signal = Succeeded usize | Signalled provider_signal

fun apply_signal ::
  "gepa_async_pipeline_plan \<Rightarrow> rollout_signal \<Rightarrow> gepa_adaptive_rollout_concurrency_state \<Rightarrow>
   gepa_adaptive_rollout_concurrency_state option" where
  "apply_signal plan (Succeeded n) s = record_adaptive_rollout_success plan n s"
| "apply_signal plan (Signalled signal) s = record_adaptive_rollout_overload plan signal s"

fun run_signals ::
  "gepa_async_pipeline_plan \<Rightarrow> rollout_signal list \<Rightarrow> gepa_adaptive_rollout_concurrency_state \<Rightarrow>
   gepa_adaptive_rollout_concurrency_state option" where
  "run_signals plan [] s = Some s"
| "run_signals plan (x # xs) s = Option.bind (apply_signal plan x s) (run_signals plan xs)"

definition limit_ok :: "gepa_async_pipeline_plan \<Rightarrow> gepa_adaptive_rollout_concurrency_state \<Rightarrow> bool" where
  "limit_ok plan s \<longleftrightarrow> length (cc_adjustments s) \<le> 32 \<and>
     (cc_initialized s \<longrightarrow> ac_min (pp_adaptive_rollout_concurrency plan) \<le> cc_current_limit s \<and>
        cc_current_limit s \<le> ac_max (pp_adaptive_rollout_concurrency plan))"

lemma push_window_length: "length xs \<le> 32 \<Longrightarrow> length (push_window x xs) \<le> 32"
  by (simp add: push_window_def Let_def)

lemma limit_ok_record [simp]:
  "cc_initialized s \<Longrightarrow> limit_ok plan s \<Longrightarrow> ac_min (pp_adaptive_rollout_concurrency plan) \<le> n \<Longrightarrow>
   n \<le> ac_max (pp_adaptive_rollout_concurrency plan) \<Longrightarrow> limit_ok plan (record_adjustment d n r s)"
  by (simp add: limit_ok_def record_adjustment_def Let_def push_window_length)

lemma ensure_initialized:
  assumes "ac_enabled (pp_adaptive_rollout_concurrency plan)" "limit_ok plan s"
    and "ac_min (pp_adaptive_rollout_concurrency plan) \<le> ac_max (pp_adaptive_rollout_concurrency plan)"
  obtains s' where "ensure_adaptive_rollout_concurrency_state plan s = Some s'" "cc_initialized s'" "limit_ok plan s'"
    "cc_initialized s \<Longrightarrow> s' = s"
proof (cases "cc_initialized s")
  case True
  then show ?thesis
    using assms that by (simp add: ensure_adaptive_rollout_concurrency_state_def Let_def)
next
  case False
  obtain l where "checked_clamp (ac_initial (pp_adaptive_rollout_concurrency plan))
      (ac_min (pp_adaptive_rollout_concurrency plan)) (ac_max (pp_adaptive_rollout_concurrency plan)) = Some l"
    using checked_clamp_total [OF assms(3)] by blast
  with False that checked_clamp_bounds [OF this] show ?thesis
    using assms(1,2) by (simp add: ensure_adaptive_rollout_concurrency_state_def Let_def limit_ok_def)
qed

lemma apply_signal_ok:
  assumes "ac_enabled (pp_adaptive_rollout_concurrency plan)" "limit_ok plan s"
    and "ac_min (pp_adaptive_rollout_concurrency plan) \<le> ac_max (pp_adaptive_rollout_concurrency plan)"
  shows "\<exists>s'. apply_signal plan x s = Some s' \<and> limit_ok plan s'"
proof -
  obtain s1 where s1: "ensure_adaptive_rollout_concurrency_state plan s = Some s1" "cc_initialized s1" "limit_ok plan s1"
    using ensure_initialized [OF assms] .
  have step: "\<exists>l. checked_clamp n (ac_min (pp_adaptive_rollout_concurrency plan)) (ac_max (pp_adaptive_rollout_concurrency plan)) = Some l \<and>
      ac_min (pp_adaptive_rollout_concurrency plan) \<le> l \<and> l \<le> ac_max (pp_adaptive_rollout_concurrency plan)" for n
    using checked_clamp_total [OF assms(3)] checked_clamp_bounds by blast
  have keep: "limit_ok plan (s1\<lparr>cc_completed_rollouts := a, cc_successes_since_adjustment := b\<rparr>)"
    "limit_ok plan (s1\<lparr>cc_overload_count := a, cc_successes_since_adjustment := b\<rparr>)" for a b
    using s1(3) by (simp_all add: limit_ok_def)
  show ?thesis
  proof (cases x)
    case (Succeeded n)
    obtain l where l: "checked_clamp (raised_limit (cc_current_limit s1)) (ac_min (pp_adaptive_rollout_concurrency plan))
        (ac_max (pp_adaptive_rollout_concurrency plan)) = Some l"
      "ac_min (pp_adaptive_rollout_concurrency plan) \<le> l" "l \<le> ac_max (pp_adaptive_rollout_concurrency plan)"
      using step by blast
    show ?thesis
      using Succeeded assms(1,2) s1 l keep(1)
      by (simp add: record_adaptive_rollout_success_def Let_def)
  next
    case (Signalled signal)
    obtain l where l: "checked_clamp (lowered_limit (cc_current_limit s1)) (ac_min (pp_adaptive_rollout_concurrency plan))
        (ac_max (pp_adaptive_rollout_concurrency plan)) = Some l"
      "ac_min (pp_adaptive_rollout_concurrency plan) \<le> l" "l \<le> ac_max (pp_adaptive_rollout_concurrency plan)"
      using step by blast
    show ?thesis
      using Signalled assms(1,2) s1 l keep(2)
      by (simp add: record_adaptive_rollout_overload_def Let_def)
  qed
qed

text \<open>
  C25. Under bounds that validation accepts, no sequence of successes and overload signals makes the
  adaptive concurrency panic or leave its bounds: the limit that the rollout lane uses lies between
  \<open>min\<close> and \<open>max\<close>, and the history keeps at most 32 adjustments.
\<close>

theorem adaptive_limit_in_bounds:
  assumes "ac_enabled (pp_adaptive_rollout_concurrency plan)" "0 < ac_min (pp_adaptive_rollout_concurrency plan)"
    and "ac_min (pp_adaptive_rollout_concurrency plan) \<le> ac_max (pp_adaptive_rollout_concurrency plan)"
  shows "\<exists>s limit. run_signals plan signals concurrency_state_default = Some s \<and>
     adaptive_rollout_worker_limit plan s = Some limit \<and>
     ac_min (pp_adaptive_rollout_concurrency plan) \<le> limit \<and> limit \<le> ac_max (pp_adaptive_rollout_concurrency plan) \<and>
     length (cc_adjustments s) \<le> 32"
proof -
  have run: "\<exists>s'. run_signals plan signals s = Some s' \<and> limit_ok plan s'" if "limit_ok plan s" for s
    using that
  proof (induction signals arbitrary: s)
    case (Cons x xs)
    then show ?case
      using apply_signal_ok [OF assms(1) _ assms(3)] by (metis bind.bind_lunit run_signals.simps(2))
  qed simp
  have "limit_ok plan concurrency_state_default"
    by (simp add: limit_ok_def concurrency_state_default_def)
  with run obtain s where s: "run_signals plan signals concurrency_state_default = Some s" "limit_ok plan s"
    by blast
  obtain l where l: "checked_clamp (cc_current_limit s) (ac_min (pp_adaptive_rollout_concurrency plan))
      (ac_max (pp_adaptive_rollout_concurrency plan)) = Some l"
    using checked_clamp_total [OF assms(3)] by blast
  have "(1 :: usize) \<le> ac_min (pp_adaptive_rollout_concurrency plan)"
    using assms(2) by (simp add: word_le_nat_alt word_less_nat_alt)
  moreover note checked_clamp_bounds [OF l]
  ultimately have "max l 1 = l"
    by (intro max_absorb1) (meson order_trans)
  with s l checked_clamp_bounds [OF l] assms(1) show ?thesis
    by (auto simp: adaptive_rollout_worker_limit_def Let_def limit_ok_def)
qed

definition sample_flash_plan :: gepa_async_pipeline_plan where
  "sample_flash_plan =
     \<lparr>pp_mode = FlashEvolve, pp_rollout_transport = ''async'', pp_staleness_policy = StaleGuarded, pp_delta_max = 2,
      pp_propose_workers = 1, pp_rollout_workers = 10, pp_evaluate_workers = 1, pp_max_in_flight_candidates = 10,
      pp_rollout_chunk_size = 50, pp_adaptive_rollout_concurrency = adaptive_rollout_concurrency_default,
      pp_adaptive_stage_workers = adaptive_stage_workers_default,
      pp_speculative_completion = speculative_completion_default\<rparr>"

theorem adaptive_limit_in_bounds_witness:
  "\<exists>s limit. run_signals sample_flash_plan
       [Succeeded 40, Signalled \<lparr>ps_status_code = Some 429, ps_provider_error_code = None, ps_overload = True, ps_retryable = True\<rparr>,
        Succeeded 3] concurrency_state_default = Some s \<and>
     adaptive_rollout_worker_limit sample_flash_plan s = Some limit \<and> 1 \<le> limit \<and> limit \<le> 120 \<and>
     length (cc_adjustments s) \<le> 32"
proof -
  have "pp_adaptive_rollout_concurrency sample_flash_plan = adaptive_rollout_concurrency_default"
    by (simp add: sample_flash_plan_def)
  then show ?thesis
    using adaptive_limit_in_bounds [of sample_flash_plan
        "[Succeeded 40, Signalled \<lparr>ps_status_code = Some 429, ps_provider_error_code = None, ps_overload = True, ps_retryable = True\<rparr>,
          Succeeded 3]"]
    by (simp add: adaptive_rollout_concurrency_default_def)
qed

lemma unat_u64_less: "unat (w :: u64) < 18446744073709551616"
proof -
  have "unat w < 2 ^ LENGTH(64)"
    by (rule unsigned_less)
  then show ?thesis by simp
qed

text \<open>How far one signal moves an initialised limit: one step up at least, down to its half.\<close>

lemma success_raises:
  assumes "ac_enabled (pp_adaptive_rollout_concurrency plan)" "cc_initialized s" "limit_ok plan s"
    and "ac_min (pp_adaptive_rollout_concurrency plan) \<le> ac_max (pp_adaptive_rollout_concurrency plan)"
    and "n \<noteq> 0" "ac_increase_after_successes (pp_adaptive_rollout_concurrency plan) \<le> n"
  shows "\<exists>s'. apply_signal plan (Succeeded n) s = Some s' \<and> cc_initialized s' \<and> limit_ok plan s' \<and>
     min (Suc (unat (cc_current_limit s))) (unat (ac_max (pp_adaptive_rollout_concurrency plan))) \<le> unat (cc_current_limit s')"
proof -
  let ?a = "pp_adaptive_rollout_concurrency plan" and ?l = "cc_current_limit s"
  have b: "ac_min ?a \<le> ?l" "?l \<le> ac_max ?a"
    using assms(2,3) by (simp_all add: limit_ok_def)
  obtain l where l: "checked_clamp (raised_limit ?l) (ac_min ?a) (ac_max ?a) = Some l"
    using checked_clamp_total [OF assms(4)] by blast
  have window: "\<not> saturating_add (cc_successes_since_adjustment s) n < ac_increase_after_successes ?a"
    using assms(6) unat_u64_less [of n] by (auto simp: word_less_nat_alt word_le_nat_alt sat_simps)
  have grown: "min (Suc (unat ?l)) (unat (ac_max ?a)) \<le> unat l"
  proof -
    have "saturating_add ?l 1 \<le> raised_limit ?l"
      by (simp add: raised_limit_def)
    then have "min (2 ^ 64 - 1) (Suc (unat ?l)) \<le> unat (raised_limit ?l)"
      by (simp add: word_le_nat_alt sat_simps)
    moreover have "l = (if raised_limit ?l < ac_min ?a then ac_min ?a
        else if ac_max ?a < raised_limit ?l then ac_max ?a else raised_limit ?l)"
      using l assms(4) by (simp add: checked_clamp_def)
    moreover have "unat (ac_max ?a) < 2 ^ 64"
      using unat_u64_less [of "ac_max ?a"] by simp
    ultimately show ?thesis
      by (auto simp: word_less_nat_alt min_def split: if_splits)
  qed
  have keep: "limit_ok plan (s\<lparr>cc_completed_rollouts := c, cc_successes_since_adjustment := d\<rparr>)" for c d
    using assms(3) by (simp add: limit_ok_def)
  show ?thesis
    using assms l window grown keep checked_clamp_bounds [OF l]
    by (cases "l = cc_current_limit s")
       (simp_all add: record_adaptive_rollout_success_def ensure_adaptive_rollout_concurrency_state_def Let_def
        record_adjustment_def limit_ok_def push_window_length)
qed


text \<open>
  An overload signal halves the limit of an initialised state, truncated and never below \<open>min\<close>, and
  starts a new window of successes; other signals leave the state alone.
\<close>

theorem overload_halves_limit:
  assumes "ac_enabled (pp_adaptive_rollout_concurrency plan)" "cc_initialized s" "limit_ok plan s"
    and "unat (cc_current_limit s) < 2 ^ 53"
    and "ac_min (pp_adaptive_rollout_concurrency plan) \<le> ac_max (pp_adaptive_rollout_concurrency plan)"
  shows "\<exists>s'. record_adaptive_rollout_overload plan signal s = Some s' \<and>
     (if ps_overload signal
      then unat (cc_current_limit s') = max (unat (ac_min (pp_adaptive_rollout_concurrency plan))) (unat (cc_current_limit s) div 2) \<and>
           cc_successes_since_adjustment s' = 0
      else s' = s)"
proof -
  let ?a = "pp_adaptive_rollout_concurrency plan" and ?l = "cc_current_limit s"
  have "unat ?l div 2 < 2 ^ 64"
    using assms(4) by simp
  then have low: "unat (lowered_limit ?l) = unat ?l div 2"
    using f64_half_floor [OF assms(4)] by (simp add: lowered_limit_def unat_of_nat)
  have b: "ac_min ?a \<le> ?l" "?l \<le> ac_max ?a"
    using assms(2,3) by (simp_all add: limit_ok_def)
  then have "\<not> ac_max ?a < lowered_limit ?l"
    using low by (simp add: word_less_nat_alt word_le_nat_alt)
  then have clamp: "checked_clamp (lowered_limit ?l) (ac_min ?a) (ac_max ?a) = Some (max (ac_min ?a) (lowered_limit ?l))"
    using assms(5) by (auto simp: checked_clamp_def max_def)
  have "unat (max (ac_min ?a) (lowered_limit ?l)) = max (unat (ac_min ?a)) (unat ?l div 2)"
    using low by (auto simp: max_def word_le_nat_alt)
  then show ?thesis
    using assms(1,2) clamp
    by (auto simp: record_adaptive_rollout_overload_def ensure_adaptive_rollout_concurrency_state_def Let_def
        record_adjustment_def)
qed

definition sample_limit_state :: "usize \<Rightarrow> gepa_adaptive_rollout_concurrency_state" where
  "sample_limit_state n = concurrency_state_default\<lparr>cc_initialized := True, cc_current_limit := n\<rparr>"

lemma sample_limit_ok: "1 \<le> n \<Longrightarrow> n \<le> 120 \<Longrightarrow> limit_ok sample_flash_plan (sample_limit_state n)"
  by (simp add: limit_ok_def sample_limit_state_def concurrency_state_default_def sample_flash_plan_def
      adaptive_rollout_concurrency_default_def)

lemma sample_flash_bounds:
  "ac_enabled (pp_adaptive_rollout_concurrency sample_flash_plan)"
  "ac_min (pp_adaptive_rollout_concurrency sample_flash_plan) = 1"
  "ac_max (pp_adaptive_rollout_concurrency sample_flash_plan) = 120"
  "ac_increase_after_successes (pp_adaptive_rollout_concurrency sample_flash_plan) = 16"
  by (simp_all add: sample_flash_plan_def adaptive_rollout_concurrency_default_def)


theorem overload_halves_limit_witness:
  "\<exists>s'. record_adaptive_rollout_overload sample_flash_plan
       \<lparr>ps_status_code = Some 529, ps_provider_error_code = None, ps_overload = True, ps_retryable = True\<rparr>
       (sample_limit_state 51) = Some s' \<and> unat (cc_current_limit s') = 25"
proof -
  have "cc_initialized (sample_limit_state 51)" "limit_ok sample_flash_plan (sample_limit_state 51)"
    "unat (cc_current_limit (sample_limit_state 51)) = 51"
    by (simp_all add: sample_limit_ok) (simp_all add: sample_limit_state_def)
  with overload_halves_limit [of sample_flash_plan "sample_limit_state 51"
      "\<lparr>ps_status_code = Some 529, ps_provider_error_code = None, ps_overload = True, ps_retryable = True\<rparr>"] show ?thesis
    by (auto simp: sample_flash_bounds)
qed

subsection \<open>The window of failures\<close>

text \<open>The last 32 entries of a history.\<close>

definition last_32 :: "'a list \<Rightarrow> 'a list" where
  "last_32 xs = drop (length xs - 32) xs"

lemma push_last_32: "push_window x (last_32 xs) = last_32 (xs @ [x])"
proof (cases "length xs < 32")
  case True
  then show ?thesis
    by (simp add: last_32_def push_window_def Let_def)
next
  case False
  then have "length xs - 32 \<le> length xs" "\<not> length xs + 1 \<le> 32"
    by simp_all
  moreover have "length (drop (length xs - 32) xs) = 32"
    using False by simp
  moreover have "drop (length xs + 1 - 32) (xs @ [x]) = tl (drop (length xs - 32) (xs @ [x]))"
  proof -
    have "length xs + 1 - 32 = Suc (length xs - 32)"
      using False by simp
    then show ?thesis
      by (simp only: drop_Suc tl_drop)
  qed
  ultimately show ?thesis
    by (simp add: last_32_def push_window_def Let_def)
qed

fun observe_all ::
  "gepa_config \<Rightarrow> rollout_resilience_observation list \<Rightarrow> gepa_rollout_resilience_state \<Rightarrow> gepa_rollout_resilience_state" where
  "observe_all g [] s = s"
| "observe_all g (x # xs) s = observe_all g xs (fst (record_rollout_resilience_sample g x s))"

lemma record_sample_state:
  "rr_rolling_samples (fst (record_rollout_resilience_sample g x s)) = push_window (observed_sample x) (rr_rolling_samples s)"
  "rr_last_failure_rate (fst (record_rollout_resilience_sample g x s)) = failure_rate (push_window (observed_sample x) (rr_rolling_samples s))"
  by (simp_all add: record_rollout_resilience_sample_def Let_def)

lemma observe_all_samples:
  "rr_rolling_samples s = last_32 hist \<Longrightarrow>
   rr_rolling_samples (observe_all g xs s) = last_32 (hist @ map observed_sample xs)"
proof (induction xs arbitrary: s hist)
  case (Cons x xs)
  have "rr_rolling_samples (fst (record_rollout_resilience_sample g x s)) = last_32 (hist @ [observed_sample x])"
    using Cons.prems by (simp add: record_sample_state push_last_32)
  from Cons.IH [OF this] show ?case
    by simp
qed simp

text \<open>
  C26. The circuit breaker judges the last 32 rollouts: after any history, the next observation is
  refused exactly when at least eight are in the window and the share of infrastructure failures among
  them is above the tolerance; the failure names the rate and the window, and is on record.
\<close>

theorem breaker_trips_exactly:
  assumes "recent = last_32 (map observed_sample (history @ [x]))"
    and "rate = f64_div (f64_of_nat (length (filter fs_infra_failed recent))) (f64_of_nat (length recent))"
    and "run = record_rollout_resilience_sample g x (observe_all g history resilience_state_default)"
  shows "snd run = (if 8 \<le> length recent \<and> f64_lt (gc_rollout_failure_rate_tolerance g) rate
       then Inl (ErrFailed (''rollout infra failure rate '' @ f64_format 2 rate @ '' exceeds tolerance '' @
              f64_format 2 (gc_rollout_failure_rate_tolerance g) @ '' (window='' @ show_dec (int (length recent)) @ '' rollouts)''))
       else Inr ()) \<and>
     rr_rolling_samples (fst run) = recent \<and> length recent \<le> 32 \<and>
     (snd run \<noteq> Inr () \<longrightarrow> map_option cb_rolling_rate (rr_last_circuit_breaker (fst run)) = Some rate)"
proof -
  have "rr_rolling_samples (observe_all g history resilience_state_default) = last_32 (map observed_sample history)"
    using observe_all_samples [of resilience_state_default "[]"]
    by (simp add: resilience_state_default_def last_32_def)
  then have w: "push_window (observed_sample x) (rr_rolling_samples (observe_all g history resilience_state_default)) = recent"
    using assms(1) by (simp add: push_last_32)
  have "recent \<noteq> []" and len: "length recent \<le> 32"
    using assms(1) by (simp_all add: last_32_def)
  then have "failure_rate recent = rate"
    using assms(2) by (simp add: failure_rate_def)
  then show ?thesis
    using len by (simp add: assms(3) record_rollout_resilience_sample_def Let_def w breaker_error_def)
qed

definition sample_observation :: "bool \<Rightarrow> rollout_resilience_observation" where
  "sample_observation degraded = \<lparr>ob_stage = ''heldout'', ob_example_id = ''e'', ob_degraded = degraded, ob_failure = None,
     ob_provider_signal = \<lparr>ps_status_code = None, ps_provider_error_code = None, ps_overload = False, ps_retryable = False\<rparr>\<rparr>"

theorem breaker_trips_exactly_witness:
  "snd (record_rollout_resilience_sample gepa_config_default (sample_observation True)
     (observe_all gepa_config_default (map sample_observation [True, True, False, False, False, False, False])
        resilience_state_default)) \<noteq> Inr ()"
proof -
  let ?recent = "last_32 (map observed_sample (map sample_observation [True, True, False, False, False, False, False] @ [sample_observation True]))"
  have "8 \<le> length ?recent \<and> f64_lt (gc_rollout_failure_rate_tolerance gepa_config_default)
      (f64_div (f64_of_nat (length (filter fs_infra_failed ?recent))) (f64_of_nat (length ?recent)))"
    by code_simp
  then show ?thesis
    using breaker_trips_exactly [OF refl refl refl, of gepa_config_default "sample_observation True"
        "map sample_observation [True, True, False, False, False, False, False]"]
    by (metis Inl_Inr_False)
qed

end
