(* ===== verification/Leakage.thy ===== *)
theory Leakage
  imports Candidate_Frontier
begin

text \<open>
  \<open>leakage.rs\<close>, and its use in \<open>lib.rs\<close>: a proposed candidate must not carry the text of a labelled
  training example. The text of a candidate is scanned for the text of every training row, ignoring
  the case of ASCII letters and white space around the text; the configured policy, tightened by
  what the producer asks for, decides whether a match rejects the candidate.
\<close>

subsection \<open>Policies\<close>

datatype leakage_policy = LeakForbid | LeakWarn | LeakAllow

definition leakage_policy_parse :: "string \<Rightarrow> leakage_policy" where
  "leakage_policy_parse raw =
     (let p = to_ascii_lowercase (trim raw) in
      if p \<in> set [''allow'', ''off'', ''disabled''] then LeakAllow
      else if p \<in> set [''warn'', ''warning''] then LeakWarn else LeakForbid)"

fun leakage_policy_str :: "leakage_policy \<Rightarrow> string" where
  "leakage_policy_str LeakForbid = ''forbid''"
| "leakage_policy_str LeakWarn = ''warn''"
| "leakage_policy_str LeakAllow = ''allow''"

definition effective_policy :: "leakage_policy \<Rightarrow> string option \<Rightarrow> leakage_policy" where
  "effective_policy policy producer_hint =
     (if policy = LeakForbid then LeakForbid
      else case producer_hint of None \<Rightarrow> policy
      | Some hint \<Rightarrow>
          if str_contains (to_ascii_lowercase hint) ''forbid'' \<or> str_contains (to_ascii_lowercase hint) ''disallow''
          then LeakForbid else policy)"

subsection \<open>Scanning\<close>

record leakage_match =
  lm_example_id :: string
  lm_span :: string
  lm_chars :: nat

record leakage_example =
  le_example_id :: string
  le_text :: string

text \<open>The length of the needle is its number of bytes (\<open>str::len\<close>), the reported one its number of characters.\<close>

fun scan_examples :: "string \<Rightarrow> nat \<Rightarrow> leakage_example list \<Rightarrow> leakage_match option" where
  "scan_examples haystack min_span_chars [] = None"
| "scan_examples haystack min_span_chars (example # examples) =
     (let needle = to_ascii_lowercase (trim (le_text example)) in
      if \<not> length needle < min_span_chars \<and> str_contains haystack needle
      then Some \<lparr>lm_example_id = le_example_id example, lm_span = trim (le_text example), lm_chars = chars_count needle\<rparr>
      else scan_examples haystack min_span_chars examples)"

definition scan_text_for_leakage :: "string \<Rightarrow> leakage_example list \<Rightarrow> nat \<Rightarrow> leakage_match option" where
  "scan_text_for_leakage candidate_text examples min_span_chars =
     (let haystack = to_ascii_lowercase candidate_text in
      if trim haystack = [] then None else scan_examples haystack min_span_chars examples)"

fun string_field :: "json \<Rightarrow> string list \<Rightarrow> string option" where
  "string_field row [] = None"
| "string_field row (key # keys) =
     (case Option.bind (json_get row key) as_str of None \<Rightarrow> string_field row keys
      | Some v \<Rightarrow> if trim v \<noteq> [] then Some (trim v) else string_field row keys)"

definition leakage_example_of_row :: "json \<Rightarrow> leakage_example option" where
  "leakage_example_of_row row =
     (case string_field row [''example_id'', ''id'', ''task_id''] of None \<Rightarrow> None
      | Some example_id \<Rightarrow>
        (case string_field row [''text'', ''query'', ''input'', ''prompt'', ''utterance'', ''question'', ''content''] of
           None \<Rightarrow> None | Some text \<Rightarrow> Some \<lparr>le_example_id = example_id, le_text = text\<rparr>))"

definition leakage_examples_from_rows :: "json list \<Rightarrow> leakage_example list" where
  "leakage_examples_from_rows rows = List.map_filter leakage_example_of_row rows"

fun join_lines :: "string list \<Rightarrow> string" where
  "join_lines [] = []"
| "join_lines [s] = s"
| "join_lines (s # ss) = s @ [CHR 0x0A] @ join_lines ss"

definition payload_text :: "(string \<times> string) list \<Rightarrow> string" where
  "payload_text payload = join_lines (map snd payload)"

definition scan_payload_for_leakage :: "(string \<times> string) list \<Rightarrow> json list \<Rightarrow> nat \<Rightarrow> leakage_match option" where
  "scan_payload_for_leakage payload rows min_span_chars =
     scan_text_for_leakage (payload_text payload) (leakage_examples_from_rows rows) min_span_chars"

definition leakage_match_for_payload ::
  "gepa_config \<Rightarrow> (string \<times> string) list \<Rightarrow> json list \<Rightarrow> string option \<Rightarrow> (leakage_match \<times> leakage_policy) option" where
  "leakage_match_for_payload g payload train_rows producer_hint =
     map_option (\<lambda>hit. (hit, effective_policy (leakage_policy_parse (lk_policy (gc_leakage g))) producer_hint))
       (scan_payload_for_leakage payload train_rows (unat (max (lk_min_span_chars (gc_leakage g)) 1)))"

text \<open>The hint is in the metadata of the proposal, flat or nested.\<close>

definition producer_leakage_hint :: "json_map \<Rightarrow> string option" where
  "producer_leakage_hint metadata =
     or_else (Option.bind (map_of metadata ''leakage_policy'') as_str)
       (Option.bind (Option.bind (map_of metadata ''leakage'') (\<lambda>v. json_get v ''policy'')) as_str)"

definition apply_leakage_evidence :: "leakage_match \<Rightarrow> json_map \<Rightarrow> json_map" where
  "apply_leakage_evidence hit metadata =
     obj_insert ''leakage'' (JObj (obj_of [(''example_id'', JStr (lm_example_id hit)), (''span'', JStr (lm_span hit)),
       (''chars'', json_u64 (of_nat (lm_chars hit)))])) metadata"

text \<open>What the scan does to a new candidate: the evidence, and the status of a rejected one.\<close>

definition screen_candidate :: "gepa_config \<Rightarrow> json list \<Rightarrow> string option \<Rightarrow> candidate_record \<Rightarrow> candidate_record" where
  "screen_candidate g train_rows producer_hint c =
     (case leakage_match_for_payload g (ca_payload c) train_rows producer_hint of
        None \<Rightarrow> c
      | Some (hit, policy) \<Rightarrow>
          (let c = c\<lparr>ca_acceptance_metadata := apply_leakage_evidence hit (ca_acceptance_metadata c)\<rparr>
           in if policy = LeakForbid then c\<lparr>ca_status := ''rejected_leakage''\<rparr> else c))"

subsection \<open>The scan finds every verbatim copy\<close>

lemma scan_examples_Some:
  "scan_examples haystack n examples \<noteq> None \<longleftrightarrow>
   (\<exists>x \<in> set examples. n \<le> length (trim (le_text x)) \<and> str_contains haystack (to_ascii_lowercase (trim (le_text x))))"
  by (induction examples) (auto simp: Let_def not_less)

lemma join_lines_contains: "s \<in> set ss \<Longrightarrow> str_contains (join_lines ss) s"
proof (induction ss rule: join_lines.induct)
  case (3 s' s'' ss)
  show ?case
  proof (cases "s = s'")
    case True
    then show ?thesis
      by (auto simp: str_contains_iff)
  next
    case False
    with 3 have "str_contains (join_lines (s'' # ss)) s"
      by simp
    then obtain a b where "join_lines (s'' # ss) = a @ s @ b"
      by (auto simp: str_contains_iff)
    then have "join_lines (s' # s'' # ss) = (s' @ [CHR 0x0A] @ a) @ s @ b"
      by simp
    then show ?thesis
      by (auto simp only: str_contains_iff)
  qed
qed (auto simp: str_contains_iff intro: exI [of _ "[]"])

lemma row_examples: "x \<in> set (leakage_examples_from_rows rows) \<longleftrightarrow> (\<exists>row \<in> set rows. leakage_example_of_row row = Some x)"
  by (auto simp: leakage_examples_from_rows_def List.map_filter_def image_iff)


definition leak_config :: gepa_config where
  "leak_config = gepa_config_default\<lparr>gc_leakage := \<lparr>lk_policy = ''Forbid'', lk_min_span_chars = 8\<rparr>\<rparr>"

definition leak_row :: json where
  "leak_row = JObj [(''id'', JStr ''e1''), (''query'', JStr ''  Where is my card? '')]"

definition prompt_candidate :: "string \<Rightarrow> candidate_record" where
  "prompt_candidate text = (sample_candidate ''c'' [])\<lparr>ca_payload := [(''system'', text)]\<rparr>"


text \<open>
  The threshold is called a number of characters and compared with a number of bytes: eleven characters
  of three bytes each pass a threshold of 32.
\<close>

lemma leakage_span_counts_bytes:
  "let text = concat (replicate 11 (map (char_of :: int \<Rightarrow> char) [0xE4, 0xBD, 0xA0]))
   in map_option lm_chars (scan_text_for_leakage text [\<lparr>le_example_id = ''e'', le_text = text\<rparr>] 32) = Some 11"
  by code_simp

end
