(* ===== verification/Usage_Stoppers.thy ===== *)
theory Usage_Stoppers
  imports Gepa_Pipeline
begin

text \<open>
  When a run stops: the usage ledger and its reported cost (\<open>usage.rs\<close>), the snapshots of the stopper
  (\<open>stopper.rs\<close>), and the budget, score and improvement conditions of the driver (\<open>lib.rs\<close>).

  Of the run's state the conditions read the parts in \<open>stop_state\<close>.
\<close>

subsection \<open>usage.rs\<close>

record usage_ledger_record =
  ul_schema_version :: string
  ul_usage_ledger_id :: string
  ul_boundary :: string
  ul_source_type :: string
  ul_source_id :: string
  ul_candidate_id :: "string option"
  ul_evaluation_stage :: "string option"
  ul_model :: "string option"
  ul_provider :: "string option"
  ul_call_count :: u64
  ul_prompt_tokens :: u64
  ul_completion_tokens :: u64
  ul_total_tokens :: u64
  ul_cost_usd :: "f64 option"
  ul_usage :: json
  ul_metadata :: json_map

record usage_ledger_input =
  uli_boundary :: string
  uli_source_type :: string
  uli_source_id :: string
  uli_candidate_id :: "string option"
  uli_evaluation_stage :: "string option"
  uli_model :: "string option"
  uli_provider :: "string option"
  uli_call_count :: u64
  uli_usage :: json
  uli_cost_usd :: "f64 option"
  uli_metadata :: json_map

text \<open>The loop leaves with \<open>None\<close> at the first receipt that is missing, not finite or negative.\<close>

fun fold_costs :: "f64 \<Rightarrow> bool \<Rightarrow> f64 option list \<Rightarrow> f64 option" where
  "fold_costs subtotal saw_receipt [] = (if saw_receipt then Some subtotal else None)"
| "fold_costs subtotal saw_receipt (cost # costs) =
     (case opt_filter (\<lambda>v. is_finite v \<and> f64_le f64_zero v) cost of
        None \<Rightarrow> None | Some c \<Rightarrow> fold_costs (f64_add subtotal c) True costs)"

definition fold_reported_cost :: "f64 option list \<Rightarrow> f64 option" where
  "fold_reported_cost costs = fold_costs f64_zero False costs"

definition usage_u64 :: "json \<Rightarrow> string list \<Rightarrow> u64" where
  "usage_u64 usage keys = unwrap_or 0 (first_some (\<lambda>key. Option.bind (json_get usage key) as_u64) keys)"

definition usage_from_input :: "hashing \<Rightarrow> usage_ledger_input \<Rightarrow> usage_ledger_record" where
  "usage_from_input h i =
     \<lparr>ul_schema_version = ''usage_ledger_record.v1'',
      ul_usage_ledger_id = stable_id h ''usage'' [uli_boundary i, uli_source_type i, uli_source_id i],
      ul_boundary = uli_boundary i, ul_source_type = uli_source_type i, ul_source_id = uli_source_id i,
      ul_candidate_id = uli_candidate_id i, ul_evaluation_stage = uli_evaluation_stage i,
      ul_model = uli_model i, ul_provider = uli_provider i, ul_call_count = uli_call_count i,
      ul_prompt_tokens = usage_u64 (uli_usage i) [''prompt_tokens'', ''input_tokens''],
      ul_completion_tokens = usage_u64 (uli_usage i) [''completion_tokens'', ''output_tokens''],
      ul_total_tokens = usage_u64 (uli_usage i) [''total_tokens''], ul_cost_usd = uli_cost_usd i,
      ul_usage = uli_usage i, ul_metadata = uli_metadata i\<rparr>"

definition usage_from_sensor_frame :: "hashing \<Rightarrow> sensor_frame \<Rightarrow> usage_ledger_record" where
  "usage_from_sensor_frame h frame = usage_from_input h
     \<lparr>uli_boundary = ''container.rollout'', uli_source_type = ''sensor_frame'',
      uli_source_id = sf_sensor_frame_id frame, uli_candidate_id = Some (sf_candidate_id frame),
      uli_evaluation_stage = Some (sf_evaluation_stage frame), uli_model = None, uli_provider = None,
      uli_call_count = 1, uli_usage = sf_usage frame,
      uli_cost_usd = Option.bind (json_get (sf_usage frame) ''cost_usd'') as_f64,
      uli_metadata = obj_of ([(''example_id'', JStr (sf_example_id frame)), (''task_id'', JStr (sf_task_id frame)),
        (''split'', JStr (sf_split frame)), (''status'', JStr (sf_status frame))] @
        (case sf_rollout_id frame of None \<Rightarrow> [] | Some rollout_id \<Rightarrow> [(''rollout_id'', JStr rollout_id)]))\<rparr>"

definition append_rollout_usage :: "hashing \<Rightarrow> sensor_frame list \<Rightarrow> usage_ledger_record list \<Rightarrow> usage_ledger_record list" where
  "append_rollout_usage h frames records = records @ map (usage_from_sensor_frame h) frames"

definition reported_cost_from_usage_ledger :: "usage_ledger_record list \<Rightarrow> f64 option" where
  "reported_cost_from_usage_ledger records = fold_reported_cost (map ul_cost_usd records)"

subsection \<open>stopper.rs\<close>

record stopper_state_record =
  st_schema_version :: string
  st_stopper_state_id :: string
  st_sequence_number :: u64
  st_status :: string
  st_reason :: "string option"
  st_generation :: "u64 option"
  st_candidate_id :: "string option"
  st_evaluation_stage :: "string option"
  st_rollout_count :: u64
  st_max_total_rollouts :: u64
  st_remaining_rollouts :: "u64 option"
  st_cost_usd :: f64
  st_max_cost_usd :: f64
  st_cost_budget_enabled :: bool
  st_budget_exhausted :: bool
  st_checked_at :: timestamp
  st_metadata :: json_map

record stopper_snapshot =
  ss_status :: string
  ss_reason :: "string option"
  ss_generation :: "usize option"
  ss_candidate_id :: "string option"
  ss_evaluation_stage :: "string option"
  ss_rollout_count :: usize
  ss_cost_usd :: f64
  ss_metadata :: json_map

definition cost_reached :: "f64 \<Rightarrow> f64 \<Rightarrow> bool" where
  "cost_reached max_cost_usd cost_usd \<longleftrightarrow> f64_lt f64_zero max_cost_usd \<and> f64_le max_cost_usd cost_usd"

text \<open>\<open>StopperStateRecord::from_input\<close> on the fields of a snapshot.\<close>

definition stopper_from_input ::
  "hashing \<Rightarrow> timestamp \<Rightarrow> u64 \<Rightarrow> u64 \<Rightarrow> f64 \<Rightarrow> stopper_snapshot \<Rightarrow> stopper_state_record" where
  "stopper_from_input h now sequence_number max_total_rollouts max_cost_usd i =
     \<lparr>st_schema_version = ''stopper_state_record.v1'',
      st_stopper_state_id = stable_id h ''stopper'' [show_word sequence_number, ss_status i],
      st_sequence_number = sequence_number, st_status = ss_status i, st_reason = ss_reason i,
      st_generation = ss_generation i, st_candidate_id = ss_candidate_id i,
      st_evaluation_stage = ss_evaluation_stage i, st_rollout_count = ss_rollout_count i,
      st_max_total_rollouts = max_total_rollouts,
      st_remaining_rollouts = (if max_total_rollouts = 0 then None
                               else Some (saturating_sub max_total_rollouts (ss_rollout_count i))),
      st_cost_usd = ss_cost_usd i, st_max_cost_usd = max_cost_usd,
      st_cost_budget_enabled = f64_lt f64_zero max_cost_usd,
      st_budget_exhausted =
        (0 < max_total_rollouts \<and> max_total_rollouts \<le> ss_rollout_count i \<or>
         cost_reached max_cost_usd (ss_cost_usd i) \<or>
         ss_status i \<in> set [''rollout_budget_reached'', ''cost_budget_reached'', ''deferred_budget'']),
      st_checked_at = now, st_metadata = ss_metadata i\<rparr>"

definition push_stopper_snapshot ::
  "hashing \<Rightarrow> timestamp \<Rightarrow> gepa_config \<Rightarrow> stopper_snapshot \<Rightarrow> stopper_state_record list \<times> u64 \<Rightarrow>
   stopper_state_record list \<times> u64" where
  "push_stopper_snapshot h now g snapshot = (\<lambda>(records, sequence_number).
     (let sequence_number = sequence_number + 1 in
      (records @ [stopper_from_input h now sequence_number (effective_max_total_rollouts g) (gc_max_cost_usd g) snapshot],
       sequence_number)))"

subsection \<open>Budgets\<close>

definition cost_budget_reached :: "gepa_config \<Rightarrow> f64 \<Rightarrow> bool" where
  "cost_budget_reached g cost_usd \<longleftrightarrow> cost_reached (gc_max_cost_usd g) cost_usd"

definition reported_cost_budget_blocked :: "f64 \<Rightarrow> f64 \<Rightarrow> usage_ledger_record list \<Rightarrow> bool" where
  "reported_cost_budget_blocked max_cost_usd cost_usd usage_ledger \<longleftrightarrow>
     (if f64_le max_cost_usd f64_zero then False
      else f64_le max_cost_usd cost_usd \<or>
           usage_ledger \<noteq> [] \<and> reported_cost_from_usage_ledger usage_ledger = None)"

definition cost_budget_blocked :: "gepa_config \<Rightarrow> f64 \<Rightarrow> usage_ledger_record list \<Rightarrow> bool" where
  "cost_budget_blocked g cost_usd usage_ledger \<longleftrightarrow> reported_cost_budget_blocked (gc_max_cost_usd g) cost_usd usage_ledger"

definition train_rollout_budget_reached :: "gepa_config \<Rightarrow> usize \<Rightarrow> bool" where
  "train_rollout_budget_reached g rollout_count \<longleftrightarrow> train_rollout_limit g \<le> rollout_count"

definition budget_status :: "gepa_config \<Rightarrow> usize \<Rightarrow> f64 \<Rightarrow> string" where
  "budget_status g rollout_count cost_usd =
     (if train_rollout_budget_reached g rollout_count
      then if split_rollout_budgets_enabled g then ''train_rollout_budget_reached'' else ''rollout_budget_reached''
      else if cost_budget_reached g cost_usd then ''cost_budget_reached'' else ''within_budget'')"

subsection \<open>Stop conditions\<close>

record stop_state =
  so_generation :: usize
  so_candidates :: "candidate_record list"
  so_rollout_count :: usize
  so_total_cost :: f64
  so_usage_ledger :: "usage_ledger_record list"

definition score_threshold_reached :: "gepa_config \<Rightarrow> stop_state \<Rightarrow> bool" where
  "score_threshold_reached g s =
     (case gc_score_threshold_value g of None \<Rightarrow> False
      | Some threshold \<Rightarrow>
          list_ex (\<lambda>c. case candidate_metric_score c (unwrap_or ''heldout_score'' (gc_score_threshold_metric g)) of
                       None \<Rightarrow> False | Some score \<Rightarrow> f64_le threshold score)
            (so_candidates s))"

definition note_best :: "string \<Rightarrow> candidate_record \<Rightarrow> (usize \<times> f64) list \<Rightarrow> (usize \<times> f64) list" where
  "note_best metric c best =
     (case (candidate_generation c, candidate_metric_score c metric) of
        (Some generation, Some score) \<Rightarrow>
          bt_insert generation (case map_of best generation of None \<Rightarrow> score | Some b \<Rightarrow> f64_max b score) best
      | _ \<Rightarrow> best)"

definition best_by_generation :: "string \<Rightarrow> candidate_record list \<Rightarrow> (usize \<times> f64) list" where
  "best_by_generation metric candidates = fold (note_best metric) candidates []"

text \<open>\<open>Iterator::reduce\<close> with \<open>f64::max\<close>.\<close>

definition reduce_max :: "f64 list \<Rightarrow> f64 option" where
  "reduce_max xs = (case xs of [] \<Rightarrow> None | y # ys \<Rightarrow> Some (foldl f64_max y ys))"

definition first_recent :: "(usize \<times> f64) list \<Rightarrow> usize \<Rightarrow> usize" where
  "first_recent best window = saturating_sub (fst (last best)) (window - 1)"

definition no_improvement_reached :: "gepa_config \<Rightarrow> stop_state \<Rightarrow> bool" where
  "no_improvement_reached g s =
     (case gc_no_improvement_generations g of None \<Rightarrow> False
      | Some window \<Rightarrow>
        if window = 0 \<or> so_generation s \<le> window then False
        else let best = best_by_generation (unwrap_or ''heldout_score'' (gc_no_improvement_metric g)) (so_candidates s) in
          if length best \<le> unat window then False
          else if fst (last best) < window then False
          else case reduce_max (map snd (filter (\<lambda>(generation, _). generation < first_recent best window) best)) of
            None \<Rightarrow> False
          | Some prior_best \<Rightarrow>
              f64_le (unwrap_or (F64_Inf True)
                  (reduce_max (map snd (filter (\<lambda>(generation, _). first_recent best window \<le> generation) best))))
                prior_best)"

definition service_stop_condition_reached :: "gepa_config \<Rightarrow> stop_state \<Rightarrow> bool" where
  "service_stop_condition_reached g s \<longleftrightarrow> score_threshold_reached g s \<or> no_improvement_reached g s"

definition async_pipeline_stopper_satisfied :: "gepa_config \<Rightarrow> stop_state \<Rightarrow> bool" where
  "async_pipeline_stopper_satisfied g s \<longleftrightarrow>
     gc_max_generations g \<le> so_generation s \<or> train_rollout_budget_reached g (so_rollout_count s) \<or>
     cost_budget_blocked g (so_total_cost s) (so_usage_ledger s) \<or> score_threshold_reached g s \<or> no_improvement_reached g s"

subsection \<open>Costs\<close>

definition valid_receipt :: "f64 option \<Rightarrow> bool" where
  "valid_receipt cost \<longleftrightarrow> (case cost of None \<Rightarrow> False | Some v \<Rightarrow> is_finite v \<and> f64_le f64_zero v)"

lemma fold_costs_Some_iff:
  "fold_costs a saw costs \<noteq> None \<longleftrightarrow> (saw \<or> costs \<noteq> []) \<and> list_all valid_receipt costs"
proof (induction costs arbitrary: a saw)
  case (Cons c cs)
  show ?case
  proof (cases c)
    case (Some v)
    then show ?thesis
    proof -
      have "opt_filter (\<lambda>v. is_finite v \<and> f64_le f64_zero v) (Some v) = (if valid_receipt (Some v) then Some v else None)"
        by (simp add: opt_filter_def valid_receipt_def)
      then show ?thesis
        using Cons.IH Some by simp
    qed
  qed (simp add: valid_receipt_def)
qed simp

lemma reported_cost_None_iff:
  "reported_cost_from_usage_ledger ledger = None \<longleftrightarrow> ledger = [] \<or> (\<exists>r \<in> set ledger. \<not> valid_receipt (ul_cost_usd r))"
  using fold_costs_Some_iff [of f64_zero False "map ul_cost_usd ledger"]
  by (auto simp: reported_cost_from_usage_ledger_def fold_reported_cost_def list_all_iff)

text \<open>
  C40. The cost stop counts what it does not know: with a cost limit, the run is blocked exactly when the
  known cost has reached the limit or some row of the ledger has no usable receipt (missing, not
  finite or negative); without a limit it is never blocked.
\<close>

theorem cost_stop_exact:
  assumes "\<not> is_nan (gc_max_cost_usd g)"
  shows "cost_budget_blocked g cost ledger \<longleftrightarrow>
     f64_lt f64_zero (gc_max_cost_usd g) \<and>
     (f64_le (gc_max_cost_usd g) cost \<or> (\<exists>r \<in> set ledger. \<not> valid_receipt (ul_cost_usd r)))"
  using assms f64_not_le [of "gc_max_cost_usd g" f64_zero]
  by (auto simp: cost_budget_blocked_def reported_cost_budget_blocked_def reported_cost_None_iff f64_lt_not_le)

definition sample_usage :: "f64 option \<Rightarrow> usage_ledger_record" where
  "sample_usage cost = usage_from_input sample_hashing
     \<lparr>uli_boundary = ''provider'', uli_source_type = ''call'', uli_source_id = ''a'', uli_candidate_id = None,
      uli_evaluation_stage = None, uli_model = None, uli_provider = None, uli_call_count = 1, uli_usage = JObj [],
      uli_cost_usd = cost, uli_metadata = []\<rparr>"

theorem cost_stop_exact_witness:
  "cost_budget_blocked (gepa_config_default\<lparr>gc_max_cost_usd := f64_lit 1\<rparr>) f64_zero [sample_usage (Some (f64_lit (1 / 2))), sample_usage None]"
proof -
  have "\<not> is_nan (gc_max_cost_usd (gepa_config_default\<lparr>gc_max_cost_usd := f64_lit 1\<rparr>))"
    by (simp add: f64_lit_def)
  moreover have "f64_lt f64_zero (f64_lit 1)"
    by code_simp
  moreover have "\<not> valid_receipt (ul_cost_usd (sample_usage None))"
    by (simp add: valid_receipt_def sample_usage_def usage_from_input_def)
  ultimately show ?thesis
    by (subst cost_stop_exact) simp_all
qed

text \<open>
  With one rollout budget for the whole run, the snapshot that the stopper records with the budget
  status is marked exhausted exactly when the status is not \<open>within_budget\<close>, and counts the rollouts left.
\<close>

theorem snapshot_follows_status:
  assumes "\<not> split_rollout_budgets_enabled g" "gc_max_total_rollouts g \<noteq> 0"
    and "ss_status i = budget_status g (ss_rollout_count i) (ss_cost_usd i)"
    and "r = last (fst (push_stopper_snapshot h now g i (records, n)))"
  shows "(st_budget_exhausted r \<longleftrightarrow> st_status r \<noteq> ''within_budget'') \<and>
     map_option unat (st_remaining_rollouts r) = Some (unat (gc_max_total_rollouts g) - unat (ss_rollout_count i)) \<and>
     st_sequence_number r = n + 1"
proof -
  have "(0 :: u64) < gc_max_total_rollouts g"
    using assms(2) by (simp add: word_neq_0_conv)
  moreover have "train_rollout_limit g = gc_max_total_rollouts g" "effective_max_total_rollouts g = gc_max_total_rollouts g"
    using assms(1) by (auto simp: train_rollout_limit_def effective_max_total_rollouts_def split_rollout_budgets_enabled_def)
  ultimately show ?thesis
    using assms(1,3)
    by (auto simp: assms(4) push_stopper_snapshot_def stopper_from_input_def budget_status_def
        train_rollout_budget_reached_def cost_budget_reached_def Let_def sat_simps)
qed

definition sample_snapshot :: "gepa_config \<Rightarrow> usize \<Rightarrow> stopper_snapshot" where
  "sample_snapshot g n = \<lparr>ss_status = budget_status g n f64_zero, ss_reason = None, ss_generation = Some 1,
     ss_candidate_id = None, ss_evaluation_stage = None, ss_rollout_count = n, ss_cost_usd = f64_zero, ss_metadata = []\<rparr>"

theorem snapshot_follows_status_witness:
  "let r = last (fst (push_stopper_snapshot sample_hashing ''t'' gepa_config_default (sample_snapshot gepa_config_default 300) ([], 0)))
   in st_budget_exhausted r \<and> st_status r \<noteq> ''within_budget'' \<and> map_option unat (st_remaining_rollouts r) = Some 0"
proof -
  have g: "\<not> split_rollout_budgets_enabled gepa_config_default" "gc_max_total_rollouts gepa_config_default \<noteq> 0"
    "ss_status (sample_snapshot gepa_config_default 300) =
       budget_status gepa_config_default (ss_rollout_count (sample_snapshot gepa_config_default 300))
         (ss_cost_usd (sample_snapshot gepa_config_default 300))"
    by (simp_all add: split_rollout_budgets_enabled_def gepa_config_default_def sample_snapshot_def)
  have "unat (gc_max_total_rollouts gepa_config_default) - unat (ss_rollout_count (sample_snapshot gepa_config_default 300)) = 0"
    by (simp add: sample_snapshot_def gepa_config_default_def)
  moreover have "st_status (last (fst (push_stopper_snapshot sample_hashing ''t'' gepa_config_default (sample_snapshot gepa_config_default 300) ([], 0))))
      \<noteq> ''within_budget''"
    by code_simp
  ultimately show ?thesis
    using snapshot_follows_status [OF g refl, of sample_hashing "''t''" "[]" 0] by (simp add: Let_def)
qed

text \<open>
  With split budgets the status of an exhausted train budget is one that the stopper does not know, and
  the total it compares with still holds the held-out share: the snapshot says that nothing is exhausted.
\<close>

lemma train_budget_stop_not_exhausted:
  "let g = gepa_config_default\<lparr>gc_max_train_rollouts := Some 10, gc_max_heldout_rollouts := Some 20\<rparr>;
       r = last (fst (push_stopper_snapshot sample_hashing ''t'' g (sample_snapshot g 10) ([], 0)))
   in st_status r = ''train_rollout_budget_reached'' \<and> \<not> st_budget_exhausted r"
  by code_simp

subsection \<open>No improvement\<close>

text \<open>A maximum that ignores NaN: one of the values, and above every other that is a number.\<close>

definition tops :: "f64 \<Rightarrow> f64 set \<Rightarrow> bool" where
  "tops v xs \<longleftrightarrow> v \<in> xs \<and> (\<forall>x \<in> xs. \<not> is_nan x \<longrightarrow> f64_le x v)"

lemma tops_single: "tops v {v}"
  by (simp add: tops_def f64_le_refl)

lemma tops_max:
  assumes "tops v xs"
  shows "tops (f64_max v x) (insert x xs)"
proof -
  consider "is_nan v" | "\<not> is_nan v" "is_nan x" | "\<not> is_nan v" "\<not> is_nan x"
    by blast
  then show ?thesis
  proof cases
    case 1
    then have "v = F64_NaN"
      by (cases v) simp_all
    with assms show ?thesis
      by (auto simp: tops_def f64_max_def f64_le_refl)
  next
    case 2
    with assms show ?thesis
      by (auto simp: tops_def f64_max_def)
  next
    case 3
    then have "f64_le v (f64_max v x) \<and> f64_le x (f64_max v x)"
      using f64_max_ge_left f64_max_ge_right by blast
    moreover have "f64_max v x \<in> {v, x}"
      by (simp add: f64_max_def)
    ultimately show ?thesis
      using assms
      unfolding tops_def by (metis f64_le_trans insert_iff singletonD)
  qed
qed

lemma tops_foldl: "tops v xs \<Longrightarrow> tops (foldl f64_max v ys) (xs \<union> set ys)"
proof (induction ys arbitrary: v xs)
  case (Cons y ys)
  from Cons.IH [OF tops_max [OF Cons.prems, of y]] show ?case
    by simp
qed simp

lemma reduce_max_exists: "v \<in> set xs \<Longrightarrow> \<exists>r. reduce_max xs = Some r"
  by (cases xs) (simp_all add: reduce_max_def)

lemma reduce_max_tops: "reduce_max xs = Some v \<Longrightarrow> tops v (set xs)"
  using tops_foldl [OF tops_single] by (auto simp: reduce_max_def split: list.splits)

definition scores_at :: "string \<Rightarrow> candidate_record list \<Rightarrow> usize \<Rightarrow> f64 set" where
  "scores_at metric candidates n =
     {score. \<exists>c \<in> set candidates. candidate_generation c = Some n \<and> candidate_metric_score c metric = Some score}"

lemma note_best_invariant:
  assumes "\<And>n. case map_of best n of None \<Rightarrow> scores_at metric seen n = {} | Some v \<Rightarrow> tops v (scores_at metric seen n)"
  shows "case map_of (note_best metric c best) n of None \<Rightarrow> scores_at metric (seen @ [c]) n = {}
     | Some v \<Rightarrow> tops v (scores_at metric (seen @ [c]) n)"
proof (cases "candidate_generation c = Some n \<and> candidate_metric_score c metric \<noteq> None")
  case True
  then obtain score where c: "candidate_generation c = Some n" "candidate_metric_score c metric = Some score"
    by blast
  then have "scores_at metric (seen @ [c]) n = insert score (scores_at metric seen n)"
    by (auto simp: scores_at_def)
  then show ?thesis
    using assms [of n] c by (cases "map_of best n") (simp_all add: note_best_def tops_single tops_max)
next
  case False
  then have "scores_at metric (seen @ [c]) n = scores_at metric seen n"
    by (auto simp: scores_at_def)
  moreover have "map_of (note_best metric c best) n = map_of best n"
    using False by (auto simp: note_best_def split: option.splits)
  ultimately show ?thesis
    using assms [of n] by (cases "map_of best n") simp_all
qed

lemma best_by_generation_wf: "bt_wf (best_by_generation metric candidates)"
proof -
  have "bt_wf (fold (note_best metric) candidates best)" if "bt_wf best" for best
    using that by (induction candidates arbitrary: best) (auto simp: note_best_def split: option.split)
  then show ?thesis
    by (simp add: best_by_generation_def)
qed

lemma best_by_generation_tops:
  "case map_of (best_by_generation metric candidates) n of None \<Rightarrow> scores_at metric candidates n = {}
   | Some v \<Rightarrow> tops v (scores_at metric candidates n)"
proof -
  have "case map_of (fold (note_best metric) rest best) n of None \<Rightarrow> scores_at metric (seen @ rest) n = {}
      | Some v \<Rightarrow> tops v (scores_at metric (seen @ rest) n)"
    if "\<And>n. case map_of best n of None \<Rightarrow> scores_at metric seen n = {} | Some v \<Rightarrow> tops v (scores_at metric seen n)"
    for rest best seen
    using that
  proof (induction rest arbitrary: best seen)
    case (Cons c rest)
    have "case map_of (fold (note_best metric) rest (note_best metric c best)) n of
        None \<Rightarrow> scores_at metric ((seen @ [c]) @ rest) n = {}
      | Some v \<Rightarrow> tops v (scores_at metric ((seen @ [c]) @ rest) n)"
      by (rule Cons.IH) (rule note_best_invariant [OF Cons.prems])
    then show ?case
      by (simp only: append_assoc append_Cons append_Nil fold_Cons comp_apply)
  next
    case Nil
    from Nil [of n] show ?case
      by (simp only: fold_Nil id_apply append_Nil2)
  qed
  from this [of "[]" "[]" candidates] show ?thesis
    by (simp only: best_by_generation_def append_Nil) (simp add: scores_at_def)
qed

lemma best_entry: "(n, v) \<in> set (best_by_generation metric candidates) \<Longrightarrow> tops v (scores_at metric candidates n)"
  using best_by_generation_tops [of metric candidates n] best_by_generation_wf [of metric candidates]
  by (auto simp: bt_wf_map_of [symmetric])

lemma scored_entry:
  assumes "score \<in> scores_at metric candidates n"
  obtains v where "(n, v) \<in> set (best_by_generation metric candidates)" "tops v (scores_at metric candidates n)"
  using best_by_generation_tops [of metric candidates n] best_by_generation_wf [of metric candidates] assms
  by (auto simp: bt_wf_map_of [symmetric] split: option.splits)

lemma bt_wf_last: "bt_wf m \<Longrightarrow> (k, v) \<in> set m \<Longrightarrow> k \<le> fst (last m)"
proof (induction m)
  case (Cons a m)
  then show ?case
    by (cases "m = []") (auto simp: bt_wf_def intro: less_imp_le)
qed simp

text \<open>
  C24. A run that stops for want of improvement has not improved: there are a window of generations up to
  the latest scored one and a candidate from before the window whose score no candidate scored in the
  window exceeds.
\<close>

theorem no_improvement_justified:
  assumes "no_improvement_reached g s" "gc_no_improvement_generations g = Some window"
    and "metric = unwrap_or ''heldout_score'' (gc_no_improvement_metric g)"
  shows "\<exists>latest n. scores_at metric (so_candidates s) latest \<noteq> {} \<and> unat n + unat window \<le> unat latest \<and>
     (\<exists>prior \<in> scores_at metric (so_candidates s) n.
        \<forall>m score. unat latest < unat m + unat window \<and> score \<in> scores_at metric (so_candidates s) m \<and> \<not> is_nan score
          \<longrightarrow> m \<le> latest \<and> f64_le score prior)"
proof -
  let ?best = "best_by_generation metric (so_candidates s)"
  let ?latest = "fst (last ?best)"
  have w: "window \<noteq> 0" "unat window < length ?best" "\<not> ?latest < window"
    using assms by (auto simp: no_improvement_reached_def Let_def split: if_splits)
  then have ne: "?best \<noteq> []"
    by auto
  have w1: "unat (window - 1) = unat window - 1"
    using w(1) by (simp add: unat_minus_one)
  have pos: "0 < unat window"
    using w(1) by (simp add: unat_gt_0)
  have wl: "unat window \<le> unat ?latest"
    using w(3) by (simp add: word_less_nat_alt)
  have recent: "unat (first_recent ?best window) = unat ?latest - (unat window - 1)"
    by (simp add: first_recent_def sat_simps w1)
  obtain prior_best where prior: "reduce_max (map snd (filter (\<lambda>(generation, _). generation < first_recent ?best window) ?best)) = Some prior_best"
    and le: "f64_le (unwrap_or (F64_Inf True)
        (reduce_max (map snd (filter (\<lambda>(generation, _). first_recent ?best window \<le> generation) ?best)))) prior_best"
    using assms w by (auto simp: no_improvement_reached_def Let_def split: if_splits option.splits)
  from reduce_max_tops [OF prior] obtain n where n: "(n, prior_best) \<in> set ?best" "n < first_recent ?best window"
    by (auto simp: tops_def)
  have "(?latest, snd (last ?best)) \<in> set ?best"
    using ne by simp
  from best_entry [OF this] have "scores_at metric (so_candidates s) ?latest \<noteq> {}"
    by (auto simp: tops_def)
  moreover have "unat n + unat window \<le> unat ?latest"
    using n(2) recent pos wl by (simp add: word_less_nat_alt)
  moreover have "prior_best \<in> scores_at metric (so_candidates s) n"
    using best_entry [OF n(1)] by (simp add: tops_def)
  moreover have "m \<le> ?latest \<and> f64_le score prior_best"
    if m: "unat ?latest < unat m + unat window" "score \<in> scores_at metric (so_candidates s) m" "\<not> is_nan score" for m score
  proof -
    obtain v where v: "(m, v) \<in> set ?best" "tops v (scores_at metric (so_candidates s) m)"
      using scored_entry [OF m(2)] .
    then have "f64_le score v"
      using m(2,3) by (simp add: tops_def)
    have "first_recent ?best window \<le> m"
      using m(1) recent by (simp add: word_le_nat_alt)
    with v(1) have mem: "v \<in> set (map snd (filter (\<lambda>(generation, _). first_recent ?best window \<le> generation) ?best))"
      by force
    then obtain r where r: "reduce_max (map snd (filter (\<lambda>(generation, _). first_recent ?best window \<le> generation) ?best)) = Some r"
      using reduce_max_exists by blast
    have "\<not> is_nan v"
      using \<open>f64_le score v\<close> by (cases v) auto
    with reduce_max_tops [OF r] mem have "f64_le v r"
      unfolding tops_def by blast
    with le r \<open>f64_le score v\<close> have "f64_le score prior_best"
      by (metis f64_le_trans unwrap_or_simps(2))
    with bt_wf_last [OF best_by_generation_wf v(1)] show ?thesis
      by simp
  qed
  ultimately show ?thesis
    by blast
qed

definition sample_stalled :: stop_state where
  "sample_stalled =
     \<lparr>so_generation = 2,
      so_candidates =
        [(sample_candidate ''seed'' [])\<lparr>ca_heldout_reward := Some (f64_lit 5)\<rparr>,
         (sample_candidate ''c1'' [])
           \<lparr>ca_source := ''proposer'', ca_parent_id := Some ''seed'',
            ca_acceptance_metadata := [(''generation'', JNum (PosInt 1))], ca_heldout_reward := Some (f64_lit 3)\<rparr>],
      so_rollout_count = 8, so_total_cost = f64_zero, so_usage_ledger = []\<rparr>"

theorem no_improvement_justified_witness:
  "let g = gepa_config_default\<lparr>gc_no_improvement_generations := Some 1\<rparr> in
     no_improvement_reached g sample_stalled \<and>
     (\<exists>latest n. scores_at ''heldout_score'' (so_candidates sample_stalled) latest \<noteq> {} \<and>
        unat (n :: usize) + 1 \<le> unat latest)"
proof -
  let ?g = "gepa_config_default\<lparr>gc_no_improvement_generations := Some 1\<rparr>"
  have n: "no_improvement_reached ?g sample_stalled"
    by code_simp
  have m: "''heldout_score'' = unwrap_or ''heldout_score'' (gc_no_improvement_metric ?g)"
    by (simp add: gepa_config_default_def)
  have g: "gc_no_improvement_generations ?g = Some 1"
    by simp
  obtain latest n :: usize where "scores_at ''heldout_score'' (so_candidates sample_stalled) latest \<noteq> {}"
      "unat n + unat (1 :: usize) \<le> unat latest"
    using no_improvement_justified [OF n g m] by blast
  with n show ?thesis
    unfolding Let_def unsigned_1 by blast
qed

text \<open>
  The condition counts the generations that hold a scored candidate. A search whose proposals are all
  turned down before they are scored never stops for it, however many generations pass.
\<close>

lemma unscored_generations_never_stop:
  assumes "gc_no_improvement_generations g = Some window"
    and "length (best_by_generation (unwrap_or ''heldout_score'' (gc_no_improvement_metric g)) (so_candidates s)) \<le> unat window"
  shows "\<not> no_improvement_reached g s"
  using assms by (simp add: no_improvement_reached_def Let_def)

end
