(* ===== verification/Request_Cache.thy ===== *)
theory Request_Cache
  imports Keyed_Table Optimizer_Error
begin

text \<open>
  \<open>cache.rs\<close>: the request/response cache, a table of responses under a namespace and a key, with the
  modes, the counters and the log of accesses. The keys and the normal form of requests are in \<open>Json\<close>.

  A row holds the texts that the table stores; reading them back is the parameter \<open>cv_from_str\<close>
  (\<open>serde_json::from_str\<close>, \<open>None\<close> for a text that is not JSON). The size of a file is read from the
  parameter \<open>file_sizes\<close>, once before and once after a write. Errors of SQLite are not represented.
  Rows with the same time of update come in the reverse of the order in which they were inserted.
\<close>

subsection \<open>Data\<close>

datatype cache_mode = CacheOff | CacheReadwrite | CacheReadonly

fun cache_mode_str :: "cache_mode \<Rightarrow> string" where
  "cache_mode_str CacheOff = ''off''"
| "cache_mode_str CacheReadwrite = ''readwrite''"
| "cache_mode_str CacheReadonly = ''readonly''"

record cache_profile =
  cp_mode :: string
  cp_path :: string
  cp_size_bytes :: u64
  cp_max_bytes :: u64
  cp_entries :: usize
  cp_hits :: usize
  cp_misses :: usize
  cp_writes :: usize

record cache_profile_record =
  cpr_schema_version :: string
  cpr_cache_profile_id :: string
  cpr_mode :: string
  cpr_path :: string
  cpr_entries :: u64
  cpr_hits :: u64
  cpr_misses :: u64
  cpr_writes :: u64
  cpr_total_accesses :: u64
  cpr_profile :: cache_profile

record cache_access_record =
  cx_schema_version :: string
  cx_cache_access_id :: string
  cx_sequence_number :: u64
  cx_mode :: string
  cx_namespace :: string
  cx_boundary :: string
  cx_cache_key :: string
  cx_action :: string
  cx_status :: string
  cx_request_hash :: "string option"
  cx_response_hash :: "string option"
  cx_metadata :: json_map

record cache_entry =
  ce_namespace :: string
  ce_cache_key :: string
  ce_request :: json
  ce_response :: json
  ce_metadata :: json_map
  ce_hit_count :: u64

record cache_table_schema =
  ct_has_metadata_json :: bool
  ct_has_updated_at :: bool

text \<open>A row of \<open>request_response_cache\<close>.\<close>

record cache_row =
  cw_namespace :: string
  cw_cache_key :: string
  cw_request_json :: string
  cw_response_json :: string
  cw_metadata_json :: string
  cw_created_at :: f64
  cw_updated_at :: f64
  cw_last_accessed_at :: "f64 option"
  cw_hit_count :: int

record request_cache =
  rc_mode :: cache_mode
  rc_path :: string
  rc_conn :: "cache_row list option"
  rc_schema :: cache_table_schema
  rc_max_bytes :: u64
  rc_hits :: usize
  rc_misses :: usize
  rc_writes :: usize
  rc_access_log :: "cache_access_record list"

record cache_access_draft =
  cd_namespace :: string
  cd_cache_key :: string
  cd_action :: string
  cd_status :: string
  cd_request :: "json option"
  cd_response :: "json option"
  cd_metadata :: json_map

record cache_env =
  cv_hashing :: hashing
  cv_from_str :: "string \<Rightarrow> json option"

type_synonym file_sizes = "string \<Rightarrow> u64 result"

definition cache_schema_version :: string where
  "cache_schema_version = ''synth_optimizers.request_response_cache.v1''"

definition cache_row_key :: "cache_row \<Rightarrow> string \<times> string" where
  "cache_row_key r = (cw_namespace r, cw_cache_key r)"

subsection \<open>Keys and access records\<close>

definition cache_key_of :: "hashing \<Rightarrow> string \<Rightarrow> json \<Rightarrow> string" where
  "cache_key_of h namespace request =
     stable_json_hash h (JObj (obj_of
       [(''schema_version'', JStr cache_schema_version), (''namespace'', JStr namespace),
        (''request'', normalize_for_cache request)]))"

definition cache_key_with_profile :: "hashing \<Rightarrow> string \<Rightarrow> json \<Rightarrow> string \<Rightarrow> string" where
  "cache_key_with_profile h namespace request profile =
     stable_json_hash h (JObj (obj_of
       [(''schema_version'', JStr cache_schema_version), (''namespace'', JStr namespace),
        (''profile'', JStr (normalized_profile profile)),
        (''request'', normalize_for_cache_profile request profile)]))"

definition rsplit_once :: "char \<Rightarrow> string \<Rightarrow> (string \<times> string) option" where
  "rsplit_once d s =
     (if d \<in> set s
      then Some (rev (tl (dropWhile (\<lambda>c. c \<noteq> d) (rev s))), rev (takeWhile (\<lambda>c. c \<noteq> d) (rev s))) else None)"

definition cache_boundary :: "string \<Rightarrow> string" where
  "cache_boundary namespace = unwrap_or namespace (map_option snd (rsplit_once (CHR '':'') namespace))"

definition cache_access_metadata :: "string \<Rightarrow> json_map \<Rightarrow> json_map" where
  "cache_access_metadata profile metadata =
     (if map_of metadata ''cache_profile'' = None
      then obj_insert ''cache_profile'' (JStr (normalized_profile profile)) metadata else metadata)"

definition cache_access_record_new :: "hashing \<Rightarrow> u64 \<Rightarrow> cache_mode \<Rightarrow> cache_access_draft \<Rightarrow> cache_access_record" where
  "cache_access_record_new h sequence_number mode d =
     \<lparr>cx_schema_version = ''cache_access_record.v1'',
      cx_cache_access_id = stable_id h ''cacheaccess''
        [show_word sequence_number, cd_namespace d, cd_cache_key d, cd_action d],
      cx_sequence_number = sequence_number, cx_mode = cache_mode_str mode, cx_namespace = cd_namespace d,
      cx_boundary = cache_boundary (cd_namespace d), cx_cache_key = cd_cache_key d, cx_action = cd_action d,
      cx_status = cd_status d, cx_request_hash = map_option (stable_value_hash h) (cd_request d),
      cx_response_hash = map_option (stable_value_hash h) (cd_response d), cx_metadata = cd_metadata d\<rparr>"

definition record_access :: "hashing \<Rightarrow> cache_access_draft \<Rightarrow> request_cache \<Rightarrow> request_cache" where
  "record_access h d c =
     (let sequence_number = of_nat (length (rc_access_log c)) + 1
      in c\<lparr>rc_access_log := rc_access_log c @ [cache_access_record_new h sequence_number (rc_mode c) d]\<rparr>)"

subsection \<open>Opening\<close>

definition sidecar_sqlite_path :: "string \<Rightarrow> string \<Rightarrow> string" where
  "sidecar_sqlite_path path suffix = path @ ''-'' @ suffix"

definition sqlite_path_size :: "file_sizes \<Rightarrow> string \<Rightarrow> u64 result" where
  "sqlite_path_size fs path =
     (case fs path of Inl e \<Rightarrow> Inl e
      | Inr main \<Rightarrow>
        (case fs (sidecar_sqlite_path path ''wal'') of Inl e \<Rightarrow> Inl e
         | Inr wal \<Rightarrow>
           (case fs (sidecar_sqlite_path path ''shm'') of Inl e \<Rightarrow> Inl e
            | Inr shm \<Rightarrow> Inr (saturating_add (saturating_add main wal) shm))))"

definition raise_if_cache_full :: "file_sizes \<Rightarrow> string \<Rightarrow> u64 \<Rightarrow> u64 \<Rightarrow> unit result" where
  "raise_if_cache_full fs path max_bytes extra_bytes =
     (if max_bytes = 0 then Inr ()
      else case sqlite_path_size fs path of Inl e \<Rightarrow> Inl e
      | Inr bytes \<Rightarrow>
          (let size_bytes = saturating_add bytes extra_bytes in
           if max_bytes \<le> size_bytes then Inl (CacheFull path size_bytes max_bytes) else Inr ()))"

text \<open>
  Creating the table, or adding the columns that an older file lacks: metadata is empty, and a time of
  update that is zero becomes the time of creation.
\<close>

definition initialize_request_cache_schema ::
  "(cache_table_schema \<times> cache_row list) option \<Rightarrow> cache_table_schema \<times> cache_row list" where
  "initialize_request_cache_schema existing =
     (\<lparr>ct_has_metadata_json = True, ct_has_updated_at = True\<rparr>,
      case existing of None \<Rightarrow> []
      | Some (schema, rows) \<Rightarrow>
          map (\<lambda>r. let r = (if ct_has_metadata_json schema then r else r\<lparr>cw_metadata_json := [CHR 0x7B, CHR 0x7D]\<rparr>);
                       r = (if ct_has_updated_at schema then r else r\<lparr>cw_updated_at := f64_zero\<rparr>)
                   in if f64_val (cw_updated_at r) = 0 then r\<lparr>cw_updated_at := cw_created_at r\<rparr> else r) rows)"

definition request_cache_new ::
  "string \<Rightarrow> cache_mode \<Rightarrow> u64 \<Rightarrow> (cache_table_schema \<times> cache_row list) option \<Rightarrow> request_cache" where
  "request_cache_new path mode max_bytes db =
     \<lparr>rc_mode = mode, rc_path = path, rc_conn = map_option snd db,
      rc_schema = (case db of None \<Rightarrow> \<lparr>ct_has_metadata_json = False, ct_has_updated_at = False\<rparr> | Some (s, _) \<Rightarrow> s),
      rc_max_bytes = max_bytes, rc_hits = 0, rc_misses = 0, rc_writes = 0, rc_access_log = []\<rparr>"

text \<open>\<open>existing\<close> is the database in the file at the path, if there is one.\<close>

definition open_with_max_bytes ::
  "file_sizes \<Rightarrow> file_sizes \<Rightarrow> (cache_table_schema \<times> cache_row list) option \<Rightarrow> string \<Rightarrow> cache_mode \<Rightarrow> u64 \<Rightarrow>
   request_cache result" where
  "open_with_max_bytes before after existing path mode max_bytes =
     (if mode = CacheOff then Inr (request_cache_new path mode max_bytes None)
      else if mode = CacheReadonly then Inr (request_cache_new path mode max_bytes existing)
      else case raise_if_cache_full before path max_bytes 0 of Inl e \<Rightarrow> Inl e
      | Inr _ \<Rightarrow>
        (case raise_if_cache_full after path max_bytes 0 of Inl e \<Rightarrow> Inl e
         | Inr _ \<Rightarrow> Inr (request_cache_new path mode max_bytes (Some (initialize_request_cache_schema existing)))))"

subsection \<open>Reading\<close>

definition cache_entry_from_row :: "cache_env \<Rightarrow> cache_table_schema \<Rightarrow> cache_row \<Rightarrow> cache_entry" where
  "cache_entry_from_row env schema r =
     (let metadata_json = (if ct_has_metadata_json schema then cw_metadata_json r else [CHR 0x7B, CHR 0x7D])
      in \<lparr>ce_namespace = cw_namespace r, ce_cache_key = cw_cache_key r,
          ce_request = unwrap_or JNull (cv_from_str env (cw_request_json r)),
          ce_response = unwrap_or JNull (cv_from_str env (cw_response_json r)),
          ce_metadata = (case unwrap_or (JObj []) (cv_from_str env metadata_json) of JObj m \<Rightarrow> m | _ \<Rightarrow> []),
          ce_hit_count = word_of_int (max 0 (cw_hit_count r))\<rparr>)"

definition touch_row :: "f64 \<Rightarrow> cache_row \<Rightarrow> cache_row" where
  "touch_row now r = r\<lparr>cw_last_accessed_at := Some now, cw_hit_count := cw_hit_count r + 1\<rparr>"

definition touch_hit :: "f64 \<Rightarrow> cache_entry \<Rightarrow> request_cache \<Rightarrow> request_cache" where
  "touch_hit now entry c =
     (if rc_mode c = CacheReadwrite
      then c\<lparr>rc_conn := map_option (update_where (\<lambda>r. cache_row_key r = (ce_namespace entry, ce_cache_key entry)) (touch_row now))
               (rc_conn c)\<rparr>
      else c)"

text \<open>The two ways in which a lookup ends, shared by exact and equivalent lookups.\<close>

definition answer_hit :: "cache_env \<Rightarrow> f64 \<Rightarrow> string \<Rightarrow> json_map \<Rightarrow> cache_entry \<Rightarrow> (request_cache, cache_entry option) op" where
  "answer_hit env now status metadata entry c =
     (let c = touch_hit now entry c; c = c\<lparr>rc_hits := rc_hits c + 1\<rparr>
      in (record_access (cv_hashing env)
            \<lparr>cd_namespace = ce_namespace entry, cd_cache_key = ce_cache_key entry, cd_action = ''hit'', cd_status = status,
             cd_request = Some (ce_request entry), cd_response = Some (ce_response entry), cd_metadata = metadata\<rparr> c,
          Inr (Some (entry\<lparr>ce_hit_count := ce_hit_count entry + 1\<rparr>))))"

definition answer_miss ::
  "cache_env \<Rightarrow> string \<Rightarrow> string \<Rightarrow> string \<Rightarrow> json option \<Rightarrow> json_map \<Rightarrow> (request_cache, cache_entry option) op" where
  "answer_miss env namespace cache_key status request metadata c =
     (record_access (cv_hashing env)
        \<lparr>cd_namespace = namespace, cd_cache_key = cache_key, cd_action = ''miss'', cd_status = status,
         cd_request = request, cd_response = None, cd_metadata = metadata\<rparr> (c\<lparr>rc_misses := rc_misses c + 1\<rparr>),
      if rc_mode c = CacheReadonly then Inl (CacheMiss namespace cache_key) else Inr None)"

definition get_entry_or_miss ::
  "cache_env \<Rightarrow> f64 \<Rightarrow> string \<Rightarrow> string \<Rightarrow> (request_cache, cache_entry option) op" where
  "get_entry_or_miss env now namespace cache_key c =
     (if rc_mode c = CacheOff then (c, Inr None)
      else case rc_conn c of
        None \<Rightarrow> answer_miss env namespace cache_key ''missing_cache_store'' None [] c
      | Some rows \<Rightarrow>
        (case lookup_row cache_row_key rows (namespace, cache_key) of
           Some row \<Rightarrow>
             (let entry = cache_entry_from_row env (rc_schema c) row
              in answer_hit env now ''completed'' (ce_metadata entry) entry c)
         | None \<Rightarrow> answer_miss env namespace cache_key ''completed'' None [] c))"

definition get_or_miss :: "cache_env \<Rightarrow> f64 \<Rightarrow> string \<Rightarrow> string \<Rightarrow> (request_cache, json option) op" where
  "get_or_miss env now namespace cache_key c =
     map_prod id (map_sum id (map_option ce_response)) (get_entry_or_miss env now namespace cache_key c)"

definition newest_first :: "cache_table_schema \<Rightarrow> cache_row list \<Rightarrow> cache_row list" where
  "newest_first schema rows =
     rev (sort_key (\<lambda>r. f64_val (if ct_has_updated_at schema then cw_updated_at r else cw_created_at r)) rows)"

definition equivalent_entry ::
  "cache_env \<Rightarrow> cache_table_schema \<Rightarrow> cache_row list \<Rightarrow> string \<Rightarrow> json \<Rightarrow> string \<Rightarrow> cache_entry option" where
  "equivalent_entry env schema rows namespace request profile =
     find (\<lambda>entry. normalize_for_cache_profile (ce_request entry) profile = normalize_for_cache_profile request profile)
       (map (cache_entry_from_row env schema)
         (newest_first schema (filter (\<lambda>r. cw_namespace r = namespace) rows)))"

definition find_equivalent ::
  "cache_env \<Rightarrow> f64 \<Rightarrow> string \<Rightarrow> json \<Rightarrow> string \<Rightarrow> (request_cache, cache_entry option) op" where
  "find_equivalent env now namespace request profile c =
     (if rc_mode c = CacheOff then (c, Inr None)
      else case rc_conn c of
        None \<Rightarrow> answer_miss env namespace (cache_key_with_profile (cv_hashing env) namespace request profile)
                  ''missing_cache_store'' (Some request) (cache_access_metadata profile []) c
      | Some rows \<Rightarrow>
        (case equivalent_entry env (rc_schema c) rows namespace request profile of
           Some entry \<Rightarrow> answer_hit env now ''equivalent'' (cache_access_metadata profile (ce_metadata entry)) entry c
         | None \<Rightarrow> answer_miss env namespace (cache_key_with_profile (cv_hashing env) namespace request profile)
                    ''equivalent_not_found'' (Some request) (cache_access_metadata profile []) c))"

subsection \<open>Writing\<close>

text \<open>The statement's \<open>ON CONFLICT\<close> clause keeps the time of creation, the last access and the hits.\<close>

definition write_row :: "cache_row \<Rightarrow> cache_row list \<Rightarrow> cache_row list" where
  "write_row r rows =
     upsert cache_row_key
       (case lookup_row cache_row_key rows (cache_row_key r) of None \<Rightarrow> r
        | Some old \<Rightarrow> r\<lparr>cw_created_at := cw_created_at old, cw_last_accessed_at := cw_last_accessed_at old,
                         cw_hit_count := cw_hit_count old\<rparr>) rows"

definition new_cache_row ::
  "hashing \<Rightarrow> f64 \<Rightarrow> string \<Rightarrow> string \<Rightarrow> json \<Rightarrow> json \<Rightarrow> string \<Rightarrow> json_map \<Rightarrow> cache_row" where
  "new_cache_row h now namespace cache_key request response profile metadata =
     \<lparr>cw_namespace = namespace, cw_cache_key = cache_key,
      cw_request_json = stable_json h (normalize_for_cache_profile request profile),
      cw_response_json = stable_json h response, cw_metadata_json = stable_json h (JObj metadata),
      cw_created_at = now, cw_updated_at = now, cw_last_accessed_at = None, cw_hit_count = 0\<rparr>"

definition put_with_metadata ::
  "cache_env \<Rightarrow> file_sizes \<Rightarrow> file_sizes \<Rightarrow> f64 \<Rightarrow> string \<Rightarrow> string \<Rightarrow> json \<Rightarrow> json \<Rightarrow> string \<Rightarrow> json_map \<Rightarrow>
   (request_cache, unit) op" where
  "put_with_metadata env before after now namespace cache_key request response profile metadata c =
     (if rc_mode c \<noteq> CacheReadwrite then (c, Inr ())
      else case rc_conn c of None \<Rightarrow> (c, Inr ())
      | Some rows \<Rightarrow>
        (let metadata = cache_access_metadata profile metadata;
             row = new_cache_row (cv_hashing env) now namespace cache_key request response profile metadata
         in case raise_if_cache_full before (rc_path c) (rc_max_bytes c)
                   (of_nat (length (cw_request_json row) + length (cw_response_json row) + length (cw_metadata_json row))) of
              Inl e \<Rightarrow> (c, Inl e)
            | Inr _ \<Rightarrow>
              (let c = c\<lparr>rc_conn := Some (write_row row rows)\<rparr>
               in case raise_if_cache_full after (rc_path c) (rc_max_bytes c) 0 of
                    Inl e \<Rightarrow> (c, Inl e)
                  | Inr _ \<Rightarrow>
                    (record_access (cv_hashing env)
                       \<lparr>cd_namespace = namespace, cd_cache_key = cache_key, cd_action = ''write'', cd_status = ''completed'',
                        cd_request = Some request, cd_response = Some response, cd_metadata = metadata\<rparr>
                       (c\<lparr>rc_writes := rc_writes c + 1\<rparr>), Inr ()))))"

definition put_entry ::
  "cache_env \<Rightarrow> file_sizes \<Rightarrow> file_sizes \<Rightarrow> f64 \<Rightarrow> string \<Rightarrow> string \<Rightarrow> json \<Rightarrow> json \<Rightarrow> (request_cache, unit) op" where
  "put_entry env before after now namespace cache_key request response =
     put_with_metadata env before after now namespace cache_key request response ''generic'' []"

definition cache_profile_of :: "file_sizes \<Rightarrow> request_cache \<Rightarrow> cache_profile result" where
  "cache_profile_of fs c =
     (case sqlite_path_size fs (rc_path c) of Inl e \<Rightarrow> Inl e
      | Inr bytes \<Rightarrow> Inr
          \<lparr>cp_mode = cache_mode_str (rc_mode c), cp_path = rc_path c, cp_size_bytes = bytes, cp_max_bytes = rc_max_bytes c,
           cp_entries = (case rc_conn c of None \<Rightarrow> 0 | Some rows \<Rightarrow> of_nat (length rows)),
           cp_hits = rc_hits c, cp_misses = rc_misses c, cp_writes = rc_writes c\<rparr>)"

definition cache_profile_record_from :: "hashing \<Rightarrow> cache_profile \<Rightarrow> cache_profile_record" where
  "cache_profile_record_from h p =
     \<lparr>cpr_schema_version = ''cache_profile_record.v1'',
      cpr_cache_profile_id = stable_id h ''cacheprofile'' [cp_path p, cp_mode p], cpr_mode = cp_mode p,
      cpr_path = cp_path p, cpr_entries = cp_entries p, cpr_hits = cp_hits p, cpr_misses = cp_misses p,
      cpr_writes = cp_writes p, cpr_total_accesses = cp_hits p + cp_misses p + cp_writes p, cpr_profile = p\<rparr>"

subsection \<open>Sequences of operations\<close>

datatype cache_op =
    GetEntry f64 string string
  | FindEquivalent f64 string json string
  | PutEntry file_sizes file_sizes f64 string string json json string json_map

fun apply_cache_op :: "cache_env \<Rightarrow> cache_op \<Rightarrow> request_cache \<Rightarrow> request_cache" where
  "apply_cache_op env (GetEntry now namespace cache_key) c = fst (get_entry_or_miss env now namespace cache_key c)"
| "apply_cache_op env (FindEquivalent now namespace request profile) c =
     fst (find_equivalent env now namespace request profile c)"
| "apply_cache_op env (PutEntry before after now namespace cache_key request response profile metadata) c =
     fst (put_with_metadata env before after now namespace cache_key request response profile metadata c)"

definition run_cache_ops :: "cache_env \<Rightarrow> cache_op list \<Rightarrow> request_cache \<Rightarrow> request_cache" where
  "run_cache_ops env ops c = fold (apply_cache_op env) ops c"

fun writes_key :: "string \<times> string \<Rightarrow> cache_op \<Rightarrow> bool" where
  "writes_key k (PutEntry _ _ _ namespace cache_key _ _ _ _) \<longleftrightarrow> (namespace, cache_key) = k"
| "writes_key k _ \<longleftrightarrow> False"

lemma run_cache_ops_preserves:
  assumes "\<And>x c. x \<in> set ops \<Longrightarrow> P c \<Longrightarrow> P (apply_cache_op env x c)" "P c"
  shows "P (run_cache_ops env ops c)"
  using assms unfolding run_cache_ops_def by (induction ops arbitrary: c) simp_all

text \<open>What the cache keeps while it is used.\<close>

lemma record_access_sel [simp]:
  "rc_mode (record_access h d c) = rc_mode c" "rc_conn (record_access h d c) = rc_conn c"
  "rc_schema (record_access h d c) = rc_schema c" "rc_hits (record_access h d c) = rc_hits c"
  "rc_misses (record_access h d c) = rc_misses c" "rc_writes (record_access h d c) = rc_writes c"
  by (simp_all add: record_access_def Let_def)

lemma touch_hit_sel [simp]:
  "rc_mode (touch_hit now entry c) = rc_mode c" "rc_schema (touch_hit now entry c) = rc_schema c"
  "rc_hits (touch_hit now entry c) = rc_hits c" "rc_misses (touch_hit now entry c) = rc_misses c"
  "rc_writes (touch_hit now entry c) = rc_writes c" "rc_access_log (touch_hit now entry c) = rc_access_log c"
  by (simp_all add: touch_hit_def)

lemma answer_hit_sel [simp]:
  "rc_mode (fst (answer_hit env now status metadata entry c)) = rc_mode c"
  "rc_schema (fst (answer_hit env now status metadata entry c)) = rc_schema c"
  "rc_conn (fst (answer_hit env now status metadata entry c)) = rc_conn (touch_hit now entry c)"
  "snd (answer_hit env now status metadata entry c) = Inr (Some (entry\<lparr>ce_hit_count := ce_hit_count entry + 1\<rparr>))"
  by (simp_all add: answer_hit_def Let_def)

lemma answer_miss_sel [simp]:
  "rc_mode (fst (answer_miss env namespace cache_key status request metadata c)) = rc_mode c"
  "rc_schema (fst (answer_miss env namespace cache_key status request metadata c)) = rc_schema c"
  "rc_conn (fst (answer_miss env namespace cache_key status request metadata c)) = rc_conn c"
  "snd (answer_miss env namespace cache_key status request metadata c) =
     (if rc_mode c = CacheReadonly then Inl (CacheMiss namespace cache_key) else Inr None)"
  by (simp_all add: answer_miss_def)

lemma get_cases:
  obtains (off) "rc_mode c = CacheOff" "get_entry_or_miss env now ns k c = (c, Inr None)"
  | (miss) status where "get_entry_or_miss env now ns k c = answer_miss env ns k status None [] c"
      "\<And>rows. rc_conn c = Some rows \<Longrightarrow> lookup_row cache_row_key rows (ns, k) = None"
  | (hit) row rows where "rc_conn c = Some rows" "lookup_row cache_row_key rows (ns, k) = Some row"
      "get_entry_or_miss env now ns k c =
         answer_hit env now ''completed'' (ce_metadata (cache_entry_from_row env (rc_schema c) row))
           (cache_entry_from_row env (rc_schema c) row) c"
  by (cases "rc_mode c = CacheOff"; cases "rc_conn c"; cases "lookup_row cache_row_key (the (rc_conn c)) (ns, k)")
    (auto simp: get_entry_or_miss_def Let_def)

lemma find_cases:
  obtains (off) "rc_mode c = CacheOff" "find_equivalent env now ns request profile c = (c, Inr None)"
  | (miss) k status where
      "find_equivalent env now ns request profile c =
         answer_miss env ns k status (Some request) (cache_access_metadata profile []) c"
      "\<And>rows. rc_conn c = Some rows \<Longrightarrow> equivalent_entry env (rc_schema c) rows ns request profile = None"
  | (hit) entry rows where "rc_conn c = Some rows" "equivalent_entry env (rc_schema c) rows ns request profile = Some entry"
      "find_equivalent env now ns request profile c =
         answer_hit env now ''equivalent'' (cache_access_metadata profile (ce_metadata entry)) entry c"
  by (cases "rc_mode c = CacheOff"; cases "rc_conn c"; cases "equivalent_entry env (rc_schema c) (the (rc_conn c)) ns request profile")
    (auto simp: find_equivalent_def)

lemma put_cases:
  assumes row_def: "row = new_cache_row (cv_hashing env) now ns k request response profile (cache_access_metadata profile metadata)"
  obtains (skip) r where "put_with_metadata env before after now ns k request response profile metadata c = (c, r)"
      "rc_mode c = CacheReadwrite \<Longrightarrow> rc_conn c = None \<or> (\<exists>e. r = Inl e)"
  | (full) rows e where "rc_mode c = CacheReadwrite" "rc_conn c = Some rows"
      "put_with_metadata env before after now ns k request response profile metadata c =
         (c\<lparr>rc_conn := Some (write_row row rows)\<rparr>, Inl e)"
  | (written) rows d where "rc_mode c = CacheReadwrite" "rc_conn c = Some rows" "cd_action d = ''write''"
      "put_with_metadata env before after now ns k request response profile metadata c =
         (record_access (cv_hashing env) d (c\<lparr>rc_conn := Some (write_row row rows), rc_writes := rc_writes c + 1\<rparr>), Inr ())"
proof (cases "rc_mode c = CacheReadwrite \<and> rc_conn c \<noteq> None")
  case False
  show thesis
    by (rule skip [of "Inr ()"]) (use False in \<open>auto simp: put_with_metadata_def split: option.split\<close>)
next
  case True
  then obtain rows where rows: "rc_mode c = CacheReadwrite" "rc_conn c = Some rows"
    by blast
  let ?before = "raise_if_cache_full before (rc_path c) (rc_max_bytes c)
     (of_nat (length (cw_request_json row) + length (cw_response_json row) + length (cw_metadata_json row)))"
  let ?after = "raise_if_cache_full after (rc_path c) (rc_max_bytes c) 0"
  have put: "put_with_metadata env before after now ns k request response profile metadata c =
     (case ?before of Inl e \<Rightarrow> (c, Inl e)
      | Inr _ \<Rightarrow> (case ?after of Inl e \<Rightarrow> (c\<lparr>rc_conn := Some (write_row row rows)\<rparr>, Inl e)
         | Inr _ \<Rightarrow> (record_access (cv_hashing env)
             \<lparr>cd_namespace = ns, cd_cache_key = k, cd_action = ''write'', cd_status = ''completed'',
              cd_request = Some request, cd_response = Some response, cd_metadata = cache_access_metadata profile metadata\<rparr>
             (c\<lparr>rc_conn := Some (write_row row rows), rc_writes := rc_writes c + 1\<rparr>), Inr ())))"
    using rows by (simp add: put_with_metadata_def Let_def row_def split: sum.split)
  show thesis
  proof (cases ?before)
    case (Inl e)
    then show thesis
      using put rows by (intro skip [of "Inl e"]) auto
  next
    case (Inr u)
    show thesis
    proof (cases ?after)
      case (Inl e)
      with put rows \<open>?before = Inr u\<close> show thesis
        by (intro full) simp_all
    next
      case (Inr u')
      with put rows \<open>?before = Inr u\<close> show thesis
        by (intro written [of rows
            "\<lparr>cd_namespace = ns, cd_cache_key = k, cd_action = ''write'', cd_status = ''completed'',
              cd_request = Some request, cd_response = Some response, cd_metadata = cache_access_metadata profile metadata\<rparr>"])
          simp_all
    qed
  qed
qed

lemma new_cache_row_sel [simp]:
  "cache_row_key (new_cache_row h now ns k request response profile metadata) = (ns, k)"
  "cw_request_json (new_cache_row h now ns k request response profile metadata) =
     stable_json h (normalize_for_cache_profile request profile)"
  "cw_response_json (new_cache_row h now ns k request response profile metadata) = stable_json h response"
  "cw_metadata_json (new_cache_row h now ns k request response profile metadata) = stable_json h (JObj metadata)"
  by (simp_all add: new_cache_row_def cache_row_key_def)

lemma lookup_write_row:
  "lookup_row cache_row_key (write_row r rows) k =
     (if k = cache_row_key r
      then Some (case lookup_row cache_row_key rows k of None \<Rightarrow> r
        | Some old \<Rightarrow> r\<lparr>cw_created_at := cw_created_at old, cw_last_accessed_at := cw_last_accessed_at old,
                         cw_hit_count := cw_hit_count old\<rparr>)
      else lookup_row cache_row_key rows k)"
  by (auto simp: write_row_def table_simps cache_row_key_def split: option.split)

lemma key_touch_row [simp]: "cache_row_key (touch_row now r) = cache_row_key r"
  by (simp add: touch_row_def cache_row_key_def)

subsection \<open>What is stored stays stored\<close>

definition stored :: "request_cache \<Rightarrow> string \<times> string \<Rightarrow> (string \<times> string \<times> string) option" where
  "stored c k = (case rc_conn c of None \<Rightarrow> None
     | Some rows \<Rightarrow> map_option (\<lambda>r. (cw_request_json r, cw_response_json r, cw_metadata_json r)) (lookup_row cache_row_key rows k))"

lemma stored_touch_hit: "stored (touch_hit now entry c) k = stored c k"
proof (cases "rc_conn c")
  case (Some rows)
  have "lookup_row cache_row_key (update_where p (touch_row now) rows) k
      = map_option (\<lambda>r. if p r then touch_row now r else r) (lookup_row cache_row_key rows k)" for p
    by (rule lookup_update_where) simp
  with Some show ?thesis
    by (cases "lookup_row cache_row_key rows k") (simp_all add: stored_def touch_hit_def touch_row_def)
qed (simp add: stored_def touch_hit_def)

lemma stored_conn: "rc_conn c' = rc_conn c \<Longrightarrow> stored c' k = stored c k"
  by (simp add: stored_def)

lemma stored_answer:
  "stored (fst (answer_hit env now status metadata entry c)) k = stored c k"
  "stored (fst (answer_miss env ns key status request metadata c)) k = stored c k"
proof -
  have "stored (fst (answer_hit env now status metadata entry c)) k = stored (touch_hit now entry c) k"
    by (rule stored_conn) simp
  then show "stored (fst (answer_hit env now status metadata entry c)) k = stored c k"
    by (simp add: stored_touch_hit)
  show "stored (fst (answer_miss env ns key status request metadata c)) k = stored c k"
    by (rule stored_conn) simp
qed

lemma stored_frame:
  assumes "\<not> writes_key k x"
  shows "stored (apply_cache_op env x c) k = stored c k"
proof (cases x)
  case (GetEntry now ns key)
  then show ?thesis
    by (cases rule: get_cases [of c env now ns key])
      (simp_all add: stored_answer)
next
  case (FindEquivalent now ns request profile)
  then show ?thesis
    by (cases rule: find_cases [of c env now ns request profile])
      (simp_all add: stored_answer)
next
  case (PutEntry before after now ns key request response profile metadata)
  with assms have k: "k \<noteq> (ns, key)"
    by auto
  show ?thesis
    by (cases rule: put_cases [OF refl, of env before after now ns key request response profile metadata c])
      (use PutEntry k in \<open>auto simp: stored_def lookup_write_row\<close>)
qed

lemma stored_frames:
  assumes "\<forall>x \<in> set ops. \<not> writes_key k x"
  shows "stored (run_cache_ops env ops c) k = stored c k"
  using assms by (intro run_cache_ops_preserves [of ops "\<lambda>c'. stored c' k = stored c k"]) (auto simp: stored_frame)

lemma mode_schema_frame:
  "rc_mode (apply_cache_op env x c) = rc_mode c \<and> rc_schema (apply_cache_op env x c) = rc_schema c \<and>
   (rc_conn c = None \<longrightarrow> rc_conn (apply_cache_op env x c) = None)"
proof (cases x)
  case (GetEntry now ns key)
  then show ?thesis
    by (cases rule: get_cases [of c env now ns key]) auto
next
  case (FindEquivalent now ns request profile)
  then show ?thesis
    by (cases rule: find_cases [of c env now ns request profile]) auto
next
  case (PutEntry before after now ns key request response profile metadata)
  then show ?thesis
    by (cases rule: put_cases [OF refl, of env before after now ns key request response profile metadata c]) auto
qed

lemma mode_schema_frames:
  "rc_mode (run_cache_ops env ops c) = rc_mode c" "rc_schema (run_cache_ops env ops c) = rc_schema c"
  using run_cache_ops_preserves [of ops "\<lambda>c'. rc_mode c' = rc_mode c \<and> rc_schema c' = rc_schema c" env c]
  by (simp_all add: mode_schema_frame)

lemma stored_put:
  assumes "rc_mode c = CacheReadwrite" "rc_conn c \<noteq> None"
    and "put_with_metadata env before after now ns k request response profile metadata c = (c', Inr ())"
  shows "stored c' (ns, k) = Some (stable_json (cv_hashing env) (normalize_for_cache_profile request profile),
      stable_json (cv_hashing env) response, stable_json (cv_hashing env) (JObj (cache_access_metadata profile metadata)))"
    "rc_mode c' = rc_mode c" "rc_schema c' = rc_schema c"
  by (cases rule: put_cases [OF refl, of env before after now ns k request response profile metadata c];
      use assms in \<open>auto simp: stored_def lookup_write_row split: option.split\<close>)+

lemma get_stored:
  assumes "rc_mode c \<noteq> CacheOff" "stored c (ns, k) = Some (request, response, metadata)"
  shows "\<exists>entry. snd (get_entry_or_miss env now ns k c) = Inr (Some entry) \<and>
     ce_request entry = unwrap_or JNull (cv_from_str env request) \<and>
     ce_response entry = unwrap_or JNull (cv_from_str env response) \<and>
     (ct_has_metadata_json (rc_schema c) \<longrightarrow>
        ce_metadata entry = (case unwrap_or (JObj []) (cv_from_str env metadata) of JObj m \<Rightarrow> m | _ \<Rightarrow> []))"
  using assms by (auto simp: stored_def get_entry_or_miss_def cache_entry_from_row_def Let_def split: option.splits)

text \<open>
  C7. A response that was put into the cache comes back unchanged: whatever happens to other keys in
  between, and however often it is looked up, an exact lookup returns the response, the normal form of
  the request, and the metadata with the name of the profile - for values that JSON text carries.
\<close>

theorem cached_response_returned:
  assumes "rc_mode c = CacheReadwrite" "rc_conn c \<noteq> None" "ct_has_metadata_json (rc_schema c)"
    and "put_with_metadata env before after now ns k request response profile metadata c = (c', Inr ())"
    and "\<forall>v \<in> {normalize_for_cache_profile request profile, response, JObj (cache_access_metadata profile metadata)}.
       cv_from_str env (stable_json (cv_hashing env) v) = Some v"
    and "\<forall>x \<in> set ops. \<not> writes_key (ns, k) x"
  shows "\<exists>entry. snd (get_entry_or_miss env later ns k (run_cache_ops env ops c')) = Inr (Some entry) \<and>
     ce_response entry = response \<and> ce_request entry = normalize_for_cache_profile request profile \<and>
     ce_metadata entry = cache_access_metadata profile metadata"
proof -
  have "stored (run_cache_ops env ops c') (ns, k) =
      Some (stable_json (cv_hashing env) (normalize_for_cache_profile request profile),
        stable_json (cv_hashing env) response, stable_json (cv_hashing env) (JObj (cache_access_metadata profile metadata)))"
    using stored_frames [OF assms(6)] stored_put(1) [OF assms(1,2,4)] by metis
  from get_stored [OF _ this, of env later] show ?thesis
    using assms(1,3,5) stored_put(2,3) [OF assms(1,2,4)] by (auto simp: mode_schema_frames)
qed


subsection \<open>Normal forms\<close>

text \<open>At every depth: a member with a secret key is redacted, and no other member is volatile.\<close>

fun clean :: "string \<Rightarrow> json \<Rightarrow> bool" and clean_members :: "string \<Rightarrow> json_map \<Rightarrow> bool"
  and clean_items :: "string \<Rightarrow> json list \<Rightarrow> bool" where
  "clean p (JObj m) \<longleftrightarrow> clean_members p m"
| "clean p (JArr xs) \<longleftrightarrow> clean_items p xs"
| "clean p _ \<longleftrightarrow> True"
| "clean_members p [] \<longleftrightarrow> True"
| "clean_members p ((k, v) # m) \<longleftrightarrow>
     (if is_secret_key (to_ascii_lowercase k) then v = redacted else \<not> is_volatile_key k p \<and> clean p v) \<and> clean_members p m"
| "clean_items p [] \<longleftrightarrow> True"
| "clean_items p (x # xs) \<longleftrightarrow> \<not> is_cache_only_event x p \<and> clean p x \<and> clean_items p xs"

lemma map_of_normalize_members:
  assumes "\<not> is_secret_key (to_ascii_lowercase k)" "\<not> is_volatile_key k p"
  shows "map_of (normalize_members p m) k = map_option (normalize_for_cache_value p) (map_of m k)"
  using assms by (induction m) auto

lemma as_str_normalize [simp]: "as_str (normalize_for_cache_value p v) = as_str v"
  by (cases v) simp_all

lemma kind_keys_kept:
  assumes "p \<in> set [''subagent_invocation'', ''gepa_workspace''] \<or> p = ''gepa_proposer''"
    and "k \<in> set [''kind'', ''type'', ''event_type'']"
  shows "\<not> is_secret_key (to_ascii_lowercase k) \<and> \<not> is_volatile_key k p"
proof -
  have "list_all (\<lambda>p. list_all (\<lambda>k. \<not> is_secret_key (to_ascii_lowercase k) \<and> \<not> is_volatile_key k p)
      [''kind'', ''type'', ''event_type'']) [''subagent_invocation'', ''gepa_workspace'', ''gepa_proposer'']"
    by code_simp
  with assms show ?thesis
    by auto
qed

lemma cache_only_normalize: "is_cache_only_event (normalize_for_cache_value p v) p = is_cache_only_event v p"
proof (cases "\<exists>m. v = JObj m \<and> p \<in> set [''subagent_invocation'', ''gepa_workspace'']")
  case True
  then obtain m where v: "v = JObj m" and p: "p \<in> set [''subagent_invocation'', ''gepa_workspace'']"
    by blast
  have keep: "map_of (normalize_members p m) k = map_option (normalize_for_cache_value p) (map_of m k)"
    if "k \<in> set [''kind'', ''type'', ''event_type'']" for k
    using kind_keys_kept [OF disjI1 [OF p] that] map_of_normalize_members by blast
  have "event_kind (normalize_members p m) = event_kind m"
    using keep [of "''kind''"] keep [of "''type''"] keep [of "''event_type''"]
    by (cases "map_of m ''kind''"; cases "map_of m ''type''"; cases "map_of m ''event_type''") (simp_all add: event_kind_def)
  with v show ?thesis
    by simp
next
  case False
  then show ?thesis
    by (cases v) auto
qed

lemma normalize_clean:
  "clean p (normalize_for_cache_value p v)"
  "clean_members p (normalize_members p m)"
  "clean_items p (normalize_items p xs)"
  by (induction p v and p m and p xs rule: normalize_for_cache_value_normalize_members_normalize_items.induct)
    (simp_all add: cache_only_normalize redacted_def)

lemma clean_normal:
  "clean p v \<Longrightarrow> normalize_for_cache_value p v = v"
  "clean_members p m \<Longrightarrow> normalize_members p m = m"
  "clean_items p xs \<Longrightarrow> normalize_items p xs = xs"
  by (induction p v and p m and p xs rule: clean_clean_members_clean_items.induct) (auto simp: redacted_def split: if_splits)


text \<open>The delivery details of a proposer request are gone after one pass.\<close>

lemma keys_normalize_members: "k \<notin> fst ` set m \<Longrightarrow> k \<notin> fst ` set (normalize_members p m)"
  by (induction m) (auto split: if_splits)

lemma obj_remove_absent: "k \<notin> fst ` set m \<Longrightarrow> obj_remove k m = m"
  by (induction m) (auto simp: obj_remove_def)

lemma keys_obj_remove: "fst ` set (obj_remove k m) = fst ` set m - {k}"
  by (auto simp: obj_remove_def)

lemma normalize_items_proposer: "normalize_items ''gepa_proposer'' xs = map (normalize_for_cache_value ''gepa_proposer'') xs"
proof (induction xs)
  case (Cons x xs)
  have "\<not> is_cache_only_event x ''gepa_proposer''"
    by (cases x) simp_all
  with Cons show ?case
    by simp
qed simp

definition delivered :: "string \<Rightarrow> json \<Rightarrow> bool" where
  "delivered key x \<longleftrightarrow> json_get x ''path'' = None \<and>
     (key = ''merge_evidence_artifacts'' \<longrightarrow> Option.bind (json_get x ''kind'') as_str \<noteq> Some ''workspace_sqlite'')"

lemma strip_reference_normal: "delivered key x \<Longrightarrow> strip_reference x = x"
proof (cases x)
  case (JObj m)
  then show "delivered key x \<Longrightarrow> strip_reference x = x"
    using obj_remove_absent [of "''path''" m] by (simp add: delivered_def map_of_eq_None_iff)
qed (simp_all add: delivered_def)

lemma json_get_strip_reference: "json_get (strip_reference x) ''kind'' = json_get x ''kind''"
proof (cases x)
  case (JObj m)
  have "map_of (filter (\<lambda>(k, _). k \<noteq> ''path'') m) ''kind'' = map_of m ''kind''"
    by (induction m) auto
  with JObj show ?thesis
    by (simp add: obj_remove_def)
qed simp_all

lemma delivered_item:
  assumes "key = ''merge_evidence_artifacts'' \<Longrightarrow> Option.bind (json_get x ''kind'') as_str \<noteq> Some ''workspace_sqlite''"
  shows "delivered key (normalize_for_cache_value ''gepa_proposer'' (strip_reference x))"
proof (cases x)
  case (JObj m)
  have "map_of (normalize_members ''gepa_proposer'' (obj_remove ''path'' m)) ''path'' = None"
    using keys_normalize_members [of "''path''" "obj_remove ''path'' m"] by (simp add: keys_obj_remove map_of_eq_None_iff)
  moreover have "Option.bind (map_of (normalize_members ''gepa_proposer'' (obj_remove ''path'' m)) ''kind'') as_str
      = Option.bind (map_of m ''kind'') as_str"
    using map_of_normalize_members [of "''kind''" "''gepa_proposer''" "obj_remove ''path'' m"]
      kind_keys_kept [of "''gepa_proposer''" "''kind''"] json_get_strip_reference [of x] JObj
    by (cases "map_of m ''kind''") simp_all
  ultimately show ?thesis
    using assms JObj by (simp add: delivered_def)
qed (simp_all add: delivered_def)

lemma strip_refs_delivered: "\<forall>x \<in> set xs. delivered key x \<Longrightarrow> strip_refs key (JArr xs) = JArr xs"
  by (auto simp: delivered_def filter_id_conv intro!: map_idI strip_reference_normal)

lemma strip_refs_normal:
  "strip_refs key (normalize_for_cache_value ''gepa_proposer'' (strip_refs key v)) =
     normalize_for_cache_value ''gepa_proposer'' (strip_refs key v)"
proof (cases v)
  case (JArr xs)
  have "\<forall>x \<in> set (map (normalize_for_cache_value ''gepa_proposer'') (map strip_reference
      (if key = ''merge_evidence_artifacts''
       then filter (\<lambda>item. Option.bind (json_get item ''kind'') as_str \<noteq> Some ''workspace_sqlite'') xs else xs))). delivered key x"
    by (auto intro!: delivered_item)
  from strip_refs_delivered [OF this] JArr show ?thesis
    by (simp add: normalize_items_proposer)
qed simp_all

lemma strip_proposer_normal:
  "strip_proposer_delivery (normalize_for_cache_value ''gepa_proposer'' (strip_proposer_delivery v)) =
     normalize_for_cache_value ''gepa_proposer'' (strip_proposer_delivery v)"
proof (cases v)
  case (JObj m)
  define m' where "m' = map strip_member (obj_remove ''proposal_artifact_dir'' (obj_remove ''run_artifact_dir'' m))"
  have keys: "fst ` set m' = fst ` set m - {''run_artifact_dir'', ''proposal_artifact_dir''}"
  proof -
    have "map fst m' = map fst (obj_remove ''proposal_artifact_dir'' (obj_remove ''run_artifact_dir'' m))"
      by (auto simp: m'_def strip_member_def)
    then have "fst ` set m' = fst ` set (obj_remove ''proposal_artifact_dir'' (obj_remove ''run_artifact_dir'' m))"
      by (metis set_map)
    then show ?thesis
      by (auto simp: keys_obj_remove)
  qed
  have members: "map strip_member (normalize_members ''gepa_proposer'' xs) = normalize_members ''gepa_proposer'' xs"
    if "xs = map strip_member ys" for xs ys
    using that
  proof (induction ys arbitrary: xs)
    case (Cons y ys)
    obtain k x where y: "y = (k, x)"
      by (cases y)
    have "strip_refs k redacted = redacted"
      by (simp add: redacted_def)
    with Cons y show ?case
      by (auto simp: strip_member_def strip_refs_normal)
  qed simp
  have "strip_proposer_delivery (normalize_for_cache_value ''gepa_proposer'' (JObj m')) =
      normalize_for_cache_value ''gepa_proposer'' (JObj m')"
    using members [of m'] keys keys_normalize_members [of _ m' "''gepa_proposer''"]
    by (simp add: m'_def obj_remove_absent)
  then show ?thesis
    by (simp add: JObj m'_def)
qed simp_all

definition identity_profile :: "string \<Rightarrow> string" where
  "identity_profile profile = (if profile = ''gepa_proposer'' then profile else normalized_profile profile)"

lemma normal_form_clean: "clean (identity_profile profile) (normalize_for_cache_profile v profile)"
  by (simp add: normalize_for_cache_profile_def identity_profile_def normalize_clean)

lemma normal_form_idem:
  "normalize_for_cache_profile (normalize_for_cache_profile v profile) profile = normalize_for_cache_profile v profile"
  by (simp add: normalize_for_cache_profile_def strip_proposer_normal clean_normal(1) normalize_clean(1))


text \<open>
  C9. A request that was put into the cache is found again under every request that is the same up to
  volatile members, secrets and delivery details: after any other traffic that leaves the key alone, a lookup
  of an equivalent request hits, and what it returns is equivalent too.
\<close>

theorem equivalent_request_hits:
  assumes "rc_mode c = CacheReadwrite" "rc_conn c \<noteq> None"
    and "put_with_metadata env before after now ns k request response profile metadata c = (c', Inr ())"
    and "cv_from_str env (stable_json (cv_hashing env) (normalize_for_cache_profile request profile))
       = Some (normalize_for_cache_profile request profile)"
    and "\<forall>x \<in> set ops. \<not> writes_key (ns, k) x"
    and "normalize_for_cache_profile request' profile = normalize_for_cache_profile request profile"
  shows "\<exists>entry. snd (find_equivalent env later ns request' profile (run_cache_ops env ops c')) = Inr (Some entry) \<and>
     ce_namespace entry = ns \<and>
     normalize_for_cache_profile (ce_request entry) profile = normalize_for_cache_profile request' profile"
proof -
  let ?c = "run_cache_ops env ops c'"
  have "stored ?c (ns, k) = Some (stable_json (cv_hashing env) (normalize_for_cache_profile request profile),
        stable_json (cv_hashing env) response, stable_json (cv_hashing env) (JObj (cache_access_metadata profile metadata)))"
    using stored_frames [OF assms(5)] stored_put(1) [OF assms(1-3)] by metis
  then obtain rows row where rows: "rc_conn ?c = Some rows" "lookup_row cache_row_key rows (ns, k) = Some row"
    "cw_request_json row = stable_json (cv_hashing env) (normalize_for_cache_profile request profile)"
    by (auto simp: stored_def split: option.splits)
  from lookup_row_SomeD [OF rows(2)] have row: "row \<in> set rows" "cw_namespace row = ns"
    by (simp_all add: cache_row_key_def)
  let ?entries = "map (cache_entry_from_row env (rc_schema ?c))
      (newest_first (rc_schema ?c) (filter (\<lambda>r. cw_namespace r = ns) rows))"
  have "ce_request (cache_entry_from_row env (rc_schema ?c) row) = normalize_for_cache_profile request profile"
    using rows(3) assms(4) by (simp add: cache_entry_from_row_def Let_def)
  moreover have "cache_entry_from_row env (rc_schema ?c) row \<in> set ?entries"
    using row by (auto simp: newest_first_def)
  ultimately have "equivalent_entry env (rc_schema ?c) rows ns request' profile \<noteq> None"
    unfolding equivalent_entry_def find_None_iff assms(6) by (metis normal_form_idem)
  then obtain entry where entry: "equivalent_entry env (rc_schema ?c) rows ns request' profile = Some entry"
    by blast
  then have "entry \<in> set ?entries" "normalize_for_cache_profile (ce_request entry) profile = normalize_for_cache_profile request' profile"
    by (auto simp: equivalent_entry_def find_Some_iff)
  moreover from this(1) have "ce_namespace entry = ns"
    by (auto simp: newest_first_def cache_entry_from_row_def Let_def)
  moreover have "rc_mode ?c \<noteq> CacheOff"
    using assms(1) stored_put(2) [OF assms(1-3)] by (simp add: mode_schema_frames)
  ultimately show ?thesis
    using entry rows(1) by (simp add: find_equivalent_def)
qed

subsection \<open>Secrets\<close>

lemma opened_cache:
  assumes "open_with_max_bytes before after existing path mode max_bytes = Inr c"
  obtains db where "c = request_cache_new path mode max_bytes db"
    "existing = None \<Longrightarrow> db = None \<or> db = Some (initialize_request_cache_schema None)"
proof (cases "mode = CacheReadwrite")
  case True
  then have "c = request_cache_new path mode max_bytes (Some (initialize_request_cache_schema existing))"
    using assms
    by (cases "raise_if_cache_full before path max_bytes 0"; cases "raise_if_cache_full after path max_bytes 0")
      (simp_all add: open_with_max_bytes_def)
  then show thesis
    using that by blast
next
  case False
  then have "c = request_cache_new path mode max_bytes (if mode = CacheOff then None else existing)"
    using assms by (cases mode) (simp_all add: open_with_max_bytes_def)
  then show thesis
    using that by (metis (full_types))
qed

definition redacted_rows :: "cache_env \<Rightarrow> request_cache \<Rightarrow> bool" where
  "redacted_rows env c \<longleftrightarrow> (case rc_conn c of None \<Rightarrow> True
     | Some rows \<Rightarrow> \<forall>r \<in> set rows. \<exists>p v. cw_request_json r = stable_json (cv_hashing env) v \<and> clean p v)"

lemma redacted_rows_answer:
  assumes "redacted_rows env c"
  shows "redacted_rows env (fst (answer_hit env now status metadata entry c))"
    "redacted_rows env (fst (answer_miss env ns key status request metadata c))"
proof -
  have "redacted_rows env (touch_hit now entry c)"
    using assms by (cases "rc_conn c") (auto simp: redacted_rows_def touch_hit_def touch_row_def dest!: mem_update_whereD)
  then show "redacted_rows env (fst (answer_hit env now status metadata entry c))"
    by (simp add: redacted_rows_def)
  show "redacted_rows env (fst (answer_miss env ns key status request metadata c))"
    using assms by (simp add: redacted_rows_def)
qed

lemma redacted_rows_write:
  assumes "\<forall>r \<in> set rows. \<exists>p v. cw_request_json r = stable_json h v \<and> clean p v"
    and "cw_request_json row = stable_json h (normalize_for_cache_profile request profile)"
  shows "\<forall>r \<in> set (write_row row rows). \<exists>p v. cw_request_json r = stable_json h v \<and> clean p v"
proof
  fix r
  assume "r \<in> set (write_row row rows)"
  then have "r \<in> set rows \<or> cw_request_json r = cw_request_json row"
    using set_upsert_subset unfolding write_row_def by (fastforce split: option.splits)
  with assms show "\<exists>p v. cw_request_json r = stable_json h v \<and> clean p v"
    using normal_form_clean by metis
qed

lemma redacted_rows_apply:
  assumes "redacted_rows env c"
  shows "redacted_rows env (apply_cache_op env x c)"
proof (cases x)
  case (GetEntry now ns key)
  then show ?thesis
    using assms by (cases rule: get_cases [of c env now ns key]) (simp_all add: redacted_rows_answer)
next
  case (FindEquivalent now ns request profile)
  then show ?thesis
    using assms by (cases rule: find_cases [of c env now ns request profile]) (simp_all add: redacted_rows_answer)
next
  case (PutEntry before after now ns key request response profile metadata)
  show ?thesis
    by (cases rule: put_cases [OF refl, of env before after now ns key request response profile metadata c])
      (use assms PutEntry redacted_rows_write [OF _ new_cache_row_sel(2)] in \<open>simp_all add: redacted_rows_def\<close>)
qed



subsection \<open>Accounting\<close>

definition accesses :: "string \<Rightarrow> request_cache \<Rightarrow> nat" where
  "accesses action c = length (filter (\<lambda>x. cx_action x = action) (rc_access_log c))"

definition numbered :: "request_cache \<Rightarrow> bool" where
  "numbered c \<longleftrightarrow> map cx_sequence_number (rc_access_log c) = map of_nat [1..<Suc (length (rc_access_log c))]"

definition accounted :: "request_cache \<Rightarrow> bool" where
  "accounted c \<longleftrightarrow> rc_hits c = of_nat (accesses ''hit'' c) \<and> rc_misses c = of_nat (accesses ''miss'' c) \<and>
     rc_writes c = of_nat (accesses ''write'' c) \<and> numbered c"

lemma accesses_record [simp]:
  "accesses action (record_access h d c) = accesses action c + (if cd_action d = action then 1 else 0)"
  by (simp add: accesses_def record_access_def cache_access_record_new_def Let_def)

lemma log_cong:
  assumes "rc_access_log c' = rc_access_log c"
  shows "accesses action c' = accesses action c" "numbered c' \<longleftrightarrow> numbered c"
  using assms by (simp_all add: accesses_def numbered_def)

lemma numbered_record: "numbered c \<Longrightarrow> numbered (record_access h d c)"
  by (simp add: numbered_def record_access_def cache_access_record_new_def Let_def)

lemma accounted_record:
  assumes "accounted c" "rc_access_log c' = rc_access_log c"
    and "rc_hits c' = rc_hits c + (if cd_action d = ''hit'' then 1 else 0)"
    and "rc_misses c' = rc_misses c + (if cd_action d = ''miss'' then 1 else 0)"
    and "rc_writes c' = rc_writes c + (if cd_action d = ''write'' then 1 else 0)"
  shows "accounted (record_access h d c')"
  using assms log_cong [OF assms(2)] numbered_record [of c'] by (auto simp: accounted_def)

lemma accounted_answer:
  assumes "accounted c"
  shows "accounted (fst (answer_hit env now status metadata entry c))"
    "accounted (fst (answer_miss env ns key status request metadata c))"
  using accounted_record [OF assms] by (simp_all add: answer_hit_def answer_miss_def Let_def)

lemma accounted_apply:
  assumes "accounted c"
  shows "accounted (apply_cache_op env x c)"
proof (cases x)
  case (GetEntry now ns key)
  then show ?thesis
    using assms by (cases rule: get_cases [of c env now ns key]) (simp_all add: accounted_answer)
next
  case (FindEquivalent now ns request profile)
  then show ?thesis
    using assms by (cases rule: find_cases [of c env now ns request profile]) (simp_all add: accounted_answer)
next
  case (PutEntry before after now ns key request response profile metadata)
  have keep: "accounted (c\<lparr>rc_conn := x\<rparr>)" for x
    using assms log_cong [of "c\<lparr>rc_conn := x\<rparr>" c] by (simp add: accounted_def)
  show ?thesis
    by (cases rule: put_cases [OF refl, of env before after now ns key request response profile metadata c])
      (use assms PutEntry keep in \<open>auto intro: accounted_record [OF assms]\<close>)
qed

text \<open>
  The cache's counters are the numbers of its logged accesses: after any operations, hits, misses and
  writes are the records with these actions, and the records are numbered from one.
\<close>

theorem cache_counts_accesses:
  assumes "open_with_max_bytes before after existing path mode max_bytes = Inr c"
  shows "let c = run_cache_ops env ops c; n = \<lambda>action. length (filter (\<lambda>x. cx_action x = action) (rc_access_log c)) in
     rc_hits c = of_nat (n ''hit'') \<and> rc_misses c = of_nat (n ''miss'') \<and> rc_writes c = of_nat (n ''write'') \<and>
     map cx_sequence_number (rc_access_log c) = map of_nat [1..<Suc (length (rc_access_log c))]"
proof -
  obtain db where "c = request_cache_new path mode max_bytes db"
    by (rule opened_cache [OF assms])
  then have "accounted c"
    by (simp add: request_cache_new_def accounted_def accesses_def numbered_def)
  then have "accounted (run_cache_ops env ops c)"
    using run_cache_ops_preserves [of ops accounted] accounted_apply by blast
  then show ?thesis
    by (simp add: accounted_def accesses_def numbered_def Let_def)
qed

subsection \<open>Read-only caches\<close>

lemma readonly_conn_frame:
  assumes "rc_mode c = CacheReadonly"
  shows "rc_conn (apply_cache_op env x c) = rc_conn c"
proof (cases x)
  case (GetEntry now ns key)
  then show ?thesis
    using assms by (cases rule: get_cases [of c env now ns key]) (simp_all add: touch_hit_def)
next
  case (FindEquivalent now ns request profile)
  then show ?thesis
    using assms by (cases rule: find_cases [of c env now ns request profile]) (simp_all add: touch_hit_def)
next
  case (PutEntry before after now ns key request response profile metadata)
  with assms show ?thesis
    by (simp add: put_with_metadata_def)
qed

text \<open>
  A read-only cache replays: no operation changes its table, writes succeed without effect, and an exact
  lookup answers with the row that was there when the cache was opened or fails with a cache miss that
  names the namespace and the key.
\<close>

theorem readonly_cache_replays:
  assumes "open_with_max_bytes before after existing path CacheReadonly max_bytes = Inr c"
  shows "rc_conn (run_cache_ops env ops c) = map_option snd existing \<and>
     snd (put_with_metadata env b a now ns k request response profile metadata (run_cache_ops env ops c)) = Inr () \<and>
     snd (get_or_miss env now ns k (run_cache_ops env ops c)) =
       (case Option.bind (map_option snd existing) (\<lambda>rows. lookup_row cache_row_key rows (ns, k)) of
          None \<Rightarrow> Inl (CacheMiss ns k)
        | Some row \<Rightarrow> Inr (Some (unwrap_or JNull (cv_from_str env (cw_response_json row)))))"
proof -
  have c: "rc_mode c = CacheReadonly" "rc_conn c = map_option snd existing"
    using assms by (simp_all add: open_with_max_bytes_def request_cache_new_def) auto
  have "rc_mode (run_cache_ops env ops c) = CacheReadonly \<and> rc_conn (run_cache_ops env ops c) = map_option snd existing"
    using c mode_schema_frame
    by (intro run_cache_ops_preserves [of ops "\<lambda>c. rc_mode c = CacheReadonly \<and> rc_conn c = map_option snd existing"])
      (simp_all add: readonly_conn_frame)
  then have r: "rc_mode (run_cache_ops env ops c) = CacheReadonly" "rc_conn (run_cache_ops env ops c) = map_option snd existing"
    by simp_all
  then show ?thesis
    by (cases existing)
      (auto simp: put_with_metadata_def get_or_miss_def get_entry_or_miss_def Let_def cache_entry_from_row_def
        split: option.split)
qed


subsection \<open>A cache in use\<close>

definition sample_request :: json where
  "sample_request = JObj [(''authorization'', JStr ''abc''), (''prompt'', JStr ''hi''), (''run_id'', JStr ''r1'')]"

definition sample_other_request :: json where
  "sample_other_request = JObj [(''authorization'', JStr ''xyz''), (''prompt'', JStr ''hi'')]"

text \<open>Texts for the three values that are written: the normal form of the request, the response and the metadata.\<close>

definition sample_cache_env :: cache_env where
  "sample_cache_env =
     (let request = JObj [(''authorization'', redacted), (''prompt'', JStr ''hi'')];
          metadata = JObj [(''cache_profile'', JStr ''generic'')]
      in \<lparr>cv_hashing = \<lparr>to_json_string = (\<lambda>v. if v = request then ''1'' else if v = metadata then ''2'' else ''3''),
                        sha256_hex = (\<lambda>text. text)\<rparr>,
          cv_from_str = (\<lambda>text. Some (if text = ''1'' then request else if text = ''2'' then metadata else JStr ''ok''))\<rparr>)"

definition no_files :: file_sizes where
  "no_files = (\<lambda>_. Inr 0)"

definition sample_cache :: request_cache where
  "sample_cache = request_cache_new ''cache.db'' CacheReadwrite 0 (Some (initialize_request_cache_schema None))"

definition sample_put :: "request_cache \<times> unit result" where
  "sample_put = put_with_metadata sample_cache_env no_files no_files f64_zero ''ns'' ''k'' sample_request (JStr ''ok'')
     ''generic'' [] sample_cache"

definition sample_traffic :: "cache_op list" where
  "sample_traffic =
     [GetEntry f64_zero ''ns'' ''k'', PutEntry no_files no_files f64_zero ''ns'' ''other'' JNull JNull ''generic'' [],
      FindEquivalent f64_zero ''ns'' JNull ''generic'']"

lemma sample_put_ok:
  "put_with_metadata sample_cache_env no_files no_files f64_zero ''ns'' ''k'' sample_request (JStr ''ok'') ''generic'' []
     sample_cache = (fst sample_put, Inr ())"
proof -
  have "snd sample_put = Inr ()"
    by code_simp
  then show ?thesis
    by (cases sample_put) (simp add: sample_put_def)
qed

lemma sample_cache_opened:
  "open_with_max_bytes no_files no_files None ''cache.db'' CacheReadwrite 0 = Inr sample_cache"
  by (simp add: open_with_max_bytes_def sample_cache_def raise_if_cache_full_def)

lemma sample_cache_sel:
  "rc_mode sample_cache = CacheReadwrite" "rc_conn sample_cache \<noteq> None" "ct_has_metadata_json (rc_schema sample_cache)"
  by (simp_all add: sample_cache_def request_cache_new_def initialize_request_cache_schema_def)

lemma sample_texts:
  "\<forall>v \<in> {normalize_for_cache_profile sample_request ''generic'', JStr ''ok'', JObj (cache_access_metadata ''generic'' [])}.
     cv_from_str sample_cache_env (stable_json (cv_hashing sample_cache_env) v) = Some v"
proof -
  have "cv_from_str sample_cache_env (stable_json (cv_hashing sample_cache_env) (normalize_for_cache_profile sample_request ''generic''))
      = Some (normalize_for_cache_profile sample_request ''generic'')"
    by code_simp
  moreover have "cv_from_str sample_cache_env (stable_json (cv_hashing sample_cache_env) (JStr ''ok'')) = Some (JStr ''ok'')"
    by code_simp
  moreover have "cv_from_str sample_cache_env (stable_json (cv_hashing sample_cache_env) (JObj (cache_access_metadata ''generic'' [])))
      = Some (JObj (cache_access_metadata ''generic'' []))"
    by code_simp
  ultimately show ?thesis
    by blast
qed

lemma sample_traffic_keeps: "\<forall>x \<in> set sample_traffic. \<not> writes_key (''ns'', ''k'') x"
  by (simp add: sample_traffic_def)

theorem cached_response_returned_witness:
  "\<exists>entry. snd (get_entry_or_miss sample_cache_env f64_zero ''ns'' ''k''
       (run_cache_ops sample_cache_env sample_traffic (fst sample_put))) = Inr (Some entry) \<and> ce_response entry = JStr ''ok''"
  using cached_response_returned [OF sample_cache_sel sample_put_ok sample_texts sample_traffic_keeps] by blast

theorem equivalent_request_hits_witness:
  "\<exists>entry. snd (find_equivalent sample_cache_env f64_zero ''ns'' sample_other_request ''generic''
       (run_cache_ops sample_cache_env sample_traffic (fst sample_put))) = Inr (Some entry) \<and> ce_namespace entry = ''ns''"
proof -
  have "normalize_for_cache_profile sample_other_request ''generic'' = normalize_for_cache_profile sample_request ''generic''"
    by code_simp
  from equivalent_request_hits [OF sample_cache_sel(1,2) sample_put_ok _ sample_traffic_keeps this, of f64_zero]
  show ?thesis
    using sample_texts by blast
qed


theorem cache_counts_accesses_witness:
  "rc_hits (run_cache_ops sample_cache_env sample_traffic sample_cache) =
     of_nat (length (filter (\<lambda>x. cx_action x = ''hit'') (rc_access_log (run_cache_ops sample_cache_env sample_traffic sample_cache))))"
  using cache_counts_accesses [OF sample_cache_opened, of sample_cache_env sample_traffic] by (simp only: Let_def)

theorem readonly_cache_replays_witness:
  "snd (get_or_miss sample_cache_env f64_zero ''ns'' ''k''
     (run_cache_ops sample_cache_env sample_traffic (request_cache_new ''cache.db'' CacheReadonly 0 None))) =
   Inl (CacheMiss ''ns'' ''k'')"
proof -
  have "open_with_max_bytes no_files no_files None ''cache.db'' CacheReadonly 0 = Inr (request_cache_new ''cache.db'' CacheReadonly 0 None)"
    by (simp add: open_with_max_bytes_def)
  from readonly_cache_replays [OF this, of sample_cache_env sample_traffic no_files no_files f64_zero "''ns''" "''k''"]
  show ?thesis
    by simp
qed

end
