(* ===== verification/Candidate_Identities.thy ===== *)
theory Candidate_Identities
  imports Usage_Stoppers Rollout_Planning
begin

text \<open>
  \<open>identities.rs\<close>: which candidate a run selected on its training rows, which was best on the held-out
  rows and which one is deployed; with the verdict and the reconciliation that the result reports, and
  (\<open>lib.rs\<close>, \<open>planner.rs\<close>) the settling of the identities and their way through a checkpoint.

  Of the cursor, \<open>identity_cursor\<close> has the members that hold identities.
\<close>

subsection \<open>identities.rs\<close>

record candidate_identity_set =
  is_optimization_selected_idx :: "nat option"
  is_heldout_best_idx :: "nat option"
  is_deployment_idx :: "nat option"
  is_deployment_rule :: string

record gepa_candidate_identity =
  gi_id :: string
  gi_score :: "f64 option"
  gi_split :: string

record gepa_heldout_measurement =
  gm_id :: string
  gm_score :: "f64 option"

record gepa_reconciliation_status =
  gs_status :: string
  gs_authorities :: json

definition candidate_identity_set_default :: candidate_identity_set where
  "candidate_identity_set_default =
     \<lparr>is_optimization_selected_idx = None, is_heldout_best_idx = None, is_deployment_idx = None,
      is_deployment_rule = ''optimization_selected''\<rparr>"

definition freeze_optimization_selected :: "nat option \<Rightarrow> candidate_identity_set \<Rightarrow> candidate_identity_set" where
  "freeze_optimization_selected train_best_idx s =
     (if is_optimization_selected_idx s = None then s\<lparr>is_optimization_selected_idx := train_best_idx\<rparr> else s)"

definition record_heldout_best :: "nat option \<Rightarrow> candidate_identity_set \<Rightarrow> candidate_identity_set" where
  "record_heldout_best heldout_best_idx s = s\<lparr>is_heldout_best_idx := heldout_best_idx\<rparr>"

definition normalize_deployment_rule :: "string \<Rightarrow> string" where
  "normalize_deployment_rule rule =
     (if normalize_enum_value rule \<in> set [''heldout_best'', ''heldout'', ''heldout_winner'']
      then ''heldout_best'' else ''optimization_selected'')"

definition resolve_deployment_idx :: "string \<Rightarrow> nat option \<Rightarrow> nat option \<Rightarrow> nat option \<times> string" where
  "resolve_deployment_idx rule optimization_selected_idx heldout_best_idx =
     (let rule = normalize_deployment_rule rule;
          idx = (if rule = ''heldout_best'' then or_else heldout_best_idx optimization_selected_idx
                 else or_else optimization_selected_idx heldout_best_idx)
      in (idx, rule))"

definition apply_deployment_rule :: "string \<Rightarrow> candidate_identity_set \<Rightarrow> candidate_identity_set" where
  "apply_deployment_rule rule s =
     (case resolve_deployment_idx rule (is_optimization_selected_idx s) (is_heldout_best_idx s) of
        (idx, resolved_rule) \<Rightarrow> s\<lparr>is_deployment_idx := idx, is_deployment_rule := resolved_rule\<rparr>)"

definition best_idx_alias :: "candidate_identity_set \<Rightarrow> nat option" where
  "best_idx_alias s =
     or_else (or_else (is_deployment_idx s) (is_optimization_selected_idx s)) (is_heldout_best_idx s)"

text \<open>\<open>slice::get\<close>.\<close>

definition nth_opt :: "'a list \<Rightarrow> nat \<Rightarrow> 'a option" where
  "nth_opt xs i = (if i < length xs then Some (xs ! i) else None)"

definition candidate_identity ::
  "candidate_record list \<Rightarrow> nat option \<Rightarrow> string \<Rightarrow> (candidate_record \<Rightarrow> f64 option) \<Rightarrow> gepa_candidate_identity option" where
  "candidate_identity candidates idx split score =
     map_option (\<lambda>c. \<lparr>gi_id = ca_candidate_id c, gi_score = score c, gi_split = split\<rparr>)
       (Option.bind idx (nth_opt candidates))"

definition heldout_measurements :: "candidate_record list \<Rightarrow> gepa_heldout_measurement list" where
  "heldout_measurements candidates =
     map (\<lambda>c. \<lparr>gm_id = ca_candidate_id c, gm_score = ca_heldout_reward c\<rparr>)
       (filter (\<lambda>c. ca_heldout_reward c \<noteq> None) candidates)"

definition seed_train_reward :: "candidate_record list \<Rightarrow> f64 option" where
  "seed_train_reward candidates =
     or_else (Option.bind (find (\<lambda>c. ca_source c = ''seed'') candidates) ca_train_reward)
       (Option.bind (nth_opt candidates 0) ca_train_reward)"

definition improvement_verdict :: "f64 option \<Rightarrow> f64 option \<Rightarrow> string" where
  "improvement_verdict seed_train selected_train =
     (case (seed_train, selected_train) of
        (Some seed, Some selected) \<Rightarrow>
          if f64_lt seed selected then ''improvement_demonstrated'' else ''no_measured_improvement''
      | (None, Some _) \<Rightarrow> ''inconclusive''
      | _ \<Rightarrow> ''no_measured_improvement'')"

definition reconciliation_status ::
  "usize \<Rightarrow> u64 option \<Rightarrow> f64 option \<Rightarrow> f64 option \<Rightarrow> gepa_reconciliation_status" where
  "reconciliation_status run_rollouts ledger_rollouts reported_cost ledger_cost =
     (let authorities = obj_of
            [(''run_state'', JObj (obj_of [(''rollouts'', json_u64 run_rollouts), (''cost_usd'', json_f64_opt reported_cost)])),
             (''usage_ledger'', JObj (obj_of
                [(''rollouts'', case ledger_rollouts of None \<Rightarrow> JNull | Some n \<Rightarrow> json_u64 n), (''cost_usd'', json_f64_opt ledger_cost)]))];
          rollout_divergent = (case ledger_rollouts of None \<Rightarrow> False | Some n \<Rightarrow> n \<noteq> run_rollouts);
          cost_divergent = (case (reported_cost, ledger_cost) of
              (Some left, Some right) \<Rightarrow> f64_lt (f64_lit (1 / 1000000000)) (f64_abs (f64_sub left right))
            | _ \<Rightarrow> False);
          incomplete = (reported_cost = None \<or> ledger_cost = None \<or> ledger_rollouts = None)
      in \<lparr>gs_status = (if rollout_divergent \<or> cost_divergent then ''divergent''
                       else if incomplete then ''incomplete'' else ''aligned''),
          gs_authorities = JObj authorities\<rparr>)"

definition scored_id_members :: "string \<Rightarrow> f64 option \<Rightarrow> (string \<times> json) list" where
  "scored_id_members cid score =
     (''id'', JStr cid) # (case score of None \<Rightarrow> [] | Some x \<Rightarrow> [(''score'', json_f64 x)])"

definition candidate_identity_json :: "gepa_candidate_identity option \<Rightarrow> json" where
  "candidate_identity_json i =
     (case i of None \<Rightarrow> JNull
      | Some i \<Rightarrow> JObj (obj_of (scored_id_members (gi_id i) (gi_score i) @ [(''split'', JStr (gi_split i))])))"

definition selection_authority_value ::
  "candidate_record list \<Rightarrow> candidate_identity_set \<Rightarrow> usize \<Rightarrow> u64 option \<Rightarrow> f64 option \<Rightarrow> f64 option \<Rightarrow> json" where
  "selection_authority_value candidates identities rollout_count ledger_rollout_count reported_cost ledger_cost =
     (let optimization_selected =
            candidate_identity candidates (is_optimization_selected_idx identities) ''train'' ca_train_reward;
          heldout_best = candidate_identity candidates (is_heldout_best_idx identities) ''heldout'' ca_heldout_reward;
          deployment_id = map_option ca_candidate_id (Option.bind (is_deployment_idx identities) (nth_opt candidates));
          selected_train = Option.bind optimization_selected gi_score;
          status = reconciliation_status rollout_count ledger_rollout_count reported_cost ledger_cost
      in JObj (obj_of
        [(''optimization_selected_candidate'', candidate_identity_json optimization_selected),
         (''heldout_measurements_by_candidate'',
            JArr (map (\<lambda>m. JObj (obj_of (scored_id_members (gm_id m) (gm_score m)))) (heldout_measurements candidates))),
         (''heldout_best_candidate'', candidate_identity_json heldout_best),
         (''deployment_candidate'',
            case deployment_id of None \<Rightarrow> JNull
            | Some cid \<Rightarrow> JObj (obj_of [(''id'', JStr cid), (''rule'', JStr (is_deployment_rule identities))])),
         (''improvement_verdict'', JStr (improvement_verdict (seed_train_reward candidates) selected_train)),
         (''rollout_count_authority'',
            JObj (obj_of [(''source'', JStr ''run_state''), (''value'', json_u64 rollout_count)])),
         (''cost_authority'',
            JObj (obj_of [(''source'', JStr (if reported_cost \<noteq> None then ''manifest'' else ''incomplete'')),
                          (''value'', json_f64_opt reported_cost)])),
         (''reconciliation_status'',
            JObj (obj_of [(''status'', JStr (gs_status status)), (''authorities'', gs_authorities status)]))]))"

definition idx_for_candidate_id :: "candidate_record list \<Rightarrow> string option \<Rightarrow> nat option" where
  "idx_for_candidate_id candidates candidate_id =
     Option.bind candidate_id (\<lambda>cid. find_index (\<lambda>c. ca_candidate_id c = cid) candidates)"

subsection \<open>Settling and checkpoints\<close>

definition settle_run_identities :: "gepa_config \<Rightarrow> candidate_identity_set \<times> nat option \<Rightarrow> candidate_identity_set \<times> nat option" where
  "settle_run_identities g = (\<lambda>(identities, best_idx).
     (let identities = apply_deployment_rule (gc_deployment_rule g) (freeze_optimization_selected best_idx identities)
      in (identities, or_else (best_idx_alias identities) best_idx)))"

definition ledger_rollout_and_cost :: "usage_ledger_record list \<Rightarrow> u64 option \<times> f64 option" where
  "ledger_rollout_and_cost ledger =
     (if ledger = [] then (None, None) else (Some (of_nat (length ledger)), reported_cost_from_usage_ledger ledger))"

datatype gepa_cursor_phase =
    PhInitializing | PhSeedFullTrain | PhGenerationStart | PhProposerWaiting | PhCandidateMinibatch
  | PhCandidateFullTrain | PhHeldout | PhFinalizing | PhPaused | PhCompleted | PhFailed | PhCancelled

record identity_cursor =
  cu_phase :: gepa_cursor_phase
  cu_best_candidate_id :: "string option"
  cu_optimization_selected_candidate_id :: "string option"
  cu_heldout_best_candidate_id :: "string option"
  cu_deployment_candidate_id :: "string option"
  cu_deployment_rule :: "string option"

definition candidate_id_at :: "candidate_record list \<Rightarrow> nat option \<Rightarrow> string option" where
  "candidate_id_at candidates idx = map_option ca_candidate_id (Option.bind idx (nth_opt candidates))"

text \<open>The identities in a saved cursor, and how they are read from one.\<close>

definition save_identities ::
  "gepa_cursor_phase \<Rightarrow> candidate_record list \<Rightarrow> candidate_identity_set \<times> nat option \<Rightarrow> identity_cursor" where
  "save_identities phase candidates = (\<lambda>(identities, best_idx).
     \<lparr>cu_phase = phase, cu_best_candidate_id = candidate_id_at candidates best_idx,
      cu_optimization_selected_candidate_id = candidate_id_at candidates (is_optimization_selected_idx identities),
      cu_heldout_best_candidate_id = candidate_id_at candidates (is_heldout_best_idx identities),
      cu_deployment_candidate_id = candidate_id_at candidates (is_deployment_idx identities),
      cu_deployment_rule = Some (is_deployment_rule identities)\<rparr>)"

definition restore_identities :: "candidate_record list \<Rightarrow> identity_cursor \<Rightarrow> candidate_identity_set \<times> nat option" where
  "restore_identities candidates cursor =
     (let best_idx = idx_for_candidate_id candidates (cu_best_candidate_id cursor);
          identities =
            \<lparr>is_optimization_selected_idx = idx_for_candidate_id candidates (cu_optimization_selected_candidate_id cursor),
             is_heldout_best_idx = idx_for_candidate_id candidates (cu_heldout_best_candidate_id cursor),
             is_deployment_idx = idx_for_candidate_id candidates (cu_deployment_candidate_id cursor),
             is_deployment_rule = unwrap_or ''optimization_selected'' (cu_deployment_rule cursor)\<rparr>
      in (if is_optimization_selected_idx identities = None \<and> cu_phase cursor \<in> {PhHeldout, PhFinalizing, PhCompleted, PhFailed}
          then identities\<lparr>is_optimization_selected_idx := best_idx\<rparr> else identities, best_idx))"

subsection \<open>The selection is frozen\<close>

text \<open>What the driver does to the identities and the best index of a run.\<close>

datatype identity_step = SetBest "nat option" | FreezeSelected | RecordHeldoutBest "nat option" | SettleIdentities

fun apply_identity_step ::
  "gepa_config \<Rightarrow> identity_step \<Rightarrow> candidate_identity_set \<times> nat option \<Rightarrow> candidate_identity_set \<times> nat option" where
  "apply_identity_step g (SetBest best_idx) (s, _) = (s, best_idx)"
| "apply_identity_step g FreezeSelected (s, best_idx) = (freeze_optimization_selected best_idx s, best_idx)"
| "apply_identity_step g (RecordHeldoutBest heldout_best_idx) (s, best_idx) = (record_heldout_best heldout_best_idx s, best_idx)"
| "apply_identity_step g SettleIdentities (s, best_idx) = settle_run_identities g (s, best_idx)"

fun recorded_heldout :: "nat option \<Rightarrow> identity_step list \<Rightarrow> nat option" where
  "recorded_heldout h [] = h"
| "recorded_heldout h (RecordHeldoutBest h' # steps) = recorded_heldout h' steps"
| "recorded_heldout h (_ # steps) = recorded_heldout h steps"

lemma settle_frozen:
  assumes "is_optimization_selected_idx s = Some i" "settle_run_identities g (s, best_idx) = (s', best_idx')"
  shows "is_optimization_selected_idx s' = Some i" "is_heldout_best_idx s' = is_heldout_best_idx s"
    "is_deployment_idx s' = (if normalize_deployment_rule (gc_deployment_rule g) = ''heldout_best''
       then or_else (is_heldout_best_idx s) (Some i) else Some i)"
    "best_idx' = is_deployment_idx s'"
  using assms
  by (cases "is_heldout_best_idx s"; auto simp: settle_run_identities_def freeze_optimization_selected_def
      apply_deployment_rule_def resolve_deployment_idx_def best_idx_alias_def Let_def split: if_splits)+

lemma frozen_steps:
  assumes "is_optimization_selected_idx s = Some i" "fold (apply_identity_step g) steps (s, best_idx) = (s', best_idx')"
  shows "is_optimization_selected_idx s' = Some i \<and> is_heldout_best_idx s' = recorded_heldout (is_heldout_best_idx s) steps"
  using assms
proof (induction steps arbitrary: s best_idx)
  case (Cons step steps)
  obtain s1 b1 where step: "apply_identity_step g step (s, best_idx) = (s1, b1)"
    by (cases "apply_identity_step g step (s, best_idx)")
  have s1: "is_optimization_selected_idx s1 = Some i"
    using step Cons.prems(1) settle_frozen(1) [OF Cons.prems(1)]
    by (cases step) (auto simp: freeze_optimization_selected_def record_heldout_best_def)
  have h1: "recorded_heldout (is_heldout_best_idx s1) steps = recorded_heldout (is_heldout_best_idx s) (step # steps)"
    using step Cons.prems(1) settle_frozen(2) [OF Cons.prems(1)]
    by (cases step) (auto simp: freeze_optimization_selected_def record_heldout_best_def)
  show ?case
    using Cons.IH [OF s1, of b1] Cons.prems(2) step h1 by simp
qed simp

text \<open>
  C10. The candidate that was selected on the training rows stays the selected one: no later held-out result, new
  best candidate or settling replaces it. What is deployed, and reported as the best candidate, is the
  selected candidate, or the best held-out candidate last recorded when the rule asks for it.
\<close>

theorem selection_stays_frozen:
  assumes "is_optimization_selected_idx s = Some i"
    and "settle_run_identities g (fold (apply_identity_step g) steps (s, best_idx)) = (s', best_idx')"
  shows "is_optimization_selected_idx s' = Some i \<and>
     best_idx' = (case recorded_heldout (is_heldout_best_idx s) steps of
         Some j \<Rightarrow> Some (if normalize_deployment_rule (gc_deployment_rule g) = ''heldout_best'' then j else i)
       | None \<Rightarrow> Some i) \<and>
     is_deployment_idx s' = best_idx'"
proof -
  obtain s1 b1 where run: "fold (apply_identity_step g) steps (s, best_idx) = (s1, b1)"
    by (cases "fold (apply_identity_step g) steps (s, best_idx)")
  note frozen = frozen_steps [OF assms(1) run]
  show ?thesis
    using settle_frozen [OF conjunct1 [OF frozen] assms(2) [unfolded run]] frozen by (auto split: option.split)
qed

theorem selection_stays_frozen_witness:
  "let g = gepa_config_default\<lparr>gc_deployment_rule := ''Heldout-Winner''\<rparr>;
       s = freeze_optimization_selected (Some 1) candidate_identity_set_default
   in snd (settle_run_identities g (fold (apply_identity_step g) [RecordHeldoutBest (Some 2), SetBest (Some 0)] (s, Some 1))) = Some 2"
proof -
  let ?g = "gepa_config_default\<lparr>gc_deployment_rule := ''Heldout-Winner''\<rparr>"
  let ?s = "freeze_optimization_selected (Some 1) candidate_identity_set_default"
  have s: "is_optimization_selected_idx ?s = Some 1"
    by (simp add: freeze_optimization_selected_def candidate_identity_set_default_def)
  have "normalize_deployment_rule ''Heldout-Winner'' = ''heldout_best''"
    by code_simp
  with selection_stays_frozen [OF s surjective_pairing, of ?g "[RecordHeldoutBest (Some 2), SetBest (Some 0)]" "Some 1"]
  show ?thesis
    unfolding Let_def by simp
qed

subsection \<open>Checkpoints\<close>

lemma find_index_nth:
  "distinct (map f xs) \<Longrightarrow> i < length xs \<Longrightarrow> find_index (\<lambda>x. f x = f (xs ! i)) xs = Some i"
proof (induction xs arbitrary: i)
  case (Cons x xs)
  show ?case
  proof (cases i)
    case (Suc j)
    with Cons.prems have "f x \<noteq> f (xs ! j)"
      by (metis Suc_less_eq distinct.simps(2) length_Cons length_map list.simps(9) nth_map nth_mem)
    with Cons Suc show ?thesis
      by simp
  qed simp
qed simp

lemma id_index_inverse:
  assumes "distinct (map ca_candidate_id candidates)" "\<forall>i. idx = Some i \<longrightarrow> i < length candidates"
  shows "idx_for_candidate_id candidates (candidate_id_at candidates idx) = idx"
  using assms find_index_nth [of ca_candidate_id candidates]
  by (cases idx) (simp_all add: idx_for_candidate_id_def candidate_id_at_def nth_opt_def)



subsection \<open>Reconciliation\<close>

text \<open>
  The reconciliation takes the number of ledger rows for the number of rollouts, but a proposer turn has
  a row of its own: a run that counted every rollout is divergent as soon as it had one turn.
\<close>

lemma proposer_turns_diverge:
  assumes "length ledger = unat rollout_count + turns" "0 < turns" "length ledger < 2 ^ 64"
  shows "gs_status (case ledger_rollout_and_cost ledger of
     (ledger_rollouts, ledger_cost) \<Rightarrow> reconciliation_status rollout_count ledger_rollouts reported_cost ledger_cost) = ''divergent''"
proof -
  have "ledger \<noteq> []"
    using assms(1,2) by auto
  moreover have "unat (of_nat (length ledger) :: u64) = length ledger"
    using assms(3) by (simp add: unat_of_nat)
  then have "(of_nat (length ledger) :: u64) \<noteq> rollout_count"
    using assms(1,2) by auto
  ultimately show ?thesis
    by (simp add: ledger_rollout_and_cost_def reconciliation_status_def Let_def)
qed

end
