(* ===== verification/Candidate_Admission.thy ===== *)
theory Candidate_Admission
  imports Leakage Config_Validation
begin

text \<open>
  How a proposal becomes the payload of a candidate: the prompt program a container declares
  (\<open>prompt_program.rs\<close>), lever bundles (\<open>levers.rs\<close>), the shapes in which a proposer may return its
  candidate and the admission of the result against the declared fields, and the objectives of a run
  with the alignment of sensor frames to them (\<open>lib.rs\<close>). A \<open>BTreeMap\<close> of texts is a list of pairs in
  key order.
\<close>

type_synonym payload = "(string \<times> string) list"

subsection \<open>prompt_program.rs\<close>

record prompt_module =
  pm_module_id :: string
  pm_role :: string
  pm_content :: string
  pm_mutable :: bool
  pm_candidate_field :: string
  pm_template_variables :: "string list"
  pm_metadata :: json_map

record target_module =
  tg_module_id :: string
  tg_candidate_field :: string
  tg_objective :: string
  tg_metadata :: json_map

record prompt_program =
  pp_version :: string
  pp_program_id :: string
  pp_modules :: "prompt_module list"
  pp_target_modules :: "target_module list"
  pp_seed_candidate :: payload
  pp_rollout_overlay_schema :: json_map
  pp_metadata :: json_map

definition prompt_program_version :: string where
  "prompt_program_version = ''prompt_program.v1''"

definition mutable_field_ids :: "prompt_program \<Rightarrow> string list" where
  "mutable_field_ids p =
     filter (\<lambda>field. \<not> blank field) (map pm_candidate_field (filter pm_mutable (pp_modules p)))"

definition must :: "(string \<Rightarrow> optimizer_error) \<Rightarrow> bool \<Rightarrow> string \<Rightarrow> unit result" where
  "must err ok message = (if ok then Inr () else Inl (err message))"

definition validate_module :: "prompt_module \<Rightarrow> unit result" where
  "validate_module m = check_all
     [must Container (\<not> blank (pm_module_id m)) ''/program.modules[].module_id is required'',
      must Container (pm_mutable m \<longrightarrow> \<not> blank (pm_candidate_field m))
        (''/program module '' @ str_debug (pm_module_id m) @ '' is mutable but has no candidate_field'')]"

definition validate_target :: "string set \<Rightarrow> target_module \<Rightarrow> unit result" where
  "validate_target mutable_fields t = check_all
     [must Container (\<not> blank (tg_module_id t)) ''/program.target_modules[].module_id is required'',
      must Container (\<not> blank (tg_candidate_field t))
        (''/program target module '' @ str_debug (tg_module_id t) @ '' has no candidate_field''),
      must Container (tg_candidate_field t \<in> mutable_fields)
        (''/program target field '' @ str_debug (tg_candidate_field t) @
         '' is not declared as a mutable module candidate_field'')]"

definition validate_seed_field :: "string set \<Rightarrow> string \<times> string \<Rightarrow> unit result" where
  "validate_seed_field mutable_fields fv = check_all
     [must Config (fst fv \<in> mutable_fields)
        (''seed candidate field '' @ str_debug (fst fv) @ '' is not declared as mutable by /program''),
      must Config (\<not> blank (snd fv)) (''seed candidate field '' @ str_debug (fst fv) @ '' must be non-empty'')]"

definition validate_overlay_field :: "string set \<Rightarrow> json \<Rightarrow> unit result" where
  "validate_overlay_field mutable_fields v =
     (case as_str v of
        None \<Rightarrow> Inl (Container ''/program.rollout_overlay_schema.candidate_fields must be strings'')
      | Some field \<Rightarrow> must Container (field \<in> mutable_fields)
          (''/program.rollout_overlay_schema candidate field '' @ str_debug field @ '' is not mutable''))"

definition validate_for_gepa :: "prompt_program \<Rightarrow> string list \<Rightarrow> payload \<Rightarrow> unit result" where
  "validate_for_gepa p configured_target_fields configured_seed_fields =
     (let mutable_fields = set (map pm_candidate_field (filter pm_mutable (pp_modules p)));
          seed_fields = (if configured_seed_fields = [] then pp_seed_candidate p else configured_seed_fields)
      in check_all
        [must Container (trim (pp_version p) = prompt_program_version)
           (''/program.version must be '' @ str_debug prompt_program_version @ '', got '' @ str_debug (pp_version p)),
         must Container (\<not> blank (pp_program_id p)) ''/program.program_id is required'',
         must Container (pp_modules p \<noteq> []) ''/program.modules must contain at least one module'',
         must Container (pp_target_modules p \<noteq> []) ''/program.target_modules must contain at least one target'',
         check_all (map validate_module (pp_modules p)),
         must Container (filter pm_mutable (pp_modules p) \<noteq> [])
           ''/program must declare at least one mutable module with candidate_field'',
         check_all (map (validate_target mutable_fields) (pp_target_modules p)),
         check_all (map (\<lambda>field. must Config (field \<in> mutable_fields)
           (''candidate.target_modules contains '' @ str_debug field @ '', but /program does not declare it as mutable''))
           configured_target_fields),
         must Config (seed_fields \<noteq> [])
           ''seed candidate must be provided by [seed_candidate] or /program.seed_candidate'',
         check_all (map (validate_seed_field mutable_fields) seed_fields),
         check_all (map (validate_overlay_field mutable_fields)
           (unwrap_or [] (Option.bind (map_of (pp_rollout_overlay_schema p) ''candidate_fields'') as_array)))])"

definition payload_to_value :: "payload \<Rightarrow> json" where
  "payload_to_value p = JObj (map (\<lambda>(k, v). (k, JStr v)) p)"

subsection \<open>levers.rs\<close>

datatype lever_kind =
    TextPrompt | SystemPrompt | UserPrompt | AgentsMd | SkillMd | WorkspaceFile | ToolPolicy | ConfigAppend
  | VerifierRubric | ActionPolicy | OtherLever

record lever_spec =
  vs_lever_id :: string
  vs_kind :: lever_kind
  vs_mutable :: bool
  vs_required :: bool
  vs_candidate_field :: "string option"
  vs_module_id :: "string option"
  vs_template_variables :: "string list"
  vs_constraints :: json_map
  vs_metadata :: json_map

record lever_bundle =
  vb_schema_version :: string
  vb_bundle_id :: string
  vb_parent_ids :: "string list"
  vb_values :: json_map
  vb_mutated_lever_ids :: "string list"
  vb_metadata :: json_map

record lever_manifest =
  vm_version :: string
  vm_program_id :: string
  vm_levers :: "lever_spec list"
  vm_target_levers :: "string list"
  vm_seed_bundle :: "lever_bundle option"
  vm_metadata :: json_map

definition bundle_from_prompt_payload :: "string \<Rightarrow> string option \<Rightarrow> payload \<Rightarrow> lever_bundle" where
  "bundle_from_prompt_payload bundle_id parent_id p =
     \<lparr>vb_schema_version = ''lever_bundle.v1'', vb_bundle_id = bundle_id,
      vb_parent_ids = (case parent_id of None \<Rightarrow> [] | Some x \<Rightarrow> [x]), vb_values = map (\<lambda>(k, v). (k, JStr v)) p,
      vb_mutated_lever_ids = map fst p, vb_metadata = []\<rparr>"

definition to_prompt_payload :: "lever_bundle \<Rightarrow> payload" where
  "to_prompt_payload b = List.map_filter (\<lambda>(k, v). map_option (Pair k) (as_str v)) (vb_values b)"

definition lever_bundle_json :: "lever_bundle \<Rightarrow> json" where
  "lever_bundle_json b = JObj (obj_of
     [(''schema_version'', JStr (vb_schema_version b)), (''bundle_id'', JStr (vb_bundle_id b)),
      (''parent_ids'', json_strs (vb_parent_ids b)), (''values'', JObj (vb_values b)),
      (''mutated_lever_ids'', json_strs (vb_mutated_lever_ids b)), (''metadata'', JObj (vb_metadata b))])"

definition prompt_role_to_lever_kind :: "string \<Rightarrow> lever_kind" where
  "prompt_role_to_lever_kind role =
     (let r = to_ascii_lowercase (trim role) in
      if r = ''system'' then SystemPrompt else if r = ''user'' then UserPrompt else TextPrompt)"

definition lever_kind_names :: "(string list \<times> lever_kind) list" where
  "lever_kind_names =
     [([''text'', ''text_prompt''], TextPrompt), ([''system'', ''system_prompt''], SystemPrompt),
      ([''user'', ''user_prompt''], UserPrompt), ([''agents'', ''agents_md'', ''agents.md''], AgentsMd),
      ([''skill'', ''skill_md'', ''skill.md''], SkillMd), ([''workspace_file'', ''file''], WorkspaceFile),
      ([''tool_policy'', ''tools''], ToolPolicy), ([''config_append'', ''config''], ConfigAppend),
      ([''verifier_rubric'', ''rubric''], VerifierRubric), ([''action_policy'', ''policy''], ActionPolicy),
      ([''other''], OtherLever)]"

definition parse_lever_kind :: "string \<Rightarrow> lever_kind option" where
  "parse_lever_kind v =
     (let name = to_ascii_lowercase (trim v)
      in first_some (\<lambda>(names, kind). if name \<in> set names then Some kind else None) lever_kind_names)"

definition lever_of_module :: "prompt_module \<Rightarrow> lever_spec" where
  "lever_of_module m =
     (let candidate_field = (if blank (pm_candidate_field m) then pm_module_id m else pm_candidate_field m);
          declared = or_else (map_of (pm_metadata m) ''lever_kind'') (map_of (pm_metadata m) ''kind'')
      in \<lparr>vs_lever_id = candidate_field,
          vs_kind = unwrap_or (prompt_role_to_lever_kind (pm_role m))
            (Option.bind (Option.bind declared as_str) parse_lever_kind),
          vs_mutable = pm_mutable m, vs_required = pm_mutable m, vs_candidate_field = Some candidate_field,
          vs_module_id = Some (pm_module_id m), vs_template_variables = pm_template_variables m,
          vs_constraints = (case map_of (pm_metadata m) ''constraints'' of Some (JObj c) \<Rightarrow> c | _ \<Rightarrow> []),
          vs_metadata = pm_metadata m\<rparr>)"

definition manifest_from_prompt_program :: "prompt_program \<Rightarrow> lever_manifest" where
  "manifest_from_prompt_program p =
     \<lparr>vm_version = ''lever_manifest.v1'', vm_program_id = pp_program_id p,
      vm_levers = map lever_of_module (pp_modules p),
      vm_target_levers = map (\<lambda>t. if blank (tg_candidate_field t) then tg_module_id t else tg_candidate_field t)
        (pp_target_modules p),
      vm_seed_bundle = (if pp_seed_candidate p = [] then None
        else Some (bundle_from_prompt_payload ''seed'' None (pp_seed_candidate p))),
      vm_metadata = pp_metadata p\<rparr>"

subsection \<open>Proposals and the shapes of their payloads\<close>

record proposed_candidate =
  pr_payload :: payload
  pr_lever_bundle :: "lever_bundle option"
  pr_proposal_type :: string
  pr_parent_candidate_ids :: "string list"
  pr_rationale :: string
  pr_evidence :: json
  pr_metadata :: json_map
  pr_extra :: json_map

definition is_structural_payload_key :: "string \<Rightarrow> bool" where
  "is_structural_payload_key key \<longleftrightarrow> key \<in> set
     [''metadata'', ''candidate'', ''proposed_payload'', ''module_id'', ''modules'', ''target_modules'', ''mutable'',
      ''role'', ''template_variables'', ''candidate_field'', ''program_id'', ''seed_candidate'']"

definition is_single_target_payload_key :: "string \<Rightarrow> bool" where
  "is_single_target_payload_key key \<longleftrightarrow> key \<in> set
     [''content'', ''value'', ''prompt'', ''instructions'', ''text'', ''role'', ''modules'', ''target_modules'']"

definition is_single_target_module_key :: "string \<Rightarrow> bool" where
  "is_single_target_module_key key \<longleftrightarrow>
     key \<in> set [''content'', ''value'', ''prompt'', ''instructions'', ''text'', ''role'']"

definition value_keys :: "string list" where
  "value_keys = [''content'', ''value'', ''prompt'', ''instructions'', ''text'']"

definition nonblank :: "string option \<Rightarrow> string option" where
  "nonblank s = opt_filter (\<lambda>t. t \<noteq> []) (map_option trim s)"

definition member_text :: "json_map \<Rightarrow> string \<Rightarrow> string option" where
  "member_text m key = nonblank (Option.bind (map_of m key) as_str)"

definition object_text :: "json_map \<Rightarrow> string option" where
  "object_text m = first_some (member_text m) value_keys"

definition payload_from_string_payload :: "payload \<Rightarrow> payload" where
  "payload_from_string_payload p =
     (let plain = filter (\<lambda>(key, v). \<not> is_structural_payload_key key \<and> \<not> blank v) p
      in case nonblank (map_of p ''module_id'') of None \<Rightarrow> plain
      | Some module_id \<Rightarrow>
        (case first_some (\<lambda>key. nonblank (map_of p key)) value_keys of
           None \<Rightarrow> plain | Some text \<Rightarrow> [(module_id, text)]))"

definition module_binding :: "json \<Rightarrow> (string \<times> string) option" where
  "module_binding v =
     (case v of
        JObj m \<Rightarrow>
          (case nonblank (Option.bind (or_else (map_of m ''candidate_field'') (map_of m ''module_id'')) as_str) of
             None \<Rightarrow> None | Some field \<Rightarrow> map_option (Pair field) (object_text m))
      | _ \<Rightarrow> None)"

definition plain_members :: "json_map \<Rightarrow> payload" where
  "plain_members m =
     List.map_filter (\<lambda>(key, v). if is_structural_payload_key key then None
       else map_option (Pair key) (nonblank (as_str v))) m"

definition payload_from_modules :: "json_map \<Rightarrow> payload" where
  "payload_from_modules m =
     (case Option.bind (or_else (map_of m ''modules'') (map_of m ''target_modules'')) as_array of
        None \<Rightarrow> plain_members m
      | Some modules \<Rightarrow>
          (let p = bt_collect (List.map_filter module_binding modules)
           in if p = [] then plain_members m else p))"

definition payload_from_proposed_payload_value :: "json \<Rightarrow> payload" where
  "payload_from_proposed_payload_value v =
     (case v of
        JObj m \<Rightarrow>
          (case member_text m ''module_id'' of None \<Rightarrow> payload_from_modules m
           | Some module_id \<Rightarrow>
             (case object_text m of None \<Rightarrow> payload_from_modules m | Some text \<Rightarrow> [(module_id, text)]))
      | _ \<Rightarrow> [])"

fun module_chunks :: "json list \<Rightarrow> string list option" where
  "module_chunks [] = Some []"
| "module_chunks (JObj m # modules) =
     (if or_else (map_of m ''candidate_field'') (map_of m ''module_id'') \<noteq> None then None
      else if \<not> list_all (\<lambda>(key, _). is_single_target_module_key key) m then None
      else map_option (\<lambda>chunks. case object_text m of None \<Rightarrow> chunks | Some text \<Rightarrow> text # chunks) (module_chunks modules))"
| "module_chunks (_ # modules) = None"

definition array_chunks :: "json_map \<Rightarrow> string \<Rightarrow> string list option" where
  "array_chunks m key =
     (case Option.bind (map_of m key) as_array of None \<Rightarrow> Some [] | Some modules \<Rightarrow> module_chunks modules)"

definition single_target_payload_from_unqualified_value :: "json \<Rightarrow> string \<Rightarrow> payload option" where
  "single_target_payload_from_unqualified_value v target_field =
     (case v of
        JObj m \<Rightarrow>
          (if map_of m target_field \<noteq> None then None
           else if \<not> list_all (\<lambda>(key, _). is_single_target_payload_key key) m then None
           else case (array_chunks m ''modules'', array_chunks m ''target_modules'') of
             (Some chunks, Some target_chunks) \<Rightarrow>
               (let chunks = (case object_text m of None \<Rightarrow> [] | Some text \<Rightarrow> [text]) @ chunks @ target_chunks;
                    content = join_with [CHR 0x0A, CHR 0x0A] (filter (\<lambda>chunk. \<not> blank chunk) chunks)
                in if blank content then None else Some [(target_field, content)])
           | _ \<Rightarrow> None)
      | _ \<Rightarrow> None)"

definition nonempty :: "payload \<Rightarrow> payload option" where
  "nonempty p = (if p = [] then None else Some p)"

definition payload_map :: "proposed_candidate \<Rightarrow> payload" where
  "payload_map p =
     unwrap_or (List.map_filter (\<lambda>(key, v). if is_structural_payload_key key then None else map_option (Pair key) (as_str v))
                 (pr_extra p))
       (first_some id
         [Option.bind (nonempty (pr_payload p)) (\<lambda>q. nonempty (payload_from_string_payload q)),
          Option.bind (pr_lever_bundle p) (\<lambda>b. nonempty (to_prompt_payload b)),
          first_some (\<lambda>key. Option.bind (map_of (pr_extra p) key) (\<lambda>v. nonempty (payload_from_proposed_payload_value v)))
            [''proposed_payload'', ''candidate''],
          nonempty (payload_from_proposed_payload_value (JObj (pr_extra p)))])"

definition payload_map_for_allowed_fields :: "string list \<Rightarrow> proposed_candidate \<Rightarrow> payload" where
  "payload_map_for_allowed_fields allowed_fields p =
     (let q = payload_map p in
      if list_ex (\<lambda>(key, _). key \<in> set allowed_fields) q \<or> length allowed_fields \<noteq> 1 then q
      else case nonblank (Some (hd allowed_fields)) of None \<Rightarrow> q
      | Some target_field \<Rightarrow>
          unwrap_or q (first_some id
            [first_some (\<lambda>key. Option.bind (map_of (pr_extra p) key)
                (\<lambda>v. single_target_payload_from_unqualified_value v target_field)) [''proposed_payload'', ''candidate''],
             single_target_payload_from_unqualified_value (JObj (pr_extra p)) target_field]))"

definition proposal_type_or_default :: "proposed_candidate \<Rightarrow> string" where
  "proposal_type_or_default p =
     (let t = trim (pr_proposal_type p) in if t = [] then ''frontier_variation'' else t)"

definition metadata_value :: "proposed_candidate \<Rightarrow> json" where
  "metadata_value p =
     (let m = pr_metadata p;
          m = obj_insert ''proposal_type'' (JStr (proposal_type_or_default p)) m;
          m = obj_insert ''parent_candidate_ids'' (json_strs (pr_parent_candidate_ids p)) m;
          m = (case pr_lever_bundle p of None \<Rightarrow> m | Some b \<Rightarrow> obj_insert ''lever_bundle'' (lever_bundle_json b) m);
          m = obj_insert ''rationale'' (JStr (pr_rationale p)) m;
          m = (if pr_evidence p = JNull then m else obj_insert ''evidence'' (pr_evidence p) m);
          m = (if pr_extra p = [] then m else obj_insert ''raw_extra'' (JObj (pr_extra p)) m)
      in JObj m)"

definition object_keys :: "json option \<Rightarrow> json" where
  "object_keys v = json_strs (case v of Some (JObj m) \<Rightarrow> map fst m | _ \<Rightarrow> [])"

definition payload_shape_summary :: "proposed_candidate \<Rightarrow> json" where
  "payload_shape_summary p = JObj (obj_of
     [(''payload_keys'', json_strs (map fst (pr_payload p))), (''extra_keys'', json_strs (map fst (pr_extra p))),
      (''proposed_payload_keys'', object_keys (map_of (pr_extra p) ''proposed_payload'')),
      (''candidate_keys'', object_keys (map_of (pr_extra p) ''candidate'')),
      (''has_lever_bundle'', JBool (pr_lever_bundle p \<noteq> None))])"

subsection \<open>Admission\<close>

definition seed_candidate_payload :: "payload \<Rightarrow> prompt_program \<Rightarrow> payload result" where
  "seed_candidate_payload configured_seed program =
     (if configured_seed \<noteq> [] then Inr configured_seed
      else if pp_seed_candidate program \<noteq> [] then Inr (pp_seed_candidate program)
      else Inl (Config ''seed candidate must be provided by [seed_candidate] or /program.seed_candidate''))"

definition candidate_id_of :: "hashing \<Rightarrow> payload \<Rightarrow> string" where
  "candidate_id_of h p = ''gepa_'' @ take 12 (sha256_hex h (stable_json h (payload_to_value p)))"

definition proposed_payload_for_candidate_admission ::
  "hashing \<Rightarrow> proposed_candidate \<Rightarrow> string list \<Rightarrow> usize \<Rightarrow> usize \<Rightarrow> payload result" where
  "proposed_payload_for_candidate_admission h proposal allowed_fields generation proposal_index =
     (let p = payload_map_for_allowed_fields allowed_fields proposal in
      if p = [] then Inl (Proposer (''proposer proposal generation='' @ show_word generation @ '' index='' @
        show_word proposal_index @ '' returned no mutable payload; shape='' @
        to_json_string h (payload_shape_summary proposal)))
      else Inr p)"

definition candidate_allowed_fields :: "prompt_program \<Rightarrow> synth_optimizer_config \<Rightarrow> string list" where
  "candidate_allowed_fields program config =
     (let mutable_fields = mutable_field_ids program
      in if mutable_fields = [] then cn_target_modules (so_candidate config) else mutable_fields)"

definition normalize_single_module_proposal_shape :: "string list \<Rightarrow> payload \<Rightarrow> payload" where
  "normalize_single_module_proposal_shape allowed_fields p =
     (if list_ex (\<lambda>(key, _). key \<in> set allowed_fields) p then p
      else case map_of p ''module_id'' of None \<Rightarrow> p
      | Some module_id \<Rightarrow>
          if module_id \<notin> set allowed_fields then p
          else case first_some (\<lambda>key. opt_filter (\<lambda>v. \<not> blank v) (map_of p key)) value_keys of
            None \<Rightarrow> p | Some v \<Rightarrow> [(module_id, v)])"

fun apply_fields :: "string list \<Rightarrow> payload \<Rightarrow> payload \<Rightarrow> payload result" where
  "apply_fields allowed_fields [] p = Inr p"
| "apply_fields allowed_fields ((key, v) # proposed) p =
     (if key \<notin> set allowed_fields
      then Inl (Proposer (''proposer returned unknown candidate field '' @ str_debug key @ ''; allowed fields: '' @
             join_with '', '' allowed_fields))
      else apply_fields allowed_fields proposed (bt_insert key v p))"

definition normalize_candidate_payload ::
  "prompt_program \<Rightarrow> synth_optimizer_config \<Rightarrow> payload \<Rightarrow> payload \<Rightarrow> payload result" where
  "normalize_candidate_payload program config parent_payload proposed_payload =
     (let allowed_fields = candidate_allowed_fields program config
      in case apply_fields allowed_fields (normalize_single_module_proposal_shape allowed_fields proposed_payload)
                parent_payload of
           Inl e \<Rightarrow> Inl e
         | Inr p \<Rightarrow>
           (case check_all (map (\<lambda>module_id. must Proposer (\<not> blank (unwrap_or [] (map_of p module_id)))
                   (''candidate field '' @ str_debug module_id @ '' is required and must be non-empty''))
                   (cn_target_modules (so_candidate config))) of
              Inl e \<Rightarrow> Inl e
            | Inr _ \<Rightarrow> Inr p))"

text \<open>The steps from a proposal and its parent to the payload of the new candidate.\<close>

definition admit_proposal ::
  "hashing \<Rightarrow> prompt_program \<Rightarrow> synth_optimizer_config \<Rightarrow> usize \<Rightarrow> usize \<Rightarrow> payload \<Rightarrow> proposed_candidate \<Rightarrow> payload result" where
  "admit_proposal h program config generation proposal_index parent_payload proposal =
     (case proposed_payload_for_candidate_admission h proposal (candidate_allowed_fields program config)
             generation proposal_index of
        Inl e \<Rightarrow> Inl e
      | Inr proposed \<Rightarrow> normalize_candidate_payload program config parent_payload proposed)"

subsection \<open>Objectives\<close>

definition is_objective_identifier :: "string \<Rightarrow> bool" where
  "is_objective_identifier v \<longleftrightarrow> v \<noteq> [] \<and> length v \<le> 96 \<and>
     list_all (\<lambda>c. let n = of_char c :: int in 48 \<le> n \<and> n \<le> 57 \<or> 65 \<le> n \<and> n \<le> 90 \<or> 97 \<le> n \<and> n \<le> 122 \<or> c \<in> set ''_-.'') v"

text \<open>The names seen so far, and the objectives with their sources.\<close>

definition add_objective :: "string \<Rightarrow> string \<Rightarrow> string list \<times> (string \<times> string) list \<Rightarrow> string list \<times> (string \<times> string) list" where
  "add_objective source name = (\<lambda>(seen, objectives).
     if name = [] \<or> name \<in> set seen then (seen, objectives) else (name # seen, objectives @ [(name, source)]))"

definition or_objectives :: "string \<Rightarrow> string list \<Rightarrow> string list \<times> (string \<times> string) list \<Rightarrow>
    string list \<times> (string \<times> string) list" where
  "or_objectives source names s = (if snd s = [] then fold (add_objective source) names s else s)"

definition task_objective :: "json \<Rightarrow> string option" where
  "task_objective row =
     opt_filter is_objective_identifier (map_option trim (Option.bind (json_get row ''objective'') as_str))"

definition declared_objectives :: "gepa_config \<Rightarrow> prompt_program \<Rightarrow> json list \<Rightarrow> (string \<times> string) list \<times> string" where
  "declared_objectives g program rows =
     (let s = or_objectives ''gepa.objective_keys'' (map trim (gc_objective_keys g)) ([], []);
          s = or_objectives ''program.target_modules'' (map (trim \<circ> tg_objective) (pp_target_modules program)) s;
          s = or_objectives ''tasks.objective'' (List.map_filter task_objective rows) s;
          (seen, objectives) =
            (if snd s = [] then (fst s, [(''outcome_reward'', ''rollout_response.outcome_reward'')]) else s);
          configured = nonblank (gc_selection_objective g);
          objectives = (case configured of None \<Rightarrow> objectives
            | Some name \<Rightarrow> if name \<in> set seen then objectives else (name, ''gepa.selection_objective'') # objectives)
      in (objectives, unwrap_or (case objectives of [] \<Rightarrow> ''outcome_reward'' | (name, _) # _ \<Rightarrow> name) configured))"

definition spec_for_objective :: "hashing \<Rightarrow> gepa_config \<Rightarrow> string \<times> string \<Rightarrow> objective_spec" where
  "spec_for_objective h g = (\<lambda>(name, source).
     (objective_spec_from_score h
        \<lparr>os_objective = name, os_value = f64_zero, os_source = source, os_rationale = None, os_metadata = []\<rparr>)
     \<lparr>sp_direction := normalize_gepa_objective_direction
        (unwrap_or ''maximize'' (map_of (gc_objective_directions g) name))\<rparr>)"

definition declared_objective_set ::
  "hashing \<Rightarrow> gepa_config \<Rightarrow> prompt_program \<Rightarrow> json list \<Rightarrow> json list \<Rightarrow> objective_set_record" where
  "declared_objective_set h g program train_rows heldout_rows =
     (let (objectives, selection_objective) = declared_objectives g program (train_rows @ heldout_rows)
      in objective_set_from_specs h selection_objective (normalize_gepa_frontier_type (gc_frontier_type g))
           (map (spec_for_objective h g) objectives)
           (obj_of [(''program_id'', JStr (pp_program_id program)), (''source'', JStr ''gepa.run_start''),
             (''train_rows'', json_u64 (of_nat (length train_rows))),
             (''heldout_rows'', json_u64 (of_nat (length heldout_rows))),
             (''frontier_type_source'', JStr ''gepa.frontier_type''),
             (''objective_keys'', json_strs (gc_objective_keys g)),
             (''objective_directions'', payload_to_value (gc_objective_directions g))]))"

definition align_sensor_frame_objectives :: "objective_set_record \<Rightarrow> f64 \<Rightarrow> sensor_frame \<Rightarrow> sensor_frame" where
  "align_sensor_frame_objectives objective_set reward frame =
     (let selection_objective = trim (ob_selection_objective objective_set) in
      if selection_objective = [] \<or> list_ex (\<lambda>score. os_objective score = selection_objective) (sf_objective_scores frame)
      then frame
      else frame\<lparr>sf_objective_scores := sf_objective_scores frame @
        [\<lparr>os_objective = selection_objective, os_value = reward, os_source = ''objective_set.selection_reward'',
          os_rationale = Some ''container outcome reward mapped to the declared selection objective'',
          os_metadata = obj_of
            [(''objective_set_id'', JStr (ob_objective_set_id objective_set)),
             (''mapped_from_outcome_reward'', JBool True),
             (''original_objectives'', json_strs (map os_objective (sf_objective_scores frame)))]\<rparr>]\<rparr>)"

lemma nonblank_Some_iff: "nonblank s = Some t \<longleftrightarrow> (\<exists>u. s = Some u \<and> t = trim u \<and> t \<noteq> [])"
  by (cases s) (auto simp: nonblank_def)

lemma nonblank_trimmed [simp]: "nonblank (Some v) = (if blank v then None else Some (trim v))" "nonblank None = None"
  by (simp_all add: nonblank_def blank_def opt_filter_def)

subsection \<open>What an admitted payload contains\<close>

lemma apply_fields_ok:
  assumes "apply_fields allowed_fields proposed p = Inr q"
  shows "fst ` set proposed \<subseteq> set allowed_fields \<and> q = fold (\<lambda>(k, v). bt_insert k v) proposed p"
  using assms by (induction allowed_fields proposed p rule: apply_fields.induct) (auto split: if_splits)

lemma keys_fold_bt_insert: "fst ` set (fold (\<lambda>(k, v). bt_insert k v) proposed p) = fst ` set proposed \<union> fst ` set p"
proof (induction proposed arbitrary: p)
  case (Cons x proposed)
  show ?case
    unfolding fold_simps Cons.IH by (simp add: split_beta)
qed simp

lemma must_ok [simp]: "must err ok message = Inr () \<longleftrightarrow> ok"
  by (simp add: must_def)

lemma normalize_candidate_payload_ok:
  assumes "normalize_candidate_payload program config parent proposed = Inr q"
  shows "\<exists>proposed. fst ` set proposed \<subseteq> set (candidate_allowed_fields program config) \<and>
      q = fold (\<lambda>(k, v). bt_insert k v) proposed parent"
    and "\<forall>field \<in> set (cn_target_modules (so_candidate config)). \<not> blank (unwrap_or [] (map_of q field))"
proof -
  let ?allowed = "candidate_allowed_fields program config"
  have ok: "apply_fields ?allowed (normalize_single_module_proposal_shape ?allowed proposed) parent = Inr q"
      "check_all (map (\<lambda>field. must Proposer (\<not> blank (unwrap_or [] (map_of q field)))
        (''candidate field '' @ str_debug field @ '' is required and must be non-empty''))
        (cn_target_modules (so_candidate config))) = Inr ()"
    using assms by (auto simp: normalize_candidate_payload_def Let_def split: sum.splits)
  show "\<exists>proposed. fst ` set proposed \<subseteq> set ?allowed \<and> q = fold (\<lambda>(k, v). bt_insert k v) proposed parent"
    using apply_fields_ok [OF ok(1)] by blast
  show "\<forall>field \<in> set (cn_target_modules (so_candidate config)). \<not> blank (unwrap_or [] (map_of q field))"
    using ok(2) by (auto simp: check_all_ok_iff)
qed

lemma admit_proposal_ok:
  assumes "admit_proposal h program config generation proposal_index parent proposal = Inr q"
  shows "\<exists>proposed. normalize_candidate_payload program config parent proposed = Inr q"
  using assms by (auto simp: admit_proposal_def split: sum.splits)

text \<open>The payloads of a run: the seed, and what is admitted on top of a payload of the run.\<close>

inductive run_payload :: "hashing \<Rightarrow> prompt_program \<Rightarrow> synth_optimizer_config \<Rightarrow> payload \<Rightarrow> payload \<Rightarrow> bool"
  for h program config configured_seed where
  seed: "seed_candidate_payload configured_seed program = Inr p \<Longrightarrow> run_payload h program config configured_seed p"
| admitted: "run_payload h program config configured_seed parent \<Longrightarrow>
    admit_proposal h program config generation proposal_index parent proposal = Inr q \<Longrightarrow>
    run_payload h program config configured_seed q"

lemma run_payload_seed:
  "run_payload h program config configured_seed p \<Longrightarrow> \<exists>p0. seed_candidate_payload configured_seed program = Inr p0"
  by (induction rule: run_payload.induct) blast+

lemma validated_program:
  assumes "validate_for_gepa program targets configured_seed = Inr ()"
    and "seed_candidate_payload configured_seed program = Inr p"
  shows "fst ` set p \<subseteq> set (mutable_field_ids program)" "set targets \<subseteq> set (mutable_field_ids program)"
    "mutable_field_ids program \<noteq> []" "\<forall>(field, v) \<in> set p. \<not> blank v"
proof -
  let ?fields = "set (map pm_candidate_field (filter pm_mutable (pp_modules program)))"
  have fields: "set (mutable_field_ids program) = ?fields"
    using assms(1) by (auto simp: validate_for_gepa_def Let_def check_all_ok_iff mutable_field_ids_def validate_module_def)
  show "fst ` set p \<subseteq> set (mutable_field_ids program)" "\<forall>(field, v) \<in> set p. \<not> blank v"
    using assms unfolding fields
    by (auto simp: validate_for_gepa_def Let_def check_all_ok_iff seed_candidate_payload_def validate_seed_field_def
        split: if_splits)
  show "set targets \<subseteq> set (mutable_field_ids program)"
    using assms(1) unfolding fields by (auto simp: validate_for_gepa_def Let_def check_all_ok_iff)
  have "?fields \<noteq> {}"
    using assms(1) by (auto simp: validate_for_gepa_def Let_def check_all_ok_iff filter_empty_conv)
  then show "mutable_field_ids program \<noteq> []"
    using fields by auto
qed


subsection \<open>The shapes of a proposal agree\<close>

text \<open>A payload whose texts carry no white space around them, under keys that are not part of a shape.\<close>

definition plain_payload :: "payload \<Rightarrow> bool" where
  "plain_payload p \<longleftrightarrow> p \<noteq> [] \<and> bt_wf p \<and>
     (\<forall>(key, v) \<in> set p. \<not> is_structural_payload_key key \<and> trim key = key \<and> key \<noteq> [] \<and> trim v = v \<and> v \<noteq> [])"

definition empty_proposal :: proposed_candidate where
  "empty_proposal = \<lparr>pr_payload = [], pr_lever_bundle = None, pr_proposal_type = [], pr_parent_candidate_ids = [],
     pr_rationale = [], pr_evidence = JNull, pr_metadata = [], pr_extra = []\<rparr>"

definition payload_modules :: "payload \<Rightarrow> json" where
  "payload_modules p = JArr (map (\<lambda>(key, v). JObj [(''candidate_field'', JStr key), (''content'', JStr v)]) p)"

lemma structural_keys:
  "is_structural_payload_key ''module_id''" "is_structural_payload_key ''modules''"
  "is_structural_payload_key ''target_modules''" "is_structural_payload_key ''candidate''"
  "is_structural_payload_key ''proposed_payload''"
  by (simp_all add: is_structural_payload_key_def)

lemma plain_no_key:
  assumes "plain_payload p" "is_structural_payload_key key"
  shows "map_of p key = None" "map_of (map (\<lambda>(k, v). (k, JStr v)) p) key = None"
  using assms by (auto simp: plain_payload_def map_of_eq_None_iff)

lemma plain_members_plain:
  "(\<forall>(key, v) \<in> set p. \<not> is_structural_payload_key key \<and> trim v = v \<and> v \<noteq> []) \<Longrightarrow>
   plain_members (map (\<lambda>(k, v). (k, JStr v)) p) = p"
  by (induction p) (auto simp: plain_members_def List.map_filter_simps blank_def)

lemma payload_from_value_plain:
  assumes "plain_payload p"
  shows "payload_from_proposed_payload_value (payload_to_value p) = p"
proof -
  have "plain_members (map (\<lambda>(k, v). (k, JStr v)) p) = p"
    by (rule plain_members_plain) (use assms in \<open>auto simp: plain_payload_def\<close>)
  then show ?thesis
    using plain_no_key(2) [OF assms] structural_keys
    by (simp add: payload_from_proposed_payload_value_def payload_to_value_def member_text_def payload_from_modules_def)
qed

lemma bt_collect_wf: "bt_wf p \<Longrightarrow> bt_collect p = p"
proof (rule bt_wf_eqI)
  assume "bt_wf p"
  then have "distinct (map fst p)" "distinct (map fst (rev p))"
    by (simp_all add: bt_wf_distinct rev_map [symmetric])
  then show "map_of (bt_collect p) = map_of p"
    by (simp add: map_of_bt_collect map_of_inject_set)
qed simp_all

lemma payload_from_modules_plain:
  assumes "plain_payload p"
  shows "payload_from_proposed_payload_value (JObj [(''modules'', payload_modules p)]) = p"
proof -
  have "List.map_filter module_binding (map (\<lambda>(key, v). JObj [(''candidate_field'', JStr key), (''content'', JStr v)]) q) = q"
    if "\<forall>(key, v) \<in> set q. trim key = key \<and> key \<noteq> [] \<and> trim v = v \<and> v \<noteq> []" for q :: payload
    using that by (induction q)
      (auto simp: List.map_filter_simps module_binding_def object_text_def value_keys_def member_text_def blank_def)
  moreover have "\<forall>(key, v) \<in> set p. trim key = key \<and> key \<noteq> [] \<and> trim v = v \<and> v \<noteq> []"
    using assms by (auto simp: plain_payload_def)
  ultimately show ?thesis
    using assms by (simp add: payload_from_proposed_payload_value_def member_text_def payload_from_modules_def
        payload_modules_def bt_collect_wf plain_payload_def)
qed


subsection \<open>The selection objective is declared and scored\<close>

lemma fold_add_objective:
  assumes "fst ` set (snd s) = set (fst s)" "\<forall>name \<in> set (fst s). trim name = name \<and> name \<noteq> []"
    and "\<forall>name \<in> set names. trim name = name"
  shows "fst ` set (snd (fold (add_objective source) names s)) = set (fst (fold (add_objective source) names s)) \<and>
     (\<forall>name \<in> set (fst (fold (add_objective source) names s)). trim name = name \<and> name \<noteq> [])"
  using assms
proof (induction names arbitrary: s)
  case (Cons name names)
  show ?case
    unfolding fold_simps by (rule Cons.IH) (use Cons.prems in \<open>auto simp: add_objective_def split_beta\<close>)
qed simp

lemma or_objectives_names:
  assumes "fst ` set (snd s) = set (fst s)" "\<forall>name \<in> set (fst s). trim name = name \<and> name \<noteq> []"
    and "\<forall>name \<in> set names. trim name = name"
  shows "fst ` set (snd (or_objectives source names s)) = set (fst (or_objectives source names s)) \<and>
     (\<forall>name \<in> set (fst (or_objectives source names s)). trim name = name \<and> name \<noteq> [])"
  using fold_add_objective [OF assms] assms by (simp add: or_objectives_def)

lemma task_objectives_trimmed: "\<forall>name \<in> set (List.map_filter task_objective rows). trim name = name"
  by (auto simp: List.map_filter_def task_objective_def opt_filter_def split: option.splits if_splits)

lemma dedup_by_names:
  "(\<And>x y. same y x \<Longrightarrow> f y = f x) \<Longrightarrow> f ` set (dedup_by same xs) = f ` set xs"
proof (induction same xs rule: dedup_by.induct)
  case (1 same x y zs)
  show ?case
    using 1 by (cases "same y x") (auto simp: insert_commute)
qed simp_all

lemma declared_objectives_cover:
  assumes "declared_objectives g program rows = (objectives, sel)"
  shows "sel \<in> fst ` set objectives" "trim sel = sel" "sel \<noteq> []"
    "\<forall>name. nonblank (gc_selection_objective g) = Some name \<longrightarrow> sel = name"
proof -
  define s1 where "s1 = or_objectives ''gepa.objective_keys'' (map trim (gc_objective_keys g)) ([], [])"
  define s2 where "s2 = or_objectives ''program.target_modules'' (map (trim \<circ> tg_objective) (pp_target_modules program)) s1"
  define s3 where "s3 = or_objectives ''tasks.objective'' (List.map_filter task_objective rows) s2"
  have s1: "fst ` set (snd s1) = set (fst s1) \<and> (\<forall>name \<in> set (fst s1). trim name = name \<and> name \<noteq> [])"
    unfolding s1_def by (rule or_objectives_names) auto
  have s2: "fst ` set (snd s2) = set (fst s2) \<and> (\<forall>name \<in> set (fst s2). trim name = name \<and> name \<noteq> [])"
    unfolding s2_def by (rule or_objectives_names) (use s1 in auto)
  have s3: "fst ` set (snd s3) = set (fst s3)" "\<forall>name \<in> set (fst s3). trim name = name \<and> name \<noteq> []"
    using or_objectives_names [OF conjunct1 [OF s2] conjunct2 [OF s2] task_objectives_trimmed] unfolding s3_def by blast+
  define s4 where "s4 = (if snd s3 = [] then (fst s3, [(''outcome_reward'', ''rollout_response.outcome_reward'')]) else s3)"
  have "trim ''outcome_reward'' = ''outcome_reward''"
    by code_simp
  then have s4: "set (fst s4) \<subseteq> fst ` set (snd s4)" "\<forall>name \<in> fst ` set (snd s4). trim name = name \<and> name \<noteq> []" "snd s4 \<noteq> []"
    using s3 by (auto simp: s4_def)
  have eq: "declared_objectives g program rows =
      (let objectives = (case nonblank (gc_selection_objective g) of None \<Rightarrow> snd s4
          | Some name \<Rightarrow> if name \<in> set (fst s4) then snd s4 else (name, ''gepa.selection_objective'') # snd s4)
       in (objectives, unwrap_or (case objectives of [] \<Rightarrow> ''outcome_reward'' | (name, _) # _ \<Rightarrow> name)
             (nonblank (gc_selection_objective g))))"
    unfolding declared_objectives_def s4_def s3_def s2_def s1_def Let_def by (simp add: split_beta)
  have trimmed_selection: "trim name = name \<and> name \<noteq> []" if "nonblank (gc_selection_objective g) = Some name" for name
    using that by (auto simp: nonblank_Some_iff)
  show "sel \<in> fst ` set objectives" "trim sel = sel" "sel \<noteq> []"
      "\<forall>name. nonblank (gc_selection_objective g) = Some name \<longrightarrow> sel = name"
    using assms s4 trimmed_selection unfolding eq Let_def
    by (cases "nonblank (gc_selection_objective g)"; cases "snd s4"; force split: if_splits)+
qed

lemma declared_selection:
  shows "ob_selection_objective (declared_objective_set h g program train_rows heldout_rows) =
      snd (declared_objectives g program (train_rows @ heldout_rows))"
    and "sp_name ` set (ob_objectives (declared_objective_set h g program train_rows heldout_rows)) =
      fst ` set (fst (declared_objectives g program (train_rows @ heldout_rows)))"
proof -
  have "sp_name (spec_for_objective h g x) = fst x" for x
    by (simp add: spec_for_objective_def objective_spec_from_score_def split_beta)
  then show "sp_name ` set (ob_objectives (declared_objective_set h g program train_rows heldout_rows)) =
      fst ` set (fst (declared_objectives g program (train_rows @ heldout_rows)))"
    unfolding declared_objective_set_def objective_set_from_specs_def Let_def
    by (simp add: split_beta, subst dedup_by_names) (auto simp: image_image)
  show "ob_selection_objective (declared_objective_set h g program train_rows heldout_rows) =
      snd (declared_objectives g program (train_rows @ heldout_rows))"
    by (simp add: declared_objective_set_def objective_set_from_specs_def split_beta Let_def)
qed

lemma align_scores_selection:
  assumes "trim (ob_selection_objective obs) = ob_selection_objective obs" "ob_selection_objective obs \<noteq> []"
  shows "\<exists>score \<in> set (sf_objective_scores (align_sensor_frame_objectives obs reward frame)).
      os_objective score = ob_selection_objective obs \<and> (score \<in> set (sf_objective_scores frame) \<or> os_value score = reward)"
    and "align_sensor_frame_objectives obs reward' (align_sensor_frame_objectives obs reward frame) =
      align_sensor_frame_objectives obs reward frame"
    and "set (sf_objective_scores frame) \<subseteq> set (sf_objective_scores (align_sensor_frame_objectives obs reward frame))"
  using assms by (auto simp: align_sensor_frame_objectives_def Let_def list_ex_iff)

text \<open>
  C12. The objective that selects candidates is always one of the declared ones, the configured one if
  there is one, and after its alignment every sensor frame has a score for it: one the container
  reported, or the reward of the rollout. Reported scores stay, and a second alignment changes nothing.
\<close>

theorem selection_objective_is_scored:
  "let objectives = declared_objective_set h g program train_rows heldout_rows;
       name = ob_selection_objective objectives;
       frame' = align_sensor_frame_objectives objectives reward frame
   in name \<in> sp_name ` set (ob_objectives objectives) \<and>
     nonblank (gc_selection_objective g) \<in> {None, Some name} \<and>
     (\<exists>score \<in> set (sf_objective_scores frame'). os_objective score = name \<and>
        (score \<in> set (sf_objective_scores frame) \<or> os_value score = reward)) \<and>
     set (sf_objective_scores frame) \<subseteq> set (sf_objective_scores frame') \<and>
     align_sensor_frame_objectives objectives reward' frame' = frame'"
proof -
  let ?obs = "declared_objective_set h g program train_rows heldout_rows"
  obtain objectives sel where d: "declared_objectives g program (train_rows @ heldout_rows) = (objectives, sel)"
    by (cases "declared_objectives g program (train_rows @ heldout_rows)")
  note cover = declared_objectives_cover [OF d]
  have sel: "ob_selection_objective ?obs = sel"
    by (simp add: declared_selection d)
  show ?thesis
    unfolding Let_def
    using cover align_scores_selection [of ?obs] sel declared_selection(2) [of h g program train_rows heldout_rows] d
    by (cases "nonblank (gc_selection_objective g)") auto
qed

text \<open>
  Without declared objectives the configured selection objective is put in front of the default one, and
  when it is the default one, it is declared twice.
\<close>

lemma default_objective_declared_twice:
  assumes "gc_objective_keys g = []" "pp_target_modules program = []" "rows = []"
    and "gc_selection_objective g = Some ''outcome_reward''"
  shows "map fst (fst (declared_objectives g program rows)) = [''outcome_reward'', ''outcome_reward'']"
proof -
  have "nonblank (Some ''outcome_reward'') = Some ''outcome_reward''"
    by code_simp
  then show ?thesis
    using assms by (simp add: declared_objectives_def or_objectives_def Let_def List.map_filter_simps)
qed

subsection \<open>A sample program\<close>

definition sample_program :: prompt_program where
  "sample_program =
     \<lparr>pp_version = ''prompt_program.v1'', pp_program_id = ''p'',
      pp_modules = [\<lparr>pm_module_id = ''m'', pm_role = ''system'', pm_content = [], pm_mutable = True,
        pm_candidate_field = ''prompt'', pm_template_variables = [], pm_metadata = []\<rparr>],
      pp_target_modules = [\<lparr>tg_module_id = ''m'', tg_candidate_field = ''prompt'', tg_objective = ''accuracy'', tg_metadata = []\<rparr>],
      pp_seed_candidate = [(''prompt'', ''be brief'')], pp_rollout_overlay_schema = [], pp_metadata = []\<rparr>"

definition sample_search :: synth_optimizer_config where
  "sample_search = \<lparr>so_run_id = ''r'', so_container_url = None, so_container_pool_id = None,
     so_taskset = \<lparr>ts_train_split = ''train'', ts_heldout_split = ''heldout'', ts_train_ids = [], ts_heldout_ids = [], ts_filters = []\<rparr>,
     so_candidate = \<lparr>cn_target_modules = [''prompt''], cn_candidate_id_prefix = None\<rparr>,
     so_policy = \<lparr>po_enabled = False, po_provider = [], po_model = [], po_policy_type = None, po_api_family = [],
       po_base_url = None, po_inference_url = None, po_max_tokens = None, po_disable_reasoning = [],
       po_tool_call_style = [], po_proxy_mode = [], po_credential_mode = [], po_api_key_env = None, po_config = []\<rparr>,
     so_proposer_timeout_seconds = 1, so_gepa = gepa_config_default\<rparr>"



end
