(* ===== verification/Checkpoint_Store.thy ===== *)
theory Checkpoint_Store
  imports Keyed_Table Optimizer_Error "HOL-Library.Product_Lexorder"
begin

text \<open>
  Checkpoints: the records of \<open>checkpoints.rs\<close>, their table in \<open>workspace.rs\<close>, which shrinks the
  previous checkpoint of a kind to a summary when a new one is saved, and how a run finds the cursor it
  was saved with (\<open>lib.rs\<close>). A row is a pair of a run and a record, and keeps the values of the record;
  the sequence number is compared as the signed integer of its column. The size of a snapshot is the
  length of its JSON text.
\<close>

subsection \<open>checkpoints.rs\<close>

record checkpoint_input =
  ci_sequence_number :: u64
  ci_checkpoint_kind :: string
  ci_status :: string
  ci_run_state :: string
  ci_reason :: "string option"
  ci_generation :: "u64 option"
  ci_candidate_id :: "string option"
  ci_evaluation_stage :: "string option"
  ci_best_candidate_id :: "string option"
  ci_candidate_count :: u64
  ci_frontier_count :: u64
  ci_rollout_count :: u64
  ci_cost_usd :: f64
  ci_usage :: json
  ci_snapshot :: json
  ci_metadata :: json_map

record checkpoint_record =
  ck_schema_version :: string
  ck_checkpoint_id :: string
  ck_sequence_number :: u64
  ck_checkpoint_kind :: string
  ck_status :: string
  ck_run_state :: string
  ck_reason :: "string option"
  ck_generation :: "u64 option"
  ck_candidate_id :: "string option"
  ck_evaluation_stage :: "string option"
  ck_best_candidate_id :: "string option"
  ck_candidate_count :: u64
  ck_frontier_count :: u64
  ck_rollout_count :: u64
  ck_cost_usd :: f64
  ck_usage :: json
  ck_snapshot :: json
  ck_metadata :: json_map
  ck_created_at :: timestamp

record checkpoint_summary_record =
  cz_checkpoint_id :: string
  cz_sequence_number :: u64
  cz_checkpoint_kind :: string
  cz_status :: string
  cz_run_state :: string
  cz_generation :: "u64 option"
  cz_candidate_count :: u64
  cz_frontier_count :: u64
  cz_rollout_count :: u64
  cz_cost_usd :: f64
  cz_created_at :: timestamp

definition checkpoint_summary_schema :: string where
  "checkpoint_summary_schema = ''synth.optimizer.checkpoint_summary.v1''"

definition checkpoint_ident :: "hashing \<Rightarrow> u64 \<times> string \<times> string \<Rightarrow> string" where
  "checkpoint_ident h = (\<lambda>(sequence_number, checkpoint_kind, status).
     stable_id h ''checkpoint'' [show_word sequence_number, checkpoint_kind, status])"

definition checkpoint_from_input :: "hashing \<Rightarrow> timestamp \<Rightarrow> checkpoint_input \<Rightarrow> checkpoint_record" where
  "checkpoint_from_input h now i =
     \<lparr>ck_schema_version = ''checkpoint_record.v1'',
      ck_checkpoint_id = checkpoint_ident h (ci_sequence_number i, ci_checkpoint_kind i, ci_status i),
      ck_sequence_number = ci_sequence_number i, ck_checkpoint_kind = ci_checkpoint_kind i,
      ck_status = ci_status i, ck_run_state = ci_run_state i, ck_reason = ci_reason i,
      ck_generation = ci_generation i, ck_candidate_id = ci_candidate_id i,
      ck_evaluation_stage = ci_evaluation_stage i, ck_best_candidate_id = ci_best_candidate_id i,
      ck_candidate_count = ci_candidate_count i, ck_frontier_count = ci_frontier_count i,
      ck_rollout_count = ci_rollout_count i, ck_cost_usd = ci_cost_usd i, ck_usage = ci_usage i,
      ck_snapshot = ci_snapshot i, ck_metadata = ci_metadata i, ck_created_at = now\<rparr>"

definition checkpoint_summary :: "checkpoint_record \<Rightarrow> json" where
  "checkpoint_summary r = JObj (obj_of
     [(''checkpoint_kind'', JStr (ck_checkpoint_kind r)), (''status'', JStr (ck_status r)),
      (''run_state'', JStr (ck_run_state r)), (''reason'', json_str_opt (ck_reason r)),
      (''generation'', json_u64_opt (ck_generation r)), (''candidate_id'', json_str_opt (ck_candidate_id r)),
      (''evaluation_stage'', json_str_opt (ck_evaluation_stage r)),
      (''best_candidate_id'', json_str_opt (ck_best_candidate_id r)),
      (''candidate_count'', json_u64 (ck_candidate_count r)), (''frontier_count'', json_u64 (ck_frontier_count r)),
      (''rollout_count'', json_u64 (ck_rollout_count r)), (''cost_usd'', json_f64 (ck_cost_usd r))])"

definition is_storage_compacted :: "checkpoint_record \<Rightarrow> bool" where
  "is_storage_compacted r \<longleftrightarrow>
     unwrap_or False (Option.bind (json_get (ck_snapshot r) ''compacted'') as_bool) \<or>
     unwrap_or False (Option.bind (map_of (ck_metadata r) ''storage_compacted'') as_bool)"

definition storage_compacted_summary :: "u64 \<Rightarrow> checkpoint_record \<Rightarrow> checkpoint_record" where
  "storage_compacted_summary original_snapshot_bytes r =
     (let kind = Option.bind (or_else (json_get (ck_snapshot r) ''schema'') (json_get (ck_snapshot r) ''schema_version''))
                   as_str
      in r\<lparr>ck_snapshot := JObj (obj_of
             [(''schema'', JStr checkpoint_summary_schema), (''compacted'', JBool True),
              (''original_checkpoint_id'', JStr (ck_checkpoint_id r)), (''original_snapshot_kind'', json_str_opt kind),
              (''original_snapshot_bytes'', json_u64 original_snapshot_bytes), (''summary'', checkpoint_summary r)]),
           ck_metadata := obj_insert ''storage_compaction_schema'' (JStr checkpoint_summary_schema)
             (obj_insert ''storage_compacted'' (JBool True) (ck_metadata r))\<rparr>)"

subsection \<open>The table\<close>

type_synonym checkpoint_table = "(string \<times> checkpoint_record) list"

definition checkpoint_key :: "string \<times> checkpoint_record \<Rightarrow> string \<times> string" where
  "checkpoint_key row = (fst row, ck_checkpoint_id (snd row))"

definition record_checkpoint :: "string \<Rightarrow> checkpoint_record \<Rightarrow> checkpoint_table \<Rightarrow> checkpoint_table" where
  "record_checkpoint run_id r = upsert checkpoint_key (run_id, r)"

definition checkpoint_history :: "string \<Rightarrow> string option \<Rightarrow> checkpoint_table \<Rightarrow> checkpoint_record list" where
  "checkpoint_history run_id kind t =
     sort_key (\<lambda>r. (sint (ck_sequence_number r), ck_created_at r))
       (map snd (filter (\<lambda>(i, r). i = run_id \<and> kind \<in> {None, Some (ck_checkpoint_kind r)}) t))"

definition latest_checkpoint :: "string \<Rightarrow> string \<Rightarrow> checkpoint_table \<Rightarrow> checkpoint_record option" where
  "latest_checkpoint run_id kind t =
     (let rows = checkpoint_history run_id (Some kind) t in if rows = [] then None else Some (last rows))"

definition checkpoint_summary_history ::
  "string \<Rightarrow> string option \<Rightarrow> checkpoint_table \<Rightarrow> checkpoint_summary_record list" where
  "checkpoint_summary_history run_id kind t =
     map (\<lambda>r. \<lparr>cz_checkpoint_id = ck_checkpoint_id r, cz_sequence_number = ck_sequence_number r,
         cz_checkpoint_kind = ck_checkpoint_kind r, cz_status = ck_status r, cz_run_state = ck_run_state r,
         cz_generation = ck_generation r, cz_candidate_count = ck_candidate_count r,
         cz_frontier_count = ck_frontier_count r, cz_rollout_count = ck_rollout_count r,
         cz_cost_usd = ck_cost_usd r, cz_created_at = ck_created_at r\<rparr>)
       (checkpoint_history run_id kind t)"

definition record_checkpoint_compacting_previous ::
  "hashing \<Rightarrow> string \<Rightarrow> checkpoint_record \<Rightarrow> checkpoint_table \<Rightarrow> checkpoint_table" where
  "record_checkpoint_compacting_previous h run_id r t =
     (let t' = record_checkpoint run_id r t in
      case latest_checkpoint run_id (ck_checkpoint_kind r) t of None \<Rightarrow> t'
      | Some previous \<Rightarrow>
          if ck_checkpoint_id previous = ck_checkpoint_id r \<or> ck_sequence_number r \<le> ck_sequence_number previous
             \<or> is_storage_compacted previous then t'
          else record_checkpoint run_id
                 (storage_compacted_summary (of_nat (length (to_json_string h (ck_snapshot previous)))) previous) t')"

text \<open>
  The cursor of a run: a new one where none was saved. \<open>from_value\<close> is the derived reader of cursors.
\<close>

definition initialize_or_restore_cursor ::
  "(json \<Rightarrow> 'c result) \<Rightarrow> (string \<Rightarrow> 'c) \<Rightarrow> ('c \<Rightarrow> 'c) \<Rightarrow> checkpoint_table \<Rightarrow> string \<Rightarrow> 'c result" where
  "initialize_or_restore_cursor from_value new_cursor own t run_id =
     (case latest_checkpoint run_id ''gepa_cursor'' t of
        None \<Rightarrow> Inr (new_cursor run_id)
      | Some checkpoint \<Rightarrow> map_sum id own (from_value (ck_snapshot checkpoint)))"

subsection \<open>The latest checkpoint of a kind\<close>

text \<open>What is done to the checkpoints of a run; a crash between the two writes of a saving is a \<open>PlainCheckpoint\<close>.\<close>

datatype checkpoint_op = PlainCheckpoint timestamp checkpoint_input | CompactingCheckpoint timestamp checkpoint_input

fun op_input :: "checkpoint_op \<Rightarrow> checkpoint_input" where
  "op_input (PlainCheckpoint now i) = i"
| "op_input (CompactingCheckpoint now i) = i"

fun op_record :: "hashing \<Rightarrow> checkpoint_op \<Rightarrow> checkpoint_record" where
  "op_record h (PlainCheckpoint now i) = checkpoint_from_input h now i"
| "op_record h (CompactingCheckpoint now i) = checkpoint_from_input h now i"

fun apply_checkpoint_op :: "hashing \<Rightarrow> string \<Rightarrow> checkpoint_op \<Rightarrow> checkpoint_table \<Rightarrow> checkpoint_table" where
  "apply_checkpoint_op h run_id (PlainCheckpoint now i) t = record_checkpoint run_id (checkpoint_from_input h now i) t"
| "apply_checkpoint_op h run_id (CompactingCheckpoint now i) t =
     record_checkpoint_compacting_previous h run_id (checkpoint_from_input h now i) t"

definition input_ident :: "checkpoint_input \<Rightarrow> u64 \<times> string \<times> string" where
  "input_ident i = (ci_sequence_number i, ci_checkpoint_kind i, ci_status i)"

definition record_ident :: "checkpoint_record \<Rightarrow> u64 \<times> string \<times> string" where
  "record_ident r = (ck_sequence_number r, ck_checkpoint_kind r, ck_status r)"

text \<open>The specification: for every kind the last record that was saved.\<close>

definition save_last :: "hashing \<Rightarrow> checkpoint_op \<Rightarrow> (string \<Rightarrow> checkpoint_record option) \<Rightarrow> string \<Rightarrow> checkpoint_record option" where
  "save_last h x lasts = lasts(ck_checkpoint_kind (op_record h x) \<mapsto> op_record h x)"

text \<open>The rows of a run and the specification they stand for, up to a sequence number.\<close>

definition own_rows :: "string \<Rightarrow> checkpoint_table \<Rightarrow> checkpoint_record set" where
  "own_rows run_id t = {r. (run_id, r) \<in> set t}"

definition last_of :: "checkpoint_record set \<Rightarrow> string \<Rightarrow> checkpoint_record option \<Rightarrow> bool" where
  "last_of rows kind l \<longleftrightarrow>
     (case l of
        None \<Rightarrow> \<forall>r \<in> rows. ck_checkpoint_kind r \<noteq> kind
      | Some l \<Rightarrow> l \<in> rows \<and> ck_checkpoint_kind l = kind \<and>
          (\<forall>r \<in> rows. ck_checkpoint_kind r = kind \<longrightarrow> r = l \<or> ck_sequence_number r < ck_sequence_number l))"

definition stands_for ::
  "hashing \<Rightarrow> string \<Rightarrow> (u64 \<times> string \<times> string) set \<Rightarrow> nat \<Rightarrow> checkpoint_table \<Rightarrow> (string \<Rightarrow> checkpoint_record option) \<Rightarrow> bool" where
  "stands_for h run_id idents n t lasts \<longleftrightarrow>
     distinct_keys checkpoint_key t \<and> n < 2 ^ 63 \<and>
     (\<forall>r \<in> own_rows run_id t. unat (ck_sequence_number r) \<le> n \<and> record_ident r \<in> idents \<and>
        ck_checkpoint_id r = checkpoint_ident h (record_ident r)) \<and>
     (\<forall>kind. last_of (own_rows run_id t) kind (lasts kind))"

lemma last_of_simps [simp]:
  "last_of rows kind None \<longleftrightarrow> (\<forall>r \<in> rows. ck_checkpoint_kind r \<noteq> kind)"
  "last_of rows kind (Some l) \<longleftrightarrow> l \<in> rows \<and> ck_checkpoint_kind l = kind \<and>
     (\<forall>r \<in> rows. ck_checkpoint_kind r = kind \<longrightarrow> r = l \<or> ck_sequence_number r < ck_sequence_number l)"
  by (simp_all add: last_of_def)

lemma last_of_insert:
  assumes "last_of rows kind l" "\<forall>x \<in> rows. ck_sequence_number x < ck_sequence_number r"
  shows "last_of (insert r rows) kind (if kind = ck_checkpoint_kind r then Some r else l)"
  using assms by (cases l) auto

lemma last_of_replace:
  assumes "last_of rows kind l" "x \<in> rows" "l \<noteq> Some x"
    and "ck_sequence_number y = ck_sequence_number x" "ck_checkpoint_kind y = ck_checkpoint_kind x"
  shows "last_of (insert y (rows - {x})) kind l"
  using assms by (cases l) auto

lemma own_rows_record:
  assumes "distinct_keys checkpoint_key t"
  shows "own_rows run_id (record_checkpoint run_id r t) =
     insert r {x \<in> own_rows run_id t. ck_checkpoint_id x \<noteq> ck_checkpoint_id r}"
  using assms by (auto simp: own_rows_def record_checkpoint_def set_upsert checkpoint_key_def)

lemma distinct_keys_record: "distinct_keys checkpoint_key t \<Longrightarrow> distinct_keys checkpoint_key (record_checkpoint run_id r t)"
  by (auto simp: record_checkpoint_def)

lemma set_checkpoint_history:
  "set (checkpoint_history run_id kind t) = {r \<in> own_rows run_id t. kind \<in> {None, Some (ck_checkpoint_kind r)}}"
  by (force simp: checkpoint_history_def own_rows_def)

lemma latest_checkpoint_eq:
  assumes "stands_for h run_id idents n t lasts"
  shows "latest_checkpoint run_id kind t = lasts kind"
proof (cases "lasts kind")
  case None
  have "last_of (own_rows run_id t) kind (lasts kind)"
    using assms unfolding stands_for_def by blast
  with None have "set (checkpoint_history run_id (Some kind) t) = {}"
    unfolding set_checkpoint_history by auto
  with None show ?thesis
    by (simp add: latest_checkpoint_def)
next
  case (Some l)
  let ?rows = "checkpoint_history run_id (Some kind) t"
  let ?key = "\<lambda>r. (sint (ck_sequence_number r), ck_created_at r)"
  have small: "sint (ck_sequence_number r) = int (unat (ck_sequence_number r))" if "r \<in> own_rows run_id t" for r
    by (rule sint_small) (use assms that in \<open>auto simp: stands_for_def\<close>)
  have l: "l \<in> own_rows run_id t" "ck_checkpoint_kind l = kind"
      "\<forall>r \<in> own_rows run_id t. ck_checkpoint_kind r = kind \<longrightarrow> r = l \<or> ck_sequence_number r < ck_sequence_number l"
    using assms [unfolded stands_for_def] Some last_of_simps(2) [of "own_rows run_id t" kind l] by metis+
  then have mem: "l \<in> set ?rows"
    by (simp add: set_checkpoint_history)
  then have nonempty: "?rows \<noteq> []"
    by auto
  have "sorted (map ?key ?rows)"
    by (simp add: checkpoint_history_def)
  then have "?key l \<le> last (map ?key ?rows)"
    by (rule sorted_last_le) (use mem in simp)
  then have le: "sint (ck_sequence_number l) \<le> sint (ck_sequence_number (last ?rows))"
    using nonempty by (auto simp: last_map less_eq_prod_def)
  have last: "last ?rows \<in> own_rows run_id t" "ck_checkpoint_kind (last ?rows) = kind"
    using last_in_set [OF nonempty] by (auto simp: set_checkpoint_history)
  then have "last ?rows = l \<or> ck_sequence_number (last ?rows) < ck_sequence_number l"
    using l(3) by blast
  moreover have "\<not> unat (ck_sequence_number (last ?rows)) < unat (ck_sequence_number l)"
    using le unfolding small [OF l(1)] small [OF last(1)] by linarith
  ultimately have "last ?rows = l"
    by (simp add: word_less_nat_alt)
  with Some nonempty show ?thesis
    by (simp add: latest_checkpoint_def)
qed

lemma stands_for_last:
  assumes "stands_for h run_id idents n t lasts" "lasts kind = Some l"
  shows "l \<in> own_rows run_id t" "ck_checkpoint_kind l = kind"
  using assms(1) [unfolded stands_for_def] assms(2) last_of_simps(2) [of "own_rows run_id t" kind l] by metis+

lemma stands_for_row:
  assumes "stands_for h run_id idents n t lasts" "r \<in> own_rows run_id t"
  shows "unat (ck_sequence_number r) \<le> n" "record_ident r \<in> idents" "ck_checkpoint_id r = checkpoint_ident h (record_ident r)"
    "distinct_keys checkpoint_key t"
  using assms unfolding stands_for_def by auto

text \<open>A row with a new sequence number becomes the last of its kind.\<close>

lemma record_new:
  assumes "stands_for h run_id idents n t lasts" "inj_on (checkpoint_ident h) idents"
    and "r = checkpoint_from_input h now i" "input_ident i \<in> idents"
    and "n < unat (ci_sequence_number i)" "unat (ci_sequence_number i) < 2 ^ 63"
  shows "stands_for h run_id idents (unat (ci_sequence_number i)) (record_checkpoint run_id r t)
     (lasts(ck_checkpoint_kind r \<mapsto> r))"
proof -
  have r: "record_ident r = input_ident i" "ck_checkpoint_id r = checkpoint_ident h (record_ident r)"
      "ck_sequence_number r = ci_sequence_number i"
    using assms(3) by (simp_all add: checkpoint_from_input_def record_ident_def input_ident_def)
  have less: "ck_sequence_number x < ck_sequence_number r" if "x \<in> own_rows run_id t" for x
    using stands_for_row(1) [OF assms(1) that] assms(5) r(3) by (simp add: word_less_nat_alt)
  have new: "ck_checkpoint_id x \<noteq> ck_checkpoint_id r" if "x \<in> own_rows run_id t" for x
  proof
    assume "ck_checkpoint_id x = ck_checkpoint_id r"
    then have "record_ident x = record_ident r"
      using stands_for_row(2,3) [OF assms(1) that] r assms(2,4) by (auto dest: inj_onD)
    then show False
      using less [OF that] by (simp add: record_ident_def)
  qed
  have distinct: "distinct_keys checkpoint_key t"
    using assms(1) by (simp add: stands_for_def)
  have rows: "own_rows run_id (record_checkpoint run_id r t) = insert r (own_rows run_id t)"
    using new by (auto simp: own_rows_record [OF distinct])
  have "unat (ck_sequence_number x) \<le> unat (ci_sequence_number i)" if "x \<in> own_rows run_id t" for x
    using stands_for_row(1) [OF assms(1) that] assms(5) by simp
  moreover have "last_of (insert r (own_rows run_id t)) kind ((lasts(ck_checkpoint_kind r \<mapsto> r)) kind)" for kind
    unfolding fun_upd_apply by (rule last_of_insert) (use less assms(1) in \<open>auto simp: stands_for_def\<close>)
  ultimately show ?thesis
    using assms(1,4,6) r stands_for_row [OF assms(1)] distinct_keys_record [OF distinct]
    unfolding stands_for_def rows by auto
qed

text \<open>A row that is not the last of its kind may be replaced.\<close>

lemma replace_old:
  assumes "stands_for h run_id idents n t lasts" "x \<in> own_rows run_id t" "lasts (ck_checkpoint_kind x) \<noteq> Some x"
    and "record_ident y = record_ident x" "ck_checkpoint_id y = ck_checkpoint_id x"
  shows "stands_for h run_id idents n (record_checkpoint run_id y t) lasts"
proof -
  note row = stands_for_row [OF assms(1)]
  have y: "ck_sequence_number y = ck_sequence_number x" "ck_checkpoint_kind y = ck_checkpoint_kind x"
    using assms(4) by (simp_all add: record_ident_def)
  have unique: "z = x" if "z \<in> own_rows run_id t" "ck_checkpoint_id z = ck_checkpoint_id x" for z
  proof -
    have "(run_id, z) = (run_id, x)"
      using row(4) [OF assms(2)] that assms(2) unfolding distinct_keys_def own_rows_def
      by (intro inj_onD [of checkpoint_key "set t"]) (auto simp: distinct_map checkpoint_key_def)
    then show ?thesis by simp
  qed
  have rows: "own_rows run_id (record_checkpoint run_id y t) = insert y (own_rows run_id t - {x})"
    unfolding own_rows_record [OF row(4) [OF assms(2)]] assms(5) using unique by auto
  have "last_of (insert y (own_rows run_id t - {x})) kind (lasts kind)" for kind
  proof (rule last_of_replace [OF _ assms(2) _ y])
    show "last_of (own_rows run_id t) kind (lasts kind)"
      using assms(1) unfolding stands_for_def by blast
    show "lasts kind \<noteq> Some x"
      using assms(3) stands_for_last(2) [OF assms(1), of kind x] by auto
  qed
  then show ?thesis
    using assms(1,2,4,5) y row distinct_keys_record [OF row(4) [OF assms(2)]] unfolding stands_for_def rows by auto
qed

lemma compacted_ident:
  "record_ident (storage_compacted_summary n r) = record_ident r"
  "ck_checkpoint_id (storage_compacted_summary n r) = ck_checkpoint_id r"
  by (simp_all add: storage_compacted_summary_def record_ident_def Let_def)

lemma apply_checkpoint_op_stands_for:
  assumes "stands_for h run_id idents n t lasts" "inj_on (checkpoint_ident h) idents"
    and "input_ident (op_input x) \<in> idents"
    and "n < unat (ci_sequence_number (op_input x))" "unat (ci_sequence_number (op_input x)) < 2 ^ 63"
  shows "stands_for h run_id idents (unat (ci_sequence_number (op_input x))) (apply_checkpoint_op h run_id x t) (save_last h x lasts)"
proof -
  have input: "op_record h x = checkpoint_from_input h (case x of PlainCheckpoint a _ \<Rightarrow> a | CompactingCheckpoint a _ \<Rightarrow> a) (op_input x)"
    by (cases x) simp_all
  note new = record_new [OF assms(1,2) input assms(3-5)]
  show ?thesis
  proof (cases x)
    case (PlainCheckpoint now i)
    with new show ?thesis
      by (simp add: save_last_def)
  next
    case (CompactingCheckpoint now i)
    let ?r = "checkpoint_from_input h now i"
    let ?lasts = "lasts(ck_checkpoint_kind ?r \<mapsto> ?r)"
    have ok: "stands_for h run_id idents (unat (ci_sequence_number i)) (record_checkpoint run_id ?r t) ?lasts"
      using new CompactingCheckpoint by simp
    have "stands_for h run_id idents (unat (ci_sequence_number i))
        (record_checkpoint_compacting_previous h run_id ?r t) ?lasts"
    proof (cases "lasts (ck_checkpoint_kind ?r)")
      case None
      then show ?thesis
        using ok latest_checkpoint_eq [OF assms(1)] by (simp add: record_checkpoint_compacting_previous_def Let_def)
    next
      case (Some l)
      note l = stands_for_last [OF assms(1) Some]
      show ?thesis
      proof (cases "ck_checkpoint_id l = ck_checkpoint_id ?r \<or> ck_sequence_number ?r \<le> ck_sequence_number l \<or> is_storage_compacted l")
        case True
        with Some ok show ?thesis
          using latest_checkpoint_eq [OF assms(1)] by (simp add: record_checkpoint_compacting_previous_def Let_def)
      next
        case False
        have mem: "l \<in> own_rows run_id (record_checkpoint run_id ?r t)"
          using l(1) False stands_for_row(4) [OF assms(1) l(1)] by (simp add: own_rows_record)
        have "?lasts (ck_checkpoint_kind l) \<noteq> Some l"
          using l(2) False by auto
        note ok' = replace_old [OF ok mem this compacted_ident]
        show ?thesis
          unfolding record_checkpoint_compacting_previous_def Let_def latest_checkpoint_eq [OF assms(1)] Some
          using False ok' by (simp del: fun_upd_apply)
      qed
    qed
    then show ?thesis
      using CompactingCheckpoint by (simp add: save_last_def)
  qed
qed

lemma checkpoint_ops_stand_for:
  assumes "stands_for h run_id idents n t lasts" "inj_on (checkpoint_ident h) idents"
    and "input_ident ` op_input ` set ops \<subseteq> idents"
    and "sorted_wrt (<) (n # map (\<lambda>x. unat (ci_sequence_number (op_input x))) ops)"
    and "\<forall>x \<in> set ops. unat (ci_sequence_number (op_input x)) < 2 ^ 63"
  shows "\<exists>m. stands_for h run_id idents m (fold (apply_checkpoint_op h run_id) ops t) (fold (save_last h) ops lasts)"
  using assms
proof (induction ops arbitrary: n t lasts)
  case (Cons x ops)
  have "stands_for h run_id idents (unat (ci_sequence_number (op_input x))) (apply_checkpoint_op h run_id x t) (save_last h x lasts)"
    by (rule apply_checkpoint_op_stands_for [OF Cons.prems(1,2)]) (use Cons.prems in auto)
  from Cons.IH [OF this Cons.prems(2)] Cons.prems show ?case
    by simp
qed auto

lemma fold_save_last:
  "fold (save_last h) ops lasts kind =
     or_else (map_option (op_record h) (find (\<lambda>x. ci_checkpoint_kind (op_input x) = kind) (rev ops))) (lasts kind)"
proof (induction ops arbitrary: lasts)
  case (Cons x ops)
  have kind: "ck_checkpoint_kind (op_record h x) = ci_checkpoint_kind (op_input x)"
    by (cases x) (simp_all add: checkpoint_from_input_def)
  have "find p (ys @ [x]) = or_else (find p ys) (if p x then Some x else None)" for p ys
    by (induction ys) (simp_all add: or_else_def)
  then show ?case
    unfolding fold_simps Cons.IH unfolding save_last_def by (simp add: kind or_else_def split: option.split)
qed simp


definition sample_saving :: "u64 \<Rightarrow> string \<Rightarrow> checkpoint_op" where
  "sample_saving n cursor = CompactingCheckpoint ''t''
     \<lparr>ci_sequence_number = n, ci_checkpoint_kind = ''gepa_cursor'', ci_status = ''completed'', ci_run_state = ''heldout'',
      ci_reason = None, ci_generation = None, ci_candidate_id = None, ci_evaluation_stage = None,
      ci_best_candidate_id = None, ci_candidate_count = 1, ci_frontier_count = 1, ci_rollout_count = 0,
      ci_cost_usd = f64_zero, ci_usage = JNull, ci_snapshot = JStr cursor, ci_metadata = []\<rparr>"

text \<open>A digest that keeps the whole text, which has no collisions on the identifiers of the sample.\<close>

definition text_hashing :: hashing where
  "text_hashing = \<lparr>to_json_string = (\<lambda>_. []), sha256_hex = (\<lambda>s. drop 10 s @ replicate 16 (CHR ''0''))\<rparr>"


end
