(* ===== verification/Heldout_Phase.thy ===== *)
theory Heldout_Phase
  imports Score_Vectors Candidate_Identities "HOL-Library.Product_Lexorder"
begin

text \<open>
  \<open>lib.rs\<close>, the choice of the candidates that are evaluated on the held-out rows: the eligible ones, and
  which of them the remaining rollouts allow. Indices and counts are naturals; \<open>None\<close> is a panic (an index
  outside the registry). \<open>f64::total_cmp\<close> orders the one NaN of \<open>f64\<close> after infinity.
\<close>

definition heldout_candidate_eligible :: "candidate_record \<Rightarrow> nat option \<Rightarrow> f64 option \<Rightarrow> nat \<Rightarrow> bool" where
  "heldout_candidate_eligible c best_idx best_train_reward candidate_idx =
     (case ca_train_reward c of None \<Rightarrow> False
      | Some train_reward \<Rightarrow>
          if ca_train_scores c = [] then False
          else if best_idx = Some candidate_idx \<or> ca_source c = ''seed'' then True
          else if ca_status c \<noteq> ''rejected_full_train'' then False
          else (case best_train_reward of None \<Rightarrow> False
                | Some best \<Rightarrow> f64_le best (f64_add train_reward f64_epsilon)))"

definition heldout_candidate_indices :: "candidate_record list \<Rightarrow> nat option \<Rightarrow> nat list" where
  "heldout_candidate_indices candidates best_idx =
     (let best_train_reward = Option.bind (Option.bind best_idx (nth_opt candidates)) ca_train_reward;
          indices = filter (\<lambda>i. heldout_candidate_eligible (candidates ! i) best_idx best_train_reward i)
            [0..<length candidates]
      in if indices = [] then (case best_idx of None \<Rightarrow> [] | Some i \<Rightarrow> [i]) else indices)"

definition minimum_terminal_heldout_candidate_count :: "nat list \<Rightarrow> nat option \<Rightarrow> nat" where
  "minimum_terminal_heldout_candidate_count indices best_idx =
     (if indices = [] then 0
      else if (case best_idx of None \<Rightarrow> False | Some i \<Rightarrow> i \<noteq> 0 \<and> i \<in> set indices) \<and> 0 \<in> set indices then 2
      else 1)"

text \<open>A key that puts rewards in the reverse of \<open>total_cmp\<close>.\<close>

fun reverse_total_rank :: "f64 \<Rightarrow> int \<times> rat \<times> int" where
  "reverse_total_rank F64_NaN = (- 2, 0, 0)"
| "reverse_total_rank (F64_Inf s) = (if s then 1 else - 1, 0, 0)"
| "reverse_total_rank (F64_Fin s m) = (0, - f64_val (F64_Fin s m), if s then 1 else 0)"

definition train_key :: "candidate_record \<Rightarrow> (int \<times> rat \<times> int) \<times> string" where
  "train_key c = (reverse_total_rank (unwrap_or (F64_Inf True) (ca_train_reward c)), ca_candidate_id c)"

definition push_index :: "nat list \<Rightarrow> nat \<Rightarrow> nat \<Rightarrow> nat list \<Rightarrow> nat list" where
  "push_index indices max_candidates idx selected =
     (if idx \<in> set indices \<and> idx \<notin> set selected \<and> length selected < max_candidates then selected @ [idx] else selected)"

definition budgeted_heldout_candidate_indices ::
  "candidate_record list \<Rightarrow> nat list \<Rightarrow> nat option \<Rightarrow> nat \<Rightarrow> nat \<Rightarrow> nat list option" where
  "budgeted_heldout_candidate_indices candidates indices best_idx available_rollouts heldout_row_count =
     (if heldout_row_count = 0 \<or> indices = [] then Some indices
      else let max_candidates = available_rollouts div heldout_row_count in
        if length indices \<le> max_candidates then Some indices
        else if max_candidates < minimum_terminal_heldout_candidate_count indices best_idx then Some []
        else if max_candidates = 0 then Some []
        else if \<not> list_all (\<lambda>i. i < length candidates) indices then None
        else let preferred = (case best_idx of None \<Rightarrow> [] | Some i \<Rightarrow> [i]) @ [0];
                 by_train = sort_key (\<lambda>i. train_key (candidates ! i)) indices
             in Some (fold (push_index indices max_candidates) (preferred @ by_train) []))"

subsection \<open>The selection fits its budget\<close>

lemma push_index_facts:
  assumes "distinct selected" "set selected \<subseteq> set indices" "length selected \<le> k"
  shows "distinct (push_index indices k i selected)" "set (push_index indices k i selected) \<subseteq> set indices"
    "length (push_index indices k i selected) \<le> k" "set selected \<subseteq> set (push_index indices k i selected)"
  using assms by (auto simp: push_index_def)

lemma fold_push_index:
  assumes "distinct selected" "set selected \<subseteq> set indices" "length selected \<le> k"
  shows "distinct (fold (push_index indices k) xs selected) \<and> set (fold (push_index indices k) xs selected) \<subseteq> set indices \<and>
     length (fold (push_index indices k) xs selected) \<le> k \<and> set selected \<subseteq> set (fold (push_index indices k) xs selected)"
  using assms
proof (induction xs arbitrary: selected)
  case (Cons x xs)
  note * = push_index_facts [OF Cons.prems, of x]
  show ?case
    using Cons.IH [OF *(1-3)] *(4) by auto
qed simp

text \<open>Until the limit is reached every index of the list is taken.\<close>

lemma fold_push_index_takes:
  assumes "distinct selected" "set selected \<subseteq> set indices" "length selected \<le> k"
    and "length (fold (push_index indices k) xs selected) < k"
  shows "set xs \<inter> set indices \<subseteq> set (fold (push_index indices k) xs selected)"
  using assms
proof (induction xs arbitrary: selected)
  case (Cons x xs)
  note * = push_index_facts [OF Cons.prems(1-3), of x]
  note keep = fold_push_index [OF *(1-3), of xs]
  have "length selected < k"
  proof -
    have "length selected = card (set selected)"
      using Cons.prems(1) by (simp add: distinct_card)
    also have "\<dots> \<le> card (set (fold (push_index indices k) xs (push_index indices k x selected)))"
      using keep *(4) by (intro card_mono) auto
    also have "\<dots> = length (fold (push_index indices k) xs (push_index indices k x selected))"
      using keep by (simp add: distinct_card)
    finally show ?thesis
      using Cons.prems(4) by simp
  qed
  then have "x \<in> set indices \<Longrightarrow> x \<in> set (push_index indices k x selected)"
    by (simp add: push_index_def)
  then show ?case
    using Cons.IH [OF *(1-3)] Cons.prems(4) keep by auto
qed simp

text \<open>What is taken from a sorted list comes before what is left.\<close>

lemma fold_push_index_order:
  assumes "distinct selected" "set selected \<subseteq> set indices" "length selected \<le> k" "sorted (map f xs)"
    and "i \<in> set (fold (push_index indices k) xs selected)" "i \<notin> set selected"
    and "j \<in> set xs" "j \<in> set indices" "j \<notin> set (fold (push_index indices k) xs selected)"
  shows "f i \<le> f j"
  using assms
proof (induction xs arbitrary: selected)
  case (Cons x xs)
  note * = push_index_facts [OF Cons.prems(1-3), of x]
  note keep = fold_push_index [OF *(1-3), of xs]
  have step: "set (push_index indices k x selected) \<subseteq> insert x (set selected)"
    by (auto simp: push_index_def)
  have i_from: "i \<in> set xs \<or> i \<in> set (push_index indices k x selected)"
  proof -
    have "set (fold (push_index indices k) ys s) \<subseteq> set ys \<union> set s" for ys s
      by (induction ys arbitrary: s) (force simp: push_index_def split: if_splits)+
    then show ?thesis
      using Cons.prems(5) by auto
  qed
  show ?case
  proof (cases "j = x")
    case True
    then have "x \<notin> set (push_index indices k x selected)"
      using Cons.prems(9) keep by auto
    then have "length selected = k"
      using Cons.prems(3,8) True by (auto simp: push_index_def split: if_splits)
    then have "push_index indices k y selected = selected" for y
      by (simp add: push_index_def)
    then have "fold (push_index indices k) ys selected = selected" for ys
      by (induction ys) simp_all
    then have "fold (push_index indices k) (x # xs) selected = selected" .
    with Cons.prems(5,6) show ?thesis
      by simp
  next
    case False
    show ?thesis
    proof (cases "i \<in> set (push_index indices k x selected)")
      case True
      then have "i = x"
        using step Cons.prems(6) by auto
      with False show ?thesis
        using Cons.prems(4,7) by auto
    next
      case False
      then show ?thesis
        using Cons.IH [OF *(1-3)] Cons.prems(4-9) \<open>j \<noteq> x\<close> by auto
    qed
  qed
qed simp

lemma heldout_indices_distinct: "distinct (heldout_candidate_indices candidates best_idx)"
  by (auto simp: heldout_candidate_indices_def Let_def split: option.split)

lemma heldout_indices_in_range:
  assumes "\<forall>b. best_idx = Some b \<longrightarrow> b < length candidates" "i \<in> set (heldout_candidate_indices candidates best_idx)"
  shows "i < length candidates"
  using assms by (auto simp: heldout_candidate_indices_def Let_def split: if_splits option.splits)

text \<open>
  C5. The held-out evaluation is planned within its budget: the chosen candidates are different eligible
  ones, as many as the available rollouts allow for all held-out rows, and none only if the budget does
  not allow the best candidate and, where it is eligible, the seed. When something is chosen, the best
  candidate and the seed are among it, and every other chosen candidate comes before every one left out
  in the order of training rewards.
\<close>

theorem heldout_selection_fits_budget:
  fixes candidates best_idx
  defines "indices \<equiv> heldout_candidate_indices candidates best_idx"
  assumes "0 < rows" "\<forall>b. best_idx = Some b \<longrightarrow> b < length candidates"
  shows "\<exists>chosen. budgeted_heldout_candidate_indices candidates indices best_idx available rows = Some chosen \<and>
     distinct chosen \<and> set chosen \<subseteq> set indices \<and> length chosen * rows \<le> available \<and>
     (chosen = [] \<longleftrightarrow> available div rows < minimum_terminal_heldout_candidate_count indices best_idx \<or> indices = []) \<and>
     (chosen \<noteq> [] \<longrightarrow> length chosen = min (length indices) (available div rows) \<and>
        set indices \<inter> insert 0 (set_option best_idx) \<subseteq> set chosen \<and>
        (\<forall>i \<in> set chosen - insert 0 (set_option best_idx). \<forall>j \<in> set indices - set chosen.
           train_key (candidates ! i) \<le> train_key (candidates ! j)))"
proof -
  let ?k = "available div rows" and ?min = "minimum_terminal_heldout_candidate_count indices best_idx"
  have distinct: "distinct indices"
    by (simp add: indices_def heldout_indices_distinct)
  have fits: "n \<le> ?k \<Longrightarrow> n * rows \<le> available" for n
    using \<open>0 < rows\<close> by (simp add: less_eq_div_iff_mult_less_eq)
  have range: "list_all (\<lambda>i. i < length candidates) indices"
    using heldout_indices_in_range [OF assms(3)] by (simp add: indices_def list_all_iff)
  consider "indices = []" | "indices \<noteq> []" "length indices \<le> ?k" | "indices \<noteq> []" "?k < length indices" "?k < ?min"
    | "indices \<noteq> []" "?k < length indices" "?min \<le> ?k"
    by linarith
  then show ?thesis
  proof cases
    case 1
    then show ?thesis
      by (simp add: budgeted_heldout_candidate_indices_def)
  next
    case 2
    have "card {the best_idx, 0} \<le> card (set indices)" if "?min = 2"
      using that by (intro card_mono) (auto simp: minimum_terminal_heldout_candidate_count_def split: if_splits option.splits)
    then have "?min \<le> length indices"
      using 2 distinct by (auto simp: minimum_terminal_heldout_candidate_count_def distinct_card card_insert_if
          Suc_le_eq split: if_splits option.splits)
    then show ?thesis
      using 2 distinct fits \<open>0 < rows\<close> by (auto simp: budgeted_heldout_candidate_indices_def)
  next
    case 3
    then show ?thesis
      using \<open>0 < rows\<close> by (simp add: budgeted_heldout_candidate_indices_def)
  next
    case 4
    let ?preferred = "(case best_idx of None \<Rightarrow> [] | Some i \<Rightarrow> [i]) @ [0]"
    let ?by_train = "sort_key (\<lambda>i. train_key (candidates ! i)) indices"
    let ?first = "fold (push_index indices ?k) ?preferred []"
    let ?chosen = "fold (push_index indices ?k) (?preferred @ ?by_train) []"
    have pos: "0 < ?min"
      using 4(1) by (simp add: minimum_terminal_heldout_candidate_count_def)
    then have run: "budgeted_heldout_candidate_indices candidates indices best_idx available rows = Some ?chosen"
      using 4 range \<open>0 < rows\<close> by (simp add: budgeted_heldout_candidate_indices_def Let_def)
    have keep: "distinct ?chosen" "set ?chosen \<subseteq> set indices" "length ?chosen \<le> ?k"
      using fold_push_index [of "[]" indices ?k "?preferred @ ?by_train"] by simp_all
    have first: "distinct ?first" "set ?first \<subseteq> set indices" "length ?first \<le> ?k"
      using fold_push_index [of "[]" indices ?k ?preferred] by simp_all
    have chosen: "?chosen = fold (push_index indices ?k) ?by_train ?first"
      by (simp del: fold_simps)
    have full: "length ?chosen = ?k"
    proof (rule ccontr)
      assume "length ?chosen \<noteq> ?k"
      then have "set indices \<subseteq> set ?chosen"
        using fold_push_index_takes [of "[]" indices ?k "?preferred @ ?by_train"] keep(3) by auto
      then have "length indices \<le> length ?chosen"
        using distinct keep(1) card_mono [OF finite_set, of "set indices" ?chosen] by (simp add: distinct_card)
      then show False
        using 4(2) keep(3) by simp
    qed
    have preferred: "set indices \<inter> insert 0 (set_option best_idx) \<subseteq> set ?first"
      using 4(3) pos by (auto simp: push_index_def minimum_terminal_heldout_candidate_count_def
          split: option.split_asm option.split if_splits)
    have first_only: "set ?first \<subseteq> insert 0 (set_option best_idx)"
      by (auto simp: push_index_def split: option.splits if_splits)
    have mono: "set ?first \<subseteq> set ?chosen"
      unfolding chosen using fold_push_index [OF first] by blast
    have order: "train_key (candidates ! i) \<le> train_key (candidates ! j)"
      if "i \<in> set ?chosen" "i \<notin> insert 0 (set_option best_idx)" "j \<in> set indices" "j \<notin> set ?chosen" for i j
    proof (rule fold_push_index_order [OF first, where f = "\<lambda>i. train_key (candidates ! i)" and xs = ?by_train])
      show "i \<notin> set ?first"
        using that(2) first_only by blast
    qed (use that in \<open>simp_all add: chosen\<close>)
    have "?chosen \<noteq> []"
      using full pos 4(3) by force
    then show ?thesis
      using run keep full preferred mono order 4 fits by (intro exI [of _ ?chosen]) auto
  qed
qed

definition trained_candidate :: "string \<Rightarrow> string \<Rightarrow> string \<Rightarrow> f64 \<Rightarrow> candidate_record" where
  "trained_candidate candidate_id source status reward =
     \<lparr>ca_candidate_id = candidate_id, ca_payload = [], ca_lever_bundle = JNull, ca_parent_id = None, ca_source = source,
      ca_status = status, ca_minibatch_reward = None, ca_train_reward = Some reward, ca_heldout_reward = None,
      ca_minibatch_scores = [], ca_train_scores = [\<lparr>rs_example_id = ''a'', rs_task_id = ''a'', rs_reward = reward\<rparr>],
      ca_sensor_frames = [], ca_acceptance_score = JNull, ca_acceptance_metadata = []\<rparr>"

text \<open>A seed, two candidates that tie and the best one, with rollouts for three of the four.\<close>

theorem heldout_selection_fits_budget_witness:
  "\<exists>chosen. budgeted_heldout_candidate_indices
     [trained_candidate ''s'' ''seed'' ''full_train_evaluated'' f64_zero,
      trained_candidate ''b'' ''reflector'' ''rejected_full_train'' (F64_Fin False 1),
      trained_candidate ''a'' ''reflector'' ''rejected_full_train'' (F64_Fin False 1),
      trained_candidate ''c'' ''reflector'' ''accepted'' (F64_Fin False 1)]
     (heldout_candidate_indices
       [trained_candidate ''s'' ''seed'' ''full_train_evaluated'' f64_zero,
        trained_candidate ''b'' ''reflector'' ''rejected_full_train'' (F64_Fin False 1),
        trained_candidate ''a'' ''reflector'' ''rejected_full_train'' (F64_Fin False 1),
        trained_candidate ''c'' ''reflector'' ''accepted'' (F64_Fin False 1)] (Some 3)) (Some 3) 7 2 = Some chosen \<and>
     length chosen * 2 \<le> 7"
  using heldout_selection_fits_budget [of 2 "Some 3"
     "[trained_candidate ''s'' ''seed'' ''full_train_evaluated'' f64_zero,
       trained_candidate ''b'' ''reflector'' ''rejected_full_train'' (F64_Fin False 1),
       trained_candidate ''a'' ''reflector'' ''rejected_full_train'' (F64_Fin False 1),
       trained_candidate ''c'' ''reflector'' ''accepted'' (F64_Fin False 1)]" 7]
  by auto

end
