(* ===== verification/Rollout_Dispatch.thy ===== *)
theory Rollout_Dispatch
  imports Candidate_Identities Candidate_Admission Request_Cache
begin

text \<open>
  The job of a rollout batch (\<open>lib.rs\<close>, dispatch records of \<open>runtime.rs\<close>): the request of every rollout,
  the order in which the rows of several candidates are dispatched, the key under which the batch is
  planned once, and its budget.
\<close>

subsection \<open>Requests\<close>

fun as_i64 :: "json \<Rightarrow> int option" where
  "as_i64 (JNum (PosInt n)) = (if unat n < 2 ^ 63 then Some (int (unat n)) else None)"
| "as_i64 (JNum (NegInt i)) = Some i"
| "as_i64 _ = None"

definition json_i64 :: "int \<Rightarrow> json" where
  "json_i64 i = JNum (if 0 \<le> i then PosInt (of_int i) else NegInt i)"

definition policy_json :: "policy_config \<Rightarrow> json" where
  "policy_json c = JObj (insert_opt ''config'' (if po_config c = [] then None else Some (JObj (po_config c))) (obj_of
     [(''enabled'', JBool (po_enabled c)), (''provider'', JStr (po_provider c)), (''model'', JStr (po_model c)),
      (''policy_type'', json_str_opt (po_policy_type c)), (''api_family'', JStr (po_api_family c)),
      (''base_url'', json_str_opt (po_base_url c)), (''inference_url'', json_str_opt (po_inference_url c)),
      (''max_tokens'', json_u64_opt (po_max_tokens c)), (''disable_reasoning'', JStr (po_disable_reasoning c)),
      (''tool_call_style'', JStr (po_tool_call_style c)), (''proxy_mode'', JStr (po_proxy_mode c)),
      (''credential_mode'', JStr (po_credential_mode c))]))"

definition rollout_submission_mode_for_request :: "synth_optimizer_config \<Rightarrow> string" where
  "rollout_submission_mode_for_request c =
     (let mode = to_ascii_lowercase (trim (gc_rollout_submission_mode (so_gepa c)))
      in if mode = [] then ''sync'' else mode)"

definition rollout_policy_for_request :: "synth_optimizer_config \<Rightarrow> json" where
  "rollout_policy_for_request c = (if po_enabled (so_policy c) then policy_json (so_policy c) else JNull)"

definition expected_prompt :: "hashing \<Rightarrow> payload \<Rightarrow> string \<Rightarrow> json_map \<Rightarrow> json_map" where
  "expected_prompt h texts field expected =
     (case map_of texts field of None \<Rightarrow> expected
      | Some prompt \<Rightarrow> obj_insert field (JObj (obj_of
          [(''sha256'', JStr (sha256_text h prompt)), (''bytes'', json_len prompt),
           (''source'', JStr (''candidate.'' @ field)), (''must_reach'', JStr ''policy_llm_system_message'')])) expected)"

definition prompt_assertions_for_candidate :: "hashing \<Rightarrow> payload \<Rightarrow> synth_optimizer_config \<Rightarrow> json" where
  "prompt_assertions_for_candidate h texts c =
     (let expected = fold (expected_prompt h texts) (cn_target_modules (so_candidate c)) []
      in JObj (obj_of
        [(''schema_version'', JStr ''prompt_assertions.v1''), (''required'', JBool (expected \<noteq> [])),
         (''proxy_mode'', JStr (po_proxy_mode (so_policy c))), (''expected_candidate_prompts'', JObj expected)]))"

definition deterministic_child_rollout_id :: "hashing \<Rightarrow> string \<Rightarrow> string \<Rightarrow> string \<Rightarrow> string \<Rightarrow> string" where
  "deterministic_child_rollout_id h run_id candidate_id stage example_id =
     (let nul = [char_of (0 :: int)]
      in ''gepa_'' @ take 24 (sha256_text h (run_id @ nul @ candidate_id @ nul @ stage @ nul @ example_id)))"

record rollout_dispatch_item =
  di_cache_metadata :: json_map
  di_request :: json
  di_candidate_id :: string
  di_stage :: string
  di_example_id :: string
  di_task_id :: string

definition rollout_request ::
  "hashing \<Rightarrow> synth_optimizer_config \<Rightarrow> string \<Rightarrow> rollout_batch_candidate \<Rightarrow> json \<Rightarrow> string \<Rightarrow> json" where
  "rollout_request h c task_id gr row example_id =
     (let candidate = rb_candidate gr;
          texts = payload_to_value (ca_payload candidate);
          seed = unwrap_or 0 (Option.bind (json_get row ''seed'') as_i64)
      in JObj (obj_of
        [(''rollout_id'', JStr (deterministic_child_rollout_id h (so_run_id c) (ca_candidate_id candidate)
            (rb_stage gr) example_id)),
         (''submission_mode'', JStr (rollout_submission_mode_for_request c)), (''task_id'', JStr task_id),
         (''candidate'', texts), (''candidate_overlay'', JObj [(''candidate'', texts), (''metadata'', JObj [])]),
         (''prompt_assertions'', prompt_assertions_for_candidate h (ca_payload candidate) c),
         (''policy'', rollout_policy_for_request c), (''task'', row),
         (''metadata'', JObj (obj_of [(''candidate_id'', JStr (ca_candidate_id candidate)), (''seed'', json_i64 seed),
            (''evaluation_arm'', JStr ''primary'')]))]))"

definition rollout_item ::
  "hashing \<Rightarrow> synth_optimizer_config \<Rightarrow> string \<Rightarrow> rollout_batch_candidate \<times> json \<Rightarrow> rollout_dispatch_item result" where
  "rollout_item h c task_id = (\<lambda>(gr, row).
     map_sum id (\<lambda>example_id. let candidate_id = ca_candidate_id (rb_candidate gr) in
       \<lparr>di_cache_metadata = obj_of [(''candidate_id'', JStr candidate_id), (''evaluation_stage'', JStr (rb_stage gr)),
          (''example_id'', JStr example_id), (''task_id'', JStr task_id)],
        di_request = rollout_request h c task_id gr row example_id,
        di_candidate_id = candidate_id, di_stage = rb_stage gr, di_example_id = example_id, di_task_id = task_id\<rparr>)
       (task_identity h row))"

text \<open>The rows in the order of their dispatch: the first row of every candidate, then the second, and so on.\<close>

definition dispatch_rows :: "rollout_batch_candidate list \<Rightarrow> (rollout_batch_candidate \<times> json) list" where
  "dispatch_rows groups =
     (let max_rows = fold (\<lambda>gr. max (length (rb_rows gr))) groups 0
      in concat (map (\<lambda>i. List.map_filter (\<lambda>gr. map_option (Pair gr) (nth_opt (rb_rows gr) i)) groups)
           [0..<max_rows]))"

definition dispatch_items ::
  "hashing \<Rightarrow> synth_optimizer_config \<Rightarrow> string \<Rightarrow> rollout_batch_candidate list \<Rightarrow> rollout_dispatch_item list result" where
  "dispatch_items h c task_id groups = collect_results (rollout_item h c task_id) (dispatch_rows groups)"

subsection \<open>The plan of a batch\<close>

definition scale_u64_budget :: "u64 option \<Rightarrow> u64 \<Rightarrow> u64 option" where
  "scale_u64_budget v factor = map_option (\<lambda>item. saturating_mul item factor) v"

definition rollout_budget_estimate_for_count :: "synth_optimizer_config \<Rightarrow> nat \<Rightarrow> budget_estimate" where
  "rollout_budget_estimate_for_count c rollout_count =
     (let estimate = cl_rollout_estimate (configured_limits_from_config c); factor = of_nat rollout_count
      in \<lparr>es_max_cost_usd = map_option (\<lambda>v. f64_mul v (f64_of_nat rollout_count)) (es_max_cost_usd estimate),
          es_max_prompt_tokens = scale_u64_budget (es_max_prompt_tokens estimate) factor,
          es_max_completion_tokens = scale_u64_budget (es_max_completion_tokens estimate) factor,
          es_max_total_tokens = scale_u64_budget (es_max_total_tokens estimate) factor,
          es_max_rollouts = scale_u64_budget (es_max_rollouts estimate) factor,
          es_max_wall_seconds = scale_u64_budget (es_max_wall_seconds estimate) factor\<rparr>)"

definition dispatch_item_json :: "rollout_dispatch_item \<Rightarrow> json" where
  "dispatch_item_json i = JObj (obj_of
     [(''cache_metadata'', JObj (di_cache_metadata i)), (''request'', di_request i),
      (''candidate_id'', JStr (di_candidate_id i)), (''stage'', JStr (di_stage i)),
      (''example_id'', JStr (di_example_id i)), (''task_id'', JStr (di_task_id i))])"

definition rollout_batch_payload :: "string \<Rightarrow> rollout_dispatch_item list \<Rightarrow> json" where
  "rollout_batch_payload cache_namespace rollouts = JObj (obj_of
     [(''schema_version'', JStr ''gepa_runtime_job.v1''), (''dispatch_kind'', JStr ''rollout_batch''),
      (''cache_namespace'', JStr cache_namespace), (''cache_profile'', JStr ''rollout_request''),
      (''rollouts'', JArr (map dispatch_item_json rollouts))])"

definition push_new :: "'a \<Rightarrow> 'a list \<Rightarrow> 'a list" where
  "push_new x xs = (if x \<in> set xs then xs else xs @ [x])"

definition batch_plan_input ::
  "hashing \<Rightarrow> synth_optimizer_config \<Rightarrow> string \<Rightarrow> string \<Rightarrow> rollout_batch_candidate list \<Rightarrow> rollout_dispatch_item list \<Rightarrow>
   plan_input" where
  "batch_plan_input h c namespace task_id groups items =
     (let rollout_namespace = namespace @ '':container.rollout'';
          rollout_count = requested_rollouts groups;
          candidate_ids = fold (\<lambda>gr. push_new (ca_candidate_id (rb_candidate gr))) groups [];
          stages = bt_set (map rb_stage groups);
          key = cache_key_with_profile h rollout_namespace (JObj (obj_of
            [(''stages'', json_strs stages), (''candidate_ids'', json_strs candidate_ids),
             (''rollout_batch'', JArr (map di_request items))])) ''rollout_request'';
          example_refs = map (\<lambda>i. JObj (obj_of [(''candidate_id'', JStr (di_candidate_id i)),
            (''example_id'', JStr (di_example_id i))])) items
      in \<lparr>pi_run_id = so_run_id c, pi_effect_kind = ''container_rollout'', pi_lane = ''rollout'',
          pi_subject_type = ''candidate_examples'',
          pi_subject_id = join_with '','' candidate_ids @ '':'' @ show_dec (int rollout_count) @ ''rollouts'',
          pi_idempotency_key = key, pi_job_kind = JkRollout,
          pi_candidate_id = (case candidate_ids of [] \<Rightarrow> None | i # _ \<Rightarrow> Some i), pi_cache_key = Some key,
          pi_budget_estimate = rollout_budget_estimate_for_count c rollout_count,
          pi_payload = JObj (obj_of
            [(''candidate_ids'', json_strs candidate_ids), (''example_refs'', JArr example_refs),
             (''rollout_count'', json_u64 (of_nat rollout_count)), (''stages'', json_strs stages),
             (''task_id'', JStr task_id)]),
          pi_dispatch_payload = rollout_batch_payload rollout_namespace items,
          pi_metadata = obj_of
            [(''algorithm_id'', JStr ''synth_gepa.v1''), (''candidate_ids'', json_strs candidate_ids),
             (''evaluation_stages'', json_strs stages), (''rollout_count'', json_u64 (of_nat rollout_count)),
             (''task_id'', JStr task_id)]\<rparr>)"

definition plan_rollout_runtime_batch_job_for_candidates ::
  "runtime_env \<Rightarrow> synth_optimizer_config \<Rightarrow> string \<Rightarrow> gepa_step_resources \<Rightarrow> rollout_batch_candidate list \<Rightarrow>
   (workspace, queued_runtime_effect) op" where
  "plan_rollout_runtime_batch_job_for_candidates env c namespace resources groups ws =
     (case dispatch_items (en_hashing env) c (sr_rollout_task_id resources) groups of
        Inl e \<Rightarrow> (ws, Inl e)
      | Inr items \<Rightarrow> record_runtime_effect_planned env
          (batch_plan_input (en_hashing env) c namespace (sr_rollout_task_id resources) groups items) ws)"

definition plan_rollout_runtime_batch_job ::
  "runtime_env \<Rightarrow> synth_optimizer_config \<Rightarrow> string \<Rightarrow> gepa_step_resources \<Rightarrow> candidate_record \<Rightarrow> json list \<Rightarrow> string \<Rightarrow>
   (workspace, queued_runtime_effect) op" where
  "plan_rollout_runtime_batch_job env c namespace resources candidate rows stage =
     plan_rollout_runtime_batch_job_for_candidates env c namespace resources
       [\<lparr>rb_candidate = candidate, rb_rows = rows, rb_stage = stage\<rparr>]"

subsection \<open>A batch dispatches exactly its rows\<close>

lemma fold_max_bounds: "b \<le> fold (\<lambda>x. max (f x)) xs (b :: nat) \<and> (\<forall>x \<in> set xs. f x \<le> fold (\<lambda>x. max (f x)) xs b)"
proof (induction xs arbitrary: b)
  case (Cons x xs)
  show ?case
    using Cons [of "max (f x) b"] by auto
qed simp

lemma mset_concat_append:
  "mset (concat (map (\<lambda>i. f i @ g i) xs)) = mset (concat (map f xs)) + mset (concat (map g xs))"
  by (induction xs) auto

lemma concat_nth_opt:
  assumes "length xs \<le> n"
  shows "concat (map (\<lambda>i. case nth_opt xs i of None \<Rightarrow> [] | Some x \<Rightarrow> [f x]) [0..<n]) = map f xs"
proof -
  let ?at = "\<lambda>i. case nth_opt xs i of None \<Rightarrow> [] | Some x \<Rightarrow> [f x]"
  have split: "[0..<n] = [0..<length xs] @ [length xs..<n]"
    using upt_add_eq_append [of 0 "length xs" "n - length xs"] assms by simp
  have "concat (map ?at [0..<length xs]) = concat (map (\<lambda>i. [f (xs ! i)]) [0..<length xs])"
    by (intro arg_cong [where f = concat] map_cong) (simp_all add: nth_opt_def)
  also have "\<dots> = map (\<lambda>i. f (xs ! i)) [0..<length xs]"
    by (simp add: concat_map_singleton)
  also have "\<dots> = map f xs"
    by (rule nth_equalityI) simp_all
  finally have "concat (map ?at [0..<length xs]) = map f xs" .
  moreover have "concat (map ?at [length xs..<n]) = []"
    by (simp add: nth_opt_def)
  ultimately show ?thesis
    by (simp add: split)
qed

lemma map_filter_Cons: "List.map_filter f (x # xs) = (case f x of None \<Rightarrow> [] | Some y \<Rightarrow> [y]) @ List.map_filter f xs"
  by (simp add: map_filter_simps split: option.split)

lemma mset_dispatch_upto:
  assumes "\<forall>gr \<in> set groups. length (rb_rows gr) \<le> n"
  shows "mset (concat (map (\<lambda>i. List.map_filter (\<lambda>gr. map_option (Pair gr) (nth_opt (rb_rows gr) i)) groups) [0..<n]))
     = mset (concat (map (\<lambda>gr. map (Pair gr) (rb_rows gr)) groups))"
  using assms
proof (induction groups)
  case Nil
  then show ?case by (simp add: map_filter_simps)
next
  case (Cons gr groups)
  have row: "(case map_option (Pair gr) z of None \<Rightarrow> [] | Some y \<Rightarrow> [y]) = (case z of None \<Rightarrow> [] | Some y \<Rightarrow> [(gr, y)])" for z
    by (cases z) simp_all
  have len: "length (rb_rows gr) \<le> n"
    using Cons.prems by simp
  from Cons show ?case
    by (simp only: map_filter_Cons mset_concat_append row concat_nth_opt [OF len]) simp
qed

lemma mset_dispatch_rows:
  "mset (dispatch_rows groups) = mset (concat (map (\<lambda>gr. map (Pair gr) (rb_rows gr)) groups))"
  using fold_max_bounds [of 0 "\<lambda>gr. length (rb_rows gr)" groups]
  by (simp add: dispatch_rows_def mset_dispatch_upto)

lemma collect_results_map:
  assumes "\<forall>x \<in> set xs. \<exists>y. f x = Inr y \<and> g y = k x"
  shows "\<exists>ys. collect_results f xs = Inr ys \<and> map g ys = map k xs"
  using assms by (induction xs) auto

text \<open>The rows of a planned group can be identified.\<close>

lemma skip_completed_readable:
  "skip_completed h completed rows = Inr rest \<Longrightarrow> \<forall>row \<in> set rest. \<exists>i. task_identity h row = Inr i"
  by (induction rows arbitrary: rest) (auto split: sum.splits if_splits)

lemma map_sum_Inr_iff: "map_sum f g z = Inr y \<longleftrightarrow> (\<exists>x. z = Inr x \<and> g x = y)"
  by (cases z) auto

lemma plan_groups_readable:
  "plan_groups h g resources candidates stage cs budget = Some (Inr groups) \<Longrightarrow>
   \<forall>gr \<in> set groups. \<forall>row \<in> set (rb_rows gr). \<exists>i. task_identity h row = Inr i"
proof (induction cs arbitrary: budget groups)
  case (Cons c cs)
  then show ?case
    by (auto simp: unscored_rollout_rows_def split: if_splits option.splits sum.splits prod.splits
        dest!: skip_completed_readable in_set_takeD simp: map_sum_Inr_iff)
qed simp

lemma dispatch_items_cover:
  assumes "\<forall>gr \<in> set groups. \<forall>row \<in> set (rb_rows gr). \<exists>i. task_identity h row = Inr i"
  shows "\<exists>items. dispatch_items h c task_id groups = Inr items \<and> length items = requested_rollouts groups \<and>
     mset (map (\<lambda>i. (di_candidate_id i, di_example_id i)) items) = mset (planned_pairs h groups)"
proof -
  let ?all = "concat (map (\<lambda>gr. map (Pair gr) (rb_rows gr)) groups)"
  let ?pair = "\<lambda>(gr, row). (ca_candidate_id (rb_candidate gr), row_task_id h row)"
  have rows: "set (dispatch_rows groups) = set ?all"
    by (metis mset_dispatch_rows set_mset_mset)
  have "\<exists>i. rollout_item h c task_id x = Inr i \<and> (di_candidate_id i, di_example_id i) = ?pair x"
    if xin: "x \<in> set (dispatch_rows groups)" for x
  proof -
    obtain gr row where x: "x = (gr, row)" "gr \<in> set groups" "row \<in> set (rb_rows gr)"
      using xin unfolding rows by auto
    with assms obtain i where "task_identity h row = Inr i"
      by blast
    with x(1) show ?thesis
      by (simp add: rollout_item_def row_task_id_def Let_def)
  qed
  then obtain items where items: "dispatch_items h c task_id groups = Inr items"
      "map (\<lambda>i. (di_candidate_id i, di_example_id i)) items = map ?pair (dispatch_rows groups)"
    using collect_results_map [of "dispatch_rows groups" "rollout_item h c task_id"
        "\<lambda>i. (di_candidate_id i, di_example_id i)" ?pair] unfolding dispatch_items_def by blast
  have "mset (map ?pair (dispatch_rows groups)) = mset (map ?pair ?all)"
    by (simp only: mset_map mset_dispatch_rows)
  moreover have "map ?pair ?all = planned_pairs h groups"
    by (simp add: planned_pairs_def map_concat comp_def)
  moreover have "length items = length (planned_pairs h groups)"
    using arg_cong [OF items(2), of length] arg_cong [OF mset_dispatch_rows [of groups], of size]
    by (simp add: length_planned_pairs requested_rollouts_def length_concat comp_def)
  ultimately have "length items = requested_rollouts groups \<and>
     mset (map (\<lambda>i. (di_candidate_id i, di_example_id i)) items) = mset (planned_pairs h groups)"
    unfolding items(2) length_planned_pairs by simp
  with items(1) show ?thesis
    by blast
qed

lemma saturating_mul_one [simp]: "saturating_mul 1 (n :: 'a::len word) = n"
  by (simp add: saturating_mul_def)

lemma planned_batch_groups:
  assumes "sound_group (en_hashing env) g resources candidates a"
    and "next_group_batch env ws run_id g resources candidates rollout_count a = Some (Inr (PlanBatch groups))"
  shows "plan_groups (en_hashing env) g resources candidates (ae_stage a) (ae_candidate_evaluations a)
      (Some (unat (async_rollout_chunk_size g))) = Some (Inr groups)"
    and "planned_pairs (en_hashing env) groups
      = take (unat (async_rollout_chunk_size g)) (pending_pairs (ae_candidate_evaluations a))"
proof -
  show plan: "plan_groups (en_hashing env) g resources candidates (ae_stage a) (ae_candidate_evaluations a)
      (Some (unat (async_rollout_chunk_size g))) = Some (Inr groups)"
    using assms(2) by (auto simp: next_group_batch_def split: option.splits sum.splits if_splits)
  show "planned_pairs (en_hashing env) groups
      = take (unat (async_rollout_chunk_size g)) (pending_pairs (ae_candidate_evaluations a))"
    using plan_groups_prefix [of "ae_candidate_evaluations a" "en_hashing env" g resources candidates "ae_stage a"
        "unat (async_rollout_chunk_size g)"] assms(1) plan by (auto simp: sound_group_def)
qed

text \<open>
  C4. The job of a planned chunk is the chunk: when the coordinator plans a batch of an evaluation, every
  row of the batch becomes a request and the batch is handed to the planner of runtime effects. The
  requests are exactly the first pending pairs of candidate and example, each once, though dispatched row
  by row across the candidates; the stored payload lists them in that order, and the budget reservation
  asks for as many rollouts as there are requests.
\<close>

theorem queued_job_covers_plan:
  assumes "sound_group (en_hashing env) (so_gepa c) resources candidates a"
    and "next_group_batch env ws run_id (so_gepa c) resources candidates rollout_count a = Some (Inr (PlanBatch groups))"
  shows "\<exists>items input.
     plan_rollout_runtime_batch_job_for_candidates env c namespace resources groups ws
       = record_runtime_effect_planned env input ws \<and>
     mset (map (\<lambda>i. (di_candidate_id i, di_example_id i)) items)
       = mset (take (unat (async_rollout_chunk_size (so_gepa c))) (pending_pairs (ae_candidate_evaluations a))) \<and>
     pi_dispatch_payload input = rollout_batch_payload (namespace @ '':container.rollout'') items \<and>
     es_max_rollouts (pi_budget_estimate input) = Some (of_nat (length items))"
proof -
  note plan = planned_batch_groups [OF assms]
  let ?h = "en_hashing env" and ?task = "sr_rollout_task_id resources"
  obtain items where items: "dispatch_items ?h c ?task groups = Inr items" "length items = requested_rollouts groups"
    "mset (map (\<lambda>i. (di_candidate_id i, di_example_id i)) items) = mset (planned_pairs ?h groups)"
    using dispatch_items_cover [OF plan_groups_readable [OF plan(1)]] by blast
  then show ?thesis
    by (intro exI [of _ items] exI [of _ "batch_plan_input ?h c namespace ?task groups items"])
      (simp add: plan_rollout_runtime_batch_job_for_candidates_def plan(2) batch_plan_input_def Let_def
        rollout_budget_estimate_for_count_def scale_u64_budget_def configured_estimate_sel)
qed

lemma batch_planned_within_capacity:
  assumes "sound_group (en_hashing env) g resources candidates a"
    and "remaining_rollout_capacity_for_stage env ws run_id g candidates rollout_count (ae_stage a) = Inr capacity"
    and "pending_pairs (ae_candidate_evaluations a) \<noteq> []"
    and "unat (async_rollout_chunk_size g) \<le> unat capacity"
  shows "\<exists>groups. next_group_batch env ws run_id g resources candidates rollout_count a = Some (Inr (PlanBatch groups))"
proof -
  let ?todo = "take (unat (async_rollout_chunk_size g)) (pending_pairs (ae_candidate_evaluations a))"
  obtain groups where plan:
    "plan_groups (en_hashing env) g resources candidates (ae_stage a) (ae_candidate_evaluations a)
       (Some (unat (async_rollout_chunk_size g))) = Some (Inr groups)"
    "planned_pairs (en_hashing env) groups = ?todo"
    using plan_groups_prefix assms(1) by (metis sound_group_def)
  have "groups \<noteq> []"
    using plan(2) assms(3) chunk_size_pos [of g] by (auto simp: planned_pairs_def)
  moreover have "requested_rollouts groups \<le> unat capacity"
    using assms(4) by (simp add: plan(2) flip: length_planned_pairs [of "en_hashing env"])
  ultimately show ?thesis
    using plan(1) assms(2) by (simp add: next_group_batch_def)
qed

theorem queued_job_covers_plan_witness:
  "\<exists>items input groups.
     plan_rollout_runtime_batch_job_for_candidates planning_env ((sample_config gepa_config_default)\<lparr>so_gepa := chunked_config 3\<rparr>) ''ns''
       sample_resources groups three_rollouts = record_runtime_effect_planned planning_env input three_rollouts \<and>
     mset (map (\<lambda>i. (di_candidate_id i, di_example_id i)) items)
       = mset [(''b'', ''e1''), (''b'', ''e2''), (''a'', ''e1'')] \<and>
     pi_dispatch_payload input = rollout_batch_payload ''ns:container.rollout'' items \<and>
     es_max_rollouts (pi_budget_estimate input) = Some (of_nat (length items))"
proof -
  have h: "en_hashing planning_env = sample_hashing" "ae_stage (sample_group []) = ''heldout''"
    "so_gepa ((sample_config gepa_config_default)\<lparr>so_gepa := chunked_config 3\<rparr>) = chunked_config 3"
    by (simp_all add: planning_env_def sample_group_def new_rollout_group_evaluation_def)
  have sound: "sound_group (en_hashing planning_env) (so_gepa ((sample_config gepa_config_default)\<lparr>so_gepa := chunked_config 3\<rparr>)) sample_resources
      framed_candidates (sample_group [])"
    by (simp add: h sample_group_sound)
  have "remaining_rollout_capacity_for_stage planning_env three_rollouts ''r'' (chunked_config 3) framed_candidates 0
      (ae_stage (sample_group [])) = Inr 3"
    by (simp add: h sample_capacity)
  then obtain groups where "next_group_batch planning_env three_rollouts ''r'' (so_gepa ((sample_config gepa_config_default)\<lparr>so_gepa := chunked_config 3\<rparr>))
      sample_resources framed_candidates 0 (sample_group []) = Some (Inr (PlanBatch groups))"
    using batch_planned_within_capacity [of planning_env "chunked_config 3" sample_resources framed_candidates
        "sample_group []" three_rollouts "''r''" 0 3] sound
    by (auto simp: h sample_pending chunk_size_chunked)
  from queued_job_covers_plan [OF sound this, of "''ns''"] show ?thesis
    by (auto simp: h sample_pending chunk_size_chunked)
qed

end
