(* ===== verification/Driver_State.thy ===== *)
theory Driver_State
  imports Run_State_Machine Gepa_Machines Score_Decision Checkpoint_Store Heldout_Phase Rollout_Dispatch
begin

text \<open>
  The state of the serial driver (\<open>GepaRunState\<close> with the fields of its cursor, and what the driver
  writes in \<open>GepaRunContext\<close>) and the operations all of its phases share: run transitions, checkpoints,
  stopper snapshots, the table of candidates (\<open>lib.rs\<close>). A step may panic (\<open>None\<close>), fail (\<open>Inl\<close>, with
  what it did before) or succeed. Of the event stream the types of the events are kept. The texts of the
  checkpoints and of the proposer's request are arguments (\<open>driver_env\<close>).
\<close>

subsection \<open>Steps\<close>

type_synonym ('s, 'a) step = "'s \<Rightarrow> ('s \<times> 'a result) option"

definition bind_step :: "('s, 'a) step \<Rightarrow> ('a \<Rightarrow> ('s, 'b) step) \<Rightarrow> ('s, 'b) step" where
  "bind_step f g s =
     (case f s of None \<Rightarrow> None | Some (s', Inl e) \<Rightarrow> Some (s', Inl e) | Some (s', Inr x) \<Rightarrow> g x s')"

definition return_step :: "'a \<Rightarrow> ('s, 'a) step" where
  "return_step x s = Some (s, Inr x)"

definition fail_step :: "optimizer_error \<Rightarrow> ('s, 'a) step" where
  "fail_step e s = Some (s, Inl e)"

definition panic_step :: "('s, 'a) step" where
  "panic_step s = None"

definition update_step :: "('s \<Rightarrow> 's) \<Rightarrow> ('s, unit) step" where
  "update_step f s = Some (f s, Inr ())"

definition with_state :: "('s \<Rightarrow> ('s, 'a) step) \<Rightarrow> ('s, 'a) step" where
  "with_state f s = f s s"

definition try_step :: "'a result \<Rightarrow> ('s, 'a) step" where
  "try_step r s = Some (s, r)"

definition expect_step :: "'a option \<Rightarrow> ('s, 'a) step" where
  "expect_step r s = map_option (\<lambda>x. (s, Inr x)) r"

definition ok_or :: "optimizer_error \<Rightarrow> 'a option \<Rightarrow> ('s, 'a) step" where
  "ok_or e r = (case r of None \<Rightarrow> fail_step e | Some x \<Rightarrow> return_step x)"

definition run_op :: "('s \<Rightarrow> 't) \<Rightarrow> ('t \<Rightarrow> 's \<Rightarrow> 's) \<Rightarrow> ('t, 'a) op \<Rightarrow> ('s, 'a) step" where
  "run_op get put f s = (case f (get s) of (t, r) \<Rightarrow> Some (put t s, r))"

definition and_then :: "('s, unit) step \<Rightarrow> ('s, 'a) step \<Rightarrow> ('s, 'a) step" where
  "and_then f g = bind_step f (\<lambda>_. g)"

definition when_step :: "bool \<Rightarrow> ('s, unit) step \<Rightarrow> ('s, unit) step" where
  "when_step b f = (if b then f else return_step ())"

fun steps :: "('s, unit) step list \<Rightarrow> ('s, unit) step" where
  "steps [] = return_step ()"
| "steps (f # fs) = and_then f (steps fs)"

fun for_each :: "('a \<Rightarrow> ('s, unit) step) \<Rightarrow> 'a list \<Rightarrow> ('s, unit) step" where
  "for_each f [] = return_step ()"
| "for_each f (x # xs) = and_then (f x) (for_each f xs)"

text \<open>
  What holds after a step that succeeds; a step that panics or fails promises nothing.
\<close>

definition wp :: "('s, 'a) step \<Rightarrow> ('a \<Rightarrow> 's \<Rightarrow> bool) \<Rightarrow> 's \<Rightarrow> bool" where
  "wp f Q s = (case f s of Some (s', Inr x) \<Rightarrow> Q x s' | _ \<Rightarrow> True)"

lemma wp_simps [simp]:
  "wp (return_step x) Q s = Q x s"
  "wp (fail_step e) Q s = True"
  "wp panic_step Q s = True"
  "wp (update_step f) Q' s = Q' () (f s)"
  "wp (with_state g) Q s = wp (g s) Q s"
  "wp (try_step r) Q s = (\<forall>x. r = Inr x \<longrightarrow> Q x s)"
  "wp (expect_step v) Q s = (\<forall>x. v = Some x \<longrightarrow> Q x s)"
  "wp (ok_or e v) Q s = (\<forall>x. v = Some x \<longrightarrow> Q x s)"
  by (auto simp: wp_def return_step_def fail_step_def panic_step_def update_step_def with_state_def try_step_def
      expect_step_def ok_or_def split: option.split sum.split)

lemma wp_bind [simp]: "wp (bind_step f g) Q s = wp f (\<lambda>x. wp (g x) Q) s"
  by (auto simp: wp_def bind_step_def split: option.split sum.split prod.split)

lemma wp_and_then [simp]: "wp (and_then f g) Q s = wp f (\<lambda>_. wp g Q) s"
  by (simp add: and_then_def)

lemma wp_when [simp]: "wp (when_step b f) Q s = (if b then wp f Q s else Q () s)"
  by (simp add: when_step_def)

lemma wp_mono: "wp f Q s \<Longrightarrow> (\<And>x s'. Q x s' \<Longrightarrow> Q' x s') \<Longrightarrow> wp f Q' s"
  by (auto simp: wp_def split: option.splits sum.splits)

lemma wp_run_op: "(\<And>t x. f (get s) = (t, Inr x) \<Longrightarrow> Q x (put t s)) \<Longrightarrow> wp (run_op get put f) Q s"
  by (auto simp: wp_def run_op_def split: option.splits sum.splits prod.splits)

lemma wp_for_each:
  assumes "I s" "\<And>x s. x \<in> set xs \<Longrightarrow> I s \<Longrightarrow> wp (f x) (\<lambda>_. I) s" "\<And>s. I s \<Longrightarrow> Q () s"
  shows "wp (for_each f xs) Q s"
  using assms
proof (induction xs arbitrary: s)
  case (Cons x xs)
  have "wp (f x) (\<lambda>_. I) s"
    using Cons.prems by simp
  then show ?case
    by (auto elim!: wp_mono intro!: Cons.IH simp: Cons.prems(2,3))
qed simp

lemma wp_elim: "wp f Q s \<Longrightarrow> f s = Some (s', Inr x) \<Longrightarrow> Q x s'"
  by (simp add: wp_def)

subsection \<open>The state\<close>

fun phase_str :: "gepa_cursor_phase \<Rightarrow> string" where
  "phase_str PhInitializing = ''initializing''"
| "phase_str PhSeedFullTrain = ''seed_full_train''"
| "phase_str PhGenerationStart = ''generation_start''"
| "phase_str PhProposerWaiting = ''proposer_waiting''"
| "phase_str PhCandidateMinibatch = ''candidate_minibatch''"
| "phase_str PhCandidateFullTrain = ''candidate_full_train''"
| "phase_str PhHeldout = ''heldout''"
| "phase_str PhFinalizing = ''finalizing''"
| "phase_str PhPaused = ''paused''"
| "phase_str PhCompleted = ''completed''"
| "phase_str PhFailed = ''failed''"
| "phase_str PhCancelled = ''cancelled''"

definition phase_terminal :: "gepa_cursor_phase \<Rightarrow> bool" where
  "phase_terminal p \<longleftrightarrow> p \<in> {PhCompleted, PhFailed, PhCancelled}"

record gepa_run_state =
  dr_phase :: gepa_cursor_phase
  dr_generation :: usize
  dr_proposal_index :: usize
  dr_pending_job_id :: "string option"
  dr_pending_effect_id :: "string option"
  dr_pending_reservation_ids :: "string list"
  dr_parent_candidate_id :: "string option"
  dr_pool_version :: u64
  dr_parent_pool_version :: "u64 option"
  dr_resilience :: gepa_rollout_resilience_state
  dr_candidates :: "candidate_record list"
  dr_best_idx :: "nat option"
  dr_identities :: candidate_identity_set
  dr_proposal_queue :: "proposed_candidate list"
  dr_active_evaluation :: "active_evaluation option"
  dr_heldout_candidate_index :: nat
  dr_total_usage :: usage_totals
  dr_total_cost :: f64
  dr_rollout_count :: usize
  dr_usage_ledger :: "usage_ledger_record list"
  dr_stopper_states :: "stopper_state_record list"
  dr_stopper_sequence :: u64
  dr_checkpoint_sequence :: u64

record gepa_driver = gepa_run_state +
  dr_workspace :: workspace
  dr_state_machine :: optimizer_state_machine
  dr_state_history :: "(nat \<times> optimizer_transition) list"
  dr_transitions :: transition_log
  dr_registry :: "candidate_record list"
  dr_checkpoints :: checkpoint_table
  dr_events :: "string list"

record driver_env =
  de_runtime :: runtime_env
  de_codec :: json_codec
  de_clock :: "nat \<Rightarrow> int"
  de_config :: synth_optimizer_config
  de_namespace :: string
  de_program :: prompt_program
  de_seed_candidate :: payload
  de_run_dir :: string
  de_proposer_backend :: string
  de_proposer_model :: "string option"
  de_proposer_provider :: string
  de_proposer_substrate :: string
  de_resources :: gepa_step_resources
  de_save_cursor :: "gepa_run_state \<Rightarrow> json"
  de_save_failed_cursor :: "gepa_run_state \<Rightarrow> json \<Rightarrow> json"
  de_checkpoint_snapshot :: "gepa_run_state \<Rightarrow> json"
  de_proposer_request :: "gepa_run_state \<Rightarrow> nat \<Rightarrow> json result"

definition de_gepa :: "driver_env \<Rightarrow> gepa_config" where
  "de_gepa e = so_gepa (de_config e)"

definition de_hash :: "driver_env \<Rightarrow> hashing" where
  "de_hash e = en_hashing (de_runtime e)"

definition de_run_id :: "driver_env \<Rightarrow> string" where
  "de_run_id e = so_run_id (de_config e)"

type_synonym 'a driver_step = "(gepa_driver, 'a) step"

datatype gepa_tick_action =
    PlanRuntimeJob string string
  | ConsumeRuntimeOutcome string string
  | SetupRun string
  | CheckpointRun string string
  | TerminalizeRun string string

record gepa_advance_outcome =
  ao_action :: gepa_tick_action
  ao_terminal :: bool
  ao_message :: string

definition checkpointed :: "driver_env \<Rightarrow> string \<Rightarrow> string \<Rightarrow> gepa_advance_outcome driver_step" where
  "checkpointed e phase message =
     return_step \<lparr>ao_action = CheckpointRun (de_run_id e) phase, ao_terminal = False, ao_message = message\<rparr>"

definition invariant_error :: "string \<Rightarrow> 'a driver_step" where
  "invariant_error message = fail_step (Invariant message)"

subsection \<open>Writers\<close>

definition emit :: "string \<Rightarrow> unit driver_step" where
  "emit event_type = update_step (\<lambda>d. d\<lparr>dr_events := dr_events d @ [event_type]\<rparr>)"

definition in_transitions :: "(transition_log, 'a) op \<Rightarrow> 'a driver_step" where
  "in_transitions = run_op dr_transitions (\<lambda>l d. d\<lparr>dr_transitions := l\<rparr>)"

definition in_workspace :: "(workspace, 'a) op \<Rightarrow> 'a driver_step" where
  "in_workspace = run_op dr_workspace (\<lambda>w d. d\<lparr>dr_workspace := w\<rparr>)"

definition candidate_transition ::
  "driver_env \<Rightarrow> string \<Rightarrow> string option \<Rightarrow> usize \<Rightarrow> candidate_state \<Rightarrow> candidate_trigger \<Rightarrow> json \<Rightarrow> unit driver_step" where
  "candidate_transition e candidate_id parent_id gen to trigger metadata =
     in_transitions (record_candidate_transition (de_codec e) (de_clock e 0) candidate_id parent_id gen to trigger metadata)"

text \<open>\<open>transition_run\<close>. The rendered state of the run is not kept.\<close>

definition run_transition_input :: "string \<Rightarrow> optimizer_transition \<Rightarrow> transition_input" where
  "run_transition_input message t =
     (let metadata = obj_insert ''at'' (JStr (ot_at t)) (obj_insert ''message'' (JStr message) (ot_details t));
          gen = map_of metadata ''generation''
      in \<lparr>ti_ts_unix_ms = None, ti_entity_type = ''run'', ti_entity_id = ot_run_id t,
          ti_from_state = Some (run_state_str (ot_from t)), ti_to_state = run_state_str (ot_to t),
          ti_trigger = run_trigger_str (ot_trigger t),
          ti_generation = or_else (Option.bind gen as_i64) (map_option sint (Option.bind gen as_u64)),
          ti_parent_id = None, ti_metadata = JObj metadata\<rparr>)"

definition transition_run ::
  "driver_env \<Rightarrow> optimizer_run_state \<Rightarrow> optimizer_transition_trigger \<Rightarrow> string \<Rightarrow> json \<Rightarrow> unit driver_step" where
  "transition_run e to trigger message details =
     bind_step (run_op dr_state_machine (\<lambda>m d. d\<lparr>dr_state_machine := m\<rparr>)
         (transition (en_now_rfc3339 (de_runtime e)) to trigger message (unwrap_or [] (as_object details))))
       (\<lambda>t. steps
         [emit ''optimizer.state.transitioned'',
          update_step (\<lambda>d. d\<lparr>dr_transitions :=
            fst (record_row (de_codec e) (de_clock e 0) (run_transition_input message t) (dr_transitions d))\<rparr>),
          update_step (\<lambda>d. d\<lparr>dr_state_history :=
            upsert fst (length (sm_history (dr_state_machine d)), t) (dr_state_history d)\<rparr>)])"

definition transition_when ::
  "driver_env \<Rightarrow> optimizer_run_state \<Rightarrow> optimizer_run_state \<Rightarrow> optimizer_transition_trigger \<Rightarrow> string \<Rightarrow>
   (gepa_driver \<Rightarrow> json) \<Rightarrow> unit driver_step" where
  "transition_when e from to trigger message details =
     with_state (\<lambda>d. when_step (sm_state (dr_state_machine d) = from) (transition_run e to trigger message (details d)))"

definition persist_candidate_snapshot :: "candidate_record \<Rightarrow> unit driver_step" where
  "persist_candidate_snapshot c = update_step (\<lambda>d. d\<lparr>dr_registry := upsert ca_candidate_id c (dr_registry d)\<rparr>)"

definition snapshot_stopper :: "driver_env \<Rightarrow> (gepa_driver \<Rightarrow> stopper_snapshot) \<Rightarrow> unit driver_step" where
  "snapshot_stopper e snapshot = update_step (\<lambda>d.
     let (states, sequence_number) = push_stopper_snapshot (de_hash e) (en_now_rfc3339 (de_runtime e)) (de_gepa e)
           (snapshot d) (dr_stopper_states d, dr_stopper_sequence d)
     in d\<lparr>dr_stopper_states := states, dr_stopper_sequence := sequence_number\<rparr>)"

definition usage_totals_json :: "usage_totals \<Rightarrow> json" where
  "usage_totals_json u = JObj (obj_of
     [(''prompt_tokens'', json_u64 (ut_prompt_tokens u)), (''completion_tokens'', json_u64 (ut_completion_tokens u)),
      (''total_tokens'', json_u64 (ut_total_tokens u)), (''rollout_calls'', json_u64 (ut_rollout_calls u)),
      (''proposer_calls'', json_u64 (ut_proposer_calls u))])"

definition run_state_of :: "gepa_driver \<Rightarrow> gepa_run_state" where
  "run_state_of d = gepa_run_state.truncate d"

text \<open>\<open>record_checkpoint_snapshot\<close>: a checkpoint beside the cursor's.\<close>

record checkpoint_request =
  cq_kind :: string
  cq_reason :: string
  cq_generation :: "usize option"
  cq_candidate_id :: "string option"
  cq_stage :: string
  cq_best_candidate_id :: "string option"
  cq_metadata :: json_map

definition record_checkpoint_snapshot :: "driver_env \<Rightarrow> (gepa_driver \<Rightarrow> checkpoint_request) \<Rightarrow> unit driver_step" where
  "record_checkpoint_snapshot e request = update_step (\<lambda>d.
     let sequence_number = dr_checkpoint_sequence d + 1; q = request d;
         r = checkpoint_from_input (de_hash e) (en_now_rfc3339 (de_runtime e))
           \<lparr>ci_sequence_number = sequence_number, ci_checkpoint_kind = cq_kind q, ci_status = ''completed'',
            ci_run_state = run_state_str (sm_state (dr_state_machine d)), ci_reason = Some (cq_reason q),
            ci_generation = cq_generation q, ci_candidate_id = cq_candidate_id q,
            ci_evaluation_stage = Some (cq_stage q), ci_best_candidate_id = cq_best_candidate_id q,
            ci_candidate_count = of_nat (length (dr_candidates d)),
            ci_frontier_count = of_nat (length (frontier_members (dr_candidates d))),
            ci_rollout_count = dr_rollout_count d, ci_cost_usd = dr_total_cost d,
            ci_usage = usage_totals_json (dr_total_usage d), ci_snapshot = de_checkpoint_snapshot e (run_state_of d),
            ci_metadata = cq_metadata q\<rparr>
     in d\<lparr>dr_checkpoint_sequence := sequence_number,
          dr_checkpoints := record_checkpoint (de_run_id e) r (dr_checkpoints d)\<rparr>)"

definition save_cursor ::
  "driver_env \<Rightarrow> (gepa_run_state \<Rightarrow> json) \<Rightarrow> gepa_cursor_phase \<Rightarrow> string \<Rightarrow> string \<Rightarrow> json_map \<Rightarrow> unit driver_step" where
  "save_cursor e snapshot phase status reason metadata = update_step (\<lambda>d0.
     let d = d0\<lparr>dr_checkpoint_sequence := dr_checkpoint_sequence d0 + 1, dr_phase := phase\<rparr>;
         best = candidate_id_at (dr_candidates d) (dr_best_idx d);
         r = checkpoint_from_input (de_hash e) (en_now_rfc3339 (de_runtime e))
           \<lparr>ci_sequence_number = dr_checkpoint_sequence d, ci_checkpoint_kind = ''gepa_cursor'', ci_status = status,
            ci_run_state = phase_str phase, ci_reason = Some reason, ci_generation = Some (dr_generation d),
            ci_candidate_id = best, ci_evaluation_stage = Some (phase_str phase), ci_best_candidate_id = best,
            ci_candidate_count = of_nat (length (dr_candidates d)),
            ci_frontier_count = of_nat (length (frontier_members (dr_candidates d))),
            ci_rollout_count = dr_rollout_count d, ci_cost_usd = dr_total_cost d,
            ci_usage = usage_totals_json (dr_total_usage d), ci_snapshot = snapshot (run_state_of d),
            ci_metadata = metadata\<rparr>
     in d\<lparr>dr_checkpoints := record_checkpoint_compacting_previous (de_hash e) (de_run_id e) r (dr_checkpoints d)\<rparr>)"

definition persist_gepa_run_state ::
  "driver_env \<Rightarrow> gepa_cursor_phase \<Rightarrow> string \<Rightarrow> string \<Rightarrow> json_map \<Rightarrow> unit driver_step" where
  "persist_gepa_run_state e phase status reason metadata = save_cursor e (de_save_cursor e) phase status reason metadata"

definition persist_phase :: "driver_env \<Rightarrow> string \<Rightarrow> string \<Rightarrow> json_map \<Rightarrow> unit driver_step" where
  "persist_phase e status reason metadata =
     with_state (\<lambda>d. persist_gepa_run_state e (dr_phase d) status reason metadata)"

definition set_pending :: "queued_runtime_effect \<Rightarrow> unit driver_step" where
  "set_pending q = update_step (\<lambda>d. d\<lparr>dr_pending_job_id := Some (oj_job_id (qe_job q)),
     dr_pending_effect_id := Some (ef_runtime_effect_id (qe_effect q)),
     dr_pending_reservation_ids := [rv_budget_reservation_id (qe_reservation q)]\<rparr>)"

definition clear_pending :: "unit driver_step" where
  "clear_pending = update_step (\<lambda>d. d\<lparr>dr_pending_job_id := None, dr_pending_effect_id := None,
     dr_pending_reservation_ids := []\<rparr>)"

definition set_active :: "active_evaluation option \<Rightarrow> unit driver_step" where
  "set_active a = update_step (\<lambda>d. d\<lparr>dr_active_evaluation := a\<rparr>)"

definition update_candidate :: "nat \<Rightarrow> (candidate_record \<Rightarrow> candidate_record) \<Rightarrow> unit driver_step" where
  "update_candidate i f = with_state (\<lambda>d. if length (dr_candidates d) \<le> i then panic_step
     else update_step (\<lambda>d. d\<lparr>dr_candidates := (dr_candidates d)[i := f (dr_candidates d ! i)]\<rparr>))"

definition save_candidate :: "nat \<Rightarrow> unit driver_step" where
  "save_candidate i = with_state (\<lambda>d. if length (dr_candidates d) \<le> i then panic_step
     else persist_candidate_snapshot (dr_candidates d ! i))"

text \<open>The payload of a frontier event fails where a training row cannot be identified.\<close>

definition emit_frontier :: "driver_env \<Rightarrow> string \<Rightarrow> unit driver_step" where
  "emit_frontier e event_type =
     bind_step (try_step (collect_results (task_identity (de_hash e)) (sr_train_rows (de_resources e))))
       (\<lambda>_. emit event_type)"

definition next_rollout_budget_breach :: "driver_env \<Rightarrow> budget_limit_breach option driver_step" where
  "next_rollout_budget_breach e = with_state (\<lambda>d. try_step
     (map_sum id (\<lambda>ledger. breach_for_request ledger
         (requested_budget (cl_rollout_estimate (configured_limits_from_config (de_config e)))))
       (budget_ledger_snapshot (de_runtime e) (de_run_id e) (dr_workspace d))))"

end
