(* ===== verification/Driver_Evaluation.thy ===== *)
theory Driver_Evaluation
  imports Driver_State
begin

text \<open>
  The driver's evaluations (\<open>lib.rs\<close>): the next batch of the evaluation in progress, its deferral for
  budget, and what the end of an evaluation does at every stage.
\<close>

subsection \<open>Moving on\<close>

definition move_to_generation_start :: "driver_env \<Rightarrow> string \<Rightarrow> gepa_advance_outcome driver_step" where
  "move_to_generation_start e reason =
     and_then (steps [set_active None, clear_pending, persist_gepa_run_state e PhGenerationStart ''completed'' reason []])
       (checkpointed e ''generation_start'' reason)"

definition move_to_proposer_waiting :: "driver_env \<Rightarrow> string \<Rightarrow> gepa_advance_outcome driver_step" where
  "move_to_proposer_waiting e reason =
     and_then (steps
       [transition_when e StEvaluating StRolloutQueueing EvaluationFinished ''Candidate evaluation finished''
          (\<lambda>d. JObj [(''generation'', json_u64 (dr_generation d))]),
        persist_gepa_run_state e PhProposerWaiting ''completed'' reason []])
       (checkpointed e ''proposer_waiting'' reason)"

definition move_to_finalizing :: "driver_env \<Rightarrow> string \<Rightarrow> gepa_advance_outcome driver_step" where
  "move_to_finalizing e reason =
     and_then (steps
       [transition_when e StRolloutRunning StEvaluating RolloutsFinished ''Heldout rollouts finished''
          (\<lambda>d. JObj [(''stage'', JStr ''heldout'')]),
        set_active None, persist_gepa_run_state e PhFinalizing ''completed'' reason []])
       (checkpointed e ''finalizing'' reason)"

text \<open>What every evaluation adds to the totals of the run; \<open>+=\<close> on the counter wraps.\<close>

definition book_evaluation :: "driver_env \<Rightarrow> candidate_evaluation \<Rightarrow> unit driver_step" where
  "book_evaluation e eval = update_step (\<lambda>d.
     d\<lparr>dr_total_usage := usage_merge (dr_total_usage d) (ev_usage eval),
       dr_total_cost := f64_add (dr_total_cost d) (ev_cost_usd eval),
       dr_rollout_count := dr_rollout_count d + ev_rollout_count eval,
       dr_usage_ledger := append_rollout_usage (de_hash e) (ev_sensor_frames eval) (dr_usage_ledger d)\<rparr>)"

definition evaluation_from_active :: "active_evaluation \<Rightarrow> candidate_evaluation" where
  "evaluation_from_active a =
     \<lparr>ev_average_reward = average_reward a, ev_rollout_count = ae_rollout_count a,
      ev_required_rollout_count = of_nat (length (ae_row_ids a)), ev_failed_attempts = ae_failed_attempts a,
      ev_usage = ae_usage a, ev_cost_usd = ae_cost_usd a, ev_scores = ae_scores a,
      ev_sensor_frames = ae_sensor_frames a\<rparr>"

definition stage_metadata :: "string \<Rightarrow> usize option \<Rightarrow> candidate_evaluation \<Rightarrow> json_map" where
  "stage_metadata stage gen eval = obj_of
     ([(''stage'', JStr stage)] @ (case gen of None \<Rightarrow> [] | Some n \<Rightarrow> [(''generation'', json_u64 n)]) @
      [(''rollout_delta'', json_u64 (ev_rollout_count eval)), (''average_reward'', json_f64 (ev_average_reward eval))])"

definition evaluation_stopper ::
  "driver_env \<Rightarrow> string \<Rightarrow> string \<Rightarrow> usize option \<Rightarrow> nat \<Rightarrow> candidate_evaluation \<Rightarrow> gepa_driver \<Rightarrow> stopper_snapshot" where
  "evaluation_stopper e reason stage gen i eval d =
     \<lparr>ss_status = budget_status (de_gepa e) (dr_rollout_count d) (dr_total_cost d), ss_reason = Some reason,
      ss_generation = gen, ss_candidate_id = candidate_id_at (dr_candidates d) (Some i),
      ss_evaluation_stage = Some stage, ss_rollout_count = dr_rollout_count d, ss_cost_usd = dr_total_cost d,
      ss_metadata = stage_metadata stage gen eval\<rparr>"

subsection \<open>Seed and parent reference\<close>

definition finalize_seed_full_train ::
  "driver_env \<Rightarrow> active_evaluation \<Rightarrow> candidate_evaluation \<Rightarrow> gepa_advance_outcome driver_step" where
  "finalize_seed_full_train e a eval =
     (let i = unwrap_or 0 (ae_candidate_index a) in
      with_state (\<lambda>d. bind_step
        (ok_or (Invariant (''seed candidate index '' @ show_dec (int i) @ '' is missing'')) (nth_opt (dr_candidates d) i))
        (\<lambda>seed. let candidate_id = ca_candidate_id seed;
             details = [(''stage'', JStr ''seed_full_train''), (''candidate_id'', JStr candidate_id),
               (''train_reward'', json_f64 (ev_average_reward eval))]
         in and_then (steps
          [update_candidate i (\<lambda>c. c\<lparr>ca_status := ''full_train_evaluated'', ca_train_reward := Some (ev_average_reward eval),
             ca_train_scores := ev_scores eval, ca_sensor_frames := ca_sensor_frames c @ ev_sensor_frames eval\<rparr>),
           save_candidate i,
           update_step (\<lambda>d. d\<lparr>dr_best_idx := Some i\<rparr>),
           snapshot_stopper e (evaluation_stopper e ''seed full-train evaluation completed'' ''seed_full_train'' None i eval),
           record_checkpoint_snapshot e (\<lambda>d.
             \<lparr>cq_kind = ''evaluation_boundary'', cq_reason = ''seed full-train evaluation completed'', cq_generation = None,
              cq_candidate_id = Some candidate_id, cq_stage = ''seed_full_train'', cq_best_candidate_id = Some candidate_id,
              cq_metadata = [(''stage'', JStr ''seed_full_train'')]\<rparr>),
           emit ''candidate.evaluated'',
           candidate_transition e candidate_id None (ae_generation a) CsFullTrainEvaluated CtEvaluationFinished
             (JObj (obj_of details)),
           candidate_transition e candidate_id None (ae_generation a) CsAccepted CtFullTrainAccepted
             (JObj (obj_of (details @ [(''seed'', JBool True)]))),
           emit_frontier e ''frontier.updated'',
           set_active None,
           transition_when e StEvaluating StReady EvaluationFinished ''Seed candidate evaluation finished''
             (\<lambda>d. JObj [(''candidate_id'', JStr candidate_id)])])
          (move_to_generation_start e ''seed full-train evaluation completed''))))"

definition finalize_parent_minibatch_reference ::
  "driver_env \<Rightarrow> active_evaluation \<Rightarrow> candidate_evaluation \<Rightarrow> gepa_advance_outcome driver_step" where
  "finalize_parent_minibatch_reference e a eval =
     bind_step (ok_or (Invariant ''parent minibatch reference missing parent candidate index'') (ae_candidate_index a))
      (\<lambda>i. with_state (\<lambda>d.
        if length (dr_candidates d) \<le> i
        then invariant_error (''parent minibatch reference index '' @ show_dec (int i) @ '' is outside candidate registry'')
        else and_then (steps
          [update_candidate i (\<lambda>c. c\<lparr>ca_sensor_frames := ca_sensor_frames c @ ev_sensor_frames eval\<rparr>),
           save_candidate i, emit ''parent_minibatch_reference.completed''])
          (move_to_proposer_waiting e ''parent minibatch reference evaluated'')))"

subsection \<open>Decisions\<close>

definition acceptance_decision_json :: "acceptance_decision \<Rightarrow> json" where
  "acceptance_decision_json a = JObj (obj_of
     [(''candidate_id'', JStr (ad_candidate_id a)), (''parent_id'', JStr (ad_parent_id a)),
      (''accepted_minibatch'', JBool (ad_accepted_minibatch a)), (''accepted_full_train'', JBool (ad_accepted_full_train a)),
      (''reason'', JStr (ad_reason a)), (''candidate_minibatch_reward'', json_f64 (ad_candidate_minibatch_reward a)),
      (''parent_minibatch_reward'', json_f64 (ad_parent_minibatch_reward a)),
      (''candidate_train_reward'', json_f64_opt (ad_candidate_train_reward a)),
      (''best_train_reward'', json_f64 (ad_best_train_reward a)), (''comparison_result'', JStr (ad_comparison_result a)),
      (''score'', ad_score a)])"

definition candidate_vector ::
  "driver_env \<Rightarrow> candidate_record \<Rightarrow> json list \<Rightarrow> string list \<Rightarrow> string \<Rightarrow> score_vector_record result" where
  "candidate_vector e candidate rows stages stage = score_vector_for_candidate (de_hash e)
     \<lparr>cv_objective_set = sr_objective_set (de_resources e), cv_candidate = candidate, cv_rows = rows,
      cv_split = ts_train_split (so_taskset (de_config e)), cv_source_stages = stages, cv_evaluation_stage = stage\<rparr>"

definition compare_for_acceptance ::
  "driver_env \<Rightarrow> string \<Rightarrow> string \<Rightarrow> f64 \<Rightarrow> score_vector_record \<Rightarrow> score_vector_record \<Rightarrow> score_vector_preference result" where
  "compare_for_acceptance e stage criterion margin challenger incumbent = compare_score_vectors (de_hash e)
     \<lparr>pi_objective_set = sr_objective_set (de_resources e), pi_split = ts_train_split (so_taskset (de_config e)),
      pi_evaluation_stage = stage, pi_challenger = challenger, pi_incumbent = incumbent, pi_accept_equal = False,
      pi_acceptance_criterion = Some criterion, pi_objective_acceptance = Some (gc_objective_acceptance (de_gepa e)),
      pi_margin = margin\<rparr>"

definition train_reward_or_neg_infinity :: "candidate_record \<Rightarrow> f64" where
  "train_reward_or_neg_infinity c = unwrap_or (F64_Inf True) (ca_train_reward c)"

subsection \<open>Minibatch\<close>

text \<open>
  A candidate is compared with its parent on the rows of its minibatch, and turned down or accepted; the
  result is its parent, the reward of the parent, and the decision.
\<close>

definition decide_minibatch ::
  "driver_env \<Rightarrow> nat \<Rightarrow> nat \<Rightarrow> string \<Rightarrow> active_candidate_evaluation \<Rightarrow> candidate_evaluation \<Rightarrow> f64 \<Rightarrow>
   score_vector_preference \<Rightarrow> score_vector_record \<Rightarrow> score_vector_record \<Rightarrow>
   acceptance_decision option driver_step" where
  "decide_minibatch e i p parent_id ca eval parent_reward preference vector parent_vector =
     with_state (\<lambda>d. bind_step (expect_step (nth_opt (dr_candidates d) i)) (\<lambda>candidate.
       bind_step (expect_step (nth_opt (dr_candidates d) (unwrap_or p (dr_best_idx d)))) (\<lambda>best.
       let candidate_id = ca_candidate_id candidate; gen = ace_generation ca;
           decision = \<lparr>ad_candidate_id = candidate_id, ad_parent_id = parent_id,
             ad_accepted_minibatch = pr_preferred preference, ad_accepted_full_train = False, ad_reason = [],
             ad_candidate_minibatch_reward = ev_average_reward eval, ad_parent_minibatch_reward = parent_reward,
             ad_candidate_train_reward = None, ad_best_train_reward = train_reward_or_neg_infinity best,
             ad_comparison_result = pr_result preference, ad_score = pr_score preference\<rparr>;
           details = JObj (obj_of [(''stage'', JStr ''candidate_minibatch''), (''candidate_id'', JStr candidate_id),
             (''parent_id'', JStr parent_id), (''minibatch_reward'', json_f64 (ev_average_reward eval)),
             (''parent_minibatch_reward'', json_f64 parent_reward),
             (''minibatch_delta'', json_f64 (f64_sub (ev_average_reward eval) parent_reward)),
             (''accepted_minibatch'', JBool (pr_preferred preference)),
             (''candidate_minibatch_task_ids'', json_strs (sv_task_ids vector)),
             (''parent_minibatch_task_ids'', json_strs (sv_task_ids parent_vector))])
       in and_then (steps
         [update_candidate i (\<lambda>c. c\<lparr>ca_acceptance_score := pr_score preference, ca_acceptance_metadata := score_vector_preference.pr_metadata preference\<rparr>),
          save_candidate i,
          snapshot_stopper e (evaluation_stopper e ''candidate minibatch evaluation completed'' ''candidate_minibatch''
            (Some gen) i eval),
          emit ''candidate.minibatch_evaluated'',
          candidate_transition e candidate_id (Some parent_id) gen CsMinibatchEvaluated CtEvaluationFinished details])
         (if \<not> pr_preferred preference
          then let rejected = acceptance_decision_json (decision\<lparr>ad_reason := pr_reason preference\<rparr>)
            in and_then (steps
              [update_candidate i (\<lambda>c. c\<lparr>ca_status := ''rejected_minibatch''\<rparr>),
               candidate_transition e candidate_id (Some parent_id) gen CsRejectedMinibatch CtMinibatchRejected rejected,
               emit ''candidate.rejected'', save_candidate i]) (return_step None)
          else and_then
            (candidate_transition e candidate_id (Some parent_id) gen CsAcceptedMinibatch CtMinibatchAccepted
               (acceptance_decision_json decision))
            (return_step (Some decision))))))"

definition minibatch_parent ::
  "driver_env \<Rightarrow> active_candidate_evaluation \<Rightarrow> (string \<times> nat \<times> json list \<times> f64) driver_step" where
  "minibatch_parent e ca = with_state (\<lambda>d.
     bind_step (ok_or (Invariant ''candidate minibatch missing parent'')
       (or_else (Option.bind (nth_opt (dr_candidates d) (ace_candidate_index ca)) ca_parent_id) (ace_parent_id ca))) (\<lambda>parent_id.
     bind_step (ok_or (Invariant (''parent candidate '' @ parent_id @ '' is missing''))
       (find_index (\<lambda>c. ca_candidate_id c = parent_id) (dr_candidates d))) (\<lambda>p.
     bind_step (expect_step (rows_for_rollout_stage (de_hash e) (de_gepa e) (de_resources e) ''candidate_minibatch''
       (ace_generation ca) (ace_proposal_index ca))) (\<lambda>rows.
     bind_step (try_step (parent_minibatch_reward_for_rows (de_hash e) (dr_candidates d ! p) rows
       (ts_train_split (so_taskset (de_config e))))) (\<lambda>reference.
     bind_step (ok_or (Invariant (''parent candidate '' @ parent_id @
       '' is missing minibatch reference scores for generation '' @ show_word (ace_generation ca))) reference) (\<lambda>parent_reward.
     return_step (parent_id, p, rows, parent_reward)))))))"

definition compare_with_parent ::
  "driver_env \<Rightarrow> nat \<Rightarrow> nat \<Rightarrow> json list \<Rightarrow>
   (score_vector_preference \<times> score_vector_record \<times> score_vector_record) driver_step" where
  "compare_with_parent e i p rows = with_state (\<lambda>d.
     bind_step (try_step (candidate_vector e (dr_candidates d ! i) rows [''candidate_minibatch''] ''candidate_minibatch'')) (\<lambda>vector.
     bind_step (try_step (candidate_vector e (dr_candidates d ! p) rows [''parent_minibatch_reference'']
       ''parent_minibatch_reference'')) (\<lambda>parent_vector.
     bind_step (try_step (ensure_paired_minibatch_score_vectors vector parent_vector)) (\<lambda>_.
     bind_step (try_step (minibatch_reflection_alignment (de_hash e) rows (sr_reflection_rows (de_resources e)))) (\<lambda>_.
     bind_step (try_step (compare_for_acceptance e ''candidate_minibatch'' (gc_minibatch_acceptance_criterion (de_gepa e))
       (gc_minibatch_accept_margin (de_gepa e)) vector parent_vector)) (\<lambda>preference.
     return_step (preference, vector, parent_vector)))))))"

definition judge_minibatch_candidate ::
  "driver_env \<Rightarrow> active_candidate_evaluation \<times> candidate_evaluation \<Rightarrow>
   (string \<times> f64 \<times> acceptance_decision) option driver_step" where
  "judge_minibatch_candidate e = (\<lambda>(ca, eval). let i = ace_candidate_index ca in
     bind_step (minibatch_parent e ca) (\<lambda>(parent_id, p, rows, parent_reward). with_state (\<lambda>d.
       if length (dr_candidates d) \<le> i
       then invariant_error (''candidate minibatch index '' @ show_dec (int i) @ '' is outside candidate registry'')
       else and_then (update_candidate i (\<lambda>c. c\<lparr>ca_status := ''minibatch_evaluated'',
           ca_minibatch_reward := Some (ev_average_reward eval), ca_minibatch_scores := ev_scores eval,
           ca_sensor_frames := ca_sensor_frames c @ ev_sensor_frames eval\<rparr>))
         (bind_step (compare_with_parent e i p rows) (\<lambda>(preference, vector, parent_vector).
          bind_step (decide_minibatch e i p parent_id ca eval parent_reward preference vector parent_vector) (\<lambda>decision.
          return_step (map_option (\<lambda>a. (parent_id, parent_reward, a)) decision)))))))"

text \<open>
  An accepted candidate of a group is deferred or handed to the evaluation on all training rows (the
  result), with what the group has planned so far taken into account.
\<close>

definition defer_full_train ::
  "driver_env \<Rightarrow> nat \<Rightarrow> string \<Rightarrow> string \<Rightarrow> usize \<Rightarrow> acceptance_decision \<Rightarrow> active_candidate_evaluation option driver_step" where
  "defer_full_train e i candidate_id parent_id gen decision = and_then (steps
     [update_candidate i (\<lambda>c. c\<lparr>ca_status := ''deferred_budget''\<rparr>),
      candidate_transition e candidate_id (Some parent_id) gen CsDeferredBudget CtDeferredBudget
        (acceptance_decision_json (decision\<lparr>ad_reason := ''insufficient budget for full-train evaluation''\<rparr>)),
      save_candidate i, emit ''candidate.deferred'']) (return_step None)"

definition admit_to_full_train ::
  "driver_env \<Rightarrow> string \<Rightarrow> active_candidate_evaluation \<Rightarrow> f64 \<Rightarrow> acceptance_decision \<Rightarrow> usize \<Rightarrow>
   active_candidate_evaluation option driver_step" where
  "admit_to_full_train e parent_id ca parent_reward decision planned =
     (let needed = length (sr_train_rows (de_resources e)); i = ace_candidate_index ca; candidate_id = ad_candidate_id decision in
      with_state (\<lambda>d. bind_step (try_step
        (remaining_train_rollout_capacity (de_runtime e) (dr_workspace d) (de_run_id e) (de_gepa e) (dr_rollout_count d)))
      (\<lambda>capacity. bind_step
        (if unat (saturating_sub capacity planned) < needed then return_step True
         else bind_step (next_rollout_budget_breach e) (\<lambda>breach. return_step (breach \<noteq> None)))
      (\<lambda>short. if short then defer_full_train e i candidate_id parent_id (ace_generation ca) decision
        else bind_step (try_step (new_active_candidate_evaluation (de_hash e) candidate_id i (sr_train_rows (de_resources e))
               (ace_generation ca) (ace_proposal_index ca) None))
          (\<lambda>next_eval. return_step (Some (next_eval\<lparr>ace_parent_id := Some parent_id,
             ace_parent_minibatch_reward := Some parent_reward, ace_decision := Some decision\<rparr>)))))))"

fun judge_minibatch_group ::
  "driver_env \<Rightarrow> (active_candidate_evaluation \<times> candidate_evaluation) list \<Rightarrow> usize \<Rightarrow>
   active_candidate_evaluation list driver_step" where
  "judge_minibatch_group e [] planned = return_step []"
| "judge_minibatch_group e (x # xs) planned =
     bind_step (judge_minibatch_candidate e x) (\<lambda>verdict.
     bind_step (case verdict of None \<Rightarrow> return_step None
         | Some (parent_id, parent_reward, decision) \<Rightarrow> admit_to_full_train e parent_id (fst x) parent_reward decision planned)
       (\<lambda>admitted. case admitted of
         None \<Rightarrow> judge_minibatch_group e xs planned
       | Some next_eval \<Rightarrow>
           bind_step (judge_minibatch_group e xs
               (saturating_add planned (of_nat (length (sr_train_rows (de_resources e))))))
             (\<lambda>rest. return_step (next_eval # rest))))"

definition finalize_candidate_minibatch_group ::
  "driver_env \<Rightarrow> active_evaluation \<Rightarrow> (active_candidate_evaluation \<times> candidate_evaluation) list \<Rightarrow>
   gepa_advance_outcome driver_step" where
  "finalize_candidate_minibatch_group e a evaluations =
     bind_step (judge_minibatch_group e evaluations 0) (\<lambda>admitted.
       if admitted = []
       then and_then (set_active None) (move_to_proposer_waiting e ''candidate minibatch group finished'')
       else and_then (steps
         [set_active (Some (new_rollout_group_evaluation ''candidate_full_train'' admitted (ae_generation a))),
          persist_gepa_run_state e PhCandidateFullTrain ''completed'' ''candidate minibatch group accepted'' []])
         (checkpointed e ''candidate_full_train'' ''candidate minibatch group accepted''))"

text \<open>The evaluation of a single candidate.\<close>

definition single_candidate :: "active_evaluation \<Rightarrow> nat \<Rightarrow> active_candidate_evaluation" where
  "single_candidate a i =
     \<lparr>ace_candidate_id = unwrap_or [] (ae_candidate_id a), ace_candidate_index = i, ace_generation = ae_generation a,
      ace_proposal_index = ae_proposal_index a, ace_row_ids = ae_row_ids a, ace_next_row_index = ae_next_row_index a,
      ace_heldout_candidate_index = ae_heldout_candidate_index a, ace_parent_id = None, ace_scores = ae_scores a,
      ace_failed_attempts = ae_failed_attempts a, ace_sensor_frames = ae_sensor_frames a,
      ace_reward_sum = ae_reward_sum a, ace_usage = ae_usage a, ace_cost_usd = ae_cost_usd a,
      ace_rollout_count = ae_rollout_count a, ace_parent_minibatch_reward = ae_parent_minibatch_reward a,
      ace_decision = ae_decision a\<rparr>"

definition leave_minibatch :: "driver_env \<Rightarrow> (gepa_driver \<Rightarrow> usize) \<Rightarrow> string \<Rightarrow> gepa_advance_outcome driver_step" where
  "leave_minibatch e proposal_index reason = and_then (steps
     [update_step (\<lambda>d. d\<lparr>dr_proposal_index := proposal_index d\<rparr>), set_active None]) (move_to_proposer_waiting e reason)"

definition start_full_train ::
  "driver_env \<Rightarrow> nat \<Rightarrow> string \<Rightarrow> active_evaluation \<Rightarrow> f64 \<Rightarrow> acceptance_decision \<Rightarrow> gepa_advance_outcome driver_step" where
  "start_full_train e i parent_id a parent_reward decision =
     bind_step (try_step (new_rollout_evaluation (de_hash e) ''candidate_full_train'' i (sr_train_rows (de_resources e))
       (ae_generation a) (ae_proposal_index a) None)) (\<lambda>next_eval. and_then (steps
       [set_active (Some (next_eval\<lparr>ae_candidate_id := Some (ad_candidate_id decision), ae_parent_id := Some parent_id,
          ae_parent_minibatch_reward := Some parent_reward, ae_decision := Some decision\<rparr>)),
        persist_gepa_run_state e PhCandidateFullTrain ''completed'' ''candidate minibatch accepted'' []])
       (checkpointed e ''candidate_full_train'' ''candidate minibatch accepted''))"

definition defer_single ::
  "driver_env \<Rightarrow> nat \<Rightarrow> string \<Rightarrow> usize \<Rightarrow> acceptance_decision \<Rightarrow> (candidate_record \<Rightarrow> candidate_record) \<Rightarrow>
   unit driver_step \<Rightarrow> gepa_advance_outcome driver_step" where
  "defer_single e i parent_id gen decision note report = and_then (steps
     [update_candidate i (\<lambda>c. c\<lparr>ca_status := ''deferred_budget''\<rparr>),
      candidate_transition e (ad_candidate_id decision) (Some parent_id) gen CsDeferredBudget CtDeferredBudget
        (acceptance_decision_json decision),
      update_candidate i note, save_candidate i, report])
     (leave_minibatch e (\<lambda>d. of_nat (length (dr_proposal_queue d))) ''candidate deferred before full-train'')"

definition breach_note :: "budget_limit_breach \<Rightarrow> json_map" where
  "breach_note b = obj_of [(''limit'', JStr (lb_limit b)), (''requested'', JStr (lb_requested b)),
     (''available'', JStr (lb_available b))]"

definition finalize_candidate_minibatch ::
  "driver_env \<Rightarrow> active_evaluation \<Rightarrow> candidate_evaluation \<Rightarrow> gepa_advance_outcome driver_step" where
  "finalize_candidate_minibatch e a eval =
     bind_step (ok_or (Invariant ''candidate minibatch missing candidate index'') (ae_candidate_index a)) (\<lambda>i.
     bind_step (judge_minibatch_candidate e (single_candidate a i, eval)) (\<lambda>verdict. case verdict of
       None \<Rightarrow> leave_minibatch e (\<lambda>d. dr_proposal_index d + 1) ''candidate rejected at minibatch''
     | Some (parent_id, parent_reward, decision) \<Rightarrow> with_state (\<lambda>d.
         bind_step (try_step (remaining_train_rollout_capacity (de_runtime e) (dr_workspace d) (de_run_id e) (de_gepa e)
           (dr_rollout_count d))) (\<lambda>capacity.
         if unat capacity < length (sr_train_rows (de_resources e))
         then defer_single e i parent_id (ae_generation a)
                (decision\<lparr>ad_reason := ''insufficient rollout budget for full-train evaluation''\<rparr>) (\<lambda>c. c)
                (emit ''candidate.deferred'')
         else bind_step (next_rollout_budget_breach e) (\<lambda>breach. case breach of
           None \<Rightarrow> start_full_train e i parent_id a parent_reward decision
         | Some b \<Rightarrow> defer_single e i parent_id (ae_generation a)
             (decision\<lparr>ad_reason := ''insufficient budget for full-train evaluation''\<rparr>)
             (\<lambda>c. c\<lparr>ca_acceptance_metadata := breach_note b\<rparr>) (return_step ()))))))"

subsection \<open>Full train\<close>

definition compare_with_best ::
  "driver_env \<Rightarrow> nat \<Rightarrow> nat \<Rightarrow> score_vector_preference driver_step" where
  "compare_with_best e i b = with_state (\<lambda>d.
     bind_step (try_step (candidate_vector e (dr_candidates d ! i) (sr_train_rows (de_resources e)) [''candidate_full_train'']
       ''candidate_full_train'')) (\<lambda>vector.
     bind_step (expect_step (nth_opt (dr_candidates d) b)) (\<lambda>best.
     bind_step (try_step (candidate_vector e best (sr_train_rows (de_resources e))
       [''seed_full_train'', ''candidate_full_train''] ''best_full_train_reference'')) (\<lambda>best_vector.
     try_step (compare_for_acceptance e ''candidate_full_train'' (gc_acceptance_criterion (de_gepa e)) f64_zero
       vector best_vector)))))"

definition full_train_decision ::
  "candidate_record \<Rightarrow> candidate_record \<Rightarrow> active_candidate_evaluation \<Rightarrow> candidate_evaluation \<Rightarrow>
   score_vector_preference \<Rightarrow> acceptance_decision" where
  "full_train_decision candidate best ca eval preference =
     (let decision = (case ace_decision ca of Some a \<Rightarrow> a | None \<Rightarrow>
        \<lparr>ad_candidate_id = ca_candidate_id candidate, ad_parent_id = unwrap_or [] (ca_parent_id candidate),
         ad_accepted_minibatch = True, ad_accepted_full_train = False, ad_reason = [],
         ad_candidate_minibatch_reward = unwrap_or f64_zero (ca_minibatch_reward candidate),
         ad_parent_minibatch_reward = unwrap_or f64_zero (ace_parent_minibatch_reward ca),
         ad_candidate_train_reward = None, ad_best_train_reward = train_reward_or_neg_infinity best,
         ad_comparison_result = pr_result preference, ad_score = pr_score preference\<rparr>)
      in decision\<lparr>ad_candidate_train_reward := Some (ev_average_reward eval),
           ad_accepted_full_train := pr_preferred preference, ad_reason := pr_reason preference,
           ad_comparison_result := pr_result preference, ad_score := pr_score preference\<rparr>)"

definition record_full_train ::
  "driver_env \<Rightarrow> nat \<Rightarrow> nat \<Rightarrow> active_candidate_evaluation \<Rightarrow> candidate_evaluation \<Rightarrow> score_vector_preference \<Rightarrow>
   unit driver_step" where
  "record_full_train e i b ca eval preference = with_state (\<lambda>d.
     let candidate = dr_candidates d ! i; best = dr_candidates d ! b; candidate_id = ca_candidate_id candidate;
         gen = ace_generation ca; accepted_full_train = pr_preferred preference;
         decision = acceptance_decision_json (full_train_decision candidate best ca eval preference)
     in steps
      [update_candidate i (\<lambda>c. c\<lparr>ca_acceptance_score := pr_score preference,
         ca_acceptance_metadata := score_vector_preference.pr_metadata preference,
         ca_status := (if accepted_full_train then ''accepted'' else ''rejected_full_train'')\<rparr>),
       save_candidate i,
       snapshot_stopper e (evaluation_stopper e ''candidate full-train evaluation completed'' ''candidate_full_train''
         (Some gen) i eval),
       emit ''candidate.full_train_evaluated'',
       candidate_transition e candidate_id (ca_parent_id candidate) gen CsFullTrainEvaluated CtEvaluationFinished
         (JObj (obj_of [(''stage'', JStr ''candidate_full_train''), (''candidate_id'', JStr candidate_id),
            (''parent_id'', json_str_opt (ca_parent_id candidate)), (''train_reward'', json_f64 (ev_average_reward eval)),
            (''best_train_reward'', json_f64_opt (ca_train_reward best)),
            (''accepted_full_train'', JBool accepted_full_train)])),
       candidate_transition e candidate_id (ca_parent_id candidate) gen
         (if accepted_full_train then CsAccepted else CsRejectedFullTrain)
         (if accepted_full_train then CtFullTrainAccepted else CtFullTrainRejected) decision,
       emit (if accepted_full_train then ''candidate.accepted'' else ''candidate.rejected''),
       when_step accepted_full_train (steps
         [update_step (\<lambda>d. d\<lparr>dr_best_idx := Some i\<rparr>), emit_frontier e ''frontier.updated''])])"

definition judge_full_train_candidate ::
  "driver_env \<Rightarrow> active_candidate_evaluation \<times> candidate_evaluation \<Rightarrow> unit driver_step" where
  "judge_full_train_candidate e = (\<lambda>(ca, eval). let i = ace_candidate_index ca in with_state (\<lambda>d.
     if length (dr_candidates d) \<le> i
     then invariant_error (''candidate full-train index '' @ show_dec (int i) @ '' is outside candidate registry'')
     else let b = unwrap_or 0 (dr_best_idx d) in
       and_then (update_candidate i (\<lambda>c. c\<lparr>ca_status := ''full_train_evaluated'',
           ca_train_reward := Some (ev_average_reward eval), ca_train_scores := ev_scores eval,
           ca_sensor_frames := ca_sensor_frames c @ ev_sensor_frames eval\<rparr>))
         (bind_step (compare_with_best e i b) (record_full_train e i b ca eval))))"

definition finalize_candidate_full_train_group ::
  "driver_env \<Rightarrow> (active_candidate_evaluation \<times> candidate_evaluation) list \<Rightarrow> gepa_advance_outcome driver_step" where
  "finalize_candidate_full_train_group e evaluations = and_then (steps
     [for_each (judge_full_train_candidate e) evaluations,
      update_step (\<lambda>d. d\<lparr>dr_proposal_index := of_nat (length (dr_proposal_queue d))\<rparr>), set_active None])
     (move_to_proposer_waiting e ''candidate full-train group finished'')"

definition finalize_candidate_full_train ::
  "driver_env \<Rightarrow> active_evaluation \<Rightarrow> candidate_evaluation \<Rightarrow> gepa_advance_outcome driver_step" where
  "finalize_candidate_full_train e a eval =
     bind_step (ok_or (Invariant ''candidate full-train missing candidate index'') (ae_candidate_index a)) (\<lambda>i. and_then (steps
       [judge_full_train_candidate e (single_candidate a i, eval),
        update_step (\<lambda>d. d\<lparr>dr_proposal_index := dr_proposal_index d + 1\<rparr>), set_active None])
       (move_to_proposer_waiting e ''candidate full-train evaluation finished''))"

subsection \<open>Held-out rows\<close>

definition heldout_details :: "candidate_record \<Rightarrow> candidate_evaluation \<Rightarrow> json" where
  "heldout_details candidate eval = JObj (obj_of
     [(''stage'', JStr ''heldout''), (''candidate_id'', JStr (ca_candidate_id candidate)),
      (''train_reward'', json_f64_opt (ca_train_reward candidate)), (''heldout_reward'', json_f64 (ev_average_reward eval))])"

definition check_heldout_coverage ::
  "active_candidate_evaluation \<times> candidate_evaluation \<Rightarrow> unit driver_step" where
  "check_heldout_coverage = (\<lambda>(ca, eval). with_state (\<lambda>d.
     bind_step (expect_step (nth_opt (dr_candidates d) (ace_candidate_index ca))) (\<lambda>c.
     case require_complete_heldout_coverage (ca_candidate_id c) eval of
       Inr _ \<Rightarrow> return_step () | Inl error \<Rightarrow> and_then (emit ''heldout.blocked'') (fail_step error))))"

definition record_heldout_reward ::
  "driver_env \<Rightarrow> (nat \<Rightarrow> nat) \<Rightarrow> active_candidate_evaluation \<times> candidate_evaluation \<Rightarrow> unit driver_step" where
  "record_heldout_reward e advance_index = (\<lambda>(ca, eval). let i = ace_candidate_index ca in with_state (\<lambda>d.
     bind_step (expect_step (nth_opt (dr_candidates d) i)) (\<lambda>c. steps
      [update_candidate i (\<lambda>c. c\<lparr>ca_heldout_reward := Some (ev_average_reward eval),
         ca_sensor_frames := ca_sensor_frames c @ ev_sensor_frames eval\<rparr>),
       save_candidate i, emit ''heldout.completed'',
       candidate_transition e (ca_candidate_id c) (ca_parent_id c) (ace_generation ca) CsHeldoutScored CtHeldoutFinished
         (heldout_details c eval),
       update_step (\<lambda>d. d\<lparr>dr_heldout_candidate_index := advance_index (dr_heldout_candidate_index d)\<rparr>)])))"

definition past_offset :: "active_candidate_evaluation \<Rightarrow> nat \<Rightarrow> nat" where
  "past_offset ca n = max n (unwrap_or 0 (ace_heldout_candidate_index ca) + 1)"

definition finalize_heldout_candidate ::
  "driver_env \<Rightarrow> active_evaluation \<Rightarrow> candidate_evaluation \<Rightarrow> gepa_advance_outcome driver_step" where
  "finalize_heldout_candidate e a eval =
     bind_step (ok_or (Invariant ''heldout evaluation missing candidate index'') (ae_candidate_index a)) (\<lambda>i.
     let x = (single_candidate a i, eval) in and_then (steps
       [check_heldout_coverage x, record_heldout_reward e Suc x, set_active None,
        persist_gepa_run_state e PhHeldout ''completed'' ''heldout candidate evaluation completed'' []])
       (checkpointed e ''heldout'' ''heldout candidate evaluation completed''))"

definition finalize_heldout_group ::
  "driver_env \<Rightarrow> (active_candidate_evaluation \<times> candidate_evaluation) list \<Rightarrow> gepa_advance_outcome driver_step" where
  "finalize_heldout_group e evaluations = and_then (steps
     [for_each check_heldout_coverage evaluations, for_each (\<lambda>x. record_heldout_reward e (past_offset (fst x)) x) evaluations, set_active None,
      persist_gepa_run_state e PhHeldout ''completed'' ''heldout candidate group completed'' []])
     (checkpointed e ''heldout'' ''heldout candidate group completed'')"

subsection \<open>The end of an evaluation\<close>

definition rollouts_finished :: "driver_env \<Rightarrow> string \<Rightarrow> json \<Rightarrow> unit driver_step" where
  "rollouts_finished e message details =
     transition_when e StRolloutRunning StEvaluating RolloutsFinished message (\<lambda>d. details)"

definition finalize_active_rollout_group ::
  "driver_env \<Rightarrow> active_evaluation \<Rightarrow> gepa_advance_outcome driver_step" where
  "finalize_active_rollout_group e a =
     (let evaluations = map (\<lambda>c. (c, evaluation_from_active_candidate c)) (ae_candidate_evaluations a); stage = ae_stage a in
      and_then (steps
       [rollouts_finished e ''Rollout batch finished'' (JObj (obj_of [(''stage'', JStr stage),
          (''candidate_count'', json_len (ae_candidate_evaluations a))])),
        for_each (\<lambda>(c, eval). book_evaluation e eval) evaluations,
        for_each (\<lambda>_. emit ''optimizer.evaluation.coverage.updated'') evaluations])
       (if stage = ''candidate_minibatch'' then finalize_candidate_minibatch_group e a evaluations
        else if stage = ''candidate_full_train'' then finalize_candidate_full_train_group e evaluations
        else if stage = ''heldout'' then finalize_heldout_group e evaluations
        else invariant_error (''unsupported grouped rollout stage '' @ stage)))"

definition finalize_active_rollout_evaluation :: "driver_env \<Rightarrow> gepa_advance_outcome driver_step" where
  "finalize_active_rollout_evaluation e = with_state (\<lambda>d.
     bind_step (ok_or (Invariant ''cannot finalize without active evaluation'') (dr_active_evaluation d)) (\<lambda>a.
     if is_group a then finalize_active_rollout_group e a
     else let eval = evaluation_from_active a; stage = ae_stage a in and_then (steps
       [rollouts_finished e ''Rollouts finished'' (JObj (obj_of [(''stage'', JStr stage),
          (''candidate_id'', json_str_opt (ae_candidate_id a))])),
        emit ''optimizer.evaluation.coverage.updated'', book_evaluation e eval])
       (if stage = ''seed_full_train'' then finalize_seed_full_train e a eval
        else if stage = ''parent_minibatch_reference'' then finalize_parent_minibatch_reference e a eval
        else if stage = ''candidate_minibatch'' then finalize_candidate_minibatch e a eval
        else if stage = ''candidate_full_train'' then finalize_candidate_full_train e a eval
        else if stage = ''heldout'' then finalize_heldout_candidate e a eval
        else invariant_error (''unsupported active rollout stage '' @ stage))))"

subsection \<open>Deferral for budget\<close>

definition commit_budget_deferred ::
  "driver_env \<Rightarrow> string \<Rightarrow> nat \<Rightarrow> candidate_evaluation \<Rightarrow> unit driver_step" where
  "commit_budget_deferred e stage i eval = with_state (\<lambda>d.
     if length (dr_candidates d) \<le> i
     then invariant_error (''budget-deferred candidate index '' @ show_dec (int i) @ '' is outside candidate registry'')
     else steps
      [update_candidate i (\<lambda>c. c\<lparr>ca_status :=
         (if stage \<in> set [''candidate_minibatch'', ''candidate_full_train''] then ''deferred_budget'' else ca_status c),
         ca_sensor_frames := ca_sensor_frames c @ ev_sensor_frames eval\<rparr>),
       save_candidate i, emit ''candidate.deferred''])"

definition commit_budget_deferred_active_candidate ::
  "driver_env \<Rightarrow> string \<Rightarrow> active_candidate_evaluation \<Rightarrow> unit driver_step" where
  "commit_budget_deferred_active_candidate e stage ca = (let eval = evaluation_from_active_candidate ca in
     steps [book_evaluation e eval, commit_budget_deferred e stage (ace_candidate_index ca) eval])"

definition commit_budget_deferred_active_rollout :: "driver_env \<Rightarrow> active_evaluation \<Rightarrow> unit driver_step" where
  "commit_budget_deferred_active_rollout e a = (let eval = evaluation_from_active a in
     steps [book_evaluation e eval, (case ae_candidate_index a of None \<Rightarrow> return_step ()
       | Some i \<Rightarrow> commit_budget_deferred e (ae_stage a) i eval)])"

definition defer_active_rollout_evaluation_for_budget ::
  "driver_env \<Rightarrow> nat \<Rightarrow> nat \<Rightarrow> gepa_advance_outcome driver_step" where
  "defer_active_rollout_evaluation_for_budget e requested available = with_state (\<lambda>d.
     bind_step (ok_or (Invariant ''cannot defer without active evaluation'') (dr_active_evaluation d)) (\<lambda>a.
     let finished = filter active_candidate_rollout_complete (ae_candidate_evaluations a);
         cut_off = filter (\<lambda>c. \<not> active_candidate_rollout_complete c) (ae_candidate_evaluations a);
         row_ids = group_row_ids finished;
         rest = a\<lparr>ae_candidate_evaluations := finished, ae_row_ids := row_ids, ae_next_row_index := length row_ids\<rparr>;
         leave = and_then (steps
           [update_step (\<lambda>d. d\<lparr>dr_proposal_index := of_nat (length (dr_proposal_queue d))\<rparr>), set_active None])
           (move_to_proposer_waiting e ''active rollout evaluation deferred by budget'')
     in and_then (rollouts_finished e ''Rollouts stopped by budget'' (JObj (obj_of [(''stage'', JStr (ae_stage a)),
          (''requested_rollouts'', json_u64 (of_nat requested)), (''available_rollouts'', json_u64 (of_nat available))])))
       (if is_group a
        then and_then (for_each (commit_budget_deferred_active_candidate e (ae_stage a)) cut_off)
          (if finished = [] then leave
           else and_then (set_active (Some rest)) (finalize_active_rollout_group e rest))
        else if active_rollout_evaluation_complete a then finalize_active_rollout_evaluation e
        else and_then (commit_budget_deferred_active_rollout e a) leave)))"

end
