(* ===== verification/Gepa_Driver.thy ===== *)
theory Gepa_Driver
  imports Driver_Evaluation
begin

text \<open>
  The phases of the serial driver (\<open>lib.rs\<close>): from the seed's evaluation over the generations of
  proposals to the held-out rows and the end of the run.
\<close>

subsection \<open>The next batch\<close>

definition transition_to_rollout_running :: "driver_env \<Rightarrow> string \<Rightarrow> json \<Rightarrow> unit driver_step" where
  "transition_to_rollout_running e message details = steps
     [in_transitions (record_candidate_evaluation_started_from_details (de_codec e) (de_clock e 0) details),
      with_state (\<lambda>d. when_step (sm_state (dr_state_machine d) \<in> {StReady, StEvaluating})
        (transition_run e StRolloutQueueing RolloutsQueued message details)),
      transition_when e StRolloutQueueing StRolloutRunning RolloutsStarted message (\<lambda>d. details)]"

definition stage_started_message :: "string \<Rightarrow> string" where
  "stage_started_message stage =
     (if stage = ''seed_full_train'' then ''Seed candidate rollouts started''
      else if stage = ''parent_minibatch_reference'' then ''Parent minibatch reference rollouts started''
      else if stage = ''candidate_minibatch'' then ''Candidate minibatch rollouts started''
      else if stage = ''candidate_full_train'' then ''Candidate full-train rollouts started''
      else if stage = ''heldout'' then ''Heldout rollouts started'' else ''Rollouts started'')"

definition planned_active :: "string option \<Rightarrow> queued_runtime_effect \<Rightarrow> active_evaluation \<Rightarrow> active_evaluation" where
  "planned_active candidate_id q a = a\<lparr>ae_candidate_id := candidate_id, ae_planned_job_id := Some (oj_job_id (qe_job q)),
     ae_effect_id := Some (ef_runtime_effect_id (qe_effect q)),
     ae_reservation_id := Some (rv_budget_reservation_id (qe_reservation q))\<rparr>"

text \<open>What follows a planned job: it becomes the pending one, and the state is saved.\<close>

definition wait_for_job ::
  "driver_env \<Rightarrow> active_evaluation \<Rightarrow> queued_runtime_effect \<Rightarrow> gepa_cursor_phase \<Rightarrow> string \<Rightarrow> json_map \<Rightarrow>
   gepa_advance_outcome driver_step" where
  "wait_for_job e a q phase message metadata = and_then (steps
     [set_active (Some a), set_pending q, persist_gepa_run_state e phase ''planned'' message metadata])
     (return_step \<lparr>ao_action = PlanRuntimeJob (de_run_id e) (oj_job_id (qe_job q)), ao_terminal = False,
        ao_message = message\<rparr>)"

definition group_stage_transition :: "string \<Rightarrow> (candidate_state \<times> candidate_trigger) option" where
  "group_stage_transition stage =
     (if stage \<in> set [''candidate_minibatch'', ''candidate_full_train'', ''heldout''] then stage_transition stage else None)"

definition record_group_started :: "driver_env \<Rightarrow> string \<Rightarrow> active_candidate_evaluation \<Rightarrow> unit driver_step" where
  "record_group_started e stage ca = with_state (\<lambda>d.
     bind_step (ok_or (outside_registry (ace_candidate_index ca)) (nth_opt (dr_candidates d) (ace_candidate_index ca))) (\<lambda>c.
     case group_stage_transition stage of None \<Rightarrow> return_step ()
     | Some (to, trigger) \<Rightarrow> candidate_transition e (ca_candidate_id c) (ca_parent_id c) (ace_generation ca) to trigger
         (JObj (obj_of [(''stage'', JStr stage), (''candidate_id'', JStr (ca_candidate_id c)),
            (''row_count'', json_len (ace_row_ids ca))]))))"

definition plan_next_rollout_group_batch :: "driver_env \<Rightarrow> active_evaluation \<Rightarrow> gepa_advance_outcome driver_step" where
  "plan_next_rollout_group_batch e a = with_state (\<lambda>d.
     bind_step (expect_step (next_group_batch (de_runtime e) (dr_workspace d) (de_run_id e) (de_gepa e) (de_resources e)
       (dr_candidates d) (dr_rollout_count d) a)) (\<lambda>planned.
     bind_step (try_step planned) (\<lambda>batch. case batch of
       FinalizeEvaluation \<Rightarrow> finalize_active_rollout_evaluation e
     | DeferForBudget requested available \<Rightarrow> defer_active_rollout_evaluation_for_budget e requested available
     | PlanBatch groups \<Rightarrow>
         let stage = ae_stage a; rollouts = json_u64 (of_nat (requested_rollouts groups)) in and_then
         (when_step (list_all (\<lambda>ca. active_candidate_completed_rows ca = 0) (ae_candidate_evaluations a)) (steps
           [for_each (record_group_started e stage) (ae_candidate_evaluations a),
            transition_to_rollout_running e (stage_started_message stage) (JObj (obj_of
              [(''generation'', json_u64 (ae_generation a)), (''stage'', JStr stage),
               (''candidate_count'', json_len (ae_candidate_evaluations a)), (''rollout_count'', rollouts)]))]))
         (bind_step (in_workspace (plan_rollout_runtime_batch_job_for_candidates (de_runtime e) (de_config e)
             (de_namespace e) (de_resources e) groups)) (\<lambda>q. with_state (\<lambda>d.
           wait_for_job e (planned_active None q a) q (dr_phase d) ''planned rollout group batch job''
             (obj_of [(''stage'', JStr stage),
               (''candidate_ids'', json_strs (map (\<lambda>gr. ca_candidate_id (rb_candidate gr)) groups)),
               (''rollout_chunk_rows'', rollouts), (''rollout_chunk_size'', json_u64 (async_rollout_chunk_size (de_gepa e)))])))))))"

definition plan_single_batch :: "driver_env \<Rightarrow> active_evaluation \<Rightarrow> gepa_advance_outcome driver_step" where
  "plan_single_batch e a = with_state (\<lambda>d.
     bind_step (ok_or (Invariant (''active evaluation stage '' @ ae_stage a @ '' has no candidate_index''))
       (ae_candidate_index a)) (\<lambda>i.
     bind_step (ok_or (outside_registry i) (nth_opt (dr_candidates d) i)) (\<lambda>c.
     bind_step (expect_step (rows_for_rollout_stage (de_hash e) (de_gepa e) (de_resources e) (ae_stage a) (ae_generation a)
       (ae_proposal_index a))) (\<lambda>rows.
     and_then (when_step (active_rollout_completed_rows a = 0)
       (transition_to_rollout_running e (stage_started_message (ae_stage a)) (JObj (obj_of
          [(''candidate_id'', JStr (ca_candidate_id c)), (''generation'', json_u64 (ae_generation a)),
           (''stage'', JStr (ae_stage a)), (''row_count'', json_len rows)]))))
     (bind_step (try_step (unscored_rollout_rows (de_hash e) rows (ae_scores a) (ae_failed_attempts a))) (\<lambda>remaining.
     if remaining = [] then finalize_active_rollout_evaluation e
     else bind_step (expect_step (rollout_rows_for_chunk (de_gepa e) remaining)) (\<lambda>chunk_rows. with_state (\<lambda>d.
     bind_step (try_step (remaining_rollout_capacity_for_stage (de_runtime e) (dr_workspace d) (de_run_id e) (de_gepa e)
       (dr_candidates d) (dr_rollout_count d) (ae_stage a))) (\<lambda>capacity.
     if unat capacity < length chunk_rows
     then defer_active_rollout_evaluation_for_budget e (length chunk_rows) (unat capacity)
     else bind_step (try_step (async_rollout_chunk_id (de_hash e) a chunk_rows)) (\<lambda>chunk_id.
     bind_step (in_workspace (plan_rollout_runtime_batch_job (de_runtime e) (de_config e) (de_namespace e) (de_resources e)
       c chunk_rows (ae_stage a))) (\<lambda>q. with_state (\<lambda>d.
     wait_for_job e (planned_active (Some (ca_candidate_id c)) q a) q (dr_phase d) ''planned rollout batch job''
       (obj_of [(''rollout_chunk_id'', JStr chunk_id), (''rollout_chunk_rows'', json_len chunk_rows)])))))))))))))"

definition plan_next_rollout_batch :: "driver_env \<Rightarrow> gepa_advance_outcome driver_step" where
  "plan_next_rollout_batch e = with_state (\<lambda>d.
     bind_step (ok_or (Invariant ''cannot plan rollout batch without active evaluation'') (dr_active_evaluation d)) (\<lambda>a.
     if \<not> is_rollout_stage a
     then invariant_error (''active evaluation stage '' @ ae_stage a @ '' is not a rollout stage'')
     else if is_group a then plan_next_rollout_group_batch e a else plan_single_batch e a))"

subsection \<open>The seed\<close>

definition seed_record :: "string \<Rightarrow> payload \<Rightarrow> candidate_record" where
  "seed_record candidate_id p =
     \<lparr>ca_candidate_id = candidate_id, ca_payload = p,
      ca_lever_bundle = lever_bundle_json (bundle_from_prompt_payload candidate_id None p), ca_parent_id = None,
      ca_source = ''seed'', ca_status = ''registered'', ca_minibatch_reward = None, ca_train_reward = None,
      ca_heldout_reward = None, ca_minibatch_scores = [], ca_train_scores = [], ca_sensor_frames = [],
      ca_acceptance_score = JNull, ca_acceptance_metadata = []\<rparr>"

definition register_seed :: "driver_env \<Rightarrow> unit driver_step" where
  "register_seed e = bind_step (try_step (seed_candidate_payload (de_seed_candidate e) (de_program e))) (\<lambda>p.
     let seed = seed_record (candidate_id_of (de_hash e) p) p in steps
      [update_step (\<lambda>d. d\<lparr>dr_candidates := [seed]\<rparr>), emit ''candidate.registered'', persist_candidate_snapshot seed,
       in_transitions (record_candidate_registered (de_codec e) (de_clock e 0) (ca_candidate_id seed) None None
         (JObj (obj_of [(''source'', JStr ''seed''), (''stage'', JStr ''run_start'')]))),
       snapshot_stopper e (\<lambda>d. \<lparr>ss_status = ''within_budget'', ss_reason = Some ''run initialized within budget'',
         ss_generation = None, ss_candidate_id = None, ss_evaluation_stage = Some ''run_start'',
         ss_rollout_count = dr_rollout_count d, ss_cost_usd = dr_total_cost d,
         ss_metadata = obj_of [(''stage'', JStr ''run_start''),
           (''max_generations'', json_u64 (gc_max_generations (de_gepa e))),
           (''proposals_per_generation'', json_u64 (gc_proposals_per_generation (de_gepa e)))]\<rparr>)])"

definition advance_initializing :: "driver_env \<Rightarrow> gepa_advance_outcome driver_step" where
  "advance_initializing e = and_then (steps
     [with_state (\<lambda>d. when_step (dr_candidates d = []) (register_seed e)),
      update_step (\<lambda>d. d\<lparr>dr_best_idx := None, dr_generation := 0, dr_proposal_index := 0\<rparr>),
      with_state (\<lambda>d. if dr_candidates d = [] then panic_step else return_step ()),
      record_checkpoint_snapshot e (\<lambda>d. \<lparr>cq_kind = ''candidate_registry'', cq_reason = ''seed candidate registered'',
        cq_generation = None, cq_candidate_id = candidate_id_at (dr_candidates d) (Some 0), cq_stage = ''seed_registered'',
        cq_best_candidate_id = None, cq_metadata = [(''stage'', JStr ''seed_registered'')]\<rparr>),
      persist_gepa_run_state e PhSeedFullTrain ''completed'' ''seed candidate registered'' []])
     (return_step \<lparr>ao_action = SetupRun (de_run_id e), ao_terminal = False, ao_message = ''seed candidate registered''\<rparr>)"

definition rollout_budget_limit_name :: "driver_env \<Rightarrow> string" where
  "rollout_budget_limit_name e =
     (if split_rollout_budgets_enabled (de_gepa e) then ''max_train_rollouts'' else ''max_total_rollouts'')"

definition start_seed_evaluation :: "driver_env \<Rightarrow> gepa_advance_outcome driver_step" where
  "start_seed_evaluation e = (let rows = sr_train_rows (de_resources e) in with_state (\<lambda>d.
     bind_step (try_step (remaining_train_rollout_capacity (de_runtime e) (dr_workspace d) (de_run_id e) (de_gepa e)
       (dr_rollout_count d))) (\<lambda>capacity.
     if unat capacity < length rows
     then fail_step (BudgetExceeded (de_run_id e) (rollout_budget_limit_name e) (show_dec (int (length rows))) (show_word capacity))
     else bind_step (next_rollout_budget_breach e) (\<lambda>breach. case breach of
       Some b \<Rightarrow> fail_step (budget_exceeded_error (de_run_id e) b)
     | None \<Rightarrow> bind_step (expect_step (nth_opt (dr_candidates d) 0)) (\<lambda>seed. and_then
         (transition_to_rollout_running e ''Seed candidate rollouts started'' (JObj (obj_of
            [(''candidate_id'', JStr (ca_candidate_id seed)), (''stage'', JStr ''seed_full_train''),
             (''row_count'', json_len rows), (''rollout_count'', json_len rows)])))
         (bind_step (try_step (new_rollout_evaluation (de_hash e) ''seed_full_train'' 0 rows (dr_generation d)
             (dr_proposal_index d) None)) (\<lambda>a. and_then (steps
           [set_active (Some a),
            persist_gepa_run_state e PhSeedFullTrain ''planned'' ''seed full-train evaluation started'' []])
           (plan_next_rollout_batch e))))))))"

definition evaluating_stage :: "string \<Rightarrow> gepa_driver \<Rightarrow> bool" where
  "evaluating_stage stage d \<longleftrightarrow> (case dr_active_evaluation d of None \<Rightarrow> False | Some a \<Rightarrow> ae_stage a = stage)"

definition continue_evaluation :: "driver_env \<Rightarrow> gepa_advance_outcome driver_step" where
  "continue_evaluation e = with_state (\<lambda>d. case dr_active_evaluation d of None \<Rightarrow> plan_next_rollout_batch e
     | Some a \<Rightarrow> if active_rollout_evaluation_complete a then finalize_active_rollout_evaluation e
                else plan_next_rollout_batch e)"

definition advance_rollout_stage :: "driver_env \<Rightarrow> string \<Rightarrow> gepa_advance_outcome driver_step" where
  "advance_rollout_stage e stage = with_state (\<lambda>d.
     if evaluating_stage stage d then continue_evaluation e
     else if stage = ''seed_full_train''
     then (if Option.bind (nth_opt (dr_candidates d) 0) ca_train_reward \<noteq> None
           then and_then (update_step (\<lambda>d. d\<lparr>dr_best_idx := Some 0\<rparr>))
                  (move_to_generation_start e ''seed already evaluated'')
           else start_seed_evaluation e)
     else if stage \<in> set [''candidate_minibatch'', ''candidate_full_train'']
     then (if dr_active_evaluation d = None
           then invariant_error (''phase '' @ stage @ '' has no active candidate evaluation'')
           else plan_next_rollout_batch e)
     else invariant_error (''unsupported rollout stage '' @ stage))"

subsection \<open>Generations\<close>

definition best_candidate_id :: "gepa_driver \<Rightarrow> string option" where
  "best_candidate_id d = candidate_id_at (dr_candidates d) (dr_best_idx d)"

definition complete_generation_boundary :: "driver_env \<Rightarrow> gepa_advance_outcome driver_step" where
  "complete_generation_boundary e = and_then (steps
     [transition_when e StRolloutQueueing StReady EvaluationFinished ''Generation evaluation finished''
        (\<lambda>d. JObj [(''generation'', json_u64 (dr_generation d))]),
      emit_frontier e ''frontier.snapshot'',
      record_checkpoint_snapshot e (\<lambda>d. \<lparr>cq_kind = ''generation_boundary'', cq_reason = ''generation evaluation completed'',
        cq_generation = Some (dr_generation d), cq_candidate_id = best_candidate_id d, cq_stage = ''generation_complete'',
        cq_best_candidate_id = best_candidate_id d,
        cq_metadata = obj_of [(''generation'', json_u64 (dr_generation d)), (''stage'', JStr ''generation_complete'')]\<rparr>),
      update_step (\<lambda>d. d\<lparr>dr_generation := dr_generation d + 1, dr_proposal_index := 0, dr_proposal_queue := [],
        dr_active_evaluation := None\<rparr>),
      persist_gepa_run_state e PhGenerationStart ''completed'' ''generation evaluation completed'' []])
     (checkpointed e ''generation_boundary'' ''generation evaluation completed'')"

definition move_to_pre_heldout :: "driver_env \<Rightarrow> gepa_advance_outcome driver_step" where
  "move_to_pre_heldout e = with_state (\<lambda>d.
     let b = unwrap_or 0 (dr_best_idx d) in and_then (steps
      [update_step (\<lambda>d. d\<lparr>dr_identities := freeze_optimization_selected (dr_best_idx d) (dr_identities d)\<rparr>),
       bind_step (expect_step (nth_opt (dr_candidates d) b)) (\<lambda>best.
         record_checkpoint_snapshot e (\<lambda>d. \<lparr>cq_kind = ''pre_heldout'', cq_reason = ''optimization loop completed before heldout'',
           cq_generation = None, cq_candidate_id = Some (ca_candidate_id best), cq_stage = ''pre_heldout'',
           cq_best_candidate_id = Some (ca_candidate_id best),
           cq_metadata = obj_of [(''stage'', JStr ''pre_heldout''),
             (''heldout_rows'', json_len (sr_heldout_rows (de_resources e)))]\<rparr>)),
       update_step (\<lambda>d. d\<lparr>dr_heldout_candidate_index := 0, dr_active_evaluation := None\<rparr>),
       persist_gepa_run_state e PhHeldout ''completed'' ''optimization loop completed before heldout'' []])
      (checkpointed e ''pre_heldout'' ''optimization loop completed before heldout''))"

definition stop_state_of :: "gepa_driver \<Rightarrow> stop_state" where
  "stop_state_of d = \<lparr>so_generation = dr_generation d, so_candidates = dr_candidates d,
     so_rollout_count = dr_rollout_count d, so_total_cost = dr_total_cost d, so_usage_ledger = dr_usage_ledger d\<rparr>"

definition generation_label :: "usize \<Rightarrow> string" where
  "generation_label n = ''generation_'' @ pad_zeros 3 (show_word n)"

definition proposer_workspace_dir :: "driver_env \<Rightarrow> usize \<Rightarrow> string" where
  "proposer_workspace_dir e n = de_run_dir e @ ''/proposer_workspaces/'' @ generation_label n"

definition proposer_started_details :: "driver_env \<Rightarrow> gepa_driver \<Rightarrow> string \<Rightarrow> json \<Rightarrow> json" where
  "proposer_started_details e d parent_id parent_selection =
     (let cs = dr_candidates d; frames = concat (map ca_sensor_frames cs);
          rows = sum_list (map (\<lambda>c. length (ca_minibatch_scores c) + length (ca_train_scores c) + length (ca_sensor_frames c)) cs)
      in JObj (obj_of [(''generation'', json_u64 (dr_generation d)), (''backend'', JStr (de_proposer_backend e)),
       (''model'', json_str_opt (de_proposer_model e)),
       (''proposal_count'', json_u64 (gc_proposals_per_generation (de_gepa e))), (''parent_candidate_id'', JStr parent_id),
       (''frontier_size'', json_len (frontier_members cs)), (''candidate_count'', json_len cs),
       (''rollout_row_count'', json_u64 (of_nat rows)),
       (''loss_count'', json_len (filter (\<lambda>f. f64_lt (sf_reward f) (F64_Fin False 1)) frames)),
       (''win_count'', json_len (filter (\<lambda>f. f64_le (F64_Fin False 1) (sf_reward f)) frames)),
       (''workspace'', JStr (proposer_workspace_dir e (dr_generation d))), (''parent_selection'', parent_selection)]))"

definition proposer_payload :: "string \<Rightarrow> json_map \<Rightarrow> json \<Rightarrow> usize \<Rightarrow> string \<Rightarrow> string \<Rightarrow> json" where
  "proposer_payload cache_namespace cache_metadata request gen parent_id workspace_dir = JObj (obj_of
     [(''schema_version'', JStr ''gepa_runtime_job.v1''), (''dispatch_kind'', JStr ''proposer''),
      (''cache_namespace'', JStr cache_namespace), (''cache_profile'', JStr ''gepa_proposer''),
      (''cache_metadata'', JObj cache_metadata), (''request'', request), (''generation'', json_u64 gen),
      (''parent_candidate_id'', JStr parent_id), (''proposer_workspace_dir'', JStr workspace_dir)])"

definition proposer_plan_input :: "driver_env \<Rightarrow> usize \<Rightarrow> string \<Rightarrow> json \<Rightarrow> plan_input" where
  "proposer_plan_input e gen parent_id request =
     (let namespace = de_namespace e @ '':proposer.codex'';
          cache_metadata = obj_of [(''backend'', JStr (de_proposer_backend e)),
            (''runtime_substrate'', JStr (de_proposer_substrate e)), (''generation'', json_u64 gen),
            (''parent_candidate_id'', JStr parent_id),
            (''proposal_count'', json_u64 (gc_proposals_per_generation (de_gepa e)))];
          key = cache_key_with_profile (de_hash e) namespace request ''gepa_proposer''
      in \<lparr>pi_run_id = de_run_id e, pi_effect_kind = ''candidate_proposal'', pi_lane = ''proposer'',
          pi_subject_type = ''generation'', pi_subject_id = generation_label gen, pi_idempotency_key = key,
          pi_job_kind = JkProposer, pi_candidate_id = Some parent_id, pi_cache_key = Some key,
          pi_budget_estimate = cl_proposer_estimate (configured_limits_from_config (de_config e)),
          pi_payload = JObj (obj_of [(''generation'', json_u64 gen), (''parent_candidate_id'', JStr parent_id),
            (''backend'', JStr (de_proposer_backend e)), (''runtime_substrate'', JStr (de_proposer_substrate e))]),
          pi_dispatch_payload = proposer_payload namespace cache_metadata request gen parent_id (proposer_workspace_dir e gen),
          pi_metadata = obj_insert ''algorithm_id'' (JStr ''synth_gepa.v1'') cache_metadata\<rparr>)"

definition plan_proposer_runtime_job :: "driver_env \<Rightarrow> nat \<Rightarrow> queued_runtime_effect driver_step" where
  "plan_proposer_runtime_job e parent_idx = with_state (\<lambda>d.
     bind_step (ok_or (Invariant (''parent index '' @ show_dec (int parent_idx) @ '' is outside candidate registry''))
       (nth_opt (dr_candidates d) parent_idx)) (\<lambda>parent.
     bind_step (try_step (de_proposer_request e (run_state_of d) parent_idx)) (\<lambda>request.
     in_workspace (record_runtime_effect_planned (de_runtime e)
       (proposer_plan_input e (dr_generation d) (ca_candidate_id parent) request)))))"

definition proposer_active :: "string \<Rightarrow> nat \<Rightarrow> usize \<Rightarrow> active_evaluation" where
  "proposer_active parent_id parent_idx gen =
     \<lparr>ae_stage = ''proposer'', ae_candidate_id = Some parent_id, ae_candidate_index = Some parent_idx, ae_generation = gen,
      ae_proposal_index = 0, ae_row_ids = [], ae_next_row_index = 0, ae_planned_job_id = None, ae_effect_id = None,
      ae_reservation_id = None, ae_heldout_candidate_index = None, ae_parent_id = None, ae_scores = [],
      ae_failed_attempts = [], ae_sensor_frames = [], ae_reward_sum = f64_zero, ae_usage = usage_default,
      ae_cost_usd = f64_zero, ae_rollout_count = 0, ae_parent_minibatch_reward = None, ae_decision = None,
      ae_candidate_evaluations = []\<rparr>"

definition start_proposer :: "driver_env \<Rightarrow> nat \<Rightarrow> string \<Rightarrow> json \<Rightarrow> gepa_advance_outcome driver_step" where
  "start_proposer e parent_idx parent_id parent_selection = and_then
     (transition_when e StReady StProposing ProposerStarted ''Proposer started''
        (\<lambda>d. proposer_started_details e d parent_id parent_selection))
     (bind_step (plan_proposer_runtime_job e parent_idx) (\<lambda>q. with_state (\<lambda>d. and_then (steps
        [in_transitions (record_proposer_round_started (de_codec e) (de_clock e) (oj_job_id (qe_job q)) (dr_generation d) parent_id
           (JObj (obj_of [(''job_id'', JStr (oj_job_id (qe_job q))),
              (''runtime_effect_id'', JStr (ef_runtime_effect_id (qe_effect q))), (''parent_candidate_id'', JStr parent_id),
              (''generation'', json_u64 (dr_generation d)), (''model'', json_str_opt (de_proposer_model e)),
              (''provider'', JStr (de_proposer_provider e))]))),
         update_step (\<lambda>d. d\<lparr>dr_parent_pool_version := Some (dr_pool_version d), dr_parent_candidate_id := Some parent_id\<rparr>)])
        (wait_for_job e (planned_active (Some parent_id) q (proposer_active parent_id parent_idx (dr_generation d))) q
           PhProposerWaiting ''planned proposer job'' []))))"

definition advance_generation_start :: "driver_env \<Rightarrow> gepa_advance_outcome driver_step" where
  "advance_generation_start e = with_state (\<lambda>d.
     if gc_max_generations (de_gepa e) \<le> dr_generation d \<or> train_rollout_budget_reached (de_gepa e) (dr_rollout_count d)
        \<or> cost_budget_blocked (de_gepa e) (dr_total_cost d) (dr_usage_ledger d)
        \<or> service_stop_condition_reached (de_gepa e) (stop_state_of d)
     then move_to_pre_heldout e
     else bind_step (try_step (select_best_train_candidate (de_hash e) (dr_candidates d) (sr_objective_set (de_resources e))
         (ts_train_split (so_taskset (de_config e))) (sr_train_rows (de_resources e)))) (\<lambda>train_best. and_then
       (update_step (\<lambda>d. d\<lparr>dr_best_idx := or_else train_best (dr_best_idx d)\<rparr>)) (with_state (\<lambda>d.
       bind_step (try_step (select_proposer_parent_candidate (de_hash e) (dr_candidates d) (sr_train_rows (de_resources e))
         (sr_objective_set (de_resources e)) (gc_candidate_selector (de_gepa e)) (dr_generation d) (de_run_id e)
         (dr_best_idx d))) (\<lambda>selection. let parent_idx = pd_candidate_index selection in
       bind_step (ok_or (Invariant (''parent index '' @ show_dec (int parent_idx) @ '' is outside candidate registry''))
         (nth_opt (dr_candidates d) parent_idx)) (\<lambda>parent.
       start_proposer e parent_idx (ca_candidate_id parent) (pd_metadata selection)))))))"

subsection \<open>Proposals\<close>

definition current_proposal_parent_idx :: "gepa_driver \<Rightarrow> nat result" where
  "current_proposal_parent_idx d =
     (let cs = dr_candidates d;
          fallback = or_else (Option.bind (dr_best_idx d) (\<lambda>i. if i < length cs then Some i else None))
            (if cs = [] then None else Some 0)
      in case or_else (Option.bind (dr_parent_candidate_id d) (\<lambda>p. find_index (\<lambda>c. ca_candidate_id c = p) cs)) fallback of
           Some i \<Rightarrow> Inr i | None \<Rightarrow> Inl (Invariant ''GEPA has no candidate to use as proposal parent''))"

fun find_map :: "('a \<Rightarrow> 'b option) \<Rightarrow> 'a list \<Rightarrow> 'b option" where
  "find_map f [] = None"
| "find_map f (x # xs) = or_else (f x) (find_map f xs)"

definition proposal_parent_idx :: "candidate_record list \<Rightarrow> proposed_candidate \<Rightarrow> nat \<Rightarrow> nat" where
  "proposal_parent_idx cs proposal fallback_idx = unwrap_or fallback_idx
     (find_map (\<lambda>i. find_index (\<lambda>c. ca_candidate_id c = i) cs) (pr_parent_candidate_ids proposal))"

definition pipeline_candidate_admission_limit :: "driver_env \<Rightarrow> nat" where
  "pipeline_candidate_admission_limit e = (case runtime_plan_from_config (de_gepa e) of
     Inr (PlanAsyncPipelined plan) \<Rightarrow> unat (max (pp_max_in_flight_candidates plan) 1)
   | Inr (PlanFlashEvolve plan) \<Rightarrow> unat (max (pp_max_in_flight_candidates plan) 1)
   | _ \<Rightarrow> 2 ^ 64 - 1)"

definition proposed_record ::
  "string \<Rightarrow> string \<Rightarrow> payload \<Rightarrow> proposed_candidate \<Rightarrow> usize \<Rightarrow> candidate_record" where
  "proposed_record candidate_id parent_id p proposal gen =
     \<lparr>ca_candidate_id = candidate_id, ca_payload = p,
      ca_lever_bundle = lever_bundle_json (unwrap_or (bundle_from_prompt_payload candidate_id (Some parent_id) p)
        (pr_lever_bundle proposal)),
      ca_parent_id = Some parent_id, ca_source = ''reflector:'' @ proposal_type_or_default proposal,
      ca_status = ''registered'', ca_minibatch_reward = None, ca_train_reward = None, ca_heldout_reward = None,
      ca_minibatch_scores = [], ca_train_scores = [], ca_sensor_frames = [], ca_acceptance_score = JNull,
      ca_acceptance_metadata = obj_of [(''proposal'', metadata_value proposal), (''generation'', json_u64 gen)]\<rparr>"

definition registration_details :: "candidate_record \<Rightarrow> usize \<Rightarrow> nat \<Rightarrow> (string \<times> json) list" where
  "registration_details c gen proposal_index =
     [(''source'', JStr (ca_source c)), (''parent_id'', json_str_opt (ca_parent_id c)), (''generation'', json_u64 gen),
      (''proposal_index'', json_u64 (of_nat proposal_index))]"

definition register_candidate :: "driver_env \<Rightarrow> candidate_record \<Rightarrow> (string \<times> json) list \<Rightarrow> unit driver_step" where
  "register_candidate e c details = with_state (\<lambda>d. steps
     [persist_candidate_snapshot c,
      in_transitions (record_candidate_registered (de_codec e) (de_clock e 0) (ca_candidate_id c) (ca_parent_id c)
        (Some (dr_generation d)) (JObj (obj_of details)))])"

definition append_candidate :: "candidate_record \<Rightarrow> unit driver_step" where
  "append_candidate c = update_step (\<lambda>d. d\<lparr>dr_candidates := dr_candidates d @ [c]\<rparr>)"

text \<open>A new candidate is screened and registered; \<open>None\<close> where the screening rejects it.\<close>

definition register_proposal ::
  "driver_env \<Rightarrow> proposed_candidate \<Rightarrow> candidate_record \<Rightarrow> nat \<Rightarrow> nat option driver_step" where
  "register_proposal e proposal c proposal_index = with_state (\<lambda>d.
     let details = registration_details c (dr_generation d) proposal_index in
     case leakage_match_for_payload (de_gepa e) (ca_payload c) (sr_train_rows (de_resources e))
            (producer_leakage_hint (pr_metadata proposal)) of
       None \<Rightarrow> and_then (steps [register_candidate e c details, emit ''candidate.registered'', append_candidate c])
                 (return_step (Some (length (dr_candidates d))))
     | Some (hit, policy) \<Rightarrow>
         let c = c\<lparr>ca_acceptance_metadata := apply_leakage_evidence hit (ca_acceptance_metadata c)\<rparr> in
         if policy = LeakForbid
         then let c = c\<lparr>ca_status := ''rejected_leakage''\<rparr> in and_then (steps
           [emit ''candidate.leakage_detected'',
            register_candidate e c (details @ [(''status'', JStr ''rejected_leakage'')]), append_candidate c]) (return_step None)
         else and_then (steps
           [emit ''candidate.leakage_detected'', register_candidate e c details, emit ''candidate.registered'',
            append_candidate c]) (return_step (Some (length (dr_candidates d)))))"

text \<open>The candidate of a proposal: a new one, a registered one that was never evaluated, or none.\<close>

definition candidate_for_proposal ::
  "driver_env \<Rightarrow> string list \<Rightarrow> string \<Rightarrow> payload \<Rightarrow> proposed_candidate \<Rightarrow> string \<Rightarrow> nat \<Rightarrow>
   (string list \<times> nat option) driver_step" where
  "candidate_for_proposal e ids candidate_id p proposal parent_id proposal_index = with_state (\<lambda>d.
     case find_index (\<lambda>c. ca_candidate_id c = candidate_id) (dr_candidates d) of
       Some i \<Rightarrow>
         (let existing = dr_candidates d ! i in
          if ca_status existing = ''registered'' \<and> ca_minibatch_reward existing = None \<and> ca_train_reward existing = None
          then return_step (candidate_id # ids, Some i)
          else and_then (steps [emit ''candidate.duplicate_skipped'',
              update_step (\<lambda>d. d\<lparr>dr_best_idx := or_else (dr_best_idx d) (Some i)\<rparr>)]) (return_step (ids, None)))
     | None \<Rightarrow> bind_step (register_proposal e proposal (proposed_record candidate_id parent_id p proposal (dr_generation d))
           proposal_index) (\<lambda>i. return_step (candidate_id # ids, i)))"

datatype admission_result =
    AdmissionLeft gepa_advance_outcome
  | AdmissionQueued "active_candidate_evaluation list" nat

definition give_up_proposals :: "driver_env \<Rightarrow> gepa_advance_outcome driver_step" where
  "give_up_proposals e = and_then (update_step (\<lambda>d. d\<lparr>dr_proposal_index := of_nat (length (dr_proposal_queue d))\<rparr>))
     (complete_generation_boundary e)"

definition start_parent_reference ::
  "driver_env \<Rightarrow> nat \<Rightarrow> string \<Rightarrow> json list \<Rightarrow> nat \<Rightarrow> gepa_advance_outcome driver_step" where
  "start_parent_reference e parent_idx parent_id rows proposal_index = with_state (\<lambda>d.
     bind_step (try_step (new_rollout_evaluation (de_hash e) ''parent_minibatch_reference'' parent_idx rows (dr_generation d)
       (of_nat proposal_index) None)) (\<lambda>a. and_then (steps
       [set_active (Some (a\<lparr>ae_candidate_id := Some parent_id\<rparr>)),
        persist_gepa_run_state e PhCandidateMinibatch ''planned'' ''parent minibatch reference evaluation started'' []])
       (checkpointed e ''parent_minibatch_reference'' ''parent minibatch reference evaluation started'')))"

definition defer_minibatch :: "nat \<Rightarrow> active_candidate_evaluation list \<Rightarrow> admission_result driver_step" where
  "defer_minibatch i queued = with_state (\<lambda>d. and_then (steps
     [update_candidate i (\<lambda>c. c\<lparr>ca_status := ''deferred_budget''\<rparr>), save_candidate i, emit ''candidate.deferred''])
     (return_step (AdmissionQueued queued (length (dr_proposal_queue d)))))"

text \<open>The loop over the proposals from the current one on.\<close>

fun admit_proposals ::
  "driver_env \<Rightarrow> nat \<Rightarrow> usize \<Rightarrow> proposed_candidate list \<Rightarrow> active_candidate_evaluation list \<Rightarrow> string list \<Rightarrow> usize \<Rightarrow> nat \<Rightarrow>
   admission_result driver_step" where
  "admit_proposals e parent_idx capacity [] queued ids planned proposal_index =
     return_step (AdmissionQueued queued proposal_index)"
| "admit_proposals e parent_idx capacity (proposal # proposals) queued ids planned proposal_index =
     (if pipeline_candidate_admission_limit e \<le> length queued then return_step (AdmissionQueued queued proposal_index)
      else with_state (\<lambda>d. let pidx = proposal_parent_idx (dr_candidates d) proposal parent_idx in
      bind_step (ok_or (Invariant (''proposal parent index '' @ show_dec (int pidx) @ '' is outside candidate registry''))
        (nth_opt (dr_candidates d) pidx)) (\<lambda>parent.
      bind_step (try_step (admit_proposal (de_hash e) (de_program e) (de_config e) (dr_generation d) (of_nat proposal_index)
        (ca_payload parent) proposal)) (\<lambda>p. let candidate_id = candidate_id_of (de_hash e) p in
      if candidate_id \<in> set ids
      then and_then (emit ''candidate.duplicate_skipped'')
        (admit_proposals e parent_idx capacity proposals queued ids planned (Suc proposal_index))
      else bind_step (candidate_for_proposal e ids candidate_id p proposal (ca_candidate_id parent) proposal_index)
        (\<lambda>(ids, candidate_idx). case candidate_idx of
          None \<Rightarrow> admit_proposals e parent_idx capacity proposals queued ids planned (Suc proposal_index)
        | Some i \<Rightarrow>
            bind_step (expect_step (rows_for_rollout_stage (de_hash e) (de_gepa e) (de_resources e) ''candidate_minibatch''
              (dr_generation d) (of_nat proposal_index))) (\<lambda>rows.
            bind_step (try_step (parent_minibatch_reward_for_rows (de_hash e) parent rows
              (ts_train_split (so_taskset (de_config e))))) (\<lambda>reference.
            let remaining = saturating_sub capacity planned in
            bind_step (if unat remaining < length rows then return_step True
              else bind_step (next_rollout_budget_breach e) (\<lambda>breach. return_step (breach \<noteq> None))) (\<lambda>short.
            if reference = None
            then bind_step (if short then give_up_proposals e
                  else start_parent_reference e pidx (ca_candidate_id parent) rows proposal_index)
                (\<lambda>outcome. return_step (AdmissionLeft outcome))
            else if short then defer_minibatch i queued
            else with_state (\<lambda>d. bind_step (expect_step (nth_opt (dr_candidates d) i)) (\<lambda>c.
              bind_step (try_step (new_active_candidate_evaluation (de_hash e) (ca_candidate_id c) i rows (dr_generation d)
                (of_nat proposal_index) None)) (\<lambda>a.
              admit_proposals e parent_idx capacity proposals (queued @ [a\<lparr>ace_parent_id := ca_parent_id c\<rparr>]) ids
                (saturating_add planned (of_nat (length rows))) (Suc proposal_index))))))))))))"

definition advance_proposer_waiting :: "driver_env \<Rightarrow> gepa_advance_outcome driver_step" where
  "advance_proposer_waiting e = with_state (\<lambda>d.
     if length (dr_proposal_queue d) \<le> unat (dr_proposal_index d) then complete_generation_boundary e
     else if train_rollout_budget_reached (de_gepa e) (dr_rollout_count d)
             \<or> cost_budget_blocked (de_gepa e) (dr_total_cost d) (dr_usage_ledger d)
     then give_up_proposals e
     else bind_step (try_step (current_proposal_parent_idx d)) (\<lambda>parent_idx.
       bind_step (try_step (remaining_train_rollout_capacity (de_runtime e) (dr_workspace d) (de_run_id e) (de_gepa e)
         (dr_rollout_count d))) (\<lambda>capacity.
       bind_step (admit_proposals e parent_idx capacity (drop (unat (dr_proposal_index d)) (dr_proposal_queue d)) [] [] 0
         (unat (dr_proposal_index d))) (\<lambda>result. case result of
         AdmissionLeft outcome \<Rightarrow> return_step outcome
       | AdmissionQueued queued proposal_index \<Rightarrow> and_then
           (update_step (\<lambda>d. d\<lparr>dr_proposal_index := of_nat proposal_index\<rparr>))
           (if queued = [] then move_to_proposer_waiting e ''no new candidate minibatches queued''
            else and_then (steps
              [with_state (\<lambda>d. set_active (Some (new_rollout_group_evaluation ''candidate_minibatch'' queued (dr_generation d)))),
               persist_gepa_run_state e PhCandidateMinibatch ''planned'' ''candidate minibatch evaluation started'' []])
              (checkpointed e ''candidate_minibatch'' ''candidate minibatch evaluation started''))))))"

subsection \<open>The end of the run\<close>

definition settle_identities :: "driver_env \<Rightarrow> unit driver_step" where
  "settle_identities e = update_step (\<lambda>d. let (identities, best_idx) =
       settle_run_identities (de_gepa e) (dr_identities d, dr_best_idx d)
     in d\<lparr>dr_identities := identities, dr_best_idx := best_idx\<rparr>)"

text \<open>\<open>terminalize_gepa_run_state\<close>, without the files and summary tables that it writes.\<close>

definition terminalize_gepa_run_state ::
  "driver_env \<Rightarrow> gepa_cursor_phase \<Rightarrow> string \<Rightarrow> string \<Rightarrow> json \<Rightarrow> unit driver_step" where
  "terminalize_gepa_run_state e phase status message error_summary =
     (let cancelled = phase = PhCancelled in steps
      [settle_identities e,
       with_state (\<lambda>d. when_step (\<not> is_terminal (sm_state (dr_state_machine d)))
         (transition_run e (if cancelled then StCancelled else StFailed)
            (if cancelled then CancelRequested else FailureRaised)
            (if cancelled then ''GEPA run cancelled'' else ''GEPA run failed'')
            (JObj (insert_opt ''best_candidate_id'' (map_option JStr (best_candidate_id d)) [(''error'', error_summary)])))),
       emit ''storage.snapshot.recorded'', emit (if cancelled then ''gepa.run.cancelled'' else ''gepa.run.failed''),
       clear_pending,
       save_cursor e (\<lambda>s. de_save_failed_cursor e s error_summary) phase status message []])"

definition terminalized :: "driver_env \<Rightarrow> string \<Rightarrow> string \<Rightarrow> gepa_advance_outcome driver_step" where
  "terminalized e status message =
     return_step \<lparr>ao_action = TerminalizeRun (de_run_id e) status, ao_terminal = True, ao_message = message\<rparr>"

definition stopped_by_value :: "gepa_config \<Rightarrow> stop_state \<Rightarrow> json" where
  "stopped_by_value g s =
     (if score_threshold_reached g s
      then JObj (obj_of [(''kind'', JStr ''score_threshold''),
        (''metric'', JStr (unwrap_or ''heldout_score'' (gc_score_threshold_metric g))),
        (''value'', json_f64_opt (gc_score_threshold_value g))])
      else if no_improvement_reached g s
      then JObj (obj_of [(''kind'', JStr ''no_improvement''),
        (''metric'', JStr (unwrap_or ''heldout_score'' (gc_no_improvement_metric g))),
        (''generations'', json_usize_opt (gc_no_improvement_generations g))])
      else if cost_budget_blocked g (so_total_cost s) (so_usage_ledger s)
      then (if reported_cost_from_usage_ledger (so_usage_ledger s) = None
            then JObj (obj_of [(''kind'', JStr ''unknown_cost''), (''value'', JNull)])
            else JObj (obj_of [(''kind'', JStr ''max_cost_usd''), (''value'', json_f64 (gc_max_cost_usd g))]))
      else if train_rollout_budget_reached g (so_rollout_count s)
      then JObj (obj_of [(''kind'', JStr ''max_rollouts''), (''n'', json_u64 (gc_max_total_rollouts g))])
      else JObj (obj_of [(''kind'', JStr ''max_generations''), (''n'', json_u64 (gc_max_generations g))]))"

text \<open>\<open>finalize_completed_gepa_run\<close>, without the artifacts and result tables that it writes.\<close>

definition conclude_gepa_run :: "driver_env \<Rightarrow> candidate_record \<Rightarrow> gepa_advance_outcome driver_step" where
  "conclude_gepa_run e best =
    (let best_id = JStr (ca_candidate_id best) in
     case ca_heldout_reward best of
       None \<Rightarrow> and_then (with_state (\<lambda>d. terminalize_gepa_run_state e PhFailed ''failed'' ''Best candidate missing terminal heldout evidence''
           (JObj (obj_of [(''schema_version'', JStr ''gepa_terminal_heldout_required.v1''),
             (''error_code'', JStr ''gepa_best_candidate_missing_heldout''),
             (''message'', JStr ''GEPA cannot complete with a best candidate that has no heldout_reward''),
             (''best_candidate_id'', best_id), (''train_reward'', json_f64_opt (ca_train_reward best)),
             (''heldout_evaluated_candidate_count'',
                json_len (filter (\<lambda>c. ca_heldout_reward c \<noteq> None) (dr_candidates d)))]))))
         (terminalized e ''failed'' ''best candidate missing terminal heldout evidence'')
     | Some reward \<Rightarrow>
         let evidence = [(''stage'', JStr ''heldout''), (''heldout_reward'', json_f64 reward)] in and_then (steps
          [snapshot_stopper e (\<lambda>d. \<lparr>ss_status = ''completed'', ss_reason = Some ''heldout evaluation completed'',
             ss_generation = None, ss_candidate_id = Some (ca_candidate_id best), ss_evaluation_stage = Some ''heldout'',
             ss_rollout_count = dr_rollout_count d, ss_cost_usd = dr_total_cost d, ss_metadata = obj_of evidence\<rparr>),
           emit ''score_chart.written'',
           record_checkpoint_snapshot e (\<lambda>d. \<lparr>cq_kind = ''terminal'', cq_reason = ''heldout evaluation completed'',
             cq_generation = None, cq_candidate_id = Some (ca_candidate_id best), cq_stage = ''heldout'',
             cq_best_candidate_id = Some (ca_candidate_id best),
             cq_metadata = obj_of (evidence @ [(''heldout_skipped'', JBool False)])\<rparr>),
           with_state (\<lambda>d. when_step (\<not> is_terminal (sm_state (dr_state_machine d)))
             (transition_run e StCompleted RunCompleted ''GEPA run completed'' (JObj (obj_of
                [(''best_candidate_id'', best_id), (''heldout_reward'', json_f64 reward), (''heldout_skipped'', JBool False)])))),
           with_state (\<lambda>d. update_step (\<lambda>d. d\<lparr>dr_registry := fold (upsert ca_candidate_id) (dr_candidates d) (dr_registry d)\<rparr>)),
           emit ''workspace.persisted'', emit ''storage.snapshot.recorded'', emit ''gepa.run.finished'',
           persist_gepa_run_state e PhCompleted ''completed'' ''GEPA run completed'' []])
          (terminalized e ''completed'' ''GEPA run completed''))"

definition finalize_completed_gepa_run :: "driver_env \<Rightarrow> gepa_advance_outcome driver_step" where
  "finalize_completed_gepa_run e = and_then (settle_identities e) (with_state (\<lambda>d.
     bind_step (expect_step (nth_opt (dr_candidates d) (unwrap_or 0 (dr_best_idx d)))) (conclude_gepa_run e)))"

subsection \<open>Held-out rows\<close>

definition skip_heldout :: "driver_env \<Rightarrow> usize \<Rightarrow> usize \<Rightarrow> unit driver_step" where
  "skip_heldout e required available = with_state (\<lambda>d.
     bind_step (expect_step (nth_opt (dr_candidates d) (unwrap_or 0 (dr_best_idx d)))) (\<lambda>best.
     let best_id = ca_candidate_id best;
         limits = [(''required_rollouts'', json_u64 required), (''available_rollouts'', json_u64 available)]
     in steps
       [snapshot_stopper e (\<lambda>d. \<lparr>ss_status = ''heldout_skipped_limit_reached'',
          ss_reason = Some ''insufficient rollout budget for heldout evaluation'', ss_generation = None,
          ss_candidate_id = Some best_id, ss_evaluation_stage = Some ''heldout'', ss_rollout_count = dr_rollout_count d,
          ss_cost_usd = dr_total_cost d, ss_metadata = obj_of ((''stage'', JStr ''heldout'') # limits)\<rparr>),
        emit ''heldout.skipped'',
        terminalize_gepa_run_state e PhFailed ''failed'' ''Heldout required but skipped due to limits''
          (JObj (obj_of ([(''schema_version'', JStr ''gepa_terminal_heldout_required.v1''),
            (''error_code'', JStr ''gepa_terminal_heldout_not_evaluated''),
            (''message'', JStr ''GEPA cannot complete with a train-only best candidate when heldout rows are configured''),
            (''best_candidate_id'', JStr best_id)] @ limits)))]))"

text \<open>The first step of the phase: the candidates that are evaluated, or \<open>None\<close> where the run ends here.\<close>

definition open_heldout :: "driver_env \<Rightarrow> nat list \<Rightarrow> nat list \<Rightarrow> nat list option driver_step" where
  "open_heldout e all_indices indices = (let rows = length (sr_heldout_rows (de_resources e)) in with_state (\<lambda>d.
     bind_step (try_step (remaining_heldout_rollout_capacity (de_runtime e) (dr_workspace d) (de_run_id e) (de_gepa e)
       (dr_candidates d))) (\<lambda>available.
     bind_step (next_rollout_budget_breach e) (\<lambda>breach.
     bind_step (if breach \<noteq> None then return_step indices
       else expect_step (budgeted_heldout_candidate_indices (dr_candidates d) all_indices (dr_best_idx d) (unat available) rows))
     (\<lambda>indices.
     let required = saturating_mul (of_nat (max (length indices)
           (minimum_terminal_heldout_candidate_count all_indices (dr_best_idx d)))) (of_nat rows)
     in if indices = [] \<or> available < required \<or> breach \<noteq> None
        then and_then (skip_heldout e required available) (return_step None)
        else and_then (steps
          [when_step (length indices < length all_indices) (emit ''heldout.partial''),
           transition_to_rollout_running e ''Heldout rollouts started'' (JObj (obj_of
             [(''stage'', JStr ''heldout''), (''row_count'', json_u64 (of_nat rows)),
              (''candidate_count'', json_len indices), (''rollout_count'', json_u64 required)]))])
          (return_step (Some indices)))))))"

definition close_heldout :: "driver_env \<Rightarrow> nat list \<Rightarrow> gepa_advance_outcome driver_step" where
  "close_heldout e indices = with_state (\<lambda>d.
     bind_step (try_step (select_best_heldout_candidate (de_hash e)
       \<lparr>hs_candidates = dr_candidates d, hs_evaluated_indices = indices, hs_objective_set = sr_objective_set (de_resources e),
        hs_heldout_split = ts_heldout_split (so_taskset (de_config e)), hs_heldout_rows = sr_heldout_rows (de_resources e),
        hs_train_split = ts_train_split (so_taskset (de_config e)), hs_train_rows = sr_train_rows (de_resources e),
        hs_incumbent_idx = or_else (is_optimization_selected_idx (dr_identities d)) (dr_best_idx d)\<rparr>)) (\<lambda>best_idx. and_then
       (update_step (\<lambda>d. d\<lparr>dr_identities := record_heldout_best best_idx (dr_identities d)\<rparr>))
       (move_to_finalizing e ''heldout evaluation completed'')))"

definition start_heldout :: "driver_env \<Rightarrow> nat list \<Rightarrow> gepa_advance_outcome driver_step" where
  "start_heldout e indices = with_state (\<lambda>d.
     bind_step (try_step (collect_results (\<lambda>(offset, i). new_active_candidate_evaluation (de_hash e)
         (ca_candidate_id (dr_candidates d ! i)) i (sr_heldout_rows (de_resources e)) (dr_generation d) 0 (Some offset))
       (drop (dr_heldout_candidate_index d) (enumerate 0 indices)))) (\<lambda>active_candidates. and_then (steps
         [set_active (Some (new_rollout_group_evaluation ''heldout'' active_candidates (dr_generation d))),
          persist_gepa_run_state e PhHeldout ''planned'' ''heldout candidate evaluation started'' []])
         (checkpointed e ''heldout'' ''heldout candidate evaluation started'')))"

definition advance_heldout :: "driver_env \<Rightarrow> gepa_advance_outcome driver_step" where
  "advance_heldout e = with_state (\<lambda>d.
     if evaluating_stage ''heldout'' d then continue_evaluation e
     else let all_indices = heldout_candidate_indices (dr_candidates d) (dr_best_idx d);
              evaluated = filter (\<lambda>i. ca_heldout_reward (dr_candidates d ! i) \<noteq> None) all_indices;
              indices = (if evaluated = [] then all_indices else evaluated)
          in if \<not> list_all (\<lambda>i. i < length (dr_candidates d)) all_indices then panic_step
             else if indices = [] \<or> sr_heldout_rows (de_resources e) = []
             then move_to_finalizing e ''heldout evaluation skipped''
             else bind_step (if dr_heldout_candidate_index d = 0 then open_heldout e all_indices indices
                             else return_step (Some indices))
               (\<lambda>chosen. case chosen of
                  None \<Rightarrow> terminalized e ''failed'' ''heldout required but skipped due to limits''
                | Some indices \<Rightarrow> if length indices \<le> dr_heldout_candidate_index d then close_heldout e indices
                                  else start_heldout e indices))"

subsection \<open>What a job returns\<close>

text \<open>
  The outcome of a job (\<open>StoredRuntimeOutcome\<close>). The events of the consumption of an outcome, the files of
  the proposer's workspace and the evidence that refers to them are not kept.
\<close>

record proposer_result =
  po_response :: json
  po_proposals :: "proposed_candidate list"
  po_usage :: usage_totals
  po_cost_usd :: f64
  po_backend :: string
  po_workspace :: "string option"

record stored_rollout_failure =
  sf_candidate_id :: string
  sf_stage :: string
  sf_failed_example_id :: string
  sf_failure :: failure_payload

datatype stored_runtime_outcome =
    ProposerDone proposer_result
  | RolloutDone rollout_outcome
  | RolloutBatchDone "rollout_outcome list" "stored_rollout_failure list"

definition reported_proposer_cost :: "proposer_result \<Rightarrow> f64 option" where
  "reported_proposer_cost p = Option.bind (Option.bind (json_get (po_response p) ''usage'') (\<lambda>u. json_get u ''cost_usd'')) as_f64"

definition proposer_substrate_of :: "driver_env \<Rightarrow> proposer_result \<Rightarrow> string" where
  "proposer_substrate_of e p =
     unwrap_or (de_proposer_substrate e) (Option.bind (json_get (po_response p) ''runtime_substrate'') as_str)"

definition evidence_warnings :: "proposer_result \<Rightarrow> string list" where
  "evidence_warnings p = List.map_filter as_str
     (unwrap_or [] (Option.bind (json_get (po_response p) ''evidence_warnings'') as_array))"

definition proposer_usage_record :: "driver_env \<Rightarrow> candidate_record \<Rightarrow> usize \<Rightarrow> proposer_result \<Rightarrow> usage_ledger_record" where
  "proposer_usage_record e parent gen p =
     (let reported = reported_proposer_cost p in usage_from_input (de_hash e)
       \<lparr>uli_boundary = ''proposer.codex'', uli_source_type = ''proposer_generation'', uli_source_id = generation_label gen,
        uli_candidate_id = Some (ca_candidate_id parent), uli_evaluation_stage = Some ''proposal'',
        uli_model = de_proposer_model e, uli_provider = Some (de_proposer_provider e),
        uli_call_count = max (ut_proposer_calls (po_usage p)) 1, uli_usage = usage_totals_json (po_usage p),
        uli_cost_usd = or_else reported (gc_proposer_estimated_cost_usd (de_gepa e)),
        uli_metadata = insert_opt ''workspace'' (map_option JStr (po_workspace p)) (obj_of
          [(''cost_source'', JStr (if reported \<noteq> None then ''provider_reported'' else ''configured_reservation_ceiling'')),
           (''generation'', json_u64 gen), (''proposal_count'', json_len (po_proposals p)), (''backend'', JStr (po_backend p)),
           (''provider'', JStr (de_proposer_provider e)), (''runtime_substrate'', JStr (proposer_substrate_of e p)),
           (''warning_count'', json_len (evidence_warnings p)), (''warnings'', json_strs (evidence_warnings p))])\<rparr>)"

definition proposer_outcome_parent :: "active_evaluation \<Rightarrow> candidate_record list \<Rightarrow> nat option" where
  "proposer_outcome_parent a cs = or_else (ae_candidate_index a)
     (Option.bind (ae_candidate_id a) (\<lambda>candidate_id. find_index (\<lambda>c. ca_candidate_id c = candidate_id) cs))"

definition consume_proposer_outcome :: "driver_env \<Rightarrow> proposer_result \<Rightarrow> unit driver_step" where
  "consume_proposer_outcome e p = with_state (\<lambda>d.
     bind_step (ok_or (Invariant ''proposer outcome has no active evaluation'') (dr_active_evaluation d)) (\<lambda>a. and_then
     (set_active None)
     (bind_step (ok_or (Invariant ''proposer outcome has no selected parent candidate'')
       (proposer_outcome_parent a (dr_candidates d))) (\<lambda>parent_idx.
     bind_step (ok_or (Invariant (''selected parent index '' @ show_dec (int parent_idx) @ '' is outside candidate registry''))
       (nth_opt (dr_candidates d) parent_idx)) (\<lambda>parent. let gen = ae_generation a in steps
      [update_step (\<lambda>d. d\<lparr>dr_total_usage := usage_merge (dr_total_usage d) (po_usage p),
         dr_total_cost := f64_add (dr_total_cost d) (po_cost_usd p),
         dr_usage_ledger := dr_usage_ledger d @ [proposer_usage_record e parent gen p]\<rparr>),
       snapshot_stopper e (\<lambda>d. \<lparr>ss_status = budget_status (de_gepa e) (dr_rollout_count d) (dr_total_cost d),
         ss_reason = Some ''proposer completed'', ss_generation = Some gen, ss_candidate_id = Some (ca_candidate_id parent),
         ss_evaluation_stage = Some ''proposer'', ss_rollout_count = dr_rollout_count d, ss_cost_usd = dr_total_cost d,
         ss_metadata = obj_of [(''stage'', JStr ''proposer''), (''generation'', json_u64 gen),
           (''proposal_count'', json_len (po_proposals p)), (''backend'', JStr (po_backend p)),
           (''provider'', JStr (de_proposer_provider e)), (''runtime_substrate'', JStr (proposer_substrate_of e p)),
           (''warning_count'', json_len (evidence_warnings p))]\<rparr>),
       emit ''proposer.completed'',
       update_step (\<lambda>d. d\<lparr>dr_proposal_queue := po_proposals p, dr_proposal_index := 0,
         dr_parent_candidate_id := Some (ca_candidate_id parent), dr_phase := PhProposerWaiting\<rparr>),
       transition_when e StProposing StRolloutQueueing ProposerFinished ''Proposer returned candidates; rollout queue ready''
         (\<lambda>d. JObj (obj_of [(''generation'', json_u64 gen), (''proposal_count'', json_len (po_proposals p))]))])))))"

definition on_active :: "(active_evaluation \<Rightarrow> active_evaluation result option) \<Rightarrow> string \<Rightarrow> unit driver_step" where
  "on_active f missing = with_state (\<lambda>d.
     bind_step (ok_or (Invariant missing) (dr_active_evaluation d)) (\<lambda>a.
     bind_step (expect_step (f a)) (\<lambda>r. bind_step (try_step r) (\<lambda>a. set_active (Some a)))))"

definition record_sample :: "driver_env \<Rightarrow> rollout_resilience_observation \<Rightarrow> unit driver_step" where
  "record_sample e x = run_op dr_resilience (\<lambda>r d. d\<lparr>dr_resilience := r\<rparr>) (record_rollout_resilience_sample (de_gepa e) x)"

definition no_signal :: provider_signal where
  "no_signal = \<lparr>ps_status_code = None, ps_provider_error_code = None, ps_overload = False, ps_retryable = False\<rparr>"

definition consume_scored :: "driver_env \<Rightarrow> rollout_outcome \<Rightarrow> unit driver_step" where
  "consume_scored e out = with_state (\<lambda>d. steps
     [on_active (consume_rollout_outcome (de_hash e) (de_gepa e) (de_resources e) (dr_candidates d) out)
        ''rollout outcome has no active evaluation'',
      record_sample e \<lparr>ob_stage = ro_stage out, ob_example_id = ro_example_id out, ob_degraded = False, ob_failure = None,
        ob_provider_signal = no_signal\<rparr>])"

definition consume_failure :: "driver_env \<Rightarrow> optimizer_job \<Rightarrow> stored_rollout_failure \<Rightarrow> unit driver_step" where
  "consume_failure e job x = with_state (\<lambda>d.
     let signal = provider_signal_from_failure (de_gepa e) (Some (sf_failure x)) in steps
     [on_active (\<lambda>a. Some (consume_failed_rollout_attempt (dr_candidates d) (Some (sf_candidate_id x)) (sf_stage x)
        (sf_failed_example_id x) job (sf_failure x) signal a)) ''failed rollout has no active evaluation'',
      record_sample e \<lparr>ob_stage = sf_stage x, ob_example_id = sf_failed_example_id x, ob_degraded = True,
        ob_failure = Some (sf_failure x), ob_provider_signal = signal\<rparr>])"

definition consume_outcome :: "driver_env \<Rightarrow> optimizer_job \<Rightarrow> stored_runtime_outcome \<Rightarrow> unit driver_step" where
  "consume_outcome e job outcome = (case outcome of
     ProposerDone p \<Rightarrow> consume_proposer_outcome e p
   | RolloutDone out \<Rightarrow> consume_scored e (out\<lparr>ro_candidate_id := None\<rparr>)
   | RolloutBatchDone outcomes failures \<Rightarrow> steps
      [for_each (\<lambda>out. steps [consume_scored e out, persist_phase e ''running'' ''persisted child rollout outcome'' []]) outcomes,
       for_each (\<lambda>x. steps [consume_failure e job x,
         persist_phase e ''running'' ''persisted failed child rollout outcome'' []]) failures])"

definition consume_completed_runtime_job ::
  "driver_env \<Rightarrow> optimizer_job \<Rightarrow> stored_runtime_outcome \<Rightarrow> gepa_advance_outcome driver_step" where
  "consume_completed_runtime_job e job outcome = and_then (steps
     [consume_outcome e job outcome, clear_pending,
      update_step (\<lambda>d. d\<lparr>dr_active_evaluation := map_option (\<lambda>a. a\<lparr>ae_planned_job_id := None, ae_effect_id := None,
        ae_reservation_id := None\<rparr>) (dr_active_evaluation d)\<rparr>),
      persist_phase e ''completed'' ''consumed GEPA runtime outcome'' []])
     (return_step \<lparr>ao_action = ConsumeRuntimeOutcome (de_run_id e) (oj_job_id job), ao_terminal = False,
        ao_message = ''consumed GEPA runtime outcome''\<rparr>)"

definition failed_job_error_summary :: "optimizer_job \<Rightarrow> json" where
  "failed_job_error_summary job =
     (let status = job_status_str (oj_status job);
          runtime_failure = Option.bind (Option.bind (Option.bind (Option.bind
            (map_of (oj_payload job) ''runtime_outcome'') (\<lambda>v. json_get v ''failures'')) as_array)
            (\<lambda>xs. nth_opt xs 0)) (\<lambda>v. json_get v ''failure'');
          text_or = (\<lambda>v key default. JStr (unwrap_or default (Option.bind (json_get v key) as_str)))
      in unwrap_or
       (JObj (obj_of [(''error_code'', JStr ''synth_optimizer_failed''),
          (''message'', JStr (''GEPA runtime job '' @ oj_job_id job @ '' '' @ status))]))
       (or_else (map_of (oj_payload job) ''error'')
       (or_else (map_option (\<lambda>failure. JObj (obj_of
          [(''error_code'', text_or failure ''reason_code'' ''synth_optimizer_failed''),
           (''message'', text_or failure ''message'' ''GEPA runtime effect reported a failed outcome''),
           (''failure'', failure), (''runtime_job_id'', JStr (oj_job_id job)), (''runtime_job_status'', JStr status)]))
          runtime_failure)
        (map_option (\<lambda>failure. JObj (obj_of
          [(''error_code'', JStr ''synth_optimizer_failed''),
           (''message'', JStr (''GEPA runtime job '' @ oj_job_id job @ '' '' @ status @ '': '' @ fp_message failure)),
           (''failure'', failure_to_json failure)])) (oj_failure job)))))"

definition consume_failed_runtime_job :: "driver_env \<Rightarrow> optimizer_job \<Rightarrow> gepa_advance_outcome driver_step" where
  "consume_failed_runtime_job e job =
     (let cancelled = oj_status job = JsCancelled; status = (if cancelled then ''cancelled'' else ''failed'');
          message = (if cancelled then ''GEPA runtime job cancelled'' else ''GEPA runtime job failed'')
      in and_then (steps [clear_pending, terminalize_gepa_run_state e (if cancelled then PhCancelled else PhFailed) status message
           (failed_job_error_summary job)])
         (terminalized e status (message @ '': '' @ oj_job_id job)))"

subsection \<open>One step\<close>

text \<open>
  \<open>advance_gepa_sync_serial_once\<close>, for a run that is neither finished, paused nor cancelled and that waits
  for no job: the caller delivers the outcome of a job with \<open>consume_completed_runtime_job\<close> and
  \<open>consume_failed_runtime_job\<close>.
\<close>

fun advance_phase :: "driver_env \<Rightarrow> gepa_cursor_phase \<Rightarrow> gepa_advance_outcome driver_step" where
  "advance_phase e PhInitializing = advance_initializing e"
| "advance_phase e PhSeedFullTrain = advance_rollout_stage e ''seed_full_train''"
| "advance_phase e PhGenerationStart = advance_generation_start e"
| "advance_phase e PhProposerWaiting = advance_proposer_waiting e"
| "advance_phase e PhCandidateMinibatch = advance_rollout_stage e ''candidate_minibatch''"
| "advance_phase e PhCandidateFullTrain = advance_rollout_stage e ''candidate_full_train''"
| "advance_phase e PhHeldout = advance_heldout e"
| "advance_phase e PhFinalizing = finalize_completed_gepa_run e"
| "advance_phase e PhPaused = panic_step"
| "advance_phase e PhCompleted = panic_step"
| "advance_phase e PhFailed = panic_step"
| "advance_phase e PhCancelled = panic_step"

definition advance_gepa_sync_serial_once :: "driver_env \<Rightarrow> gepa_advance_outcome driver_step" where
  "advance_gepa_sync_serial_once e = with_state (\<lambda>d. advance_phase e (dr_phase d))"

end
