(* ===== verification/Driver_View.thy ===== *)
theory Driver_View
  imports Gepa_Driver
begin

text \<open>
  What the driver's invariants talk about: the phase, the state of the run, the evaluation in progress, whether a
  job is awaited, the position in the held-out phase and the ids of the candidates. \<open>wpv\<close> is the calculus of
  steps over this view: a step is described by what it does to the view of any state, and every step keeps
  the indices of the run within the registry and adds no held-out reward but the ones of a given set.
\<close>

record driver_view =
  v_phase :: gepa_cursor_phase
  v_state :: optimizer_run_state
  v_active :: "active_evaluation option"
  v_pending :: bool
  v_index :: nat
  v_ids :: "string list"

definition view_of :: "gepa_driver \<Rightarrow> driver_view" where
  "view_of d = \<lparr>v_phase = dr_phase d, v_state = sm_state (dr_state_machine d), v_active = dr_active_evaluation d,
     v_pending = (dr_pending_job_id d \<noteq> None), v_index = dr_heldout_candidate_index d,
     v_ids = map ca_candidate_id (dr_candidates d)\<rparr>"

lemma view_of_sel [simp]:
  "v_phase (view_of d) = dr_phase d" "v_state (view_of d) = sm_state (dr_state_machine d)"
  "v_active (view_of d) = dr_active_evaluation d" "v_pending (view_of d) \<longleftrightarrow> dr_pending_job_id d \<noteq> None"
  "v_index (view_of d) = dr_heldout_candidate_index d" "v_ids (view_of d) = map ca_candidate_id (dr_candidates d)"
  by (simp_all add: view_of_def)

definition in_range :: "nat \<Rightarrow> nat option \<Rightarrow> bool" where
  "in_range n i \<longleftrightarrow> (case i of None \<Rightarrow> True | Some k \<Rightarrow> k < n)"

definition indices_ok :: "gepa_driver \<Rightarrow> bool" where
  "indices_ok d \<longleftrightarrow> list_all (in_range (length (dr_candidates d)))
     [dr_best_idx d, is_optimization_selected_idx (dr_identities d), is_heldout_best_idx (dr_identities d),
      is_deployment_idx (dr_identities d)]"

definition heldout_rewards :: "gepa_driver \<Rightarrow> (string \<times> f64) set" where
  "heldout_rewards d = {(ca_candidate_id c, r) | c r. c \<in> set (dr_candidates d) \<and> ca_heldout_reward c = Some r}"

definition safe :: "(string \<times> f64) set \<Rightarrow> gepa_driver \<Rightarrow> bool" where
  "safe H d \<longleftrightarrow> indices_ok d \<and> heldout_rewards d \<subseteq> H"

lemma in_range_simps [simp]:
  "in_range n None" "in_range n (Some k) \<longleftrightarrow> k < n"
  by (simp_all add: in_range_def)

lemma view_of_phase [simp]: "(view_of d)\<lparr>v_phase := dr_phase d\<rparr> = view_of d"
  by (simp add: view_of_def)

lemma in_range_or_else: "in_range n i \<Longrightarrow> in_range n j \<Longrightarrow> in_range n (or_else i j)"
  by (cases i) simp_all

lemma heldout_rewards_cong:
  "dr_candidates d' = dr_candidates d \<Longrightarrow> heldout_rewards d' = heldout_rewards d"
  by (simp add: heldout_rewards_def)

subsection \<open>Steps over views\<close>

definition wpv ::
  "(string \<times> f64) set \<Rightarrow> 'a driver_step \<Rightarrow> ('a \<Rightarrow> driver_view \<Rightarrow> bool) \<Rightarrow> driver_view \<Rightarrow> bool" where
  "wpv H f Q v \<longleftrightarrow> (\<forall>s. view_of s = v \<longrightarrow> safe H s \<longrightarrow> wp f (\<lambda>x s'. safe H s' \<and> Q x (view_of s')) s)"

named_theorems wpv_intro

lemma wpvI: "(\<And>s. view_of s = v \<Longrightarrow> safe H s \<Longrightarrow> wp f (\<lambda>x s'. safe H s' \<and> Q x (view_of s')) s) \<Longrightarrow> wpv H f Q v"
  by (simp add: wpv_def)

lemma wpvD:
  assumes "wpv H f Q (view_of s)" "safe H s" "f s = Some (s', Inr x)"
  shows "safe H s'" "Q x (view_of s')"
  using wp_elim [of f _ s s' x] assms by (fastforce simp: wpv_def)+

lemma wpv_mono:
  assumes "wpv H f Q v" "\<And>x v'. Q x v' \<Longrightarrow> Q' x v'"
  shows "wpv H f Q' v"
proof (rule wpvI)
  fix s assume "view_of s = v" "safe H s"
  with assms(1) have "wp f (\<lambda>x s'. safe H s' \<and> Q x (view_of s')) s"
    by (simp add: wpv_def)
  then show "wp f (\<lambda>x s'. safe H s' \<and> Q' x (view_of s')) s"
    by (rule wp_mono) (simp add: assms(2))
qed

lemma wpv_bind [wpv_intro]: "wpv H f (\<lambda>x v'. wpv H (g x) Q v') v \<Longrightarrow> wpv H (bind_step f g) Q v"
proof (rule wpvI)
  fix s assume f: "wpv H f (\<lambda>x v'. wpv H (g x) Q v') v" and s: "view_of s = v" "safe H s"
  then have "wp f (\<lambda>x s'. safe H s' \<and> wpv H (g x) Q (view_of s')) s"
    unfolding wpv_def [of H f] by blast
  then show "wp (bind_step f g) (\<lambda>x s'. safe H s' \<and> Q x (view_of s')) s"
    unfolding wp_bind by (rule wp_mono) (simp add: wpv_def)
qed

lemma wpv_and_then [wpv_intro]: "wpv H f (\<lambda>_ v'. wpv H g Q v') v \<Longrightarrow> wpv H (and_then f g) Q v"
  by (simp add: and_then_def wpv_bind)

lemma wpv_steps [wpv_intro]:
  "Q () v \<Longrightarrow> wpv H (steps []) Q v"
  "wpv H f (\<lambda>_ v'. wpv H (steps fs) Q v') v \<Longrightarrow> wpv H (steps (f # fs)) Q v"
  by (simp_all add: wpv_and_then) (simp add: wpv_def)

lemma wpv_simple [wpv_intro]:
  "Q x v \<Longrightarrow> wpv H (return_step x) Q v"
  "wpv H (fail_step err) Q v"
  "wpv H panic_step Q v"
  "(\<And>x. r = Inr x \<Longrightarrow> Q x v) \<Longrightarrow> wpv H (try_step r) Q v"
  "(\<And>x. opt = Some x \<Longrightarrow> Q x v) \<Longrightarrow> wpv H (expect_step opt) Q v"
  "(\<And>x. opt = Some x \<Longrightarrow> Q x v) \<Longrightarrow> wpv H (ok_or err opt) Q v"
  "(b \<Longrightarrow> wpv H f Q' v) \<Longrightarrow> (\<not> b \<Longrightarrow> Q' () v) \<Longrightarrow> wpv H (when_step b f) Q' v"
  "wpv H (invariant_error message) Q v"
  by (auto simp: wpv_def invariant_error_def)

lemma wpv_cases [wpv_intro]:
  "(b \<Longrightarrow> wpv H f Q v) \<Longrightarrow> (\<not> b \<Longrightarrow> wpv H g Q v) \<Longrightarrow> wpv H (if b then f else g) Q v"
  "wpv H (f1 t) Q v \<Longrightarrow> wpv H (Let t f1) Q v"
  "(opt = None \<Longrightarrow> wpv H f Q v) \<Longrightarrow> (\<And>x. opt = Some x \<Longrightarrow> wpv H (f2 x) Q v) \<Longrightarrow>
     wpv H (case opt of None \<Rightarrow> f | Some x \<Rightarrow> f2 x) Q v"
  "(\<And>x y. p = (x, y) \<Longrightarrow> wpv H (f3 x y) Q v) \<Longrightarrow> wpv H (case p of (x, y) \<Rightarrow> f3 x y) Q v"
  "(\<And>x. r = Inl x \<Longrightarrow> wpv H (f4 x) Q v) \<Longrightarrow> (\<And>x. r = Inr x \<Longrightarrow> wpv H (f5 x) Q v) \<Longrightarrow>
     wpv H (case r of Inl x \<Rightarrow> f4 x | Inr x \<Rightarrow> f5 x) Q v"
  by (auto split: option.split prod.split sum.split)

lemma wpv_with_state [wpv_intro]:
  "(\<And>d. view_of d = v \<Longrightarrow> safe H d \<Longrightarrow> dr_phase d = v_phase v \<Longrightarrow> sm_state (dr_state_machine d) = v_state v \<Longrightarrow>
      dr_active_evaluation d = v_active v \<Longrightarrow> dr_heldout_candidate_index d = v_index v \<Longrightarrow>
      length (dr_candidates d) = length (v_ids v) \<Longrightarrow> wpv H (g d) Q v) \<Longrightarrow> wpv H (with_state g) Q v"
  by (auto simp: wpv_def)

lemma wpv_for_each:
  assumes "I v" "\<And>x v. x \<in> set xs \<Longrightarrow> I v \<Longrightarrow> wpv H (f x) (\<lambda>_. I) v" "\<And>v. I v \<Longrightarrow> Q () v"
  shows "wpv H (for_each f xs) Q v"
  using assms
proof (induction xs arbitrary: v)
  case (Cons x xs)
  have "wpv H (f x) (\<lambda>_. I) v"
    using Cons.prems by simp
  then have "wpv H (f x) (\<lambda>_ v'. wpv H (for_each f xs) Q v') v"
    by (rule wpv_mono) (rule Cons.IH; use Cons.prems in simp)
  then show ?case
    by (simp add: wpv_and_then)
qed (simp add: wpv_def)

lemma wpv_update:
  assumes "\<And>s. view_of s = v \<Longrightarrow> safe H s \<Longrightarrow> safe H (f s) \<and> Q () (view_of (f s))"
  shows "wpv H (update_step f) Q v"
  using assms by (auto simp: wpv_def)

text \<open>An update that leaves the candidates and the indices alone.\<close>

definition quiet :: "(gepa_driver \<Rightarrow> gepa_driver) \<Rightarrow> bool" where
  "quiet f \<longleftrightarrow> (\<forall>s. dr_candidates (f s) = dr_candidates s \<and> dr_best_idx (f s) = dr_best_idx s \<and>
     dr_identities (f s) = dr_identities s)"

lemma safe_quiet: "quiet f \<Longrightarrow> safe H (f s) \<longleftrightarrow> safe H s"
  by (simp add: quiet_def safe_def indices_ok_def heldout_rewards_def)

lemma wpv_quiet:
  assumes "quiet f" "\<And>s. view_of s = v \<Longrightarrow> Q () (view_of (f s))"
  shows "wpv H (update_step f) Q v"
  using assms by (auto intro!: wpv_update simp: safe_quiet)

lemma wpv_run_op_quiet:
  assumes "\<And>t. quiet (put t)" "\<And>t s. view_of (put t s) = view_of s" "\<And>x. Q x v"
  shows "wpv H (run_op get put f) Q v"
  using assms by (auto intro!: wpvI wp_run_op simp: safe_quiet)

subsection \<open>Writers\<close>

lemma wpv_emit [wpv_intro]: "Q () v \<Longrightarrow> wpv H (emit event_type) Q v"
  unfolding emit_def by (rule wpv_quiet) (simp_all add: quiet_def view_of_def)

lemma wpv_in_transitions [wpv_intro]: "(\<And>x. Q x v) \<Longrightarrow> wpv H (in_transitions f) Q v"
  unfolding in_transitions_def by (rule wpv_run_op_quiet) (simp_all add: quiet_def view_of_def)

lemma wpv_in_workspace [wpv_intro]: "(\<And>x. Q x v) \<Longrightarrow> wpv H (in_workspace f) Q v"
  unfolding in_workspace_def by (rule wpv_run_op_quiet) (simp_all add: quiet_def view_of_def)

lemma wpv_candidate_transition [wpv_intro]:
  "Q () v \<Longrightarrow> wpv H (candidate_transition e candidate_id parent_id gen to trigger metadata) Q v"
  unfolding candidate_transition_def by (rule wpv_in_transitions) simp

lemma wpv_persist_candidate_snapshot [wpv_intro]: "Q () v \<Longrightarrow> wpv H (persist_candidate_snapshot c) Q v"
  unfolding persist_candidate_snapshot_def by (rule wpv_quiet) (simp_all add: quiet_def view_of_def)

lemma wpv_snapshot_stopper [wpv_intro]: "Q () v \<Longrightarrow> wpv H (snapshot_stopper e snapshot) Q v"
  unfolding snapshot_stopper_def
  by (rule wpv_quiet) (simp_all add: quiet_def view_of_def Let_def split: prod.split)

lemma wpv_record_checkpoint_snapshot [wpv_intro]: "Q () v \<Longrightarrow> wpv H (record_checkpoint_snapshot e request) Q v"
  unfolding record_checkpoint_snapshot_def
  by (rule wpv_quiet) (simp_all add: quiet_def view_of_def Let_def)

lemma wpv_save_cursor [wpv_intro]:
  "Q () (v\<lparr>v_phase := phase\<rparr>) \<Longrightarrow> wpv H (save_cursor e snapshot phase status reason metadata) Q v"
  unfolding save_cursor_def
  by (rule wpv_quiet) (auto simp: quiet_def view_of_def Let_def)

lemma wpv_persist [wpv_intro]:
  "Q () (v\<lparr>v_phase := phase\<rparr>) \<Longrightarrow> wpv H (persist_gepa_run_state e phase status reason metadata) Q v"
  "Q () v \<Longrightarrow> wpv H (persist_phase e status reason metadata) Q v"
  unfolding persist_phase_def persist_gepa_run_state_def
  by (auto intro!: wpv_save_cursor wpv_with_state)

lemma wpv_pending [wpv_intro]:
  "Q () (v\<lparr>v_pending := True\<rparr>) \<Longrightarrow> wpv H (set_pending q) Q v"
  "Q () (v\<lparr>v_pending := False\<rparr>) \<Longrightarrow> wpv H clear_pending Q v"
  unfolding set_pending_def clear_pending_def
  by (rule wpv_quiet; auto simp: quiet_def view_of_def)+

lemma wpv_set_active [wpv_intro]: "Q () (v\<lparr>v_active := a\<rparr>) \<Longrightarrow> wpv H (set_active a) Q v"
  unfolding set_active_def by (rule wpv_quiet) (auto simp: quiet_def view_of_def)

lemma wpv_emit_frontier [wpv_intro]: "Q () v \<Longrightarrow> wpv H (emit_frontier e event_type) Q v"
  unfolding emit_frontier_def by (intro wpv_intro)

lemma wpv_checkpointed [wpv_intro]:
  "Q \<lparr>ao_action = CheckpointRun (de_run_id e) phase, ao_terminal = False, ao_message = message\<rparr> v \<Longrightarrow>
   wpv H (checkpointed e phase message) Q v"
  unfolding checkpointed_def by (rule wpv_simple)

lemma wpv_next_rollout_budget_breach [wpv_intro]:
  "(\<And>x. Q x v) \<Longrightarrow> wpv H (next_rollout_budget_breach e) Q v"
  unfolding next_rollout_budget_breach_def by (intro wpv_intro)

lemma wpv_log:
  "Q () v \<Longrightarrow> wpv H (update_step (\<lambda>d. d\<lparr>dr_transitions := l d\<rparr>)) Q v"
  "Q () v \<Longrightarrow> wpv H (update_step (\<lambda>d. d\<lparr>dr_state_history := sh d\<rparr>)) Q v"
  by (auto intro!: wpv_quiet simp: quiet_def view_of_def)

lemma wpv_transition_run [wpv_intro]:
  assumes "is_valid_transition (v_state v) to trigger \<Longrightarrow> Q () (v\<lparr>v_state := to\<rparr>)"
  shows "wpv H (transition_run e to trigger message details) Q v"
proof -
  have "wpv H (run_op dr_state_machine (\<lambda>m d. d\<lparr>dr_state_machine := m\<rparr>)
      (transition (en_now_rfc3339 (de_runtime e)) to trigger message (unwrap_or [] (as_object details))))
      (\<lambda>t v'. v' = v\<lparr>v_state := to\<rparr> \<and> is_valid_transition (v_state v) to trigger) v"
    by (auto intro!: wpvI wp_run_op simp: transition_def Let_def view_of_def safe_def indices_ok_def
        heldout_rewards_def split: if_splits)
  then show ?thesis
    unfolding transition_run_def using assms
    by (intro wpv_bind) (erule wpv_mono, intro wpv_intro wpv_log; simp)
qed

lemma wpv_transition_when [wpv_intro]:
  assumes "v_state v = from \<Longrightarrow> is_valid_transition from to trigger \<Longrightarrow> Q () (v\<lparr>v_state := to\<rparr>)"
    "v_state v \<noteq> from \<Longrightarrow> Q () v"
  shows "wpv H (transition_when e from to trigger message details) Q v"
  unfolding transition_when_def using assms by (intro wpv_intro) auto

subsection \<open>The candidates\<close>

lemma heldout_rewards_update:
  assumes "i < length (dr_candidates d)" "ca_candidate_id c = ca_candidate_id (dr_candidates d ! i)"
  shows "heldout_rewards (d\<lparr>dr_candidates := (dr_candidates d)[i := c]\<rparr>) \<subseteq>
    heldout_rewards d \<union> {(ca_candidate_id c, r) | r. ca_heldout_reward c = Some r}"
  using set_update_subset_insert [of "dr_candidates d" i c] by (fastforce simp: heldout_rewards_def)

lemma map_id_update:
  "i < length xs \<Longrightarrow> g (f (xs ! i)) = g (xs ! i) \<Longrightarrow> map g (xs[i := f (xs ! i)]) = map g xs"
  by (simp add: map_update list_update_same_conv)

lemma wpv_update_candidate:
  assumes id: "\<And>c. ca_candidate_id (f c) = ca_candidate_id c"
    and reward: "\<And>c r. ca_heldout_reward (f c) = Some r \<Longrightarrow> i < length (v_ids v) \<Longrightarrow>
      ca_heldout_reward c = Some r \<or> (v_ids v ! i, r) \<in> H"
    and Q: "i < length (v_ids v) \<Longrightarrow> Q () v"
  shows "wpv H (update_candidate i f) Q v"
  unfolding update_candidate_def
proof (intro wpv_intro wpv_update)
  fix d s assume d: "view_of d = v" "\<not> length (dr_candidates d) \<le> i" and s: "view_of s = v" "safe H s"
  have len: "i < length (dr_candidates s)" "length (v_ids v) = length (dr_candidates s)"
    using d s by (auto dest!: arg_cong [where f = "length \<circ> v_ids"])
  let ?c = "dr_candidates s ! i"
  have old: "(ca_candidate_id ?c, r) \<in> heldout_rewards s" if "ca_heldout_reward ?c = Some r" for r
    using that len(1) by (auto simp: heldout_rewards_def)
  have "heldout_rewards (s\<lparr>dr_candidates := (dr_candidates s)[i := f ?c]\<rparr>) \<subseteq> H"
    using heldout_rewards_update [OF len(1), of "f ?c"] id [of ?c] reward [of ?c] old s(1,2) len
    by (fastforce simp: safe_def view_of_def)
  then show "safe H (s\<lparr>dr_candidates := (dr_candidates s)[i := f ?c]\<rparr>) \<and>
      Q () (view_of (s\<lparr>dr_candidates := (dr_candidates s)[i := f ?c]\<rparr>))"
    using s Q len by (auto simp: safe_def indices_ok_def view_of_def map_id_update id)
qed

lemma wpv_save_candidate [wpv_intro]: "Q () v \<Longrightarrow> wpv H (save_candidate i) Q v"
  unfolding save_candidate_def by (intro wpv_intro)

lemma wpv_best_idx:
  assumes "\<And>s. view_of s = v \<Longrightarrow> safe H s \<Longrightarrow> in_range (length (v_ids v)) (k s)" "Q () v"
  shows "wpv H (update_step (\<lambda>d. d\<lparr>dr_best_idx := k d\<rparr>)) Q v"
  using assms by (auto intro!: wpv_update simp: safe_def indices_ok_def view_of_def heldout_rewards_def)

end
