(* ===== verification/Driver_Coherence.thy ===== *)
theory Driver_Coherence
  imports Driver_View
begin

text \<open>
  The phase of the driver and the state of the run go together: what holds between two steps (\<open>coherent\<close>),
  and that each operation of \<open>Driver_Evaluation\<close> and \<open>Gepa_Driver\<close> keeps it.
\<close>

definition stage_of :: "driver_view \<Rightarrow> string option" where
  "stage_of v = map_option ae_stage (v_active v)"

fun phase_allows :: "gepa_cursor_phase \<Rightarrow> driver_view \<Rightarrow> bool" where
  "phase_allows PhInitializing v \<longleftrightarrow> v_state v = StReady \<and> v_active v = None \<and> \<not> v_pending v"
| "phase_allows PhSeedFullTrain v \<longleftrightarrow>
     (if v_active v = None then v_state v = StReady \<and> \<not> v_pending v
      else v_state v = StRolloutRunning \<and> stage_of v = Some ''seed_full_train'')"
| "phase_allows PhGenerationStart v \<longleftrightarrow> v_state v = StReady \<and> v_active v = None \<and> \<not> v_pending v"
| "phase_allows PhProposerWaiting v \<longleftrightarrow>
     (if v_pending v then v_state v = StProposing \<and> stage_of v = Some ''proposer'' else v_state v = StRolloutQueueing)"
| "phase_allows PhCandidateMinibatch v \<longleftrightarrow> v_state v \<in> {StRolloutQueueing, StRolloutRunning} \<and>
     stage_of v \<in> {Some ''parent_minibatch_reference'', Some ''candidate_minibatch''}"
| "phase_allows PhCandidateFullTrain v \<longleftrightarrow> v_state v \<in> {StEvaluating, StRolloutQueueing, StRolloutRunning} \<and>
     stage_of v = Some ''candidate_full_train''"
| "phase_allows PhHeldout v \<longleftrightarrow>
     (if v_active v = None then \<not> v_pending v \<and> (v_state v = StReady \<and> v_index v = 0 \<or> v_state v = StEvaluating)
      else v_state v \<in> {StRolloutRunning, StEvaluating} \<and> stage_of v = Some ''heldout'')"
| "phase_allows PhFinalizing v \<longleftrightarrow> v_state v \<in> {StReady, StEvaluating} \<and> v_active v = None \<and> \<not> v_pending v"
| "phase_allows PhPaused v \<longleftrightarrow> False"
| "phase_allows PhCompleted v \<longleftrightarrow> v_state v = StCompleted \<and> \<not> v_pending v"
| "phase_allows PhFailed v \<longleftrightarrow> v_state v = StFailed \<and> \<not> v_pending v"
| "phase_allows PhCancelled v \<longleftrightarrow> v_state v = StCancelled \<and> \<not> v_pending v"

definition coherent :: "driver_view \<Rightarrow> bool" where
  "coherent v \<longleftrightarrow> phase_allows (v_phase v) v \<and> (v_phase v \<noteq> PhInitializing \<longrightarrow> v_ids v \<noteq> [])"

text \<open>What the end of an evaluation starts from.\<close>

definition idle :: "driver_view \<Rightarrow> bool" where
  "idle v \<longleftrightarrow> v_ids v \<noteq> [] \<and> \<not> v_pending v"

lemmas coherent_simps = coherent_def idle_def stage_of_def

text \<open>The rewards that the evaluation in progress gives to its candidates if nothing of it is missing.\<close>

definition evaluations_of :: "active_evaluation \<Rightarrow> (nat \<times> candidate_evaluation) list" where
  "evaluations_of a =
     (if is_group a then map (\<lambda>c. (ace_candidate_index c, evaluation_from_active_candidate c)) (ae_candidate_evaluations a)
      else case ae_candidate_index a of None \<Rightarrow> [] | Some i \<Rightarrow> [(i, evaluation_from_active a)])"

definition fully_scored :: "candidate_evaluation \<Rightarrow> bool" where
  "fully_scored eval \<longleftrightarrow> ev_failed_attempts eval = [] \<and> ev_rollout_count eval = effective_required_rollout_count eval"

definition covered :: "string list \<Rightarrow> (nat \<times> candidate_evaluation) set \<Rightarrow> (string \<times> f64) set" where
  "covered ids E = {(ids ! i, ev_average_reward eval) | i eval. (i, eval) \<in> E \<and> i < length ids \<and> fully_scored eval}"

lemma covered_mono: "E \<subseteq> E' \<Longrightarrow> covered ids E \<subseteq> covered ids E'"
  by (auto simp: covered_def)

lemma coverage_iff: "require_complete_heldout_coverage candidate_id eval = Inr () \<longleftrightarrow> fully_scored eval"
  by (auto simp: require_complete_heldout_coverage_def fully_scored_def Let_def)

subsection \<open>Moving on\<close>

lemma wpv_move:
  "v_state v = StReady \<Longrightarrow> v_ids v \<noteq> [] \<Longrightarrow> wpv H (move_to_generation_start e reason) (\<lambda>_. coherent) v"
  "v_state v \<in> {StEvaluating, StRolloutQueueing} \<Longrightarrow> idle v \<Longrightarrow>
     wpv H (move_to_proposer_waiting e reason) (\<lambda>_. coherent) v"
  "v_state v \<in> {StReady, StRolloutRunning, StEvaluating} \<Longrightarrow> idle v \<Longrightarrow>
     wpv H (move_to_finalizing e reason) (\<lambda>_. coherent) v"
  unfolding move_to_generation_start_def move_to_proposer_waiting_def move_to_finalizing_def
  by (intro wpv_intro; auto simp: coherent_simps)+

lemma wpv_book_evaluation [wpv_intro]: "Q () v \<Longrightarrow> wpv H (book_evaluation e eval) Q v"
  unfolding book_evaluation_def by (rule wpv_quiet) (auto simp: quiet_def view_of_def)

lemma wpv_proposal_index [wpv_intro]: "Q () v \<Longrightarrow> wpv H (update_step (\<lambda>d. d\<lparr>dr_proposal_index := k d\<rparr>)) Q v"
  by (rule wpv_quiet) (auto simp: quiet_def view_of_def)

lemma wpv_leave_minibatch:
  "v_state v \<in> {StEvaluating, StRolloutQueueing} \<Longrightarrow> idle v \<Longrightarrow>
     wpv H (leave_minibatch e k reason) (\<lambda>_. coherent) v"
  unfolding leave_minibatch_def by (intro wpv_intro wpv_move) (auto simp: coherent_simps)

subsection \<open>Seed, parent reference and minibatch\<close>

text \<open>An update of a candidate that keeps its id and its held-out reward.\<close>

lemma wpv_update_candidate_plain:
  assumes "\<And>c. ca_candidate_id (f c) = ca_candidate_id c \<and> ca_heldout_reward (f c) = ca_heldout_reward c"
    "i < length (v_ids v) \<Longrightarrow> Q () v"
  shows "wpv H (update_candidate i f) Q v"
  by (rule wpv_update_candidate) (use assms in auto)

lemma wpv_finalize_seed_full_train:
  assumes "v_state v = StEvaluating"
  shows "wpv H (finalize_seed_full_train e a eval) (\<lambda>_. coherent) v"
  unfolding finalize_seed_full_train_def
  by (intro wpv_intro wpv_update_candidate_plain wpv_best_idx wpv_move) (use assms in auto)

lemma wpv_finalize_parent_minibatch_reference:
  assumes "v_state v \<in> {StEvaluating, StRolloutQueueing}" "idle v"
  shows "wpv H (finalize_parent_minibatch_reference e a eval) (\<lambda>_. coherent) v"
  unfolding finalize_parent_minibatch_reference_def
  by (intro wpv_intro wpv_update_candidate_plain wpv_move) (use assms in auto)

lemma wpv_decide_minibatch:
  "(\<And>x. Q x v) \<Longrightarrow> wpv H (decide_minibatch e i p parent_id ca eval parent_reward preference vector parent_vector) Q v"
  unfolding decide_minibatch_def by (intro wpv_intro wpv_update_candidate_plain) auto

lemma wpv_judge_minibatch_candidate: "(\<And>x. Q x v) \<Longrightarrow> wpv H (judge_minibatch_candidate e x) Q v"
  unfolding judge_minibatch_candidate_def minibatch_parent_def compare_with_parent_def
  by (cases x, simp only: prod.case, intro wpv_intro wpv_update_candidate_plain wpv_decide_minibatch) auto

lemma wpv_admit_to_full_train:
  "(\<And>x. Q x v) \<Longrightarrow> wpv H (admit_to_full_train e parent_id ca parent_reward decision planned) Q v"
  unfolding admit_to_full_train_def defer_full_train_def
  by (intro wpv_intro wpv_update_candidate_plain) auto

lemma wpv_judge_minibatch_group: "(\<And>x. Q x v) \<Longrightarrow> wpv H (judge_minibatch_group e xs planned) Q v"
proof (induction xs arbitrary: planned Q)
  case (Cons x xs)
  then show ?case
    by (simp only: judge_minibatch_group.simps)
      (intro wpv_intro wpv_judge_minibatch_candidate wpv_admit_to_full_train Cons.IH, auto)
qed (simp add: wpv_simple)

lemma wpv_finalize_candidate_minibatch_group:
  assumes "v_state v \<in> {StEvaluating, StRolloutQueueing}" "idle v"
  shows "wpv H (finalize_candidate_minibatch_group e a evaluations) (\<lambda>_. coherent) v"
  unfolding finalize_candidate_minibatch_group_def
  by (intro wpv_intro wpv_judge_minibatch_group wpv_move)
    (use assms in \<open>auto simp: coherent_simps new_rollout_group_evaluation_def\<close>)

lemma wpv_defer_single:
  assumes "v_state v \<in> {StEvaluating, StRolloutQueueing}" "idle v" "\<And>Q v. Q () v \<Longrightarrow> wpv H report Q v"
    "\<And>c. ca_candidate_id (note c) = ca_candidate_id c \<and> ca_heldout_reward (note c) = ca_heldout_reward c"
  shows "wpv H (defer_single e i parent_id gen decision note report) (\<lambda>_. coherent) v"
  unfolding defer_single_def
  by (intro wpv_intro wpv_update_candidate_plain wpv_leave_minibatch assms(3)) (use assms in auto)

lemma new_rollout_stage: "new_rollout_evaluation h stage i rows gen pidx off = Inr a \<Longrightarrow> ae_stage a = stage"
  by (auto simp: new_rollout_evaluation_def split: sum.splits)

lemma wpv_finalize_candidate_minibatch:
  assumes "v_state v \<in> {StEvaluating, StRolloutQueueing}" "idle v"
  shows "wpv H (finalize_candidate_minibatch e a eval) (\<lambda>_. coherent) v"
  unfolding finalize_candidate_minibatch_def start_full_train_def
  by (intro wpv_intro wpv_judge_minibatch_candidate wpv_leave_minibatch wpv_defer_single)
    (use assms in \<open>auto simp: coherent_simps dest!: new_rollout_stage intro!: wpv_intro\<close>)

subsection \<open>Full train\<close>

lemma wpv_judge_full_train_candidate: "Q () v \<Longrightarrow> wpv H (judge_full_train_candidate e x) Q v"
  unfolding judge_full_train_candidate_def compare_with_best_def record_full_train_def
  by (cases x, simp only: prod.case, intro wpv_intro wpv_update_candidate_plain wpv_best_idx) auto

lemma wpv_finalize_candidate_full_train:
  assumes "v_state v \<in> {StEvaluating, StRolloutQueueing}" "idle v"
  shows "wpv H (finalize_candidate_full_train_group e evaluations) (\<lambda>_. coherent) v"
    "wpv H (finalize_candidate_full_train e a eval) (\<lambda>_. coherent) v"
  unfolding finalize_candidate_full_train_group_def finalize_candidate_full_train_def
  by (intro wpv_intro wpv_for_each [where I = "\<lambda>v'. v' = v"] wpv_judge_full_train_candidate wpv_move;
      use assms in \<open>auto simp: coherent_simps intro!: wpv_judge_full_train_candidate wpv_intro wpv_move\<close>)+

subsection \<open>Held-out rows\<close>

lemma wpv_heldout_index:
  "(\<And>n. Q () (v\<lparr>v_index := n\<rparr>)) \<Longrightarrow> wpv H (update_step (\<lambda>d. d\<lparr>dr_heldout_candidate_index := k d\<rparr>)) Q v"
  by (rule wpv_quiet) (auto simp: quiet_def view_of_def)

lemma wpv_check_heldout_coverage:
  "(fully_scored (snd x) \<Longrightarrow> Q () v) \<Longrightarrow> wpv H (check_heldout_coverage x) Q v"
  unfolding check_heldout_coverage_def
  by (cases x, simp only: prod.case, intro wpv_intro) (auto simp: coverage_iff)

lemma wpv_record_heldout_reward:
  assumes "ace_candidate_index (fst x) < length (v_ids v) \<Longrightarrow>
      (v_ids v ! ace_candidate_index (fst x), ev_average_reward (snd x)) \<in> H" "\<And>n. Q () (v\<lparr>v_index := n\<rparr>)"
  shows "wpv H (record_heldout_reward e k x) Q v"
  unfolding record_heldout_reward_def
  by (cases x, simp only: prod.case, intro wpv_intro wpv_update_candidate wpv_heldout_index) (use assms in auto)

lemma wpv_check_coverage_of_all:
  "(\<forall>x \<in> set xs. fully_scored (snd x) \<Longrightarrow> Q () v) \<Longrightarrow> wpv H (for_each check_heldout_coverage xs) Q v"
proof (induction xs)
  case (Cons x xs)
  show ?case
    unfolding for_each.simps
    by (intro wpv_and_then wpv_check_heldout_coverage Cons.IH) (use Cons.prems in auto)
qed (simp add: wpv_simple)

lemma wpv_record_heldout_rewards:
  assumes "\<And>x. x \<in> set xs \<Longrightarrow> ace_candidate_index (fst x) < length (v_ids v) \<Longrightarrow>
      (v_ids v ! ace_candidate_index (fst x), ev_average_reward (snd x)) \<in> H" "\<And>n. Q () (v\<lparr>v_index := n\<rparr>)"
  shows "wpv H (for_each (\<lambda>x. record_heldout_reward e (k x) x) xs) Q v"
proof (rule wpv_for_each [where I = "\<lambda>v'. \<exists>n. v' = v\<lparr>v_index := n\<rparr>"])
  show "\<exists>n. v = v\<lparr>v_index := n\<rparr>"
    by (rule exI [of _ "v_index v"]) simp
next
  fix x v' assume "x \<in> set xs" "\<exists>n. v' = v\<lparr>v_index := n\<rparr>"
  then show "wpv H (record_heldout_reward e (k x) x) (\<lambda>_ v'. \<exists>n. v' = v\<lparr>v_index := n\<rparr>) v'"
    by (intro wpv_record_heldout_reward) (auto intro: assms(1))
qed (use assms(2) in auto)

lemma wpv_finalize_heldout_group:
  assumes "v_state v = StEvaluating" "idle v"
    "covered (v_ids v) ((\<lambda>(ca, eval). (ace_candidate_index ca, eval)) ` set evaluations) \<subseteq> H"
  shows "wpv H (finalize_heldout_group e evaluations) (\<lambda>_. coherent) v"
proof -
  have "(v_ids v ! ace_candidate_index (fst x), ev_average_reward (snd x)) \<in> H"
    if xin: "x \<in> set evaluations" "fully_scored (snd x)" "ace_candidate_index (fst x) < length (v_ids v)" for x
    using assms(3) xin by (fastforce simp: covered_def)
  then show ?thesis
    unfolding finalize_heldout_group_def
    by (intro wpv_intro wpv_check_coverage_of_all wpv_record_heldout_rewards)
      (use assms in \<open>auto simp: coherent_simps\<close>)
qed

lemma wpv_finalize_heldout_candidate:
  assumes "v_state v = StEvaluating" "idle v"
    "\<And>i. ae_candidate_index a = Some i \<Longrightarrow> covered (v_ids v) {(i, eval)} \<subseteq> H"
  shows "wpv H (finalize_heldout_candidate e a eval) (\<lambda>_. coherent) v"
  unfolding finalize_heldout_candidate_def
  by (intro wpv_intro wpv_check_heldout_coverage wpv_record_heldout_reward)
    (use assms in \<open>auto simp: coherent_simps single_candidate_def covered_def\<close>)

subsection \<open>The end of an evaluation\<close>

text \<open>The view once the rollouts of a stage are over.\<close>

definition after_rollouts :: "driver_view \<Rightarrow> driver_view" where
  "after_rollouts v = (if v_state v = StRolloutRunning then v\<lparr>v_state := StEvaluating\<rparr> else v)"

lemma wpv_rollouts_finished [wpv_intro]:
  "Q () (after_rollouts v) \<Longrightarrow> wpv H (rollouts_finished e message details) Q v"
  unfolding rollouts_finished_def by (intro wpv_intro) (auto simp: after_rollouts_def)

lemma after_rollouts_sel [simp]:
  "v_ids (after_rollouts v) = v_ids v" "v_pending (after_rollouts v) = v_pending v"
  "v_active (after_rollouts v) = v_active v" "v_phase (after_rollouts v) = v_phase v"
  "v_index (after_rollouts v) = v_index v" "idle (after_rollouts v) = idle v"
  "v_state (after_rollouts v) = (if v_state v = StRolloutRunning then StEvaluating else v_state v)"
  by (auto simp: after_rollouts_def idle_def)

text \<open>The states in which the evaluation of a stage can end.\<close>

definition stage_may_end :: "string \<Rightarrow> driver_view \<Rightarrow> bool" where
  "stage_may_end stage v \<longleftrightarrow> idle v \<and>
     (if stage \<in> {''seed_full_train'', ''heldout''} then v_state v \<in> {StRolloutRunning, StEvaluating}
      else v_state v \<in> {StRolloutRunning, StEvaluating, StRolloutQueueing})"

lemma wpv_finalize_active_rollout_group:
  assumes "stage_may_end (ae_stage a) v" "is_group a"
    "ae_stage a = ''heldout'' \<Longrightarrow> covered (v_ids v) (set (evaluations_of a)) \<subseteq> H"
  shows "wpv H (finalize_active_rollout_group e a) (\<lambda>_. coherent) v"
proof -
  have same: "wpv H (for_each f xs) Q v" if "\<And>x Q. Q () v \<Longrightarrow> wpv H (f x) Q v" "Q () v"
    for f :: "'x \<Rightarrow> unit driver_step" and xs Q v
    by (rule wpv_for_each [where I = "\<lambda>v'. v' = v"]) (use that in auto)
  have "(\<lambda>(ca, eval). (ace_candidate_index ca, eval)) `
      set (map (\<lambda>c. (c, evaluation_from_active_candidate c)) (ae_candidate_evaluations a)) = set (evaluations_of a)"
    using assms(2) by (auto simp: evaluations_of_def)
  then show ?thesis
    unfolding finalize_active_rollout_group_def
    by (intro wpv_intro same wpv_finalize_candidate_minibatch_group wpv_finalize_candidate_full_train
        wpv_finalize_heldout_group)
      (use assms in \<open>auto simp: stage_may_end_def split: if_splits intro!: wpv_intro\<close>)
qed

lemma wpv_finalize_active_rollout_evaluation:
  assumes "v_active v = Some a" "stage_may_end (ae_stage a) v"
    "ae_stage a = ''heldout'' \<Longrightarrow> covered (v_ids v) (set (evaluations_of a)) \<subseteq> H"
  shows "wpv H (finalize_active_rollout_evaluation e) (\<lambda>_. coherent) v"
  unfolding finalize_active_rollout_evaluation_def
  by (intro wpv_intro wpv_finalize_active_rollout_group wpv_finalize_seed_full_train
      wpv_finalize_parent_minibatch_reference wpv_finalize_candidate_minibatch wpv_finalize_candidate_full_train
      wpv_finalize_heldout_candidate)
    (use assms in \<open>auto simp: stage_may_end_def evaluations_of_def split: if_splits\<close>)

subsection \<open>Deferral for budget\<close>

lemma wpv_commit_budget_deferred: "Q () v \<Longrightarrow> wpv H (commit_budget_deferred e stage i eval) Q v"
  unfolding commit_budget_deferred_def by (intro wpv_intro wpv_update_candidate_plain) auto

lemma wpv_commit_budget_deferred_active:
  "Q () v \<Longrightarrow> wpv H (commit_budget_deferred_active_candidate e stage ca) Q v"
  "Q () v \<Longrightarrow> wpv H (commit_budget_deferred_active_rollout e a) Q v"
  unfolding commit_budget_deferred_active_candidate_def commit_budget_deferred_active_rollout_def
  by (intro wpv_intro wpv_commit_budget_deferred; assumption)+

lemma wpv_for_each_same:
  assumes "\<And>x Q. Q () v \<Longrightarrow> wpv H (f x) Q v" "Q () v"
  shows "wpv H (for_each f xs) Q v"
  by (rule wpv_for_each [where I = "\<lambda>v'. v' = v"]) (use assms in auto)

lemma wpv_defer_active_rollout_evaluation_for_budget:
  assumes "v_active v = Some a" "stage_may_end (ae_stage a) v"
    "ae_stage a = ''heldout'' \<Longrightarrow> covered (v_ids v) (set (evaluations_of a)) \<subseteq> H"
  shows "wpv H (defer_active_rollout_evaluation_for_budget e requested available) (\<lambda>_. coherent) v"
proof -
  have ended: "stage_may_end (ae_stage a) (after_rollouts v)"
    using assms(2) by (auto simp: stage_may_end_def)
  let ?finished = "filter active_candidate_rollout_complete (ae_candidate_evaluations a)"
  let ?rest = "\<lambda>ids n. a\<lparr>ae_candidate_evaluations := ?finished, ae_row_ids := ids, ae_next_row_index := n\<rparr>"
  have rest: "set (evaluations_of (?rest ids n)) \<subseteq> set (evaluations_of a)" "is_group (?rest ids n)"
    if "?finished \<noteq> []" for ids n
  proof -
    have "is_group a"
      using that by (auto simp: is_group_def)
    then show "is_group (?rest ids n)" "set (evaluations_of (?rest ids n)) \<subseteq> set (evaluations_of a)"
      using that by (auto simp: is_group_def evaluations_of_def)
  qed
  have "wpv H (finalize_active_rollout_group e (?rest ids n)) (\<lambda>_. coherent) ((after_rollouts v)\<lparr>v_active := Some (?rest ids n)\<rparr>)"
    if "?finished \<noteq> []" for ids n
    by (intro wpv_finalize_active_rollout_group order_trans [OF covered_mono [OF rest(1) [OF that]]])
      (use rest(2) [OF that] ended assms(3) in \<open>auto simp: stage_may_end_def idle_def split: if_splits\<close>)
  then show ?thesis
    unfolding defer_active_rollout_evaluation_for_budget_def
    by (intro wpv_intro wpv_for_each_same wpv_commit_budget_deferred_active wpv_move
        wpv_finalize_active_rollout_evaluation [of _ a])
      (use assms ended in \<open>auto simp: stage_may_end_def idle_def split: if_splits\<close>)
qed

subsection \<open>The next batch\<close>

definition evaluating :: "driver_view \<Rightarrow> active_evaluation \<Rightarrow> bool" where
  "evaluating v a \<longleftrightarrow> coherent v \<and> idle v \<and> v_active v = Some a \<and>
     v_phase v \<in> {PhSeedFullTrain, PhCandidateMinibatch, PhCandidateFullTrain, PhHeldout}"

definition running :: "optimizer_run_state \<Rightarrow> optimizer_run_state" where
  "running s = (if s \<in> {StReady, StEvaluating, StRolloutQueueing} then StRolloutRunning else s)"

lemma wpv_transition_to_rollout_running [wpv_intro]:
  "Q () (v\<lparr>v_state := running (v_state v)\<rparr>) \<Longrightarrow> wpv H (transition_to_rollout_running e message details) Q v"
  unfolding transition_to_rollout_running_def
  by (intro wpv_intro) (simp_all add: running_def split: if_splits)

lemma evaluating_may_end: "evaluating v a \<Longrightarrow> stage_may_end (ae_stage a) v"
  by (auto simp: evaluating_def stage_may_end_def coherent_def stage_of_def)

lemma evaluating_running: "evaluating v a \<Longrightarrow> evaluating (v\<lparr>v_state := running (v_state v)\<rparr>) a"
  by (auto simp: evaluating_def coherent_simps running_def)

lemma wpv_wait_for_job:
  assumes "evaluating v a" "ae_stage a' = ae_stage a" "phase = v_phase v"
  shows "wpv H (wait_for_job e a' q phase message metadata) (\<lambda>_. coherent) v"
  unfolding wait_for_job_def
  by (intro wpv_intro) (use assms in \<open>auto simp: evaluating_def coherent_simps\<close>)

lemma planned_active_stage [simp]: "ae_stage (planned_active candidate_id q a) = ae_stage a"
  by (simp add: planned_active_def)

lemma wpv_record_group_started: "Q () v \<Longrightarrow> wpv H (record_group_started e stage ca) Q v"
  unfolding record_group_started_def by (intro wpv_intro)

text \<open>The held-out rewards that an evaluation in progress may give.\<close>

definition may_reward :: "(string \<times> f64) set \<Rightarrow> driver_view \<Rightarrow> active_evaluation \<Rightarrow> bool" where
  "may_reward H v a \<longleftrightarrow> (ae_stage a = ''heldout'' \<longrightarrow> covered (v_ids v) (set (evaluations_of a)) \<subseteq> H)"

lemma evaluatingD:
  assumes "evaluating v a" "may_reward H v a"
  shows "v_active v = Some a" "stage_may_end (ae_stage a) v"
    "ae_stage a = ''heldout'' \<Longrightarrow> covered (v_ids v) (set (evaluations_of a)) \<subseteq> H"
  using assms evaluating_may_end [OF assms(1)] by (auto simp: evaluating_def may_reward_def)

lemma may_reward_running: "may_reward H (v\<lparr>v_state := s\<rparr>) a = may_reward H v a"
  by (simp add: may_reward_def)

lemma wpv_plan_next_rollout_group_batch:
  assumes "evaluating v a" "may_reward H v a"
  shows "wpv H (plan_next_rollout_group_batch e a) (\<lambda>_. coherent) v"
proof -
  note ok = assms evaluatingD [OF assms] evaluating_running [OF assms(1)]
  have batch: "wpv H (case batch of FinalizeEvaluation \<Rightarrow> f | DeferForBudget m n \<Rightarrow> g m n | PlanBatch groups \<Rightarrow> k groups) Q v"
    if "wpv H f Q v" "\<And>m n. wpv H (g m n) Q v" "\<And>groups. wpv H (k groups) Q v" for batch f g k Q
    using that by (cases batch) simp_all
  show ?thesis
    unfolding plan_next_rollout_group_batch_def
    by (intro wpv_intro batch wpv_for_each_same wpv_record_group_started wpv_wait_for_job [of _ a]
        wpv_finalize_active_rollout_evaluation [of _ a] wpv_defer_active_rollout_evaluation_for_budget [of _ a])
      (use ok in simp_all)
qed

lemma wpv_plan_single_batch:
  assumes "evaluating v a" "may_reward H v a"
  shows "wpv H (plan_single_batch e a) (\<lambda>_. coherent) v"
proof -
  note running = evaluating_running [OF assms(1)]
  note ok = assms evaluatingD [OF assms] running
    evaluatingD [OF running, of H, unfolded may_reward_running, OF assms(2)]
  show ?thesis
    unfolding plan_single_batch_def
    by (intro wpv_intro wpv_wait_for_job [of _ a] wpv_finalize_active_rollout_evaluation [of _ a]
        wpv_defer_active_rollout_evaluation_for_budget [of _ a]) (use ok in simp_all)
qed

lemma wpv_plan_next_rollout_batch:
  assumes "evaluating v a" "may_reward H v a"
  shows "wpv H (plan_next_rollout_batch e) (\<lambda>_. coherent) v"
  unfolding plan_next_rollout_batch_def
  by (intro wpv_intro) (use assms evaluatingD [OF assms] in
    \<open>auto intro: wpv_plan_next_rollout_group_batch wpv_plan_single_batch\<close>)

lemma wpv_continue_evaluation:
  assumes "evaluating v a" "may_reward H v a"
  shows "wpv H (continue_evaluation e) (\<lambda>_. coherent) v"
  unfolding continue_evaluation_def
  by (intro wpv_intro wpv_plan_next_rollout_batch [of _ a] wpv_finalize_active_rollout_evaluation [of _ a])
    (use assms evaluatingD [OF assms] in auto)

end
