(* ===== verification/Driver_Phases.thy ===== *)
theory Driver_Phases
  imports Driver_Coherence
begin

text \<open>
  The phases of the driver keep the coherence of phase and run state, and what a reachable state of the
  driver therefore promises.
\<close>

subsection \<open>The seed\<close>

lemma wpv_register_seed:
  assumes "v_ids v = []" "\<And>i. Q () (v\<lparr>v_ids := [i]\<rparr>)"
  shows "wpv H (register_seed e) Q v"
proof -
  have "wpv H (update_step (\<lambda>d. d\<lparr>dr_candidates := [c]\<rparr>)) Q v"
    if "ca_heldout_reward c = None" "Q () (v\<lparr>v_ids := [ca_candidate_id c]\<rparr>)" for c Q
    using assms(1) that
    by (intro wpv_update) (auto simp: view_of_def safe_def indices_ok_def heldout_rewards_def in_range_def
        split: option.splits)
  note put = this
  show ?thesis
    unfolding register_seed_def by (intro wpv_intro put) (use assms in \<open>simp_all add: seed_record_def\<close>)
qed

lemma wpv_advance_initializing:
  assumes "coherent v" "v_phase v = PhInitializing"
  shows "wpv H (advance_initializing e) (\<lambda>_. coherent) v"
proof -
  have reset: "wpv H (update_step (\<lambda>d. d\<lparr>dr_best_idx := None, dr_generation := 0, dr_proposal_index := 0\<rparr>)) Q v"
    if "Q () v" for Q v
    by (rule wpv_update) (use that in \<open>auto simp: view_of_def safe_def indices_ok_def heldout_rewards_def\<close>)
  show ?thesis
    unfolding advance_initializing_def
    by (intro wpv_intro wpv_register_seed reset) (use assms in \<open>auto simp: coherent_simps\<close>)
qed

lemma wpv_start_seed_evaluation:
  assumes "v_phase v = PhSeedFullTrain" "v_state v = StReady" "idle v"
  shows "wpv H (start_seed_evaluation e) (\<lambda>_. coherent) v"
proof -
  have plan: "wpv H (plan_next_rollout_batch e) (\<lambda>_. coherent)
      (v\<lparr>v_state := running (v_state v), v_active := Some a, v_phase := PhSeedFullTrain\<rparr>)"
    if "new_rollout_evaluation h ''seed_full_train'' i rows gen pidx off = Inr a" for h i rows gen pidx off a
    by (rule wpv_plan_next_rollout_batch [of _ a])
      (use assms new_rollout_stage [OF that] in \<open>auto simp: evaluating_def may_reward_def coherent_simps running_def\<close>)
  show ?thesis
    unfolding start_seed_evaluation_def by (intro wpv_intro plan)
qed

lemma evaluating_stage_iff:
  "evaluating_stage stage d \<longleftrightarrow> map_option ae_stage (dr_active_evaluation d) = Some stage"
  by (auto simp: evaluating_stage_def split: option.splits)

lemma evaluatingI:
  assumes "coherent v" "\<not> v_pending v" "v_active v = Some a"
    "v_phase v \<in> {PhSeedFullTrain, PhCandidateMinibatch, PhCandidateFullTrain, PhHeldout}"
  shows "evaluating v a"
  using assms by (auto simp: evaluating_def coherent_def idle_def)

lemma wpv_advance_seed:
  assumes "coherent v" "v_phase v = PhSeedFullTrain" "\<not> v_pending v"
    "\<And>a. v_active v = Some a \<Longrightarrow> may_reward H v a"
  shows "wpv H (advance_rollout_stage e ''seed_full_train'') (\<lambda>_. coherent) v"
proof (cases "v_active v")
  case None
  with assms have v: "v_state v = StReady" "idle v" "stage_of v = None"
    by (simp_all add: coherent_simps)
  then show ?thesis
    unfolding advance_rollout_stage_def
    by (intro wpv_intro wpv_best_idx wpv_move wpv_start_seed_evaluation)
      (use assms None in \<open>auto simp: evaluating_stage_iff idle_def\<close>)
next
  case (Some a)
  with assms have "evaluating v a" "stage_of v = Some ''seed_full_train''"
    by (auto intro!: evaluatingI simp: coherent_simps)
  then show ?thesis
    unfolding advance_rollout_stage_def
    by (intro wpv_intro wpv_continue_evaluation [of _ a])
      (use assms(4) Some in \<open>auto simp: evaluating_stage_iff stage_of_def\<close>)
qed

lemma wpv_advance_candidates:
  assumes "coherent v" "v_phase v \<in> {PhCandidateMinibatch, PhCandidateFullTrain}" "\<not> v_pending v"
    "\<And>a. v_active v = Some a \<Longrightarrow> may_reward H v a" "stage \<in> {''candidate_minibatch'', ''candidate_full_train''}"
  shows "wpv H (advance_rollout_stage e stage) (\<lambda>_. coherent) v"
proof -
  obtain a where a: "v_active v = Some a" "evaluating v a" "may_reward H v a"
    using assms evaluatingI [of v] by (auto simp: coherent_simps)
  show ?thesis
    unfolding advance_rollout_stage_def
    by (intro wpv_intro wpv_continue_evaluation [of _ a] wpv_plan_next_rollout_batch [of _ a])
      (use assms a in auto)
qed

subsection \<open>Generations\<close>

lemma wpv_complete_generation_boundary:
  assumes "v_state v = StRolloutQueueing" "idle v"
  shows "wpv H (complete_generation_boundary e) (\<lambda>_. coherent) v"
proof -
  have turn: "wpv H (update_step (\<lambda>d. d\<lparr>dr_generation := dr_generation d + 1, dr_proposal_index := 0,
      dr_proposal_queue := [], dr_active_evaluation := None\<rparr>)) Q v" if "Q () (v\<lparr>v_active := None\<rparr>)" for Q v
    by (rule wpv_quiet) (use that in \<open>auto simp: quiet_def view_of_def\<close>)
  show ?thesis
    unfolding complete_generation_boundary_def
    by (intro wpv_intro turn) (use assms in \<open>auto simp: coherent_simps is_valid_transition_def\<close>)
qed

lemma wpv_identities:
  assumes "\<And>s. view_of s = v \<Longrightarrow> safe H s \<Longrightarrow> list_all (in_range (length (v_ids v)))
      [is_optimization_selected_idx (k s), is_heldout_best_idx (k s), is_deployment_idx (k s)]" "Q () v"
  shows "wpv H (update_step (\<lambda>d. d\<lparr>dr_identities := k d\<rparr>)) Q v"
  by (rule wpv_update) (use assms in \<open>auto simp: safe_def indices_ok_def view_of_def heldout_rewards_def\<close>)

lemma view_length: "view_of s = view_of d \<Longrightarrow> length (dr_candidates s) = length (dr_candidates d)"
  by (metis length_map view_of_sel(6))

lemma wpv_move_to_pre_heldout:
  assumes "v_state v = StReady" "idle v"
  shows "wpv H (move_to_pre_heldout e) (\<lambda>_. coherent) v"
proof -
  have start: "wpv H (update_step (\<lambda>d. d\<lparr>dr_heldout_candidate_index := 0, dr_active_evaluation := None\<rparr>)) Q v"
    if "Q () (v\<lparr>v_index := 0, v_active := None\<rparr>)" for Q v
    by (rule wpv_quiet) (use that in \<open>auto simp: quiet_def view_of_def\<close>)
  show ?thesis
    unfolding move_to_pre_heldout_def
    by (intro wpv_intro wpv_identities start)
      (use assms in \<open>auto simp: coherent_simps freeze_optimization_selected_def safe_def indices_ok_def dest: view_length\<close>)
qed

lemma best_train_loop_range:
  assumes "best_train_loop h oset split rows candidates xs best = Inr k" "in_range n best"
    "list_all (\<lambda>(i, c). i < n) xs"
  shows "in_range n k"
  using assms
  by (induction h oset split rows candidates xs best rule: best_train_loop.induct)
    (auto split: if_splits option.splits sum.splits)

lemma select_best_train_range:
  assumes "select_best_train_candidate h candidates oset split rows = Inr k"
  shows "in_range (length candidates) k"
  by (rule best_train_loop_range [OF assms [unfolded select_best_train_candidate_def]])
    (auto simp: list_all_iff in_set_enumerate_eq)

lemma best_heldout_loop_range:
  assumes "best_heldout_loop h inp xs best = Inr k" "in_range (length (hs_candidates inp)) best"
  shows "in_range (length (hs_candidates inp)) k"
  using assms
  by (induction h inp xs best rule: best_heldout_loop.induct)
    (auto split: if_splits option.splits sum.splits)

lemma select_best_heldout_range:
  assumes "select_best_heldout_candidate h inp = Inr k"
  shows "in_range (length (hs_candidates inp)) k"
  by (rule best_heldout_loop_range [OF assms [unfolded select_best_heldout_candidate_def]])
    (cases "hs_incumbent_idx inp"; auto simp: has_heldout_reward_def opt_filter_def)

lemma wpv_start_proposer:
  assumes "v_state v = StReady" "v_ids v \<noteq> []"
  shows "wpv H (start_proposer e parent_idx parent_id parent_selection) (\<lambda>_. coherent) v"
proof -
  have parent: "wpv H (update_step (\<lambda>d. d\<lparr>dr_parent_pool_version := m d, dr_parent_candidate_id := n d\<rparr>)) Q v"
    if "Q () v" for m n Q v
    by (rule wpv_quiet) (use that in \<open>auto simp: quiet_def view_of_def\<close>)
  show ?thesis
    unfolding start_proposer_def plan_proposer_runtime_job_def wait_for_job_def
    by (intro wpv_intro parent) (use assms in \<open>auto simp: coherent_simps proposer_active_def\<close>)
qed

lemma wpv_advance_generation_start:
  assumes "coherent v" "v_phase v = PhGenerationStart"
  shows "wpv H (advance_generation_start e) (\<lambda>_. coherent) v"
  unfolding advance_generation_start_def
  by (intro wpv_intro wpv_move_to_pre_heldout wpv_best_idx wpv_start_proposer)
    (use assms in \<open>auto simp: coherent_simps safe_def indices_ok_def intro!: in_range_or_else
      dest: view_length select_best_train_range\<close>)

subsection \<open>Proposals\<close>

lemma wpv_append_candidate:
  assumes "ca_heldout_reward c = None" "Q () (v\<lparr>v_ids := v_ids v @ [ca_candidate_id c]\<rparr>)"
  shows "wpv H (append_candidate c) Q v"
proof -
  have "in_range (Suc n) i" if "in_range n i" for n i
    using that by (auto simp: in_range_def split: option.splits)
  moreover have "heldout_rewards (d\<lparr>dr_candidates := dr_candidates d @ [c]\<rparr>) = heldout_rewards d" for d
    using assms(1) by (auto simp: heldout_rewards_def)
  ultimately show ?thesis
    unfolding append_candidate_def using assms(2)
    by (intro wpv_update) (auto simp: view_of_def safe_def indices_ok_def)
qed

lemma wpv_register_proposal:
  assumes "ca_heldout_reward c = None" "\<And>x ids. Q x (v\<lparr>v_ids := v_ids v @ ids\<rparr>)"
  shows "wpv H (register_proposal e proposal c proposal_index) Q v"
  unfolding register_proposal_def register_candidate_def
  by (intro wpv_intro wpv_append_candidate) (use assms in simp_all)

lemma wpv_candidate_for_proposal:
  assumes "\<And>x ids. Q x (v\<lparr>v_ids := v_ids v @ ids\<rparr>)"
  shows "wpv H (candidate_for_proposal e ids candidate_id p proposal parent_id proposal_index) Q v"
proof -
  have same: "Q x v" for x
    using assms [of x "[]"] by simp
  show ?thesis
    unfolding candidate_for_proposal_def
    by (intro wpv_intro wpv_best_idx wpv_register_proposal)
      (use assms same in \<open>auto simp: proposed_record_def safe_def indices_ok_def dest: find_index_SomeD view_length
        intro!: in_range_or_else\<close>)
qed

definition admitted :: "admission_result \<Rightarrow> driver_view \<Rightarrow> bool" where
  "admitted r v \<longleftrightarrow> (case r of AdmissionLeft _ \<Rightarrow> coherent v
     | AdmissionQueued _ _ \<Rightarrow> v_phase v = PhProposerWaiting \<and> v_state v = StRolloutQueueing \<and> idle v)"

lemma wpv_leave_admission:
  assumes "v_state v = StRolloutQueueing" "idle v"
  shows "wpv H (give_up_proposals e) (\<lambda>_. coherent) v"
    "wpv H (start_parent_reference e parent_idx parent_id rows proposal_index) (\<lambda>_. coherent) v"
  unfolding give_up_proposals_def start_parent_reference_def
  by (intro wpv_intro wpv_complete_generation_boundary;
      use assms in \<open>auto simp: coherent_simps dest: new_rollout_stage\<close>)+

lemma wpv_admit_proposals:
  assumes "v_phase v = PhProposerWaiting" "v_state v = StRolloutQueueing" "idle v"
  shows "wpv H (admit_proposals e parent_idx capacity proposals queued ids planned proposal_index) admitted v"
  using assms
proof (induction proposals arbitrary: v queued ids planned proposal_index)
  case (Cons proposal proposals)
  have leave: "wpv H (bind_step (if short then give_up_proposals e
      else start_parent_reference e pidx parent_id rows proposal_index) (\<lambda>out. return_step (AdmissionLeft out))) admitted v'"
    if "v_state v' = StRolloutQueueing" "idle v'" for short pidx parent_id rows v'
  proof (rule wpv_bind)
    have "wpv H (if short then give_up_proposals e else start_parent_reference e pidx parent_id rows proposal_index)
        (\<lambda>_. coherent) v'"
      using wpv_leave_admission [OF that] by simp
    then show "wpv H (if short then give_up_proposals e else start_parent_reference e pidx parent_id rows proposal_index)
        (\<lambda>out. wpv H (return_step (AdmissionLeft out)) admitted) v'"
      by (rule wpv_mono) (simp add: wpv_simple admitted_def)
  qed
  show ?case
    unfolding admit_proposals.simps defer_minibatch_def
    by (intro wpv_intro leave wpv_candidate_for_proposal wpv_update_candidate_plain Cons.IH)
      (use Cons.prems in \<open>auto simp: admitted_def idle_def\<close>)
qed (simp add: wpv_simple admitted_def)

lemma wpv_advance_proposer_waiting:
  assumes "coherent v" "v_phase v = PhProposerWaiting" "\<not> v_pending v"
  shows "wpv H (advance_proposer_waiting e) (\<lambda>_. coherent) v"
proof -
  have v: "v_state v = StRolloutQueueing" "idle v"
    using assms by (simp_all add: coherent_simps)
  have split: "wpv H (case r of AdmissionLeft out \<Rightarrow> return_step out | AdmissionQueued xs n \<Rightarrow> f xs n) (\<lambda>_. coherent) v'"
    if "admitted r v'" "\<And>xs n. v_state v' = StRolloutQueueing \<Longrightarrow> idle v' \<Longrightarrow> wpv H (f xs n) (\<lambda>_. coherent) v'" for r v' f
    using that by (cases r) (auto simp: admitted_def wpv_simple)
  show ?thesis
    unfolding advance_proposer_waiting_def
    by (intro wpv_intro wpv_complete_generation_boundary wpv_leave_admission wpv_mono [OF wpv_admit_proposals] split
        wpv_move) (use assms v in \<open>auto simp: coherent_simps new_rollout_group_evaluation_def\<close>)
qed

subsection \<open>The end of the run\<close>

lemma settle_range:
  assumes "settle_run_identities g (s, best_idx) = (s', best_idx')" "in_range n best_idx"
    "in_range n (is_optimization_selected_idx s)" "in_range n (is_heldout_best_idx s)"
  shows "in_range n best_idx' \<and> in_range n (is_optimization_selected_idx s') \<and> in_range n (is_heldout_best_idx s') \<and>
    in_range n (is_deployment_idx s')"
proof -
  let ?s = "freeze_optimization_selected best_idx s"
  have frozen: "in_range n (is_optimization_selected_idx ?s)" "in_range n (is_heldout_best_idx ?s)"
    using assms(2-4) by (simp_all add: freeze_optimization_selected_def)
  have s': "s' = apply_deployment_rule (gc_deployment_rule g) ?s" "best_idx' = or_else (best_idx_alias s') best_idx"
    using assms(1) by (auto simp: settle_run_identities_def Let_def)
  show ?thesis
    unfolding s' using frozen assms(2)
    by (simp add: apply_deployment_rule_def resolve_deployment_idx_def best_idx_alias_def Let_def in_range_or_else)
qed

lemma wpv_settle_identities [wpv_intro]: "Q () v \<Longrightarrow> wpv H (settle_identities e) Q v"
  unfolding settle_identities_def
proof (rule wpv_update)
  fix s assume "Q () v" "view_of s = v" "safe H s"
  moreover obtain ids b where settled: "settle_run_identities (de_gepa e) (dr_identities s, dr_best_idx s) = (ids, b)"
    by fastforce
  ultimately show "safe H (let (identities, best_idx) = settle_run_identities (de_gepa e) (dr_identities s, dr_best_idx s)
       in s\<lparr>dr_identities := identities, dr_best_idx := best_idx\<rparr>) \<and>
     Q () (view_of (let (identities, best_idx) = settle_run_identities (de_gepa e) (dr_identities s, dr_best_idx s)
       in s\<lparr>dr_identities := identities, dr_best_idx := best_idx\<rparr>))"
    using settle_range [OF settled, of "length (dr_candidates s)"]
    by (auto simp: settled safe_def indices_ok_def heldout_rewards_def view_of_def)
qed

lemma wpv_terminalize [wpv_intro]:
  assumes "\<not> is_terminal (v_state v)"
    "Q () (v\<lparr>v_state := if phase = PhCancelled then StCancelled else StFailed, v_pending := False, v_phase := phase\<rparr>)"
  shows "wpv H (terminalize_gepa_run_state e phase status message error_summary) Q v"
  unfolding terminalize_gepa_run_state_def
  by (intro wpv_intro) (use assms in \<open>auto simp: Let_def\<close>)

lemma wpv_terminalized [wpv_intro]:
  "(\<And>x. ao_terminal x \<Longrightarrow> Q x v) \<Longrightarrow> wpv H (terminalized e status message) Q v"
  unfolding terminalized_def by (intro wpv_intro) simp

lemma wpv_registry [wpv_intro]: "Q () v \<Longrightarrow> wpv H (update_step (\<lambda>d. d\<lparr>dr_registry := k d\<rparr>)) Q v"
  by (rule wpv_quiet) (auto simp: quiet_def view_of_def)

lemma wpv_conclude_gepa_run:
  assumes "v_state v \<in> {StReady, StEvaluating}" "idle v"
  shows "wpv H (conclude_gepa_run e best) (\<lambda>out v'. ao_terminal out \<and> coherent v' \<and>
    v_phase v' = (if ca_heldout_reward best = None then PhFailed else PhCompleted)) v"
  unfolding conclude_gepa_run_def
  by (intro wpv_intro) (use assms in \<open>auto simp: coherent_simps is_terminal_def\<close>)

lemma wpv_finalize_completed_gepa_run:
  assumes "v_state v \<in> {StReady, StEvaluating}" "idle v"
  shows "wpv H (finalize_completed_gepa_run e) (\<lambda>_. coherent) v"
  unfolding finalize_completed_gepa_run_def
  by (intro wpv_intro) (use assms in \<open>auto intro: wpv_mono [OF wpv_conclude_gepa_run]\<close>)

subsection \<open>Held-out rows\<close>

lemma wpv_open_heldout:
  assumes "v_state v \<in> {StReady, StEvaluating}" "idle v"
  shows "wpv H (open_heldout e all_indices indices) (\<lambda>r v'. case r of None \<Rightarrow> coherent v'
     | Some _ \<Rightarrow> v' = v\<lparr>v_state := StRolloutRunning\<rparr>) v"
  unfolding open_heldout_def skip_heldout_def
  by (intro wpv_intro) (use assms in \<open>auto simp: coherent_simps is_terminal_def running_def\<close>)

lemma wpv_close_heldout:
  assumes "v_state v \<in> {StRolloutRunning, StEvaluating}" "idle v"
  shows "wpv H (close_heldout e indices) (\<lambda>_. coherent) v"
  unfolding close_heldout_def
  by (intro wpv_intro wpv_identities wpv_move)
    (use assms in \<open>auto simp: record_heldout_best_def safe_def indices_ok_def idle_def
      dest: view_length dest!: select_best_heldout_range\<close>)

lemma wpv_start_heldout:
  assumes "v_state v \<in> {StRolloutRunning, StEvaluating}" "idle v"
  shows "wpv H (start_heldout e indices) (\<lambda>_. coherent) v"
  unfolding start_heldout_def
  by (intro wpv_intro) (use assms in \<open>auto simp: coherent_simps new_rollout_group_evaluation_def\<close>)

lemma wpv_advance_heldout:
  assumes "coherent v" "v_phase v = PhHeldout" "\<not> v_pending v" "\<And>a. v_active v = Some a \<Longrightarrow> may_reward H v a"
  shows "wpv H (advance_heldout e) (\<lambda>_. coherent) v"
proof (cases "v_active v")
  case None
  with assms have v: "idle v" "v_state v = StReady \<and> v_index v = 0 \<or> v_state v = StEvaluating" "stage_of v = None"
    by (auto simp: coherent_simps)
  show ?thesis
    unfolding advance_heldout_def
    by (intro wpv_intro wpv_move wpv_mono [OF wpv_open_heldout] wpv_close_heldout wpv_start_heldout)
      (use v None assms in \<open>auto simp: evaluating_stage_iff idle_def\<close>)
next
  case (Some a)
  with assms have "evaluating v a" "stage_of v = Some ''heldout''"
    by (auto intro!: evaluatingI simp: coherent_simps)
  then show ?thesis
    unfolding advance_heldout_def
    by (intro wpv_intro wpv_continue_evaluation [of _ a])
      (use assms(4) Some in \<open>auto simp: evaluating_stage_iff stage_of_def\<close>)
qed

end
