(* ===== verification/Driver_Runs.thy ===== *)
theory Driver_Runs
  imports Driver_Phases
begin

text \<open>
  Runs of the serial driver: its steps, the outcomes of jobs that it is given and the changes that workers
  make to the workspace in between; what every reachable state satisfies.
\<close>

subsection \<open>The outcome of a job\<close>

lemma wpv_on_active:
  assumes "\<And>a a'. v_active v = Some a \<Longrightarrow> f a = Some (Inr a') \<Longrightarrow> Q () (v\<lparr>v_active := Some a'\<rparr>)"
  shows "wpv H (on_active f missing) Q v"
  unfolding on_active_def by (intro wpv_intro, rule assms) simp_all

lemma wpv_record_sample [wpv_intro]: "Q () v \<Longrightarrow> wpv H (record_sample e x) Q v"
  unfolding record_sample_def by (rule wpv_run_op_quiet) (simp_all add: quiet_def view_of_def)

lemma consume_rollout_stage:
  "consume_rollout_outcome h g resources candidates out a = Some (Inr a') \<Longrightarrow> ae_stage a' = ae_stage a"
  by (auto simp: consume_rollout_outcome_def consume_group_rollout_outcome_def fold_single_score_def Let_def
      split: if_splits option.splits sum.splits)

lemma consume_failed_stage:
  "consume_failed_rollout_attempt candidates candidate_id stage example_id job failure signal a = Inr a' \<Longrightarrow>
     ae_stage a' = ae_stage a"
  by (auto simp: consume_failed_rollout_attempt_def Let_def split: if_splits option.splits)

text \<open>The same evaluation with other scores.\<close>

definition same_evaluation :: "driver_view \<Rightarrow> driver_view \<Rightarrow> bool" where
  "same_evaluation v v' \<longleftrightarrow> stage_of v' = stage_of v \<and> v' = v\<lparr>v_active := v_active v'\<rparr>"

lemma same_evaluation_refl: "same_evaluation v v"
  by (simp add: same_evaluation_def)

lemma same_evaluation_step:
  assumes "same_evaluation v v'" "v_active v' = Some a" "ae_stage a' = ae_stage a"
  shows "same_evaluation v (v'\<lparr>v_active := Some a'\<rparr>)"
proof -
  obtain x where "v' = v\<lparr>v_active := x\<rparr>"
    using assms(1) by (auto simp: same_evaluation_def)
  with assms show ?thesis
    by (auto simp: same_evaluation_def stage_of_def)
qed

lemma wpv_consume_child:
  assumes "same_evaluation v v'"
  shows "wpv H (consume_scored e out) (\<lambda>_. same_evaluation v) v'" "wpv H (consume_failure e job x) (\<lambda>_. same_evaluation v) v'"
  unfolding consume_scored_def consume_failure_def
  by (intro wpv_intro wpv_on_active; use assms in
    \<open>auto intro: same_evaluation_step dest: consume_rollout_stage consume_failed_stage\<close>)+

lemma wpv_persist_child:
  assumes "wpv H f (\<lambda>_. same_evaluation v) v'"
  shows "wpv H (steps [f, persist_phase e status reason metadata]) (\<lambda>_. same_evaluation v) v'"
  by (intro wpv_intro wpv_mono [OF assms])

lemma wpv_consume_outcome:
  assumes "\<And>p. outcome \<noteq> ProposerDone p"
  shows "wpv H (consume_outcome e job outcome) (\<lambda>_. same_evaluation v) v"
proof (cases outcome)
  case (RolloutBatchDone outcomes failures)
  have "wpv H (for_each f xs) (\<lambda>_. same_evaluation v) v'"
    if "same_evaluation v v'" "\<And>x v'. same_evaluation v v' \<Longrightarrow> wpv H (f x) (\<lambda>_. same_evaluation v) v'"
    for f :: "'x \<Rightarrow> unit driver_step" and xs v'
    by (rule wpv_for_each [where I = "same_evaluation v"]) (use that in auto)
  note loop = this
  show ?thesis
    unfolding RolloutBatchDone consume_outcome_def stored_runtime_outcome.case
    by (intro wpv_steps wpv_mono [OF loop] wpv_persist_child wpv_consume_child same_evaluation_refl)
qed (use assms in \<open>auto simp: consume_outcome_def intro: wpv_consume_child same_evaluation_refl\<close>)

lemma wpv_consume_proposer_outcome:
  assumes "v_state v = StProposing" "Q () (v\<lparr>v_active := None, v_phase := PhProposerWaiting, v_state := StRolloutQueueing\<rparr>)"
  shows "wpv H (consume_proposer_outcome e p) Q v"
proof -
  have totals: "wpv H (update_step (\<lambda>d. d\<lparr>dr_total_usage := f d, dr_total_cost := g d, dr_usage_ledger := k d\<rparr>)) Q v"
    if "Q () v" for f g k Q v
    by (rule wpv_quiet) (use that in \<open>auto simp: quiet_def view_of_def\<close>)
  have queued: "wpv H (update_step (\<lambda>d. d\<lparr>dr_proposal_queue := xs, dr_proposal_index := 0,
      dr_parent_candidate_id := i, dr_phase := PhProposerWaiting\<rparr>)) Q v"
    if "Q () (v\<lparr>v_phase := PhProposerWaiting\<rparr>)" for xs i Q v
    by (rule wpv_quiet) (use that in \<open>auto simp: quiet_def view_of_def\<close>)
  show ?thesis
    unfolding consume_proposer_outcome_def
    by (intro wpv_intro totals queued) (use assms in simp_all)
qed

definition outcome_fits :: "gepa_driver \<Rightarrow> stored_runtime_outcome \<Rightarrow> bool" where
  "outcome_fits d outcome \<longleftrightarrow> (evaluating_stage ''proposer'' d \<longleftrightarrow> (case outcome of ProposerDone _ \<Rightarrow> True | _ \<Rightarrow> False))"

lemma wpv_consume_completed_runtime_job:
  assumes "coherent v" "v_pending v" "stage_of v = Some ''proposer'' \<longleftrightarrow> (\<exists>p. outcome = ProposerDone p)"
  shows "wpv H (consume_completed_runtime_job e job outcome) (\<lambda>_. coherent) v"
proof -
  have forget: "wpv H (update_step (\<lambda>d. d\<lparr>dr_active_evaluation := map_option f (dr_active_evaluation d)\<rparr>)) Q v"
    if "Q () (v\<lparr>v_active := map_option f (v_active v)\<rparr>)" for f Q v
    by (rule wpv_quiet) (use that in \<open>auto simp: quiet_def view_of_def\<close>)
  show ?thesis
  proof (cases "\<exists>p. outcome = ProposerDone p")
    case True
    with assms have v: "v_phase v = PhProposerWaiting" "v_state v = StProposing" "v_ids v \<noteq> []"
      by (cases "v_phase v"; auto simp: coherent_simps split: if_splits)+
    obtain p where "outcome = ProposerDone p"
      using True by blast
    then show ?thesis
      unfolding consume_completed_runtime_job_def consume_outcome_def
      by (simp only: stored_runtime_outcome.case, intro wpv_intro wpv_consume_proposer_outcome forget)
        (use v in \<open>auto simp: coherent_simps\<close>)
  next
    case False
    then have consumed: "wpv H (consume_outcome e job outcome) (\<lambda>_. same_evaluation v) v"
      by (intro wpv_consume_outcome) auto
    have settled: "coherent (v'\<lparr>v_pending := False, v_active := map_option f (v_active v')\<rparr>)"
      if same: "same_evaluation v v'" and f: "\<And>a. ae_stage (f a) = ae_stage a" for v' and f
    proof -
      obtain x where x: "v' = v\<lparr>v_active := x\<rparr>" "map_option ae_stage x = stage_of v"
        using same by (auto simp: same_evaluation_def stage_of_def)
      then have "x = None \<longleftrightarrow> v_active v = None"
        by (auto simp: stage_of_def)
      with x f assms False show ?thesis
        by (cases "v_phase v") (auto simp: coherent_simps split: if_splits)
    qed
    show ?thesis
      unfolding consume_completed_runtime_job_def
      by (rule wpv_and_then, rule wpv_steps(2), rule wpv_mono [OF consumed], intro wpv_intro forget)
        (simp add: settled)
  qed
qed

lemma wpv_consume_failed_runtime_job:
  assumes "coherent v" "v_pending v"
  shows "wpv H (consume_failed_runtime_job e job) (\<lambda>_. coherent) v"
proof -
  have v: "\<not> is_terminal (v_state v)" "v_ids v \<noteq> []"
    using assms by (cases "v_phase v"; auto simp: coherent_simps is_terminal_def split: if_splits)+
  show ?thesis
    unfolding consume_failed_runtime_job_def
    by (intro wpv_intro) (use v in \<open>auto simp: coherent_simps\<close>)
qed

subsection \<open>Runs\<close>

inductive driver_moves :: "driver_env \<Rightarrow> gepa_driver \<Rightarrow> gepa_driver \<Rightarrow> bool" for e where
  advances: "\<not> phase_terminal (dr_phase d) \<Longrightarrow> dr_pending_job_id d = None \<Longrightarrow>
    advance_gepa_sync_serial_once e d = Some (d', Inr out) \<Longrightarrow> driver_moves e d d'"
| completed: "dr_pending_job_id d = Some (oj_job_id job) \<Longrightarrow> outcome_fits d outcome \<Longrightarrow>
    consume_completed_runtime_job e job outcome d = Some (d', Inr out) \<Longrightarrow> driver_moves e d d'"
| failed: "dr_pending_job_id d = Some (oj_job_id job) \<Longrightarrow>
    consume_failed_runtime_job e job d = Some (d', Inr out) \<Longrightarrow> driver_moves e d d'"
| works: "driver_moves e d (d\<lparr>dr_workspace := w\<rparr>)"

definition driver_start :: "gepa_driver \<Rightarrow> bool" where
  "driver_start d \<longleftrightarrow> dr_phase d = PhInitializing \<and> sm_state (dr_state_machine d) = StReady \<and> dr_candidates d = [] \<and>
     dr_best_idx d = None \<and> dr_identities d = candidate_identity_set_default \<and> dr_active_evaluation d = None \<and>
     dr_pending_job_id d = None"

inductive driver_reach :: "driver_env \<Rightarrow> gepa_driver \<Rightarrow> bool" for e where
  starts: "driver_start d \<Longrightarrow> driver_reach e d"
| moves: "driver_reach e d \<Longrightarrow> driver_moves e d d' \<Longrightarrow> driver_reach e d'"

text \<open>The held-out rewards that the evaluation in progress has earned.\<close>

definition earned :: "gepa_driver \<Rightarrow> (string \<times> f64) set" where
  "earned d = (case dr_active_evaluation d of None \<Rightarrow> {}
     | Some a \<Rightarrow> if ae_stage a = ''heldout'' then covered (map ca_candidate_id (dr_candidates d)) (set (evaluations_of a)) else {})"

lemma wpv_advance:
  assumes "coherent v" "\<not> phase_terminal (v_phase v)" "\<not> v_pending v" "\<And>a. v_active v = Some a \<Longrightarrow> may_reward H v a"
  shows "wpv H (advance_gepa_sync_serial_once e) (\<lambda>_. coherent) v"
proof -
  have fin: "wpv H (finalize_completed_gepa_run e) (\<lambda>_. coherent) v" if "v_phase v = PhFinalizing"
    by (rule wpv_finalize_completed_gepa_run) (use assms(1) that in \<open>auto simp: coherent_simps\<close>)
  have "wpv H (advance_phase e (v_phase v)) (\<lambda>_. coherent) v"
    using assms fin
    by (cases "v_phase v") (auto simp: phase_terminal_def intro: wpv_advance_initializing wpv_advance_seed
      wpv_advance_generation_start wpv_advance_proposer_waiting wpv_advance_candidates wpv_advance_heldout wpv_simple)
  then show ?thesis
    unfolding advance_gepa_sync_serial_once_def by (intro wpv_with_state) simp
qed

lemma driver_moves_safe:
  assumes "driver_moves e d d'" "coherent (view_of d)" "indices_ok d"
  shows "coherent (view_of d') \<and> safe (heldout_rewards d \<union> earned d) d'"
proof -
  let ?H = "heldout_rewards d \<union> earned d"
  have safe: "safe ?H d"
    using assms(3) by (simp add: safe_def)
  have reward: "may_reward ?H (view_of d) a" if "v_active (view_of d) = Some a" for a
    using that by (auto simp: may_reward_def earned_def)
  show ?thesis
    using assms(1)
  proof cases
    case (advances out)
    then show ?thesis
      using wpvD [OF wpv_advance safe, of e d' out] assms(2) reward by simp
  next
    case (completed job outcome out)
    have "stage_of (view_of d) = Some ''proposer'' \<longleftrightarrow> (\<exists>p. outcome = ProposerDone p)"
      using completed(2) by (cases outcome) (auto simp: outcome_fits_def evaluating_stage_iff stage_of_def)
    then show ?thesis
      using wpvD [OF wpv_consume_completed_runtime_job safe, of outcome e job d' out] completed assms(2) by simp
  next
    case (failed job out)
    then show ?thesis
      using wpvD [OF wpv_consume_failed_runtime_job safe, of e job d' out] assms(2) by simp
  next
    case works
    then show ?thesis
      using assms(2) safe by (simp add: safe_def indices_ok_def heldout_rewards_def view_of_def)
  qed
qed

lemma driver_reach_coherent: "driver_reach e d \<Longrightarrow> coherent (view_of d) \<and> indices_ok d"
proof (induction rule: driver_reach.induct)
  case (starts d)
  then show ?case
    by (simp add: driver_start_def coherent_simps indices_ok_def candidate_identity_set_default_def)
next
  case (moves d d')
  then show ?case
    using driver_moves_safe [of e d d'] by (simp add: safe_def)
qed

subsection \<open>Finalizing always ends the run\<close>

text \<open>Steps that cannot fail.\<close>

definition total_on :: "'a driver_step \<Rightarrow> driver_view \<Rightarrow> bool" where
  "total_on f v \<longleftrightarrow> (\<forall>s. view_of s = v \<longrightarrow> indices_ok s \<longrightarrow> (\<exists>s' x. f s = Some (s', Inr x)))"

lemma total_bind:
  assumes "total_on f v" "wpv UNIV f (\<lambda>x v'. total_on (g x) v') v"
  shows "total_on (bind_step f g) v"
  unfolding total_on_def
proof (intro allI impI)
  fix s assume s: "view_of s = v" "indices_ok s"
  then have safe: "safe UNIV s"
    by (simp add: safe_def)
  obtain s' x where f: "f s = Some (s', Inr x)"
    using assms(1) s by (auto simp: total_on_def)
  have "safe UNIV s'" "total_on (g x) (view_of s')"
    using wpvD [OF assms(2) [folded s(1)] safe f] by simp_all
  with f show "\<exists>s' x. bind_step f g s = Some (s', Inr x)"
    by (auto simp: bind_step_def total_on_def safe_def)
qed

lemma total_and_then: "total_on f v \<Longrightarrow> wpv UNIV f (\<lambda>_ v'. total_on g v') v \<Longrightarrow> total_on (and_then f g) v"
  by (simp add: and_then_def total_bind)

lemma total_simple:
  "total_on (return_step x) v" "total_on (update_step f) v"
  "opt \<noteq> None \<Longrightarrow> total_on (expect_step opt) v"
  "(b \<Longrightarrow> total_on g v) \<Longrightarrow> total_on (when_step b g) v"
  "(\<And>d. view_of d = v \<Longrightarrow> indices_ok d \<Longrightarrow> total_on (k d) v) \<Longrightarrow> total_on (with_state k) v"
  by (auto simp: total_on_def return_step_def update_step_def expect_step_def when_step_def with_state_def)

lemma total_steps:
  "total_on (steps []) v"
  "total_on f v \<Longrightarrow> wpv UNIV f (\<lambda>_ v'. total_on (steps fs) v') v \<Longrightarrow> total_on (steps (f # fs)) v"
  by (simp_all add: total_simple total_and_then)

lemma total_transition_run:
  assumes "is_valid_transition (v_state v) to trigger"
  shows "total_on (transition_run e to trigger message details) v"
  using assms by (auto simp: total_on_def transition_run_def bind_step_def run_op_def transition_def Let_def and_then_def
      emit_def update_step_def return_step_def split: prod.split)

lemma total_writers:
  "total_on (emit event_type) v" "total_on (settle_identities e) v" "total_on (snapshot_stopper e snapshot) v"
  "total_on (record_checkpoint_snapshot e request) v" "total_on clear_pending v"
  "total_on (save_cursor e cursor phase status reason metadata) v"
  "total_on (persist_gepa_run_state e phase status reason metadata) v"
  "total_on (terminalized e status message) v"
  unfolding emit_def settle_identities_def snapshot_stopper_def record_checkpoint_snapshot_def clear_pending_def
    persist_gepa_run_state_def save_cursor_def terminalized_def
  by (rule total_simple)+

lemmas total_intro = total_bind total_and_then total_simple total_steps total_writers

lemma total_terminalize:
  assumes "\<not> is_terminal (v_state v)"
  shows "total_on (terminalize_gepa_run_state e phase status message error_summary) v"
  unfolding terminalize_gepa_run_state_def Let_def
  by (intro total_intro wpv_intro total_transition_run)
    (use assms in \<open>auto simp: is_valid_transition_def intro!: total_intro wpv_intro\<close>)

lemma total_conclude:
  assumes "v_state v \<in> {StReady, StEvaluating}"
  shows "total_on (conclude_gepa_run e best) v"
proof -
  have "total_on (case opt of None \<Rightarrow> f | Some x \<Rightarrow> g x) v" if "total_on f v" "\<And>x. total_on (g x) v" for opt f g v
    using that by (cases opt) simp_all
  note split = this
  have "is_valid_transition (v_state v) StCompleted RunCompleted" "\<not> is_terminal (v_state v)"
    using assms by (auto simp: is_valid_transition_def is_terminal_def run_edges_def)
  then show ?thesis
    unfolding conclude_gepa_run_def Let_def
    by (intro split total_intro wpv_intro total_terminalize total_transition_run; simp)
qed

text \<open>The candidate that a finished run reports.\<close>

definition reported_candidate :: "gepa_driver \<Rightarrow> candidate_record" where
  "reported_candidate d = dr_candidates d ! unwrap_or 0 (dr_best_idx d)"

text \<open>Steps that leave the registry and the best candidate alone.\<close>

definition same_best :: "gepa_driver \<Rightarrow> gepa_driver \<Rightarrow> bool" where
  "same_best s s' \<longleftrightarrow> dr_candidates s' = dr_candidates s \<and> dr_best_idx s' = dr_best_idx s"

definition keeps_best :: "'a driver_step \<Rightarrow> bool" where
  "keeps_best f \<longleftrightarrow> (\<forall>s s' x. f s = Some (s', Inr x) \<longrightarrow> same_best s s')"

lemma keeps_bind: "keeps_best f \<Longrightarrow> (\<And>x. keeps_best (g x)) \<Longrightarrow> keeps_best (bind_step f g)"
  unfolding keeps_best_def bind_step_def same_best_def
  by (auto split: option.splits sum.splits prod.splits)

lemma keeps_and_then: "keeps_best f \<Longrightarrow> keeps_best g \<Longrightarrow> keeps_best (and_then f g)"
  by (simp add: and_then_def keeps_bind)

lemma keeps_simple:
  "keeps_best (return_step x)" "quiet k \<Longrightarrow> keeps_best (update_step k)"
  "keeps_best g \<Longrightarrow> keeps_best (when_step b g)" "(\<And>d. keeps_best (m d)) \<Longrightarrow> keeps_best (with_state m)"
  by (auto simp: keeps_best_def quiet_def same_best_def return_step_def update_step_def when_step_def with_state_def)

lemma keeps_steps:
  "keeps_best (steps [])" "keeps_best g \<Longrightarrow> keeps_best (steps fs) \<Longrightarrow> keeps_best (steps (g # fs))"
  by (simp_all add: keeps_and_then keeps_simple)

lemma quiet_writers:
  "quiet (\<lambda>d. d\<lparr>dr_events := f d\<rparr>)" "quiet (\<lambda>d. d\<lparr>dr_registry := f' d\<rparr>)"
  "quiet (\<lambda>d. d\<lparr>dr_transitions := l d\<rparr>)" "quiet (\<lambda>d. d\<lparr>dr_state_history := sh d\<rparr>)"
  by (simp_all add: quiet_def)

lemma keeps_writers:
  "keeps_best (emit event_type)" "keeps_best (snapshot_stopper e snapshot)"
  "keeps_best (record_checkpoint_snapshot e request)" "keeps_best clear_pending"
  "keeps_best (save_cursor e cursor phase status reason metadata)"
  "keeps_best (persist_gepa_run_state e phase status reason metadata)"
  "keeps_best (terminalized e status message)" "keeps_best (transition_run e to trigger message details)"
  unfolding emit_def snapshot_stopper_def record_checkpoint_snapshot_def clear_pending_def
    persist_gepa_run_state_def save_cursor_def terminalized_def transition_run_def
  by (intro keeps_simple keeps_bind keeps_steps quiet_writers;
      auto simp: quiet_def Let_def keeps_best_def same_best_def run_op_def transition_def split: prod.splits if_splits)+

text \<open>Settling the identities a second time changes nothing of the choice.\<close>

definition settled :: "driver_env \<Rightarrow> gepa_driver \<Rightarrow> bool" where
  "settled e s \<longleftrightarrow> snd (settle_run_identities (de_gepa e) (dr_identities s, dr_best_idx s)) = dr_best_idx s"

lemma settle_idempotent:
  assumes "settle_run_identities g (ids, b) = (ids', b')"
  shows "snd (settle_run_identities g (ids', b')) = b'"
proof -
  have "ids' = apply_deployment_rule (gc_deployment_rule g) (freeze_optimization_selected b ids)"
    "b' = or_else (best_idx_alias ids') b"
    using assms by (auto simp: settle_run_identities_def Let_def)
  then show ?thesis
    by (cases "is_optimization_selected_idx ids"; cases "is_heldout_best_idx ids"; cases b)
      (simp_all add: settle_run_identities_def freeze_optimization_selected_def apply_deployment_rule_def
        resolve_deployment_idx_def best_idx_alias_def Let_def)
qed

lemma settle_identities_settles:
  assumes "settle_identities e s = Some (s', Inr x)"
  shows "settled e s'" "dr_candidates s' = dr_candidates s"
proof -
  obtain ids b where "settle_run_identities (de_gepa e) (dr_identities s, dr_best_idx s) = (ids, b)"
    by fastforce
  then show "settled e s'" "dr_candidates s' = dr_candidates s"
    using assms settle_idempotent [of "de_gepa e" "dr_identities s" "dr_best_idx s" ids b]
    by (auto simp: settle_identities_def update_step_def settled_def)
qed

lemma settled_prefix:
  assumes "settled e s" "keeps_best (steps fs)" "steps (settle_identities e # fs) s = Some (s', Inr x)"
  shows "same_best s s'"
proof -
  obtain ids b where settle: "settle_run_identities (de_gepa e) (dr_identities s, dr_best_idx s) = (ids, b)"
    by fastforce
  have "settle_identities e s = Some (s\<lparr>dr_identities := ids, dr_best_idx := b\<rparr>, Inr ())" "b = dr_best_idx s"
    using settle assms(1) by (simp_all add: settle_identities_def update_step_def settled_def)
  then have "steps fs (s\<lparr>dr_identities := ids, dr_best_idx := b\<rparr>) = Some (s', Inr x)" "b = dr_best_idx s"
    using assms(3) by (simp_all add: and_then_def bind_step_def)
  then show ?thesis
    using assms(2) by (fastforce simp: keeps_best_def same_best_def)
qed

lemma terminalize_same_best:
  assumes "settled e s" "terminalize_gepa_run_state e phase status message error_summary s = Some (s', Inr x)"
  shows "same_best s s'"
  by (rule settled_prefix [OF assms(1) _ assms(2) [unfolded terminalize_gepa_run_state_def Let_def]])
    (intro keeps_simple keeps_steps keeps_writers)

lemma conclude_same_best:
  assumes "settled e s" "conclude_gepa_run e best s = Some (s', Inr out)"
  shows "same_best s s'"
proof (cases "ca_heldout_reward best")
  case None
  have "same_best s s'" if "and_then (with_state (\<lambda>d. terminalize_gepa_run_state e phase status message (k d)))
      (terminalized e st m) s = Some (s', Inr out)" for phase status message k st m
    using that terminalize_same_best [OF assms(1)]
    by (auto simp: and_then_def bind_step_def with_state_def terminalized_def return_step_def
        split: option.splits sum.splits prod.splits)
  then show ?thesis
    using assms(2) by (simp add: conclude_gepa_run_def None Let_def)
next
  case (Some r)
  have "keeps_best (conclude_gepa_run e best)"
    unfolding conclude_gepa_run_def Some option.case Let_def
    by (intro keeps_and_then keeps_simple keeps_steps keeps_writers quiet_writers)
  then show ?thesis
    using assms(2) by (simp add: keeps_best_def)
qed

lemma finalize_ends:
  assumes "v_state (view_of d) \<in> {StReady, StEvaluating}" "idle (view_of d)" "indices_ok d"
  shows "\<exists>d' out. finalize_completed_gepa_run e d = Some (d', Inr out) \<and> ao_terminal out \<and> coherent (view_of d') \<and>
    dr_phase d' = (if ca_heldout_reward (reported_candidate d') = None then PhFailed else PhCompleted)"
proof -
  have d: "safe UNIV d"
    using assms(3) by (simp add: safe_def)
  obtain s where s: "settle_identities e d = Some (s, Inr ())"
    by (auto simp: settle_identities_def update_step_def)
  have view: "view_of s = view_of d" and s_safe: "safe UNIV s"
    using wpvD [OF wpv_settle_identities [where Q = "\<lambda>_ v. v = view_of d"] d s] by simp_all
  let ?best = "reported_candidate s"
  have "length (dr_candidates s) \<noteq> 0" "in_range (length (dr_candidates s)) (dr_best_idx s)"
    using view_length [OF view] assms(2) s_safe by (simp_all add: idle_def safe_def indices_ok_def)
  then have best: "nth_opt (dr_candidates s) (unwrap_or 0 (dr_best_idx s)) = Some ?best"
    by (cases "dr_best_idx s") (simp_all add: nth_opt_def reported_candidate_def)
  obtain d' out where d': "conclude_gepa_run e ?best s = Some (d', Inr out)"
    using total_conclude [OF assms(1), of e ?best] view s_safe by (auto simp: total_on_def safe_def)
  have "same_best s d'"
    using conclude_same_best [OF settle_identities_settles(1) [OF s] d'] .
  then have "reported_candidate d' = ?best"
    by (simp add: same_best_def reported_candidate_def)
  moreover have "ao_terminal out \<and> coherent (view_of d') \<and>
      v_phase (view_of d') = (if ca_heldout_reward ?best = None then PhFailed else PhCompleted)"
    using wpvD(2) [OF wpv_conclude_gepa_run s_safe d'] assms(1,2) view by simp
  moreover have "finalize_completed_gepa_run e d = Some (d', Inr out)"
    by (simp add: finalize_completed_gepa_run_def and_then_def bind_step_def with_state_def s best expect_step_def d')
  ultimately show ?thesis
    by auto
qed

subsection \<open>Properties\<close>

text \<open>
  C0. Between two steps of the driver the phase, the state of the run and the evaluation in progress fit together
  (\<open>phase_allows\<close>), there is a seed from the first phase on, and the indices of the run are within the registry.
\<close>
theorem driver_stays_coherent:
  assumes "driver_reach e d"
  shows "phase_allows (dr_phase d) (view_of d) \<and> dr_phase d \<noteq> PhPaused \<and> (dr_phase d \<noteq> PhInitializing \<longrightarrow> dr_candidates d \<noteq> []) \<and>
    (phase_terminal (dr_phase d) \<longleftrightarrow> is_terminal (sm_state (dr_state_machine d))) \<and> indices_ok d"
  using driver_reach_coherent [OF assms]
  by (cases "dr_phase d") (auto simp: coherent_def phase_terminal_def is_terminal_def split: if_splits)

text \<open>
  C0. In the phase \<open>finalizing\<close> the next step of a run neither fails nor panics and ends the run: it is completed
  if the candidate that it reports has a held-out reward, and failed otherwise.
\<close>
theorem finalizing_ends_run:
  assumes "driver_reach e d" "dr_phase d = PhFinalizing"
  shows "\<exists>d' out. advance_gepa_sync_serial_once e d = Some (d', Inr out) \<and> ao_terminal out \<and>
    (if ca_heldout_reward (reported_candidate d') = None
     then dr_phase d' = PhFailed \<and> sm_state (dr_state_machine d') = StFailed
     else dr_phase d' = PhCompleted \<and> sm_state (dr_state_machine d') = StCompleted)"
proof -
  have "coherent (view_of d)" "indices_ok d"
    using driver_reach_coherent [OF assms(1)] by simp_all
  with assms(2) obtain d' out where d': "finalize_completed_gepa_run e d = Some (d', Inr out)" "ao_terminal out"
      "coherent (view_of d')"
      "dr_phase d' = (if ca_heldout_reward (reported_candidate d') = None then PhFailed else PhCompleted)"
    using finalize_ends [of d e] by (auto simp: coherent_simps)
  with assms(2) show ?thesis
    by (intro exI [of _ d'] exI [of _ out])
      (auto simp: advance_gepa_sync_serial_once_def with_state_def coherent_def split: if_splits)
qed

text \<open>
  C0. A candidate gets a held-out reward only from the held-out evaluation in progress, and only if every row of
  the candidate's evaluation has been scored and none failed: the reward is the average of the scores.
\<close>
theorem heldout_reward_needs_full_coverage:
  assumes "driver_reach e d" "driver_moves e d d'" "c \<in> set (dr_candidates d')" "ca_heldout_reward c = Some r"
  shows "(\<exists>c0 \<in> set (dr_candidates d). ca_candidate_id c0 = ca_candidate_id c \<and> ca_heldout_reward c0 = Some r) \<or>
    (\<exists>a i eval. dr_active_evaluation d = Some a \<and> ae_stage a = ''heldout'' \<and> (i, eval) \<in> set (evaluations_of a) \<and>
       i < length (dr_candidates d) \<and> ca_candidate_id c = ca_candidate_id (dr_candidates d ! i) \<and>
       r = ev_average_reward eval \<and> ev_failed_attempts eval = [] \<and>
       ev_rollout_count eval = effective_required_rollout_count eval)"
proof -
  have "safe (heldout_rewards d \<union> earned d) d'"
    using driver_moves_safe [OF assms(2)] driver_reach_coherent [OF assms(1)] by simp
  then have "(ca_candidate_id c, r) \<in> heldout_rewards d \<union> earned d"
    using assms(3,4) by (auto simp: safe_def heldout_rewards_def)
  then show ?thesis
    by (fastforce simp: heldout_rewards_def earned_def covered_def fully_scored_def split: option.splits if_splits)
qed

end
