(* ===== verification/Spec2Isabelle.thy ===== *)
theory Spec2Isabelle
  imports Run_State_Machine Gepa_Machines Effect_Admission Config_Validation Candidate_Frontier Minibatch_Sampler
    Score_Decision Rollout_Planning Gepa_Pipeline Leakage Usage_Stoppers Request_Cache
    Candidate_Identities Candidate_Admission Checkpoint_Store Heldout_Phase
    Rollout_Dispatch Driver_Runs
begin

text \<open>
  Verification of the optimizer platform (\<open>src/rust/crates/synth_optimizer_platform\<close>, below "platform")
  and of the GEPA optimizer (\<open>src/rust/crates/synth_gepa\<close>).

  The program. A GEPA run searches for a better prompt. It keeps a registry of candidates; a proposer
  writes new candidates from a parent, which are evaluated on minibatches of tasks, then on the training
  rows and, for the best, on held-out rows. Evaluations and proposals are runtime effects: they are
  planned as jobs in a workspace database, admitted against the limits of the run, executed by workers
  under leases, and their outcomes are folded into the state of the run. The run itself, every candidate,
  rollout and proposer round is a state machine whose transitions are logged.

  Theories and the code they model.
  \<^item> \<open>Prelude\<close>, \<open>Rust_Strings\<close>, \<open>Btree_Map\<close>, \<open>F64\<close>, \<open>F64_Exact\<close>: the parts of the Rust standard
    library that the sources call: machine integers, options, byte strings, ordered maps, binary64.
  \<^item> \<open>Json\<close>: \<open>serde_json\<close> values, and the key sorting, cache normalisation and content hashes of
    \<open>cache.rs\<close>.
  \<^item> \<open>Keyed_Table\<close>: the three ways in which \<open>workspace.rs\<close> writes a table; the locale \<open>row_store\<close> is
    what clients of a table rely on.
  \<^item> \<open>Machine_Interface\<close>: the locales \<open>guarded_machine\<close> and \<open>named_machine\<close> that every state machine
    instantiates.
  \<^item> \<open>Optimizer_Error\<close>: \<open>error.rs\<close>, \<open>failures.rs\<close>.
  \<^item> \<open>Run_State_Machine\<close>: \<open>state_machine.rs\<close>. \<open>Transition_Log\<close>: \<open>fsm.rs\<close>. \<open>Gepa_Machines\<close>:
    \<open>machines.rs\<close> and the functions of \<open>lib.rs\<close> (of the GEPA crate, as everywhere below) that record
    the transitions of candidates, rollouts and proposer rounds.
  \<^item> \<open>Run_Limits\<close>: \<open>limits.rs\<close>. \<open>Job_Payload\<close>: the compaction of job payloads (\<open>lib.rs\<close>).
    \<open>Job_Store\<close>: \<open>jobs.rs\<close> and the job queue of \<open>workspace.rs\<close>. \<open>Effect_Admission\<close>: the budget and
    effect tables of \<open>workspace.rs\<close>, the records of \<open>runtime_records.rs\<close>, and the planning, completion
    and failure of runtime effects (\<open>lib.rs\<close>, \<open>runtime.rs\<close>).
  \<^item> \<open>Gepa_Config\<close>, \<open>Config_Validation\<close>: the search sections of \<open>config.rs\<close>, their validators and
    \<open>configured_limits.rs\<close>.
  \<^item> \<open>Score_Vectors\<close>: \<open>scores.rs\<close>, with the frames of \<open>sensors.rs\<close>. \<open>Candidate_Frontier\<close>,
    \<open>Minibatch_Sampler\<close>, \<open>Score_Decision\<close>: frontier, parent selection, sampling, acceptance and the
    selection of best candidates (\<open>lib.rs\<close>).
  \<^item> \<open>Active_Evaluation\<close>, \<open>Rollout_Planning\<close>: the evaluation in progress, its chunks, and the folding of
    outcomes (\<open>lib.rs\<close>, records of \<open>planner.rs\<close>).
  \<^item> \<open>Gepa_Pipeline\<close>: \<open>pipeline.rs\<close>, the lane state of \<open>planner.rs\<close>, adaptive concurrency, stage
    workers, provider signals and the circuit breaker (\<open>lib.rs\<close>).
  \<^item> \<open>Leakage\<close>: \<open>leakage.rs\<close> and the screening of proposed candidates. \<open>Usage_Stoppers\<close>: \<open>usage.rs\<close>,
    \<open>stopper.rs\<close>, budgets and stop conditions (\<open>lib.rs\<close>).
  \<^item> \<open>Request_Cache\<close>: the store of \<open>cache.rs\<close>. \<open>Candidate_Identities\<close>: \<open>identities.rs\<close>, with the way of
    the identities through a checkpoint (\<open>lib.rs\<close>).
  \<^item> \<open>Candidate_Admission\<close>: \<open>prompt_program.rs\<close>, \<open>levers.rs\<close>, and the reading of proposals, their
    admission and the declared objectives (\<open>lib.rs\<close>). \<open>Checkpoint_Store\<close>: \<open>checkpoints.rs\<close>, its table in
    \<open>workspace.rs\<close>, and the cursor a run starts from (\<open>lib.rs\<close>).
  \<^item> \<open>Rollout_Dispatch\<close>: the requests, key, budget and payload of a planned rollout batch (\<open>lib.rs\<close>,
    \<open>runtime.rs\<close>). \<open>Heldout_Phase\<close>: which candidates are evaluated on the held-out rows (\<open>lib.rs\<close>).

  State and operations. A Rust struct is a record with prefixed field names, an enum a datatype, a
  \<open>Result\<close> a sum with the error on the left; an operation on a mutable state takes the state and returns
  it. A database table is a list of rows under a key. \<open>None\<close> as the value of an operation is a panic.

  What the lemmas show.
  \<^item> State machines: histories and logs are paths of the guards, and final states are final.
  \<^item> Job queue: a claim excludes others until its lease expires, recovery is one update of the expired
    leases, attempts stay within the retry policy.
  \<^item> Budgets: what is admitted stays within the limits, a refused plan reserves nothing, completion
    settles the reservation; exhaustion is the point from which nothing is admitted.
  \<^item> Selection: the frontier covers the candidates, parents are valid, minibatches are samples without
    repetition, score vectors are complete, acceptance and best candidates are what the criteria say.
  \<^item> Evaluation: a plan is the first pending rows, and planning and folding bring every group to its end;
    held-out promotion requires a score for every row.
  \<^item> Pipeline and stopping: the adaptive limit stays in its bounds and recovers, the breaker and the cost
    stop trip exactly when they should, a run that stops for want of improvement has not improved, and a
    candidate that passes the leakage screening contains no training text.
  \<^item> Cache and identities: a cached response is found under every equivalent request and comes back
    unchanged, what is stored has its secrets redacted, the counters agree with the log; a frozen
    selection is never replaced and survives a checkpoint.
  \<^item> Proposals and checkpoints: every candidate assigns declared fields only, whatever its proposer
    returned; all shapes of a proposal read alike; the selecting objective is always scored; the last
    checkpoint of a kind is read back whole, although earlier ones are compacted.

  Parameters. Text serialisation of JSON and SHA-256 (\<open>hashing\<close>, \<open>json_codec\<close>), the clock, the duration
  between two time stamps and SQLite's sum of reals (\<open>runtime_env\<close>), the reading of JSON texts (\<open>cv_from_str\<close>) and the
  sizes of files (\<open>file_sizes\<close>) are arguments; the theorems assume of them at most what they say.

  Bounds and fuel. No definition takes fuel. Words have the width of the source; a \<open>usize\<close> has 64 bits.
  The loop of the stratified sampler is a \<open>while_option\<close> that is shown to end; indices and lengths of
  vectors are naturals.

  Not modelled. Processes, sandboxes, HTTP, file locks, event streams, the service around the driver and
  the Python bindings are I/O. The tables of the workspace database that only store plain data, and the
  data types of \<open>candidates.rs\<close>, \<open>data_models.rs\<close> and \<open>rollouts.rs\<close> behind them, have no behaviour of
  their own. The MAPO and MARL crates are separate optimizers. Of the driver (\<open>lib.rs\<close>) the phases that
  tie the modelled operations together, and the reading of responses, are not modelled yet.
\<close>

end
